(* ===== verification/Prelude.thy ===== *)
theory Prelude
  imports Main
begin

text \<open>
  What the component theories share: the Python exceptions as a datatype, the state and
  exception monad in which the services are written, the few string functions the error
  messages use, and the rule collections the proofs apply.

  A method of a service becomes a value of type \<open>('s, 'a) prog\<close>: it takes the state, and
  returns either an exception or a value, together with the state as it was left. An
  exception does not undo the changes made before it was raised, as in Python; undoing is
  the work of the session's \<open>rollback\<close>.
\<close>

named_theorems prog_simps \<open>evaluation of the monad on known outcomes\<close>
named_theorems step_defs \<open>definitions of the operations of a component, unfolded together\<close>

section \<open>Exceptions\<close>

datatype exn =
    TypeError string
  | ValueError string
  | LookupError string
  | KeyError string
  | PermissionError string
  | RuntimeError string
  | FileNotFoundError string
  | DatabaseError string
  | StaleDataError string
  | ConcurrentModificationError string
  | UnsupportedOperationError string
  | TransientError string
  | PluginDependencyError string
  | PluginLicenseError string
  | PluginConfigurationError string
  | AdminUserUpdateError string
  | AccountTypeValidationError string
  | ValidationError string
  | EnvelopeError string
  | RowCapExceededError string
  | UserProvisioningBlocked string string int
  | OtherError string

text \<open>Python's \<open>str(exception)\<close> for an exception raised with one message.\<close>

fun exn_str :: "exn \<Rightarrow> string" where
  "exn_str (TypeError m) = m"
| "exn_str (ValueError m) = m"
| "exn_str (LookupError m) = m"
| "exn_str (KeyError m) = m"
| "exn_str (PermissionError m) = m"
| "exn_str (RuntimeError m) = m"
| "exn_str (FileNotFoundError m) = m"
| "exn_str (DatabaseError m) = m"
| "exn_str (StaleDataError m) = m"
| "exn_str (ConcurrentModificationError m) = m"
| "exn_str (UnsupportedOperationError m) = m"
| "exn_str (TransientError m) = m"
| "exn_str (PluginDependencyError m) = m"
| "exn_str (PluginLicenseError m) = m"
| "exn_str (PluginConfigurationError m) = m"
| "exn_str (AdminUserUpdateError m) = m"
| "exn_str (AccountTypeValidationError m) = m"
| "exn_str (ValidationError m) = m"
| "exn_str (EnvelopeError m) = m"
| "exn_str (RowCapExceededError m) = m"
| "exn_str (UserProvisioningBlocked m c st) = m"
| "exn_str (OtherError m) = m"

section \<open>Identifiers and rendered values\<close>

text \<open>A UUID is its canonical text, so that \<open>str(id)\<close> is the identity.\<close>

type_synonym uuid = string
type_synonym time = int

fun digit_char :: "nat \<Rightarrow> char" where
  "digit_char d = char_of (48 + d)"

fun str_nat :: "nat \<Rightarrow> string" where
  "str_nat n = (if n < 10 then [digit_char n] else str_nat (n div 10) @ [digit_char (n mod 10)])"

declare str_nat.simps [simp del]

definition str_int :: "int \<Rightarrow> string" where
  "str_int i = (if i < 0 then CHR ''-'' # str_nat (nat (- i)) else str_nat (nat i))"

text \<open>The truth value Python gives an optional string: \<open>None\<close> and \<open>''''\<close> are both false.\<close>

fun truthy :: "string option \<Rightarrow> bool" where
  "truthy None = False"
| "truthy (Some s) = (s \<noteq> [])"

text \<open>Python's \<open>a or b\<close> on an optional string.\<close>

fun str_or :: "string option \<Rightarrow> string \<Rightarrow> string" where
  "str_or None d = d"
| "str_or (Some s) d = (if s = [] then d else s)"

section \<open>The state and exception monad\<close>

type_synonym ('s, 'a) prog = "'s \<Rightarrow> (exn + 'a) \<times> 's"

definition ret :: "'a \<Rightarrow> ('s, 'a) prog" where
  "ret x s = (Inr x, s)"

definition raise :: "exn \<Rightarrow> ('s, 'a) prog" where
  "raise e s = (Inl e, s)"

definition of_sum :: "exn + 'a \<Rightarrow> ('s, 'a) prog" where
  "of_sum r = (case r of Inl e \<Rightarrow> raise e | Inr x \<Rightarrow> ret x)"

definition gets :: "('s \<Rightarrow> 'a) \<Rightarrow> ('s, 'a) prog" where
  "gets f s = (Inr (f s), s)"

definition modify :: "('s \<Rightarrow> 's) \<Rightarrow> ('s, unit) prog" where
  "modify f s = (Inr (), f s)"

definition bindP :: "('s, 'a) prog \<Rightarrow> ('a \<Rightarrow> ('s, 'b) prog) \<Rightarrow> ('s, 'b) prog" where
  "bindP m f s = (case m s of (Inl e, s') \<Rightarrow> (Inl e, s') | (Inr x, s') \<Rightarrow> f x s')"

definition seqP :: "('s, 'a) prog \<Rightarrow> ('s, 'b) prog \<Rightarrow> ('s, 'b) prog" where
  "seqP m n = bindP m (\<lambda>_. n)"

text \<open>\<open>try: m except Exception as e: h e\<close>.\<close>

definition try_except :: "('s, 'a) prog \<Rightarrow> (exn \<Rightarrow> ('s, 'a) prog) \<Rightarrow> ('s, 'a) prog" where
  "try_except m h s = (case m s of (Inl e, s') \<Rightarrow> h e s' | (Inr x, s') \<Rightarrow> (Inr x, s'))"

definition whenP :: "bool \<Rightarrow> ('s, unit) prog \<Rightarrow> ('s, unit) prog" where
  "whenP b m = (if b then m else ret ())"

fun for_each :: "('a \<Rightarrow> ('s, unit) prog) \<Rightarrow> 'a list \<Rightarrow> ('s, unit) prog" where
  "for_each f [] = ret ()"
| "for_each f (x # xs) = seqP (f x) (for_each f xs)"

text \<open>A \<open>for\<close> loop that updates an accumulator.\<close>

fun foldP :: "('b \<Rightarrow> 'a \<Rightarrow> ('s, 'b) prog) \<Rightarrow> 'b \<Rightarrow> 'a list \<Rightarrow> ('s, 'b) prog" where
  "foldP f acc [] = ret acc"
| "foldP f acc (x # xs) = bindP (f acc x) (\<lambda>acc'. foldP f acc' xs)"

text \<open>A list comprehension whose element has effects.\<close>

fun mapP :: "('a \<Rightarrow> ('s, 'b) prog) \<Rightarrow> 'a list \<Rightarrow> ('s, 'b list) prog" where
  "mapP f [] = ret []"
| "mapP f (x # xs) = bindP (f x) (\<lambda>y. bindP (mapP f xs) (\<lambda>ys. ret (y # ys)))"

lemma foldP_step: "f acc x s = (Inr acc', t) \<Longrightarrow> foldP f acc (x # xs) s = foldP f acc' xs t"
  by (simp add: bindP_def)

lemma ret_eval [simp, prog_simps]: "ret x s = (Inr x, s)"
  by (simp add: ret_def)

lemma raise_eval [simp, prog_simps]: "raise e s = (Inl e, s)"
  by (simp add: raise_def)

lemma gets_eval [simp, prog_simps]: "gets f s = (Inr (f s), s)"
  by (simp add: gets_def)

lemma modify_eval [simp, prog_simps]: "modify f s = (Inr (), f s)"
  by (simp add: modify_def)

lemma bindP_Inr [prog_simps]: "m s = (Inr x, s') \<Longrightarrow> bindP m f s = f x s'"
  by (simp add: bindP_def)

lemma bindP_Inl [prog_simps]: "m s = (Inl e, s') \<Longrightarrow> bindP m f s = (Inl e, s')"
  by (simp add: bindP_def)

lemma bindP_ret [simp]: "bindP (ret x) f = f x"
  by (rule ext) (simp add: bindP_def ret_def)

lemma bindP_raise [simp]: "bindP (raise e) f = raise e"
  by (rule ext) (simp add: bindP_def raise_def)

lemma bindP_gets [simp]: "bindP (gets g) f s = f (g s) s"
  by (simp add: bindP_def gets_def)

lemma bindP_modify [simp]: "bindP (modify g) f s = f () (g s)"
  by (simp add: bindP_def modify_def)

lemma seqP_modify [simp]: "seqP (modify g) n s = n (g s)"
  by (simp add: seqP_def)

lemma seqP_ret [simp]: "seqP (ret x) n = n"
  by (simp add: seqP_def)

lemma seqP_assoc: "seqP (seqP a b) c = seqP a (seqP b c)"
  by (rule ext) (auto simp: seqP_def bindP_def split: prod.split sum.split)

lemma seqP_raise [simp]: "seqP (raise e) n = raise e"
  by (simp add: seqP_def)

lemma seqP_Inr [prog_simps]: "m s = (Inr x, s') \<Longrightarrow> seqP m n s = n s'"
  by (simp add: seqP_def bindP_Inr)

lemma seqP_Inl [prog_simps]: "m s = (Inl e, s') \<Longrightarrow> seqP m n s = (Inl e, s')"
  by (simp add: seqP_def bindP_Inl)

lemma try_except_Inr [prog_simps]: "m s = (Inr x, s') \<Longrightarrow> try_except m h s = (Inr x, s')"
  by (simp add: try_except_def)

lemma try_except_Inl [prog_simps]: "m s = (Inl e, s') \<Longrightarrow> try_except m h s = h e s'"
  by (simp add: try_except_def)

text \<open>Inversion: what a composed program that returned, or raised, must have done.\<close>

lemma bindP_InrE:
  assumes "bindP m f s = (Inr y, s')"
  obtains x t where "m s = (Inr x, t)" and "f x t = (Inr y, s')"
  using assms by (auto simp: bindP_def split: prod.splits sum.splits)

lemma bindP_InlE:
  assumes "bindP m f s = (Inl e, s')"
  obtains (first) "m s = (Inl e, s')"
  | (second) x t where "m s = (Inr x, t)" and "f x t = (Inl e, s')"
  using assms by (auto simp: bindP_def split: prod.splits sum.splits)

lemma seqP_InrE:
  assumes "seqP m n s = (Inr y, s')"
  obtains x t where "m s = (Inr x, t)" and "n t = (Inr y, s')"
  using assms unfolding seqP_def by (rule bindP_InrE)

lemma seqP_InlE:
  assumes "seqP m n s = (Inl e, s')"
  obtains (first) "m s = (Inl e, s')"
  | (second) x t where "m s = (Inr x, t)" and "n t = (Inl e, s')"
  using assms unfolding seqP_def by (rule bindP_InlE)

section \<open>State predicates kept by programs\<close>

text \<open>A program keeps a predicate whatever its outcome.\<close>

definition keeps :: "('s \<Rightarrow> bool) \<Rightarrow> ('s, 'a) prog \<Rightarrow> bool" where
  "keeps P m \<longleftrightarrow> (\<forall>s. P s \<longrightarrow> P (snd (m s)))"

lemma keepsI [intro?]: "(\<And>s. P s \<Longrightarrow> P (snd (m s))) \<Longrightarrow> keeps P m"
  by (simp add: keeps_def)

lemma keepsD: "keeps P m \<Longrightarrow> P s \<Longrightarrow> m s = (r, s') \<Longrightarrow> P s'"
  by (force simp: keeps_def)

lemma keeps_ret [intro]: "keeps P (ret x)"
  by (simp add: keeps_def ret_def)

lemma keeps_raise [intro]: "keeps P (raise e)"
  by (simp add: keeps_def raise_def)

lemma keeps_gets [intro]: "keeps P (gets f)"
  by (simp add: keeps_def gets_def)

lemma keeps_bindP [intro]:
  assumes "keeps P m" and "\<And>x. keeps P (f x)"
  shows "keeps P (bindP m f)"
  using assms by (auto simp: keeps_def bindP_def split: prod.splits sum.splits)

lemma keeps_seqP [intro]: "keeps P m \<Longrightarrow> keeps P n \<Longrightarrow> keeps P (seqP m n)"
  by (auto simp: seqP_def)

lemma keeps_try [intro]:
  assumes "keeps P m" and "\<And>e. keeps P (h e)"
  shows "keeps P (try_except m h)"
  using assms by (auto simp: keeps_def try_except_def split: prod.splits sum.splits)

lemma keeps_if: "(b \<Longrightarrow> keeps P m) \<Longrightarrow> (\<not> b \<Longrightarrow> keeps P n) \<Longrightarrow> keeps P (if b then m else n)"
  by simp

lemma keeps_case_option: "keeps P a \<Longrightarrow> (\<And>x. keeps P (f x)) \<Longrightarrow> keeps P (case v of None \<Rightarrow> a | Some x \<Rightarrow> f x)"
  by (simp split: option.split)

lemma keeps_case_sum: "(\<And>x. keeps P (f x)) \<Longrightarrow> (\<And>y. keeps P (h y)) \<Longrightarrow> keeps P (case v of Inl x \<Rightarrow> f x | Inr y \<Rightarrow> h y)"
  by (simp split: sum.split)

lemma keeps_case_prod: "(\<And>x y. keeps P (f x y)) \<Longrightarrow> keeps P (case v of (x, y) \<Rightarrow> f x y)"
  by (simp split: prod.split)

lemma keeps_when [intro]: "keeps P m \<Longrightarrow> keeps P (whenP b m)"
  by (auto simp: whenP_def)

lemma keeps_for_each [intro]: "(\<And>x. x \<in> set xs \<Longrightarrow> keeps P (f x)) \<Longrightarrow> keeps P (for_each f xs)"
  by (induction xs) auto

lemma keeps_foldP [intro]:
  "(\<And>acc x. x \<in> set xs \<Longrightarrow> keeps P (f acc x)) \<Longrightarrow> keeps P (foldP f acc xs)"
  by (induction xs arbitrary: acc) auto

section \<open>Programs that never raise\<close>

definition returns :: "('s, 'a) prog \<Rightarrow> bool" where
  "returns m \<longleftrightarrow> (\<forall>s. \<exists>x s'. m s = (Inr x, s'))"

lemma returnsD: "returns m \<Longrightarrow> \<exists>x s'. m s = (Inr x, s')"
  by (simp add: returns_def)

lemma returns_ret [intro]: "returns (ret x)"
  by (simp add: returns_def)

lemma returns_gets [intro]: "returns (gets f)"
  by (simp add: returns_def)

lemma returns_bindP [intro]:
  assumes "returns m" and "\<And>x. returns (f x)" shows "returns (bindP m f)"
  unfolding returns_def
proof
  fix s
  obtain x t where "m s = (Inr x, t)" using assms(1) unfolding returns_def by blast
  moreover obtain y u where "f x t = (Inr y, u)" using assms(2) [of x] unfolding returns_def by blast
  ultimately show "\<exists>x s'. bindP m f s = (Inr x, s')" by (simp add: bindP_def)
qed

lemma returns_try [intro]:
  assumes "\<And>e. returns (h e)" shows "returns (try_except m h)"
  unfolding returns_def
proof
  fix s
  obtain r t where m: "m s = (r, t)" by (cases "m s")
  show "\<exists>x s'. try_except m h s = (Inr x, s')"
  proof (cases r)
    case (Inl e)
    moreover obtain y u where "h e t = (Inr y, u)" using assms [of e] unfolding returns_def by blast
    ultimately show ?thesis using m by (simp add: try_except_def)
  next
    case (Inr x)
    with m show ?thesis by (simp add: try_except_def)
  qed
qed

lemma returns_mapP [intro]: "(\<And>x. returns (f x)) \<Longrightarrow> returns (mapP f xs)"
  by (induction xs) auto

section \<open>Operations that take effect once\<close>

text \<open>
  The contract of an idempotent operation: from a good state, returning settles the state;
  in a settled state the operation returns and changes nothing. Whoever retries such an
  operation, any number of times, ends where the first call that returned left off.
\<close>

locale once_only =
  fixes op :: "('s, 'a) prog" and good :: "'s \<Rightarrow> bool" and settled :: "'s \<Rightarrow> bool"
  assumes settles: "\<lbrakk>good s; op s = (Inr x, s')\<rbrakk> \<Longrightarrow> good s' \<and> settled s'"
    and noop: "\<lbrakk>good s; settled s\<rbrakk> \<Longrightarrow> \<exists>x. op s = (Inr x, s)"
begin

lemma again:
  assumes "good s" and "op s = (Inr x, s')"
  shows "snd (op s') = s'"
  using noop settles [OF assms] by (metis snd_conv)

lemma repeats:
  assumes "good s" and "op s = (Inr x, s')"
  shows "((\<lambda>t. snd (op t)) ^^ n) s' = s'"
  using again [OF assms] by (induction n) simp_all

end

end
