(* ===== verification/Session.thy ===== *)
theory Session
  imports Prelude
begin

text \<open>
  The unit of work the services run on: the SQLAlchemy session, the transaction helpers of
  \<open>vbwd/utils/transaction.py\<close> and \<open>BaseRepository.save\<close>.

  A session has two views of the tables: \<open>durable\<close>, what the database has committed, and
  \<open>pending\<close>, what the session's objects show, changes not yet committed included. The
  database is not under \<open>src/\<close>: whether its n-th call (a flush, a commit, a savepoint)
  succeeds or raises is decided by the parameter \<open>drv\<close>, about which nothing is assumed.
  The event bus the services publish on is recorded as the list of published events.
\<close>

section \<open>Session state\<close>

datatype payload =
    PNull
  | PStr string
  | PInt int

record 'db session =
  durable :: 'db
  pending :: 'db
  calls :: nat
  bus_log :: "(string \<times> (string \<times> payload) list) list"

type_synonym driver = "nat \<Rightarrow> exn option"

definition open_session :: "'db \<Rightarrow> 'db session" where
  "open_session d = \<lparr>durable = d, pending = d, calls = 0, bus_log = []\<rparr>"

lemma open_session_sel [simp]:
  "durable (open_session d) = d" "pending (open_session d) = d" "calls (open_session d) = 0"
  "bus_log (open_session d) = []"
  by (simp_all add: open_session_def)

definition db_call :: "driver \<Rightarrow> ('db session, unit) prog" where
  "db_call drv s =
     (let s' = s\<lparr>calls := Suc (calls s)\<rparr>
      in case drv (calls s) of None \<Rightarrow> (Inr (), s') | Some e \<Rightarrow> (Inl e, s'))"

definition flush :: "driver \<Rightarrow> ('db session, unit) prog" where
  "flush drv = db_call drv"

definition commit :: "driver \<Rightarrow> ('db session, unit) prog" where
  "commit drv = seqP (db_call drv) (modify (\<lambda>s. s\<lparr>durable := pending s\<rparr>))"

definition rollback :: "('db session, unit) prog" where
  "rollback = modify (\<lambda>s. s\<lparr>pending := durable s\<rparr>)"

definition on_db :: "('db \<Rightarrow> 'db) \<Rightarrow> ('db session, unit) prog" where
  "on_db f = modify (\<lambda>s. s\<lparr>pending := f (pending s)\<rparr>)"

definition query :: "('db \<Rightarrow> 'a) \<Rightarrow> ('db session, 'a) prog" where
  "query f = gets (\<lambda>s. f (pending s))"

definition publish :: "string \<Rightarrow> (string \<times> payload) list \<Rightarrow> ('db session, unit) prog" where
  "publish name data = modify (\<lambda>s. s\<lparr>bus_log := bus_log s @ [(name, data)]\<rparr>)"

lemmas session_defs = flush_def commit_def rollback_def on_db_def query_def publish_def

lemma db_call_cases:
  obtains (ok) "drv (calls s) = None" "db_call drv s = (Inr (), s\<lparr>calls := Suc (calls s)\<rparr>)"
  | (fault) e where "drv (calls s) = Some e" "db_call drv s = (Inl e, s\<lparr>calls := Suc (calls s)\<rparr>)"
  by (cases "drv (calls s)") (auto simp: db_call_def Let_def)

lemma flush_ok [simp]:
  "drv (calls s) = None \<Longrightarrow> flush drv s = (Inr (), s\<lparr>calls := Suc (calls s)\<rparr>)"
  by (simp add: flush_def db_call_def Let_def)

lemma flush_fault [simp]:
  "drv (calls s) = Some e \<Longrightarrow> flush drv s = (Inl e, s\<lparr>calls := Suc (calls s)\<rparr>)"
  by (simp add: flush_def db_call_def Let_def)

lemma commit_ok [simp]:
  "drv (calls s) = None \<Longrightarrow>
   commit drv s = (Inr (), s\<lparr>calls := Suc (calls s), durable := pending s\<rparr>)"
  by (simp add: commit_def db_call_def Let_def seqP_def bindP_def modify_def)

lemma commit_fault [simp]:
  "drv (calls s) = Some e \<Longrightarrow> commit drv s = (Inl e, s\<lparr>calls := Suc (calls s)\<rparr>)"
  by (simp add: commit_def db_call_def Let_def seqP_def bindP_def modify_def)

lemma rollback_eval [simp]: "rollback s = (Inr (), s\<lparr>pending := durable s\<rparr>)"
  by (simp add: rollback_def modify_def)

lemma on_db_eval [simp]: "on_db f s = (Inr (), s\<lparr>pending := f (pending s)\<rparr>)"
  by (simp add: on_db_def modify_def)

lemma query_eval [simp]: "query f s = (Inr (f (pending s)), s)"
  by (simp add: query_def gets_def)

lemma publish_eval [simp]:
  "publish name data s = (Inr (), s\<lparr>bus_log := bus_log s @ [(name, data)]\<rparr>)"
  by (simp add: publish_def modify_def)

lemma bindP_query [simp]: "bindP (query f) k s = k (f (pending s)) s"
  by (simp add: bindP_def)

lemma seqP_on_db [simp]: "seqP (on_db f) n s = n (s\<lparr>pending := f (pending s)\<rparr>)"
  by (simp add: on_db_def)

lemma seqP_rollback_raise [simp]:
  "seqP rollback (raise e) s = (Inl e, s\<lparr>pending := durable s\<rparr>)"
  by (simp add: rollback_def raise_def)

lemma seqP_publish [simp]:
  "seqP (publish name data) n s = n (s\<lparr>bus_log := bus_log s @ [(name, data)]\<rparr>)"
  by (simp add: publish_def)

section \<open>Programs that leave the database alone\<close>

text \<open>
  The body of a unit of work changes the session's objects only: the committed tables stay
  as they are until the scope commits.
\<close>

definition local_only :: "('db session, 'a) prog \<Rightarrow> bool" where
  "local_only m \<longleftrightarrow> (\<forall>s. durable (snd (m s)) = durable s)"

lemma local_onlyI [intro?]: "(\<And>s. durable (snd (m s)) = durable s) \<Longrightarrow> local_only m"
  by (simp add: local_only_def)

lemma local_onlyD: "local_only m \<Longrightarrow> m s = (r, s') \<Longrightarrow> durable s' = durable s"
  by (metis local_only_def snd_conv)

lemma local_only_ret [intro]: "local_only (ret x)"
  by (simp add: local_only_def ret_def)

lemma local_only_raise [intro]: "local_only (raise e)"
  by (simp add: local_only_def raise_def)

lemma local_only_flush [intro]: "local_only (flush drv)"
  by (auto simp: local_only_def flush_def db_call_def Let_def split: option.splits)

lemma local_only_on_db [intro]: "local_only (on_db f)"
  by (simp add: local_only_def)

lemma local_only_query [intro]: "local_only (query f)"
  by (simp add: local_only_def)

lemma local_only_bindP [intro]:
  "local_only m \<Longrightarrow> (\<And>x. local_only (f x)) \<Longrightarrow> local_only (bindP m f)"
  by (auto simp: local_only_def bindP_def split: prod.splits sum.splits) (metis snd_conv)+

lemma local_only_seqP [intro]: "local_only m \<Longrightarrow> local_only n \<Longrightarrow> local_only (seqP m n)"
  by (auto simp: seqP_def)

lemma local_only_for_each [intro]:
  "(\<And>x. x \<in> set xs \<Longrightarrow> local_only (f x)) \<Longrightarrow> local_only (for_each f xs)"
  by (induction xs) auto

text \<open>A commit of tables that must meet a constraint of the schema.\<close>

definition commit_checked ::
  "driver \<Rightarrow> ('db \<Rightarrow> bool) \<Rightarrow> ('db session, unit) prog" where
  "commit_checked drv constraint =
     bindP (query constraint) (\<lambda>ok.
       if ok then commit drv else seqP (db_call drv) (raise (DatabaseError ''constraint violated'')))"

text \<open>A commit whose failure leaves nothing of the transaction on the session.\<close>

definition commit_or_rollback ::
  "driver \<Rightarrow> ('db \<Rightarrow> bool) \<Rightarrow> ('db session, unit) prog" where
  "commit_or_rollback drv constraint =
     try_except (commit_checked drv constraint) (\<lambda>e. seqP rollback (raise e))"

lemma commit_or_rollback_run:
  "commit_or_rollback drv constraint s =
     (case drv (calls s) of
        None \<Rightarrow> if constraint (pending s) then (Inr (), s\<lparr>calls := Suc (calls s), durable := pending s\<rparr>)
          else (Inl (DatabaseError ''constraint violated''), s\<lparr>calls := Suc (calls s), pending := durable s\<rparr>)
      | Some e \<Rightarrow> (Inl e, s\<lparr>calls := Suc (calls s), pending := durable s\<rparr>))"
  by (cases "drv (calls s)")
    (simp_all add: commit_or_rollback_def commit_checked_def try_except_def db_call_def Let_def seqP_def bindP_def)

section \<open>Transaction scopes\<close>

text \<open>
  \<open>transactional\<close>: run the function, commit, and on any exception (the commit's own
  included) roll back and raise again.
\<close>

definition transactional :: "driver \<Rightarrow> ('db session, 'a) prog \<Rightarrow> ('db session, 'a) prog" where
  "transactional drv func =
     try_except
       (bindP func (\<lambda>result. seqP (commit drv) (ret result)))
       (\<lambda>e. seqP rollback (raise e))"

text \<open>
  \<open>TransactionContext\<close>: entering a nested scope takes a savepoint, a call that can fail;
  leaving on an exception restores the savepoint (nested) or rolls the session back, and
  raises again; leaving normally commits unless nested. The commit of the exit is outside
  the scope: when it raises, nothing is rolled back.
\<close>

definition transaction_context ::
  "driver \<Rightarrow> bool \<Rightarrow> ('db session, 'a) prog \<Rightarrow> ('db session, 'a) prog" where
  "transaction_context drv nested body =
     (if nested then
        seqP (db_call drv)
          (bindP (gets pending) (\<lambda>savepoint.
             try_except body
               (\<lambda>e. seqP (modify (\<lambda>s. s\<lparr>pending := savepoint\<rparr>)) (raise e))))
      else
        bindP
          (try_except body (\<lambda>e. seqP rollback (raise e)))
          (\<lambda>result. seqP (commit drv) (ret result)))"

text \<open>\<open>UnitOfWork\<close>: the two flags, and the commit and rollback the body may call itself.\<close>

record 'db uow =
  uow_session :: "'db session"
  uow_committed :: bool
  uow_rolled_back :: bool

definition on_session :: "('db session, 'a) prog \<Rightarrow> ('db uow, 'a) prog" where
  "on_session m u = (case m (uow_session u) of (r, s') \<Rightarrow> (r, u\<lparr>uow_session := s'\<rparr>))"

definition uow_commit :: "driver \<Rightarrow> ('db uow, unit) prog" where
  "uow_commit drv = seqP (on_session (commit drv)) (modify (\<lambda>u. u\<lparr>uow_committed := True\<rparr>))"

definition uow_rollback :: "('db uow, unit) prog" where
  "uow_rollback = seqP (on_session rollback) (modify (\<lambda>u. u\<lparr>uow_rolled_back := True\<rparr>))"

definition uow_exit :: "driver \<Rightarrow> exn option \<Rightarrow> ('db uow, unit) prog" where
  "uow_exit drv exc = bindP (gets (\<lambda>u. u)) (\<lambda>u.
     case exc of
       Some e \<Rightarrow>
         seqP (whenP (\<not> uow_rolled_back u) (on_session rollback)) (raise e)
     | None \<Rightarrow>
         whenP (\<not> uow_committed u \<and> \<not> uow_rolled_back u) (on_session (commit drv)))"

definition unit_of_work :: "driver \<Rightarrow> ('db uow, 'a) prog \<Rightarrow> ('db session, 'a) prog" where
  "unit_of_work drv body s =
     (let u0 = \<lparr>uow_session = s, uow_committed = False, uow_rolled_back = False\<rparr>
      in case body u0 of
           (Inl e, u) \<Rightarrow>
             (case uow_exit drv (Some e) u of (_, u') \<Rightarrow> (Inl e, uow_session u'))
         | (Inr x, u) \<Rightarrow>
             (case uow_exit drv None u of
                (Inl e, u') \<Rightarrow> (Inl e, uow_session u')
              | (Inr _, u') \<Rightarrow> (Inr x, uow_session u')))"

section \<open>BaseRepository.save and delete\<close>

text \<open>
  Committing an entity already written on the session; a stale row is reported as a
  concurrent modification, after a rollback. Every other database error passes through, and
  nothing is rolled back. (The refresh that follows the commit only reads.)
\<close>

definition save_commit :: "driver \<Rightarrow> ('db session, unit) prog" where
  "save_commit drv =
     try_except (commit drv)
       (\<lambda>e. case e of
          StaleDataError _ \<Rightarrow>
            seqP rollback
              (raise (ConcurrentModificationError
                ''Concurrent modification detected during save''))
        | _ \<Rightarrow> raise e)"

text \<open>
  \<open>save(entity, expected_version)\<close>: \<open>version_of\<close> reads the version of a row of the
  repository's table, \<open>write\<close> puts the entity on the session.
\<close>

definition repo_save ::
  "driver \<Rightarrow> ('db \<Rightarrow> uuid \<Rightarrow> int option) \<Rightarrow> ('db \<Rightarrow> 'db) \<Rightarrow> uuid option \<Rightarrow> int option
     \<Rightarrow> ('db session, unit) prog" where
  "repo_save drv version_of write entity_id expected_version =
     seqP
       (case (entity_id, expected_version) of
          (Some i, Some expected) \<Rightarrow>
            bindP (query (\<lambda>d. version_of d i)) (\<lambda>current.
              case current of
                None \<Rightarrow> raise (ValueError (''Entity '' @ i @ '' not found''))
              | Some found \<Rightarrow>
                  if found \<noteq> expected then
                    raise (ConcurrentModificationError
                      (''Entity '' @ i @ '' was modified by another transaction. '' @
                       ''Expected version '' @ str_int expected @ '', found '' @ str_int found))
                  else ret ())
        | _ \<Rightarrow> ret ())
       (seqP (on_db write) (save_commit drv))"

definition repo_delete ::
  "driver \<Rightarrow> ('db \<Rightarrow> uuid \<Rightarrow> bool) \<Rightarrow> (uuid \<Rightarrow> 'db \<Rightarrow> 'db) \<Rightarrow> uuid \<Rightarrow> ('db session, bool) prog" where
  "repo_delete drv present remove i =
     bindP (query (\<lambda>d. present d i)) (\<lambda>found.
       if found then seqP (on_db (remove i)) (seqP (commit drv) (ret True))
       else ret False)"

text \<open>The three outcomes of saving what is pending.\<close>

lemma save_commit_cases:
  obtains (saved)
    "save_commit drv s = (Inr (), s\<lparr>calls := Suc (calls s), durable := pending s\<rparr>)"
  | (stale) m where "drv (calls s) = Some (StaleDataError m)"
      "save_commit drv s =
         (Inl (ConcurrentModificationError ''Concurrent modification detected during save''),
          s\<lparr>calls := Suc (calls s), pending := durable s\<rparr>)"
  | (failed) e where "drv (calls s) = Some e"
      "save_commit drv s = (Inl e, s\<lparr>calls := Suc (calls s)\<rparr>)"
proof (cases "drv (calls s)")
  case None
  then show ?thesis using saved by (simp add: save_commit_def try_except_def)
next
  case (Some e)
  show ?thesis
  proof (cases "\<exists>m. e = StaleDataError m")
    case True
    with Some show ?thesis using stale by (auto simp: save_commit_def try_except_def)
  next
    case False
    with Some have "save_commit drv s = (Inl e, s\<lparr>calls := Suc (calls s)\<rparr>)"
      by (auto simp: save_commit_def try_except_def raise_def split: exn.splits)
    with Some show ?thesis using failed by blast
  qed
qed

lemma save_commit_ok [simp]:
  "drv (calls s) = None \<Longrightarrow>
   save_commit drv s = (Inr (), s\<lparr>calls := Suc (calls s), durable := pending s\<rparr>)"
  by (simp add: save_commit_def try_except_def)

lemma save_commit_fault:
  assumes "drv (calls s) = Some e"
  shows "\<exists>e' t. save_commit drv s = (Inl e', t) \<and> durable t = durable s"
  using assms
  by (cases rule: save_commit_cases [of drv s])
    (auto simp: save_commit_def try_except_def split: exn.splits)

lemma save_commit_Inr:
  "save_commit drv s = (Inr u, s') \<Longrightarrow>
   s' = s\<lparr>calls := Suc (calls s), durable := pending s\<rparr>"
  by (cases rule: save_commit_cases [of drv s]) auto

lemma save_commit_Inl_durable:
  "save_commit drv s = (Inl e, s') \<Longrightarrow> durable s' = durable s"
  by (cases rule: save_commit_cases [of drv s]) auto

section \<open>Predicates on both views\<close>

text \<open>
  A predicate that holds of the committed tables and of what the session shows is kept by
  every database call, and by a change that keeps it on one set of tables.
\<close>

definition both :: "('db \<Rightarrow> bool) \<Rightarrow> 'db session \<Rightarrow> bool" where
  "both Q s \<longleftrightarrow> Q (durable s) \<and> Q (pending s)"

lemma bothI: "Q (durable s) \<Longrightarrow> Q (pending s) \<Longrightarrow> both Q s"
  by (simp add: both_def)

lemma both_flush [intro]: "keeps (both Q) (flush drv)"
  by (auto simp: keeps_def both_def flush_def db_call_def Let_def split: option.splits)

lemma both_commit [intro]: "keeps (both Q) (commit drv)"
proof (rule keepsI)
  show "both Q (snd (commit drv s))" if "both Q s" for s
    using that by (cases "drv (calls s)") (simp_all add: both_def)
qed

lemma both_rollback [intro]: "keeps (both Q) rollback"
  by (simp add: keeps_def both_def)

lemma both_query [intro]: "keeps (both Q) (query f)"
  by (simp add: keeps_def)

lemma both_publish [intro]: "keeps (both Q) (publish n d)"
  by (simp add: keeps_def both_def)

lemma both_on_db: "(\<And>d. Q d \<Longrightarrow> Q (f d)) \<Longrightarrow> keeps (both Q) (on_db f)"
  by (simp add: keeps_def both_def)

lemma both_save_commit [intro]: "keeps (both Q) (save_commit drv)"
  unfolding save_commit_def by (rule keeps_try) (auto split: exn.split)

lemma both_repo_save:
  assumes "\<And>d. Q d \<Longrightarrow> Q (write d)"
  shows "keeps (both Q) (repo_save drv version_of write entity_id expected)"
  unfolding repo_save_def using assms
  by (intro keeps_seqP both_on_db both_save_commit)
    (auto split: option.split intro!: keeps_bindP)

section \<open>Operations that commit only good tables\<close>

text \<open>
  An operation started on good tables leaves good tables when it returns; when it raises,
  the committed tables are good, whatever half-made change the session still shows.
\<close>

definition sound :: "('db \<Rightarrow> bool) \<Rightarrow> ('db session, 'a) prog \<Rightarrow> bool" where
  "sound Q m \<longleftrightarrow> (\<forall>s. both Q s \<longrightarrow>
     (case m s of (Inl e, s') \<Rightarrow> Q (durable s') | (Inr x, s') \<Rightarrow> both Q s'))"

lemma soundI:
  "(\<And>s r s'. both Q s \<Longrightarrow> m s = (r, s') \<Longrightarrow>
     (case r of Inl e \<Rightarrow> Q (durable s') | Inr x \<Rightarrow> both Q s')) \<Longrightarrow> sound Q m"
  unfolding sound_def by (auto split: prod.split sum.split)

lemma soundD_Inr: "sound Q m \<Longrightarrow> both Q s \<Longrightarrow> m s = (Inr x, s') \<Longrightarrow> both Q s'"
  unfolding sound_def by fastforce

lemma soundD_Inl: "sound Q m \<Longrightarrow> both Q s \<Longrightarrow> m s = (Inl e, s') \<Longrightarrow> Q (durable s')"
  unfolding sound_def by fastforce

lemma sound_durable: "sound Q m \<Longrightarrow> Q d \<Longrightarrow> Q (durable (snd (m (open_session d))))"
proof -
  assume m: "sound Q m" and d: "Q d"
  have s: "both Q (open_session d)" using d by (simp add: both_def)
  obtain r s' where run: "m (open_session d) = (r, s')" by fastforce
  with soundD_Inr [OF m s] soundD_Inl [OF m s] show ?thesis
    by (cases r) (auto simp: both_def)
qed

lemma keeps_sound: "keeps (both Q) m \<Longrightarrow> sound Q m"
  by (rule soundI) (auto dest: keepsD split: sum.split simp: both_def)

lemma sound_ret [intro]: "sound Q (ret x)"
  by (simp add: sound_def)

lemma sound_raise [intro]: "sound Q (raise e)"
  by (simp add: sound_def both_def)

lemma sound_gets [intro]: "sound Q (gets f)"
  by (simp add: sound_def)

lemma sound_query_bind:
  assumes "\<And>d. Q d \<Longrightarrow> sound Q (f (g d))"
  shows "sound Q (bindP (query g) f)"
  using assms by (auto simp: sound_def both_def)

lemma sound_bindP [intro]:
  assumes "sound Q m" and "\<And>x. sound Q (f x)"
  shows "sound Q (bindP m f)"
proof (rule soundI)
  fix s r s'
  assume good: "both Q s" and run: "bindP m f s = (r, s')"
  show "case r of Inl e \<Rightarrow> Q (durable s') | Inr x \<Rightarrow> both Q s'"
  proof (cases r)
    case (Inl e)
    from run [unfolded Inl] show ?thesis
      by (rule bindP_InlE) (auto simp: Inl intro: soundD_Inl [OF assms(1) good]
          soundD_Inl [OF assms(2)] soundD_Inr [OF assms(1) good])
  next
    case (Inr y)
    from run [unfolded Inr] show ?thesis
      by (rule bindP_InrE) (auto simp: Inr intro: soundD_Inr [OF assms(2)] soundD_Inr [OF assms(1) good])
  qed
qed

lemma sound_seqP [intro]: "sound Q m \<Longrightarrow> sound Q n \<Longrightarrow> sound Q (seqP m n)"
  by (auto simp: seqP_def)

lemma sound_for_each [intro]: "(\<And>x. x \<in> set xs \<Longrightarrow> sound Q (f x)) \<Longrightarrow> sound Q (for_each f xs)"
  by (induction xs) auto

lemma save_commit_sound: "both Q s \<Longrightarrow> save_commit drv s = (r, s') \<Longrightarrow> both Q s'"
  using both_save_commit [of Q drv] by (rule keepsD)

lemma sound_repo_save:
  assumes "\<And>d. Q d \<Longrightarrow> Q (write d)"
  shows "sound Q (repo_save drv version_of write entity_id expected)"
proof -
  have "keeps (both Q) (repo_save drv version_of write entity_id expected)"
    by (rule both_repo_save) (rule assms)
  then show ?thesis by (rule keeps_sound)
qed

lemma sound_repo_delete:
  assumes "\<And>d. Q d \<Longrightarrow> Q (remove i d)"
  shows "sound Q (repo_delete drv present remove i)"
proof -
  have "keeps (both Q) (repo_delete drv present remove i)"
    unfolding repo_delete_def using assms
    by (intro keeps_bindP both_query) (auto intro!: keeps_seqP both_on_db)
  then show ?thesis by (rule keeps_sound)
qed

text \<open>
  The same at one state, for an operation that writes what it has just read: the queries are
  evaluated, and the changed tables are shown to be good when they are written.
\<close>

definition sound_at :: "('db \<Rightarrow> bool) \<Rightarrow> ('db session, 'a) prog \<Rightarrow> 'db session \<Rightarrow> bool" where
  "sound_at Q m s \<longleftrightarrow>
     (case m s of (Inl e, s') \<Rightarrow> Q (durable s') | (Inr x, s') \<Rightarrow> both Q s')"

lemma soundI_at: "(\<And>s. both Q s \<Longrightarrow> sound_at Q m s) \<Longrightarrow> sound Q m"
  by (simp add: sound_def sound_at_def)

lemma sound_at_sound: "sound Q m \<Longrightarrow> both Q s \<Longrightarrow> sound_at Q m s"
  by (simp add: sound_def sound_at_def)

lemma sound_at_ret [simp]: "sound_at Q (ret x) s \<longleftrightarrow> both Q s"
  by (simp add: sound_at_def)

lemma sound_at_raise [simp]: "sound_at Q (raise e) s \<longleftrightarrow> Q (durable s)"
  by (simp add: sound_at_def)

lemma sound_at_query [simp]: "sound_at Q (bindP (query g) f) s = sound_at Q (f (g (pending s))) s"
  by (simp add: sound_at_def)

lemma sound_at_gets [simp]: "sound_at Q (bindP (gets g) f) s = sound_at Q (f (g s)) s"
  by (simp add: sound_at_def)

lemma sound_at_on_db [simp]:
  "sound_at Q (seqP (on_db g) m) s = sound_at Q m (s\<lparr>pending := g (pending s)\<rparr>)"
  by (simp add: sound_at_def)

lemma sound_at_bindP:
  assumes "sound_at Q m s" and "\<And>x s'. both Q s' \<Longrightarrow> sound_at Q (f x) s'"
  shows "sound_at Q (bindP m f) s"
proof -
  obtain r t where m: "m s = (r, t)" by fastforce
  show ?thesis
  proof (cases r)
    case (Inl e)
    with m assms(1) show ?thesis by (simp add: sound_at_def bindP_def)
  next
    case (Inr x)
    with m assms(1) have "sound_at Q (f x) t" by (intro assms(2)) (simp add: sound_at_def)
    with m Inr show ?thesis by (simp add: sound_at_def bindP_def)
  qed
qed

lemma sound_at_seqP: "sound_at Q m s \<Longrightarrow> sound Q n \<Longrightarrow> sound_at Q (seqP m n) s"
  unfolding seqP_def by (rule sound_at_bindP) (auto intro: sound_at_sound)

lemma sound_at_commit: "both Q s \<Longrightarrow> sound_at Q (commit drv) s"
  by (intro sound_at_sound keeps_sound both_commit)

lemma sound_at_flush: "both Q s \<Longrightarrow> sound_at Q (flush drv) s"
  by (intro sound_at_sound keeps_sound both_flush)

lemma sound_at_write:
  assumes "Q (durable s)" and "Q (write (pending s))"
  shows "sound_at Q (repo_save drv version_of write entity_id None) s"
proof -
  have "repo_save drv version_of write entity_id None = seqP (on_db write) (save_commit drv)"
    by (cases entity_id) (simp_all add: repo_save_def)
  moreover have "sound_at Q (save_commit drv) (s\<lparr>pending := write (pending s)\<rparr>)"
    by (intro sound_at_sound keeps_sound both_save_commit) (simp add: both_def assms)
  ultimately show ?thesis by simp
qed

lemma sound_flush [intro]: "sound Q (flush drv)"
  by (intro keeps_sound both_flush)

lemma sound_commit [intro]: "sound Q (commit drv)"
  by (intro keeps_sound both_commit)

lemma sound_foldP [intro]: "(\<And>acc x. x \<in> set xs \<Longrightarrow> sound Q (f acc x)) \<Longrightarrow> sound Q (foldP f acc xs)"
  by (induction xs arbitrary: acc) auto

lemma sound_on_db: "(\<And>d. Q d \<Longrightarrow> Q (f d)) \<Longrightarrow> sound Q (on_db f)"
  by (intro keeps_sound both_on_db)

section \<open>Scopes that are atomic\<close>

text \<open>
  What a caller expects of a unit of work around a body that leaves the database alone: an
  exception leaves nothing behind, on the database or in the session; a normal return makes
  exactly what the body left pending durable.
\<close>

locale atomic_scope =
  fixes scope :: "('db session, 'a) prog \<Rightarrow> ('db session, 'a) prog"
  assumes raise_restores:
    "\<lbrakk>local_only m; scope m s = (Inl e, s')\<rbrakk> \<Longrightarrow> durable s' = durable s \<and> pending s' = durable s"
  and return_publishes:
    "\<lbrakk>local_only m; scope m s = (Inr x, s')\<rbrakk> \<Longrightarrow>
     durable s' = pending s' \<and> (\<exists>t. m s = (Inr x, t) \<and> pending t = pending s')"
begin

lemma all_or_nothing:
  assumes "local_only m" and "scope m s = (r, s')"
  shows "durable s' = durable s \<or> (\<exists>x t. m s = (Inr x, t) \<and> durable s' = pending t)"
  using assms by (cases r) (auto dest: raise_restores return_publishes)

lemma clean_exit:
  assumes "local_only m" and "scope m s = (r, s')"
  shows "pending s' = durable s'"
  using assms by (cases r) (auto dest: raise_restores return_publishes)

lemma scope_invariant:
  assumes "local_only m" and "scope m s = (r, s')"
    and "P (durable s)" and "\<And>x t. m s = (Inr x, t) \<Longrightarrow> P (pending t)"
  shows "P (durable s') \<and> P (pending s')"
proof (cases r)
  case (Inl e)
  then show ?thesis using assms raise_restores by metis
next
  case (Inr x)
  then show ?thesis using assms return_publishes by metis
qed

end

lemma transactional_run:
  "transactional drv m s =
     (case m s of
        (Inl e, t) \<Rightarrow> (Inl e, t\<lparr>pending := durable t\<rparr>)
      | (Inr x, t) \<Rightarrow>
          (case drv (calls t) of
             None \<Rightarrow> (Inr x, t\<lparr>calls := Suc (calls t), durable := pending t\<rparr>)
           | Some e \<Rightarrow> (Inl e, t\<lparr>calls := Suc (calls t), pending := durable t\<rparr>)))"
  by (auto simp: transactional_def try_except_def bindP_def seqP_def split: prod.splits sum.splits
      option.splits)

lemma transactional_raise:
  assumes "local_only m" and "transactional drv m s = (Inl e, s')"
  shows "durable s' = durable s \<and> pending s' = durable s"
  using assms local_onlyD [OF assms(1)]
  by (force simp: transactional_run split: prod.splits sum.splits option.splits)

lemma transactional_return:
  assumes "transactional drv m s = (Inr x, s')"
  shows "durable s' = pending s' \<and> (\<exists>t. m s = (Inr x, t) \<and> pending t = pending s')"
  using assms
  by (force simp: transactional_run split: prod.splits sum.splits option.splits)

interpretation tx_scope: atomic_scope "transactional drv" for drv
  by unfold_locales (auto dest: transactional_raise transactional_return)

text \<open>
  What the decorator leaves of a function that may also commit by itself.
\<close>

lemma transactional_outcome:
  assumes "transactional drv func s = (r, s')"
  shows "pending s' = durable s' \<and>
    (case r of
       Inl e \<Rightarrow> durable s' = durable (snd (func s))
     | Inr x \<Rightarrow> (\<exists>t. func s = (Inr x, t) \<and> durable s' = pending t))"
  using assms by (force simp: transactional_run split: prod.splits sum.splits option.splits)

text \<open>
  C11. What the \<open>transactional\<close> decorator leaves, whatever the database does at each call and
  whatever the function does: the session holds no uncommitted change afterwards; when the call
  returns, the committed tables are exactly what the function left pending when it returned; when
  it raises, they are what the function itself had committed by then. For a function that does not
  commit by itself that is all or nothing: a call that raises leaves the committed tables as they
  were. (A function that commits, as one that calls \<open>save\<close> of a repository does, is not undone.)
\<close>

theorem transactional_atomic:
  assumes "transactional drv func s = (r, s')"
  shows "pending s' = durable s' \<and>
    (case r of
       Inr x \<Rightarrow> (\<exists>t. func s = (Inr x, t) \<and> durable s' = pending t)
     | Inl e \<Rightarrow> durable s' = durable (snd (func s)) \<and> (local_only func \<longrightarrow> durable s' = durable s))"
  using transactional_outcome [OF assms] by (auto simp: local_only_def split: sum.splits)

theorem transactional_atomic_witness:
  "(let r = transactional (\<lambda>_. None) (on_db (\<lambda>d. d + (1::int))) (open_session 4)
    in durable (snd r) = 5 \<and> pending (snd r) = durable (snd r)) \<and>
   (let r = transactional (\<lambda>_. Some (DatabaseError ''lost'')) (on_db (\<lambda>d. d + (1::int))) (open_session 4)
    in durable (snd r) = 4 \<and> pending (snd r) = durable (snd r))"
proof -
  let ?m = "on_db (\<lambda>d. d + (1::int))"
  have l: "local_only ?m" ..
  have run: "transactional (\<lambda>_. None) ?m (open_session 4) =
    (Inr (), \<lparr>durable = 5, pending = 5, calls = 1, bus_log = []\<rparr>)"
    by (simp add: transactional_run open_session_def)
  obtain s' where bad: "transactional (\<lambda>_. Some (DatabaseError ''lost'')) ?m (open_session 4) =
      (Inl (DatabaseError ''lost''), s')"
    by (simp add: transactional_run open_session_def)
  then show ?thesis using run l transactional_atomic [OF bad] transactional_atomic [OF run] by simp
qed

end
