(* ===== verification/Rows.thy ===== *)
theory Rows
  imports Session
begin

text \<open>
  Tables as lists of rows, for the parts of the database the code enumerates: a row is
  found by its key, \<open>upsert\<close> replaces the row with the same key in place, or appends, and
  \<open>remove_rows\<close> deletes. \<open>key\<close> is the row's identifier.
\<close>

definition find_row :: "('r \<Rightarrow> 'k) \<Rightarrow> 'k \<Rightarrow> 'r list \<Rightarrow> 'r option" where
  "find_row key k rows = find (\<lambda>r. key r = k) rows"

definition upsert :: "('r \<Rightarrow> 'k) \<Rightarrow> 'r \<Rightarrow> 'r list \<Rightarrow> 'r list" where
  "upsert key r rows =
     (if key r \<in> key ` set rows then map (\<lambda>x. if key x = key r then r else x) rows
      else rows @ [r])"

definition remove_rows :: "('r \<Rightarrow> bool) \<Rightarrow> 'r list \<Rightarrow> 'r list" where
  "remove_rows gone rows = filter (\<lambda>r. \<not> gone r) rows"

lemma find_row_Some: "find_row key k rows = Some r \<Longrightarrow> r \<in> set rows \<and> key r = k"
  by (auto simp: find_row_def find_Some_iff)

lemma find_row_None: "find_row key k rows = None \<longleftrightarrow> k \<notin> key ` set rows"
  by (auto simp: find_row_def find_None_iff)

lemma find_append: "find P (xs @ ys) = (case find P xs of Some x \<Rightarrow> Some x | None \<Rightarrow> find P ys)"
  by (induction xs) auto

lemma find_row_replace:
  "find_row key k (map (\<lambda>x. if key x = key r then r else x) rows) =
     (if k = key r then (if k \<in> key ` set rows then Some r else None) else find_row key k rows)"
proof (induction rows)
  case (Cons x rows)
  then show ?case
    by (cases "key x = key r"; cases "k = key x") (auto simp: find_row_def)
qed (simp add: find_row_def)

lemma find_row_upsert [simp]:
  "find_row key k (upsert key r rows) = (if k = key r then Some r else find_row key k rows)"
proof (cases "key r \<in> key ` set rows")
  case True
  then show ?thesis by (auto simp: upsert_def find_row_replace)
next
  case False
  then have "find_row key (key r) rows = None" by (simp add: find_row_None)
  with False show ?thesis
    by (auto simp: upsert_def find_append find_row_def split: option.split)
qed

lemma set_upsert: "x \<in> set (upsert key r rows) \<Longrightarrow> x = r \<or> (x \<in> set rows \<and> key x \<noteq> key r)"
  by (cases "key r \<in> key ` set rows") (auto simp: upsert_def split: if_splits, metis imageI)

lemma keys_upsert: "map key (upsert key r rows) =
    (if key r \<in> key ` set rows then map key rows else map key rows @ [key r])"
  by (auto simp: upsert_def intro!: map_cong)

lemma upsert_twice:
  assumes "key y = key x"
  shows "upsert key y (upsert key x rows) = upsert key y rows"
proof (cases "key x \<in> key ` set rows")
  case True
  then have "key x \<in> key ` set (upsert key x rows)"
    using keys_upsert [of key x rows] by (metis set_map)
  with True assms show ?thesis by (simp add: upsert_def o_def if_distrib cong: if_cong)
next
  case False
  then have "map (\<lambda>z. if key z = key x then y else z) rows = rows"
    by (intro map_idI) (auto, metis imageI)
  with False assms show ?thesis by (simp add: upsert_def)
qed

lemma distinct_upsert [simp]:
  "distinct (map key rows) \<Longrightarrow> distinct (map key (upsert key r rows))"
  by (simp add: keys_upsert)

lemma distinct_remove [simp]:
  "distinct (map key rows) \<Longrightarrow> distinct (map key (remove_rows gone rows))"
  by (simp add: remove_rows_def distinct_map_filter)

lemma find_row_mem:
  "distinct (map key rows) \<Longrightarrow> r \<in> set rows \<Longrightarrow> find_row key (key r) rows = Some r"
proof (induction rows)
  case (Cons x rows)
  then show ?case by (cases "key x = key r") (auto simp: find_row_def)
qed simp

end
