(* ===== verification/Rendering.thy ===== *)
theory Rendering
  imports Prelude
begin

text \<open>
  How amounts, dates and JSON strings are written where the services publish them or sign
  them. Times are seconds since 1970, amounts are cents.
\<close>

section \<open>Amounts and dates\<close>

text \<open>\<open>str(Decimal)\<close> of an amount with two decimals.\<close>

definition money_str :: "int \<Rightarrow> string" where
  "money_str cents =
     (let n = nat (abs cents)
      in (if cents < 0 then ''-'' else []) @ str_nat (n div 100) @ ''.'' @
         [digit_char (n mod 100 div 10), digit_char (n mod 10)])"

text \<open>\<open>datetime.date().isoformat()\<close>, by the civil calendar with years from March.\<close>

definition civil_of_day :: "int \<Rightarrow> int \<times> int \<times> int" where
  "civil_of_day day =
     (let z = day + 719468;
          era = z div 146097;
          doe = z mod 146097;
          yoe = (doe - doe div 1460 + doe div 36524 - doe div 146096) div 365;
          doy = doe - (365 * yoe + yoe div 4 - yoe div 100);
          mp = (5 * doy + 2) div 153;
          d = doy - (153 * mp + 2) div 5 + 1;
          m = (if mp < 10 then mp + 3 else mp - 9)
      in (yoe + era * 400 + (if m \<le> 2 then 1 else 0), m, d))"

definition pad :: "nat \<Rightarrow> string \<Rightarrow> string" where
  "pad n s = replicate (n - length s) (CHR ''0'') @ s"

definition iso_date :: "time \<Rightarrow> string" where
  "iso_date t =
     (case civil_of_day (t div 86400) of (y, m, d) \<Rightarrow>
        pad 4 (str_int y) @ ''-'' @ pad 2 (str_int m) @ ''-'' @ pad 2 (str_int d))"

text \<open>\<open>datetime.isoformat()\<close> of a naive time without microseconds.\<close>

definition iso_datetime :: "time \<Rightarrow> string" where
  "iso_datetime t =
     (let s = t mod 86400
      in iso_date t @ ''T'' @ pad 2 (str_int (s div 3600)) @ '':'' @
         pad 2 (str_int (s div 60 mod 60)) @ '':'' @ pad 2 (str_int (s mod 60)))"

section \<open>JSON strings\<close>

definition hex_digit :: "nat \<Rightarrow> char" where
  "hex_digit n = (if n < 10 then char_of (48 + n) else char_of (87 + n))"

text \<open>\<open>json.dumps\<close> of an ASCII string: the short escapes, and \<open>\u00XX\<close> for other controls.\<close>

fun json_escape :: "char \<Rightarrow> string" where
  "json_escape c =
     (let n = (of_char c :: nat)
      in if n = 34 then [char_of (92 :: nat), c]
         else if n = 92 then [c, c]
         else if n = 10 then [char_of (92 :: nat), CHR ''n'']
         else if n = 13 then [char_of (92 :: nat), CHR ''r'']
         else if n = 9 then [char_of (92 :: nat), CHR ''t'']
         else if n = 8 then [char_of (92 :: nat), CHR ''b'']
         else if n = 12 then [char_of (92 :: nat), CHR ''f'']
         else if n < 32 then [char_of (92 :: nat), CHR ''u'', CHR ''0'', CHR ''0'',
           hex_digit (n div 16), hex_digit (n mod 16)]
         else [c])"

definition json_string :: "string \<Rightarrow> string" where
  "json_string s = CHR 0x22 # concat (map json_escape s) @ [CHR 0x22]"

end
