(* ===== verification/Enums.thy ===== *)
theory Enums
  imports Prelude
begin

text \<open>
  The enumerations of \<open>vbwd/models/enums.py\<close>: each as a datatype with the source's members,
  the value each member has on the wire and in the database, and the lookup by value:
  exact for \<open>enum.Enum\<close>, tolerant of case and surrounding blanks for
  \<open>CaseInsensitiveEnum\<close>. Strings are ASCII here, as all the values are.
\<close>

section \<open>Members and values\<close>

datatype user_status = User_PENDING | User_ACTIVE | User_SUSPENDED | User_DELETED

datatype user_role = SUPER_ADMIN | ADMIN | USER | VENDOR | BOT | GUEST

datatype subscription_status =
  Sub_PENDING | Sub_ACTIVE | Sub_TRIALING | Sub_PAUSED | Sub_CANCELLED | Sub_EXPIRED

datatype invoice_status = PENDING | AUTHORIZED | PAID | FAILED | CANCELLED | REFUNDED

datatype billing_period = MONTHLY | YEARLY | QUARTERLY | WEEKLY | DAILY | ONE_TIME

datatype purchase_status = P_PENDING | P_COMPLETED | P_REFUNDED | P_CANCELLED

datatype line_item_type = SUBSCRIPTION | TOKEN_BUNDLE | ADD_ON | CUSTOM

datatype token_tx_type =
  T_PURCHASE | T_USAGE | T_REFUND | T_BONUS | T_ADJUSTMENT | T_SUBSCRIPTION | T_WITHDRAW
| T_REFERRAL_COMMISSION

datatype addon_status = Addon_PENDING | Addon_ACTIVE | Addon_CANCELLED

datatype account_type = PRIVATE | BUSINESS

fun user_status_value :: "user_status \<Rightarrow> string" where
  "user_status_value User_PENDING = ''PENDING''"
| "user_status_value User_ACTIVE = ''ACTIVE''"
| "user_status_value User_SUSPENDED = ''SUSPENDED''"
| "user_status_value User_DELETED = ''DELETED''"

fun user_role_value :: "user_role \<Rightarrow> string" where
  "user_role_value SUPER_ADMIN = ''SUPER_ADMIN''"
| "user_role_value ADMIN = ''ADMIN''"
| "user_role_value USER = ''USER''"
| "user_role_value VENDOR = ''VENDOR''"
| "user_role_value BOT = ''BOT''"
| "user_role_value GUEST = ''GUEST''"

fun subscription_status_value :: "subscription_status \<Rightarrow> string" where
  "subscription_status_value Sub_PENDING = ''PENDING''"
| "subscription_status_value Sub_ACTIVE = ''ACTIVE''"
| "subscription_status_value Sub_TRIALING = ''TRIALING''"
| "subscription_status_value Sub_PAUSED = ''PAUSED''"
| "subscription_status_value Sub_CANCELLED = ''CANCELLED''"
| "subscription_status_value Sub_EXPIRED = ''EXPIRED''"

fun invoice_status_value :: "invoice_status \<Rightarrow> string" where
  "invoice_status_value PENDING = ''PENDING''"
| "invoice_status_value AUTHORIZED = ''AUTHORIZED''"
| "invoice_status_value PAID = ''PAID''"
| "invoice_status_value FAILED = ''FAILED''"
| "invoice_status_value CANCELLED = ''CANCELLED''"
| "invoice_status_value REFUNDED = ''REFUNDED''"

fun billing_period_value :: "billing_period \<Rightarrow> string" where
  "billing_period_value MONTHLY = ''MONTHLY''"
| "billing_period_value YEARLY = ''YEARLY''"
| "billing_period_value QUARTERLY = ''QUARTERLY''"
| "billing_period_value WEEKLY = ''WEEKLY''"
| "billing_period_value DAILY = ''DAILY''"
| "billing_period_value ONE_TIME = ''ONE_TIME''"

fun purchase_status_value :: "purchase_status \<Rightarrow> string" where
  "purchase_status_value P_PENDING = ''PENDING''"
| "purchase_status_value P_COMPLETED = ''COMPLETED''"
| "purchase_status_value P_REFUNDED = ''REFUNDED''"
| "purchase_status_value P_CANCELLED = ''CANCELLED''"

fun line_item_type_value :: "line_item_type \<Rightarrow> string" where
  "line_item_type_value SUBSCRIPTION = ''SUBSCRIPTION''"
| "line_item_type_value TOKEN_BUNDLE = ''TOKEN_BUNDLE''"
| "line_item_type_value ADD_ON = ''ADD_ON''"
| "line_item_type_value CUSTOM = ''CUSTOM''"

fun token_tx_type_value :: "token_tx_type \<Rightarrow> string" where
  "token_tx_type_value T_PURCHASE = ''PURCHASE''"
| "token_tx_type_value T_USAGE = ''USAGE''"
| "token_tx_type_value T_REFUND = ''REFUND''"
| "token_tx_type_value T_BONUS = ''BONUS''"
| "token_tx_type_value T_ADJUSTMENT = ''ADJUSTMENT''"
| "token_tx_type_value T_SUBSCRIPTION = ''SUBSCRIPTION''"
| "token_tx_type_value T_WITHDRAW = ''WITHDRAW''"
| "token_tx_type_value T_REFERRAL_COMMISSION = ''REFERRAL_COMMISSION''"

fun addon_status_value :: "addon_status \<Rightarrow> string" where
  "addon_status_value Addon_PENDING = ''PENDING''"
| "addon_status_value Addon_ACTIVE = ''ACTIVE''"
| "addon_status_value Addon_CANCELLED = ''CANCELLED''"

fun account_type_value :: "account_type \<Rightarrow> string" where
  "account_type_value PRIVATE = ''private''"
| "account_type_value BUSINESS = ''business''"

definition user_status_members :: "user_status list" where
  "user_status_members = [User_PENDING, User_ACTIVE, User_SUSPENDED, User_DELETED]"

definition user_role_members :: "user_role list" where
  "user_role_members = [SUPER_ADMIN, ADMIN, USER, VENDOR, BOT, GUEST]"

definition invoice_status_members :: "invoice_status list" where
  "invoice_status_members = [PENDING, AUTHORIZED, PAID, FAILED, CANCELLED, REFUNDED]"

definition account_type_members :: "account_type list" where
  "account_type_members = [PRIVATE, BUSINESS]"

text \<open>\<open>AccountType.values()\<close>: the string values in declaration order.\<close>

definition account_type_values :: "string list" where
  "account_type_values = map account_type_value account_type_members"

section \<open>Lookup by value\<close>

text \<open>\<open>str.upper\<close> on ASCII letters, and \<open>str.strip\<close>; a character is a code point below 256.\<close>

definition upper_char :: "char \<Rightarrow> char" where
  "upper_char c =
     (if 97 \<le> (of_char c :: nat) \<and> (of_char c :: nat) \<le> 122
      then char_of ((of_char c :: nat) - 32) else c)"

definition is_blank :: "char \<Rightarrow> bool" where
  "is_blank c \<longleftrightarrow> (let n = (of_char c :: nat) in (9 \<le> n \<and> n \<le> 13) \<or> (28 \<le> n \<and> n \<le> 32)
     \<or> n = 133 \<or> n = 160)"

definition str_upper :: "string \<Rightarrow> string" where
  "str_upper = map upper_char"

definition str_strip :: "string \<Rightarrow> string" where
  "str_strip s = rev (dropWhile is_blank (rev (dropWhile is_blank s)))"

definition find_value :: "('e \<Rightarrow> string) \<Rightarrow> 'e list \<Rightarrow> string \<Rightarrow> 'e option" where
  "find_value value members v = find (\<lambda>m. value m = v) members"

text \<open>\<open>enum.Enum\<close>: \<open>Cls(value)\<close>, a \<open>ValueError\<close> on an unknown value.\<close>

definition enum_lookup :: "('e \<Rightarrow> string) \<Rightarrow> 'e list \<Rightarrow> string \<Rightarrow> exn + 'e" where
  "enum_lookup value members v =
     (case find_value value members v of
        Some m \<Rightarrow> Inr m
      | None \<Rightarrow> Inl (ValueError (v @ '' is not a valid value'')))"

text \<open>
  \<open>CaseInsensitiveEnum._missing_\<close>, consulted when no member has the value itself: the
  member whose value is the stripped, upper-cased string.
\<close>

definition ci_missing :: "('e \<Rightarrow> string) \<Rightarrow> 'e list \<Rightarrow> string \<Rightarrow> 'e option" where
  "ci_missing value members v = find_value value members (str_upper (str_strip v))"

definition ci_lookup :: "('e \<Rightarrow> string) \<Rightarrow> 'e list \<Rightarrow> string \<Rightarrow> exn + 'e" where
  "ci_lookup value members v =
     (case find_value value members v of
        Some m \<Rightarrow> Inr m
      | None \<Rightarrow>
          (case ci_missing value members v of
             Some m \<Rightarrow> Inr m
           | None \<Rightarrow> Inl (ValueError (v @ '' is not a valid value''))))"

definition parse_user_status :: "string \<Rightarrow> exn + user_status" where
  "parse_user_status = ci_lookup user_status_value user_status_members"

definition parse_user_role :: "string \<Rightarrow> exn + user_role" where
  "parse_user_role = ci_lookup user_role_value user_role_members"

definition parse_invoice_status :: "string \<Rightarrow> exn + invoice_status" where
  "parse_invoice_status = enum_lookup invoice_status_value invoice_status_members"

lemma find_value_Some:
  "find_value value members v = Some m \<Longrightarrow> m \<in> set members \<and> value m = v"
  by (auto simp: find_value_def find_Some_iff)

lemma find_value_None: "find_value value members v = None \<longleftrightarrow> v \<notin> value ` set members"
  by (auto simp: find_value_def find_None_iff)

section \<open>The contract of an enumeration class\<close>

locale enum_class =
  fixes val :: "'e \<Rightarrow> string" and members :: "'e list"
  assumes all_members: "m \<in> set members"
    and distinct_values: "val m = val n \<Longrightarrow> m = n"
begin

lemma find_own: "find_value val members (val m) = Some m"
proof (cases "find_value val members (val m)")
  case None
  then show ?thesis using all_members [of m] by (simp add: find_value_None)
next
  case (Some n)
  then show ?thesis using distinct_values by (auto dest: find_value_Some)
qed

lemma lookup_roundtrip: "enum_lookup val members (val m) = Inr m"
  by (simp add: enum_lookup_def find_own)

lemma lookup_sound: "enum_lookup val members v = Inr m \<Longrightarrow> val m = v"
  by (auto simp: enum_lookup_def dest: find_value_Some split: option.splits)

end

locale ci_enum_class = enum_class +
  assumes canonical: "str_upper (str_strip (val m)) = val m"
begin

lemma ci_lookup_iff:
  "ci_lookup val members v = Inr m \<longleftrightarrow> str_upper (str_strip v) = val m"
proof (cases "find_value val members v")
  case (Some n)
  then have "v = val n" by (auto dest: find_value_Some)
  then show ?thesis
    using canonical [of n] distinct_values find_own by (auto simp: ci_lookup_def)
next
  case None
  then show ?thesis
    using find_own by (auto simp: ci_lookup_def ci_missing_def dest: find_value_Some split: option.splits)
qed

end

interpretation user_status_enum: ci_enum_class user_status_value user_status_members
proof
  show "m \<in> set user_status_members" for m
    by (cases m) (simp_all add: user_status_members_def)
  show "user_status_value m = user_status_value n \<Longrightarrow> m = n" for m n
    by (cases m; cases n) simp_all
  have "\<forall>m \<in> set user_status_members. str_upper (str_strip (user_status_value m)) = user_status_value m"
    by code_simp
  then show "str_upper (str_strip (user_status_value m)) = user_status_value m" for m
    by (cases m) (simp_all add: user_status_members_def)
qed

interpretation user_role_enum: ci_enum_class user_role_value user_role_members
proof
  show "m \<in> set user_role_members" for m
    by (cases m) (simp_all add: user_role_members_def)
  show "user_role_value m = user_role_value n \<Longrightarrow> m = n" for m n
    by (cases m; cases n) simp_all
  have "\<forall>m \<in> set user_role_members. str_upper (str_strip (user_role_value m)) = user_role_value m"
    by code_simp
  then show "str_upper (str_strip (user_role_value m)) = user_role_value m" for m
    by (cases m) (simp_all add: user_role_members_def)
qed

interpretation invoice_status_enum: enum_class invoice_status_value invoice_status_members
proof
  show "m \<in> set invoice_status_members" for m
    by (cases m) (simp_all add: invoice_status_members_def)
  show "invoice_status_value m = invoice_status_value n \<Longrightarrow> m = n" for m n
    by (cases m; cases n) simp_all
qed

text \<open>
  Parsing a user role accepts exactly the strings that are a role's name up to case and
  surrounding blanks, and yields that role.
\<close>

theorem parse_user_role_iff:
  "parse_user_role v = Inr r \<longleftrightarrow> str_upper (str_strip v) = user_role_value r"
  unfolding parse_user_role_def by (rule user_role_enum.ci_lookup_iff)

end
