(* ===== verification/Patterns.thy ===== *)
theory Patterns
  imports Strings
begin

text \<open>
  What the code uses of Python's \<open>re\<close> and \<open>uuid\<close> modules. A pattern is a list of items, each
  a character, a class, a run of at least \<open>n\<close> characters of a class, or \<open>$\<close>; that is all the patterns
  of the services need. A character is a code point below 256.
\<close>

section \<open>Character classes\<close>

definition code :: "char \<Rightarrow> nat" where
  "code c = of_char c"

definition is_lower_char :: "char \<Rightarrow> bool" where
  "is_lower_char c \<longleftrightarrow> 97 \<le> code c \<and> code c \<le> 122"

definition is_upper_char :: "char \<Rightarrow> bool" where
  "is_upper_char c \<longleftrightarrow> 65 \<le> code c \<and> code c \<le> 90"

definition is_digit_char :: "char \<Rightarrow> bool" where
  "is_digit_char c \<longleftrightarrow> 48 \<le> code c \<and> code c \<le> 57"

definition is_alpha_char :: "char \<Rightarrow> bool" where
  "is_alpha_char c \<longleftrightarrow> is_lower_char c \<or> is_upper_char c"

definition is_alnum_char :: "char \<Rightarrow> bool" where
  "is_alnum_char c \<longleftrightarrow> is_alpha_char c \<or> is_digit_char c"

section \<open>Patterns\<close>

datatype pattern_item =
    Chr char
  | One "char \<Rightarrow> bool"
  | Run "char \<Rightarrow> bool" nat
  | Eol

text \<open>The suffixes left after a run of at least \<open>n\<close> characters of the class.\<close>

fun after_run :: "(char \<Rightarrow> bool) \<Rightarrow> nat \<Rightarrow> string \<Rightarrow> string list" where
  "after_run P n [] = (if n = 0 then [[]] else [])"
| "after_run P n (c # cs) =
     (if n = 0 then [c # cs] else []) @ (if P c then after_run P (n - 1) cs else [])"

fun match_items :: "pattern_item list \<Rightarrow> string \<Rightarrow> bool" where
  "match_items [] s = True"
| "match_items (Chr c # ps) s = (case s of [] \<Rightarrow> False | x # xs \<Rightarrow> x = c \<and> match_items ps xs)"
| "match_items (One P # ps) s = (case s of [] \<Rightarrow> False | x # xs \<Rightarrow> P x \<and> match_items ps xs)"
| "match_items (Run P n # ps) s = list_ex (match_items ps) (after_run P n s)"
| "match_items (Eol # ps) s = ((s = [] \<or> s = [CHR 0x0A]) \<and> match_items ps s)"

lemma after_run_iff:
  "t \<in> set (after_run P n s) \<longleftrightarrow> (\<exists>r. s = r @ t \<and> n \<le> length r \<and> list_all P r)"
proof (induction P n s rule: after_run.induct)
  case (1 P n)
  then show ?case by auto
next
  case (2 P n c cs)
  have "t \<in> set (after_run P n (c # cs)) \<longleftrightarrow>
      (n = 0 \<and> t = c # cs) \<or> (P c \<and> (\<exists>r. cs = r @ t \<and> n - 1 \<le> length r \<and> list_all P r))"
    using 2 by auto
  also have "\<dots> \<longleftrightarrow> (\<exists>r. c # cs = r @ t \<and> n \<le> length r \<and> list_all P r)"
  proof
    assume "(n = 0 \<and> t = c # cs) \<or> (P c \<and> (\<exists>r. cs = r @ t \<and> n - 1 \<le> length r \<and> list_all P r))"
    then show "\<exists>r. c # cs = r @ t \<and> n \<le> length r \<and> list_all P r"
    proof
      assume "n = 0 \<and> t = c # cs"
      then show ?thesis by (intro exI [of _ "[]"]) simp
    next
      assume "P c \<and> (\<exists>r. cs = r @ t \<and> n - 1 \<le> length r \<and> list_all P r)"
      then obtain r where "P c" "cs = r @ t" "n - 1 \<le> length r" "list_all P r" by blast
      then show ?thesis by (intro exI [of _ "c # r"]) auto
    qed
  next
    assume "\<exists>r. c # cs = r @ t \<and> n \<le> length r \<and> list_all P r"
    then obtain r where r: "c # cs = r @ t" "n \<le> length r" "list_all P r" by blast
    then show "(n = 0 \<and> t = c # cs) \<or>
        (P c \<and> (\<exists>r. cs = r @ t \<and> n - 1 \<le> length r \<and> list_all P r))"
      by (cases r) auto
  qed
  finally show ?case .
qed

lemma match_Run: "match_items (Run P n # ps) s \<longleftrightarrow>
    (\<exists>r t. s = r @ t \<and> n \<le> length r \<and> list_all P r \<and> match_items ps t)"
proof
  assume "match_items (Run P n # ps) s"
  then obtain t where "t \<in> set (after_run P n s)" and m: "match_items ps t"
    by (auto simp: list_ex_iff)
  then obtain r where "s = r @ t \<and> n \<le> length r \<and> list_all P r"
    unfolding after_run_iff by blast
  with m show "\<exists>r t. s = r @ t \<and> n \<le> length r \<and> list_all P r \<and> match_items ps t" by blast
next
  assume "\<exists>r t. s = r @ t \<and> n \<le> length r \<and> list_all P r \<and> match_items ps t"
  then obtain r t where "s = r @ t \<and> n \<le> length r \<and> list_all P r" and m: "match_items ps t"
    by blast
  then have "t \<in> set (after_run P n s)" unfolding after_run_iff by blast
  with m show "match_items (Run P n # ps) s" by (auto simp: list_ex_iff)
qed

lemma match_Chr: "match_items (Chr c # ps) s \<longleftrightarrow> (\<exists>t. s = c # t \<and> match_items ps t)"
  by (cases s) auto

lemma match_One: "match_items (One P # ps) s \<longleftrightarrow> (\<exists>c t. s = c # t \<and> P c \<and> match_items ps t)"
  by (cases s) auto

section \<open>Identifiers\<close>

text \<open>
  \<open>UUID(s)\<close>: the prefixes \<open>urn:\<close> and \<open>uuid:\<close>, the braces and the dashes are dropped, and
  32 hexadecimal digits must be left; the result is the canonical text. (The blanks, signs
  and underscores that \<open>int\<close> would also take are not modelled: they are an error here.)
\<close>

definition is_hex_char :: "char \<Rightarrow> bool" where
  "is_hex_char c \<longleftrightarrow> is_digit_char c \<or> (97 \<le> code c \<and> code c \<le> 102) \<or> (65 \<le> code c \<and> code c \<le> 70)"

fun remove_all :: "nat \<Rightarrow> string \<Rightarrow> string \<Rightarrow> string" where
  "remove_all 0 p s = s"
| "remove_all (Suc n) p s =
     (if p = [] then s
      else if starts_with p s then remove_all n p (drop (length p) s)
      else case s of [] \<Rightarrow> [] | c # cs \<Rightarrow> c # remove_all n p cs)"

definition strip_chars :: "string \<Rightarrow> string \<Rightarrow> string" where
  "strip_chars cs s = rev (dropWhile (\<lambda>c. c \<in> set cs) (rev (dropWhile (\<lambda>c. c \<in> set cs) s)))"

definition canonical_uuid :: "string \<Rightarrow> uuid" where
  "canonical_uuid h =
     (let l = str_lower h in
      take 8 l @ ''-'' @ take 4 (drop 8 l) @ ''-'' @ take 4 (drop 12 l) @ ''-'' @
      take 4 (drop 16 l) @ ''-'' @ drop 20 l)"

definition parse_uuid :: "string \<Rightarrow> uuid option" where
  "parse_uuid s =
     (let h = filter (\<lambda>c. c \<noteq> CHR ''-'')
           (strip_chars ''{}'' (remove_all (length s) ''uuid:'' (remove_all (length s) ''urn:'' s)))
      in if length h = 32 \<and> list_all is_hex_char h then Some (canonical_uuid h) else None)"

end
