(* ===== verification/Decimals.thy ===== *)
theory Decimals
  imports Patterns "HOL-Library.Countable"
begin

text \<open>
  The numbers of the money code: Python's \<open>decimal.Decimal\<close> in its default context (28
  significant digits, ties to even) and \<open>float\<close> (53 bits, ties to even), as rationals with the
  rounding of each operation written out; \<open>quantize\<close> with \<open>ROUND_HALF_UP\<close>, the \<open>Numeric\<close> columns,
  and the shortest decimal that \<open>str\<close> gives for a float. Exponents have no bounds, and NaN and
  the infinities are left out.
\<close>

section \<open>Rounding to integers\<close>

definition round_half_even :: "rat \<Rightarrow> int" where
  "round_half_even x =
     (let f = \<lfloor>x\<rfloor>; d = x - of_int f
      in if d < 1 / 2 then f else if 1 / 2 < d then f + 1 else if even f then f else f + 1)"

text \<open>\<open>ROUND_HALF_UP\<close>: a tie goes away from zero, as in PostgreSQL's numeric columns.\<close>

definition round_half_up :: "rat \<Rightarrow> int" where
  "round_half_up x = (if 0 \<le> x then \<lfloor>x + 1 / 2\<rfloor> else - \<lfloor>- x + 1 / 2\<rfloor>)"

lemma round_half_even_error: "\<bar>of_int (round_half_even x) - x\<bar> \<le> 1 / 2"
  unfolding round_half_even_def Let_def by (auto simp: abs_if) linarith+

lemma round_half_even_int [simp]: "round_half_even (of_int n) = n"
  by (simp add: round_half_even_def)

lemma round_half_up_error: "\<bar>of_int (round_half_up x) - x\<bar> \<le> 1 / 2"
  unfolding round_half_up_def by (auto simp: abs_if) linarith+

lemma round_half_up_int [simp]: "round_half_up (of_int n) = n"
  unfolding round_half_up_def by (auto simp: floor_eq_iff)

lemma round_half_up_near:
  assumes "- (1 / 2) < x - of_int n" and "x - of_int n < 1 / 2" shows "round_half_up x = n"
  using assms by (auto simp: round_half_up_def floor_eq_iff) linarith+

section \<open>Significant digits\<close>

text \<open>The number of digits of \<open>n\<close> in base \<open>b\<close>, none for zero.\<close>

function digits_of :: "int \<Rightarrow> int \<Rightarrow> nat" where
  "digits_of b n = (if b < 2 \<or> n \<le> 0 then 0 else Suc (digits_of b (n div b)))"
  by auto
termination
  by (relation "measure (\<lambda>(b, n). nat n)") (auto simp: int_div_less_self nat_mono_iff)

declare digits_of.simps [simp del]

lemma digits_of_bounds:
  assumes "2 \<le> b" shows "n < b ^ digits_of b n" and "0 < n \<Longrightarrow> b ^ (digits_of b n - 1) \<le> n"
proof -
  have "n < b ^ digits_of b n \<and> (0 < n \<longrightarrow> b ^ (digits_of b n - 1) \<le> n)"
    using assms
  proof (induction b n rule: digits_of.induct)
    case (1 b n)
    show ?case
    proof (cases "n \<le> 0")
      case False
      with 1 have ih: "n div b < b ^ digits_of b (n div b)"
        "0 < n div b \<longrightarrow> b ^ (digits_of b (n div b) - 1) \<le> n div b" by auto
      have step: "digits_of b n = Suc (digits_of b (n div b))"
        using False 1(2) by (simp add: digits_of.simps [of b n])
      have eq: "n = n div b * b + n mod b" by simp
      have r: "0 \<le> n mod b" "n mod b < b" using 1(2) by simp_all
      have "n div b + 1 \<le> b ^ digits_of b (n div b)" using ih(1) by simp
      then have "(n div b + 1) * b \<le> b ^ digits_of b (n div b) * b"
        using 1(2) by (intro mult_right_mono) simp_all
      moreover have "(n div b + 1) * b = n div b * b + b" by (simp add: algebra_simps)
      ultimately have "n < b ^ digits_of b (n div b) * b" using eq r by linarith
      then have "n < b * b ^ digits_of b (n div b)" by (simp add: mult.commute)
      moreover have "b ^ digits_of b (n div b) \<le> n"
      proof (cases "n div b \<le> 0")
        case True
        then show ?thesis using False 1(2) by (simp add: digits_of.simps [of b "n div b"])
      next
        case nz: False
        then obtain k where k: "digits_of b (n div b) = Suc k"
          using 1(2) by (simp add: digits_of.simps [of b "n div b"])
        with ih(2) nz have "b ^ k \<le> n div b" by simp
        then have "b ^ k * b \<le> n div b * b" using 1(2) by (intro mult_right_mono) simp_all
        also have "\<dots> \<le> n" using eq r by linarith
        finally show ?thesis by (simp add: k mult.commute)
      qed
      ultimately show ?thesis by (simp add: step)
    qed (use 1(2) in \<open>simp add: digits_of.simps [of b n] order.strict_trans1\<close>)
  qed
  then show "n < b ^ digits_of b n" and "0 < n \<Longrightarrow> b ^ (digits_of b n - 1) \<le> n" by auto
qed

text \<open>The exponent of the leading digit: \<open>b\<^sup>e \<le> |x| < b\<^sup>e\<^sup>+\<^sup>1\<close>.\<close>

definition lead_exp :: "int \<Rightarrow> rat \<Rightarrow> int" where
  "lead_exp b x =
     (if 1 \<le> \<bar>x\<bar> then int (digits_of b \<lfloor>\<bar>x\<bar>\<rfloor>) - 1
      else - int (digits_of b (\<lceil>1 / \<bar>x\<bar>\<rceil> - 1)))"

definition round_sig :: "int \<Rightarrow> nat \<Rightarrow> rat \<Rightarrow> rat" where
  "round_sig b p x =
     (if x = 0 then 0
      else let u = of_int b powi (lead_exp b x - int p + 1) in of_int (round_half_even (x / u)) * u)"

definition dec :: "rat \<Rightarrow> rat" where
  "dec = round_sig 10 28"

definition flt :: "rat \<Rightarrow> rat" where
  "flt = round_sig 2 53"

lemma lead_exp_lower:
  assumes "2 \<le> b" and "x \<noteq> 0" shows "of_int b powi lead_exp b x \<le> \<bar>x\<bar>"
proof (cases "1 \<le> \<bar>x\<bar>")
  case True
  let ?n = "\<lfloor>\<bar>x\<bar>\<rfloor>"
  have n: "0 < ?n" using True by linarith
  have d: "digits_of b ?n \<noteq> 0" using assms(1) n by (simp add: digits_of.simps)
  have "(of_int b :: rat) powi lead_exp b x = of_int (b ^ (digits_of b ?n - 1))"
    using True d by (simp add: lead_exp_def power_int_def nat_diff_distrib Suc_leI)
  also have "\<dots> \<le> of_int ?n" using digits_of_bounds(2) [OF assms(1) n] by (simp only: of_int_le_iff)
  also have "\<dots> \<le> \<bar>x\<bar>" by simp
  finally show ?thesis .
next
  case False
  let ?c = "\<lceil>1 / \<bar>x\<bar>\<rceil>"
  let ?e = "digits_of b (?c - 1)"
  have "?c - 1 < b ^ ?e" by (rule digits_of_bounds(1) [OF assms(1)])
  then have "?c \<le> b ^ ?e" by simp
  then have "1 / \<bar>x\<bar> \<le> of_int (b ^ ?e)" by (simp add: ceiling_le_iff)
  moreover have "0 < (of_int (b ^ ?e) :: rat)" using assms(1) by simp
  ultimately have "1 / of_int (b ^ ?e) \<le> \<bar>x\<bar>" using assms(2) by (simp add: field_simps)
  moreover have "(of_int b :: rat) powi lead_exp b x = 1 / of_int (b ^ ?e)"
    using False by (simp add: lead_exp_def power_int_minus inverse_eq_divide)
  ultimately show ?thesis by simp
qed

lemma scaled_diff:
  fixes u :: rat assumes "0 < u" shows "\<bar>a * u - x\<bar> = \<bar>a - x / u\<bar> * u"
proof -
  have "a * u - x = (a - x / u) * u" using assms by (simp add: field_simps)
  then show ?thesis using assms by (simp add: abs_mult)
qed

lemma round_sig_error:
  assumes "2 \<le> b" shows "\<bar>round_sig b p x - x\<bar> \<le> \<bar>x\<bar> * (of_int b powi (1 - int p) / 2)"
proof (cases "x = 0")
  case False
  let ?u = "(of_int b :: rat) powi (lead_exp b x - int p + 1)"
  have b: "(of_int b :: rat) \<noteq> 0" "0 < (of_int b :: rat)" using assms by simp_all
  have u: "0 < ?u" using b by simp
  have "\<bar>round_sig b p x - x\<bar> = \<bar>of_int (round_half_even (x / ?u)) - x / ?u\<bar> * ?u"
    using False scaled_diff [OF u] by (simp add: round_sig_def Let_def)
  also have "\<dots> \<le> 1 / 2 * ?u" using u by (intro mult_right_mono round_half_even_error) simp
  also have "?u = of_int b powi lead_exp b x * of_int b powi (1 - int p)"
    using b by (simp add: power_int_add [symmetric] algebra_simps)
  also have "1 / 2 * \<dots> \<le> \<bar>x\<bar> * (of_int b powi (1 - int p) / 2)"
    using lead_exp_lower [OF assms False] b by (simp add: mult_right_mono)
  finally show ?thesis .
qed (simp add: round_sig_def)

lemma round_sig_multiple:
  assumes "x \<noteq> 0" and "u = of_int b powi (lead_exp b x - int p + 1)" and "u \<noteq> 0" and "x = of_int j * u"
  shows "round_sig b p x = x"
proof -
  have "x / u = of_int j" using assms(3,4) by simp
  then show ?thesis using assms(1,4) unfolding round_sig_def Let_def assms(2) [symmetric] by simp
qed

lemma round_sig_exact:
  assumes "2 \<le> b" and "\<bar>m\<bar> < b ^ p" and "x = of_int m * of_int b powi k"
  shows "round_sig b p x = x"
proof (cases "m = 0")
  case False
  define e where "e = lead_exp b x - int p + 1"
  have b: "(of_int b :: rat) \<noteq> 0" "1 < (of_int b :: rat)" using assms(1) by simp_all
  have x: "x \<noteq> 0" using False b assms(3) by simp
  have m: "\<bar>of_int m\<bar> < (of_int b ^ p :: rat)"
    using assms(2) by (metis of_int_abs of_int_less_iff of_int_power)
  have "(of_int b :: rat) powi lead_exp b x \<le> \<bar>x\<bar>" by (rule lead_exp_lower [OF assms(1) x])
  also have "\<dots> = \<bar>of_int m\<bar> * of_int b powi k" using b by (simp add: assms(3) abs_mult power_int_abs)
  also have "\<dots> < of_int b ^ p * of_int b powi k" using m b by (intro mult_strict_right_mono) simp_all
  also have "\<dots> = of_int b powi (int p + k)" using b by (simp add: power_int_add)
  finally have lt: "(of_int b :: rat) powi lead_exp b x < of_int b powi (int p + k)" .
  have "lead_exp b x < int p + k"
  proof (rule ccontr)
    assume "\<not> lead_exp b x < int p + k"
    then have "(of_int b :: rat) powi (int p + k) \<le> of_int b powi lead_exp b x"
      using b(2) by (intro power_int_increasing) simp_all
    then show False using lt by linarith
  qed
  then have "e \<le> k" by (simp add: e_def)
  then obtain n where n: "k = e + int n" using zle_iff_zadd by blast
  have eq: "x = of_int (m * b ^ n) * of_int b powi e"
    using b(1) by (simp add: assms(3) n power_int_add)
  have u: "(of_int b :: rat) powi e \<noteq> 0" using b(1) by simp
  show ?thesis by (rule round_sig_multiple [OF x _ u eq]) (simp only: e_def)
qed (simp add: assms(3) round_sig_def)

definition quantize :: "nat \<Rightarrow> rat \<Rightarrow> rat" where
  "quantize n x = of_int (round_half_up (x * 10 ^ n)) / 10 ^ n"

text \<open>A \<open>Numeric(p, s)\<close> column: rounded to \<open>s\<close> decimals, an error beyond \<open>p\<close> digits.\<close>

definition numeric_column :: "nat \<Rightarrow> nat \<Rightarrow> rat \<Rightarrow> rat option" where
  "numeric_column p n x =
     (let v = quantize n x in if \<bar>v\<bar> < 10 ^ (p - n) then Some v else None)"

lemma quantize_error: "\<bar>quantize n x - x\<bar> \<le> 1 / (2 * 10 ^ n)"
proof -
  have "\<bar>quantize n x - x\<bar> = \<bar>of_int (round_half_up (x * 10 ^ n)) - x * 10 ^ n\<bar> / 10 ^ n"
    using scaled_diff [of "1 / 10 ^ n" "of_int (round_half_up (x * 10 ^ n))" x] by (simp add: quantize_def)
  also have "\<dots> \<le> (1 / 2) / 10 ^ n" by (intro divide_right_mono round_half_up_error) simp
  finally show ?thesis by simp
qed

lemma quantize_exact [simp]: "quantize n (of_int m / 10 ^ n) = of_int m / 10 ^ n"
  by (simp add: quantize_def)

lemma dec_error: "\<bar>dec x - x\<bar> \<le> \<bar>x\<bar> / (2 * 10 ^ 27)"
  using round_sig_error [of 10 28 x] by (simp add: dec_def power_int_def field_simps)

section \<open>Texts of numbers\<close>

text \<open>The digits of a number that is not negative.\<close>

function digits_text :: "int \<Rightarrow> string" where
  "digits_text n = (if n < 10 then [digit_char (nat n)] else digits_text (n div 10) @ [digit_char (nat (n mod 10))])"
  by auto
termination
  by (relation "measure nat") (auto simp: int_div_less_self nat_mono_iff)

text \<open>
  The text of a float is the shortest decimal that reads back as the same float, the nearest of
  them: \<open>float_digits\<close> is its number of digits, \<open>float_str\<close> its value.
\<close>

fun fewest_digits :: "nat \<Rightarrow> nat \<Rightarrow> rat \<Rightarrow> nat" where
  "fewest_digits 0 k x = k"
| "fewest_digits (Suc n) k x = (if flt (round_sig 10 k x) = x then k else fewest_digits n (Suc k) x)"

definition float_digits :: "rat \<Rightarrow> nat" where
  "float_digits x = fewest_digits 16 1 x"

definition float_str :: "rat \<Rightarrow> rat" where
  "float_str x = round_sig 10 (float_digits x) x"

definition minus_sign :: "rat \<Rightarrow> string" where
  "minus_sign x = (if x < 0 then ''-'' else [])"

text \<open>\<open>repr\<close> of a float: positional from 1e-4 up to 1e16, else with an exponent.\<close>

definition float_repr :: "rat \<Rightarrow> string" where
  "float_repr x =
     (if x = 0 then ''0.0''
      else
        let y = \<bar>float_str x\<bar>; e = lead_exp 10 y; k = float_digits x;
            ds = digits_text \<lfloor>y / 10 powi (e - int k + 1)\<rfloor>
        in minus_sign x @
           (if - 4 \<le> e \<and> e < 16 then
              (if int k - 1 \<le> e then ds @ replicate (nat (e - int k + 1)) (CHR ''0'') @ ''.0''
               else if 0 \<le> e then take (nat e + 1) ds @ ''.'' @ drop (nat e + 1) ds
               else ''0.'' @ replicate (nat (- e - 1)) (CHR ''0'') @ ds)
            else
              take 1 ds @ (if k = 1 then [] else CHR ''.'' # drop 1 ds) @ ''e'' @
              (if e < 0 then ''-'' else ''+'') @
              (if \<bar>e\<bar> < 10 then ''0'' else []) @ digits_text \<bar>e\<bar>))"

text \<open>
  \<open>str\<close> of a \<open>Decimal\<close> read from a column with \<open>n\<close> decimals: positional unless the leading digit
  is beyond the sixth decimal.
\<close>

definition decimal_str :: "nat \<Rightarrow> rat \<Rightarrow> string" where
  "decimal_str n x =
     (let ds = digits_text \<lfloor>\<bar>x\<bar> * 10 ^ n\<rfloor>; a = int (length ds) - 1 - int n
      in minus_sign x @
         (if - 6 \<le> a then
            (let padded = replicate (Suc n - length ds) (CHR ''0'') @ ds; k = length padded - n
             in take k padded @ (if n = 0 then [] else CHR ''.'' # drop k padded))
          else take 1 ds @ (if length ds = 1 then [] else CHR ''.'' # drop 1 ds) @ ''E-'' @ digits_text (- a)))"

text \<open>\<open>Decimal(s)\<close> of a finite number.\<close>

definition int_of_digits :: "string \<Rightarrow> int" where
  "int_of_digits ds = foldl (\<lambda>n c. 10 * n + (of_char c - 48)) 0 ds"

definition take_sign :: "string \<Rightarrow> bool \<times> string" where
  "take_sign s = (case s of c # cs \<Rightarrow> if c = CHR ''-'' then (True, cs) else if c = CHR ''+'' then (False, cs) else (False, s)
     | [] \<Rightarrow> (False, s))"

definition take_digits :: "string \<Rightarrow> string \<times> string" where
  "take_digits s = (takeWhile is_digit_char s, dropWhile is_digit_char s)"

definition parse_exponent :: "string \<Rightarrow> int option" where
  "parse_exponent s =
     (case s of
        [] \<Rightarrow> Some 0
      | c # cs \<Rightarrow>
          if c \<noteq> CHR ''e'' \<and> c \<noteq> CHR ''E'' then None
          else (case take_sign cs of (neg, ds) \<Rightarrow>
            if ds = [] \<or> \<not> list_all is_digit_char ds then None
            else Some (if neg then - int_of_digits ds else int_of_digits ds)))"

definition parse_decimal :: "string \<Rightarrow> rat option" where
  "parse_decimal s =
     (case take_sign (filter (\<lambda>c. c \<noteq> CHR ''_'') (str_strip s)) of (neg, t) \<Rightarrow>
        (case take_digits t of (whole, r) \<Rightarrow>
           (case (case r of c # cs \<Rightarrow> if c = CHR ''.'' then take_digits cs else ([], r) | [] \<Rightarrow> ([], r)) of (part, rest) \<Rightarrow>
              if whole = [] \<and> part = [] then None
              else map_option (\<lambda>e.
                 (if neg then - 1 else 1) * of_int (int_of_digits (whole @ part)) * 10 powi (e - int (length part)))
                (parse_exponent rest))))"

end
