(* ===== verification/Json.thy ===== *)
theory Json
  imports Decimals
begin

text \<open>
  Values of a JSON body as Python holds them after parsing, with the operations the services
  use on them: \<open>dict.get\<close>, \<open>in\<close>, the truth value, \<open>str\<close> and \<open>int\<close>. A dict is an
  association list in insertion order; \<open>JNum\<close> is a float, an integral one included.
\<close>

datatype json =
    JNull
  | JBool bool
  | JInt int
  | JNum rat
  | JStr string
  | JList "json list"
  | JObj "(string \<times> json) list"

type_synonym json_dict = "(string \<times> json) list"

definition has_key :: "string \<Rightarrow> json_dict \<Rightarrow> bool" where
  "has_key k d \<longleftrightarrow> map_of d k \<noteq> None"

definition jget :: "json_dict \<Rightarrow> string \<Rightarrow> json" where
  "jget d k = (case map_of d k of None \<Rightarrow> JNull | Some v \<Rightarrow> v)"

definition jget_or :: "json_dict \<Rightarrow> string \<Rightarrow> json \<Rightarrow> json" where
  "jget_or d k v0 = (case map_of d k of None \<Rightarrow> v0 | Some v \<Rightarrow> v)"

fun jtrue :: "json \<Rightarrow> bool" where
  "jtrue JNull = False"
| "jtrue (JBool b) = b"
| "jtrue (JInt i) = (i \<noteq> 0)"
| "jtrue (JNum x) = (x \<noteq> 0)"
| "jtrue (JStr s) = (s \<noteq> [])"
| "jtrue (JList vs) = (vs \<noteq> [])"
| "jtrue (JObj d) = (d \<noteq> [])"

text \<open>\<open>d[k] = v\<close>: in place when the key is there, at the end otherwise.\<close>

fun dict_set :: "string \<Rightarrow> 'v \<Rightarrow> (string \<times> 'v) list \<Rightarrow> (string \<times> 'v) list" where
  "dict_set k v [] = [(k, v)]"
| "dict_set k v ((k', v') # d) = (if k' = k then (k', v) # d else (k', v') # dict_set k v d)"

definition dict_del :: "string \<Rightarrow> (string \<times> 'v) list \<Rightarrow> (string \<times> 'v) list" where
  "dict_del k d = filter (\<lambda>kv. fst kv \<noteq> k) d"

lemma map_of_dict_set [simp]: "map_of (dict_set k v d) = (map_of d)(k \<mapsto> v)"
  by (induction k v d rule: dict_set.induct) auto

lemma keys_dict_set: "set (map fst (dict_set k v d)) = insert k (set (map fst d))"
  by (induction k v d rule: dict_set.induct) auto

lemma distinct_dict_set:
  "distinct (map fst d) \<Longrightarrow> distinct (map fst (dict_set k v d))"
  by (induction k v d rule: dict_set.induct) (auto simp: keys_dict_set [simplified])

text \<open>\<open>dict.update\<close>.\<close>

fun dict_update :: "(string \<times> 'v) list \<Rightarrow> (string \<times> 'v) list \<Rightarrow> (string \<times> 'v) list" where
  "dict_update d [] = d"
| "dict_update d ((k, v) # kvs) = dict_update (dict_set k v d) kvs"

lemma dict_update_append: "dict_update d (u @ v) = dict_update (dict_update d u) v"
  by (induction d u rule: dict_update.induct) auto

lemma map_of_dict_update: "map_of (dict_update d u) k = (case map_of (rev u) k of None \<Rightarrow> map_of d k | Some v \<Rightarrow> Some v)"
  by (induction d u rule: dict_update.induct) (auto simp: map_add_def split: option.splits)

lemma distinct_dict_update: "distinct (map fst d) \<Longrightarrow> distinct (map fst (dict_update d u))"
  by (induction d u rule: dict_update.induct) (auto simp: distinct_dict_set)

text \<open>A column that may be \<open>None\<close>.\<close>

definition opt_json :: "string option \<Rightarrow> json" where
  "opt_json v = (case v of None \<Rightarrow> JNull | Some s \<Rightarrow> JStr s)"

section \<open>Texts of values\<close>

fun nibble :: "nat \<Rightarrow> char" where
  "nibble n = (if n < 10 then char_of (48 + n) else char_of (87 + n))"

text \<open>\<open>repr\<close> of a string: quoted, with escapes.\<close>

definition repr_char :: "char \<Rightarrow> char \<Rightarrow> string" where
  "repr_char q c =
     (if c = CHR 0x5C then [CHR 0x5C, CHR 0x5C]
      else if c = q then [CHR 0x5C, q]
      else if c = CHR 0x0A then [CHR 0x5C, CHR ''n'']
      else if c = CHR 0x0D then [CHR 0x5C, CHR ''r'']
      else if c = CHR 0x09 then [CHR 0x5C, CHR ''t'']
      else if code c < 32 \<or> (127 \<le> code c \<and> code c \<le> 160) \<or> code c = 173
        then [CHR 0x5C, CHR ''x'', nibble (code c div 16), nibble (code c mod 16)]
      else [c])"

definition repr_str :: "string \<Rightarrow> string" where
  "repr_str s =
     (let q = (if CHR 0x27 \<in> set s \<and> CHR 0x22 \<notin> set s then CHR 0x22 else CHR 0x27)
      in [q] @ concat (map (repr_char q) s) @ [q])"

fun comma_sep :: "string list \<Rightarrow> string" where
  "comma_sep [] = []"
| "comma_sep [s] = s"
| "comma_sep (s # t # ss) = s @ '', '' @ comma_sep (t # ss)"

fun jrepr :: "json \<Rightarrow> string" where
  "jrepr JNull = ''None''"
| "jrepr (JBool b) = (if b then ''True'' else ''False'')"
| "jrepr (JInt i) = str_int i"
| "jrepr (JNum x) = float_repr x"
| "jrepr (JStr s) = repr_str s"
| "jrepr (JList vs) = ''['' @ comma_sep (map jrepr vs) @ '']''"
| "jrepr (JObj d) = ''{'' @ comma_sep (map (\<lambda>(k, v). repr_str k @ '': '' @ jrepr v) d) @ ''}''"

fun jstr :: "json \<Rightarrow> string" where
  "jstr (JStr s) = s"
| "jstr v = jrepr v"

definition json_text :: "json \<Rightarrow> string option" where
  "json_text v = (case v of JStr s \<Rightarrow> Some s | _ \<Rightarrow> None)"

definition json_names :: "json \<Rightarrow> string list" where
  "json_names v = (case v of JList vs \<Rightarrow> map jstr vs | _ \<Rightarrow> [])"

text \<open>
  A value bound to a \<open>Boolean\<close> or \<open>Numeric\<close> column, \<open>None\<close> when the driver or the database refuses it.
\<close>

fun bool_column :: "json \<Rightarrow> bool option" where
  "bool_column (JBool b) = Some b"
| "bool_column (JInt i) = (if i = 0 then Some False else if i = 1 then Some True else None)"
| "bool_column v = None"

text \<open>\<open>Decimal(str(v))\<close>.\<close>

fun decimal_of_json :: "json \<Rightarrow> rat option" where
  "decimal_of_json (JInt i) = Some (of_int i)"
| "decimal_of_json (JNum x) = Some (float_str x)"
| "decimal_of_json (JStr s) = parse_decimal s"
| "decimal_of_json v = None"

section \<open>Integers from values\<close>

text \<open>
  \<open>int(s)\<close> on a string: blanks around, an optional sign, digits with single underscores
  between them. \<open>int\<close> of a bool is 0 or 1, of anything but a string or number an error.
\<close>

fun digits_value :: "bool \<Rightarrow> nat \<Rightarrow> string \<Rightarrow> nat option" where
  "digits_value after n [] = (if after then Some n else None)"
| "digits_value after n (c # cs) =
     (if is_digit_char c then digits_value True (10 * n + (code c - 48)) cs
      else if c = CHR ''_'' \<and> after then digits_value False n cs
      else None)"

definition int_of_str :: "string \<Rightarrow> int option" where
  "int_of_str s =
     (case str_strip s of
        [] \<Rightarrow> None
      | c # cs \<Rightarrow>
          if c = CHR ''-'' then map_option (\<lambda>n. - int n) (digits_value False 0 cs)
          else if c = CHR ''+'' then map_option int (digits_value False 0 cs)
          else map_option int (digits_value False 0 (c # cs)))"

fun int_of_json :: "json \<Rightarrow> int option" where
  "int_of_json (JInt i) = Some i"
| "int_of_json (JBool b) = Some (if b then 1 else 0)"
| "int_of_json (JNum x) = Some (if 0 \<le> x then \<lfloor>x\<rfloor> else \<lceil>x\<rceil>)"
| "int_of_json (JStr s) = int_of_str s"
| "int_of_json v = None"

end
