(* ===== verification/Tables.thy ===== *)
theory Tables
  imports Session Json
begin

text \<open>
  The rows of the billing core and the tables they live in: token balances and ledger
  (\<open>vbwd/models/user_token_balance.py\<close>), token bundle purchases
  (\<open>vbwd/models/token_bundle_purchase.py\<close>), invoices and their line items
  (\<open>vbwd/models/invoice.py\<close>, \<open>invoice_line_item.py\<close>). Money columns are
  \<open>Numeric(10, 2)\<close> and are counted in cents. The record of tables is extensible: the rest
  of the database, the rows of plugins included, is the extension.
\<close>

record token_tx =
  tx_user :: uuid
  tx_amount :: int
  tx_type :: token_tx_type
  tx_reference :: "uuid option"
  tx_description :: "string option"

record purchase =
  p_id :: uuid
  p_user :: uuid
  p_bundle :: uuid
  p_invoice :: "uuid option"
  p_status :: purchase_status
  p_tokens_credited :: bool
  p_token_amount :: int
  p_price :: int
  p_completed_at :: "time option"

record line_item =
  li_id :: uuid
  li_item_type :: line_item_type
  li_item_id :: uuid
  li_description :: string
  li_quantity :: int
  li_unit_price :: int
  li_total_price :: int
  li_net_amount :: "int option"
  li_tax_amount :: "int option"
  li_tax_breakdown :: "json list"
  li_extra_data :: json_dict

record invoice =
  inv_id :: uuid
  inv_user_id :: uuid
  inv_number :: string
  inv_amount :: int
  inv_currency :: string
  inv_status :: invoice_status
  inv_payment_method :: "string option"
  inv_payment_ref :: "string option"
  inv_invoiced_at :: time
  inv_paid_at :: "time option"
  inv_expires_at :: "time option"
  inv_payment_intent_id :: "string option"
  inv_subtotal :: "int option"
  inv_tax_amount :: "int option"
  inv_total_amount :: "int option"
  inv_provider_session_id :: "string option"
  inv_created_at :: time
  inv_metadata :: json_dict
  inv_line_items :: "line_item list"

record db =
  tbl_balance :: "uuid \<rightharpoonup> int"
  tbl_tx :: "token_tx list"
  tbl_purchase :: "uuid \<rightharpoonup> purchase"
  tbl_invoice :: "uuid \<rightharpoonup> invoice"

definition empty_db :: db where
  "empty_db = \<lparr>tbl_balance = Map.empty, tbl_tx = [], tbl_purchase = Map.empty,
     tbl_invoice = Map.empty\<rparr>"

text \<open>The core tables of a database, without the plugins' rows.\<close>

definition core :: "'p db_scheme \<Rightarrow> db" where
  "core = db.truncate"

lemma core_sel [simp]:
  "tbl_balance (core d) = tbl_balance d" "tbl_tx (core d) = tbl_tx d"
  "tbl_purchase (core d) = tbl_purchase d" "tbl_invoice (core d) = tbl_invoice d"
  by (simp_all add: core_def db.defs)

lemma core_update [simp]:
  "core (d\<lparr>tbl_balance := b\<rparr>) = (core d)\<lparr>tbl_balance := b\<rparr>"
  "core (d\<lparr>tbl_tx := t\<rparr>) = (core d)\<lparr>tbl_tx := t\<rparr>"
  "core (d\<lparr>tbl_purchase := p\<rparr>) = (core d)\<lparr>tbl_purchase := p\<rparr>"
  "core (d\<lparr>tbl_invoice := i\<rparr>) = (core d)\<lparr>tbl_invoice := i\<rparr>"
  by (simp_all add: core_def db.defs)

lemma core_id [simp]: "core d = d" for d :: db
  by (simp add: core_def db.defs)

lemma core_eqD:
  assumes "core d = core d'"
  shows "tbl_balance d = tbl_balance d'" "tbl_tx d = tbl_tx d'"
    "tbl_purchase d = tbl_purchase d'" "tbl_invoice d = tbl_invoice d'"
  using arg_cong [OF assms, of tbl_balance] arg_cong [OF assms, of tbl_tx]
    arg_cong [OF assms, of tbl_purchase] arg_cong [OF assms, of tbl_invoice]
  by simp_all

section \<open>Repository reads and writes\<close>

definition find_purchase :: "uuid \<Rightarrow> ('p db_scheme session, purchase option) prog" where
  "find_purchase i = query (\<lambda>d. tbl_purchase d i)"

definition put_purchase :: "purchase \<Rightarrow> 'p db_scheme \<Rightarrow> 'p db_scheme" where
  "put_purchase p d = d\<lparr>tbl_purchase := (tbl_purchase d)(p_id p \<mapsto> p)\<rparr>"

definition find_invoice :: "uuid \<Rightarrow> ('p db_scheme session, invoice option) prog" where
  "find_invoice i = query (\<lambda>d. tbl_invoice d i)"

definition put_invoice :: "invoice \<Rightarrow> 'p db_scheme \<Rightarrow> 'p db_scheme" where
  "put_invoice i d = d\<lparr>tbl_invoice := (tbl_invoice d)(inv_id i \<mapsto> i)\<rparr>"

text \<open>Rows are stored under their own id.\<close>

definition keyed :: "'p db_scheme \<Rightarrow> bool" where
  "keyed d \<longleftrightarrow>
     (\<forall>i p. tbl_purchase d i = Some p \<longrightarrow> p_id p = i) \<and>
     (\<forall>i v. tbl_invoice d i = Some v \<longrightarrow> inv_id v = i)"

lemma keyed_core: "keyed (core d) = keyed d"
  by (simp add: keyed_def)

lemma keyed_put_purchase [simp]: "keyed d \<Longrightarrow> keyed (put_purchase p d)"
  by (auto simp: keyed_def put_purchase_def)

lemma keyed_put_invoice [simp]: "keyed d \<Longrightarrow> keyed (put_invoice v d)"
  by (auto simp: keyed_def put_invoice_def)

lemma put_purchase_sel [simp]:
  "tbl_balance (put_purchase p d) = tbl_balance d" "tbl_tx (put_purchase p d) = tbl_tx d"
  "tbl_purchase (put_purchase p d) = (tbl_purchase d)(p_id p \<mapsto> p)"
  "tbl_invoice (put_purchase p d) = tbl_invoice d"
  "core (put_purchase p d) = put_purchase p (core d)"
  by (simp_all add: put_purchase_def)

lemma put_invoice_sel [simp]:
  "tbl_balance (put_invoice v d) = tbl_balance d" "tbl_tx (put_invoice v d) = tbl_tx d"
  "tbl_purchase (put_invoice v d) = tbl_purchase d"
  "tbl_invoice (put_invoice v d) = (tbl_invoice d)(inv_id v \<mapsto> v)"
  "core (put_invoice v d) = put_invoice v (core d)"
  by (simp_all add: put_invoice_def)

end
