(* ===== verification/Tokens.thy ===== *)
theory Tokens
  imports Tables
begin

text \<open>
  The token ledger: \<open>TokenService\<close> (\<open>vbwd/services/token_service.py\<close>), the movement hooks
  (\<open>vbwd/services/token_balance_hooks.py\<close>) and the balance repository
  (\<open>vbwd/repositories/token_repository.py\<close>). Hooks are plugin code and a parameter: any
  programs on the live session. \<open>hook_ok\<close> is what the interface asks of them, that they
  write rows of their own and leave committing, and core's tables, to core.
\<close>

section \<open>Movements and hooks\<close>

record token_movement =
  mv_user :: uuid
  mv_delta :: int
  mv_balance_after :: int
  mv_type :: token_tx_type
  mv_reference :: "uuid option"
  mv_description :: "string option"

type_synonym 'p hook = "token_movement \<Rightarrow> ('p db_scheme session, unit) prog"

definition register_token_movement_hook :: "'p hook \<Rightarrow> 'p hook list \<Rightarrow> 'p hook list" where
  "register_token_movement_hook hook hooks = hooks @ [hook]"

definition clear_token_movement_hooks :: "'p hook list \<Rightarrow> 'p hook list" where
  "clear_token_movement_hooks hooks = []"

definition run_token_movement_hooks ::
  "'p hook list \<Rightarrow> token_movement \<Rightarrow> ('p db_scheme session, unit) prog" where
  "run_token_movement_hooks hooks movement = for_each (\<lambda>hook. hook movement) hooks"

text \<open>The \<open>amount\<close> a caller passes: an \<open>int\<close>, a \<open>bool\<close>, or any other value (its repr).\<close>

datatype amount_arg = Whole int | BoolAmount bool | OtherAmount string

fun require_whole_token_amount :: "amount_arg \<Rightarrow> exn + int" where
  "require_whole_token_amount (Whole n) = Inr n"
| "require_whole_token_amount (BoolAmount b) =
     Inl (TypeError (''Token amount must be a whole number of tokens, got '' @
       (if b then ''True'' else ''False'')))"
| "require_whole_token_amount (OtherAmount r) =
     Inl (TypeError (''Token amount must be a whole number of tokens, got '' @ r))"

section \<open>The balance repository\<close>

definition balance_of :: "'p db_scheme \<Rightarrow> uuid \<Rightarrow> int" where
  "balance_of d user = (case tbl_balance d user of None \<Rightarrow> 0 | Some b \<Rightarrow> b)"

definition find_balance :: "uuid \<Rightarrow> ('p db_scheme session, int option) prog" where
  "find_balance user = query (\<lambda>d. tbl_balance d user)"

definition put_balance :: "uuid \<Rightarrow> int \<Rightarrow> 'p db_scheme \<Rightarrow> 'p db_scheme" where
  "put_balance user b d = d\<lparr>tbl_balance := (tbl_balance d)(user \<mapsto> b)\<rparr>"

definition add_tx :: "token_tx \<Rightarrow> 'p db_scheme \<Rightarrow> 'p db_scheme" where
  "add_tx t d = d\<lparr>tbl_tx := tbl_tx d @ [t]\<rparr>"

definition get_or_create :: "driver \<Rightarrow> uuid \<Rightarrow> ('p db_scheme session, unit) prog" where
  "get_or_create drv user = bindP (find_balance user) (\<lambda>balance.
     case balance of
       Some _ \<Rightarrow> ret ()
     | None \<Rightarrow> seqP (on_db (put_balance user 0)) (flush drv))"

section \<open>TokenService\<close>

definition get_balance :: "uuid \<Rightarrow> ('p db_scheme session, int) prog" where
  "get_balance user = query (\<lambda>d. balance_of d user)"

definition publish_token_moved :: "token_movement \<Rightarrow> ('p db_scheme session, unit) prog" where
  "publish_token_moved mv = publish ''token.moved''
     [(''user_id'', PStr (mv_user mv)),
      (''delta'', PInt (mv_delta mv)),
      (''balance_after'', PInt (mv_balance_after mv)),
      (''transaction_type'', PStr (token_tx_type_value (mv_type mv))),
      (''reference_id'', case mv_reference mv of Some r \<Rightarrow> PStr r | None \<Rightarrow> PNull)]"

definition movement_tx ::
  "uuid \<Rightarrow> int \<Rightarrow> token_tx_type \<Rightarrow> uuid option \<Rightarrow> string option \<Rightarrow> token_tx" where
  "movement_tx user delta ty ref desc =
     \<lparr>tx_user = user, tx_amount = delta, tx_type = ty, tx_reference = ref,
      tx_description = desc\<rparr>"

definition apply_movement ::
  "driver \<Rightarrow> 'p hook list \<Rightarrow> uuid \<Rightarrow> int \<Rightarrow> token_tx_type \<Rightarrow> uuid option \<Rightarrow> string option \<Rightarrow> bool
     \<Rightarrow> ('p db_scheme session, unit) prog" where
  "apply_movement drv hooks user delta ty ref desc do_commit =
     bindP
       (try_except
          (seqP (on_db (\<lambda>d. put_balance user (balance_of d user + delta) d))
          (seqP (on_db (add_tx (movement_tx user delta ty ref desc)))
          (seqP (flush drv)
          (bindP (query (\<lambda>d. balance_of d user)) (\<lambda>balance_after.
             let movement =
               \<lparr>mv_user = user, mv_delta = delta, mv_balance_after = balance_after,
                mv_type = ty, mv_reference = ref, mv_description = desc\<rparr>
             in seqP (run_token_movement_hooks hooks movement)
                  (seqP (whenP do_commit (commit drv)) (ret movement)))))))
          (\<lambda>e. seqP rollback (raise e)))
       (\<lambda>movement. whenP do_commit (publish_token_moved movement))"

definition credit_tokens ::
  "driver \<Rightarrow> 'p hook list \<Rightarrow> uuid \<Rightarrow> amount_arg \<Rightarrow> token_tx_type \<Rightarrow> uuid option \<Rightarrow> string option
     \<Rightarrow> bool \<Rightarrow> ('p db_scheme session, unit) prog" where
  "credit_tokens drv hooks user amount ty ref desc do_commit =
     (case require_whole_token_amount amount of
        Inl e \<Rightarrow> raise e
      | Inr n \<Rightarrow>
          if n \<le> 0 then raise (ValueError ''Credit amount must be positive'')
          else seqP (get_or_create drv user)
                 (apply_movement drv hooks user n ty ref desc do_commit))"

definition debit_tokens ::
  "driver \<Rightarrow> 'p hook list \<Rightarrow> uuid \<Rightarrow> amount_arg \<Rightarrow> token_tx_type \<Rightarrow> uuid option \<Rightarrow> string option
     \<Rightarrow> bool \<Rightarrow> ('p db_scheme session, unit) prog" where
  "debit_tokens drv hooks user amount ty ref desc do_commit =
     (case require_whole_token_amount amount of
        Inl e \<Rightarrow> raise e
      | Inr n \<Rightarrow>
          if n \<le> 0 then raise (ValueError ''Debit amount must be positive'')
          else bindP (find_balance user) (\<lambda>balance.
            case balance of
              None \<Rightarrow> raise (ValueError ''Insufficient token balance'')
            | Some b \<Rightarrow>
                if b < n then raise (ValueError ''Insufficient token balance'')
                else apply_movement drv hooks user (- n) ty ref desc do_commit))"

text \<open>\<open>refund_tokens\<close> returns the amount debited.\<close>

definition refund_tokens ::
  "driver \<Rightarrow> 'p hook list \<Rightarrow> uuid \<Rightarrow> amount_arg \<Rightarrow> uuid option \<Rightarrow> string option \<Rightarrow> bool
     \<Rightarrow> ('p db_scheme session, int) prog" where
  "refund_tokens drv hooks user amount ref desc do_commit =
     (case require_whole_token_amount amount of
        Inl e \<Rightarrow> raise e
      | Inr n \<Rightarrow> bindP (find_balance user) (\<lambda>balance.
          case balance of
            None \<Rightarrow> ret 0
          | Some b \<Rightarrow>
              if b \<le> 0 then ret 0
              else (let actual_debit = min n b in
                seqP (apply_movement drv hooks user (- actual_debit) T_REFUND ref desc do_commit)
                  (ret actual_debit))))"

definition bundle_description :: "string \<Rightarrow> int \<Rightarrow> string \<Rightarrow> string" where
  "bundle_description prefix n suffix = prefix @ str_int n @ suffix"

definition complete_purchase ::
  "driver \<Rightarrow> 'p hook list \<Rightarrow> time \<Rightarrow> uuid \<Rightarrow> ('p db_scheme session, unit) prog" where
  "complete_purchase drv hooks now purchase_id =
     bindP (find_purchase purchase_id) (\<lambda>found.
       case found of
         None \<Rightarrow> raise (ValueError (''Purchase '' @ purchase_id @ '' not found''))
       | Some p \<Rightarrow>
           if p_status p \<noteq> P_PENDING
           then raise (ValueError (''Purchase '' @ purchase_id @ '' is not pending''))
           else
             try_except
               (seqP (on_db (put_purchase
                  (p\<lparr>p_status := P_COMPLETED, p_completed_at := Some now,
                     p_tokens_credited := True\<rparr>)))
                 (credit_tokens drv hooks (p_user p) (Whole (p_token_amount p)) T_PURCHASE
                    (Some purchase_id)
                    (Some (bundle_description ''Token bundle purchase: '' (p_token_amount p)
                      '' tokens''))
                    True))
               (\<lambda>e. seqP rollback (raise e)))"

section \<open>The effect of one movement\<close>

definition hook_ok :: "'p hook \<Rightarrow> bool" where
  "hook_ok h \<longleftrightarrow> (\<forall>mv s. durable (snd (h mv s)) = durable s \<and>
      core (pending (snd (h mv s))) = core (pending s))"

definition hooks_ok :: "'p hook list \<Rightarrow> bool" where
  "hooks_ok hooks \<longleftrightarrow> (\<forall>h \<in> set hooks. hook_ok h)"

text \<open>What a movement is, on the tables alone: the specification the service refines.\<close>

definition moved ::
  "uuid \<Rightarrow> int \<Rightarrow> token_tx_type \<Rightarrow> uuid option \<Rightarrow> string option \<Rightarrow> 'p db_scheme \<Rightarrow> 'p db_scheme" where
  "moved user delta ty ref desc d =
     add_tx (movement_tx user delta ty ref desc)
       (put_balance user (balance_of d user + delta) d)"

lemma balance_of_core [simp]: "balance_of (core d) = balance_of d"
  by (rule ext) (simp add: balance_of_def)

lemma balance_of_put [simp]:
  "balance_of (put_balance u b d) = (balance_of d)(u := b)"
  by (rule ext) (simp add: balance_of_def put_balance_def)

lemma balance_of_add_tx [simp]: "balance_of (add_tx t d) = balance_of d"
  by (rule ext) (simp add: balance_of_def add_tx_def)

lemma balance_of_put_purchase [simp]: "balance_of (put_purchase p d) = balance_of d"
  by (rule ext) (simp add: balance_of_def)

lemma balance_of_put_invoice [simp]: "balance_of (put_invoice v d) = balance_of d"
  by (rule ext) (simp add: balance_of_def)

lemma core_put_balance [simp]: "core (put_balance u b d) = put_balance u b (core d)"
  by (simp add: put_balance_def)

lemma core_add_tx [simp]: "core (add_tx t d) = add_tx t (core d)"
  by (simp add: add_tx_def)

lemma core_moved [simp]:
  "core (moved u n ty r ds d) = moved u n ty r ds (core d)"
  by (simp add: moved_def)

lemma balance_of_moved [simp]:
  "balance_of (moved u n ty r ds d) = (balance_of d)(u := balance_of d u + n)"
  by (simp add: moved_def)

lemma moved_sel [simp]:
  "tbl_purchase (moved u n ty r ds d) = tbl_purchase d"
  "tbl_invoice (moved u n ty r ds d) = tbl_invoice d"
  "tbl_tx (moved u n ty r ds d) = tbl_tx d @ [movement_tx u n ty r ds]"
  by (simp_all add: moved_def add_tx_def put_balance_def)

lemma keyed_moved [simp]: "keyed (moved u n ty r ds d) = keyed d"
  by (simp add: keyed_def)

lemma hooks_ok_Cons [simp]: "hooks_ok (h # hs) \<longleftrightarrow> hook_ok h \<and> hooks_ok hs"
  by (simp add: hooks_ok_def)

lemma hooks_ok_Nil [simp]: "hooks_ok []"
  by (simp add: hooks_ok_def)

lemma hook_okD:
  "\<lbrakk>hook_ok h; h mv s = (r, s')\<rbrakk> \<Longrightarrow>
   durable s' = durable s \<and> core (pending s') = core (pending s)"
  by (metis hook_ok_def snd_conv)

lemma run_hooks_frame:
  assumes "hooks_ok hooks" and "run_token_movement_hooks hooks mv s = (r, s')"
  shows "durable s' = durable s \<and> core (pending s') = core (pending s)"
  using assms
proof (induction hooks arbitrary: s)
  case Nil
  then show ?case by (simp add: run_token_movement_hooks_def)
next
  case (Cons h hs)
  obtain r1 s1 where h: "h mv s = (r1, s1)" by fastforce
  have frame: "durable s1 = durable s" "core (pending s1) = core (pending s)"
    using Cons.prems(1) hook_okD [of h, OF _ h] by simp_all
  show ?case
  proof (cases r1)
    case (Inl e)
    with Cons.prems(2) h frame show ?thesis
      by (simp add: run_token_movement_hooks_def seqP_Inl)
  next
    case (Inr x)
    with Cons h frame show ?thesis
      by (auto simp: run_token_movement_hooks_def seqP_Inr)
  qed
qed

text \<open>Everything a movement can do: nothing, after a rollback, or \<open>moved\<close>.\<close>

lemma apply_movement_cases:
  assumes "hooks_ok hooks"
  obtains (rolled_back) e s' where
      "apply_movement drv hooks u n ty r ds c s = (Inl e, s')"
      "durable s' = durable s" "pending s' = durable s"
  | (moved) s' where
      "apply_movement drv hooks u n ty r ds c s = (Inr (), s')"
      "core (pending s') = moved u n ty r ds (core (pending s))"
      "durable s' = (if c then pending s' else durable s)"
proof (cases "drv (calls s)")
  case (Some e)
  then have "apply_movement drv hooks u n ty r ds c s =
    (Inl e, s\<lparr>pending := durable s, calls := Suc (calls s)\<rparr>)"
    by (simp add: apply_movement_def try_except_def bindP_def seqP_def)
  then show ?thesis by (rule rolled_back) simp_all
next
  case None
  define s1 where "s1 = s\<lparr>pending := moved u n ty r ds (pending s), calls := Suc (calls s)\<rparr>"
  define mv where "mv = \<lparr>mv_user = u, mv_delta = n,
    mv_balance_after = balance_of (pending s1) u, mv_type = ty, mv_reference = r,
    mv_description = ds\<rparr>"
  obtain r2 s2 where hooks: "run_token_movement_hooks hooks mv s1 = (r2, s2)" by fastforce
  note frame = run_hooks_frame [OF assms hooks]
  have run: "apply_movement drv hooks u n ty r ds c s =
    bindP (try_except
      (seqP (run_token_movement_hooks hooks mv) (seqP (whenP c (commit drv)) (ret mv)))
      (\<lambda>e. seqP rollback (raise e)))
      (\<lambda>mv. whenP c (publish_token_moved mv)) s1"
    using None
    by (simp add: apply_movement_def s1_def mv_def moved_def Let_def try_except_def bindP_def
        seqP_def split: prod.split sum.split)
  show ?thesis
  proof (cases r2)
    case (Inl e)
    then have out: "apply_movement drv hooks u n ty r ds c s = (Inl e, s2\<lparr>pending := durable s2\<rparr>)"
      using hooks run by (simp add: try_except_def bindP_def seqP_def)
    show ?thesis by (rule rolled_back [OF out]) (simp_all add: frame s1_def)
  next
    case (Inr x)
    note hooked = this
    show ?thesis
    proof (cases "c \<and> drv (calls s2) \<noteq> None")
      case True
      then obtain e where "c" "drv (calls s2) = Some e" by blast
      then have out: "apply_movement drv hooks u n ty r ds c s =
        (Inl e, s2\<lparr>pending := durable s2, calls := Suc (calls s2)\<rparr>)"
        using hooks hooked run
        by (simp add: try_except_def bindP_def seqP_def whenP_def)
      show ?thesis by (rule rolled_back [OF out]) (simp_all add: frame s1_def)
    next
      case False
      then have out: "apply_movement drv hooks u n ty r ds c s =
        (Inr (), if c then s2\<lparr>calls := Suc (calls s2), durable := pending s2,
           bus_log := bus_log (snd (publish_token_moved mv s2))\<rparr> else s2)"
        using hooks hooked run
        by (auto simp: try_except_def bindP_def seqP_def whenP_def publish_token_moved_def)
      show ?thesis by (rule moved [OF out]) (simp_all add: frame s1_def)
    qed
  qed
qed

section \<open>The outcomes of each operation\<close>

lemma put_balance_twice [simp]: "put_balance u a (put_balance u b d) = put_balance u a d"
  by (simp add: put_balance_def)

lemma get_or_create_run:
  "get_or_create drv u s =
     (case tbl_balance (pending s) u of
        Some _ \<Rightarrow> (Inr (), s)
      | None \<Rightarrow> flush drv (s\<lparr>pending := put_balance u 0 (pending s)\<rparr>))"
  by (simp add: get_or_create_def find_balance_def split: option.split)

lemma get_or_create_Inr:
  assumes "get_or_create drv u s = (Inr x, s')"
  shows "durable s' = durable s \<and>
    (pending s' = pending s \<or>
     tbl_balance (pending s) u = None \<and> pending s' = put_balance u 0 (pending s))"
  using assms
  by (cases "drv (calls s)") (auto simp: get_or_create_run split: option.splits)

lemma get_or_create_Inl:
  assumes "get_or_create drv u s = (Inl e, s')"
  shows "durable s' = durable s \<and> tbl_balance (pending s) u = None \<and>
    pending s' = put_balance u 0 (pending s)"
  using assms
  by (cases "drv (calls s)") (auto simp: get_or_create_run split: option.splits)

lemma balance_of_None: "tbl_balance d u = None \<Longrightarrow> balance_of d u = 0"
  by (simp add: balance_of_def)

lemma moved_after_create:
  "tbl_balance d u = None \<Longrightarrow> moved u n ty r ds (put_balance u 0 d) = moved u n ty r ds d"
  by (simp add: moved_def balance_of_None)

lemma apply_movement_Inr:
  assumes "hooks_ok hooks" and "apply_movement drv hooks u n ty r ds c s = (Inr x, s')"
  shows "core (pending s') = moved u n ty r ds (core (pending s)) \<and>
    durable s' = (if c then pending s' else durable s)"
  using assms(2) by (cases rule: apply_movement_cases
      [OF assms(1), where drv = drv and u = u and n = n and ty = ty and r = r and ds = ds
        and c = c and s = s]) auto

lemma apply_movement_Inl:
  assumes "hooks_ok hooks" and "apply_movement drv hooks u n ty r ds c s = (Inl e, s')"
  shows "durable s' = durable s \<and> pending s' = durable s"
  using assms(2) by (cases rule: apply_movement_cases
      [OF assms(1), where drv = drv and u = u and n = n and ty = ty and r = r and ds = ds
        and c = c and s = s]) auto

lemma credit_Inr:
  assumes "hooks_ok hooks" and run: "credit_tokens drv hooks u a ty r ds c s = (Inr x, s')"
  shows "\<exists>n. a = Whole n \<and> 0 < n \<and>
    core (pending s') = moved u n ty r ds (core (pending s)) \<and>
    durable s' = (if c then pending s' else durable s)"
proof (cases a)
  case (Whole n)
  with run have n: "0 < n" by (auto simp: credit_tokens_def split: if_splits)
  with run Whole obtain x1 s1 where s1: "get_or_create drv u s = (Inr x1, s1)"
    and mv: "apply_movement drv hooks u n ty r ds c s1 = (Inr x, s')"
    by (auto simp: credit_tokens_def elim: seqP_InrE)
  note e1 = get_or_create_Inr [OF s1] and e2 = apply_movement_Inr [OF assms(1) mv]
  have "moved u n ty r ds (core (pending s1)) = moved u n ty r ds (core (pending s))"
    using e1 moved_after_create [of "core (pending s)" u] by auto
  with e1 e2 Whole n show ?thesis by auto
qed (use run in \<open>auto simp: credit_tokens_def\<close>)

lemma credit_Inl:
  assumes "hooks_ok hooks" and run: "credit_tokens drv hooks u a ty r ds c s = (Inl e, s')"
  shows "durable s' = durable s \<and>
    (pending s' = pending s \<or> pending s' = durable s \<or>
     tbl_balance (pending s) u = None \<and> pending s' = put_balance u 0 (pending s))"
proof (cases "\<exists>n. a = Whole n \<and> 0 < n")
  case True
  then obtain n where "a = Whole n" "0 < n" by blast
  with run have "seqP (get_or_create drv u) (apply_movement drv hooks u n ty r ds c) s = (Inl e, s')"
    by (simp add: credit_tokens_def)
  then show ?thesis
  proof (cases rule: seqP_InlE)
    case first
    then show ?thesis using get_or_create_Inl by blast
  next
    case (second x t)
    then show ?thesis
      using get_or_create_Inr [OF second(1)] apply_movement_Inl [OF assms(1) second(2)] by auto
  qed
next
  case False
  then show ?thesis using run by (cases a) (auto simp: credit_tokens_def split: if_splits)
qed

lemma debit_Inr:
  assumes "hooks_ok hooks" and run: "debit_tokens drv hooks u a ty r ds c s = (Inr x, s')"
  shows "\<exists>n. a = Whole n \<and> 0 < n \<and> n \<le> balance_of (pending s) u \<and>
    core (pending s') = moved u (- n) ty r ds (core (pending s)) \<and>
    durable s' = (if c then pending s' else durable s)"
  using run
  by (cases a) (auto simp: debit_tokens_def find_balance_def balance_of_def
      split: if_splits option.splits dest!: apply_movement_Inr [OF assms(1)])

lemma debit_Inl:
  assumes "hooks_ok hooks" and run: "debit_tokens drv hooks u a ty r ds c s = (Inl e, s')"
  shows "durable s' = durable s \<and> (pending s' = pending s \<or> pending s' = durable s)"
  using run
  by (cases a) (auto simp: debit_tokens_def find_balance_def
      split: if_splits option.splits dest!: apply_movement_Inl [OF assms(1)])

lemma refund_Inr:
  assumes "hooks_ok hooks" and run: "refund_tokens drv hooks u a r ds c s = (Inr k, s')"
  shows "\<exists>n. a = Whole n \<and>
    (if balance_of (pending s) u \<le> 0 then k = 0 \<and> s' = s
     else k = min n (balance_of (pending s) u) \<and>
       core (pending s') = moved u (- k) T_REFUND r ds (core (pending s)) \<and>
       durable s' = (if c then pending s' else durable s))"
  using run
  by (cases a) (auto simp: refund_tokens_def find_balance_def balance_of_def Let_def
      split: if_splits option.splits elim!: seqP_InrE dest!: apply_movement_Inr [OF assms(1)])

lemma refund_Inl:
  assumes "hooks_ok hooks" and run: "refund_tokens drv hooks u a r ds c s = (Inl e, s')"
  shows "durable s' = durable s \<and> (pending s' = pending s \<or> pending s' = durable s)"
  using run
  by (cases a) (auto simp: refund_tokens_def find_balance_def Let_def
      split: if_splits option.splits elim!: seqP_InlE dest!: apply_movement_Inl [OF assms(1)])

definition completed :: "time \<Rightarrow> purchase \<Rightarrow> purchase" where
  "completed now p =
     p\<lparr>p_status := P_COMPLETED, p_completed_at := Some now, p_tokens_credited := True\<rparr>"

lemma completed_sel [simp]:
  "p_id (completed now p) = p_id p" "p_user (completed now p) = p_user p"
  "p_token_amount (completed now p) = p_token_amount p"
  "p_status (completed now p) = P_COMPLETED"
  by (simp_all add: completed_def)

lemma try_rollback_InlE:
  assumes "try_except m (\<lambda>e. seqP rollback (raise e)) s = (Inl e, s')"
  obtains t where "m s = (Inl e, t)" and "s' = t\<lparr>pending := durable t\<rparr>"
  using assms by (auto simp: try_except_def split: prod.splits sum.splits)

lemma try_rollback_InrD:
  "try_except m (\<lambda>e. seqP rollback (raise e)) s = (Inr x, s') \<Longrightarrow> m s = (Inr x, s')"
  by (auto simp: try_except_def split: prod.splits sum.splits)

lemma complete_Inr:
  assumes "hooks_ok hooks" and run: "complete_purchase drv hooks now i s = (Inr x, s')"
  shows "\<exists>p. tbl_purchase (pending s) i = Some p \<and> p_status p = P_PENDING \<and>
    0 < p_token_amount p \<and> durable s' = pending s' \<and>
    core (pending s') =
      moved (p_user p) (p_token_amount p) T_PURCHASE (Some i)
        (Some (bundle_description ''Token bundle purchase: '' (p_token_amount p) '' tokens''))
        (put_purchase (completed now p) (core (pending s)))"
  using run
  by (auto simp: complete_purchase_def find_purchase_def completed_def
      split: option.splits if_splits
      dest!: try_rollback_InrD credit_Inr [OF assms(1)])

lemma complete_Inl:
  assumes "hooks_ok hooks" and run: "complete_purchase drv hooks now i s = (Inl e, s')"
  shows "durable s' = durable s \<and> (pending s' = pending s \<or> pending s' = durable s)"
  using run
  by (auto simp: complete_purchase_def find_purchase_def
      split: option.splits if_splits elim!: try_rollback_InlE
      dest!: credit_Inl [OF assms(1)])

section \<open>The ledger invariant\<close>

text \<open>
  A balance is the sum of the user's ledger rows, and is not negative. A service call is
  one of the four operations with any arguments.
\<close>

definition tx_sum :: "token_tx list \<Rightarrow> uuid \<Rightarrow> int" where
  "tx_sum txs u = sum_list (map (\<lambda>t. if tx_user t = u then tx_amount t else 0) txs)"

definition token_inv :: "'p db_scheme \<Rightarrow> bool" where
  "token_inv d \<longleftrightarrow> (\<forall>u. balance_of d u = tx_sum (tbl_tx d) u \<and> 0 \<le> balance_of d u)"

datatype token_call =
    Credit uuid amount_arg token_tx_type "uuid option" "string option" bool
  | Debit uuid amount_arg token_tx_type "uuid option" "string option" bool
  | Refund uuid amount_arg "uuid option" "string option" bool
  | Complete time uuid

fun run_call :: "driver \<Rightarrow> 'p hook list \<Rightarrow> token_call \<Rightarrow> ('p db_scheme session, int) prog" where
  "run_call drv hooks (Credit u a ty r ds c) =
     seqP (credit_tokens drv hooks u a ty r ds c) (ret 0)"
| "run_call drv hooks (Debit u a ty r ds c) =
     seqP (debit_tokens drv hooks u a ty r ds c) (ret 0)"
| "run_call drv hooks (Refund u a r ds c) = refund_tokens drv hooks u a r ds c"
| "run_call drv hooks (Complete now i) = seqP (complete_purchase drv hooks now i) (ret 0)"

text \<open>A sequence of calls on one session; a caller that sees an exception goes on.\<close>

fun run_calls ::
  "driver \<Rightarrow> 'p hook list \<Rightarrow> token_call list \<Rightarrow> 'p db_scheme session \<Rightarrow> 'p db_scheme session" where
  "run_calls drv hooks [] s = s"
| "run_calls drv hooks (c # cs) s = run_calls drv hooks cs (snd (run_call drv hooks c s))"

lemma tx_sum_snoc [simp]:
  "tx_sum (txs @ [t]) u = tx_sum txs u + (if tx_user t = u then tx_amount t else 0)"
  by (simp add: tx_sum_def)

lemma token_inv_core [simp]: "token_inv (core d) = token_inv d"
  by (simp add: token_inv_def)

lemma token_invD: "token_inv d \<Longrightarrow> balance_of d u = tx_sum (tbl_tx d) u"
  and token_inv_nonneg: "token_inv d \<Longrightarrow> 0 \<le> balance_of d u"
  unfolding token_inv_def by blast+

lemma token_invI:
  "(\<And>u. balance_of d u = tx_sum (tbl_tx d) u) \<Longrightarrow> (\<And>u. 0 \<le> balance_of d u) \<Longrightarrow> token_inv d"
  unfolding token_inv_def by blast

lemma token_inv_moved:
  assumes "token_inv d" and "0 \<le> balance_of d u + n"
  shows "token_inv (moved u n ty r ds d)"
  using assms token_invD [OF assms(1)] token_inv_nonneg [OF assms(1)]
  by (intro token_invI) (simp_all add: movement_tx_def)

lemma token_inv_create:
  assumes "token_inv d" and "tbl_balance d u = None"
  shows "token_inv (put_balance u 0 d)"
proof -
  have "balance_of (put_balance u 0 d) = balance_of d"
    using balance_of_None [OF assms(2)] by auto
  moreover have "tbl_tx (put_balance u 0 d) = tbl_tx d" by (simp add: put_balance_def)
  ultimately show ?thesis using assms(1) unfolding token_inv_def by metis
qed

lemma token_inv_put_purchase [simp]: "token_inv (put_purchase p d) = token_inv d"
  by (simp add: token_inv_def)

definition session_inv :: "'p db_scheme session \<Rightarrow> bool" where
  "session_inv s \<longleftrightarrow> token_inv (durable s) \<and> token_inv (pending s)"

lemma session_inv_effect:
  assumes "session_inv s" and "core (pending s') = d" and "token_inv d"
    and "durable s' = (if c then pending s' else durable s)"
  shows "session_inv s'"
  using assms token_inv_core [of "pending s'"] by (auto simp: session_inv_def)

lemma credit_inv:
  assumes "hooks_ok hooks" and "session_inv s"
  shows "session_inv (snd (credit_tokens drv hooks u a ty r ds c s))"
proof (cases "credit_tokens drv hooks u a ty r ds c s")
  case (Pair x s')
  have pos: "0 \<le> balance_of (pending s) v" for v
    using assms(2) by (simp add: session_inv_def token_inv_nonneg)
  show ?thesis
  proof (cases x)
    case (Inl e)
    then show ?thesis
      using Pair assms(2) credit_Inl [OF assms(1)] token_inv_create
      by (fastforce simp: session_inv_def)
  next
    case (Inr y)
    with Pair credit_Inr [OF assms(1)] obtain n where
      n: "0 < n" and eff: "core (pending s') = moved u n ty r ds (core (pending s))"
      and dur: "durable s' = (if c then pending s' else durable s)" by blast
    have "token_inv (moved u n ty r ds (core (pending s)))"
      using assms(2) n pos [of u] by (intro token_inv_moved) (simp_all add: session_inv_def)
    with session_inv_effect [OF assms(2) eff _ dur] Pair show ?thesis by simp
  qed
qed

lemma debit_inv:
  assumes "hooks_ok hooks" and "session_inv s"
  shows "session_inv (snd (debit_tokens drv hooks u a ty r ds c s))"
proof (cases "debit_tokens drv hooks u a ty r ds c s")
  case (Pair x s')
  show ?thesis
  proof (cases x)
    case (Inl e)
    then show ?thesis
      using Pair assms(2) debit_Inl [OF assms(1)] by (fastforce simp: session_inv_def)
  next
    case (Inr y)
    with Pair debit_Inr [OF assms(1)] obtain n where
      n: "n \<le> balance_of (pending s) u"
      and eff: "core (pending s') = moved u (- n) ty r ds (core (pending s))"
      and dur: "durable s' = (if c then pending s' else durable s)" by blast
    have "token_inv (moved u (- n) ty r ds (core (pending s)))"
      using assms(2) n by (intro token_inv_moved) (auto simp: session_inv_def)
    with session_inv_effect [OF assms(2) eff _ dur] Pair show ?thesis by simp
  qed
qed

lemma refund_inv:
  assumes "hooks_ok hooks" and "session_inv s"
  shows "session_inv (snd (refund_tokens drv hooks u a r ds c s))"
proof (cases "refund_tokens drv hooks u a r ds c s")
  case (Pair x s')
  show ?thesis
  proof (cases x)
    case (Inl e)
    then show ?thesis
      using Pair assms(2) refund_Inl [OF assms(1)] by (fastforce simp: session_inv_def)
  next
    case (Inr k)
    show ?thesis
    proof (cases "balance_of (pending s) u \<le> 0")
      case True
      with Pair Inr refund_Inr [OF assms(1)] assms(2) show ?thesis by fastforce
    next
      case False
      with Pair Inr refund_Inr [OF assms(1)] obtain n where k: "k = min n (balance_of (pending s) u)"
        and eff: "core (pending s') = moved u (- k) T_REFUND r ds (core (pending s))"
        and dur: "durable s' = (if c then pending s' else durable s)" by fastforce
      have "token_inv (moved u (- k) T_REFUND r ds (core (pending s)))"
        using assms(2) k by (intro token_inv_moved) (auto simp: session_inv_def)
      with session_inv_effect [OF assms(2) eff _ dur] Pair show ?thesis by simp
    qed
  qed
qed

lemma complete_inv:
  assumes "hooks_ok hooks" and "session_inv s"
  shows "session_inv (snd (complete_purchase drv hooks now i s))"
proof (cases "complete_purchase drv hooks now i s")
  case (Pair x s')
  show ?thesis
  proof (cases x)
    case (Inl e)
    then show ?thesis
      using Pair assms(2) complete_Inl [OF assms(1)] by (fastforce simp: session_inv_def)
  next
    case (Inr y)
    with Pair complete_Inr [OF assms(1)] obtain p ds where p: "0 < p_token_amount p"
      and dur: "durable s' = pending s'"
      and eff: "core (pending s') = moved (p_user p) (p_token_amount p) T_PURCHASE (Some i) ds
        (put_purchase (completed now p) (core (pending s)))" by blast
    have "token_inv (moved (p_user p) (p_token_amount p) T_PURCHASE (Some i) ds
        (put_purchase (completed now p) (core (pending s))))"
      using assms(2) p token_inv_nonneg [of "pending s" "p_user p"]
      by (intro token_inv_moved) (simp_all add: session_inv_def)
    with session_inv_effect [OF assms(2) eff, where c = True] dur Pair show ?thesis by simp
  qed
qed

lemma snd_seqP_ret: "snd (seqP m (ret x) s) = snd (m s)"
  by (cases "m s"; cases "fst (m s)") (auto simp: seqP_def bindP_def)

lemma run_call_inv:
  "hooks_ok hooks \<Longrightarrow> session_inv s \<Longrightarrow> session_inv (snd (run_call drv hooks c s))"
  by (cases c) (auto simp: snd_seqP_ret credit_inv debit_inv refund_inv complete_inv)

lemma run_calls_inv:
  "hooks_ok hooks \<Longrightarrow> session_inv s \<Longrightarrow> session_inv (run_calls drv hooks cs s)"
  by (induction cs arbitrary: s) (simp_all add: run_call_inv)

section \<open>Movements that cannot fail\<close>

definition hooks_total :: "'p hook list \<Rightarrow> bool" where
  "hooks_total hooks \<longleftrightarrow> (\<forall>h \<in> set hooks. \<forall>mv s. \<exists>s'. h mv s = (Inr (), s'))"

lemma hooks_total_Nil [simp]: "hooks_total []"
  by (simp add: hooks_total_def)

lemma run_hooks_total:
  "hooks_total hooks \<Longrightarrow> \<exists>s'. run_token_movement_hooks hooks mv s = (Inr (), s')"
  unfolding run_token_movement_hooks_def
proof (induction hooks arbitrary: s)
  case (Cons h hs)
  then have "\<exists>t. h mv s = (Inr (), t)" by (simp add: hooks_total_def)
  then obtain t where "h mv s = (Inr (), t)" ..
  moreover have "hooks_total hs" using Cons.prems by (simp add: hooks_total_def)
  ultimately show ?case using Cons.IH [of t] by (simp add: prog_simps)
qed simp

lemma movement_total:
  assumes "\<forall>n. drv n = None" and "hooks_total hooks"
  shows "\<exists>s'. apply_movement drv hooks u n ty r ds c s = (Inr (), s')"
proof -
  obtain f where "run_token_movement_hooks hooks mv t = (Inr (), f mv t)" for mv t
    using run_hooks_total [OF assms(2)] by metis
  with assms(1) show ?thesis
    by (cases c) (simp_all add: apply_movement_def try_except_def Let_def whenP_def bindP_def
        seqP_def publish_token_moved_def)
qed

lemma refund_total:
  assumes "\<forall>n. drv n = None" and "hooks_total hooks"
  shows "\<exists>k s'. refund_tokens drv hooks u (Whole n) r ds c s = (Inr k, s')"
proof -
  obtain s' where "apply_movement drv hooks u (- min n (balance_of (pending s) u)) T_REFUND r ds c s
      = (Inr (), s')" using movement_total [OF assms] by blast
  then show ?thesis
    by (auto simp: refund_tokens_def find_balance_def Let_def balance_of_def prog_simps
        split: option.split)
qed

lemma debit_total:
  assumes "\<forall>n. drv n = None" and "hooks_total hooks" and "0 < n" and "n \<le> balance_of (pending s) u"
  shows "\<exists>s'. debit_tokens drv hooks u (Whole n) ty r ds c s = (Inr (), s')"
proof -
  have "tbl_balance (pending s) u \<noteq> None"
    using assms(3,4) balance_of_None [of "pending s" u] by auto
  with assms(3,4) movement_total [OF assms(1,2)] show ?thesis
    by (auto simp: debit_tokens_def find_balance_def balance_of_def)
qed

lemma credit_total:
  assumes "\<forall>n. drv n = None" and "hooks_total hooks" and "0 < n"
  shows "\<exists>s'. credit_tokens drv hooks u (Whole n) ty r ds c s = (Inr (), s')"
proof -
  have "\<exists>t. get_or_create drv u s = (Inr (), t)"
    using assms(1) by (simp add: get_or_create_run split: option.split)
  with assms(3) movement_total [OF assms(1,2)] show ?thesis
    by (auto simp: credit_tokens_def seqP_Inr)
qed

section \<open>Properties\<close>

definition no_faults :: driver where
  "no_faults n = None"

lemma no_faults_eval [simp]: "no_faults n = None"
  by (simp add: no_faults_def)

text \<open>A database with one user holding seven tokens, for the witnesses.\<close>

definition sample_db :: db where
  "sample_db = moved ''alice'' 7 T_BONUS None None empty_db"

lemma sample_db_inv: "token_inv sample_db"
  unfolding sample_db_def
  by (rule token_inv_moved) (auto simp: token_inv_def empty_db_def balance_of_def tx_sum_def)

lemma sample_db_balance [simp]: "balance_of sample_db ''alice'' = 7"
  by (simp add: sample_db_def balance_of_def moved_def empty_db_def put_balance_def add_tx_def)

text \<open>
  C1. Whatever calls are made on the token service, in whatever order, with whatever
  arguments, whatever the database answers at each flush and commit and whatever the hooks
  raise: in the committed tables and in the session, every user's balance is the sum of the
  user's ledger rows and is not negative.
\<close>

theorem token_ledger_invariant:
  assumes "hooks_ok hooks" and "token_inv d"
  shows "let s = run_calls drv hooks cs (open_session d)
         in (\<forall>u. balance_of (durable s) u = tx_sum (tbl_tx (durable s)) u \<and> 0 \<le> balance_of (durable s) u)
          \<and> (\<forall>u. balance_of (pending s) u = tx_sum (tbl_tx (pending s)) u \<and> 0 \<le> balance_of (pending s) u)"
proof -
  have "session_inv (open_session d)"
    using assms(2) by (simp add: session_inv_def open_session_def)
  from run_calls_inv [OF assms(1) this] show ?thesis
    unfolding session_inv_def token_inv_def Let_def by blast
qed

theorem token_ledger_invariant_witness:
  "let s = run_calls (\<lambda>n. if n = 1 then Some (DatabaseError ''gone'') else None) []
       [Credit ''bob'' (Whole 5) T_BONUS None None True,
        Debit ''alice'' (Whole 3) T_USAGE None None True] (open_session sample_db)
   in \<forall>u. balance_of (durable s) u = tx_sum (tbl_tx (durable s)) u \<and> 0 \<le> balance_of (durable s) u"
  using token_ledger_invariant [OF hooks_ok_Nil sample_db_inv] unfolding Let_def by blast

text \<open>
  C12. A service call that raises never changes the committed tables, and no balance or
  ledger row it wrote stays behind on the session: the session shows either the committed
  tables again or the balances and ledger it showed before the call.
\<close>

theorem failed_call_moves_nothing:
  assumes "hooks_ok hooks" and "run_call drv hooks call s = (Inl e, s')"
  shows "durable s' = durable s \<and>
    (pending s' = durable s \<or>
     balance_of (pending s') = balance_of (pending s) \<and> tbl_tx (pending s') = tbl_tx (pending s))"
proof (cases call)
  case (Credit u a ty r ds c)
  have zero: "balance_of (put_balance u 0 d) = balance_of d" if "tbl_balance d u = None"
    for d :: "'a db_scheme"
    using balance_of_None [OF that] by auto
  from Credit assms(2) have "credit_tokens drv hooks u a ty r ds c s = (Inl e, s')"
    by (auto elim: seqP_InlE)
  from credit_Inl [OF assms(1) this] zero show ?thesis by (auto simp: put_balance_def)
next
  case (Debit u a ty r ds c)
  with assms(2) have "debit_tokens drv hooks u a ty r ds c s = (Inl e, s')"
    by (auto elim: seqP_InlE)
  from debit_Inl [OF assms(1) this] show ?thesis by auto
next
  case (Refund u a r ds c)
  with assms(2) refund_Inl [OF assms(1)] show ?thesis by fastforce
next
  case (Complete now i)
  with assms(2) have "complete_purchase drv hooks now i s = (Inl e, s')"
    by (auto elim: seqP_InlE)
  from complete_Inl [OF assms(1) this] show ?thesis by auto
qed

theorem failed_call_moves_nothing_witness:
  "let drv = (\<lambda>n. if n = 1 then Some (DatabaseError ''commit'') else None);
       s = open_session sample_db;
       res = run_call drv [] (Debit ''alice'' (Whole 3) T_USAGE None None True) s
   in fst res = Inl (DatabaseError ''commit'') \<and> durable (snd res) = durable s"
proof -
  let ?drv = "\<lambda>n. if n = 1 then Some (DatabaseError ''commit'') else None"
  let ?res = "run_call ?drv [] (Debit ''alice'' (Whole 3) T_USAGE None None True)
    (open_session sample_db)"
  have r: "fst ?res = Inl (DatabaseError ''commit'')"
    using sample_db_balance
    by (auto simp: debit_tokens_def find_balance_def apply_movement_def seqP_def bindP_def
        try_except_def open_session_def run_token_movement_hooks_def whenP_def Let_def
        balance_of_def split: option.splits)
  have "durable (snd ?res) = durable (open_session sample_db)"
    using failed_call_moves_nothing [OF hooks_ok_Nil, of ?drv _ "open_session sample_db"
        "DatabaseError ''commit''"] r by (metis prod.collapse)
  with r show ?thesis by (simp add: Let_def)
qed

text \<open>
  A debit that returns moved exactly the whole positive amount asked for, covered by the
  balance: the tables of core are those before with one balance lowered by the amount and
  one ledger row appended, committed if and only if the call asked for it. A debit beyond
  the balance raises the insufficient-balance error and leaves the session untouched; and a
  positive amount within the balance is refused only when the database or a hook fails.
\<close>

theorem debit_tokens_spec:
  assumes "hooks_ok hooks"
    and "debit_tokens drv hooks u (Whole n) ty r ds c s = (res, s')"
  shows "case res of
      Inr _ \<Rightarrow> 0 < n \<and> n \<le> balance_of (pending s) u \<and>
        core (pending s') = moved u (- n) ty r ds (core (pending s)) \<and>
        durable s' = (if c then pending s' else durable s)
    | Inl e \<Rightarrow> durable s' = durable s \<and>
        (if 0 < n \<and> balance_of (pending s) u < n
         then e = ValueError ''Insufficient token balance'' \<and> s' = s else True) \<and>
        \<not> (0 < n \<and> n \<le> balance_of (pending s) u \<and> (\<forall>k. drv k = None) \<and> hooks_total hooks)"
proof (cases res)
  case (Inl e)
  have "e = ValueError ''Insufficient token balance'' \<and> s' = s"
    if "0 < n" "balance_of (pending s) u < n"
    using that assms(2) Inl
    by (auto simp: debit_tokens_def find_balance_def balance_of_def split: option.splits if_splits)
  moreover have "\<not> (0 < n \<and> n \<le> balance_of (pending s) u \<and> (\<forall>k. drv k = None) \<and> hooks_total hooks)"
    using debit_total [of drv hooks n s u ty r ds c] assms(2) Inl by auto
  ultimately show ?thesis using Inl assms(2) debit_Inl [OF assms(1)] by auto
next
  case (Inr x)
  with assms(2) debit_Inr [OF assms(1)] show ?thesis by fastforce
qed

theorem debit_tokens_spec_witness:
  "let res = debit_tokens no_faults [] ''alice'' (Whole 9) T_USAGE None None True
     (open_session sample_db)
   in fst res = Inl (ValueError ''Insufficient token balance'') \<and>
      durable (snd res) = sample_db"
proof -
  let ?s = "open_session sample_db"
  obtain x s' where run: "debit_tokens no_faults [] ''alice'' (Whole 9) T_USAGE None None True ?s
    = (x, s')" by fastforce
  have b: "balance_of (pending ?s) ''alice'' = 7" by (simp add: open_session_def)
  show ?thesis
    using debit_tokens_spec [OF hooks_ok_Nil run] b run
    by (auto simp: open_session_def split: sum.splits)
qed

text \<open>
  Completing a purchase is exactly-once: if the first call returns, the purchase was
  pending and the buyer got its tokens, durably together with the status; a second call on
  the resulting session raises "is not pending" and changes nothing.
\<close>

theorem complete_purchase_once:
  assumes "hooks_ok hooks" and "keyed (pending s)"
    and "complete_purchase drv hooks now i s = (Inr x, s')"
  shows "(\<exists>p. tbl_purchase (pending s) i = Some p \<and> p_status p = P_PENDING \<and>
      tbl_purchase (durable s') i = Some (completed now p) \<and>
      balance_of (durable s') (p_user p) = balance_of (pending s) (p_user p) + p_token_amount p)
    \<and> complete_purchase drv hooks later i s' =
        (Inl (ValueError (''Purchase '' @ i @ '' is not pending'')), s')"
proof -
  from complete_Inr [OF assms(1,3)] obtain p where
    p: "tbl_purchase (pending s) i = Some p" "p_status p = P_PENDING"
    and dur: "durable s' = pending s'"
    and eff: "core (pending s') =
      moved (p_user p) (p_token_amount p) T_PURCHASE (Some i)
        (Some (bundle_description ''Token bundle purchase: '' (p_token_amount p) '' tokens''))
        (put_purchase (completed now p) (core (pending s)))" by blast
  have id: "p_id p = i" using assms(2) p by (simp add: keyed_def)
  have bal: "balance_of (pending s') (p_user p) =
      balance_of (pending s) (p_user p) + p_token_amount p"
    using arg_cong [OF eff, of "\<lambda>d. balance_of d (p_user p)"] by simp
  have row: "tbl_purchase (pending s') i = Some (completed now p)"
    using arg_cong [OF eff, of "\<lambda>d. tbl_purchase d i"] id by simp
  from row have "complete_purchase drv hooks later i s' =
      (Inl (ValueError (''Purchase '' @ i @ '' is not pending'')), s')"
    by (simp add: complete_purchase_def find_purchase_def)
  with p bal row dur show ?thesis by auto
qed

definition sample_purchase :: purchase where
  "sample_purchase = \<lparr>p_id = ''p1'', p_user = ''alice'', p_bundle = ''b1'', p_invoice = None,
     p_status = P_PENDING, p_tokens_credited = False, p_token_amount = 20, p_price = 500,
     p_completed_at = None\<rparr>"

lemma sample_purchase_keyed: "keyed (put_purchase sample_purchase sample_db)"
  by (simp add: sample_db_def sample_purchase_def keyed_def put_purchase_def empty_db_def)

theorem complete_purchase_once_witness:
  "let s = open_session (put_purchase sample_purchase sample_db);
       s' = snd (complete_purchase no_faults [] 5 ''p1'' s)
   in complete_purchase no_faults [] 6 ''p1'' s' =
        (Inl (ValueError ''Purchase p1 is not pending''), s')"
proof -
  let ?s = "open_session (put_purchase sample_purchase sample_db)"
  have k: "keyed (pending ?s)" using sample_purchase_keyed by (simp add: open_session_def)
  have "fst (complete_purchase no_faults [] 5 ''p1'' ?s) = Inr ()"
    by (simp add: complete_purchase_def find_purchase_def open_session_def sample_purchase_def
        put_purchase_def credit_tokens_def apply_movement_def seqP_def bindP_def try_except_def
        run_token_movement_hooks_def whenP_def Let_def get_or_create_run publish_token_moved_def
        split: option.split)
  then have "complete_purchase no_faults [] 5 ''p1'' ?s =
      (Inr (), snd (complete_purchase no_faults [] 5 ''p1'' ?s))" by (metis prod.collapse)
  from complete_purchase_once [OF hooks_ok_Nil k this, of 6] show ?thesis by (simp add: Let_def)
qed

text \<open>
  A refund clamps to the balance: it returns how much it took, the smaller of the amount
  and a positive balance and nothing from an empty account, and exactly that much has left
  the account. (The amount is not required to be positive: a negative one credits.)
\<close>

theorem refund_tokens_clamps:
  assumes "hooks_ok hooks"
    and "refund_tokens drv hooks u (Whole n) r ds c s = (Inr k, s')"
  shows "k = (if balance_of (pending s) u \<le> 0 then 0 else min n (balance_of (pending s) u)) \<and>
    balance_of (pending s') = (balance_of (pending s))(u := balance_of (pending s) u - k) \<and>
    (0 \<le> balance_of (pending s) u \<longrightarrow> 0 \<le> balance_of (pending s') u)"
proof (cases "balance_of (pending s) u \<le> 0")
  case True
  then show ?thesis using refund_Inr [OF assms] by auto
next
  case False
  from refund_Inr [OF assms] False have k: "k = min n (balance_of (pending s) u)"
    and eff: "core (pending s') = moved u (- k) T_REFUND r ds (core (pending s))" by auto
  have "balance_of (pending s') = (balance_of (pending s))(u := balance_of (pending s) u - k)"
    using arg_cong [OF eff, of balance_of] by simp
  with False k show ?thesis by simp
qed

theorem refund_tokens_clamps_witness:
  "let res = refund_tokens no_faults [] ''alice'' (Whole 9) None None True (open_session sample_db)
   in fst res = Inr 7 \<and> balance_of (pending (snd res)) ''alice'' = 0"
proof -
  let ?res = "refund_tokens no_faults [] ''alice'' (Whole 9) None None True (open_session sample_db)"
  have "\<exists>k. fst ?res = Inr k"
    by (simp add: refund_tokens_def find_balance_def apply_movement_def seqP_def bindP_def
        try_except_def open_session_def run_token_movement_hooks_def whenP_def Let_def
        publish_token_moved_def split: option.split)
  then obtain k where k: "fst ?res = Inr k" ..
  then have run: "?res = (Inr k, snd ?res)" by (metis prod.collapse)
  have b: "balance_of (pending (open_session sample_db)) ''alice'' = 7"
    by (simp add: open_session_def)
  have "k = 7 \<and> balance_of (pending (snd ?res)) ''alice'' = 0"
    using refund_tokens_clamps [OF hooks_ok_Nil run] b by simp
  with k show ?thesis unfolding Let_def by blast
qed

text \<open>
  C38. Completing a purchase does complete: on a database that answers, with hooks that do not
  fail, a pending purchase of a positive number of tokens is completed and its buyer credited in
  the committed tables, with one ledger row that names the purchase.
\<close>

theorem purchase_completes:
  assumes "hooks_ok hooks" and "hooks_total hooks" and "\<forall>n. drv n = None"
    and "tbl_purchase (pending s) i = Some p" and "p_status p = P_PENDING" and "0 < p_token_amount p"
  shows "\<exists>s'. complete_purchase drv hooks now i s = (Inr (), s') \<and>
    core (durable s') = moved (p_user p) (p_token_amount p) T_PURCHASE (Some i)
      (Some (''Token bundle purchase: '' @ str_int (p_token_amount p) @ '' tokens''))
      (put_purchase (completed now p) (core (pending s)))"
proof -
  obtain t where "credit_tokens drv hooks (p_user p) (Whole (p_token_amount p)) T_PURCHASE (Some i)
      (Some (bundle_description ''Token bundle purchase: '' (p_token_amount p) '' tokens'')) True
      (s\<lparr>pending := put_purchase (completed now p) (pending s)\<rparr>) = (Inr (), t)"
    using credit_total [OF assms(3,2,6)] by blast
  then have run: "complete_purchase drv hooks now i s = (Inr (), t)"
    using assms(4,5) by (simp add: complete_purchase_def find_purchase_def try_except_def completed_def)
  from complete_Inr [OF assms(1) run] assms(4) show ?thesis
    using run by (auto simp: bundle_description_def)
qed

theorem purchase_completes_witness:
  "\<exists>s'. complete_purchase no_faults [] 5 ''p1'' (open_session (put_purchase sample_purchase sample_db)) =
     (Inr (), s') \<and>
   core (durable s') = moved ''alice'' 20 T_PURCHASE (Some ''p1'')
     (Some (''Token bundle purchase: '' @ str_int 20 @ '' tokens''))
     (put_purchase (completed 5 sample_purchase) (core (put_purchase sample_purchase sample_db)))"
proof -
  have "p_user sample_purchase = ''alice''" "p_token_amount sample_purchase = 20"
    "p_status sample_purchase = P_PENDING"
    "tbl_purchase (pending (open_session (put_purchase sample_purchase sample_db))) ''p1'' =
      Some sample_purchase"
    by (simp_all add: sample_purchase_def open_session_def put_purchase_def)
  with purchase_completes [OF hooks_ok_Nil hooks_total_Nil, of no_faults
      "open_session (put_purchase sample_purchase sample_db)" "''p1''" sample_purchase 5]
  show ?thesis by (simp add: open_session_def)
qed

end
