(* ===== verification/Events.thy ===== *)
theory Events
  imports Prelude "HOL-Library.Multiset"
begin

text \<open>
  Events: the result values of \<open>vbwd/events/domain.py\<close>, the publish/subscribe bus of
  \<open>vbwd/events/bus.py\<close>, and the three dispatchers: \<open>DomainEventDispatcher\<close>
  (\<open>domain.py\<close>), the plugin \<open>EventDispatcher\<close> (\<open>dispatcher.py\<close>) and the
  \<open>EnhancedEventDispatcher\<close> (\<open>core/dispatcher.py\<close>).

  Callbacks and handlers belong to plugins. They are values of a type parameter, compared
  for identity as Python does, and what they do when called is a parameter: any program on
  the state, which may raise.
\<close>

section \<open>Event results\<close>

text \<open>\<open>combine\<close> collects data into a list, so result data is a value or a list of data.\<close>

datatype 'd rdata = One 'd | Many "'d rdata list"

record 'd event_result =
  er_success :: bool
  er_data :: "'d rdata option"
  er_error :: "string option"
  er_error_type :: "string option"

definition success_result :: "'d rdata option \<Rightarrow> 'd event_result" where
  "success_result d = \<lparr>er_success = True, er_data = d, er_error = None, er_error_type = None\<rparr>"

definition error_result :: "string \<Rightarrow> string \<Rightarrow> 'd event_result" where
  "error_result e ty =
     \<lparr>er_success = False, er_data = None, er_error = Some e, er_error_type = Some ty\<rparr>"

definition no_handler :: "'d event_result" where
  "no_handler = \<lparr>er_success = False, er_data = None,
     er_error = Some ''No handler registered for event'', er_error_type = Some ''no_handler''\<rparr>"

fun join_with :: "string \<Rightarrow> string list \<Rightarrow> string" where
  "join_with sep [] = []"
| "join_with sep [s] = s"
| "join_with sep (s # ss) = s @ sep @ join_with sep ss"

definition truthy_errors :: "'d event_result list \<Rightarrow> string list" where
  "truthy_errors rs = concat (map (\<lambda>r. case er_error r of
      None \<Rightarrow> [] | Some e \<Rightarrow> if e = [] then [] else [e]) rs)"

definition combine :: "'d event_result list \<Rightarrow> 'd event_result" where
  "combine results =
     (if results = [] then success_result None
      else case filter (\<lambda>r. \<not> er_success r) results of
        f # failed \<Rightarrow>
          error_result (join_with ''; '' (truthy_errors (f # failed)))
            (str_or (er_error_type f) ''handler_error'')
      | [] \<Rightarrow>
          success_result (Some (Many (concat (map (\<lambda>r. case er_data r of
            None \<Rightarrow> [] | Some d \<Rightarrow> [d]) results)))))"

lemma success_result_sel [simp]: "er_success (success_result d)" "er_data (success_result d) = d"
  by (simp_all add: success_result_def)

lemma error_result_sel [simp]: "\<not> er_success (error_result e ty)"
  "er_error (error_result e ty) = Some e" "er_error_type (error_result e ty) = Some ty"
  by (simp_all add: error_result_def)

lemma no_handler_sel [simp]: "\<not> er_success no_handler"
  "er_error_type no_handler = Some ''no_handler''"
  by (simp_all add: no_handler_def)

lemma combine_success: "er_success (combine rs) \<longleftrightarrow> (\<forall>r \<in> set rs. er_success r)"
proof (cases "filter (\<lambda>r. \<not> er_success r) rs")
  case Nil
  then have "\<forall>r \<in> set rs. er_success r" by (simp add: filter_empty_conv)
  with Nil show ?thesis by (simp add: combine_def)
next
  case (Cons f failed)
  then have "f \<in> set (filter (\<lambda>r. \<not> er_success r) rs)" by (metis list.set_intros(1))
  then have "f \<in> set rs" "\<not> er_success f" by simp_all
  with Cons show ?thesis by (auto simp: combine_def)
qed

section \<open>The event bus\<close>

record 'c event_bus =
  subscribers :: "string \<Rightarrow> 'c list"
  global_subscribers :: "'c list"

definition new_bus :: "'c event_bus" where
  "new_bus = \<lparr>subscribers = (\<lambda>_. []), global_subscribers = []\<rparr>"

definition subscribe_all :: "'c \<Rightarrow> 'c event_bus \<Rightarrow> 'c event_bus" where
  "subscribe_all cb bus =
     (if cb \<notin> set (global_subscribers bus)
      then bus\<lparr>global_subscribers := global_subscribers bus @ [cb]\<rparr> else bus)"

definition subscribe :: "string \<Rightarrow> 'c \<Rightarrow> 'c event_bus \<Rightarrow> 'c event_bus" where
  "subscribe name cb bus =
     (if cb \<notin> set (subscribers bus name)
      then bus\<lparr>subscribers := (subscribers bus)(name := subscribers bus name @ [cb])\<rparr>
      else bus)"

definition unsubscribe :: "string \<Rightarrow> 'c \<Rightarrow> 'c event_bus \<Rightarrow> 'c event_bus" where
  "unsubscribe name cb bus =
     bus\<lparr>subscribers := (subscribers bus)(name := remove1 cb (subscribers bus name))\<rparr>"

definition has_subscribers :: "string \<Rightarrow> 'c event_bus \<Rightarrow> bool" where
  "has_subscribers name bus \<longleftrightarrow> subscribers bus name \<noteq> [] \<or> global_subscribers bus \<noteq> []"

definition bus_callbacks :: "string \<Rightarrow> 'c event_bus \<Rightarrow> 'c list" where
  "bus_callbacks name bus = subscribers bus name @ global_subscribers bus"

text \<open>
  \<open>publish\<close>: the callbacks are copied first, so one that subscribes or unsubscribes during
  the loop does not change it; \<open>the_bus\<close> reads the bus from the state, \<open>run\<close> is what
  calling a callback does.
\<close>

definition bus_publish ::
  "('s \<Rightarrow> 'c event_bus) \<Rightarrow> ('c \<Rightarrow> string \<Rightarrow> 'd \<Rightarrow> ('s, unit) prog) \<Rightarrow> string \<Rightarrow> 'd \<Rightarrow> ('s, unit) prog" where
  "bus_publish the_bus run name data =
     bindP (gets (\<lambda>s. bus_callbacks name (the_bus s))) (\<lambda>callbacks.
       for_each (\<lambda>cb. try_except (run cb name data) (\<lambda>e. ret ())) callbacks)"

definition bus_wf :: "'c event_bus \<Rightarrow> bool" where
  "bus_wf bus \<longleftrightarrow> distinct (global_subscribers bus) \<and> (\<forall>n. distinct (subscribers bus n))"

lemma bus_wf_new [simp]: "bus_wf new_bus"
  by (simp add: bus_wf_def new_bus_def)

lemma bus_wf_subscribe [simp]: "bus_wf bus \<Longrightarrow> bus_wf (subscribe n cb bus)"
  by (auto simp: bus_wf_def subscribe_def)

lemma bus_wf_subscribe_all [simp]: "bus_wf bus \<Longrightarrow> bus_wf (subscribe_all cb bus)"
  by (auto simp: bus_wf_def subscribe_all_def)

lemma bus_wf_unsubscribe [simp]: "bus_wf bus \<Longrightarrow> bus_wf (unsubscribe n cb bus)"
  by (auto simp: bus_wf_def unsubscribe_def)

lemma for_each_guarded:
  "for_each (\<lambda>x. try_except (f x) (\<lambda>e. ret ())) xs s = (Inr (), fold (\<lambda>x t. snd (f x t)) xs s)"
proof (induction xs arbitrary: s)
  case (Cons x xs)
  then show ?case
    by (cases "f x s"; cases "fst (f x s)") (auto simp: seqP_def bindP_def try_except_def)
qed simp

section \<open>DomainEventDispatcher\<close>

text \<open>
  The state of the dispatcher is its table of handlers. \<open>can\<close> and \<open>handle\<close> are what the
  methods of a handler do; \<open>forward\<close> is the publishing on the bus, absent when there is
  no bus.
\<close>

type_synonym 'h handler_table = "string \<rightharpoonup> 'h list"

definition dispatcher_register :: "string \<Rightarrow> 'h \<Rightarrow> 'h handler_table \<Rightarrow> 'h handler_table" where
  "dispatcher_register name h tbl =
     tbl(name \<mapsto> (case tbl name of None \<Rightarrow> [] | Some hs \<Rightarrow> hs) @ [h])"

definition has_handler :: "string \<Rightarrow> 'h handler_table \<Rightarrow> bool" where
  "has_handler name tbl \<longleftrightarrow> (case tbl name of None \<Rightarrow> False | Some hs \<Rightarrow> hs \<noteq> [])"

text \<open>One turn of the loop over the handlers, the exception handler included.\<close>

definition try_handler ::
  "('h \<Rightarrow> 'e \<Rightarrow> ('s, bool) prog) \<Rightarrow> ('h \<Rightarrow> 'e \<Rightarrow> ('s, 'd event_result) prog) \<Rightarrow> 'e
     \<Rightarrow> 'd event_result list \<Rightarrow> 'h \<Rightarrow> ('s, 'd event_result list) prog" where
  "try_handler can handle event results h =
     try_except
       (bindP (can h event) (\<lambda>ok.
          if ok then bindP (handle h event) (\<lambda>r. ret (results @ [r])) else ret results))
       (\<lambda>e. ret (results @ [error_result (exn_str e) ''handler_exception'']))"

definition emit ::
  "('h \<Rightarrow> 'e \<Rightarrow> ('s, bool) prog) \<Rightarrow> ('h \<Rightarrow> 'e \<Rightarrow> ('s, 'd event_result) prog)
     \<Rightarrow> (string \<Rightarrow> 'e \<Rightarrow> ('s, unit) prog) option \<Rightarrow> 'h handler_table \<Rightarrow> string \<Rightarrow> 'e
     \<Rightarrow> ('s, 'd event_result) prog" where
  "emit can handle forward tbl name event =
     bindP
       (case tbl name of
          None \<Rightarrow> ret []
        | Some hs \<Rightarrow> foldP (try_handler can handle event) [] hs)
       (\<lambda>results.
          seqP
            (case forward of
               None \<Rightarrow> ret ()
             | Some publish \<Rightarrow> try_except (publish name event) (\<lambda>e. ret ()))
            (ret (if results = [] then no_handler else combine results)))"

text \<open>What one handler contributes to the results, from the state it is called in.\<close>

definition handler_outcome ::
  "('h \<Rightarrow> 'e \<Rightarrow> ('s, bool) prog) \<Rightarrow> ('h \<Rightarrow> 'e \<Rightarrow> ('s, 'd event_result) prog) \<Rightarrow> 'e
     \<Rightarrow> 'h \<Rightarrow> 's \<Rightarrow> 'd event_result list \<times> 's" where
  "handler_outcome can handle event h s =
     (case can h event s of
        (Inl e, s') \<Rightarrow> ([error_result (exn_str e) ''handler_exception''], s')
      | (Inr ok, s') \<Rightarrow>
          if \<not> ok then ([], s')
          else (case handle h event s' of
             (Inl e, s'') \<Rightarrow> ([error_result (exn_str e) ''handler_exception''], s'')
           | (Inr r, s'') \<Rightarrow> ([r], s'')))"

fun handler_outcomes ::
  "('h \<Rightarrow> 'e \<Rightarrow> ('s, bool) prog) \<Rightarrow> ('h \<Rightarrow> 'e \<Rightarrow> ('s, 'd event_result) prog) \<Rightarrow> 'e
     \<Rightarrow> 'h list \<Rightarrow> 's \<Rightarrow> 'd event_result list \<times> 's" where
  "handler_outcomes can handle event [] s = ([], s)"
| "handler_outcomes can handle event (h # hs) s =
     (case handler_outcome can handle event h s of
        (rs, s') \<Rightarrow> (case handler_outcomes can handle event hs s' of
           (rs', s'') \<Rightarrow> (rs @ rs', s'')))"

lemma try_handler_run:
  "try_handler can handle event results h s =
     (case handler_outcome can handle event h s of (rs, s') \<Rightarrow> (Inr (results @ rs), s'))"
  by (auto simp: try_handler_def handler_outcome_def try_except_def bindP_def
      split: prod.splits sum.splits)

lemma foldP_try_handler:
  "foldP (try_handler can handle event) results hs s =
     (case handler_outcomes can handle event hs s of (rs, s') \<Rightarrow> (Inr (results @ rs), s'))"
proof (induction hs arbitrary: results s)
  case (Cons h hs)
  then show ?case
    by (auto simp: try_handler_run bindP_def split: prod.splits)
qed simp

lemma emit_run:
  "emit can handle forward tbl name event s =
     (case handler_outcomes can handle event (case tbl name of None \<Rightarrow> [] | Some hs \<Rightarrow> hs) s of
        (rs, s') \<Rightarrow>
          (Inr (if rs = [] then no_handler else combine rs),
           case forward of None \<Rightarrow> s' | Some publish \<Rightarrow> snd (publish name event s')))"
  by (auto simp: emit_def bindP_def seqP_def foldP_try_handler try_except_def
      split: option.splits prod.splits sum.splits)

section \<open>Registries ordered by priority\<close>

text \<open>
  Both priority dispatchers append the new entry and sort the list again with Python's
  stable sort. The contract: the handlers of an event are those registered for it, ordered
  by key, in the order of registration where keys are equal.
\<close>

lemma sort_key_sort_key_append:
  "sort_key f (sort_key f xs @ ys) = sort_key f (xs @ ys)"
proof (rule sym, rule properties_for_sort_key)
  have stable: "filter (\<lambda>x. f k = f x) (sort_key f zs) = filter (\<lambda>x. f k = f x) zs" for k zs
    using sort_key_stable [of f "f k" zs] by (simp add: eq_commute)
  show "mset (sort_key f (sort_key f xs @ ys)) = mset (xs @ ys)" by simp
  show "\<And>k. k \<in> set (sort_key f (sort_key f xs @ ys)) \<Longrightarrow>
    filter (\<lambda>x. f k = f x) (sort_key f (sort_key f xs @ ys)) = filter (\<lambda>x. f k = f x) (xs @ ys)"
    by (simp add: stable)
  show "sorted (map f (sort_key f (sort_key f xs @ ys)))" by simp
qed

locale priority_registry =
  fixes handlers :: "'r \<Rightarrow> string \<Rightarrow> 'h list"
    and add :: "string \<Rightarrow> 'h \<Rightarrow> 'r \<Rightarrow> 'r"
    and key :: "'h \<Rightarrow> 'k::linorder"
  assumes add_handlers:
    "handlers (add n h r) = (handlers r)(n := sort_key key (handlers r n @ [h]))"
begin

lemma handlers_after:
  assumes "handlers r n = sort_key key hs"
  shows "handlers (fold (\<lambda>(m, h). add m h) regs r) n =
    sort_key key (hs @ map snd (filter (\<lambda>(m, _). m = n) regs))"
  using assms
proof (induction regs arbitrary: r hs)
  case Nil
  then show ?case by simp
next
  case (Cons reg regs)
  obtain m h where reg: "reg = (m, h)" by fastforce
  show ?case
  proof (cases "m = n")
    case True
    have "handlers (add m h r) n = sort_key key (hs @ [h])"
      using Cons.prems True by (simp add: add_handlers sort_key_sort_key_append)
    from Cons.IH [OF this] show ?thesis using reg True by simp
  next
    case False
    have "handlers (add m h r) n = sort_key key hs"
      using Cons.prems False by (simp add: add_handlers)
    from Cons.IH [OF this] show ?thesis using reg False by simp
  qed
qed

end

section \<open>EventDispatcher\<close>

datatype event_priority = HIGHEST | HIGH | NORMAL | LOW | LOWEST

fun priority_value :: "event_priority \<Rightarrow> nat" where
  "priority_value HIGHEST = 1"
| "priority_value HIGH = 2"
| "priority_value NORMAL = 3"
| "priority_value LOW = 4"
| "priority_value LOWEST = 5"

lemma priority_value_inj: "priority_value p = priority_value q \<Longrightarrow> p = q"
  by (cases p; cases q) simp_all

instantiation event_priority :: linorder
begin

definition less_eq_event_priority :: "event_priority \<Rightarrow> event_priority \<Rightarrow> bool" where
  "less_eq_event_priority p q \<longleftrightarrow> priority_value p \<le> priority_value q"

definition less_event_priority :: "event_priority \<Rightarrow> event_priority \<Rightarrow> bool" where
  "less_event_priority p q \<longleftrightarrow> priority_value p < priority_value q"

instance
  by standard (auto simp: less_eq_event_priority_def less_event_priority_def
      intro: priority_value_inj)

end

record 'c listener =
  l_callback :: 'c
  l_priority :: event_priority

lemma listener_eta [simp]: "\<lparr>l_callback = l_callback l, l_priority = l_priority l\<rparr> = l"
  by (cases l) simp

record 'd event =
  ev_name :: string
  ev_data :: 'd
  ev_stopped :: bool

definition stop_propagation :: "'d event \<Rightarrow> 'd event" where
  "stop_propagation e = e\<lparr>ev_stopped := True\<rparr>"

type_synonym 'c listener_table = "string \<rightharpoonup> 'c listener list"

definition get_listeners :: "'c listener_table \<Rightarrow> string \<Rightarrow> 'c listener list" where
  "get_listeners tbl name = (case tbl name of None \<Rightarrow> [] | Some ls \<Rightarrow> ls)"

definition add_listener ::
  "string \<Rightarrow> 'c \<Rightarrow> event_priority \<Rightarrow> 'c listener_table \<Rightarrow> 'c listener_table" where
  "add_listener name cb prio tbl =
     tbl(name \<mapsto> sort_key l_priority
       (get_listeners tbl name @ [\<lparr>l_callback = cb, l_priority = prio\<rparr>]))"

definition remove_listener :: "string \<Rightarrow> 'c \<Rightarrow> 'c listener_table \<Rightarrow> 'c listener_table" where
  "remove_listener name cb tbl =
     (case tbl name of
        None \<Rightarrow> tbl
      | Some ls \<Rightarrow> tbl(name \<mapsto> filter (\<lambda>l. l_callback l \<noteq> cb) ls))"

definition has_listeners :: "'c listener_table \<Rightarrow> string \<Rightarrow> bool" where
  "has_listeners tbl name \<longleftrightarrow> (case tbl name of None \<Rightarrow> False | Some ls \<Rightarrow> ls \<noteq> [])"

text \<open>
  \<open>dispatch\<close>: the event is part of the state the callbacks see and change; the loop stops
  at the first turn that finds propagation stopped, and swallows what a callback raises.
\<close>

fun dispatch_loop ::
  "('c \<Rightarrow> ('d event \<times> 's, unit) prog) \<Rightarrow> 'c listener list \<Rightarrow> ('d event \<times> 's, unit) prog" where
  "dispatch_loop run [] = ret ()"
| "dispatch_loop run (l # ls) = bindP (gets (\<lambda>s. ev_stopped (fst s))) (\<lambda>stopped.
     if stopped then ret ()
     else seqP (try_except (run (l_callback l)) (\<lambda>e. ret ())) (dispatch_loop run ls))"

definition dispatch ::
  "('c \<Rightarrow> ('d event \<times> 's, unit) prog) \<Rightarrow> 'c listener_table \<Rightarrow> ('d event \<times> 's, unit) prog" where
  "dispatch run tbl = bindP (gets (\<lambda>s. ev_name (fst s))) (\<lambda>name.
     case tbl name of None \<Rightarrow> ret () | Some ls \<Rightarrow> dispatch_loop run ls)"

interpretation listener_registry: priority_registry
  get_listeners "\<lambda>n l. add_listener n (l_callback l) (l_priority l)" l_priority
  by unfold_locales (auto simp: get_listeners_def add_listener_def fun_eq_iff)

section \<open>EnhancedEventDispatcher\<close>

text \<open>
  A handler knows its event class and its priority, a number; larger comes first, as
  \<open>sort(reverse=True)\<close> orders, which keeps the order of equal elements.
\<close>

type_synonym 'h ranked_table = "string \<rightharpoonup> (int \<times> 'h) list"

definition ranked_handlers :: "'h ranked_table \<Rightarrow> string \<Rightarrow> (int \<times> 'h) list" where
  "ranked_handlers tbl name = (case tbl name of None \<Rightarrow> [] | Some hs \<Rightarrow> hs)"

definition enhanced_register :: "string \<Rightarrow> int \<Rightarrow> 'h \<Rightarrow> 'h ranked_table \<Rightarrow> 'h ranked_table" where
  "enhanced_register event_class priority h tbl =
     tbl(event_class \<mapsto>
       sort_key (\<lambda>x. - fst x) (ranked_handlers tbl event_class @ [(priority, h)]))"

definition enhanced_unregister :: "string \<Rightarrow> 'h \<Rightarrow> 'h ranked_table \<Rightarrow> 'h ranked_table" where
  "enhanced_unregister event_class h tbl =
     (case tbl event_class of
        None \<Rightarrow> tbl
      | Some hs \<Rightarrow> tbl(event_class \<mapsto> filter (\<lambda>x. snd x \<noteq> h) hs))"

definition enhanced_has_handlers :: "'h ranked_table \<Rightarrow> string \<Rightarrow> bool" where
  "enhanced_has_handlers tbl name \<longleftrightarrow> (case tbl name of None \<Rightarrow> False | Some hs \<Rightarrow> hs \<noteq> [])"

definition get_handlers :: "'h ranked_table \<Rightarrow> string \<Rightarrow> 'h list" where
  "get_handlers tbl name = map snd (ranked_handlers tbl name)"

fun enhanced_loop ::
  "('s \<Rightarrow> bool) \<Rightarrow> ('h \<Rightarrow> ('s, bool) prog) \<Rightarrow> ('h \<Rightarrow> ('s, 'd event_result) prog)
     \<Rightarrow> 'd event_result list \<Rightarrow> (int \<times> 'h) list \<Rightarrow> ('s, 'd event_result list) prog" where
  "enhanced_loop stopped can handle results [] = ret results"
| "enhanced_loop stopped can handle results (ph # phs) = bindP (gets stopped) (\<lambda>halt.
     if halt then ret results
     else bindP (try_handler (\<lambda>h _. can h) (\<lambda>h _. handle h) () results (snd ph))
            (\<lambda>results'. enhanced_loop stopped can handle results' phs))"

definition enhanced_dispatch ::
  "('s \<Rightarrow> bool) \<Rightarrow> ('h \<Rightarrow> ('s, bool) prog) \<Rightarrow> ('h \<Rightarrow> ('s, 'd event_result) prog)
     \<Rightarrow> 'h ranked_table \<Rightarrow> string \<Rightarrow> ('s, 'd event_result) prog" where
  "enhanced_dispatch stopped can handle tbl name =
     (case tbl name of
        None \<Rightarrow> ret no_handler
      | Some hs \<Rightarrow> bindP (enhanced_loop stopped can handle [] hs) (\<lambda>results.
          ret (if results = [] then no_handler else combine results)))"

interpretation ranked_registry: priority_registry
  ranked_handlers "\<lambda>n ph. enhanced_register n (fst ph) (snd ph)" "\<lambda>x. - fst x"
  by unfold_locales (auto simp: ranked_handlers_def enhanced_register_def fun_eq_iff)

section \<open>Properties\<close>

text \<open>
  Publishing on the bus never raises, and calls every callback subscribed when it
  started, the event's own first and then the global ones, each in the state the one before
  left, whatever any of them raises and whatever they do to the subscriptions.
\<close>

theorem bus_publish_isolates:
  "bus_publish the_bus run name data s =
     (Inr (), fold (\<lambda>cb t. snd (run cb name data t)) (bus_callbacks name (the_bus s)) s)"
  by (simp add: bus_publish_def for_each_guarded)

text \<open>
  \<open>emit\<close> never raises. It reports success exactly when at least one handler took the
  event and every one that took it succeeded without raising; and the event is forwarded to
  the bus after the handlers whatever their results.
\<close>

theorem emit_outcome:
  "let hs = (case tbl name of None \<Rightarrow> [] | Some hs \<Rightarrow> hs);
       (rs, s1) = handler_outcomes can handle event hs s
   in \<exists>r. emit can handle (Some publish) tbl name event s = (Inr r, snd (publish name event s1)) \<and>
      er_success r = (rs \<noteq> [] \<and> list_all er_success rs) \<and>
      (if rs = [] then er_error_type r = Some ''no_handler'' else True)"
proof -
  let ?hs = "case tbl name of None \<Rightarrow> [] | Some hs \<Rightarrow> hs"
  obtain rs s1 where run: "handler_outcomes can handle event ?hs s = (rs, s1)" by fastforce
  show ?thesis
    unfolding emit_run Let_def run prod.case option.case
    by (rule exI [of _ "if rs = [] then no_handler else combine rs"])
      (simp add: combine_success list_all_iff)
qed

text \<open>
  After any registrations on a fresh dispatcher, the listeners of an event are exactly
  the ones registered for it, in order of priority, and of registration where priorities are
  equal; the enhanced dispatcher's handlers likewise, highest number first.
\<close>

theorem registration_order:
  "get_listeners (fold (\<lambda>(n, l). add_listener n (l_callback l) (l_priority l)) regs Map.empty) name
     = sort_key l_priority (map snd (filter (\<lambda>(n, _). n = name) regs))
   \<and> ranked_handlers (fold (\<lambda>(n, ph). enhanced_register n (fst ph) (snd ph)) ranked Map.empty) name
     = sort_key (\<lambda>x. - fst x) (map snd (filter (\<lambda>(n, _). n = name) ranked))"
proof
  have "get_listeners Map.empty name = sort_key l_priority []" by (simp add: get_listeners_def)
  from listener_registry.handlers_after [OF this]
  show "get_listeners (fold (\<lambda>(n, l). add_listener n (l_callback l) (l_priority l)) regs Map.empty) name
     = sort_key l_priority (map snd (filter (\<lambda>(n, _). n = name) regs))" by simp
  have "ranked_handlers Map.empty name = sort_key (\<lambda>x. - fst x) []"
    by (simp add: ranked_handlers_def)
  from ranked_registry.handlers_after [OF this]
  show "ranked_handlers (fold (\<lambda>(n, ph). enhanced_register n (fst ph) (snd ph)) ranked Map.empty) name
     = sort_key (\<lambda>x. - fst x) (map snd (filter (\<lambda>(n, _). n = name) ranked))" by simp
qed

end
