(* ===== verification/LineItems.thy ===== *)
theory LineItems
  imports Tokens
begin

text \<open>
  The line item handler registry (\<open>vbwd/events/line_item_registry.py\<close>) and core's own
  handler for token bundles (\<open>vbwd/handlers/core_line_item_handler.py\<close>). The handlers of
  plugins are a parameter: a \<open>line_handler\<close> holds what each method does. The data a
  handler returns is the dict of the source, read at the keys core looks at.
\<close>

section \<open>Results, contexts and handlers\<close>

record item_data =
  d_subscription :: "string option"
  d_purchase :: "string option"
  d_addon :: "string option"
  d_tokens_credited :: "int option"
  d_tokens_debited :: "int option"

definition no_data :: item_data where
  "no_data = \<lparr>d_subscription = None, d_purchase = None, d_addon = None,
     d_tokens_credited = None, d_tokens_debited = None\<rparr>"

record line_item_result =
  lr_success :: bool
  lr_data :: item_data
  lr_error :: "string option"
  lr_skipped :: bool

definition lr_ok :: "item_data \<Rightarrow> line_item_result" where
  "lr_ok d = \<lparr>lr_success = True, lr_data = d, lr_error = None, lr_skipped = False\<rparr>"

definition lr_skip :: line_item_result where
  "lr_skip = \<lparr>lr_success = True, lr_data = no_data, lr_error = None, lr_skipped = True\<rparr>"

definition lr_from_error :: "string \<Rightarrow> line_item_result" where
  "lr_from_error e =
     \<lparr>lr_success = False, lr_data = no_data, lr_error = Some e, lr_skipped = False\<rparr>"

record line_context =
  ctx_invoice :: invoice
  ctx_user_id :: uuid

record billing_spec =
  bs_name :: string
  bs_period :: string
  bs_trial_days :: int

record 'p line_handler =
  can_handle_line_item :: "line_item \<Rightarrow> line_context \<Rightarrow> ('p db_scheme session, bool) prog"
  activate_line_item :: "line_item \<Rightarrow> line_context \<Rightarrow> ('p db_scheme session, line_item_result) prog"
  reverse_line_item :: "line_item \<Rightarrow> line_context \<Rightarrow> ('p db_scheme session, line_item_result) prog"
  restore_line_item :: "line_item \<Rightarrow> line_context \<Rightarrow> ('p db_scheme session, line_item_result) prog"
  resolve_catalog_item_id :: "line_item \<Rightarrow> ('p db_scheme session, string option) prog"
  resolve_catalog_entity_ref :: "line_item \<Rightarrow> ('p db_scheme session, (string \<times> string) option) prog"
  is_recurring_line_item :: "line_item \<Rightarrow> ('p db_scheme session, bool) prog"
  recurring_billing_spec :: "line_item \<Rightarrow> ('p db_scheme session, billing_spec option) prog"

section \<open>The registry\<close>

text \<open>The registry's state is its list of handlers; the first that can handle an item wins.\<close>

definition registry_register :: "'p line_handler \<Rightarrow> 'p line_handler list \<Rightarrow> 'p line_handler list" where
  "registry_register h hs = hs @ [h]"

definition registry_clear :: "'p line_handler list \<Rightarrow> 'p line_handler list" where
  "registry_clear hs = []"

text \<open>
  \<open>_dispatch\<close>: what the chosen handler's method raises becomes an error result; what a
  handler's \<open>can_handle_line_item\<close> raises is not caught.
\<close>

fun registry_dispatch ::
  "('p line_handler \<Rightarrow> line_item \<Rightarrow> line_context \<Rightarrow> ('p db_scheme session, line_item_result) prog)
     \<Rightarrow> 'p line_handler list \<Rightarrow> line_item \<Rightarrow> line_context \<Rightarrow> ('p db_scheme session, line_item_result) prog" where
  "registry_dispatch method [] item ctx = ret lr_skip"
| "registry_dispatch method (h # hs) item ctx =
     bindP (can_handle_line_item h item ctx) (\<lambda>ok.
       if ok then try_except (method h item ctx) (\<lambda>e. ret (lr_from_error (exn_str e)))
       else registry_dispatch method hs item ctx)"

definition process_activation ::
  "'p line_handler list \<Rightarrow> line_item \<Rightarrow> line_context \<Rightarrow> ('p db_scheme session, line_item_result) prog" where
  "process_activation = registry_dispatch activate_line_item"

definition process_reversal ::
  "'p line_handler list \<Rightarrow> line_item \<Rightarrow> line_context \<Rightarrow> ('p db_scheme session, line_item_result) prog" where
  "process_reversal = registry_dispatch reverse_line_item"

definition process_restoration ::
  "'p line_handler list \<Rightarrow> line_item \<Rightarrow> line_context \<Rightarrow> ('p db_scheme session, line_item_result) prog" where
  "process_restoration = registry_dispatch restore_line_item"

text \<open>Polling for the first handler that answers; one that raises is passed over.\<close>

fun poll_handlers ::
  "('h \<Rightarrow> ('s, 'a option) prog) \<Rightarrow> 'h list \<Rightarrow> ('s, 'a option) prog" where
  "poll_handlers ask [] = ret None"
| "poll_handlers ask (h # hs) =
     bindP (try_except (ask h) (\<lambda>e. ret None)) (\<lambda>r.
       case r of Some x \<Rightarrow> ret (Some x) | None \<Rightarrow> poll_handlers ask hs)"

definition registry_catalog_item_id ::
  "'p line_handler list \<Rightarrow> line_item \<Rightarrow> ('p db_scheme session, string option) prog" where
  "registry_catalog_item_id hs item = poll_handlers (\<lambda>h. resolve_catalog_item_id h item) hs"

definition registry_catalog_entity_ref ::
  "'p line_handler list \<Rightarrow> line_item \<Rightarrow> ('p db_scheme session, (string \<times> string) option) prog" where
  "registry_catalog_entity_ref hs item = poll_handlers (\<lambda>h. resolve_catalog_entity_ref h item) hs"

definition registry_billing_spec ::
  "'p line_handler list \<Rightarrow> line_item \<Rightarrow> ('p db_scheme session, billing_spec option) prog" where
  "registry_billing_spec hs item = poll_handlers (\<lambda>h. recurring_billing_spec h item) hs"

fun registry_is_recurring ::
  "'p line_handler list \<Rightarrow> line_item \<Rightarrow> ('p db_scheme session, bool) prog" where
  "registry_is_recurring [] item = ret False"
| "registry_is_recurring (h # hs) item =
     bindP (try_except (is_recurring_line_item h item) (\<lambda>e. ret False)) (\<lambda>r.
       if r then ret True else registry_is_recurring hs item)"

section \<open>CoreLineItemHandler\<close>

definition save_purchase :: "driver \<Rightarrow> purchase \<Rightarrow> ('p db_scheme session, unit) prog" where
  "save_purchase drv p = repo_save drv (\<lambda>d i. None) (put_purchase p) (Some (p_id p)) None"

definition activate_token_bundle ::
  "driver \<Rightarrow> 'p hook list \<Rightarrow> time \<Rightarrow> line_item \<Rightarrow> line_context
     \<Rightarrow> ('p db_scheme session, line_item_result) prog" where
  "activate_token_bundle drv hooks now item ctx =
     bindP (find_purchase (li_item_id item)) (\<lambda>found.
       case found of
         None \<Rightarrow> ret (lr_ok no_data)
       | Some p \<Rightarrow>
           if p_status p \<noteq> P_PENDING then ret (lr_ok no_data)
           else
             seqP (save_purchase drv
               (p\<lparr>p_status := P_COMPLETED, p_completed_at := Some now, p_tokens_credited := True\<rparr>))
             (seqP (credit_tokens drv hooks (ctx_user_id ctx) (Whole (p_token_amount p)) T_PURCHASE
                (Some (p_id p))
                (Some (bundle_description ''Token bundle purchase: '' (p_token_amount p) '' tokens''))
                True)
             (ret (lr_ok (no_data\<lparr>d_purchase := Some (p_id p),
                d_tokens_credited := Some (p_token_amount p)\<rparr>)))))"

definition reverse_token_bundle ::
  "driver \<Rightarrow> 'p hook list \<Rightarrow> line_item \<Rightarrow> line_context
     \<Rightarrow> ('p db_scheme session, line_item_result) prog" where
  "reverse_token_bundle drv hooks item ctx =
     bindP (find_purchase (li_item_id item)) (\<lambda>found.
       case found of
         None \<Rightarrow> ret (lr_ok no_data)
       | Some p \<Rightarrow>
           if p_status p \<noteq> P_COMPLETED then ret (lr_ok no_data)
           else
             seqP (save_purchase drv (p\<lparr>p_status := P_REFUNDED\<rparr>))
             (bindP (refund_tokens drv hooks (ctx_user_id ctx) (Whole (p_token_amount p))
                (Some (p_id p))
                (Some (bundle_description ''Refund: '' (p_token_amount p) '' tokens'')) True)
             (\<lambda>actual_debited.
                ret (lr_ok (no_data\<lparr>d_purchase := Some (p_id p),
                  d_tokens_debited := Some actual_debited\<rparr>)))))"

definition restore_token_bundle ::
  "driver \<Rightarrow> 'p hook list \<Rightarrow> line_item \<Rightarrow> line_context
     \<Rightarrow> ('p db_scheme session, line_item_result) prog" where
  "restore_token_bundle drv hooks item ctx =
     bindP (find_purchase (li_item_id item)) (\<lambda>found.
       case found of
         None \<Rightarrow> ret (lr_ok no_data)
       | Some p \<Rightarrow>
           if p_status p \<noteq> P_REFUNDED then ret (lr_ok no_data)
           else
             seqP (save_purchase drv (p\<lparr>p_status := P_COMPLETED, p_tokens_credited := True\<rparr>))
             (seqP (credit_tokens drv hooks (ctx_user_id ctx) (Whole (p_token_amount p)) T_PURCHASE
                (Some (p_id p))
                (Some (bundle_description ''Refund reversed: '' (p_token_amount p)
                  '' tokens restored'')) True)
             (ret (lr_ok (no_data\<lparr>d_purchase := Some (p_id p),
                d_tokens_credited := Some (p_token_amount p)\<rparr>)))))"

text \<open>
  The handler object. Its \<open>resolve_catalog_item_id\<close> reads the purchase; the hooks it does
  not override inherit the defaults of the interface.
\<close>

definition core_line_item_handler :: "driver \<Rightarrow> 'p hook list \<Rightarrow> time \<Rightarrow> 'p line_handler" where
  "core_line_item_handler drv hooks now =
     \<lparr>can_handle_line_item = (\<lambda>item ctx. ret (li_item_type item = TOKEN_BUNDLE)),
      activate_line_item = activate_token_bundle drv hooks now,
      reverse_line_item = reverse_token_bundle drv hooks,
      restore_line_item = restore_token_bundle drv hooks,
      resolve_catalog_item_id = (\<lambda>item.
        if li_item_type item \<noteq> TOKEN_BUNDLE then ret None
        else bindP (find_purchase (li_item_id item)) (\<lambda>p. ret (map_option p_bundle p))),
      resolve_catalog_entity_ref = (\<lambda>item. ret None),
      is_recurring_line_item = (\<lambda>item. ret False),
      recurring_billing_spec = (\<lambda>item. ret None)\<rparr>"

section \<open>What the operations do\<close>

lemma save_purchase_Inr:
  "save_purchase drv p s = (Inr u, s') \<Longrightarrow>
   pending s' = put_purchase p (pending s) \<and> durable s' = pending s'"
  by (auto simp: save_purchase_def repo_save_def dest!: save_commit_Inr)

lemma save_purchase_ok:
  "drv (calls s) = None \<Longrightarrow> save_purchase drv p s =
     (Inr (), s\<lparr>calls := Suc (calls s), pending := put_purchase p (pending s),
        durable := put_purchase p (pending s)\<rparr>)"
  by (simp add: save_purchase_def repo_save_def)

text \<open>
  Each operation has one status it acts on; \<open>bundle_moved\<close> is the change it makes: the
  purchase's new row and one movement of tokens.
\<close>

definition bundle_moved ::
  "line_context \<Rightarrow> purchase \<Rightarrow> int \<Rightarrow> token_tx_type \<Rightarrow> string option \<Rightarrow> 'p db_scheme \<Rightarrow> 'p db_scheme" where
  "bundle_moved ctx p n ty desc d =
     moved (ctx_user_id ctx) n ty (Some (p_id p)) desc (put_purchase p d)"

lemma activate_Inr:
  assumes "hooks_ok hooks" and "activate_token_bundle drv hooks now item ctx s = (Inr r, s')"
  shows "(case tbl_purchase (pending s) (li_item_id item) of
      Some p \<Rightarrow>
        if p_status p = P_PENDING
        then core (pending s') =
            bundle_moved ctx (completed now p) (p_token_amount p) T_PURCHASE
              (Some (bundle_description ''Token bundle purchase: '' (p_token_amount p) '' tokens''))
              (core (pending s))
          \<and> durable s' = pending s' \<and> 0 < p_token_amount p
          \<and> r = lr_ok (no_data\<lparr>d_purchase := Some (p_id p),
                d_tokens_credited := Some (p_token_amount p)\<rparr>)
        else s' = s \<and> r = lr_ok no_data
    | None \<Rightarrow> s' = s \<and> r = lr_ok no_data)"
  using assms(2)
  by (auto simp: activate_token_bundle_def find_purchase_def bundle_moved_def completed_def
      split: option.splits if_splits elim!: seqP_InrE
      dest!: save_purchase_Inr credit_Inr [OF assms(1)])

lemma reverse_Inr:
  assumes "hooks_ok hooks" and "reverse_token_bundle drv hooks item ctx s = (Inr r, s')"
  shows "(case tbl_purchase (pending s) (li_item_id item) of
      Some p \<Rightarrow>
        if p_status p = P_COMPLETED
        then (\<exists>k. k = (if balance_of (pending s) (ctx_user_id ctx) \<le> 0 then 0
                       else min (p_token_amount p) (balance_of (pending s) (ctx_user_id ctx)))
          \<and> balance_of (pending s') =
              (balance_of (pending s))(ctx_user_id ctx :=
                 balance_of (pending s) (ctx_user_id ctx) - k)
          \<and> tbl_purchase (pending s') =
              (tbl_purchase (pending s))(p_id p \<mapsto> p\<lparr>p_status := P_REFUNDED\<rparr>)
          \<and> durable s' = pending s' \<and> (keyed (pending s) \<longrightarrow> keyed (pending s'))
          \<and> r = lr_ok (no_data\<lparr>d_purchase := Some (p_id p), d_tokens_debited := Some k\<rparr>))
        else s' = s \<and> r = lr_ok no_data
    | None \<Rightarrow> s' = s \<and> r = lr_ok no_data)"
proof (cases "tbl_purchase (pending s) (li_item_id item)")
  case None
  with assms(2) show ?thesis by (simp add: reverse_token_bundle_def find_purchase_def)
next
  case (Some p)
  show ?thesis
  proof (cases "p_status p = P_COMPLETED")
    case False
    with Some assms(2) show ?thesis by (simp add: reverse_token_bundle_def find_purchase_def)
  next
    case True
    let ?u = "ctx_user_id ctx" and ?p = "p\<lparr>p_status := P_REFUNDED\<rparr>"
    from assms(2) Some True obtain x t k where sv: "save_purchase drv ?p s = (Inr x, t)"
      and rf: "refund_tokens drv hooks ?u (Whole (p_token_amount p)) (Some (p_id p))
        (Some (bundle_description ''Refund: '' (p_token_amount p) '' tokens'')) True t = (Inr k, s')"
      and r: "r = lr_ok (no_data\<lparr>d_purchase := Some (p_id p), d_tokens_debited := Some k\<rparr>)"
      by (auto simp: reverse_token_bundle_def find_purchase_def elim!: seqP_InrE bindP_InrE)
    note t = save_purchase_Inr [OF sv]
    note k = refund_Inr [OF assms(1) rf]
    have b: "balance_of (pending t) = balance_of (pending s)" using t by simp
    show ?thesis
    proof (cases "balance_of (pending s) ?u \<le> 0")
      case True
      with k t b Some \<open>p_status p = P_COMPLETED\<close> r show ?thesis by auto
    next
      case False
      with k b have eff: "core (pending s') = moved ?u (- k) T_REFUND (Some (p_id p))
          (Some (bundle_description ''Refund: '' (p_token_amount p) '' tokens'')) (core (pending t))"
        and kv: "k = min (p_token_amount p) (balance_of (pending s) ?u)"
        and dur: "durable s' = pending s'" by auto
      have "balance_of (pending s') = (balance_of (pending s))(?u := balance_of (pending s) ?u - k)"
        using arg_cong [OF eff, of balance_of] b by simp
      moreover have "tbl_purchase (pending s') = (tbl_purchase (pending s))(p_id p \<mapsto> ?p)"
        using arg_cong [OF eff, of tbl_purchase] t by simp
      moreover have "keyed (pending s')" if "keyed (pending s)"
        using arg_cong [OF eff, of keyed] t that by (simp add: keyed_core)
      ultimately show ?thesis using Some True kv dur r False by auto
    qed
  qed
qed

lemma restore_Inr:
  assumes "hooks_ok hooks" and "restore_token_bundle drv hooks item ctx s = (Inr r, s')"
  shows "(case tbl_purchase (pending s) (li_item_id item) of
      Some p \<Rightarrow>
        if p_status p = P_REFUNDED
        then core (pending s') =
            bundle_moved ctx (p\<lparr>p_status := P_COMPLETED, p_tokens_credited := True\<rparr>)
              (p_token_amount p) T_PURCHASE
              (Some (bundle_description ''Refund reversed: '' (p_token_amount p)
                '' tokens restored'')) (core (pending s))
          \<and> durable s' = pending s' \<and> 0 < p_token_amount p
        else s' = s
    | None \<Rightarrow> s' = s)"
  using assms(2)
  by (auto simp: restore_token_bundle_def find_purchase_def bundle_moved_def
      split: option.splits if_splits elim!: seqP_InrE
      dest!: save_purchase_Inr credit_Inr [OF assms(1)])

lemma bundle_moved_sel [simp]:
  "tbl_purchase (bundle_moved ctx p n ty ds d) = (tbl_purchase d)(p_id p \<mapsto> p)"
  "keyed d \<Longrightarrow> keyed (bundle_moved ctx p n ty ds d)"
  "balance_of (bundle_moved ctx p n ty ds d) =
     (balance_of d)(ctx_user_id ctx := balance_of d (ctx_user_id ctx) + n)"
  by (simp_all add: bundle_moved_def)

lemma bundle_movedD:
  assumes "core d' = bundle_moved ctx p n ty ds (core d)"
  shows "tbl_purchase d' = (tbl_purchase d)(p_id p \<mapsto> p)"
    "keyed d \<Longrightarrow> keyed d'"
    "balance_of d' = (balance_of d)(ctx_user_id ctx := balance_of d (ctx_user_id ctx) + n)"
  using arg_cong [OF assms, of tbl_purchase] arg_cong [OF assms, of keyed]
    arg_cong [OF assms, of balance_of] by (simp_all add: keyed_core)

text \<open>Each operation takes effect once: it leaves the status it acts on.\<close>

definition left_status :: "purchase_status \<Rightarrow> uuid \<Rightarrow> 'p db_scheme session \<Rightarrow> bool" where
  "left_status st i s \<longleftrightarrow>
     (case tbl_purchase (pending s) i of Some p \<Rightarrow> p_status p \<noteq> st | None \<Rightarrow> True)"

lemma keyed_rowD: "keyed d \<Longrightarrow> tbl_purchase d i = Some p \<Longrightarrow> p_id p = i"
  by (simp add: keyed_def)

lemma activate_settles:
  assumes "hooks_ok hooks" "keyed (pending s)"
    and "activate_token_bundle drv hooks now item ctx s = (Inr r, s')"
  shows "keyed (pending s') \<and> left_status P_PENDING (li_item_id item) s'"
  using activate_Inr [OF assms(1,3)] assms(2) keyed_rowD [OF assms(2)]
  by (auto simp: left_status_def bundle_movedD split: option.splits if_splits)

lemma reverse_settles:
  assumes "hooks_ok hooks" "keyed (pending s)"
    and "reverse_token_bundle drv hooks item ctx s = (Inr r, s')"
  shows "keyed (pending s') \<and> left_status P_COMPLETED (li_item_id item) s'"
proof (cases "tbl_purchase (pending s) (li_item_id item)")
  case None
  with reverse_Inr [OF assms(1,3)] assms(2) show ?thesis by (simp add: left_status_def)
next
  case (Some p)
  with keyed_rowD [OF assms(2)] have "p_id p = li_item_id item" by simp
  with Some reverse_Inr [OF assms(1,3)] assms(2) show ?thesis
    by (cases "p_status p = P_COMPLETED") (simp_all add: left_status_def)
qed

lemma restore_settles:
  assumes "hooks_ok hooks" "keyed (pending s)"
    and "restore_token_bundle drv hooks item ctx s = (Inr r, s')"
  shows "keyed (pending s') \<and> left_status P_REFUNDED (li_item_id item) s'"
  using restore_Inr [OF assms(1,3)] assms(2) keyed_rowD [OF assms(2)]
  by (auto simp: left_status_def bundle_movedD split: option.splits if_splits)

text \<open>The states a handler is called in.\<close>

definition ready :: "'p hook list \<Rightarrow> 'p db_scheme session \<Rightarrow> bool" where
  "ready hooks s \<longleftrightarrow> hooks_ok hooks \<and> keyed (pending s)"

lemma activate_ready:
  "\<lbrakk>ready hooks s; activate_token_bundle drv hooks now item ctx s = (Inr r, s')\<rbrakk> \<Longrightarrow>
   ready hooks s' \<and> left_status P_PENDING (li_item_id item) s'"
  unfolding ready_def by (blast dest: activate_settles)

lemma reverse_ready:
  "\<lbrakk>ready hooks s; reverse_token_bundle drv hooks item ctx s = (Inr r, s')\<rbrakk> \<Longrightarrow>
   ready hooks s' \<and> left_status P_COMPLETED (li_item_id item) s'"
  unfolding ready_def by (blast dest: reverse_settles)

lemma restore_ready:
  "\<lbrakk>ready hooks s; restore_token_bundle drv hooks item ctx s = (Inr r, s')\<rbrakk> \<Longrightarrow>
   ready hooks s' \<and> left_status P_REFUNDED (li_item_id item) s'"
  unfolding ready_def by (blast dest: restore_settles)

lemma activate_noop:
  "left_status P_PENDING (li_item_id item) s \<Longrightarrow>
   activate_token_bundle drv hooks now item ctx s = (Inr (lr_ok no_data), s)"
  by (auto simp: left_status_def activate_token_bundle_def find_purchase_def split: option.splits)

lemma reverse_noop:
  "left_status P_COMPLETED (li_item_id item) s \<Longrightarrow>
   reverse_token_bundle drv hooks item ctx s = (Inr (lr_ok no_data), s)"
  by (auto simp: left_status_def reverse_token_bundle_def find_purchase_def split: option.splits)

lemma restore_noop:
  "left_status P_REFUNDED (li_item_id item) s \<Longrightarrow>
   restore_token_bundle drv hooks item ctx s = (Inr (lr_ok no_data), s)"
  by (auto simp: left_status_def restore_token_bundle_def find_purchase_def split: option.splits)

interpretation activation: once_only
  "activate_token_bundle drv hooks now item ctx" "ready hooks"
  "left_status P_PENDING (li_item_id item)" for drv hooks now item ctx
  by unfold_locales (erule (1) activate_ready, rule exI, erule activate_noop)

interpretation reversal: once_only
  "reverse_token_bundle drv hooks item ctx" "ready hooks"
  "left_status P_COMPLETED (li_item_id item)" for drv hooks item ctx
  by unfold_locales (erule (1) reverse_ready, rule exI, erule reverse_noop)

interpretation restoration: once_only
  "restore_token_bundle drv hooks item ctx" "ready hooks"
  "left_status P_REFUNDED (li_item_id item)" for drv hooks item ctx
  by unfold_locales (erule (1) restore_ready, rule exI, erule restore_noop)

section \<open>Properties\<close>

definition sample_item :: line_item where
  "sample_item = \<lparr>li_id = ''l1'', li_item_type = TOKEN_BUNDLE, li_item_id = ''p1'',
     li_description = ''bundle'', li_quantity = 1, li_unit_price = 500, li_total_price = 500,
     li_net_amount = None, li_tax_amount = Some 0, li_tax_breakdown = [], li_extra_data = []\<rparr>"

definition sample_invoice :: invoice where
  "sample_invoice = \<lparr>inv_id = ''i1'', inv_user_id = ''alice'', inv_number = ''INV-1'',
     inv_amount = 500, inv_currency = ''EUR'', inv_status = PENDING, inv_payment_method = None,
     inv_payment_ref = None, inv_invoiced_at = 0, inv_paid_at = None, inv_expires_at = None,
     inv_payment_intent_id = None, inv_subtotal = None, inv_tax_amount = Some 0, inv_total_amount = None,
     inv_provider_session_id = None, inv_created_at = 0, inv_metadata = [], inv_line_items = [sample_item]\<rparr>"

definition sample_context :: line_context where
  "sample_context = \<lparr>ctx_invoice = sample_invoice, ctx_user_id = ''alice''\<rparr>"

lemmas run_defs = save_purchase_ok credit_tokens_def get_or_create_run apply_movement_def
  seqP_def bindP_def try_except_def run_token_movement_hooks_def whenP_def Let_def
  publish_token_moved_def refund_tokens_def find_balance_def find_purchase_def

text \<open>
  C13. Activating, reversing and restoring a token bundle each take effect once: after a call
  that returned, any number of repetitions on the same line item leave the session, the
  tables and the balances as the first call left them.
\<close>

theorem bundle_operations_once:
  assumes "hooks_ok hooks" and "keyed (pending s)"
    and "activate_token_bundle drv hooks now item ctx s = (Inr r1, s1)"
    and "reverse_token_bundle drv hooks item ctx s1 = (Inr r2, s2)"
    and "restore_token_bundle drv hooks item ctx s2 = (Inr r3, s3)"
  shows "((\<lambda>t. snd (activate_token_bundle drv hooks now item ctx t)) ^^ n) s1 = s1
    \<and> ((\<lambda>t. snd (reverse_token_bundle drv hooks item ctx t)) ^^ n) s2 = s2
    \<and> ((\<lambda>t. snd (restore_token_bundle drv hooks item ctx t)) ^^ n) s3 = s3"
proof -
  have "ready hooks s" using assms(1,2) by (simp add: ready_def)
  moreover from this assms(3) have "ready hooks s1" by (blast dest: activate_ready)
  moreover from this assms(4) have "ready hooks s2" by (blast dest: reverse_ready)
  ultimately show ?thesis
    using activation.repeats [OF _ assms(3)] reversal.repeats [OF _ assms(4)]
      restoration.repeats [OF _ assms(5)] by blast
qed

theorem bundle_operations_once_witness:
  "let s = open_session (put_purchase sample_purchase sample_db);
       s1 = snd (activate_token_bundle no_faults [] 5 sample_item sample_context s)
   in balance_of (durable s1) ''alice'' = 27 \<and>
      ((\<lambda>t. snd (activate_token_bundle no_faults [] 5 sample_item sample_context t)) ^^ 3) s1 = s1"
proof -
  let ?act = "activate_token_bundle no_faults [] 5 sample_item sample_context"
  let ?rev = "reverse_token_bundle no_faults [] sample_item sample_context"
  let ?res = "restore_token_bundle no_faults [] sample_item sample_context"
  let ?s = "open_session (put_purchase sample_purchase sample_db)"
  have k: "keyed (pending ?s)" using sample_purchase_keyed by (simp add: open_session_def)
  have row: "tbl_purchase (pending ?s) (li_item_id sample_item) = Some sample_purchase"
    by (simp add: open_session_def sample_item_def sample_purchase_def)
  have st: "p_status sample_purchase = P_PENDING" by (simp add: sample_purchase_def)
  have "\<exists>r. fst (?act ?s) = Inr r"
    by (simp add: activate_token_bundle_def open_session_def sample_item_def sample_purchase_def
        run_defs split: option.split)
  then obtain r1 where r1: "?act ?s = (Inr r1, snd (?act ?s))" by (metis prod.collapse)
  note e1 = activate_Inr [OF hooks_ok_Nil r1, unfolded row option.case st simp_thms if_True]
  have row1: "tbl_purchase (pending (snd (?act ?s))) (li_item_id sample_item) =
      Some (completed 5 sample_purchase)"
    using bundle_movedD(1) [of _ sample_context "completed 5 sample_purchase"] e1
    by (simp add: sample_purchase_def sample_item_def completed_def)
  then have "\<exists>r. fst (?rev (snd (?act ?s))) = Inr r"
    by (simp add: reverse_token_bundle_def sample_purchase_def run_defs completed_def
        split: option.split)
  then obtain r2 where r2: "?rev (snd (?act ?s)) = (Inr r2, snd (?rev (snd (?act ?s))))"
    by (metis prod.collapse)
  from reverse_Inr [OF hooks_ok_Nil r2, unfolded row1]
  have "tbl_purchase (pending (snd (?rev (snd (?act ?s))))) (li_item_id sample_item) =
      Some ((completed 5 sample_purchase)\<lparr>p_status := P_REFUNDED\<rparr>)"
    by (auto simp: sample_purchase_def sample_item_def)
  then have "\<exists>r. fst (?res (snd (?rev (snd (?act ?s))))) = Inr r"
    by (simp add: restore_token_bundle_def sample_purchase_def run_defs completed_def
        split: option.split)
  then obtain r3 where r3: "?res (snd (?rev (snd (?act ?s)))) =
      (Inr r3, snd (?res (snd (?rev (snd (?act ?s))))))" by (metis prod.collapse)
  have "balance_of (durable (snd (?act ?s))) ''alice'' = 27"
    using bundle_movedD(3) [of _ sample_context "completed 5 sample_purchase"] e1
    by (simp add: sample_context_def sample_purchase_def open_session_def)
  with bundle_operations_once [OF hooks_ok_Nil k r1 r2 r3, of 3] show ?thesis
    unfolding Let_def by blast
qed

text \<open>
  A refund of a completed bundle followed by the reversal of that refund does not give
  the old balance back: the user ends with the larger of the old balance and the bundle's
  tokens, because the refund clamps to the balance and the restoration credits the whole
  bundle. The round trip is exact when the bundle was not spent below its size.
\<close>

theorem reverse_restore_balance:
  assumes "hooks_ok hooks" and "keyed (pending s)"
    and "tbl_purchase (pending s) (li_item_id item) = Some p" and "p_status p = P_COMPLETED"
    and "0 \<le> balance_of (pending s) (ctx_user_id ctx)"
    and "reverse_token_bundle drv hooks item ctx s = (Inr r1, s1)"
    and "restore_token_bundle drv hooks item ctx s1 = (Inr r2, s2)"
  shows "balance_of (pending s2) (ctx_user_id ctx) =
      max (balance_of (pending s) (ctx_user_id ctx)) (p_token_amount p)
    \<and> map_option p_status (tbl_purchase (durable s2) (li_item_id item)) = Some P_COMPLETED"
proof -
  let ?u = "ctx_user_id ctx"
  have id: "p_id p = li_item_id item" using keyed_rowD [OF assms(2,3)] by simp
  from reverse_Inr [OF assms(1,6)] assms(3,4) id have
    b1: "balance_of (pending s1) ?u = balance_of (pending s) ?u -
      (if balance_of (pending s) ?u \<le> 0 then 0
       else min (p_token_amount p) (balance_of (pending s) ?u))"
    and p1: "tbl_purchase (pending s1) (li_item_id item) = Some (p\<lparr>p_status := P_REFUNDED\<rparr>)"
    by auto
  from restore_Inr [OF assms(1,7)] p1 have
    eff: "core (pending s2) =
        bundle_moved ctx (p\<lparr>p_status := P_COMPLETED, p_tokens_credited := True\<rparr>)
          (p_token_amount p) T_PURCHASE
          (Some (bundle_description ''Refund reversed: '' (p_token_amount p) '' tokens restored''))
          (core (pending s1))"
    and dur: "durable s2 = pending s2" and pos: "0 < p_token_amount p" by auto
  have "balance_of (pending s2) ?u = balance_of (pending s1) ?u + p_token_amount p"
    using bundle_movedD(3) [OF eff] by simp
  moreover have "map_option p_status (tbl_purchase (durable s2) (li_item_id item)) = Some P_COMPLETED"
    using bundle_movedD(1) [OF eff] dur id by simp
  ultimately show ?thesis using b1 pos assms(5) by (simp add: max_def min_def)
qed

definition spent_purchase :: purchase where
  "spent_purchase = sample_purchase\<lparr>p_status := P_COMPLETED\<rparr>"

theorem reverse_restore_balance_witness:
  "let s = open_session (put_purchase spent_purchase sample_db);
       s1 = snd (reverse_token_bundle no_faults [] sample_item sample_context s);
       s2 = snd (restore_token_bundle no_faults [] sample_item sample_context s1)
   in balance_of (pending s) ''alice'' = 7 \<and> balance_of (pending s2) ''alice'' = 20"
proof -
  let ?s = "open_session (put_purchase spent_purchase sample_db)"
  let ?rev = "reverse_token_bundle no_faults [] sample_item sample_context ?s"
  let ?res = "restore_token_bundle no_faults [] sample_item sample_context (snd ?rev)"
  have k: "keyed (pending ?s)"
    by (simp add: open_session_def sample_db_def keyed_def put_purchase_def empty_db_def
        spent_purchase_def sample_purchase_def)
  have b: "balance_of (pending ?s) ''alice'' = 7" by (simp add: open_session_def)
  have row: "tbl_purchase (pending ?s) (li_item_id sample_item) = Some spent_purchase"
    by (simp add: open_session_def sample_item_def spent_purchase_def sample_purchase_def)
  have "\<exists>r. fst ?rev = Inr r"
    by (simp add: reverse_token_bundle_def open_session_def sample_item_def spent_purchase_def
        sample_purchase_def run_defs split: option.split)
  then obtain r1 where r1: "?rev = (Inr r1, snd ?rev)" by (metis prod.collapse)
  from reverse_Inr [OF hooks_ok_Nil r1] row have
    "tbl_purchase (pending (snd ?rev)) (li_item_id sample_item) =
      Some (spent_purchase\<lparr>p_status := P_REFUNDED\<rparr>)"
    by (auto simp: spent_purchase_def sample_purchase_def sample_item_def)
  then have "\<exists>r. fst ?res = Inr r"
    by (simp add: restore_token_bundle_def spent_purchase_def sample_purchase_def run_defs
        split: option.split)
  then obtain r2 where r2: "?res = (Inr r2, snd ?res)" by (metis prod.collapse)
  have "balance_of (pending (snd ?res)) ''alice'' = 20"
    using reverse_restore_balance [OF hooks_ok_Nil k row _ _ r1 r2] b
    by (simp add: spent_purchase_def sample_purchase_def sample_context_def)
  with b show ?thesis by (simp add: Let_def)
qed

text \<open>
  The activation of a token bundle can lose the buyer's tokens: the purchase is saved as
  completed before the credit, so when the database refuses the next call, the dispatch
  reports an error result, the row is durably completed and marked credited, no tokens have
  arrived, and every later activation is skipped as already done.
\<close>

theorem activation_loses_tokens:
  assumes "li_item_type item = TOKEN_BUNDLE" and "p_id p = li_item_id item"
    and "tbl_purchase (pending s) (li_item_id item) = Some p" and "p_status p = P_PENDING"
    and "drv (calls s) = None" and "drv (Suc (calls s)) = Some e"
    and "process_activation [core_line_item_handler drv hooks now] item ctx s = (res, s')"
  shows "(\<exists>m. res = Inr (lr_from_error m))
    \<and> tbl_purchase (durable s') (li_item_id item) = Some (completed now p)
    \<and> balance_of (durable s') = balance_of (pending s)
    \<and> process_activation [core_line_item_handler drv' hooks later] item ctx s' =
        (Inr (lr_ok no_data), s')"
proof -
  let ?p = "completed now p"
  let ?t = "s\<lparr>calls := Suc (calls s), pending := put_purchase ?p (pending s),
       durable := put_purchase ?p (pending s)\<rparr>"
  let ?ds = "Some (bundle_description ''Token bundle purchase: '' (p_token_amount p) '' tokens'')"
  let ?credit = "credit_tokens drv hooks (ctx_user_id ctx) (Whole (p_token_amount p)) T_PURCHASE
    (Some (p_id p)) ?ds True"
  have "\<exists>m t'. ?credit ?t = (Inl m, t') \<and> durable t' = durable ?t \<and>
      tbl_purchase (pending t') (li_item_id item) = Some ?p"
    using assms(2,6)
    by (auto simp: run_defs put_balance_def split: option.split)
  then obtain m t' where cr: "?credit ?t = (Inl m, t')" "durable t' = durable ?t"
    "tbl_purchase (pending t') (li_item_id item) = Some ?p" by blast
  have run: "process_activation [core_line_item_handler drv hooks now] item ctx s =
      (Inr (lr_from_error (exn_str m)), t')"
    using assms(1-5) cr(1)
    by (simp add: process_activation_def core_line_item_handler_def activate_token_bundle_def
        find_purchase_def save_purchase_ok try_except_def seqP_def bindP_def completed_def)
  have "left_status P_PENDING (li_item_id item) t'" using cr(3) by (simp add: left_status_def)
  from activate_noop [OF this] have "process_activation [core_line_item_handler drv' hooks later] item ctx t' =
      (Inr (lr_ok no_data), t')"
    using assms(1) by (simp add: process_activation_def core_line_item_handler_def try_except_def)
  with run cr assms(2,7) show ?thesis by auto
qed

theorem activation_loses_tokens_witness:
  "let drv = (\<lambda>n. if n = 1 then Some (DatabaseError ''deadlock'') else None);
       s = open_session (put_purchase sample_purchase sample_db);
       s' = snd (process_activation [core_line_item_handler drv [] 5] sample_item sample_context s)
   in balance_of (durable s') ''alice'' = 7 \<and>
      tbl_purchase (durable s') ''p1'' = Some (completed 5 sample_purchase)"
proof -
  let ?drv = "\<lambda>n. if n = 1 then Some (DatabaseError ''deadlock'') else None"
  let ?s = "open_session (put_purchase sample_purchase sample_db)"
  have h: "li_item_type sample_item = TOKEN_BUNDLE" "p_id sample_purchase = li_item_id sample_item"
    "tbl_purchase (pending ?s) (li_item_id sample_item) = Some sample_purchase"
    "p_status sample_purchase = P_PENDING" "?drv (calls ?s) = None"
    "?drv (Suc (calls ?s)) = Some (DatabaseError ''deadlock'')"
    by (simp_all add: sample_item_def sample_purchase_def open_session_def)
  obtain res s' where run: "process_activation [core_line_item_handler ?drv [] 5] sample_item
    sample_context ?s = (res, s')" by fastforce
  show ?thesis
    using activation_loses_tokens [OF h run] run
    by (simp add: Let_def open_session_def) (simp add: sample_item_def)
qed

end
