(* ===== verification/Sdk.thy ===== *)
theory Sdk
  imports Events
begin

text \<open>
  The payment provider layer of \<open>vbwd/sdk\<close>: responses (\<open>interface.py\<close>), the adapter
  registry (\<open>registry.py\<close>), the retry and idempotency wrappers of \<open>BaseSDKAdapter\<close>
  (\<open>base.py\<close>), \<open>IdempotencyService\<close> (\<open>idempotency_service.py\<close>) and \<open>MockSDKAdapter\<close>
  (\<open>mock_adapter.py\<close>). The providers' adapters are plugin code and Redis a server: both are
  parameters. A response's data holds JSON values, so \<open>json.loads (json.dumps r)\<close> is \<open>r\<close>.
\<close>

section \<open>Responses and adapters\<close>

datatype sdk_value = SNone | SText string | SNum int

record sdk_response =
  resp_success :: bool
  resp_data :: "(string \<times> sdk_value) list"
  resp_error :: "string option"
  resp_error_code :: "string option"

definition resp_ok :: "(string \<times> sdk_value) list \<Rightarrow> sdk_response" where
  "resp_ok d = \<lparr>resp_success = True, resp_data = d, resp_error = None, resp_error_code = None\<rparr>"

definition resp_fail :: "string \<Rightarrow> string \<Rightarrow> sdk_response" where
  "resp_fail e code =
     \<lparr>resp_success = False, resp_data = [], resp_error = Some e, resp_error_code = Some code\<rparr>"

lemma resp_sel [simp]:
  "resp_success (resp_ok d)" "resp_data (resp_ok d) = d" "\<not> resp_success (resp_fail e c)"
  by (simp_all add: resp_ok_def resp_fail_def)

text \<open>What core calls on an adapter: each operation takes the payment intent's id.\<close>

record 's sdk_adapter =
  ad_capture_payment :: "string \<Rightarrow> ('s, sdk_response) prog"
  ad_release_authorization :: "string \<Rightarrow> ('s, sdk_response) prog"

section \<open>SDKAdapterRegistry\<close>

type_synonym 'a sdk_registry = "(string \<times> 'a) list"

text \<open>
  The dict of adapters, in insertion order; \<open>get\<close> takes the provider name as the invoice
  has it, so \<open>None\<close> is a name no adapter is registered under.
\<close>

definition adapter_register :: "string \<Rightarrow> 'a \<Rightarrow> 'a sdk_registry \<Rightarrow> 'a sdk_registry" where
  "adapter_register name a reg =
     (if name \<in> fst ` set reg
      then map (\<lambda>(n, x). if n = name then (n, a) else (n, x)) reg
      else reg @ [(name, a)])"

definition adapter_get :: "string option \<Rightarrow> 'a sdk_registry \<Rightarrow> exn + 'a" where
  "adapter_get name reg =
     (case name of
        None \<Rightarrow> Inl (ValueError ''Unknown provider: None'')
      | Some n \<Rightarrow>
          (case map_of reg n of
             None \<Rightarrow> Inl (ValueError (''Unknown provider: '' @ n))
           | Some a \<Rightarrow> Inr a))"

definition adapter_has :: "string \<Rightarrow> 'a sdk_registry \<Rightarrow> bool" where
  "adapter_has name reg \<longleftrightarrow> name \<in> fst ` set reg"

definition list_providers :: "'a sdk_registry \<Rightarrow> string list" where
  "list_providers reg = map fst reg"

definition adapter_unregister :: "string \<Rightarrow> 'a sdk_registry \<Rightarrow> 'a sdk_registry" where
  "adapter_unregister name reg = filter (\<lambda>(n, _). n \<noteq> name) reg"

lemma map_of_overwrite:
  "map_of (map (\<lambda>(n, x). if n = name then (n, a) else (n, x)) reg) k =
     (if k = name \<and> name \<in> fst ` set reg then Some a else map_of reg k)"
proof (induction reg)
  case (Cons p reg)
  obtain n x where "p = (n, x)" by fastforce
  with Cons show ?case by (cases "n = name"; cases "k = n") simp_all
qed simp

lemma adapter_get_register:
  "adapter_get (Some k) (adapter_register name a reg) =
     (if k = name then Inr a else adapter_get (Some k) reg)"
proof (cases "name \<in> fst ` set reg")
  case True
  then show ?thesis by (simp add: adapter_get_def adapter_register_def map_of_overwrite)
next
  case False
  then have "map_of reg name = None" by (simp add: map_of_eq_None_iff)
  with False show ?thesis
    by (auto simp: adapter_get_def adapter_register_def map_add_def split: option.splits)
qed

lemma adapter_get_unregister:
  "adapter_get (Some k) (adapter_unregister name reg) =
     (if k = name then Inl (ValueError (''Unknown provider: '' @ k)) else adapter_get (Some k) reg)"
proof -
  have "map_of (filter (\<lambda>(n, _). n \<noteq> name) reg) k = (if k = name then None else map_of reg k)"
    by (induction reg) auto
  then show ?thesis by (simp add: adapter_get_def adapter_unregister_def)
qed

section \<open>Retrying\<close>

text \<open>
  \<open>_with_retry\<close>: a loop over \<open>range(retries + 1)\<close>. \<open>sleep\<close> is given the pause in
  milliseconds, \<open>100 * 2 ^ attempt\<close>. Only a transient error is caught. The counter of
  remaining rounds is the loop's range, so the recursion is structural.
\<close>

fun retry_loop ::
  "(nat \<Rightarrow> ('s, unit) prog) \<Rightarrow> ('s, 'r) prog \<Rightarrow> int \<Rightarrow> nat \<Rightarrow> exn option \<Rightarrow> nat \<Rightarrow> ('s, 'r) prog" where
  "retry_loop sleep op retries attempt last_error 0 =
     (case last_error of
        Some e \<Rightarrow> raise e
      | None \<Rightarrow> raise (RuntimeError ''Retry loop completed without result''))"
| "retry_loop sleep op retries attempt last_error (Suc rounds) =
     try_except op (\<lambda>e. case e of
        TransientError m \<Rightarrow>
          seqP (whenP (int attempt < retries) (sleep (100 * 2 ^ attempt)))
            (retry_loop sleep op retries (Suc attempt) (Some e) rounds)
      | _ \<Rightarrow> raise e)"

definition with_retry ::
  "(nat \<Rightarrow> ('s, unit) prog) \<Rightarrow> int \<Rightarrow> ('s, 'r) prog \<Rightarrow> int option \<Rightarrow> ('s, 'r) prog" where
  "with_retry sleep config_max_retries op max_retries =
     (let retries = (case max_retries of Some r \<Rightarrow> r | None \<Rightarrow> config_max_retries)
      in retry_loop sleep op retries 0 None (nat (retries + 1)))"

section \<open>Idempotency\<close>

text \<open>
  The Redis client: \<open>get\<close>, \<open>setex\<close> (key, seconds, value) and \<open>delete\<close>, each of which may
  raise. Values are the responses, as their JSON text stands for them.
\<close>

record 's redis_client =
  redis_get :: "string \<Rightarrow> ('s, sdk_response option) prog"
  redis_setex :: "string \<Rightarrow> int \<Rightarrow> sdk_response \<Rightarrow> ('s, unit) prog"
  redis_delete :: "string \<Rightarrow> ('s, unit) prog"

definition idempotency_default_ttl :: int where
  "idempotency_default_ttl = 86400"

definition idempotency_key_name :: "string \<Rightarrow> string" where
  "idempotency_key_name key = ''idempotency:'' @ key"

text \<open>The key is the first 32 hex digits of the SHA-256 of the joined parts.\<close>

definition generate_key :: "(string \<Rightarrow> string) \<Rightarrow> string \<Rightarrow> string \<Rightarrow> string list \<Rightarrow> string" where
  "generate_key sha256_hex provider operation args =
     take 32 (sha256_hex (provider @ '':'' @ operation @ '':'' @ join_with '':'' args))"

definition idempotency_check :: "'s redis_client \<Rightarrow> string \<Rightarrow> ('s, sdk_response option) prog" where
  "idempotency_check redis key = redis_get redis (idempotency_key_name key)"

definition idempotency_store ::
  "'s redis_client \<Rightarrow> string \<Rightarrow> sdk_response \<Rightarrow> int option \<Rightarrow> ('s, unit) prog" where
  "idempotency_store redis key response ttl =
     redis_setex redis (idempotency_key_name key)
       (case ttl of Some t \<Rightarrow> if t = 0 then idempotency_default_ttl else t
                  | None \<Rightarrow> idempotency_default_ttl) response"

definition idempotency_delete :: "'s redis_client \<Rightarrow> string \<Rightarrow> ('s, unit) prog" where
  "idempotency_delete redis key = redis_delete redis (idempotency_key_name key)"

definition with_idempotency ::
  "'s redis_client option \<Rightarrow> string option \<Rightarrow> ('s, sdk_response) prog \<Rightarrow> ('s, sdk_response) prog" where
  "with_idempotency service key operation =
     (if \<not> truthy key then operation
      else case (service, key) of
        (Some redis, Some k) \<Rightarrow>
          bindP (idempotency_check redis k) (\<lambda>cached.
            case cached of
              Some r \<Rightarrow> ret r
            | None \<Rightarrow>
                bindP operation (\<lambda>response.
                  seqP (whenP (resp_success response) (idempotency_store redis k response None))
                    (ret response)))
      | _ \<Rightarrow> operation)"

text \<open>
  What Redis documents, and core relies on: a value just written, with a positive time to
  live, is read back, and reading changes nothing.
\<close>

definition redis_reads_back :: "'s redis_client \<Rightarrow> bool" where
  "redis_reads_back redis \<longleftrightarrow>
     (\<forall>k ttl v s s'. 0 < ttl \<longrightarrow> redis_setex redis k ttl v s = (Inr (), s') \<longrightarrow>
        redis_get redis k s' = (Inr (Some v), s')) \<and>
     (\<forall>k s v s'. redis_get redis k s = (Inr (Some v), s') \<longrightarrow>
        redis_get redis k s' = (Inr (Some v), s'))"

lemma store_then_check:
  "\<lbrakk>redis_reads_back redis; idempotency_store redis k v None s = (Inr (), s')\<rbrakk> \<Longrightarrow>
   idempotency_check redis k s' = (Inr (Some v), s')"
  unfolding redis_reads_back_def idempotency_store_def idempotency_check_def
    idempotency_default_ttl_def option.case by (metis zero_less_numeral)

section \<open>MockSDKAdapter\<close>

record mock_intent =
  mi_amount :: int
  mi_currency :: string
  mi_status :: string

record mock_adapter =
  mk_should_fail :: bool
  mk_calls :: "(string \<times> string) list"
  mk_intents :: "string \<rightharpoonup> mock_intent"
  mk_cache :: "string \<rightharpoonup> string"

definition new_mock :: "bool \<Rightarrow> mock_adapter" where
  "new_mock fails = \<lparr>mk_should_fail = fails, mk_calls = [], mk_intents = Map.empty,
     mk_cache = Map.empty\<rparr>"

definition set_should_fail :: "bool \<Rightarrow> mock_adapter \<Rightarrow> mock_adapter" where
  "set_should_fail b m = m\<lparr>mk_should_fail := b\<rparr>"

definition log_call :: "string \<Rightarrow> string \<Rightarrow> mock_adapter \<Rightarrow> mock_adapter" where
  "log_call method arg m = m\<lparr>mk_calls := mk_calls m @ [(method, arg)]\<rparr>"

definition created_response :: "string \<Rightarrow> int \<Rightarrow> string \<Rightarrow> sdk_response" where
  "created_response pid amount currency =
     resp_ok [(''payment_intent_id'', SText pid), (''amount'', SNum amount),
       (''currency'', SText currency), (''status'', SText ''created'')]"

text \<open>\<open>fresh\<close> is the hexadecimal part of the new identifier, drawn by \<open>uuid4\<close>.\<close>

definition mock_create_payment_intent ::
  "string \<Rightarrow> int \<Rightarrow> string \<Rightarrow> string option \<Rightarrow> mock_adapter \<Rightarrow> sdk_response \<times> mock_adapter" where
  "mock_create_payment_intent fresh amount currency key m0 =
     (let m = log_call ''create_payment_intent'' currency m0 in
      if mk_should_fail m then (resp_fail ''Mock payment failed'' ''mock_error'', m)
      else
        let cached = (case key of Some k \<Rightarrow> if k = [] then None else mk_cache m k | None \<Rightarrow> None)
        in case cached of
             Some pid \<Rightarrow> (created_response pid amount currency, m)
           | None \<Rightarrow>
               let pid = ''pi_mock_'' @ fresh;
                   m1 = (case key of
                           Some k \<Rightarrow> if k = [] then m else m\<lparr>mk_cache := (mk_cache m)(k \<mapsto> pid)\<rparr>
                         | None \<Rightarrow> m)
               in (created_response pid amount currency,
                   m1\<lparr>mk_intents := (mk_intents m1)(pid \<mapsto>
                     \<lparr>mi_amount = amount, mi_currency = currency, mi_status = ''created''\<rparr>)\<rparr>))"

definition mock_set_status :: "string \<Rightarrow> string \<Rightarrow> mock_adapter \<Rightarrow> mock_adapter" where
  "mock_set_status pid st m =
     m\<lparr>mk_intents := (mk_intents m)(pid := map_option (\<lambda>i. i\<lparr>mi_status := st\<rparr>) (mk_intents m pid))\<rparr>"

definition mock_capture_payment :: "string \<Rightarrow> mock_adapter \<Rightarrow> sdk_response \<times> mock_adapter" where
  "mock_capture_payment pid m0 =
     (let m = log_call ''capture_payment'' pid m0 in
      if mk_should_fail m then (resp_fail ''Mock capture failed'' ''mock_error'', m)
      else if mk_intents m pid = None then (resp_fail ''Payment intent not found'' ''not_found'', m)
      else (resp_ok [(''payment_intent_id'', SText pid), (''status'', SText ''captured'')],
            mock_set_status pid ''captured'' m))"

definition mock_release_authorization :: "string \<Rightarrow> mock_adapter \<Rightarrow> sdk_response \<times> mock_adapter" where
  "mock_release_authorization pid m =
     (resp_ok [(''payment_intent_id'', SText pid), (''status'', SText ''canceled'')], m)"

definition mock_refund_payment ::
  "string \<Rightarrow> string \<Rightarrow> int option \<Rightarrow> mock_adapter \<Rightarrow> sdk_response \<times> mock_adapter" where
  "mock_refund_payment fresh pid amount m0 =
     (let m = log_call ''refund_payment'' pid m0 in
      if mk_should_fail m then (resp_fail ''Mock refund failed'' ''mock_error'', m)
      else case mk_intents m pid of
        None \<Rightarrow> (resp_fail ''Payment intent not found'' ''not_found'', m)
      | Some intent \<Rightarrow>
          (resp_ok [(''refund_id'', SText (''re_mock_'' @ fresh)), (''payment_intent_id'', SText pid),
             (''amount'', SNum (case amount of Some a \<Rightarrow> a | None \<Rightarrow> mi_amount intent)),
             (''status'', SText ''refunded'')],
           mock_set_status pid ''refunded'' m))"

definition mock_get_payment_status :: "string \<Rightarrow> mock_adapter \<Rightarrow> sdk_response \<times> mock_adapter" where
  "mock_get_payment_status pid m0 =
     (let m = log_call ''get_payment_status'' pid m0 in
      if mk_should_fail m then (resp_fail ''Mock status check failed'' ''mock_error'', m)
      else case mk_intents m pid of
        None \<Rightarrow> (resp_fail ''Payment intent not found'' ''not_found'', m)
      | Some intent \<Rightarrow>
          (resp_ok [(''payment_intent_id'', SText pid), (''status'', SText (mi_status intent)),
             (''amount'', SNum (mi_amount intent)), (''currency'', SText (mi_currency intent))], m))"

text \<open>The mock as the adapter core calls, on a state that holds it.\<close>

definition of_mock ::
  "(mock_adapter \<Rightarrow> sdk_response \<times> mock_adapter) \<Rightarrow> (mock_adapter, sdk_response) prog" where
  "of_mock f m = (case f m of (r, m') \<Rightarrow> (Inr r, m'))"

definition mock_sdk_adapter :: "mock_adapter sdk_adapter" where
  "mock_sdk_adapter =
     \<lparr>ad_capture_payment = (\<lambda>pid. of_mock (mock_capture_payment pid)),
      ad_release_authorization = (\<lambda>pid. of_mock (mock_release_authorization pid))\<rparr>"

section \<open>Properties\<close>

text \<open>
  A scripted provider: the state lists what the next calls will do, and the pauses taken.
\<close>

definition scripted :: "((exn + 'r) list \<times> nat list, 'r) prog" where
  "scripted s = (hd (fst s), (tl (fst s), snd s))"

definition record_sleep :: "nat \<Rightarrow> ((exn + 'r) list \<times> nat list, unit) prog" where
  "record_sleep n = modify (\<lambda>(script, pauses). (script, pauses @ [n]))"

definition transient :: "exn + 'r \<Rightarrow> bool" where
  "transient r = (case r of Inl (TransientError m) \<Rightarrow> True | _ \<Rightarrow> False)"

lemma scripted_eval: "scripted (r # rest, p) = (r, (rest, p))"
  by (simp add: scripted_def)

lemma seqP_record_sleep: "seqP (record_sleep n) m (a, b) = m (a, b @ [n])"
  by (simp add: record_sleep_def)

lemma retry_loop_scripted:
  assumes "int attempt + int rounds = retries + 1" and "0 < rounds" and "rounds \<le> length script"
  shows "retry_loop record_sleep scripted retries attempt prev rounds (script, pauses) =
    (let k = min (length (takeWhile transient script)) (rounds - 1)
     in (script ! k,
         (drop (Suc k) script, pauses @ map (\<lambda>i. 100 * 2 ^ i) [attempt ..< attempt + k])))"
  using assms
proof (induction rounds arbitrary: attempt prev script pauses)
  case 0
  then show ?case by simp
next
  case (Suc rounds)
  from Suc.prems obtain r rest where script: "script = r # rest" by (cases script) auto
  show ?case
  proof (cases "transient r")
    case False
    then have "(case r of Inl e \<Rightarrow> (case e of
        TransientError m \<Rightarrow> False | _ \<Rightarrow> True) | Inr x \<Rightarrow> True)"
      by (auto simp: transient_def split: sum.splits exn.splits)
    with False script show ?thesis
      by (auto simp: scripted_def try_except_def Let_def raise_def split: sum.splits exn.splits)
  next
    case True
    then obtain m where r: "r = Inl (TransientError m)"
      by (auto simp: transient_def split: sum.splits exn.splits)
    show ?thesis
    proof (cases "rounds = 0")
      case True
      with Suc.prems script r show ?thesis
        by (simp add: scripted_def try_except_def whenP_def Let_def)
    next
      case False
      have len: "rounds \<le> length rest" and more: "int attempt < retries"
        and eq: "int (Suc attempt) + int rounds = retries + 1" and pos: "0 < rounds"
        using Suc.prems script False by auto
      have k: "min (length (takeWhile transient script)) (Suc rounds - 1) =
          Suc (min (length (takeWhile transient rest)) (rounds - 1))"
        using script True \<open>0 < rounds\<close> by simp
      have upt: "[attempt ..< attempt + Suc n] = attempt # [Suc attempt ..< Suc attempt + n]" for n
        by (simp add: upt_conv_Cons)
      from script r more show ?thesis
        unfolding k Let_def upt
        by (simp add: scripted_eval try_except_def whenP_def seqP_record_sleep
            Suc.IH [OF eq pos len] Let_def del: upt_Suc)
    qed
  qed
qed

text \<open>
  C39. \<open>_with_retry\<close> with a bound of \<open>retries\<close> yields the outcome of the first call that is not
  a transient error, and of the last of \<open>retries + 1\<close> calls when all are; it calls the
  operation no more than that, and pauses 0.1 s, 0.2 s, 0.4 s and so on in between.
\<close>

theorem with_retry_spec:
  assumes "0 \<le> retries" and "nat retries < length script"
  shows "with_retry record_sleep config scripted (Some retries) (script, []) =
    (let k = min (length (takeWhile transient script)) (nat retries)
     in (script ! k, (drop (Suc k) script, map (\<lambda>i. 100 * 2 ^ i) [0 ..< k])))"
proof -
  have rounds: "nat (retries + 1) = Suc (nat retries)" using assms by simp
  show ?thesis
    unfolding with_retry_def Let_def option.case rounds
    by (subst retry_loop_scripted) (use assms in \<open>simp_all add: Let_def del: upt_Suc\<close>)
qed

theorem with_retry_spec_witness:
  "with_retry record_sleep 0 scripted (Some 3)
     ([Inl (TransientError ''a''), Inl (TransientError ''b''), Inr (7::int), Inr 8], []) =
   (Inr 7, ([Inr 8], [100, 200]))"
  by (subst with_retry_spec) (simp_all add: transient_def upt_rec)

text \<open>
  Idempotent replay: when an operation run under an idempotency key has returned a
  successful response, running any operation under the same key returns that response
  again, does not run the operation and changes nothing.
\<close>

theorem idempotent_replay:
  assumes "redis_reads_back redis" and "k \<noteq> []"
    and "with_idempotency (Some redis) (Some k) operation s = (Inr r, s')" and "resp_success r"
  shows "with_idempotency (Some redis) (Some k) other s' = (Inr r, s')"
proof -
  from assms(2,3) have "bindP (idempotency_check redis k) (\<lambda>cached.
      case cached of Some r \<Rightarrow> ret r
      | None \<Rightarrow> bindP operation (\<lambda>response.
          seqP (whenP (resp_success response) (idempotency_store redis k response None))
            (ret response))) s = (Inr r, s')"
    by (simp add: with_idempotency_def)
  then obtain cached t where ck: "idempotency_check redis k s = (Inr cached, t)"
    and rest: "(case cached of Some r \<Rightarrow> ret r
      | None \<Rightarrow> bindP operation (\<lambda>response.
          seqP (whenP (resp_success response) (idempotency_store redis k response None))
            (ret response))) t = (Inr r, s')" by (elim bindP_InrE) blast
  have "idempotency_check redis k s' = (Inr (Some r), s')"
  proof (cases cached)
    case (Some c)
    with rest have "c = r" "t = s'" by simp_all
    with ck Some assms(1) show ?thesis
      by (auto simp: idempotency_check_def redis_reads_back_def)
  next
    case None
    with rest obtain u where "idempotency_store redis k r None u = (Inr (), s')"
      using assms(4) by (auto elim!: bindP_InrE seqP_InrE simp: whenP_def split: if_splits)
    with assms(1) show ?thesis by (rule store_then_check)
  qed
  with assms(2) show ?thesis by (simp add: with_idempotency_def bindP_def)
qed

text \<open>A Redis that never expires, for the witness.\<close>

definition map_redis :: "(string \<rightharpoonup> sdk_response) redis_client" where
  "map_redis =
     \<lparr>redis_get = (\<lambda>k. gets (\<lambda>m. m k)), redis_setex = (\<lambda>k ttl v. modify (\<lambda>m. m(k \<mapsto> v))),
      redis_delete = (\<lambda>k. modify (\<lambda>m. m(k := None)))\<rparr>"

theorem idempotent_replay_witness:
  "let s' = snd (with_idempotency (Some map_redis) (Some ''k'') (ret (resp_ok [])) Map.empty)
   in fst (with_idempotency (Some map_redis) (Some ''k'') (raise (OtherError ''called'')) s') =
      Inr (resp_ok [])"
proof -
  have law: "redis_reads_back map_redis" by (simp add: redis_reads_back_def map_redis_def)
  have run: "with_idempotency (Some map_redis) (Some ''k'') (ret (resp_ok [])) Map.empty =
      (Inr (resp_ok []), [''idempotency:k'' \<mapsto> resp_ok []])"
    by (simp add: with_idempotency_def idempotency_check_def idempotency_store_def map_redis_def
        idempotency_key_name_def whenP_def)
  show ?thesis using idempotent_replay [OF law _ run] run by simp
qed

end
