(* ===== verification/Invoices.thy ===== *)
theory Invoices
  imports LineItems Rendering
begin

text \<open>
  Invoices: the status methods of \<open>UserInvoice\<close> (\<open>vbwd/models/invoice.py\<close>), the reads of
  \<open>InvoiceRepository\<close> and the operations of \<open>InvoiceService\<close>
  (\<open>vbwd/services/invoice_service.py\<close>), \<open>validate_invoice_for_payment\<close>
  (\<open>vbwd/plugins/payment_route_helpers.py\<close>).
\<close>

section \<open>Status\<close>

definition is_payable :: "time \<Rightarrow> invoice \<Rightarrow> bool" where
  "is_payable now v \<longleftrightarrow>
     inv_status v \<in> {PENDING, AUTHORIZED} \<and>
     (case inv_expires_at v of None \<Rightarrow> True | Some e \<Rightarrow> \<not> e < now)"

definition is_capturable :: "invoice \<Rightarrow> bool" where
  "is_capturable v \<longleftrightarrow> inv_status v = AUTHORIZED"

definition inv_mark_authorized :: "string option \<Rightarrow> string option \<Rightarrow> invoice \<Rightarrow> invoice" where
  "inv_mark_authorized ref method v =
     v\<lparr>inv_status := AUTHORIZED, inv_payment_ref := ref, inv_payment_method := method\<rparr>"

definition inv_mark_paid :: "time \<Rightarrow> string option \<Rightarrow> string option \<Rightarrow> invoice \<Rightarrow> invoice" where
  "inv_mark_paid now ref method v =
     v\<lparr>inv_status := PAID, inv_payment_ref := ref, inv_payment_method := method,
       inv_paid_at := Some now\<rparr>"

definition inv_mark_failed :: "invoice \<Rightarrow> invoice" where
  "inv_mark_failed v = v\<lparr>inv_status := FAILED\<rparr>"

definition inv_mark_cancelled :: "invoice \<Rightarrow> invoice" where
  "inv_mark_cancelled v = v\<lparr>inv_status := CANCELLED\<rparr>"

definition inv_mark_refunded :: "invoice \<Rightarrow> invoice" where
  "inv_mark_refunded v = v\<lparr>inv_status := REFUNDED\<rparr>"

lemmas inv_mark_defs = inv_mark_authorized_def inv_mark_paid_def inv_mark_failed_def
  inv_mark_cancelled_def inv_mark_refunded_def

lemma inv_mark_id [simp]:
  "inv_id (inv_mark_authorized r m v) = inv_id v" "inv_id (inv_mark_paid now r m v) = inv_id v"
  "inv_id (inv_mark_failed v) = inv_id v" "inv_id (inv_mark_cancelled v) = inv_id v"
  "inv_id (inv_mark_refunded v) = inv_id v"
  by (simp_all add: inv_mark_defs)

lemma inv_mark_status [simp]:
  "inv_status (inv_mark_authorized r m v) = AUTHORIZED" "inv_status (inv_mark_paid now r m v) = PAID"
  "inv_status (inv_mark_failed v) = FAILED" "inv_status (inv_mark_cancelled v) = CANCELLED"
  "inv_status (inv_mark_refunded v) = REFUNDED"
  by (simp_all add: inv_mark_defs)

lemma inv_mark_items [simp]:
  "inv_line_items (inv_mark_paid now r m v) = inv_line_items v"
  "inv_line_items (inv_mark_refunded v) = inv_line_items v"
  "inv_user_id (inv_mark_paid now r m v) = inv_user_id v"
  "inv_user_id (inv_mark_refunded v) = inv_user_id v"
  by (simp_all add: inv_mark_defs)

section \<open>InvoiceRepository\<close>

definition save_invoice :: "driver \<Rightarrow> invoice \<Rightarrow> ('p db_scheme session, unit) prog" where
  "save_invoice drv v = repo_save drv (\<lambda>d i. None) (put_invoice v) (Some (inv_id v)) None"

text \<open>The list reads, on the rows of the table in the order the database has them.\<close>

definition find_pending_invoices :: "invoice list \<Rightarrow> invoice list" where
  "find_pending_invoices rows = filter (\<lambda>v. inv_status v = PENDING) rows"

definition find_overdue_invoices :: "time \<Rightarrow> invoice list \<Rightarrow> invoice list" where
  "find_overdue_invoices now rows =
     sort_key (\<lambda>v. case inv_expires_at v of Some e \<Rightarrow> e | None \<Rightarrow> 0)
       (filter (\<lambda>v. inv_status v = PENDING \<and>
          (case inv_expires_at v of Some e \<Rightarrow> e < now | None \<Rightarrow> False)) rows)"

section \<open>InvoiceService\<close>

record invoice_result =
  ires_success :: bool
  ires_invoice :: "invoice option"
  ires_error :: "string option"

definition invoice_ok :: "invoice \<Rightarrow> invoice_result" where
  "invoice_ok v = \<lparr>ires_success = True, ires_invoice = Some v, ires_error = None\<rparr>"

definition invoice_err :: "string \<Rightarrow> invoice_result" where
  "invoice_err e = \<lparr>ires_success = False, ires_invoice = None, ires_error = Some e\<rparr>"

text \<open>
  \<open>create_invoice\<close>: the identifier and the invoice number are drawn by the caller of the
  model (\<open>uuid4\<close> and the clock).
\<close>

definition create_invoice ::
  "driver \<Rightarrow> uuid \<Rightarrow> string \<Rightarrow> time \<Rightarrow> string \<Rightarrow> int \<Rightarrow> string \<Rightarrow> int
     \<Rightarrow> ('p db_scheme session, invoice_result) prog" where
  "create_invoice drv fresh number now user amount currency due_days =
     try_except
       (case parse_uuid user of
          None \<Rightarrow> raise (ValueError ''badly formed hexadecimal UUID string'')
        | Some uid \<Rightarrow>
            (let v = \<lparr>inv_id = fresh, inv_user_id = uid, inv_number = number, inv_amount = amount,
                 inv_currency = currency, inv_status = PENDING, inv_payment_method = None,
                 inv_payment_ref = None, inv_invoiced_at = now, inv_paid_at = None,
                 inv_expires_at = Some (now + 86400 * due_days), inv_payment_intent_id = None,
                 inv_subtotal = None, inv_tax_amount = Some 0, inv_total_amount = None,
                 inv_provider_session_id = None, inv_created_at = now, inv_metadata = [],
                 inv_line_items = []\<rparr>
             in seqP (save_invoice drv v) (ret (invoice_ok v))))
       (\<lambda>e. ret (invoice_err (exn_str e)))"

text \<open>The shape the transitions share: load, guard, change, save.\<close>

definition transition ::
  "driver \<Rightarrow> uuid \<Rightarrow> (invoice \<Rightarrow> string option) \<Rightarrow> (invoice \<Rightarrow> invoice)
     \<Rightarrow> ('p db_scheme session, invoice_result) prog" where
  "transition drv i refuse change =
     bindP (find_invoice i) (\<lambda>found.
       case found of
         None \<Rightarrow> ret (invoice_err ''Invoice not found'')
       | Some v \<Rightarrow>
           (case refuse v of
              Some e \<Rightarrow> ret (invoice_err e)
            | None \<Rightarrow> seqP (save_invoice drv (change v)) (ret (invoice_ok (change v)))))"

definition svc_mark_paid ::
  "driver \<Rightarrow> time \<Rightarrow> uuid \<Rightarrow> string \<Rightarrow> string \<Rightarrow> ('p db_scheme session, invoice_result) prog" where
  "svc_mark_paid drv now i ref method =
     transition drv i
       (\<lambda>v. if inv_status v = PAID then Some ''Invoice already paid''
            else if inv_status v \<noteq> PENDING
            then Some (''Cannot mark as paid: invoice status is '' @ invoice_status_value (inv_status v))
            else None)
       (inv_mark_paid now (Some ref) (Some method))"

definition svc_mark_failed :: "driver \<Rightarrow> uuid \<Rightarrow> ('p db_scheme session, invoice_result) prog" where
  "svc_mark_failed drv i = transition drv i (\<lambda>v. None) inv_mark_failed"

definition svc_mark_cancelled :: "driver \<Rightarrow> uuid \<Rightarrow> ('p db_scheme session, invoice_result) prog" where
  "svc_mark_cancelled drv i = transition drv i (\<lambda>v. None) inv_mark_cancelled"

definition svc_mark_refunded :: "driver \<Rightarrow> uuid \<Rightarrow> ('p db_scheme session, invoice_result) prog" where
  "svc_mark_refunded drv i =
     transition drv i
       (\<lambda>v. if inv_status v \<noteq> PAID then Some ''Cannot refund: invoice is not paid'' else None)
       inv_mark_refunded"

section \<open>Validation before a payment session\<close>

text \<open>The error is the HTTP status with its message.\<close>

definition validate_invoice_for_payment ::
  "string \<Rightarrow> uuid
     \<Rightarrow> ('p db_scheme session, (nat \<times> string) + invoice) prog" where
  "validate_invoice_for_payment invoice_id user =
     (case parse_uuid invoice_id of
        None \<Rightarrow> ret (Inl (400, ''Invalid invoice_id format''))
      | Some i \<Rightarrow> bindP (find_invoice i) (\<lambda>found. ret (
          case found of
            None \<Rightarrow> Inl (404, ''Invoice not found'')
          | Some v \<Rightarrow>
              if inv_status v \<noteq> PENDING
              then Inl (400, ''Invoice is '' @ invoice_status_value (inv_status v) @ '', expected PENDING'')
              else if inv_user_id v \<noteq> user then Inl (403, ''Invoice does not belong to this user'')
              else Inr v)))"

section \<open>What the operations do\<close>

lemma save_invoice_Inr:
  "save_invoice drv v s = (Inr u, s') \<Longrightarrow>
   s' = s\<lparr>calls := Suc (calls s), pending := put_invoice v (pending s),
     durable := put_invoice v (pending s)\<rparr>"
  by (auto simp: save_invoice_def repo_save_def dest!: save_commit_Inr)

lemma save_invoice_Inl:
  "save_invoice drv v s = (Inl e, s') \<Longrightarrow> durable s' = durable s"
  by (auto simp: save_invoice_def repo_save_def dest!: save_commit_Inl_durable)

lemma save_invoice_ok:
  "drv (calls s) = None \<Longrightarrow> save_invoice drv v s =
     (Inr (), s\<lparr>calls := Suc (calls s), pending := put_invoice v (pending s),
        durable := put_invoice v (pending s)\<rparr>)"
  by (simp add: save_invoice_def repo_save_def)

lemma transition_Inr:
  assumes "transition drv i refuse change s = (Inr r, s')"
  shows "case tbl_invoice (pending s) i of
      None \<Rightarrow> r = invoice_err ''Invoice not found'' \<and> s' = s
    | Some v \<Rightarrow>
        (case refuse v of
           Some e \<Rightarrow> r = invoice_err e \<and> s' = s
         | None \<Rightarrow> r = invoice_ok (change v) \<and>
             pending s' = put_invoice (change v) (pending s) \<and> durable s' = pending s')"
  using assms
  by (auto simp: transition_def find_invoice_def split: option.splits elim!: seqP_InrE
      dest!: save_invoice_Inr)

lemma transition_Inl:
  "transition drv i refuse change s = (Inl e, s') \<Longrightarrow> durable s' = durable s"
  by (auto simp: transition_def find_invoice_def split: option.splits elim!: seqP_InlE
      dest!: save_invoice_Inl)

lemma transition_effect:
  assumes "keyed (pending s)" and "transition drv i refuse change s = (Inr r, s')"
    and "ires_success r" and "\<And>v. inv_id (change v) = inv_id v"
  shows "\<exists>v. tbl_invoice (pending s) i = Some v \<and> refuse v = None \<and>
    tbl_invoice (durable s') = (tbl_invoice (pending s))(i \<mapsto> change v)"
  using transition_Inr [OF assms(2)] assms
  by (auto simp: invoice_err_def keyed_def split: option.splits)

section \<open>The service as a state machine\<close>

datatype invoice_op = OpPaid time string string | OpFailed | OpCancelled | OpRefunded

fun run_invoice_op ::
  "driver \<Rightarrow> uuid \<Rightarrow> invoice_op \<Rightarrow> ('p db_scheme session, invoice_result) prog" where
  "run_invoice_op drv i (OpPaid now ref method) = svc_mark_paid drv now i ref method"
| "run_invoice_op drv i OpFailed = svc_mark_failed drv i"
| "run_invoice_op drv i OpCancelled = svc_mark_cancelled drv i"
| "run_invoice_op drv i OpRefunded = svc_mark_refunded drv i"

text \<open>The transitions of status that the service allows.\<close>

inductive status_step :: "invoice_op \<Rightarrow> invoice_status \<Rightarrow> invoice_status \<Rightarrow> bool" where
  pay: "status_step (OpPaid now ref method) PENDING PAID"
| fail_any: "status_step OpFailed st FAILED"
| cancel_any: "status_step OpCancelled st CANCELLED"
| refund: "status_step OpRefunded PAID REFUNDED"

inductive_simps status_step_simps [simp]:
  "status_step (OpPaid now ref method) a b"
  "status_step OpFailed a b" "status_step OpCancelled a b" "status_step OpRefunded a b"

section \<open>Properties\<close>

lemma invoice_op_transition:
  assumes "run_invoice_op drv i op s = (Inr r, s')"
  obtains refuse change where "transition drv i refuse change s = (Inr r, s')"
    and "\<And>v. inv_id (change v) = inv_id v"
    and "\<And>v. refuse v = None \<Longrightarrow> status_step op (inv_status v) (inv_status (change v))"
proof (cases op)
  case (OpPaid now ref meth)
  show ?thesis
    by (rule that [of "\<lambda>v. if inv_status v = PAID then Some ''Invoice already paid''
          else if inv_status v \<noteq> PENDING
          then Some (''Cannot mark as paid: invoice status is '' @ invoice_status_value (inv_status v))
          else None" "inv_mark_paid now (Some ref) (Some meth)"])
      (use OpPaid assms in \<open>auto simp: svc_mark_paid_def split: if_splits\<close>)
next
  case OpFailed
  show ?thesis
    by (rule that [of "\<lambda>v. None" inv_mark_failed])
      (use OpFailed assms in \<open>auto simp: svc_mark_failed_def\<close>)
next
  case OpCancelled
  show ?thesis
    by (rule that [of "\<lambda>v. None" inv_mark_cancelled])
      (use OpCancelled assms in \<open>auto simp: svc_mark_cancelled_def\<close>)
next
  case OpRefunded
  show ?thesis
    by (rule that [of "\<lambda>v. if inv_status v \<noteq> PAID then Some ''Cannot refund: invoice is not paid''
          else None" inv_mark_refunded])
      (use OpRefunded assms in \<open>auto simp: svc_mark_refunded_def split: if_splits\<close>)
qed


definition sample_billing_db :: db where
  "sample_billing_db = put_invoice sample_invoice (put_purchase sample_purchase sample_db)"

lemma sample_billing_keyed: "keyed sample_billing_db"
  unfolding sample_billing_db_def by (intro keyed_put_invoice sample_purchase_keyed)


text \<open>
  An invoice passes validation for a payment session exactly when the identifier parses,
  the invoice exists, is pending and belongs to the user; and then it is the stored invoice.
\<close>

theorem validate_invoice_iff:
  "fst (validate_invoice_for_payment iid user s) = Inr (Inr v) \<longleftrightarrow>
   (\<exists>i. parse_uuid iid = Some i \<and> tbl_invoice (pending s) i = Some v \<and>
      inv_status v = PENDING \<and> inv_user_id v = user)"
  by (auto simp: validate_invoice_for_payment_def find_invoice_def raise_def
      split: sum.splits exn.splits option.splits if_splits)

end
