(* ===== verification/Payments.thy ===== *)
theory Payments
  imports Invoices Sdk
begin

text \<open>
  Payments: the handlers of the payment events (\<open>vbwd/handlers/payment_authorized_handler.py\<close>,
  \<open>payment_handler.py\<close>, \<open>refund_handler.py\<close>, \<open>restore_handler.py\<close>,
  \<open>auto_capture_handler.py\<close>), the services they call (\<open>capture_service.py\<close>,
  \<open>refund_service.py\<close>, \<open>restore_service.py\<close>), the emitting functions of
  \<open>plugins/payment_route_helpers.py\<close> and the registration of \<open>app.py\<close>.
  Parameters: \<open>lhs\<close>, the registered line item handlers; the adapters; \<open>email_of\<close>, the user
  table's email column; the clock.
\<close>

section \<open>Events\<close>

record authorized_event =
  au_invoice_id :: uuid
  au_reference :: "string option"
  au_provider :: "string option"
  au_intent :: "string option"

record captured_event =
  ce_invoice_id :: uuid
  ce_reference :: "string option"
  ce_provider :: "string option"
  ce_metadata :: json_dict

record refunded_event =
  rf_invoice_id :: uuid
  rf_reference :: "string option"

record reversed_event =
  rr_invoice_id :: "uuid option"
  rr_reason :: string

datatype payment_event =
    PaymentAuthorizedEvent authorized_event
  | PaymentCapturedEvent captured_event
  | PaymentRefundedEvent refunded_event
  | RefundReversedEvent reversed_event

fun payment_event_name :: "payment_event \<Rightarrow> string" where
  "payment_event_name (PaymentAuthorizedEvent e) = ''payment.authorized''"
| "payment_event_name (PaymentCapturedEvent e) = ''payment.captured''"
| "payment_event_name (PaymentRefundedEvent e) = ''payment.refunded''"
| "payment_event_name (RefundReversedEvent e) = ''refund.reversed''"

section \<open>Result data\<close>

text \<open>The dict of activated, reversed or restored items.\<close>

record items_summary =
  it_subscription :: "string option"
  it_bundles :: "string list"
  it_addons :: "string list"
  it_tokens :: int

definition no_items :: items_summary where
  "no_items = \<lparr>it_subscription = None, it_bundles = [], it_addons = [], it_tokens = 0\<rparr>"

record billing_data =
  bd_invoice_id :: uuid
  bd_status :: string
  bd_reference :: "string option"
  bd_items :: "items_summary option"
  bd_invoice :: "invoice option"

type_synonym bresult = "billing_data event_result"

definition handler_error :: "string \<Rightarrow> bresult" where
  "handler_error e = error_result e ''handler_error''"

definition billing_ok :: "uuid \<Rightarrow> string \<Rightarrow> string option \<Rightarrow> items_summary option \<Rightarrow> bresult" where
  "billing_ok i st ref items = success_result (Some (One
     \<lparr>bd_invoice_id = i, bd_status = st, bd_reference = ref, bd_items = items, bd_invoice = None\<rparr>))"

text \<open>A refund shows the invoice as well: the row stands for its dict, which \<open>InvoiceRender\<close> makes.\<close>

definition refund_shown :: "invoice \<Rightarrow> string option \<Rightarrow> items_summary option \<Rightarrow> bresult" where
  "refund_shown v ref items = success_result (Some (One
     \<lparr>bd_invoice_id = inv_id v, bd_status = ''refunded'', bd_reference = ref, bd_items = items,
      bd_invoice = Some v\<rparr>))"

lemma billing_result_sel [simp]: "\<not> er_success (handler_error e)" "er_success (billing_ok i st r x)"
  "er_success (refund_shown v r x)"
  by (simp_all add: handler_error_def billing_ok_def refund_shown_def)

text \<open>
  \<open>_collect_activation_result\<close>, and its copies in the refund and restore services:
  \<open>tokens\<close> reads the counter each of them adds up.
\<close>

definition collect_result ::
  "(item_data \<Rightarrow> int option) \<Rightarrow> item_data \<Rightarrow> items_summary \<Rightarrow> items_summary" where
  "collect_result tokens data acc =
     \<lparr>it_subscription =
        (case d_subscription data of Some x \<Rightarrow> Some x | None \<Rightarrow> it_subscription acc),
      it_bundles = it_bundles acc @ (case d_purchase data of Some x \<Rightarrow> [x] | None \<Rightarrow> []),
      it_addons = it_addons acc @ (case d_addon data of Some x \<Rightarrow> [x] | None \<Rightarrow> []),
      it_tokens = it_tokens acc + (case tokens data of Some n \<Rightarrow> n | None \<Rightarrow> 0)\<rparr>"

text \<open>The loop over an invoice's line items.\<close>

definition process_item ::
  "(line_item \<Rightarrow> ('s, line_item_result) prog) \<Rightarrow> (item_data \<Rightarrow> int option) \<Rightarrow> items_summary
     \<Rightarrow> line_item \<Rightarrow> ('s, items_summary) prog" where
  "process_item process tokens acc item =
     bindP (process item) (\<lambda>r. ret (
       if lr_success r \<and> \<not> lr_skipped r then collect_result tokens (lr_data r) acc else acc))"

definition process_items ::
  "(line_item \<Rightarrow> ('s, line_item_result) prog) \<Rightarrow> (item_data \<Rightarrow> int option) \<Rightarrow> line_item list
     \<Rightarrow> ('s, items_summary) prog" where
  "process_items process tokens items = foldP (process_item process tokens) no_items items"

text \<open>
  Reading an attribute of an invoice object after a commit or rollback expired it reads the
  row again; a row that is gone raises.
\<close>

definition refreshed :: "uuid \<Rightarrow> ('p db_scheme session, invoice) prog" where
  "refreshed i = bindP (find_invoice i) (\<lambda>found.
     case found of
       Some v \<Rightarrow> ret v
     | None \<Rightarrow> raise (OtherError ''ObjectDeletedError''))"

definition shown_number :: "invoice \<Rightarrow> string" where
  "shown_number v = str_or (Some (inv_number v)) (inv_id v)"

section \<open>PaymentAuthorizedHandler\<close>

definition handle_authorized ::
  "driver \<Rightarrow> authorized_event \<Rightarrow> ('p db_scheme session, bresult) prog" where
  "handle_authorized drv ev =
     bindP (find_invoice (au_invoice_id ev)) (\<lambda>found.
       case found of
         None \<Rightarrow> ret (handler_error (''Invoice '' @ au_invoice_id ev @ '' not found''))
       | Some v \<Rightarrow>
           (let v' = (inv_mark_authorized (Some (str_or (au_reference ev) []))
                        (Some (str_or (au_provider ev) [])) v)\<lparr>inv_payment_intent_id := au_intent ev\<rparr>
            in seqP (save_invoice drv v')
                 (bindP (refreshed (inv_id v')) (\<lambda>v.
                   seqP (publish ''invoice.authorized''
                     [(''invoice_id'', PStr (shown_number v)), (''invoice_uuid'', PStr (inv_id v)),
                      (''user_id'', PStr (inv_user_id v)), (''amount'', PStr (money_str (inv_amount v))),
                      (''payment_intent_id'', PStr (str_or (au_intent ev) []))])
                   (ret (billing_ok (inv_id v) ''AUTHORIZED'' (au_intent ev) None))))))"

section \<open>PaymentCapturedHandler\<close>

definition merge_metadata :: "json_dict \<Rightarrow> invoice \<Rightarrow> invoice" where
  "merge_metadata md v =
     v\<lparr>inv_metadata := dict_update (inv_metadata v) md\<rparr>"

definition captured_invoice :: "time \<Rightarrow> captured_event \<Rightarrow> invoice \<Rightarrow> invoice" where
  "captured_invoice now ev v =
     (let v1 = (if inv_status v \<noteq> PAID
                then inv_mark_paid now (ce_reference ev)
                       (Some (str_or (ce_provider ev) (str_or (inv_payment_method v) []))) v
                else v)
      in if ce_metadata ev \<noteq> [] then merge_metadata (ce_metadata ev) v1 else v1)"

definition handle_captured ::
  "driver \<Rightarrow> 'p line_handler list \<Rightarrow> ('p db_scheme \<Rightarrow> uuid \<Rightarrow> string option) \<Rightarrow> time
     \<Rightarrow> captured_event \<Rightarrow> ('p db_scheme session, bresult) prog" where
  "handle_captured drv lhs email_of now ev =
     try_except
       (bindP (find_invoice (ce_invoice_id ev)) (\<lambda>found.
          case found of
            None \<Rightarrow> ret (handler_error (''Invoice '' @ ce_invoice_id ev @ '' not found''))
          | Some v \<Rightarrow>
              (let v' = captured_invoice now ev v;
                   ctx = \<lparr>ctx_invoice = v', ctx_user_id = inv_user_id v'\<rparr>
               in seqP (whenP (inv_status v \<noteq> PAID \<or> ce_metadata ev \<noteq> []) (save_invoice drv v'))
                    (bindP (process_items (\<lambda>item. process_activation lhs item ctx)
                              d_tokens_credited (inv_line_items v')) (\<lambda>items.
                    bindP (refreshed (inv_id v')) (\<lambda>w.
                    bindP (query (\<lambda>d. email_of d (inv_user_id w))) (\<lambda>email.
                    seqP (publish ''invoice.paid''
                      [(''user_name'', PStr (case email of Some e \<Rightarrow> e | None \<Rightarrow> [])),
                       (''user_email'', PStr (case email of Some e \<Rightarrow> e | None \<Rightarrow> [])),
                       (''invoice_id'', PStr (shown_number w)),
                       (''amount'', PStr (money_str (inv_amount w))),
                       (''paid_date'', PStr (iso_date (case inv_paid_at w of Some t \<Rightarrow> t | None \<Rightarrow> now))),
                       (''invoice_url'', PStr (''/invoices/'' @ inv_id w))])
                    (ret (billing_ok (inv_id w) ''paid'' (ce_reference ev) (Some items))))))))))
       (\<lambda>e. ret (handler_error (exn_str e)))"

section \<open>RefundService\<close>

record 'i service_result =
  sr_success :: bool
  sr_invoice :: "uuid option"
  sr_items :: "'i option"
  sr_error :: "string option"

definition service_err :: "string \<Rightarrow> items_summary service_result" where
  "service_err e = \<lparr>sr_success = False, sr_invoice = None, sr_items = None, sr_error = Some e\<rparr>"

definition service_ok :: "uuid \<Rightarrow> items_summary \<Rightarrow> items_summary service_result" where
  "service_ok i items =
     \<lparr>sr_success = True, sr_invoice = Some i, sr_items = Some items, sr_error = None\<rparr>"

definition item_debit :: "'p db_scheme \<Rightarrow> line_item \<Rightarrow> int" where
  "item_debit d item =
     (if li_item_type item = TOKEN_BUNDLE
      then (case tbl_purchase d (li_item_id item) of
              Some p \<Rightarrow> if p_status p = P_COMPLETED then p_token_amount p else 0
            | None \<Rightarrow> 0)
      else 0)"

definition calculate_tokens_to_debit :: "invoice \<Rightarrow> 'p db_scheme \<Rightarrow> int" where
  "calculate_tokens_to_debit v d = fold (\<lambda>item total. total + item_debit d item) (inv_line_items v) 0"

definition process_refund ::
  "driver \<Rightarrow> 'p line_handler list \<Rightarrow> uuid \<Rightarrow> ('p db_scheme session, items_summary service_result) prog" where
  "process_refund drv lhs i =
     bindP (find_invoice i) (\<lambda>found.
       case found of
         None \<Rightarrow> ret (service_err (''Invoice '' @ i @ '' not found''))
       | Some v \<Rightarrow>
           if inv_status v \<noteq> PAID
           then ret (service_err (''Cannot refund: invoice status is '' @
                  invoice_status_value (inv_status v)))
           else bindP (query (calculate_tokens_to_debit v)) (\<lambda>total.
             bindP (get_balance (inv_user_id v)) (\<lambda>current.
             if 0 < total \<and> current < total
             then ret (service_err (''Insufficient token balance for refund. '' @
                    ''User has '' @ str_int current @ '' tokens but '' @ str_int total @
                    '' need to be deducted. User must purchase more tokens first.''))
             else
               (let v' = inv_mark_refunded v;
                    ctx = \<lparr>ctx_invoice = v', ctx_user_id = inv_user_id v'\<rparr>
                in seqP (save_invoice drv v')
                     (bindP (process_items (\<lambda>item. process_reversal lhs item ctx)
                               d_tokens_debited (inv_line_items v'))
                        (\<lambda>items. ret (service_ok (inv_id v') items)))))))"

definition handle_refunded ::
  "driver \<Rightarrow> 'p line_handler list \<Rightarrow> refunded_event \<Rightarrow> ('p db_scheme session, bresult) prog" where
  "handle_refunded drv lhs ev =
     try_except
       (bindP (process_refund drv lhs (rf_invoice_id ev)) (\<lambda>r.
          case sr_invoice r of
            None \<Rightarrow> ret (handler_error (case sr_error r of Some e \<Rightarrow> e | None \<Rightarrow> []))
          | Some i \<Rightarrow>
              bindP (refreshed i) (\<lambda>v.
                seqP (publish ''invoice.refunded''
                  [(''invoice_id'', PStr (shown_number v)), (''invoice_uuid'', PStr (inv_id v)),
                   (''user_id'', PStr (inv_user_id v)), (''amount'', PStr (money_str (inv_amount v))),
                   (''refund_reference'', case rf_reference ev of Some x \<Rightarrow> PStr x | None \<Rightarrow> PNull)])
                (ret (refund_shown v (rf_reference ev) (sr_items r))))))
       (\<lambda>e. ret (handler_error (exn_str e)))"

section \<open>RestoreService\<close>

definition process_restore ::
  "driver \<Rightarrow> 'p line_handler list \<Rightarrow> uuid \<Rightarrow> ('p db_scheme session, items_summary service_result) prog" where
  "process_restore drv lhs i =
     bindP (find_invoice i) (\<lambda>found.
       case found of
         None \<Rightarrow> ret (service_err (''Invoice '' @ i @ '' not found''))
       | Some v \<Rightarrow>
           if inv_status v \<noteq> REFUNDED
           then ret (service_err (''Cannot restore: invoice status is '' @
                  invoice_status_value (inv_status v) @ '', expected refunded''))
           else
             (let v' = v\<lparr>inv_status := PAID\<rparr>;
                  ctx = \<lparr>ctx_invoice = v', ctx_user_id = inv_user_id v'\<rparr>
              in seqP (save_invoice drv v')
                   (bindP (process_items (\<lambda>item. process_restoration lhs item ctx)
                             d_tokens_credited (inv_line_items v'))
                      (\<lambda>items. ret (service_ok (inv_id v') items)))))"

definition handle_reversed ::
  "driver \<Rightarrow> 'p line_handler list \<Rightarrow> reversed_event \<Rightarrow> ('p db_scheme session, bresult) prog" where
  "handle_reversed drv lhs ev =
     try_except
       (case rr_invoice_id ev of
          None \<Rightarrow> ret (handler_error ''Invoice ID is required'')
        | Some i \<Rightarrow>
            bindP (process_restore drv lhs i) (\<lambda>r.
              case sr_invoice r of
                None \<Rightarrow> ret (handler_error (str_or (sr_error r) ''Unknown error''))
              | Some j \<Rightarrow>
                  bindP (refreshed j) (\<lambda>v.
                    ret (billing_ok (inv_id v) ''paid'' None (sr_items r)))))
       (\<lambda>e. ret (handler_error (exn_str e)))"

section \<open>Dispatch\<close>

text \<open>The handlers core registers with the domain event dispatcher, under these names.\<close>

datatype payment_handler =
  PaymentAuthorizedHandler | PaymentCapturedHandler | PaymentRefundedHandler | RefundReversedHandler

fun payment_can_handle :: "payment_handler \<Rightarrow> payment_event \<Rightarrow> bool" where
  "payment_can_handle PaymentAuthorizedHandler (PaymentAuthorizedEvent e) = True"
| "payment_can_handle PaymentCapturedHandler (PaymentCapturedEvent e) = True"
| "payment_can_handle PaymentRefundedHandler (PaymentRefundedEvent e) = True"
| "payment_can_handle RefundReversedHandler (RefundReversedEvent e) = True"
| "payment_can_handle _ _ = False"

fun payment_handle ::
  "driver \<Rightarrow> 'p line_handler list \<Rightarrow> ('p db_scheme \<Rightarrow> uuid \<Rightarrow> string option) \<Rightarrow> time
     \<Rightarrow> payment_handler \<Rightarrow> payment_event \<Rightarrow> ('p db_scheme session, bresult) prog" where
  "payment_handle drv lhs email_of now PaymentAuthorizedHandler (PaymentAuthorizedEvent e) =
     handle_authorized drv e"
| "payment_handle drv lhs email_of now PaymentCapturedHandler (PaymentCapturedEvent e) =
     handle_captured drv lhs email_of now e"
| "payment_handle drv lhs email_of now PaymentRefundedHandler (PaymentRefundedEvent e) =
     handle_refunded drv lhs e"
| "payment_handle drv lhs email_of now RefundReversedHandler (RefundReversedEvent e) =
     handle_reversed drv lhs e"
| "payment_handle drv lhs email_of now _ _ = ret (handler_error ''Invalid event type'')"

definition register_event_handlers ::
  "payment_handler handler_table \<Rightarrow> payment_handler handler_table" where
  "register_event_handlers tbl =
     dispatcher_register ''payment.authorized'' PaymentAuthorizedHandler
       (dispatcher_register ''refund.reversed'' RefundReversedHandler
         (dispatcher_register ''payment.refunded'' PaymentRefundedHandler
           (dispatcher_register ''payment.captured'' PaymentCapturedHandler tbl)))"

definition core_handlers :: "payment_handler handler_table" where
  "core_handlers = register_event_handlers Map.empty"

text \<open>The event itself is not forwarded: its \<open>data\<close> is empty, the subscribers get its name.\<close>

definition emit_payment ::
  "driver \<Rightarrow> 'p line_handler list \<Rightarrow> ('p db_scheme \<Rightarrow> uuid \<Rightarrow> string option) \<Rightarrow> time
     \<Rightarrow> payment_event \<Rightarrow> ('p db_scheme session, bresult) prog" where
  "emit_payment drv lhs email_of now ev =
     emit (\<lambda>h e. ret (payment_can_handle h e)) (payment_handle drv lhs email_of now)
       (Some (\<lambda>name _. publish name [])) core_handlers (payment_event_name ev) ev"

definition emit_payment_captured ::
  "driver \<Rightarrow> 'p line_handler list \<Rightarrow> ('p db_scheme \<Rightarrow> uuid \<Rightarrow> string option) \<Rightarrow> time
     \<Rightarrow> uuid \<Rightarrow> string option \<Rightarrow> string option \<Rightarrow> json_dict
     \<Rightarrow> ('p db_scheme session, bresult) prog" where
  "emit_payment_captured drv lhs email_of now i ref provider md =
     emit_payment drv lhs email_of now (PaymentCapturedEvent
       \<lparr>ce_invoice_id = i, ce_reference = ref, ce_provider = provider, ce_metadata = md\<rparr>)"

definition emit_payment_authorized ::
  "driver \<Rightarrow> 'p line_handler list \<Rightarrow> ('p db_scheme \<Rightarrow> uuid \<Rightarrow> string option) \<Rightarrow> time
     \<Rightarrow> uuid \<Rightarrow> string option \<Rightarrow> string option \<Rightarrow> string option
     \<Rightarrow> ('p db_scheme session, bresult) prog" where
  "emit_payment_authorized drv lhs email_of now i ref provider intent =
     emit_payment drv lhs email_of now (PaymentAuthorizedEvent
       \<lparr>au_invoice_id = i, au_reference = ref, au_provider = provider, au_intent = intent\<rparr>)"

text \<open>The first recurring line item makes the payment a subscription.\<close>

fun session_mode_of ::
  "'p line_handler list \<Rightarrow> line_item list \<Rightarrow> ('p db_scheme session, string) prog" where
  "session_mode_of lhs [] = ret ''payment''"
| "session_mode_of lhs (item # items) =
     bindP (registry_is_recurring lhs item) (\<lambda>r.
       if r then ret ''subscription'' else session_mode_of lhs items)"

definition determine_session_mode ::
  "'p line_handler list \<Rightarrow> invoice \<Rightarrow> ('p db_scheme session, string) prog" where
  "determine_session_mode lhs v = session_mode_of lhs (inv_line_items v)"

section \<open>CaptureService\<close>

record capture_result =
  cr_success :: bool
  cr_data :: "(uuid \<times> string) option"
  cr_error :: "string option"

definition capture_err :: "string option \<Rightarrow> capture_result" where
  "capture_err e = \<lparr>cr_success = False, cr_data = None, cr_error = e\<rparr>"

definition capture_ok :: "uuid \<Rightarrow> string \<Rightarrow> capture_result" where
  "capture_ok i st = \<lparr>cr_success = True, cr_data = Some (i, st), cr_error = None\<rparr>"

text \<open>
  The part capture and release share: the checks, the adapter's call with its unsupported
  operations reported as a failure, and then \<open>after\<close>.
\<close>

definition provider_call ::
  "('p db_scheme session) sdk_adapter sdk_registry
     \<Rightarrow> (('p db_scheme session) sdk_adapter \<Rightarrow> string \<Rightarrow> ('p db_scheme session, sdk_response) prog)
     \<Rightarrow> uuid \<Rightarrow> (invoice \<Rightarrow> ('p db_scheme session, capture_result) prog)
     \<Rightarrow> ('p db_scheme session, capture_result) prog" where
  "provider_call reg method i after =
     bindP (find_invoice i) (\<lambda>found.
       case found of
         None \<Rightarrow> ret (capture_err (Some (''Invoice '' @ i @ '' not found'')))
       | Some v \<Rightarrow>
           if inv_status v \<noteq> AUTHORIZED
           then ret (capture_err (Some (''Invoice status is '' @
                  invoice_status_value (inv_status v) @ '', expected AUTHORIZED'')))
           else if \<not> truthy (inv_payment_intent_id v)
           then ret (capture_err (Some ''No payment_intent_id on invoice''))
           else case adapter_get (inv_payment_method v) reg of
             Inl e \<Rightarrow> raise e
           | Inr adapter \<Rightarrow>
               bindP
                 (try_except
                    (bindP (method adapter (str_or (inv_payment_intent_id v) [])) (\<lambda>r. ret (Inr r)))
                    (\<lambda>e. case e of
                       UnsupportedOperationError m \<Rightarrow> ret (Inl m)
                     | _ \<Rightarrow> raise e))
                 (\<lambda>outcome. case outcome of
                    Inl m \<Rightarrow> ret (capture_err (Some m))
                  | Inr r \<Rightarrow>
                      if \<not> resp_success r then ret (capture_err (resp_error r))
                      else bindP (refreshed (inv_id v)) after))"

definition capture_payment ::
  "driver \<Rightarrow> 'p line_handler list \<Rightarrow> ('p db_scheme \<Rightarrow> uuid \<Rightarrow> string option) \<Rightarrow> time
     \<Rightarrow> ('p db_scheme session) sdk_adapter sdk_registry \<Rightarrow> uuid
     \<Rightarrow> ('p db_scheme session, capture_result) prog" where
  "capture_payment drv lhs email_of now reg i =
     provider_call reg ad_capture_payment i (\<lambda>v.
       seqP (emit_payment_captured drv lhs email_of now (inv_id v) (inv_payment_ref v)
               (inv_payment_method v) [])
         (ret (capture_ok (inv_id v) ''PAID'')))"

definition release_payment ::
  "driver \<Rightarrow> ('p db_scheme session) sdk_adapter sdk_registry \<Rightarrow> uuid
     \<Rightarrow> ('p db_scheme session, capture_result) prog" where
  "release_payment drv reg i =
     provider_call reg ad_release_authorization i (\<lambda>v.
       seqP (save_invoice drv (inv_mark_cancelled v))
         (bindP (refreshed (inv_id v)) (\<lambda>w.
            seqP (publish ''invoice.released''
              [(''invoice_id'', PStr (shown_number w)), (''invoice_uuid'', PStr (inv_id w)),
               (''user_id'', PStr (inv_user_id w)), (''amount'', PStr (money_str (inv_amount w)))])
            (ret (capture_ok (inv_id w) ''CANCELLED'')))))"

text \<open>\<open>AutoCaptureHandler.on_booking_completed\<close>: the result of the capture is only logged.\<close>

definition on_booking_completed ::
  "driver \<Rightarrow> 'p line_handler list \<Rightarrow> ('p db_scheme \<Rightarrow> uuid \<Rightarrow> string option) \<Rightarrow> time
     \<Rightarrow> ('p db_scheme session) sdk_adapter sdk_registry option \<Rightarrow> string option
     \<Rightarrow> ('p db_scheme session, unit) prog" where
  "on_booking_completed drv lhs email_of now reg invoice_id =
     (if \<not> truthy invoice_id then ret ()
      else bindP (find_invoice (str_or invoice_id [])) (\<lambda>found.
        case found of
          None \<Rightarrow> ret ()
        | Some v \<Rightarrow>
            if inv_status v \<noteq> AUTHORIZED then ret ()
            else case reg of
              None \<Rightarrow> ret ()
            | Some r \<Rightarrow> seqP (capture_payment drv lhs email_of now r (inv_id v)) (ret ())))"

end
