(* ===== verification/PaymentFlow.thy ===== *)
theory PaymentFlow
  imports Payments
begin

text \<open>
  What the payment events do to invoices, purchases and balances, end to end: through the
  dispatcher, the handlers, the services, the line item registry and the token ledger.
\<close>

section \<open>Handlers that keep a predicate\<close>

definition handler_keeps :: "('p db_scheme session \<Rightarrow> bool) \<Rightarrow> 'p line_handler \<Rightarrow> bool" where
  "handler_keeps P h \<longleftrightarrow>
     (\<forall>item ctx. keeps P (can_handle_line_item h item ctx) \<and>
        keeps P (activate_line_item h item ctx) \<and> keeps P (reverse_line_item h item ctx) \<and>
        keeps P (restore_line_item h item ctx))"

lemma dispatch_keeps:
  assumes "list_all (handler_keeps P) lhs"
    and "\<And>h item ctx. handler_keeps P h \<Longrightarrow> keeps P (method h item ctx)"
  shows "keeps P (registry_dispatch method lhs item ctx)"
  using assms by (induction lhs) (auto simp: handler_keeps_def intro!: keeps_bindP keeps_try)

lemma process_items_keeps:
  assumes "\<And>item. keeps P (process item)"
  shows "keeps P (process_items process tokens items)"
  unfolding process_items_def
  by (rule keeps_foldP) (use assms in \<open>auto simp: process_item_def intro!: keeps_bindP\<close>)

lemma activation_keeps:
  "list_all (handler_keeps P) lhs \<Longrightarrow> keeps P (process_activation lhs item ctx)"
  unfolding process_activation_def by (rule dispatch_keeps) (auto simp: handler_keeps_def)

text \<open>A predicate on the invoice table, seen by both views.\<close>

definition on_invoices :: "((uuid \<rightharpoonup> invoice) \<Rightarrow> bool) \<Rightarrow> 'p db_scheme session \<Rightarrow> bool" where
  "on_invoices F = both (\<lambda>d. F (tbl_invoice d))"

lemma on_invoices_hooks:
  assumes "hooks_ok hooks"
  shows "keeps (on_invoices F) (run_token_movement_hooks hooks mv)"
proof -
  have "keeps (on_invoices F) (h mv)" if "hook_ok h" for h :: "'a hook"
  proof (rule keepsI)
    fix s :: "'a db_scheme session"
    assume "on_invoices F s"
    with that core_eqD(4) [of "pending (snd (h mv s))" "pending s"]
    show "on_invoices F (snd (h mv s))" by (simp add: on_invoices_def both_def hook_ok_def)
  qed
  then show ?thesis
    using assms unfolding run_token_movement_hooks_def hooks_ok_def
    by (intro keeps_for_each) auto
qed

lemma on_invoices_movement:
  assumes "hooks_ok hooks"
  shows "keeps (on_invoices F) (apply_movement drv hooks u n ty r ds c)"
  unfolding apply_movement_def Let_def
  by (intro keeps_bindP keeps_try keeps_seqP keeps_when keeps_ret keeps_raise
      on_invoices_hooks [OF assms])
    (auto simp: on_invoices_def put_balance_def add_tx_def publish_token_moved_def
      intro!: both_on_db)

lemma on_invoices_credit:
  "hooks_ok hooks \<Longrightarrow> keeps (on_invoices F) (credit_tokens drv hooks u a ty r ds c)"
  unfolding credit_tokens_def get_or_create_def find_balance_def
  by (auto split: sum.split option.split intro!: keeps_seqP keeps_bindP on_invoices_movement)
    (auto simp: on_invoices_def put_balance_def intro!: both_on_db)

lemma on_invoices_refund:
  "hooks_ok hooks \<Longrightarrow> keeps (on_invoices F) (refund_tokens drv hooks u a r ds c)"
  unfolding refund_tokens_def find_balance_def Let_def
  by (auto split: sum.split option.split intro!: keeps_seqP keeps_bindP on_invoices_movement)
    (auto simp: on_invoices_def)

lemma on_invoices_save_purchase: "keeps (on_invoices F) (save_purchase drv p)"
  unfolding save_purchase_def on_invoices_def by (rule both_repo_save) simp

lemma core_handler_keeps_invoices:
  "hooks_ok hooks \<Longrightarrow> handler_keeps (on_invoices F) (core_line_item_handler drv hooks now)"
  unfolding handler_keeps_def core_line_item_handler_def line_handler.simps
    activate_token_bundle_def reverse_token_bundle_def restore_token_bundle_def find_purchase_def
  by (auto split: option.split intro!: keeps_bindP keeps_seqP on_invoices_save_purchase
      on_invoices_credit on_invoices_refund) (auto simp: on_invoices_def)

section \<open>One event, one handler\<close>

fun handler_of :: "payment_event \<Rightarrow> payment_handler" where
  "handler_of (PaymentAuthorizedEvent e) = PaymentAuthorizedHandler"
| "handler_of (PaymentCapturedEvent e) = PaymentCapturedHandler"
| "handler_of (PaymentRefundedEvent e) = PaymentRefundedHandler"
| "handler_of (RefundReversedEvent e) = RefundReversedHandler"

definition caught :: "(exn + bresult) \<times> 's \<Rightarrow> (exn + bresult) \<times> 's" where
  "caught o1 = (case o1 of
      (Inl e, s') \<Rightarrow> (Inr (combine [error_result (exn_str e) ''handler_exception'']), s')
    | (Inr r, s') \<Rightarrow> (Inr (combine [r]), s'))"

text \<open>After the handler the name of the event goes to the bus.\<close>

definition announced :: "payment_event \<Rightarrow> 'r \<times> 'db session \<Rightarrow> 'r \<times> 'db session" where
  "announced ev o1 = (fst o1, (snd o1)\<lparr>bus_log := bus_log (snd o1) @ [(payment_event_name ev, [])]\<rparr>)"

lemma announced_sel [simp]:
  "fst (announced ev o1) = fst o1" "durable (snd (announced ev o1)) = durable (snd o1)"
  "pending (snd (announced ev o1)) = pending (snd o1)" "calls (snd (announced ev o1)) = calls (snd o1)"
  by (simp_all add: announced_def)

lemma emit_payment_run:
  "emit_payment drv lhs email_of now ev s =
     announced ev (caught (payment_handle drv lhs email_of now (handler_of ev) ev s))"
proof -
  have tbl: "core_handlers (payment_event_name ev) = Some [handler_of ev]"
    by (cases ev) (simp_all add: core_handlers_def register_event_handlers_def dispatcher_register_def)
  have can: "payment_can_handle (handler_of ev) ev" by (cases ev) simp_all
  show ?thesis
    unfolding emit_payment_def emit_run tbl
    by (auto simp: can handler_outcome_def caught_def announced_def split: prod.split sum.split)
qed

lemma emit_payment_success:
  assumes "emit_payment drv lhs email_of now ev s = (Inr r, s')" and "er_success r"
  shows "\<exists>r0 t. payment_handle drv lhs email_of now (handler_of ev) ev s = (Inr r0, t) \<and> er_success r0 \<and>
    durable s' = durable t"
  using assms
  by (auto simp: emit_payment_run announced_def caught_def combine_success split: prod.splits sum.splits)

lemma emit_payment_state:
  "durable (snd (emit_payment drv lhs email_of now ev s)) =
   durable (snd (payment_handle drv lhs email_of now (handler_of ev) ev s))"
  by (auto simp: emit_payment_run caught_def split: prod.splits sum.splits)

lemma emit_payment_returns: "\<exists>r. fst (emit_payment drv lhs email_of now ev s) = Inr r"
  by (auto simp: emit_payment_run caught_def split: prod.splits sum.splits)

section \<open>The capture handler\<close>

lemma captured_invoice_sel [simp]:
  "inv_status (captured_invoice now ev v) = PAID"
  "inv_id (captured_invoice now ev v) = inv_id v"
  "inv_line_items (captured_invoice now ev v) = inv_line_items v"
  "inv_user_id (captured_invoice now ev v) = inv_user_id v"
  by (simp_all add: captured_invoice_def merge_metadata_def inv_mark_defs Let_def)

definition capture_context :: "time \<Rightarrow> captured_event \<Rightarrow> invoice \<Rightarrow> line_context" where
  "capture_context now ev v =
     \<lparr>ctx_invoice = captured_invoice now ev v, ctx_user_id = inv_user_id v\<rparr>"

definition capture_save :: "driver \<Rightarrow> time \<Rightarrow> captured_event \<Rightarrow> invoice \<Rightarrow> ('p db_scheme session, unit) prog" where
  "capture_save drv now ev v =
     whenP (inv_status v \<noteq> PAID \<or> ce_metadata ev \<noteq> []) (save_invoice drv (captured_invoice now ev v))"

definition capture_items ::
  "'p line_handler list \<Rightarrow> time \<Rightarrow> captured_event \<Rightarrow> invoice \<Rightarrow> ('p db_scheme session, items_summary) prog" where
  "capture_items lhs now ev v =
     process_items (\<lambda>item. process_activation lhs item (capture_context now ev v))
       d_tokens_credited (inv_line_items v)"

lemma refreshed_state: "refreshed i s = (r, s') \<Longrightarrow> s' = s"
  by (auto simp: refreshed_def find_invoice_def split: option.splits)

text \<open>What the handler does to the tables: load, save, process the items.\<close>

definition capture_tail ::
  "('p db_scheme \<Rightarrow> uuid \<Rightarrow> string option) \<Rightarrow> time \<Rightarrow> captured_event \<Rightarrow> invoice \<Rightarrow> items_summary
     \<Rightarrow> ('p db_scheme session, bresult) prog" where
  "capture_tail email_of now ev v items =
     bindP (refreshed (inv_id v)) (\<lambda>w.
     bindP (query (\<lambda>d. email_of d (inv_user_id w))) (\<lambda>email.
     seqP (publish ''invoice.paid''
       [(''user_name'', PStr (case email of Some e \<Rightarrow> e | None \<Rightarrow> [])),
        (''user_email'', PStr (case email of Some e \<Rightarrow> e | None \<Rightarrow> [])),
        (''invoice_id'', PStr (shown_number w)),
        (''amount'', PStr (money_str (inv_amount w))),
        (''paid_date'', PStr (iso_date (case inv_paid_at w of Some t \<Rightarrow> t | None \<Rightarrow> now))),
        (''invoice_url'', PStr (''/invoices/'' @ inv_id w))])
     (ret (billing_ok (inv_id w) ''paid'' (ce_reference ev) (Some items)))))"

lemma handle_captured_eq:
  assumes "tbl_invoice (pending s) (ce_invoice_id ev) = Some v"
  shows "handle_captured drv lhs email_of now ev s =
    try_except (seqP (capture_save drv now ev v) (bindP (capture_items lhs now ev v)
      (capture_tail email_of now ev v))) (\<lambda>e. ret (handler_error (exn_str e))) s"
  unfolding handle_captured_def find_invoice_def capture_save_def capture_items_def
    capture_context_def capture_tail_def Let_def captured_invoice_sel
  by (simp only: try_except_def bindP_query assms option.case)

definition same_tables :: "'db session \<Rightarrow> 'db session \<Rightarrow> bool" where
  "same_tables s t \<longleftrightarrow> durable s = durable t \<and> pending s = pending t"

lemma capture_tail_state: "same_tables (snd (capture_tail email_of now ev v items u)) u"
  by (auto simp: capture_tail_def refreshed_def find_invoice_def same_tables_def bindP_def
      split: option.split)

lemma handle_captured_cases:
  obtains (missing) m where "tbl_invoice (pending s) (ce_invoice_id ev) = None"
      "handle_captured drv lhs email_of now ev s = (Inr (handler_error m), s)"
  | (unsaved) v e t where "tbl_invoice (pending s) (ce_invoice_id ev) = Some v"
      "capture_save drv now ev v s = (Inl e, t)"
      "handle_captured drv lhs email_of now ev s = (Inr (handler_error (exn_str e)), t)"
  | (broken) v t e u where "tbl_invoice (pending s) (ce_invoice_id ev) = Some v"
      "capture_save drv now ev v s = (Inr (), t)" "capture_items lhs now ev v t = (Inl e, u)"
      "handle_captured drv lhs email_of now ev s = (Inr (handler_error (exn_str e)), u)"
  | (processed) v t items u r s' where "tbl_invoice (pending s) (ce_invoice_id ev) = Some v"
      "capture_save drv now ev v s = (Inr (), t)" "capture_items lhs now ev v t = (Inr items, u)"
      "handle_captured drv lhs email_of now ev s = (Inr r, s')" "same_tables s' u"
proof (cases "tbl_invoice (pending s) (ce_invoice_id ev)")
  case None
  have "handle_captured drv lhs email_of now ev s =
      (Inr (handler_error (''Invoice '' @ ce_invoice_id ev @ '' not found'')), s)"
    using None by (simp add: handle_captured_def find_invoice_def try_except_def)
  with None show ?thesis by (rule missing)
next
  case (Some v)
  note eq = handle_captured_eq [OF Some, of drv lhs email_of now]
  obtain r1 t where save: "capture_save drv now ev v s = (r1, t)" by fastforce
  obtain r2 u where items: "capture_items lhs now ev v t = (r2, u)" by fastforce
  show ?thesis
  proof (cases r1)
    case (Inl e)
    with save eq have "handle_captured drv lhs email_of now ev s =
        (Inr (handler_error (exn_str e)), t)" by (simp add: try_except_def prog_simps)
    with unsaved Some save Inl show ?thesis by blast
  next
    case ok: (Inr x)
    show ?thesis
    proof (cases r2)
      case (Inl e)
      with save items ok eq have "handle_captured drv lhs email_of now ev s =
          (Inr (handler_error (exn_str e)), u)" by (simp add: try_except_def prog_simps)
      with broken Some save items ok Inl show ?thesis by simp
    next
      case (Inr y)
      obtain r3 s' where tail: "capture_tail email_of now ev v y u = (r3, s')" by fastforce
      have "same_tables s' u" using capture_tail_state [of email_of now ev v y u] tail by simp
      moreover have "\<exists>r. handle_captured drv lhs email_of now ev s = (Inr r, s')"
        using save items ok Inr eq tail by (cases r3) (simp_all add: try_except_def prog_simps)
      ultimately show ?thesis using processed Some save items ok Inr by auto
    qed
  qed
qed

section \<open>Activation without faults\<close>

text \<open>The session shows the committed ledger, purchases and invoices.\<close>

definition clean :: "'p db_scheme session \<Rightarrow> bool" where
  "clean s \<longleftrightarrow> balance_of (durable s) = balance_of (pending s) \<and>
     tbl_tx (durable s) = tbl_tx (pending s) \<and>
     tbl_purchase (durable s) = tbl_purchase (pending s) \<and>
     tbl_invoice (durable s) = tbl_invoice (pending s)"

lemma clean_eq: "durable s = pending s \<Longrightarrow> clean s"
  by (simp add: clean_def)

lemma credit_clean:
  assumes "hooks_ok hooks" and "clean s" and "credit_tokens drv hooks u a ty r ds True s = (x, s')"
  shows "clean s' \<and> tbl_purchase (pending s') = tbl_purchase (pending s) \<and>
    tbl_invoice (pending s') = tbl_invoice (pending s)"
proof (cases x)
  case (Inl e)
  have zero: "balance_of (put_balance u 0 d) = balance_of d" if "tbl_balance d u = None"
    for d :: "'a db_scheme"
    using balance_of_None [OF that] by auto
  from credit_Inl [OF assms(1) assms(3) [unfolded Inl]] assms(2) zero show ?thesis
    by (auto simp: clean_def put_balance_def)
next
  case (Inr y)
  from credit_Inr [OF assms(1) assms(3) [unfolded Inr]] obtain n where
    eff: "core (pending s') = moved u n ty r ds (core (pending s))" and dur: "durable s' = pending s'"
    by auto
  from arg_cong [OF eff, of tbl_purchase] arg_cong [OF eff, of tbl_invoice] clean_eq [OF dur]
  show ?thesis by simp
qed

lemma activation_step:
  assumes "\<forall>n. drv n = None" and "hooks_ok hooks" and "keyed (pending s)" and "clean s"
    and "process_activation [core_line_item_handler drv hooks now] item ctx s = (res, s')"
  shows "(\<exists>r. res = Inr r) \<and> keyed (pending s') \<and> clean s' \<and>
    (li_item_type item = TOKEN_BUNDLE \<longrightarrow> left_status P_PENDING (li_item_id item) s') \<and>
    (\<forall>j. left_status P_PENDING j s \<longrightarrow> left_status P_PENDING j s') \<and>
    tbl_invoice (pending s') = tbl_invoice (pending s)"
proof (cases "li_item_type item = TOKEN_BUNDLE")
  case False
  with assms show ?thesis
    by (auto simp: process_activation_def core_line_item_handler_def)
next
  case is_bundle: True
  let ?act = "activate_token_bundle drv hooks now item ctx"
  have disp: "process_activation [core_line_item_handler drv hooks now] item ctx s =
      try_except ?act (\<lambda>e. ret (lr_from_error (exn_str e))) s"
    using is_bundle by (simp add: process_activation_def core_line_item_handler_def)
  show ?thesis
  proof (cases "left_status P_PENDING (li_item_id item) s")
    case True
    with assms disp activate_noop [OF True] show ?thesis by (auto simp: try_except_def)
  next
    case False
    then obtain p where p: "tbl_purchase (pending s) (li_item_id item) = Some p"
      "p_status p = P_PENDING" by (auto simp: left_status_def split: option.splits)
    have id: "p_id p = li_item_id item" using keyed_rowD [OF assms(3) p(1)] .
    let ?t = "s\<lparr>calls := Suc (calls s), pending := put_purchase (completed now p) (pending s),
      durable := put_purchase (completed now p) (pending s)\<rparr>"
    let ?credit = "credit_tokens drv hooks (ctx_user_id ctx) (Whole (p_token_amount p)) T_PURCHASE
      (Some (p_id p)) (Some (bundle_description ''Token bundle purchase: '' (p_token_amount p)
        '' tokens'')) True"
    obtain x u where cr: "?credit ?t = (x, u)" by fastforce
    have su: "res = Inr (case x of Inl e \<Rightarrow> lr_from_error (exn_str e) | Inr y \<Rightarrow>
        lr_ok (no_data\<lparr>d_purchase := Some (p_id p), d_tokens_credited := Some (p_token_amount p)\<rparr>))"
      "s' = u"
      using assms(1,5) disp p cr
      by (auto simp: activate_token_bundle_def find_purchase_def save_purchase_ok try_except_def
          seqP_def bindP_def completed_def split: sum.splits)
    have "clean ?t" by (rule clean_eq) simp
    from credit_clean [OF assms(2) this cr] su have c: "clean s'"
      "tbl_purchase (pending s') = (tbl_purchase (pending s))(li_item_id item \<mapsto> completed now p)"
      "tbl_invoice (pending s') = tbl_invoice (pending s)"
      using id by auto
    moreover have "keyed (pending s')"
      using assms(3) c(2,3) id by (auto simp: keyed_def)
    ultimately show ?thesis using su by (auto simp: left_status_def)
  qed
qed

lemma foldP_activation:
  assumes "\<forall>n. drv n = None" and "hooks_ok hooks" and "keyed (pending s)" and "clean s"
  shows "\<exists>x s'. foldP (process_item (\<lambda>item. process_activation [core_line_item_handler drv hooks now]
      item ctx) tokens) acc items s = (Inr x, s') \<and>
    keyed (pending s') \<and> clean s' \<and> tbl_invoice (pending s') = tbl_invoice (pending s) \<and>
    (\<forall>j. left_status P_PENDING j s \<longrightarrow> left_status P_PENDING j s') \<and>
    (\<forall>item \<in> set items. li_item_type item = TOKEN_BUNDLE \<longrightarrow>
       left_status P_PENDING (li_item_id item) s')"
  using assms(3,4)
proof (induction items arbitrary: acc s)
  case Nil
  then show ?case by simp
next
  case (Cons item items)
  obtain res t where run: "process_activation [core_line_item_handler drv hooks now] item ctx s =
    (res, t)" by fastforce
  note step = activation_step [OF assms(1,2) Cons.prems run]
  then obtain r where "res = Inr r" by blast
  with run have "process_item (\<lambda>item. process_activation [core_line_item_handler drv hooks now]
      item ctx) tokens acc item s =
    (Inr (if lr_success r \<and> \<not> lr_skipped r then collect_result tokens (lr_data r) acc else acc), t)"
    by (simp add: process_item_def bindP_def)
  with step Cons.IH [of t] show ?case by (fastforce simp: bindP_def)
qed

text \<open>Settled items are passed over.\<close>

lemma settled_items_noop:
  assumes "\<forall>item \<in> set items. li_item_type item = TOKEN_BUNDLE \<longrightarrow>
    left_status P_PENDING (li_item_id item) s"
  shows "\<exists>x. foldP (process_item (\<lambda>item. process_activation [core_line_item_handler drv hooks now]
      item ctx) tokens) acc items s = (Inr x, s)"
  using assms
proof (induction items arbitrary: acc)
  case Nil
  then show ?case by simp
next
  case (Cons item items)
  have "\<exists>r. process_activation [core_line_item_handler drv hooks now] item ctx s = (Inr r, s)"
    using Cons.prems activate_noop [of item s drv hooks now ctx]
    by (cases "li_item_type item = TOKEN_BUNDLE")
      (auto simp: process_activation_def core_line_item_handler_def try_except_def)
  then obtain r where "process_activation [core_line_item_handler drv hooks now] item ctx s =
    (Inr r, s)" ..
  with Cons show ?case by (simp add: process_item_def bindP_def)
qed

section \<open>Properties\<close>

lemma capture_save_paid:
  assumes "keyed (pending s)" and "clean s" and "tbl_invoice (pending s) (ce_invoice_id ev) = Some v"
    and "capture_save drv now ev v s = (Inr (), t)"
  shows "clean t \<and> keyed (pending t) \<and>
    tbl_invoice (pending t) (ce_invoice_id ev) = Some (captured_invoice now ev v) \<and>
    balance_of (durable t) = balance_of (pending s) \<and> tbl_tx (durable t) = tbl_tx (pending s) \<and>
    tbl_purchase (pending t) = tbl_purchase (pending s)"
proof (cases "inv_status v \<noteq> PAID \<or> ce_metadata ev \<noteq> []")
  case True
  with assms(4) have t: "t = s\<lparr>calls := Suc (calls s),
      pending := put_invoice (captured_invoice now ev v) (pending s),
      durable := put_invoice (captured_invoice now ev v) (pending s)\<rparr>"
    by (auto simp: capture_save_def whenP_def dest!: save_invoice_Inr)
  have "inv_id v = ce_invoice_id ev" using assms(1,3) by (simp add: keyed_def)
  with t assms(1) show ?thesis by (simp add: clean_eq)
next
  case False
  then have "captured_invoice now ev v = v" by (simp add: captured_invoice_def)
  with False assms show ?thesis by (simp add: capture_save_def whenP_def clean_def)
qed

text \<open>
  C2. A capture event that is reported a success leaves the invoice paid in the committed
  tables, whatever line items it has and whatever the database and the line item handlers
  do, provided the handlers leave the status of invoices alone. (Core's own handler does.)
\<close>

theorem captured_event_pays:
  assumes "list_all (handler_keeps (on_invoices (\<lambda>t. map_option inv_status (t i) = Some PAID))) lhs"
    and "keyed d" and "ce_invoice_id ev = i"
    and "emit_payment drv lhs email_of now (PaymentCapturedEvent ev) (open_session d) = (Inr r, s')"
    and "er_success r"
  shows "map_option inv_status (tbl_invoice (durable s') i) = Some PAID"
proof -
  let ?s = "open_session d"
  let ?paid = "on_invoices (\<lambda>t. map_option inv_status (t i) = Some PAID)"
  have clean: "clean ?s" "keyed (pending ?s)"
    using assms(2) by (simp_all add: clean_eq open_session_def)
  from emit_payment_success [OF assms(4,5)] obtain r0 t0 where
    h: "handle_captured drv lhs email_of now ev ?s = (Inr r0, t0)" and ok: "er_success r0"
    and same: "durable s' = durable t0" by auto
  from h ok show ?thesis
  proof (cases rule: handle_captured_cases [where drv = drv and lhs = lhs and email_of = email_of
        and now = now and ev = ev and s = ?s])
    case (processed v t items u r s'')
    from capture_save_paid [OF clean(2,1) processed(1,2)] have "?paid t"
      using assms(3) by (auto simp: on_invoices_def both_def clean_def)
    moreover have "keeps ?paid (capture_items lhs now ev v)"
      unfolding capture_items_def by (intro process_items_keeps activation_keeps assms(1))
    ultimately have "?paid u" using processed(3) by (blast intro: keepsD)
    with processed(4,5) h same show ?thesis
      by (simp add: on_invoices_def both_def same_tables_def)
  qed auto
qed

theorem captured_event_pays_witness:
  "let ev = \<lparr>ce_invoice_id = ''i1'', ce_reference = Some ''ref'', ce_provider = Some ''mock'',
         ce_metadata = []\<rparr>;
       s' = snd (emit_payment no_faults [core_line_item_handler no_faults [] 9] (\<lambda>d u. None) 9
              (PaymentCapturedEvent ev) (open_session sample_billing_db))
   in map_option inv_status (tbl_invoice (durable s') ''i1'') = Some PAID"
proof -
  let ?ev = "\<lparr>ce_invoice_id = ''i1'', ce_reference = Some ''ref'', ce_provider = Some ''mock'',
         ce_metadata = []\<rparr>"
  let ?lhs = "[core_line_item_handler no_faults [] 9]"
  let ?s = "open_session sample_billing_db"
  let ?run = "emit_payment no_faults ?lhs (\<lambda>d u. None) 9 (PaymentCapturedEvent ?ev) ?s"
  have row: "tbl_invoice (pending ?s) (ce_invoice_id ?ev) = Some sample_invoice"
    by (simp add: open_session_def sample_billing_db_def sample_invoice_def)
  have keeps: "list_all (handler_keeps (on_invoices F)) ?lhs" for F
    by (simp add: core_handler_keeps_invoices)
  let ?t = "?s\<lparr>calls := Suc (calls ?s),
    pending := put_invoice (captured_invoice 9 ?ev sample_invoice) (pending ?s),
    durable := put_invoice (captured_invoice 9 ?ev sample_invoice) (pending ?s)\<rparr>"
  have save: "capture_save no_faults 9 ?ev sample_invoice ?s = (Inr (), ?t)"
    by (simp add: capture_save_def whenP_def save_invoice_ok sample_invoice_def)
  have kt: "keyed (pending ?t)"
    using sample_billing_keyed by (simp add: open_session_def)
  obtain x u where items: "capture_items ?lhs 9 ?ev sample_invoice ?t = (Inr x, u)"
    and inv: "tbl_invoice (pending u) = tbl_invoice (pending ?t)"
    using foldP_activation [OF _ hooks_ok_Nil kt, of no_faults 9 "capture_context 9 ?ev sample_invoice"
        d_tokens_credited no_items "inv_line_items sample_invoice"]
    by (auto simp: capture_items_def process_items_def clean_eq)
  have "tbl_invoice (pending u) (inv_id sample_invoice) =
      Some (captured_invoice 9 ?ev sample_invoice)"
    using inv by simp
  then have "\<exists>r s'. handle_captured no_faults ?lhs (\<lambda>d u. None) 9 ?ev ?s = (Inr r, s') \<and> er_success r"
    unfolding handle_captured_eq [OF row]
    using save items by (simp add: try_except_def prog_simps capture_tail_def refreshed_def
        find_invoice_def)
  then have "\<exists>r. fst ?run = Inr r \<and> er_success r"
    by (auto simp: emit_payment_run caught_def combine_success)
  then obtain r where run: "?run = (Inr r, snd ?run)" and ok: "er_success r"
    by (metis prod.collapse)
  show ?thesis
    using captured_event_pays [OF keeps sample_billing_keyed _ run ok] by simp
qed

text \<open>What a first delivery leaves: no invoice, or no bundle of the invoice still pending.\<close>

definition capture_settled :: "uuid \<Rightarrow> 'p db_scheme \<Rightarrow> bool" where
  "capture_settled i d \<longleftrightarrow> tbl_invoice d i = None \<or>
    (\<exists>v. tbl_invoice d i = Some v \<and>
       (\<forall>item \<in> set (inv_line_items v). li_item_type item = TOKEN_BUNDLE \<longrightarrow>
          left_status P_PENDING (li_item_id item) (open_session d))) \<and> keyed d"

lemma first_capture_settles:
  assumes "\<forall>n. drv n = None" and "hooks_ok hooks" and "keyed d"
  shows "capture_settled (ce_invoice_id ev)
    (durable (snd (handle_captured drv [core_line_item_handler drv hooks now] email_of now ev (open_session d))))"
    (is "capture_settled ?i (durable (snd (handle_captured drv ?lhs email_of now ev ?s)))")
proof -
  have clean: "clean ?s" "keyed (pending ?s)"
    using assms(3) by (simp_all add: clean_eq open_session_def)
  note items = foldP_activation [OF assms(1,2), of _ now _ d_tokens_credited no_items]
  show ?thesis
  proof (cases rule: handle_captured_cases [where drv = drv and lhs = ?lhs and email_of = email_of
        and now = now and ev = ev and s = ?s])
    case (missing m)
    then show ?thesis by (simp add: open_session_def capture_settled_def)
  next
    case (unsaved v e t)
    then show ?thesis using assms(1) by (simp add: capture_save_def whenP_def save_invoice_ok split: if_splits)
  next
    case (broken v t e u)
    from capture_save_paid [OF clean(2,1) broken(1,2)] have "keyed (pending t)" "clean t" by auto
    from items [OF this, of "capture_context now ev v" "inv_line_items v"] broken(3) have False
      by (auto simp: capture_items_def process_items_def)
    then show ?thesis ..
  next
    case (processed v t x u r s')
    note t = capture_save_paid [OF clean(2,1) processed(1,2)]
    then have "keyed (pending t)" "clean t" by auto
    from items [OF this, of "capture_context now ev v" "inv_line_items v"] processed(3)
    have u: "keyed (pending u)" "clean u" "tbl_invoice (pending u) = tbl_invoice (pending t)"
      "\<forall>item \<in> set (inv_line_items v). li_item_type item = TOKEN_BUNDLE \<longrightarrow>
        left_status P_PENDING (li_item_id item) u"
      by (auto simp: capture_items_def process_items_def)
    have same: "durable s' = durable u" using processed(5) by (simp add: same_tables_def)
    have "tbl_invoice (durable s') ?i = Some (captured_invoice now ev v)"
      using t u(2,3) same by (simp add: clean_def)
    moreover have "left_status P_PENDING j (open_session (durable s')) = left_status P_PENDING j u" for j
      using u(2) same by (simp add: left_status_def clean_def open_session_def)
    moreover have "keyed (durable s')" using u(1,2) same by (simp add: clean_def keyed_def)
    ultimately show ?thesis using u(4) processed(4) by (simp add: capture_settled_def)
  qed
qed

lemma settled_capture_items:
  assumes "capture_settled (ce_invoice_id ev) d"
    and "tbl_invoice (pending (open_session d)) (ce_invoice_id ev) = Some v"
    and "capture_save drv now ev v (open_session d) = (Inr (), t)"
  shows "(\<exists>x. capture_items [core_line_item_handler drv hooks now] now ev v t = (Inr x, t)) \<and>
    balance_of (durable t) = balance_of d \<and> tbl_tx (durable t) = tbl_tx d"
proof -
  let ?s = "open_session d"
  from assms(1,2) have k: "keyed d" and st:
    "\<forall>item \<in> set (inv_line_items v). li_item_type item = TOKEN_BUNDLE \<longrightarrow>
      left_status P_PENDING (li_item_id item) ?s" by (auto simp: open_session_def capture_settled_def)
  have "clean ?s" "keyed (pending ?s)" using k by (simp_all add: clean_eq open_session_def)
  note t = capture_save_paid [OF this(2,1) assms(2,3)]
  then have "left_status P_PENDING j t = left_status P_PENDING j ?s" for j
    by (simp add: left_status_def)
  with st have "\<forall>item \<in> set (inv_line_items v). li_item_type item = TOKEN_BUNDLE \<longrightarrow>
      left_status P_PENDING (li_item_id item) t" by simp
  from settled_items_noop [OF this] t show ?thesis
    by (simp add: capture_items_def process_items_def open_session_def)
qed

lemma settled_capture_noop:
  assumes "capture_settled (ce_invoice_id ev) d"
    and "s' = snd (handle_captured drv [core_line_item_handler drv hooks now] email_of now ev (open_session d))"
  shows "balance_of (durable s') = balance_of d \<and> tbl_tx (durable s') = tbl_tx d"
proof (cases rule: handle_captured_cases [where drv = drv and email_of = email_of and now = now
      and lhs = "[core_line_item_handler drv hooks now]" and ev = ev and s = "open_session d"])
  case (missing m)
  then show ?thesis by (simp add: assms(2) open_session_def)
next
  case (unsaved v e t)
  then have "durable t = d"
    by (auto simp: capture_save_def whenP_def open_session_def split: if_splits dest!: save_invoice_Inl)
  with unsaved show ?thesis by (simp add: assms(2))
next
  case (broken v t e u)
  then show ?thesis using settled_capture_items [OF assms(1) broken(1,2), of hooks] by auto
next
  case (processed v t items u r x)
  then show ?thesis using settled_capture_items [OF assms(1) processed(1,2), of hooks]
    by (auto simp: assms(2) same_tables_def)
qed

text \<open>
  C3. Duplicate captures credit once: after a first delivery of a capture event on a
  database that answers, any later delivery for the same invoice, in a session of its own,
  with any metadata, at any time and with any database failures, leaves every committed
  balance and the committed ledger as the first delivery left them.
\<close>

theorem captured_twice_credits_once:
  assumes "\<forall>n. drv n = None" and "hooks_ok hooks" and "keyed d"
    and "ce_invoice_id ev' = ce_invoice_id ev"
  shows "let s1 = snd (emit_payment drv [core_line_item_handler drv hooks now] email_of now
             (PaymentCapturedEvent ev) (open_session d));
           s2 = snd (emit_payment drv' [core_line_item_handler drv' hooks later] email_of later
             (PaymentCapturedEvent ev') (open_session (durable s1)))
         in balance_of (durable s2) = balance_of (durable s1) \<and>
            tbl_tx (durable s2) = tbl_tx (durable s1)"
proof -
  define s1 where "s1 = snd (handle_captured drv [core_line_item_handler drv hooks now] email_of now
    ev (open_session d))"
  have "capture_settled (ce_invoice_id ev') (durable s1)"
    unfolding s1_def assms(4) by (rule first_capture_settles [OF assms(1-3)])
  from settled_capture_noop [OF this refl, of drv' hooks later email_of]
  show ?thesis by (simp add: Let_def emit_payment_state s1_def)
qed

theorem captured_twice_credits_once_witness:
  "let ev = \<lparr>ce_invoice_id = ''i1'', ce_reference = None, ce_provider = None, ce_metadata = []\<rparr>;
       lhs = [core_line_item_handler no_faults [] 9];
       s1 = snd (emit_payment no_faults lhs (\<lambda>d u. None) 9 (PaymentCapturedEvent ev)
              (open_session sample_billing_db));
       s2 = snd (emit_payment no_faults lhs (\<lambda>d u. None) 9 (PaymentCapturedEvent ev)
              (open_session (durable s1)))
   in balance_of (durable s2) = balance_of (durable s1)"
proof -
  let ?ev = "\<lparr>ce_invoice_id = ''i1'', ce_reference = None, ce_provider = None, ce_metadata = []\<rparr>"
  have "\<forall>n. no_faults n = None" by simp
  from captured_twice_credits_once [where drv = no_faults and drv' = no_faults and now = 9
      and later = 9 and email_of = "\<lambda>d u. None" and ev = ?ev and ev' = ?ev,
      OF this hooks_ok_Nil sample_billing_keyed refl]
  show ?thesis unfolding Let_def by (rule conjunct1)
qed

end
