(* ===== verification/RefundFlow.thy ===== *)
theory RefundFlow
  imports PaymentFlow
begin

text \<open>
  Refunds end to end: the token pre-check of \<open>RefundService\<close> against what the reversal of
  the line items then takes; and two behaviours of the payment handlers that a caller has
  to know: a late authorization, and a capture whose event handler fails.
\<close>

section \<open>Reversing the line items\<close>

definition amounts_nonneg :: "'p db_scheme \<Rightarrow> bool" where
  "amounts_nonneg d \<longleftrightarrow> (\<forall>j p. tbl_purchase d j = Some p \<longrightarrow> 0 \<le> p_token_amount p)"

definition item_tokens :: "line_item_result \<Rightarrow> int" where
  "item_tokens r = (if lr_success r \<and> \<not> lr_skipped r
     then (case d_tokens_debited (lr_data r) of Some n \<Rightarrow> n | None \<Rightarrow> 0) else 0)"

text \<open>One reversal takes what the pre-check counted, and touches its own purchase only.\<close>

lemma reversal_step:
  assumes "\<forall>n. drv n = None" and "hooks_ok hooks" and "hooks_total hooks"
    and "keyed (pending s)" and "amounts_nonneg (pending s)"
    and "item_debit (pending s) item \<le> balance_of (pending s) (ctx_user_id ctx)"
  shows "\<exists>r s'. process_reversal [core_line_item_handler drv hooks now] item ctx s = (Inr r, s') \<and>
    item_tokens r = item_debit (pending s) item \<and>
    balance_of (pending s') = (balance_of (pending s))(ctx_user_id ctx :=
      balance_of (pending s) (ctx_user_id ctx) - item_debit (pending s) item) \<and>
    keyed (pending s') \<and> amounts_nonneg (pending s') \<and>
    (durable s = pending s \<longrightarrow> durable s' = pending s') \<and>
    (\<forall>j. j \<noteq> li_item_id item \<or> li_item_type item \<noteq> TOKEN_BUNDLE \<longrightarrow>
       tbl_purchase (pending s') j = tbl_purchase (pending s) j)"
proof -
  let ?u = "ctx_user_id ctx" and ?core = "core_line_item_handler drv hooks now"
  let ?rev = "reverse_token_bundle drv hooks item ctx"
  consider (other) "li_item_type item \<noteq> TOKEN_BUNDLE"
    | (gone) "li_item_type item = TOKEN_BUNDLE" "left_status P_COMPLETED (li_item_id item) s"
    | (live) p where "li_item_type item = TOKEN_BUNDLE"
        "tbl_purchase (pending s) (li_item_id item) = Some p" "p_status p = P_COMPLETED"
    by (cases "tbl_purchase (pending s) (li_item_id item)") (auto simp: left_status_def)
  then show ?thesis
  proof cases
    case other
    then show ?thesis using assms
      by (simp add: process_reversal_def core_line_item_handler_def item_debit_def item_tokens_def
          lr_skip_def)
  next
    case gone
    then have "item_debit (pending s) item = 0"
      by (auto simp: item_debit_def left_status_def split: option.split)
    with gone assms reverse_noop [OF gone(2), of drv hooks ctx] show ?thesis
      by (simp add: process_reversal_def core_line_item_handler_def try_except_def item_tokens_def
          lr_ok_def no_data_def)
  next
    case live
    have id: "p_id p = li_item_id item" using keyed_rowD [OF assms(4) live(2)] .
    have debit: "item_debit (pending s) item = p_token_amount p"
      using live by (simp add: item_debit_def)
    have nonneg: "0 \<le> p_token_amount p" using assms(5) live(2) by (simp add: amounts_nonneg_def)
    let ?p = "p\<lparr>p_status := P_REFUNDED\<rparr>"
    let ?t = "s\<lparr>calls := Suc (calls s), pending := put_purchase ?p (pending s),
       durable := put_purchase ?p (pending s)\<rparr>"
    obtain k s' where rf: "refund_tokens drv hooks ?u (Whole (p_token_amount p)) (Some (p_id p))
        (Some (bundle_description ''Refund: '' (p_token_amount p) '' tokens'')) True ?t = (Inr k, s')"
      using refund_total [OF assms(1,3)] by blast
    have run: "?rev s = (Inr (lr_ok (no_data\<lparr>d_purchase := Some (p_id p),
        d_tokens_debited := Some k\<rparr>)), s')"
      using live rf assms(1)
      by (simp add: reverse_token_bundle_def find_purchase_def save_purchase_ok prog_simps)
    from reverse_Inr [OF assms(2) run] live(2,3) have
      e: "k = (if balance_of (pending s) ?u \<le> 0 then 0
               else min (p_token_amount p) (balance_of (pending s) ?u))"
        "balance_of (pending s') = (balance_of (pending s))(?u := balance_of (pending s) ?u - k)"
        "tbl_purchase (pending s') = (tbl_purchase (pending s))(p_id p \<mapsto> ?p)"
        "durable s' = pending s'" "keyed (pending s) \<longrightarrow> keyed (pending s')"
      by (auto simp: lr_ok_def no_data_def)
    have k: "k = p_token_amount p" using e(1) debit assms(6) nonneg by auto
    have "process_reversal [?core] item ctx s = (Inr (lr_ok (no_data\<lparr>d_purchase := Some (p_id p),
        d_tokens_debited := Some k\<rparr>)), s')"
      using live(1) run by (simp add: process_reversal_def core_line_item_handler_def try_except_def)
    then show ?thesis
      using e(2-5) k debit assms(4,5) id nonneg live(1)
      by (auto simp: item_tokens_def lr_ok_def amounts_nonneg_def)
  qed
qed

lemma collect_tokens: "it_tokens (collect_result tokens data acc) =
    it_tokens acc + (case tokens data of Some n \<Rightarrow> n | None \<Rightarrow> 0)"
  by (simp add: collect_result_def)

lemma process_item_tokens:
  assumes "process item s = (Inr r, s')"
  shows "\<exists>acc'. process_item process d_tokens_debited acc item s = (Inr acc', s') \<and>
    it_tokens acc' = it_tokens acc + item_tokens r"
  using assms by (auto simp: process_item_def prog_simps collect_tokens item_tokens_def)

definition bundle_ids :: "line_item list \<Rightarrow> uuid list" where
  "bundle_ids items = map li_item_id (filter (\<lambda>item. li_item_type item = TOKEN_BUNDLE) items)"

lemma item_debit_other:
  assumes "\<forall>j. j \<noteq> li_item_id item \<or> li_item_type item \<noteq> TOKEN_BUNDLE \<longrightarrow>
      tbl_purchase d' j = tbl_purchase d j"
    and "distinct (bundle_ids (item # items))" and "x \<in> set items"
  shows "item_debit d' x = item_debit d x"
proof (cases "li_item_type x = TOKEN_BUNDLE")
  case True
  with assms(3) have "li_item_id x \<in> set (bundle_ids items)" by (auto simp: bundle_ids_def)
  then have "li_item_id x \<noteq> li_item_id item \<or> li_item_type item \<noteq> TOKEN_BUNDLE"
    using assms(2) by (auto simp: bundle_ids_def split: if_splits)
  with assms(1) show ?thesis by (simp add: item_debit_def)
qed (simp add: item_debit_def)

lemma item_debit_nonneg: "amounts_nonneg d \<Longrightarrow> 0 \<le> item_debit d item"
  by (auto simp: item_debit_def amounts_nonneg_def split: option.split)

lemma debit_sum_nonneg: "amounts_nonneg d \<Longrightarrow> 0 \<le> sum_list (map (item_debit d) items)"
  by (induction items) (simp_all add: item_debit_nonneg)

lemma reversal_items:
  assumes "\<forall>n. drv n = None" and "hooks_ok hooks" and "hooks_total hooks"
    and "keyed (pending s)" and "amounts_nonneg (pending s)" and "durable s = pending s"
    and "distinct (bundle_ids items)"
    and "sum_list (map (item_debit (pending s)) items) \<le> balance_of (pending s) (ctx_user_id ctx)"
  shows "\<exists>x s'. foldP (process_item (\<lambda>item. process_reversal [core_line_item_handler drv hooks now]
      item ctx) d_tokens_debited) acc items s = (Inr x, s') \<and>
    it_tokens x = it_tokens acc + sum_list (map (item_debit (pending s)) items) \<and>
    durable s' = pending s' \<and>
    balance_of (pending s') = (balance_of (pending s))(ctx_user_id ctx :=
      balance_of (pending s) (ctx_user_id ctx) - sum_list (map (item_debit (pending s)) items))"
  using assms(4-8)
proof (induction items arbitrary: acc s)
  case Nil
  then show ?case by simp
next
  case (Cons item items)
  let ?u = "ctx_user_id ctx" and ?d = "pending s"
  have "item_debit ?d item \<le> balance_of ?d ?u"
    using Cons.prems(5) debit_sum_nonneg [OF Cons.prems(2), of items] by simp
  from reversal_step [OF assms(1-3) Cons.prems(1,2) this, of now] obtain r t where
    run: "process_reversal [core_line_item_handler drv hooks now] item ctx s = (Inr r, t)"
    and r: "item_tokens r = item_debit ?d item"
    and b: "balance_of (pending t) = (balance_of ?d)(?u := balance_of ?d ?u - item_debit ?d item)"
    and k: "keyed (pending t)" and nn: "amounts_nonneg (pending t)"
    and dur: "durable t = pending t"
    and rows: "\<forall>j. j \<noteq> li_item_id item \<or> li_item_type item \<noteq> TOKEN_BUNDLE \<longrightarrow>
       tbl_purchase (pending t) j = tbl_purchase ?d j" using Cons.prems(3) by blast
  from process_item_tokens [where process = "\<lambda>item. process_reversal
        [core_line_item_handler drv hooks now] item ctx", OF run, of acc] r obtain acc' where
    item: "process_item (\<lambda>item. process_reversal [core_line_item_handler drv hooks now] item ctx)
      d_tokens_debited acc item s = (Inr acc', t)"
    and acc': "it_tokens acc' = it_tokens acc + item_debit ?d item" by auto
  have same: "map (item_debit (pending t)) items = map (item_debit ?d) items"
    using item_debit_other [OF rows Cons.prems(4)] by simp
  have "distinct (bundle_ids items)" using Cons.prems(4) by (auto simp: bundle_ids_def split: if_splits)
  moreover have "sum_list (map (item_debit ?d) items) \<le> balance_of (pending t) ?u"
    using Cons.prems(5) b by simp
  ultimately obtain x s' where
    "foldP (process_item (\<lambda>item. process_reversal [core_line_item_handler drv hooks now]
      item ctx) d_tokens_debited) acc' items t = (Inr x, s')"
    "it_tokens x = it_tokens acc' + sum_list (map (item_debit ?d) items)"
    "durable s' = pending s'"
    "balance_of (pending s') = (balance_of (pending t))(?u :=
      balance_of (pending t) ?u - sum_list (map (item_debit ?d) items))"
    using Cons.IH [OF k nn dur, unfolded same] by blast
  with item acc' b show ?case by (auto simp: prog_simps algebra_simps fun_eq_iff)
qed

lemma calculate_tokens_sum:
  "calculate_tokens_to_debit v d = sum_list (map (item_debit d) (inv_line_items v))"
proof -
  have "fold (\<lambda>item total. total + item_debit d item) items n = n + sum_list (map (item_debit d) items)"
    for items n by (induction items arbitrary: n) simp_all
  then show ?thesis by (simp add: calculate_tokens_to_debit_def)
qed

lemma process_refund_run:
  assumes "tbl_invoice (pending s) i = Some v" and "inv_status v = PAID"
    and "calculate_tokens_to_debit v (pending s) \<le> balance_of (pending s) (inv_user_id v)"
  shows "process_refund drv lhs i s =
    seqP (save_invoice drv (inv_mark_refunded v))
      (bindP (process_items (\<lambda>item. process_reversal lhs item
          \<lparr>ctx_invoice = inv_mark_refunded v, ctx_user_id = inv_user_id v\<rparr>)
          d_tokens_debited (inv_line_items v))
        (\<lambda>items. ret (service_ok (inv_id v) items))) s"
proof -
  have "\<not> (0 < calculate_tokens_to_debit v (pending s) \<and>
      balance_of (pending s) (inv_user_id v) < calculate_tokens_to_debit v (pending s))"
    using assms(3) by simp
  then show ?thesis
    unfolding process_refund_def find_invoice_def get_balance_def Let_def inv_mark_id inv_mark_items
    by (simp only: bindP_query assms(1,2) option.case if_False simp_thms)
qed

section \<open>Properties\<close>

text \<open>
  C14. The refund service refuses without a trace: a refund it reports as failed (unknown
  invoice, an invoice that is not paid, too few tokens) leaves the session and the tables
  untouched; one it reports as done found the invoice paid, with the tokens covered.
\<close>

theorem refund_guard:
  assumes "process_refund drv lhs i s = (Inr r, s')"
  shows "if sr_success r
    then (\<exists>v. tbl_invoice (pending s) i = Some v \<and> inv_status v = PAID \<and>
       calculate_tokens_to_debit v (pending s) \<le> max 0 (balance_of (pending s) (inv_user_id v)))
    else s' = s"
  using assms
  by (auto simp: process_refund_def find_invoice_def get_balance_def service_err_def Let_def
      service_ok_def split: option.splits if_splits elim!: seqP_InrE bindP_InrE)

theorem refund_guard_witness:
  "let s = open_session sample_billing_db;
       res = process_refund no_faults [] ''i1'' s
   in fst res = Inr (service_err ''Cannot refund: invoice status is PENDING'') \<and> snd res = s"
proof -
  let ?s = "open_session sample_billing_db"
  have f: "fst (process_refund no_faults [] ''i1'' ?s) =
      Inr (service_err ''Cannot refund: invoice status is PENDING'')"
    by (simp add: process_refund_def find_invoice_def open_session_def sample_billing_db_def
        sample_invoice_def)
  then have run: "process_refund no_faults [] ''i1'' ?s =
      (Inr (service_err ''Cannot refund: invoice status is PENDING''),
       snd (process_refund no_faults [] ''i1'' ?s))" by (metis prod.collapse)
  from refund_guard [OF run] f show ?thesis by (simp add: service_err_def Let_def)
qed

text \<open>The reversal of all line items after the refunded invoice is saved.\<close>

definition refund_context :: "invoice \<Rightarrow> line_context" where
  "refund_context v = \<lparr>ctx_invoice = inv_mark_refunded v, ctx_user_id = inv_user_id v\<rparr>"

definition reverse_all ::
  "'p line_handler list \<Rightarrow> invoice \<Rightarrow> ('p db_scheme session, items_summary) prog" where
  "reverse_all lhs v = process_items (\<lambda>item. process_reversal lhs item (refund_context v))
     d_tokens_debited (inv_line_items v)"

lemma reverse_all_takes:
  assumes "\<forall>n. drv n = None" and "hooks_ok hooks" and "hooks_total hooks"
    and "keyed d" and "amounts_nonneg d" and "distinct (bundle_ids (inv_line_items v))"
    and "calculate_tokens_to_debit v d \<le> balance_of d (inv_user_id v)"
    and t: "pending t = put_invoice (inv_mark_refunded v) d" "durable t = pending t"
  shows "\<exists>x s'. reverse_all [core_line_item_handler drv hooks now] v t = (Inr x, s') \<and>
    it_tokens x = calculate_tokens_to_debit v d \<and> durable s' = pending s' \<and>
    balance_of (pending s') = (balance_of d)(inv_user_id v :=
      balance_of d (inv_user_id v) - calculate_tokens_to_debit v d)"
proof -
  have pre: "keyed (pending t)" "amounts_nonneg (pending t)"
    using assms(4,5) by (simp_all add: t amounts_nonneg_def)
  have debit: "item_debit (put_invoice (inv_mark_refunded v) d) = item_debit d"
    by (simp add: fun_eq_iff item_debit_def)
  have bal: "balance_of (put_invoice (inv_mark_refunded v) d) = balance_of d" by simp
  have ctx: "ctx_user_id (refund_context v) = inv_user_id v" by (simp add: refund_context_def)
  have cover: "sum_list (map (item_debit (pending t)) (inv_line_items v)) \<le>
      balance_of (pending t) (ctx_user_id (refund_context v))"
    using assms(7) unfolding t debit bal ctx calculate_tokens_sum .
  have "it_tokens no_items = 0" by (simp add: no_items_def)
  with reversal_items [OF assms(1-3) pre t(2) assms(6) cover, of now no_items,
      unfolded t(1) debit bal ctx, folded calculate_tokens_sum process_items_def]
  show ?thesis by (simp add: reverse_all_def)
qed

lemma reverse_all_keeps_status:
  assumes "hooks_ok hooks" and "reverse_all [core_line_item_handler drv hooks now] v t = (r, s')"
    and "pending t = put_invoice (inv_mark_refunded v) d" and "durable t = pending t"
  shows "map_option inv_status (tbl_invoice (durable s') (inv_id v)) = Some REFUNDED"
proof -
  let ?kept = "on_invoices (\<lambda>t. map_option inv_status (t (inv_id v)) = Some REFUNDED)"
  have "handler_keeps ?kept (core_line_item_handler drv hooks now)"
    by (rule core_handler_keeps_invoices [OF assms(1)])
  then have rev: "keeps ?kept (process_reversal [core_line_item_handler drv hooks now] item ctx)"
    for item ctx
    unfolding process_reversal_def by (intro dispatch_keeps) (auto simp: handler_keeps_def)
  have "?kept t" using assms(3,4) by (simp add: on_invoices_def both_def)
  from keepsD [OF process_items_keeps [OF rev] this assms(2) [unfolded reverse_all_def]]
  show ?thesis by (simp add: on_invoices_def both_def)
qed

text \<open>
  C15. The pre-check of a refund agrees with the refund: on a database that answers, with
  hooks that do not fail, refunding a paid invoice whose token bundles are distinct and
  covered by the balance takes exactly the tokens the pre-check counted, reports that
  number, marks the invoice refunded, and commits all of it.
\<close>

theorem refund_takes_what_was_checked:
  assumes "\<forall>n. drv n = None" and "hooks_ok hooks" and "hooks_total hooks"
    and "keyed d" and "amounts_nonneg d"
    and "tbl_invoice d i = Some v" and "inv_status v = PAID"
    and "distinct (bundle_ids (inv_line_items v))"
    and "calculate_tokens_to_debit v d \<le> balance_of d (inv_user_id v)"
  shows "\<exists>items s'. process_refund drv [core_line_item_handler drv hooks now] i (open_session d) =
      (Inr (service_ok i items), s') \<and>
    it_tokens items = calculate_tokens_to_debit v d \<and>
    map_option inv_status (tbl_invoice (durable s') i) = Some REFUNDED \<and>
    balance_of (durable s') = (balance_of d)(inv_user_id v :=
      balance_of d (inv_user_id v) - calculate_tokens_to_debit v d)"
proof -
  let ?s = "open_session d" and ?v = "inv_mark_refunded v"
  let ?go = "reverse_all [core_line_item_handler drv hooks now] v"
  have id: "inv_id v = i" using assms(4,6) by (simp add: keyed_def)
  obtain t where save: "save_invoice drv ?v ?s = (Inr (), t)"
    and t: "pending t = put_invoice ?v d" "durable t = pending t"
    using assms(1) by (simp add: save_invoice_ok)
  obtain x s' where go: "?go t = (Inr x, s')" "it_tokens x = calculate_tokens_to_debit v d"
    and s': "durable s' = pending s'" "balance_of (pending s') = (balance_of d)(inv_user_id v :=
      balance_of d (inv_user_id v) - calculate_tokens_to_debit v d)"
    using reverse_all_takes [OF assms(1-5,8,9) t] by blast
  have "process_refund drv [core_line_item_handler drv hooks now] i ?s =
      seqP (save_invoice drv ?v) (bindP ?go (\<lambda>items. ret (service_ok (inv_id v) items))) ?s"
    using process_refund_run [of ?s i v drv "[core_line_item_handler drv hooks now]"] assms(6,7,9)
    by (simp add: reverse_all_def refund_context_def)
  also have "\<dots> = bindP ?go (\<lambda>items. ret (service_ok (inv_id v) items)) t"
    by (rule seqP_Inr) (rule save)
  also have "\<dots> = (Inr (service_ok i x), s')"
    using go(1) id by (simp add: bindP_def)
  finally have run: "process_refund drv [core_line_item_handler drv hooks now] i ?s =
    (Inr (service_ok i x), s')" .
  with go s' reverse_all_keeps_status [OF assms(2) go(1) t] id show ?thesis by auto
qed

definition paid_db :: db where
  "paid_db = put_invoice (sample_invoice\<lparr>inv_status := PAID\<rparr>)
     (put_purchase (spent_purchase\<lparr>p_token_amount := 5\<rparr>) sample_db)"

theorem refund_takes_what_was_checked_witness:
  "\<exists>items s'. process_refund no_faults [core_line_item_handler no_faults [] 9] ''i1''
      (open_session paid_db) = (Inr (service_ok ''i1'' items), s') \<and>
    it_tokens items = 5 \<and> balance_of (durable s') ''alice'' = 2"
proof -
  let ?v = "sample_invoice\<lparr>inv_status := PAID\<rparr>"
  have k: "keyed paid_db"
    by (simp add: paid_db_def sample_db_def keyed_def empty_db_def spent_purchase_def
        sample_purchase_def put_purchase_def sample_invoice_def put_invoice_def)
  have nn: "amounts_nonneg paid_db"
    by (simp add: paid_db_def amounts_nonneg_def sample_db_def empty_db_def)
  have row: "tbl_invoice paid_db ''i1'' = Some ?v" by (simp add: paid_db_def sample_invoice_def)
  have total: "calculate_tokens_to_debit ?v paid_db = 5"
    by (simp add: calculate_tokens_sum sample_invoice_def item_debit_def sample_item_def paid_db_def
        spent_purchase_def sample_purchase_def)
  have b: "balance_of paid_db ''alice'' = 7" by (simp add: paid_db_def)
  have d: "distinct (bundle_ids (inv_line_items ?v))"
    by (simp add: sample_invoice_def bundle_ids_def)
  have u: "inv_user_id ?v = ''alice''" by (simp add: sample_invoice_def)
  have c: "calculate_tokens_to_debit ?v paid_db \<le> balance_of paid_db (inv_user_id ?v)"
    unfolding u total b by simp
  have nf: "\<forall>n. no_faults n = None" by simp
  have "inv_status ?v = PAID" by simp
  from refund_takes_what_was_checked [where drv = no_faults, OF nf hooks_ok_Nil hooks_total_Nil k nn
      row this d c, of 9]
  show ?thesis unfolding u total b by auto
qed

text \<open>
  An authorization event that arrives late takes a paid invoice out of its paid state:
  the handler does not look at the status, so a redelivered or delayed authorization leaves
  the invoice authorized, capturable again, in the committed tables.
\<close>

theorem late_authorization_reopens:
  assumes "\<forall>n. drv n = None" and "keyed d" and "tbl_invoice d i = Some v"
    and "inv_status v \<in> {PAID, REFUNDED, CANCELLED}" and "au_invoice_id ev = i"
  shows "\<exists>r s' w. emit_payment drv lhs email_of now (PaymentAuthorizedEvent ev) (open_session d) =
      (Inr r, s') \<and> er_success r \<and> tbl_invoice (durable s') i = Some w \<and>
    inv_status w = AUTHORIZED \<and> is_capturable w \<and> inv_payment_intent_id w = au_intent ev"
proof -
  have id: "inv_id v = i" using assms(2,3) by (simp add: keyed_def)
  show ?thesis
    using assms(1,3,5) id
    by (simp add: emit_payment_run announced_def caught_def combine_success handle_authorized_def find_invoice_def
        open_session_def Let_def save_invoice_ok prog_simps refreshed_def is_capturable_def)
qed

theorem late_authorization_reopens_witness:
  "\<exists>r s' w. emit_payment no_faults [] (\<lambda>d u. None) 9 (PaymentAuthorizedEvent
       \<lparr>au_invoice_id = ''i1'', au_reference = None, au_provider = Some ''mock'',
        au_intent = Some ''pi''\<rparr>) (open_session paid_db) = (Inr r, s') \<and>
     tbl_invoice (durable s') ''i1'' = Some w \<and> inv_status w = AUTHORIZED"
proof -
  let ?ev = "\<lparr>au_invoice_id = ''i1'', au_reference = None, au_provider = Some ''mock'',
        au_intent = Some ''pi''\<rparr>"
  have k: "keyed paid_db"
    by (simp add: paid_db_def sample_db_def keyed_def empty_db_def spent_purchase_def
        sample_purchase_def put_purchase_def sample_invoice_def put_invoice_def)
  have row: "tbl_invoice paid_db ''i1'' = Some (sample_invoice\<lparr>inv_status := PAID\<rparr>)"
    by (simp add: paid_db_def sample_invoice_def)
  have nf: "\<forall>n. no_faults n = None" by simp
  show ?thesis
    using late_authorization_reopens [where drv = no_faults and ev = ?ev, OF nf k row, of "[]"
        "\<lambda>d u. None" 9] by auto
qed

text \<open>
  A capture can be reported as done although the invoice was not paid: when the provider
  has captured the money and the event handler then cannot save the invoice, the service
  still answers success with status PAID, and the committed invoice is still authorized.
\<close>

theorem capture_reports_paid_anyway:
  assumes "keyed d" and "tbl_invoice d i = Some v" and "inv_status v = AUTHORIZED"
    and "truthy (inv_payment_intent_id v)" and "adapter_get (inv_payment_method v) reg = Inr adapter"
    and "ad_capture_payment adapter (str_or (inv_payment_intent_id v) []) (open_session d) =
      (Inr resp, open_session d)" and "resp_success resp"
    and "drv 0 = Some e"
  shows "\<exists>s'. capture_payment drv lhs email_of now reg i (open_session d) =
      (Inr (capture_ok i ''PAID''), s') \<and> durable s' = d"
proof -
  let ?s = "open_session d"
  have id: "inv_id v = i" using assms(1,2) by (simp add: keyed_def)
  let ?ev = "\<lparr>ce_invoice_id = i, ce_reference = inv_payment_ref v, ce_provider = inv_payment_method v,
      ce_metadata = []\<rparr>"
  have row: "tbl_invoice (pending ?s) (ce_invoice_id ?ev) = Some v"
    using assms(2) by (simp add: open_session_def)
  have "\<exists>e' t. capture_save drv now ?ev v ?s = (Inl e', t) \<and> durable t = d"
    using assms(3,8) save_commit_fault [of drv "?s\<lparr>pending := put_invoice (captured_invoice now ?ev v) d\<rparr>"]
    by (simp add: capture_save_def whenP_def save_invoice_def repo_save_def)
  then obtain e' t where save: "capture_save drv now ?ev v ?s = (Inl e', t)" "durable t = d" by blast
  have "handle_captured drv lhs email_of now ?ev ?s = (Inr (handler_error (exn_str e')), t)"
    unfolding handle_captured_eq [OF row] using save(1) by (simp add: try_except_def prog_simps)
  then have emit: "emit_payment_captured drv lhs email_of now i (inv_payment_ref v)
      (inv_payment_method v) [] ?s = announced (PaymentCapturedEvent ?ev) (Inr (combine [handler_error (exn_str e')]), t)"
    by (simp add: emit_payment_captured_def emit_payment_run caught_def)
  have pend: "pending ?s = d" by (simp add: open_session_def)
  have "capture_payment drv lhs email_of now reg i ?s =
      (Inr (capture_ok i ''PAID''), t\<lparr>bus_log := bus_log t @ [(''payment.captured'', [])]\<rparr>)"
    using assms(2-7) emit id pend
    by (simp add: announced_def capture_payment_def provider_call_def find_invoice_def refreshed_def try_except_def
        prog_simps)
  with save(2) show ?thesis by (intro exI [of _ "t\<lparr>bus_log := bus_log t @ [(''payment.captured'', [])]\<rparr>"]) simp
qed

definition authorized_db :: db where
  "authorized_db = put_invoice (sample_invoice\<lparr>inv_status := AUTHORIZED,
     inv_payment_method := Some ''ok'', inv_payment_intent_id := Some ''pi''\<rparr>) empty_db"

definition agreeing_adapter :: "'s sdk_adapter" where
  "agreeing_adapter = \<lparr>ad_capture_payment = (\<lambda>pid. ret (resp_ok [])),
     ad_release_authorization = (\<lambda>pid. ret (resp_ok []))\<rparr>"

theorem capture_reports_paid_anyway_witness:
  "\<exists>s'. capture_payment (\<lambda>n. Some (DatabaseError ''down'')) [] (\<lambda>d u. None) 9
      [(''ok'', agreeing_adapter)] ''i1'' (open_session authorized_db) =
      (Inr (capture_ok ''i1'' ''PAID''), s') \<and>
     map_option inv_status (tbl_invoice (durable s') ''i1'') = Some AUTHORIZED"
proof -
  let ?v = "sample_invoice\<lparr>inv_status := AUTHORIZED, inv_payment_method := Some ''ok'',
    inv_payment_intent_id := Some ''pi''\<rparr>"
  have k: "keyed authorized_db"
    by (simp add: authorized_db_def keyed_def empty_db_def put_invoice_def)
  have row: "tbl_invoice authorized_db ''i1'' = Some ?v"
    by (simp add: authorized_db_def sample_invoice_def)
  have reg: "adapter_get (inv_payment_method ?v) [(''ok'', agreeing_adapter)] = Inr agreeing_adapter"
    by (simp add: adapter_get_def)
  have cap: "ad_capture_payment agreeing_adapter (str_or (inv_payment_intent_id ?v) [])
      (open_session authorized_db) = (Inr (resp_ok []), open_session authorized_db)"
    by (simp add: agreeing_adapter_def)
  have "\<exists>s'. capture_payment (\<lambda>n. Some (DatabaseError ''down'')) [] (\<lambda>d u. None) 9
      [(''ok'', agreeing_adapter)] ''i1'' (open_session authorized_db) =
      (Inr (capture_ok ''i1'' ''PAID''), s') \<and> durable s' = authorized_db"
    by (rule capture_reports_paid_anyway [OF k row _ _ reg cap]) simp_all
  with row show ?thesis by auto
qed

end
