(* ===== verification/Webhooks.thy ===== *)
theory Webhooks
  imports Rows Rendering Strings Events "HOL-Library.Product_Lexorder"
begin

text \<open>
  Webhooks. Outbound: \<open>OutboundWebhookService\<close> (\<open>vbwd/webhooks/outbound_service.py\<close>), its
  models and repositories, the relay from the event bus (\<open>relay.py\<close>), signing
  (\<open>signing.py\<close>) and the event type registry (\<open>event_types.py\<close>). Inbound:
  \<open>WebhookService.process\<close> (\<open>service.py\<close>).

  Parameters: \<open>http\<close>, the transport, whose answer may depend on the moment of the call;
  \<open>hmac_hex\<close>, the HMAC-SHA256 hex digest; \<open>mint\<close>, the identifier drawn for a new row at a
  given database call; the clock. A payload is its JSON text.
\<close>

section \<open>Rows\<close>

record endpoint =
  ep_id :: uuid
  ep_url :: string
  ep_secret :: string
  ep_event_types :: "string list"
  ep_is_active :: bool
  ep_description :: "string option"
  ep_last_triggered_at :: "time option"
  ep_failures :: int

datatype delivery_status = Delivery_PENDING | Delivery_SUCCESS | Delivery_FAILED

record delivery =
  dl_id :: uuid
  dl_webhook_id :: uuid
  dl_event_type :: string
  dl_payload :: string
  dl_status :: delivery_status
  dl_attempt_count :: int
  dl_max_attempts :: int
  dl_next_attempt_at :: "time option"
  dl_response_code :: "int option"
  dl_response_body :: "string option"
  dl_error :: "string option"
  dl_signature :: "string option"
  dl_delivered_at :: "time option"
  dl_created_at :: time

record wdb =
  wb_endpoints :: "endpoint list"
  wb_deliveries :: "delivery list"

definition auto_disable_threshold :: int where
  "auto_disable_threshold = 5"

definition default_max_attempts :: int where
  "default_max_attempts = 5"

definition max_response_body_chars :: nat where
  "max_response_body_chars = 2048"

datatype endpoint_status = Endpoint_ACTIVE | Endpoint_INACTIVE | Endpoint_FAILED

definition surfaced_status :: "endpoint \<Rightarrow> endpoint_status" where
  "surfaced_status e =
     (if ep_is_active e then Endpoint_ACTIVE
      else if auto_disable_threshold \<le> ep_failures e then Endpoint_FAILED
      else Endpoint_INACTIVE)"

definition matches_event :: "string \<Rightarrow> endpoint \<Rightarrow> bool" where
  "matches_event name e \<longleftrightarrow> ''*'' \<in> set (ep_event_types e) \<or> name \<in> set (ep_event_types e)"

definition put_endpoint :: "endpoint \<Rightarrow> wdb \<Rightarrow> wdb" where
  "put_endpoint e d = d\<lparr>wb_endpoints := upsert ep_id e (wb_endpoints d)\<rparr>"

definition put_delivery :: "delivery \<Rightarrow> wdb \<Rightarrow> wdb" where
  "put_delivery x d = d\<lparr>wb_deliveries := upsert dl_id x (wb_deliveries d)\<rparr>"

definition find_endpoint :: "uuid \<Rightarrow> (wdb session, endpoint option) prog" where
  "find_endpoint i = query (\<lambda>d. find_row ep_id i (wb_endpoints d))"

definition find_delivery :: "uuid \<Rightarrow> (wdb session, delivery option) prog" where
  "find_delivery i = query (\<lambda>d. find_row dl_id i (wb_deliveries d))"

definition find_active_matching :: "string \<Rightarrow> wdb \<Rightarrow> endpoint list" where
  "find_active_matching name d =
     filter (matches_event name) (filter ep_is_active (wb_endpoints d))"

definition is_due :: "time \<Rightarrow> delivery \<Rightarrow> bool" where
  "is_due now x \<longleftrightarrow> dl_status x = Delivery_PENDING \<and> dl_attempt_count x < dl_max_attempts x \<and>
     (case dl_next_attempt_at x of Some t \<Rightarrow> t \<le> now | None \<Rightarrow> False)"

definition find_due :: "time \<Rightarrow> nat \<Rightarrow> wdb \<Rightarrow> delivery list" where
  "find_due now limit d =
     take limit (sort_key (\<lambda>x. case dl_next_attempt_at x of Some t \<Rightarrow> t | None \<Rightarrow> 0)
       (filter (is_due now) (wb_deliveries d)))"

definition save_endpoint :: "driver \<Rightarrow> endpoint \<Rightarrow> (wdb session, unit) prog" where
  "save_endpoint drv e = repo_save drv (\<lambda>d i. None) (put_endpoint e) (Some (ep_id e)) None"

definition save_delivery :: "driver \<Rightarrow> delivery \<Rightarrow> (wdb session, unit) prog" where
  "save_delivery drv x = repo_save drv (\<lambda>d i. None) (put_delivery x) (Some (dl_id x)) None"

section \<open>Signing\<close>

definition compute_signature :: "(string \<Rightarrow> string \<Rightarrow> string) \<Rightarrow> string \<Rightarrow> string \<Rightarrow> string" where
  "compute_signature hmac_hex secret body = ''sha256='' @ hmac_hex secret body"

definition verify_signature ::
  "(string \<Rightarrow> string \<Rightarrow> string) \<Rightarrow> string \<Rightarrow> string \<Rightarrow> string option \<Rightarrow> bool" where
  "verify_signature hmac_hex secret body provided \<longleftrightarrow>
     compute_signature hmac_hex secret body = str_or provided []"

definition build_body :: "delivery \<Rightarrow> string" where
  "build_body x =
     CHR ''{'' # json_string ''created_at'' @ '': '' @ json_string (iso_datetime (dl_created_at x)) @
     '', '' @ json_string ''data'' @ '': '' @ dl_payload x @
     '', '' @ json_string ''event_type'' @ '': '' @ json_string (dl_event_type x) @
     '', '' @ json_string ''id'' @ '': '' @ json_string (dl_id x) @ ''}''"

definition backoff :: "int \<Rightarrow> int" where
  "backoff attempt_count = min (30 * 2 ^ nat attempt_count) (6 * 60 * 60)"

section \<open>Managing endpoints\<close>

definition http_url :: "string \<Rightarrow> bool" where
  "http_url u \<longleftrightarrow> starts_with ''http://'' u \<or> starts_with ''https://'' u"

definition create_endpoint ::
  "driver \<Rightarrow> (nat \<Rightarrow> uuid) \<Rightarrow> string \<Rightarrow> string option \<Rightarrow> string list \<Rightarrow> string option \<Rightarrow> string option
     \<Rightarrow> (wdb session, endpoint) prog" where
  "create_endpoint drv mint generated url event_types secret description =
     (let u = str_strip (str_or url [])
      in if \<not> http_url u then raise (ValueError ''url must be an http(s) URL'')
         else bindP (gets (\<lambda>s. mint (calls s))) (\<lambda>i.
           let e = \<lparr>ep_id = i, ep_url = u, ep_secret = str_or secret generated,
                ep_event_types = event_types, ep_is_active = True, ep_description = description,
                ep_last_triggered_at = None, ep_failures = 0\<rparr>
           in seqP (save_endpoint drv e) (ret e)))"

definition with_endpoint ::
  "uuid \<Rightarrow> (endpoint \<Rightarrow> (wdb session, 'a) prog) \<Rightarrow> (wdb session, 'a) prog" where
  "with_endpoint i f = bindP (find_endpoint i) (\<lambda>found.
     case found of
       None \<Rightarrow> raise (LookupError ''webhook not found'')
     | Some e \<Rightarrow> f e)"

definition update_endpoint ::
  "driver \<Rightarrow> uuid \<Rightarrow> string option \<Rightarrow> string list option \<Rightarrow> string option
     \<Rightarrow> (wdb session, endpoint) prog" where
  "update_endpoint drv i url event_types description =
     with_endpoint i (\<lambda>e.
       case url of
         Some u \<Rightarrow>
           if \<not> http_url (str_strip u) then raise (ValueError ''url must be an http(s) URL'')
           else
             (let e' = e\<lparr>ep_url := str_strip u,
                  ep_event_types := (case event_types of Some ts \<Rightarrow> ts | None \<Rightarrow> ep_event_types e),
                  ep_description := (case description of Some x \<Rightarrow> Some x | None \<Rightarrow> ep_description e)\<rparr>
              in seqP (save_endpoint drv e') (ret e'))
       | None \<Rightarrow>
           (let e' = e\<lparr>
                  ep_event_types := (case event_types of Some ts \<Rightarrow> ts | None \<Rightarrow> ep_event_types e),
                  ep_description := (case description of Some x \<Rightarrow> Some x | None \<Rightarrow> ep_description e)\<rparr>
            in seqP (save_endpoint drv e') (ret e')))"

text \<open>Deleting an endpoint deletes its deliveries, by the foreign key's cascade.\<close>

definition drop_endpoint :: "uuid \<Rightarrow> wdb \<Rightarrow> wdb" where
  "drop_endpoint i d =
     d\<lparr>wb_endpoints := remove_rows (\<lambda>e. ep_id e = i) (wb_endpoints d),
       wb_deliveries := remove_rows (\<lambda>x. dl_webhook_id x = i) (wb_deliveries d)\<rparr>"

definition delete_endpoint :: "driver \<Rightarrow> uuid \<Rightarrow> (wdb session, bool) prog" where
  "delete_endpoint drv i =
     repo_delete drv (\<lambda>d i. find_row ep_id i (wb_endpoints d) \<noteq> None) drop_endpoint i"

definition toggle_endpoint :: "driver \<Rightarrow> uuid \<Rightarrow> (wdb session, endpoint) prog" where
  "toggle_endpoint drv i =
     with_endpoint i (\<lambda>e.
       let e' = (if ep_is_active e then e\<lparr>ep_is_active := False\<rparr>
                 else e\<lparr>ep_is_active := True, ep_failures := 0\<rparr>)
       in seqP (save_endpoint drv e') (ret e'))"

section \<open>Delivering\<close>

text \<open>
  Attributes of a row the session has loaded are read again after each commit; a row that
  is gone by then raises.
\<close>

definition reload_endpoint :: "uuid \<Rightarrow> (wdb session, endpoint) prog" where
  "reload_endpoint i = bindP (find_endpoint i) (\<lambda>found.
     case found of Some e \<Rightarrow> ret e | None \<Rightarrow> raise (OtherError ''ObjectDeletedError''))"

definition record_success :: "driver \<Rightarrow> time \<Rightarrow> delivery \<Rightarrow> uuid \<Rightarrow> (wdb session, unit) prog" where
  "record_success drv now x ep =
     seqP (save_delivery drv (x\<lparr>dl_status := Delivery_SUCCESS, dl_delivered_at := Some now,
             dl_error := None, dl_next_attempt_at := None\<rparr>))
     (bindP (reload_endpoint ep) (\<lambda>e. save_endpoint drv (e\<lparr>ep_failures := 0\<rparr>)))"

definition count_failure :: "endpoint \<Rightarrow> endpoint" where
  "count_failure e =
     (let e1 = e\<lparr>ep_failures := ep_failures e + 1\<rparr>
      in if auto_disable_threshold \<le> ep_failures e1 then e1\<lparr>ep_is_active := False\<rparr> else e1)"

definition record_failure ::
  "driver \<Rightarrow> time \<Rightarrow> delivery \<Rightarrow> uuid \<Rightarrow> string \<Rightarrow> (wdb session, unit) prog" where
  "record_failure drv now x ep error =
     (if dl_attempt_count x < dl_max_attempts x
      then save_delivery drv (x\<lparr>dl_error := Some error, dl_status := Delivery_PENDING,
             dl_next_attempt_at := Some (now + backoff (dl_attempt_count x))\<rparr>)
      else
        seqP (save_delivery drv (x\<lparr>dl_error := Some error, dl_status := Delivery_FAILED,
                dl_next_attempt_at := None\<rparr>))
        (bindP (reload_endpoint ep) (\<lambda>e. save_endpoint drv (count_failure e))))"

type_synonym transport = "nat \<Rightarrow> string \<Rightarrow> string \<Rightarrow> (string \<times> string) list \<Rightarrow> exn + int \<times> string"

definition delivery_headers :: "time \<Rightarrow> string \<Rightarrow> delivery \<Rightarrow> (string \<times> string) list" where
  "delivery_headers now signature x =
     [(''Content-Type'', ''application/json''), (''X-VBWD-Signature'', signature),
      (''X-VBWD-Event'', dl_event_type x), (''X-VBWD-Delivery-Id'', dl_id x),
      (''X-VBWD-Timestamp'', str_int now)]"

definition attempt_delivery ::
  "driver \<Rightarrow> (string \<Rightarrow> string \<Rightarrow> string) \<Rightarrow> transport \<Rightarrow> time \<Rightarrow> delivery \<Rightarrow> endpoint
     \<Rightarrow> (wdb session, unit) prog" where
  "attempt_delivery drv hmac_hex http now x e =
     (let body = build_body x;
          signature = compute_signature hmac_hex (ep_secret e) body;
          x1 = x\<lparr>dl_attempt_count := dl_attempt_count x + 1, dl_signature := Some signature\<rparr>
      in seqP (on_db (put_delivery x1))
        (bindP (gets calls) (\<lambda>moment.
          case http moment (ep_url e) body (delivery_headers now signature x) of
            Inl exn \<Rightarrow> record_failure drv now x1 (ep_id e) (exn_str exn)
          | Inr (code, text) \<Rightarrow>
              (let x2 = x1\<lparr>dl_response_code := Some code,
                   dl_response_body := Some (take max_response_body_chars text)\<rparr>
               in if 200 \<le> code \<and> code \<le> 299 then record_success drv now x2 (ep_id e)
                  else record_failure drv now x2 (ep_id e) (''non-2xx status '' @ str_int code)))))"

definition new_delivery :: "uuid \<Rightarrow> uuid \<Rightarrow> string \<Rightarrow> string \<Rightarrow> time \<Rightarrow> delivery" where
  "new_delivery i ep name payload now =
     \<lparr>dl_id = i, dl_webhook_id = ep, dl_event_type = name, dl_payload = payload,
      dl_status = Delivery_PENDING, dl_attempt_count = 0, dl_max_attempts = default_max_attempts,
      dl_next_attempt_at = Some now, dl_response_code = None, dl_response_body = None,
      dl_error = None, dl_signature = None, dl_delivered_at = None, dl_created_at = now\<rparr>"

definition enqueue_one ::
  "driver \<Rightarrow> (nat \<Rightarrow> uuid) \<Rightarrow> time \<Rightarrow> string \<Rightarrow> string \<Rightarrow> endpoint \<Rightarrow> (wdb session, unit) prog" where
  "enqueue_one drv mint now name payload e =
     bindP (gets (\<lambda>s. mint (calls s))) (\<lambda>i.
       seqP (save_delivery drv (new_delivery i (ep_id e) name payload now))
       (bindP (reload_endpoint (ep_id e)) (\<lambda>e1.
          save_endpoint drv (e1\<lparr>ep_last_triggered_at := Some now\<rparr>))))"

definition enqueue_for_event ::
  "driver \<Rightarrow> (nat \<Rightarrow> uuid) \<Rightarrow> time \<Rightarrow> string \<Rightarrow> string \<Rightarrow> (wdb session, nat) prog" where
  "enqueue_for_event drv mint now name payload =
     bindP (query (find_active_matching name)) (\<lambda>endpoints.
       seqP (for_each (enqueue_one drv mint now name payload) endpoints)
         (ret (length endpoints)))"

definition send_test ::
  "driver \<Rightarrow> (string \<Rightarrow> string \<Rightarrow> string) \<Rightarrow> transport \<Rightarrow> (nat \<Rightarrow> uuid) \<Rightarrow> time \<Rightarrow> uuid
     \<Rightarrow> (wdb session, uuid) prog" where
  "send_test drv hmac_hex http mint now i =
     with_endpoint i (\<lambda>e.
       bindP (gets (\<lambda>s. mint (calls s))) (\<lambda>new_id.
         let x = new_delivery new_id (ep_id e) ''webhook.test''
               (CHR ''{'' # json_string ''message'' @ '': '' @
                json_string ''This is a test webhook delivery.'' @ ''}'') now
         in seqP (save_delivery drv x)
              (bindP (reload_endpoint (ep_id e)) (\<lambda>e1.
                 seqP (attempt_delivery drv hmac_hex http now x e1) (ret new_id)))))"

text \<open>One turn of the drain: a delivery whose endpoint is gone is passed over.\<close>

definition drain_one ::
  "driver \<Rightarrow> (string \<Rightarrow> string \<Rightarrow> string) \<Rightarrow> transport \<Rightarrow> time \<Rightarrow> nat \<Rightarrow> uuid \<Rightarrow> (wdb session, nat) prog" where
  "drain_one drv hmac_hex http now attempted i =
     bindP (find_delivery i) (\<lambda>found.
       case found of
         None \<Rightarrow> raise (OtherError ''ObjectDeletedError'')
       | Some x \<Rightarrow> bindP (find_endpoint (dl_webhook_id x)) (\<lambda>ep.
           case ep of
             None \<Rightarrow> ret attempted
           | Some e \<Rightarrow> seqP (attempt_delivery drv hmac_hex http now x e) (ret (attempted + 1))))"

definition deliver_due ::
  "driver \<Rightarrow> (string \<Rightarrow> string \<Rightarrow> string) \<Rightarrow> transport \<Rightarrow> time \<Rightarrow> nat \<Rightarrow> (wdb session, nat) prog" where
  "deliver_due drv hmac_hex http now limit =
     bindP (query (find_due now limit)) (\<lambda>due.
       foldP (drain_one drv hmac_hex http now) 0 (map dl_id due))"

section \<open>Relay\<close>

text \<open>The callback subscribed to every event: it never lets an exception out.\<close>

definition relay :: "driver \<Rightarrow> (nat \<Rightarrow> uuid) \<Rightarrow> time \<Rightarrow> string \<Rightarrow> string \<Rightarrow> (wdb session, unit) prog" where
  "relay drv mint now name payload =
     try_except (seqP (enqueue_for_event drv mint now name payload) (ret ())) (\<lambda>e. ret ())"

text \<open>\<open>register_outbound_webhook_relay\<close>: the marker on the bus holds the bound app.\<close>

definition register_relay ::
  "'app \<Rightarrow> 'c \<Rightarrow> 'app option \<times> 'c event_bus \<Rightarrow> 'app option \<times> 'c event_bus" where
  "register_relay app callback b =
     (case fst b of
        Some _ \<Rightarrow> (Some app, snd b)
      | None \<Rightarrow> (Some app, subscribe_all callback (snd b)))"

definition delivery_batch_limit :: nat where
  "delivery_batch_limit = 100"

definition run_webhook_delivery_job ::
  "driver \<Rightarrow> (string \<Rightarrow> string \<Rightarrow> string) \<Rightarrow> transport \<Rightarrow> time \<Rightarrow> (wdb session, unit) prog" where
  "run_webhook_delivery_job drv hmac_hex http now =
     seqP (deliver_due drv hmac_hex http now delivery_batch_limit) (ret ())"

section \<open>Event types\<close>

type_synonym event_type_registry = "(string \<times> string) list"

definition register_event_type :: "string \<Rightarrow> string \<Rightarrow> event_type_registry \<Rightarrow> event_type_registry" where
  "register_event_type name label reg = upsert fst (name, label) reg"

definition list_event_types :: "event_type_registry \<Rightarrow> (string \<times> string) list" where
  "list_event_types reg = sort_key (\<lambda>p. (fst p \<noteq> ''*'', fst p)) reg"

definition seed_core_event_types :: "event_type_registry \<Rightarrow> event_type_registry" where
  "seed_core_event_types =
     fold (\<lambda>(n, l). register_event_type n l)
       [(''*'', ''All events''), (''webhook.test'', ''Webhook test''),
        (''payment.captured'', ''Payment captured''),
        (''payment.authorized'', ''Payment authorized''),
        (''payment.refunded'', ''Payment refunded''),
        (''payment.recurring_charge'', ''Recurring charge''),
        (''payment.provider_cancelled'', ''Provider recurring cancelled''),
        (''payment.recurring_failed'', ''Recurring charge failed''),
        (''payment.invoice_failed'', ''Invoice payment failed''),
        (''payment.provider_linked'', ''Provider link established''),
        (''refund.reversed'', ''Refund reversed'')]"

section \<open>Inbound webhooks\<close>

text \<open>A provider's handler is plugin code: what its methods do is a parameter.\<close>

record ('s, 'e) webhook_handler =
  wh_verify :: "string \<Rightarrow> string \<Rightarrow> string \<Rightarrow> ('s, bool) prog"
  wh_parse :: "string \<Rightarrow> ('s, 'e) prog"
  wh_handle :: "'e \<Rightarrow> ('s, bool \<times> string option) prog"

text \<open>The result: success, and an error message.\<close>

definition process_webhook ::
  "(string \<Rightarrow> exn + string) \<Rightarrow> (string \<rightharpoonup> ('s, 'e) webhook_handler) \<Rightarrow> (string \<rightharpoonup> string)
     \<Rightarrow> string \<Rightarrow> string \<Rightarrow> string \<Rightarrow> ('s, bool \<times> string option) prog" where
  "process_webhook json_loads handlers secrets provider payload signature =
     (case handlers provider of
        None \<Rightarrow> ret (False, Some (''Unknown provider: '' @ provider))
      | Some h \<Rightarrow>
          bindP (wh_verify h payload signature
              (case secrets provider of Some x \<Rightarrow> x | None \<Rightarrow> [])) (\<lambda>valid.
            if \<not> valid then ret (False, Some ''Invalid signature'')
            else case json_loads payload of
              Inl e \<Rightarrow>
                (case e of
                   ValueError m \<Rightarrow> ret (False, Some (''Failed to parse JSON: '' @ m))
                 | _ \<Rightarrow> raise e)
            | Inr data \<Rightarrow>
                bindP (try_except (bindP (wh_parse h data) (\<lambda>ev. ret (Inr ev)))
                         (\<lambda>e. ret (Inl (''Failed to parse event: '' @ exn_str e))))
                  (\<lambda>parsed. case parsed of
                     Inl m \<Rightarrow> ret (False, Some m)
                   | Inr ev \<Rightarrow> try_except (wh_handle h ev)
                       (\<lambda>e. ret (False, Some (''Handler error: '' @ exn_str e))))))"

end
