(* ===== verification/WebhookFlow.thy ===== *)
theory WebhookFlow
  imports Webhooks
begin

text \<open>
  What the webhook operations keep and do: the invariant of the two tables, the outcome of
  one delivery attempt, what an event enqueues, and when a drain or an inbound webhook can
  succeed.
\<close>

section \<open>The invariant\<close>

text \<open>
  A delivery that is pending has attempts left and a time for the next one; one that is not
  pending has none. An active endpoint has fewer failures in a row than disable it. Every
  delivery belongs to an endpoint.
\<close>

definition delivery_ok :: "delivery \<Rightarrow> bool" where
  "delivery_ok x \<longleftrightarrow> 0 \<le> dl_attempt_count x \<and> dl_attempt_count x \<le> dl_max_attempts x \<and>
     (if dl_status x = Delivery_PENDING
      then dl_attempt_count x < dl_max_attempts x \<and> dl_next_attempt_at x \<noteq> None
      else dl_next_attempt_at x = None)"

definition endpoint_ok :: "endpoint \<Rightarrow> bool" where
  "endpoint_ok e \<longleftrightarrow> 0 \<le> ep_failures e \<and>
     (if ep_is_active e then ep_failures e < auto_disable_threshold else True)"

definition owned :: "wdb \<Rightarrow> bool" where
  "owned d \<longleftrightarrow> dl_webhook_id ` set (wb_deliveries d) \<subseteq> ep_id ` set (wb_endpoints d)"

definition webhook_inv :: "wdb \<Rightarrow> bool" where
  "webhook_inv d \<longleftrightarrow> list_all delivery_ok (wb_deliveries d) \<and> list_all endpoint_ok (wb_endpoints d) \<and>
     owned d \<and> distinct (map dl_id (wb_deliveries d)) \<and> distinct (map ep_id (wb_endpoints d))"

text \<open>The invariant, with endpoints that are known to exist.\<close>

definition inv_with :: "uuid set \<Rightarrow> wdb \<Rightarrow> bool" where
  "inv_with E d \<longleftrightarrow> webhook_inv d \<and> E \<subseteq> ep_id ` set (wb_endpoints d)"

lemma keys_kept: "key ` set rows \<subseteq> key ` set (upsert key r rows)"
  "key r \<in> key ` set (upsert key r rows)"
  using keys_upsert [of key r rows] by (metis (no_types, lifting) Un_upper1 order_refl set_append set_map)
    (metis (no_types, lifting) UnI2 keys_upsert list.set_intros(1) set_append set_map)

lemma inv_put_endpoint:
  assumes "inv_with E d" and "endpoint_ok e"
  shows "inv_with (insert (ep_id e) E) (put_endpoint e d)"
proof -
  note k = keys_kept [where key = ep_id and r = e and rows = "wb_endpoints d"]
  have "list_all endpoint_ok (upsert ep_id e (wb_endpoints d))"
    using assms set_upsert [of _ ep_id e "wb_endpoints d"]
    unfolding inv_with_def webhook_inv_def list_all_iff by blast
  moreover have "owned (put_endpoint e d)"
    using subset_trans [OF _ k(1)] assms(1)
    by (simp add: inv_with_def webhook_inv_def owned_def put_endpoint_def)
  moreover have "insert (ep_id e) E \<subseteq> ep_id ` set (wb_endpoints (put_endpoint e d))"
    using subset_trans [OF _ k(1)] k(2) assms(1) by (simp add: inv_with_def put_endpoint_def)
  ultimately show ?thesis
    using assms(1) by (simp add: inv_with_def webhook_inv_def put_endpoint_def)
qed

lemma inv_put_delivery:
  assumes "inv_with E d" and "delivery_ok x" and "dl_webhook_id x \<in> ep_id ` set (wb_endpoints d)"
  shows "inv_with E (put_delivery x d)"
proof -
  have "list_all delivery_ok (upsert dl_id x (wb_deliveries d))"
    using assms(1,2) set_upsert [of _ dl_id x "wb_deliveries d"]
    by (auto simp: inv_with_def webhook_inv_def list_all_iff)
  moreover have "dl_webhook_id ` set (upsert dl_id x (wb_deliveries d)) \<subseteq> ep_id ` set (wb_endpoints d)"
  proof (rule image_subsetI)
    fix y assume "y \<in> set (upsert dl_id x (wb_deliveries d))"
    then have "y = x \<or> y \<in> set (wb_deliveries d)" using set_upsert [of y dl_id x] by blast
    then show "dl_webhook_id y \<in> ep_id ` set (wb_endpoints d)"
      using assms by (auto simp: inv_with_def webhook_inv_def owned_def)
  qed
  ultimately show ?thesis
    using assms by (simp add: inv_with_def webhook_inv_def owned_def put_delivery_def)
qed

lemma inv_with_insert: "inv_with (insert i E) d \<Longrightarrow> inv_with E d"
  by (simp add: inv_with_def)

lemma inv_drop: "inv_with {} d \<Longrightarrow> inv_with {} (drop_endpoint i d)"
proof -
  assume "inv_with {} d"
  then have inv: "webhook_inv d" by (simp add: inv_with_def)
  have "dl_webhook_id x \<in> ep_id ` {e \<in> set (wb_endpoints d). ep_id e \<noteq> i}"
    if "x \<in> set (wb_deliveries d)" "dl_webhook_id x \<noteq> i" for x
  proof -
    have "dl_webhook_id x \<in> ep_id ` set (wb_endpoints d)"
      using inv that(1) by (auto simp: webhook_inv_def owned_def)
    then obtain e where "e \<in> set (wb_endpoints d)" "dl_webhook_id x = ep_id e" by blast
    with that(2) show ?thesis by simp
  qed
  then have "owned (drop_endpoint i d)"
    by (auto simp: owned_def drop_endpoint_def remove_rows_def)
  moreover have "list_all delivery_ok (wb_deliveries (drop_endpoint i d))"
    "list_all endpoint_ok (wb_endpoints (drop_endpoint i d))"
    using inv by (simp_all add: webhook_inv_def drop_endpoint_def remove_rows_def list_all_iff)
  moreover have "distinct (map dl_id (wb_deliveries (drop_endpoint i d)))"
    "distinct (map ep_id (wb_endpoints (drop_endpoint i d)))"
    using inv by (simp_all add: webhook_inv_def drop_endpoint_def)
  ultimately show ?thesis by (simp add: inv_with_def webhook_inv_def)
qed

lemma find_endpoint_ok:
  assumes "inv_with E d" and "find_row ep_id i (wb_endpoints d) = Some e"
  shows "endpoint_ok e" "ep_id e = i" "i \<in> ep_id ` set (wb_endpoints d)"
  using assms find_row_Some [OF assms(2)] by (auto simp: inv_with_def webhook_inv_def list_all_iff)

lemma save_endpoint_sound:
  assumes "endpoint_ok e"
  shows "sound (inv_with E) (save_endpoint drv e)"
  unfolding save_endpoint_def
  by (rule sound_repo_save) (use inv_put_endpoint [OF _ assms] inv_with_insert in blast)

lemma save_delivery_sound:
  assumes "delivery_ok x" and "dl_webhook_id x \<in> E"
  shows "sound (inv_with E) (save_delivery drv x)"
  unfolding save_delivery_def
  by (rule sound_repo_save, rule inv_put_delivery) (use assms in \<open>auto simp: inv_with_def\<close>)

lemma reload_sound:
  assumes "\<And>e. endpoint_ok e \<Longrightarrow> ep_id e = i \<Longrightarrow> sound (inv_with E) (f e)"
  shows "sound (inv_with E) (bindP (reload_endpoint i) f)"
proof -
  have eq: "bindP (reload_endpoint i) f = bindP (query (\<lambda>d. find_row ep_id i (wb_endpoints d)))
      (\<lambda>found. case found of Some e \<Rightarrow> f e | None \<Rightarrow> raise (OtherError ''ObjectDeletedError''))"
    by (rule ext) (simp add: reload_endpoint_def find_endpoint_def bindP_def split: option.split)
  show ?thesis unfolding eq
    by (rule sound_query_bind) (use assms find_endpoint_ok in \<open>auto split: option.split\<close>)
qed

lemma count_failure_ok: "endpoint_ok e \<Longrightarrow> endpoint_ok (count_failure e)"
  by (auto simp: endpoint_ok_def count_failure_def Let_def)

lemma bindP_reload:
  "find_row ep_id i (wb_endpoints (pending s)) = Some e \<Longrightarrow> bindP (reload_endpoint i) f s = f e s"
  by (simp add: bindP_def reload_endpoint_def find_endpoint_def)

section \<open>One attempt\<close>

text \<open>The row an attempt leaves, by the transport's answer; a pure function.\<close>

definition attempted :: "time \<Rightarrow> string \<Rightarrow> exn + int \<times> string \<Rightarrow> delivery \<Rightarrow> delivery" where
  "attempted now signature answer x =
     (let x1 = x\<lparr>dl_attempt_count := dl_attempt_count x + 1, dl_signature := Some signature\<rparr>;
          x2 = (case answer of Inl e \<Rightarrow> x1
                | Inr (code, text) \<Rightarrow> x1\<lparr>dl_response_code := Some code,
                    dl_response_body := Some (take max_response_body_chars text)\<rparr>);
          failed = (\<lambda>error.
            if dl_attempt_count x2 < dl_max_attempts x2
            then x2\<lparr>dl_error := Some error, dl_status := Delivery_PENDING,
                   dl_next_attempt_at := Some (now + backoff (dl_attempt_count x2))\<rparr>
            else x2\<lparr>dl_error := Some error, dl_status := Delivery_FAILED,
                   dl_next_attempt_at := None\<rparr>)
      in case answer of
           Inl e \<Rightarrow> failed (exn_str e)
         | Inr (code, text) \<Rightarrow>
             if 200 \<le> code \<and> code \<le> 299
             then x2\<lparr>dl_status := Delivery_SUCCESS, dl_delivered_at := Some now, dl_error := None,
                    dl_next_attempt_at := None\<rparr>
             else failed (''non-2xx status '' @ str_int code))"

definition settle_endpoint :: "delivery_status \<Rightarrow> endpoint \<Rightarrow> endpoint" where
  "settle_endpoint st e = (if st = Delivery_SUCCESS then e\<lparr>ep_failures := 0\<rparr> else count_failure e)"

definition attempt_answer ::
  "(string \<Rightarrow> string \<Rightarrow> string) \<Rightarrow> transport \<Rightarrow> time \<Rightarrow> delivery \<Rightarrow> endpoint \<Rightarrow> nat \<Rightarrow> exn + int \<times> string" where
  "attempt_answer hmac_hex http now x e moment =
     http moment (ep_url e) (build_body x)
       (delivery_headers now (compute_signature hmac_hex (ep_secret e) (build_body x)) x)"

lemma attempted_sel [simp]:
  "dl_id (attempted now sg a x) = dl_id x" "dl_webhook_id (attempted now sg a x) = dl_webhook_id x"
  "dl_attempt_count (attempted now sg a x) = dl_attempt_count x + 1"
  "dl_max_attempts (attempted now sg a x) = dl_max_attempts x"
  by (auto simp: attempted_def Let_def split: sum.split prod.split)

lemma attempted_ok:
  "\<lbrakk>0 \<le> dl_attempt_count x; dl_attempt_count x < dl_max_attempts x\<rbrakk> \<Longrightarrow>
   delivery_ok (attempted now sg a x)"
  by (auto simp: attempted_def delivery_ok_def Let_def split: sum.split prod.split)

text \<open>The code of an attempt, as what it saves.\<close>

lemma attempt_delivery_run:
  fixes x :: delivery and e :: endpoint and hmac_hex :: "string \<Rightarrow> string \<Rightarrow> string"
  defines "sg \<equiv> compute_signature hmac_hex (ep_secret e) (build_body x)"
  shows "attempt_delivery drv hmac_hex http now x e s =
    (let y = attempted now sg (attempt_answer hmac_hex http now x e (calls s)) x
     in seqP (save_delivery drv y)
          (if dl_status y = Delivery_PENDING then ret ()
           else bindP (reload_endpoint (ep_id e))
             (\<lambda>e'. save_endpoint drv (settle_endpoint (dl_status y) e')))
        (s\<lparr>pending := put_delivery (x\<lparr>dl_attempt_count := dl_attempt_count x + 1,
             dl_signature := Some sg\<rparr>) (pending s)\<rparr>))"
proof -
  have ret_right: "seqP m (ret ()) = m" for m :: "(wdb session, unit) prog"
    by (rule ext) (auto simp: seqP_def bindP_def split: prod.split sum.split)
  let ?more = "dl_attempt_count x + 1 < dl_max_attempts x"
  show ?thesis
  proof (cases "attempt_answer hmac_hex http now x e (calls s)")
    case (Inl exn)
    then show ?thesis
      unfolding attempt_answer_def
      by (cases ?more) (simp_all add: sg_def attempt_delivery_def Let_def attempted_def
          record_failure_def settle_endpoint_def ret_right)
  next
    case (Inr answer)
    obtain code body where answer: "answer = (code, body)" by fastforce
    show ?thesis
    proof (cases "200 \<le> code \<and> code \<le> 299")
      case True
      with Inr answer show ?thesis
        unfolding attempt_answer_def
        by (simp add: sg_def attempt_delivery_def Let_def attempted_def record_success_def
            settle_endpoint_def)
    next
      case False
      with Inr answer show ?thesis
        unfolding attempt_answer_def
        by (cases ?more) (simp_all add: sg_def attempt_delivery_def Let_def attempted_def
          record_failure_def settle_endpoint_def ret_right del: de_Morgan_conj)
    qed
  qed
qed

text \<open>A delivery that may be attempted, in both views, is all an attempt needs.\<close>

definition attemptable :: "uuid \<Rightarrow> wdb \<Rightarrow> bool" where
  "attemptable i d \<longleftrightarrow>
     (case find_row dl_id i (wb_deliveries d) of
        Some x \<Rightarrow> dl_attempt_count x < dl_max_attempts x | None \<Rightarrow> True)"

definition ready_for :: "uuid set \<Rightarrow> uuid set \<Rightarrow> wdb \<Rightarrow> bool" where
  "ready_for E ids d \<longleftrightarrow> inv_with E d \<and> (\<forall>i \<in> ids. attemptable i d)"

lemma attemptable_put [simp]:
  "i \<noteq> dl_id x \<Longrightarrow> attemptable i (put_delivery x d) = attemptable i d"
  "attemptable i (put_endpoint e d) = attemptable i d"
  by (simp_all add: attemptable_def put_delivery_def put_endpoint_def)

lemma ready_save_delivery:
  assumes "delivery_ok x" and "dl_webhook_id x \<in> E" and "dl_id x \<notin> ids" and "ready_for E ids d"
  shows "ready_for E ids (put_delivery x d)"
proof -
  have "inv_with E (put_delivery x d)"
    using assms by (intro inv_put_delivery) (auto simp: ready_for_def inv_with_def)
  moreover have "attemptable i (put_delivery x d)" if "i \<in> ids" for i
  proof -
    have "i \<noteq> dl_id x" using that assms(3) by blast
    then show ?thesis using that assms(4) by (simp add: ready_for_def)
  qed
  ultimately show ?thesis by (simp add: ready_for_def)
qed

text \<open>
  Saving the attempted row from a session whose only uncommitted change is that row's
  counters: if the save fails, the committed tables are the old good ones.
\<close>

lemma save_over:
  assumes "\<And>d. Q d \<Longrightarrow> Q (put_delivery y d)" and "dl_id y = dl_id x"
    and "both Q s" and "save_delivery drv y (s\<lparr>pending := put_delivery x (pending s)\<rparr>) = (r, s')"
  shows "case r of Inl e \<Rightarrow> Q (durable s') | Inr u \<Rightarrow> both Q s'"
proof -
  have twice: "put_delivery y (put_delivery x d) = put_delivery y d" for d
    using upsert_twice [of dl_id y x] assms(2) by (simp add: put_delivery_def)
  have "save_delivery drv y (s\<lparr>pending := put_delivery x (pending s)\<rparr>) = save_delivery drv y s"
    by (simp add: save_delivery_def repo_save_def twice)
  then have "save_delivery drv y s = (r, s')" using assms(4) by simp
  moreover have "sound Q (save_delivery drv y)"
    unfolding save_delivery_def by (rule sound_repo_save) (rule assms(1))
  ultimately show ?thesis
    using assms(3) soundD_Inr [of Q _ s _ s'] soundD_Inl [of Q _ s _ s'] by (auto split: sum.split)
qed

lemma settle_sound:
  "sound (ready_for E ids) (bindP (reload_endpoint i) (\<lambda>e'. save_endpoint drv (settle_endpoint st e')))"
proof -
  have eq: "bindP (reload_endpoint i) (\<lambda>e'. save_endpoint drv (settle_endpoint st e')) =
      bindP (query (\<lambda>d. find_row ep_id i (wb_endpoints d)))
      (\<lambda>found. case found of Some e \<Rightarrow> save_endpoint drv (settle_endpoint st e)
         | None \<Rightarrow> raise (OtherError ''ObjectDeletedError''))"
    by (rule ext) (simp add: reload_endpoint_def find_endpoint_def bindP_def split: option.split)
  have ok: "endpoint_ok (settle_endpoint st e)" if "endpoint_ok e" for e
    using count_failure_ok [OF that] that
    by (auto simp: settle_endpoint_def endpoint_ok_def auto_disable_threshold_def)
  have put: "ready_for E ids (put_endpoint e d)" if "endpoint_ok e" "ready_for E ids d" for e d
    using that inv_put_endpoint [of E d e] by (auto simp: ready_for_def inv_with_def)
  have "sound (ready_for E ids) (save_endpoint drv (settle_endpoint st e))" if "endpoint_ok e" for e
    unfolding save_endpoint_def by (rule sound_repo_save) (rule put [OF ok [OF that]])
  then show ?thesis unfolding eq
    by (intro sound_query_bind)
      (auto simp: ready_for_def dest: find_endpoint_ok(1) split: option.split)
qed

lemma attempt_keeps:
  assumes "both (ready_for E ids) s" and "0 \<le> dl_attempt_count x"
    and "dl_attempt_count x < dl_max_attempts x" and "dl_webhook_id x \<in> E" and "dl_id x \<notin> ids"
    and "attempt_delivery drv hmac_hex http now x e s = (r, s')"
  shows "case r of Inl e \<Rightarrow> webhook_inv (durable s') | Inr u \<Rightarrow> both (ready_for E ids) s'"
proof -
  define sg where "sg = compute_signature hmac_hex (ep_secret e) (build_body x)"
  define y where "y = attempted now sg (attempt_answer hmac_hex http now x e (calls s)) x"
  let ?x1 = "x\<lparr>dl_attempt_count := dl_attempt_count x + 1, dl_signature := Some sg\<rparr>"
  have ok: "delivery_ok y" unfolding y_def using assms(2,3) by (rule attempted_ok)
  have put: "ready_for E ids (put_delivery y d)" if "ready_for E ids d" for d
    by (rule ready_save_delivery [OF ok _ _ that]) (use assms(4,5) in \<open>simp_all add: y_def\<close>)
  let ?rest = "if dl_status y = Delivery_PENDING then ret ()
           else bindP (reload_endpoint (ep_id e))
             (\<lambda>e'. save_endpoint drv (settle_endpoint (dl_status y) e'))"
  from assms(6) have run: "seqP (save_delivery drv y) ?rest
      (s\<lparr>pending := put_delivery ?x1 (pending s)\<rparr>) = (r, s')"
    by (simp only: attempt_delivery_run Let_def sg_def y_def)
  have id: "dl_id y = dl_id ?x1" by (simp add: y_def)
  have rest: "sound (ready_for E ids) ?rest" using settle_sound by (auto split: if_split)
  note over = save_over [of "ready_for E ids" y ?x1 s drv, OF put id assms(1)]
  show ?thesis
  proof (cases r)
    case (Inl e')
    from run [unfolded Inl] have "ready_for E ids (durable s')"
    proof (rule seqP_InlE)
      assume "save_delivery drv y (s\<lparr>pending := put_delivery ?x1 (pending s)\<rparr>) = (Inl e', s')"
      from over [OF _ this] show ?thesis by simp
    next
      fix u t assume "save_delivery drv y (s\<lparr>pending := put_delivery ?x1 (pending s)\<rparr>) = (Inr u, t)"
        and second: "?rest t = (Inl e', s')"
      from over [OF _ this(1)] have "both (ready_for E ids) t" by simp
      from soundD_Inl [OF rest this second] show ?thesis .
    qed
    then show ?thesis using Inl by (simp add: ready_for_def inv_with_def)
  next
    case (Inr v)
    from run [unfolded Inr] show ?thesis
    proof (rule seqP_InrE)
      fix u t assume "save_delivery drv y (s\<lparr>pending := put_delivery ?x1 (pending s)\<rparr>) = (Inr u, t)"
        and second: "?rest t = (Inr v, s')"
      from over [OF _ this(1)] have "both (ready_for E ids) t" by simp
      from soundD_Inr [OF rest this second] show ?thesis using Inr by simp
    qed
  qed
qed

section \<open>A drain\<close>

lemma ready_for_mono: "ready_for E' ids' d \<Longrightarrow> E \<subseteq> E' \<Longrightarrow> ids \<subseteq> ids' \<Longrightarrow> ready_for E ids d"
  by (auto simp: ready_for_def inv_with_def)

lemma both_mono: "both P s \<Longrightarrow> (\<And>d. P d \<Longrightarrow> Q d) \<Longrightarrow> both Q s"
  by (simp add: both_def)

text \<open>Both views hold the same owner for a delivery of the session.\<close>

lemma drain_one_keeps:
  assumes "both (ready_for E (insert i ids)) s" and "i \<notin> ids"
    and "\<And>x. x \<in> set (wb_deliveries (pending s)) \<Longrightarrow> dl_webhook_id x \<in> E"
    and "drain_one drv hmac_hex http now n i s = (r, s')"
  shows "case r of Inl e \<Rightarrow> webhook_inv (durable s') | Inr u \<Rightarrow> both (ready_for E ids) s'"
proof (cases "find_row dl_id i (wb_deliveries (pending s))")
  case None
  with assms(1,4) show ?thesis
    by (auto simp: drain_one_def find_delivery_def both_def ready_for_def inv_with_def)
next
  case (Some x)
  note x = find_row_Some [OF Some]
  have weaker: "both (ready_for E ids) s"
    using assms(1) by (rule both_mono) (auto intro: ready_for_mono)
  show ?thesis
  proof (cases "find_row ep_id (dl_webhook_id x) (wb_endpoints (pending s))")
    case None
    with Some assms(4) weaker show ?thesis
      by (auto simp: drain_one_def find_delivery_def find_endpoint_def)
  next
    case ep: (Some e)
    have inv: "webhook_inv (pending s)" and at: "attemptable i (pending s)"
      using assms(1) by (simp_all add: both_def ready_for_def inv_with_def)
    have "delivery_ok x" using inv x by (simp add: webhook_inv_def list_all_iff)
    then have c: "0 \<le> dl_attempt_count x" by (simp add: delivery_ok_def)
    have m: "dl_attempt_count x < dl_max_attempts x" using at Some by (simp add: attemptable_def)
    have w: "dl_webhook_id x \<in> E" "dl_id x \<notin> ids" using x assms(2,3) by auto
    obtain r1 t where run: "attempt_delivery drv hmac_hex http now x e s = (r1, t)" by fastforce
    from attempt_keeps [OF weaker c m w run] assms(4) Some ep run show ?thesis
      by (cases r1) (auto simp: drain_one_def find_delivery_def find_endpoint_def prog_simps)
  qed
qed

text \<open>The owners a session's deliveries have stay within the endpoints it started with.\<close>

lemma owners_put: "dl_webhook_id y \<in> E \<Longrightarrow> dl_webhook_id ` set (wb_deliveries d) \<subseteq> E \<Longrightarrow>
   dl_webhook_id ` set (wb_deliveries (put_delivery y d)) \<subseteq> E"
  using set_upsert [of _ dl_id y "wb_deliveries d"] by (fastforce simp: put_delivery_def)

definition owners_in :: "uuid set \<Rightarrow> wdb \<Rightarrow> bool" where
  "owners_in E d \<longleftrightarrow> dl_webhook_id ` set (wb_deliveries d) \<subseteq> E"

lemma attempt_owners:
  assumes "dl_webhook_id x \<in> E"
  shows "keeps (both (owners_in E)) (attempt_delivery drv hmac_hex http now x e)"
proof (rule keepsI)
  fix s :: "wdb session"
  assume s: "both (owners_in E) s"
  define sg where "sg = compute_signature hmac_hex (ep_secret e) (build_body x)"
  define y where "y = attempted now sg (attempt_answer hmac_hex http now x e (calls s)) x"
  let ?x1 = "x\<lparr>dl_attempt_count := dl_attempt_count x + 1, dl_signature := Some sg\<rparr>"
  have "both (owners_in E) (s\<lparr>pending := put_delivery ?x1 (pending s)\<rparr>)"
    using s owners_put [of ?x1 E "pending s"] assms by (simp add: both_def owners_in_def)
  moreover have "keeps (both (owners_in E)) (seqP (save_delivery drv y)
      (if dl_status y = Delivery_PENDING then ret ()
       else bindP (reload_endpoint (ep_id e)) (\<lambda>e'. save_endpoint drv (settle_endpoint (dl_status y) e'))))"
    using assms owners_put [of y E]
    by (auto simp: save_delivery_def save_endpoint_def reload_endpoint_def find_endpoint_def y_def
        intro!: keeps_seqP keeps_bindP both_repo_save split: option.split)
      (simp_all add: owners_in_def put_endpoint_def)
  ultimately show "both (owners_in E) (snd (attempt_delivery drv hmac_hex http now x e s))"
    unfolding attempt_delivery_run Let_def sg_def y_def keeps_def by blast
qed

lemma drain_one_owners: "both (owners_in E) s \<Longrightarrow> drain_one drv hmac_hex http now n i s = (r, s') \<Longrightarrow>
    both (owners_in E) s'"
proof -
  assume s: "both (owners_in E) s" and run: "drain_one drv hmac_hex http now n i s = (r, s')"
  show ?thesis
  proof (cases "find_row dl_id i (wb_deliveries (pending s))")
    case None
    with run s show ?thesis by (auto simp: drain_one_def find_delivery_def)
  next
    case (Some x)
    then have w: "dl_webhook_id x \<in> E"
      using find_row_Some [OF Some] s by (auto simp: both_def owners_in_def)
    show ?thesis
    proof (cases "find_row ep_id (dl_webhook_id x) (wb_endpoints (pending s))")
      case None
      with run s Some show ?thesis by (auto simp: drain_one_def find_delivery_def find_endpoint_def)
    next
      case ep: (Some e)
      with run Some have "seqP (attempt_delivery drv hmac_hex http now x e) (ret (n + 1)) s = (r, s')"
        by (simp add: drain_one_def find_delivery_def find_endpoint_def)
      with keepsD [OF keeps_seqP [OF attempt_owners [OF w] keeps_ret] s] show ?thesis .
    qed
  qed
qed

lemma drain_loop:
  assumes "both (ready_for E (set is)) s" and "both (owners_in E) s" and "distinct is"
    and "foldP (drain_one drv hmac_hex http now) n is s = (r, s')"
  shows "webhook_inv (durable s')"
  using assms
proof (induction "is" arbitrary: n s)
  case Nil
  then show ?case by (auto simp: both_def ready_for_def inv_with_def)
next
  case (Cons i "is")
  have s: "both (ready_for E (insert i (set is))) s" "i \<notin> set is" using Cons.prems by simp_all
  have owners: "dl_webhook_id x \<in> E" if "x \<in> set (wb_deliveries (pending s))" for x
    using Cons.prems(2) that by (auto simp: both_def owners_in_def)
  obtain r1 t where run: "drain_one drv hmac_hex http now n i s = (r1, t)" by fastforce
  note step = drain_one_keeps [OF s owners run] and own = drain_one_owners [OF Cons.prems(2) run]
  show ?case
  proof (cases r1)
    case (Inl e)
    with Cons.prems(4) run step show ?thesis by (auto simp: prog_simps)
  next
    case (Inr m)
    with Cons.prems(4) run have "foldP (drain_one drv hmac_hex http now) m is t = (r, s')"
      by (simp add: prog_simps)
    with Cons.IH [OF _ own] step Inr Cons.prems(3) show ?thesis by simp
  qed
qed

lemma set_find_due: "x \<in> set (find_due now limit d) \<Longrightarrow> x \<in> set (wb_deliveries d) \<and> is_due now x"
  by (auto simp: find_due_def dest!: in_set_takeD)

lemma distinct_find_due:
  "distinct (map dl_id (wb_deliveries d)) \<Longrightarrow> distinct (map dl_id (find_due now limit d))"
proof -
  assume d: "distinct (map dl_id (wb_deliveries d))"
  let ?key = "\<lambda>x. case dl_next_attempt_at x of Some t \<Rightarrow> t | None \<Rightarrow> 0"
  let ?sorted = "sort_key ?key (filter (is_due now) (wb_deliveries d))"
  have "distinct (map dl_id (filter (is_due now) (wb_deliveries d)))"
    using d by (rule distinct_map_filter)
  moreover have "mset (map dl_id ?sorted) = mset (map dl_id (filter (is_due now) (wb_deliveries d)))"
    by simp
  ultimately have "distinct (map dl_id ?sorted)" using mset_eq_imp_distinct_iff by blast
  then show ?thesis by (simp add: find_due_def take_map [symmetric])
qed

lemma drain_keeps:
  assumes "webhook_inv d"
  shows "webhook_inv (durable (snd (deliver_due drv hmac_hex http now limit (open_session d))))"
proof -
  let ?s = "open_session d" and ?E = "ep_id ` set (wb_endpoints d)"
  let ?is = "map dl_id (find_due now limit d)"
  have "attemptable i d" if "i \<in> set ?is" for i
  proof -
    from that obtain x where x: "x \<in> set (find_due now limit d)" "i = dl_id x" by auto
    with set_find_due have "x \<in> set (wb_deliveries d)" "is_due now x" by blast+
    with assms x(2) find_row_mem [of dl_id "wb_deliveries d" x] show ?thesis
      by (simp add: attemptable_def webhook_inv_def is_due_def)
  qed
  then have "both (ready_for ?E (set ?is)) ?s"
    using assms by (simp add: both_def ready_for_def inv_with_def)
  moreover have "both (owners_in ?E) ?s"
    using assms by (simp add: both_def owners_in_def webhook_inv_def owned_def)
  moreover have "distinct ?is" using assms by (simp add: distinct_find_due webhook_inv_def)
  ultimately show ?thesis
    using drain_loop [of ?E ?is ?s drv hmac_hex http now 0]
    by (simp add: deliver_due_def) (metis prod.collapse)
qed

section \<open>The other operations\<close>

lemma new_delivery_ok: "delivery_ok (new_delivery i ep name payload now)"
  by (simp add: delivery_ok_def new_delivery_def default_max_attempts_def)

lemma webhook_inv_with: "webhook_inv d = inv_with {} d"
  by (simp add: inv_with_def)

lemma create_sound: "sound (inv_with {}) (create_endpoint drv mint gen url types secret desc)"
  unfolding create_endpoint_def Let_def
  by (auto intro!: sound_bindP sound_seqP save_endpoint_sound
      simp: endpoint_ok_def auto_disable_threshold_def)

lemma with_endpoint_sound:
  assumes "\<And>e. endpoint_ok e \<Longrightarrow> ep_id e = i \<Longrightarrow> sound (inv_with E) (f e)"
  shows "sound (inv_with E) (with_endpoint i f)"
  unfolding with_endpoint_def find_endpoint_def
  by (rule sound_query_bind) (use assms find_endpoint_ok in \<open>auto split: option.split\<close>)

lemma update_sound: "sound (inv_with {}) (update_endpoint drv i url types desc)"
  unfolding update_endpoint_def Let_def
  by (rule with_endpoint_sound)
    (auto intro!: sound_seqP save_endpoint_sound simp: endpoint_ok_def split: option.split)

lemma toggle_sound: "sound (inv_with {}) (toggle_endpoint drv i)"
  unfolding toggle_endpoint_def Let_def
  by (rule with_endpoint_sound)
    (auto intro!: sound_seqP save_endpoint_sound simp: endpoint_ok_def auto_disable_threshold_def)

lemma delete_sound: "sound (inv_with {}) (delete_endpoint drv i)"
  unfolding delete_endpoint_def by (rule sound_repo_delete) (rule inv_drop)

lemma enqueue_one_sound:
  assumes "ep_id e \<in> E"
  shows "sound (inv_with E) (enqueue_one drv mint now name payload e)"
  unfolding enqueue_one_def
  by (intro sound_bindP sound_gets sound_seqP save_delivery_sound reload_sound save_endpoint_sound)
    (use assms in \<open>auto simp: new_delivery_ok endpoint_ok_def\<close>, simp add: new_delivery_def)

lemma enqueue_keeps:
  assumes "webhook_inv d"
  shows "webhook_inv (durable (snd (enqueue_for_event drv mint now name payload (open_session d))))"
proof -
  let ?E = "ep_id ` set (wb_endpoints d)"
  let ?body = "seqP (for_each (enqueue_one drv mint now name payload) (find_active_matching name d))
    (ret (length (find_active_matching name d)))"
  have "sound (inv_with ?E) ?body"
    by (intro sound_seqP sound_for_each sound_ret enqueue_one_sound)
      (auto simp: find_active_matching_def)
  moreover have "inv_with ?E d" using assms by (simp add: inv_with_def)
  ultimately have "inv_with ?E (durable (snd (?body (open_session d))))" by (rule sound_durable)
  then show ?thesis by (simp add: enqueue_for_event_def inv_with_def)
qed

lemma test_keeps:
  assumes "webhook_inv d"
  shows "webhook_inv (durable (snd (send_test drv hmac_hex http mint now i (open_session d))))"
proof (cases "find_row ep_id i (wb_endpoints d)")
  case None
  then show ?thesis
    using assms by (simp add: send_test_def with_endpoint_def find_endpoint_def)
next
  case (Some e)
  let ?E = "ep_id ` set (wb_endpoints d)" and ?s = "open_session d"
  let ?payload = "CHR ''{'' # json_string ''message'' @ '': '' @
                json_string ''This is a test webhook delivery.'' @ ''}''"
  let ?x = "new_delivery (mint 0) (ep_id e) ''webhook.test'' ?payload now"
  have e: "ep_id e \<in> ?E" using find_row_Some [OF Some] by auto
  have s: "both (inv_with ?E) ?s" using assms by (simp add: both_def inv_with_def)
  have sv: "sound (inv_with ?E) (save_delivery drv ?x)"
    by (rule save_delivery_sound [OF new_delivery_ok]) (use e in \<open>simp add: new_delivery_def\<close>)
  have run: "send_test drv hmac_hex http mint now i ?s =
      seqP (save_delivery drv ?x) (bindP (reload_endpoint (ep_id e)) (\<lambda>e1.
        seqP (attempt_delivery drv hmac_hex http now ?x e1) (ret (mint 0)))) ?s"
    using Some by (simp add: send_test_def with_endpoint_def find_endpoint_def Let_def)
  obtain r t where save: "save_delivery drv ?x ?s = (r, t)" by fastforce
  show ?thesis
  proof (cases r)
    case (Inl m)
    with soundD_Inl [OF sv s] save run show ?thesis by (simp add: prog_simps inv_with_def)
  next
    case (Inr u)
    with soundD_Inr [OF sv s] save have t: "both (inv_with ?E) t" by simp
    then have t': "both (ready_for ?E {}) t" by (simp add: both_def ready_for_def)
    have c: "0 \<le> dl_attempt_count ?x" "dl_attempt_count ?x < dl_max_attempts ?x"
      "dl_webhook_id ?x \<in> ?E" "dl_id ?x \<notin> {}"
      using e by (simp_all add: new_delivery_def default_max_attempts_def)
    show ?thesis
    proof (cases "find_row ep_id (ep_id e) (wb_endpoints (pending t))")
      case None
      with run save Inr t show ?thesis
        by (simp add: prog_simps reload_endpoint_def find_endpoint_def both_def inv_with_def bindP_def)
    next
      case (Some e1)
      obtain r2 w where att: "attempt_delivery drv hmac_hex http now ?x e1 t = (r2, w)" by fastforce
      have "snd (send_test drv hmac_hex http mint now i ?s) = w"
        using run save Inr Some att
        by (cases r2) (simp_all add: prog_simps reload_endpoint_def find_endpoint_def bindP_def)
      with attempt_keeps [OF t' c att] show ?thesis
        by (cases r2) (auto simp: both_def ready_for_def inv_with_def)
    qed
  qed
qed

section \<open>Properties\<close>

text \<open>Each operation runs in a session of its own, with its own database and transport.\<close>

datatype webhook_op =
    CreateEndpoint "nat \<Rightarrow> uuid" string "string option" "string list" "string option" "string option"
  | UpdateEndpoint uuid "string option" "string list option" "string option"
  | ToggleEndpoint uuid
  | DeleteEndpoint uuid
  | RelayEvent "nat \<Rightarrow> uuid" time string string
  | SendTest transport "nat \<Rightarrow> uuid" time uuid
  | DeliveryJob transport time

fun run_webhook_op ::
  "driver \<Rightarrow> (string \<Rightarrow> string \<Rightarrow> string) \<Rightarrow> webhook_op \<Rightarrow> wdb \<Rightarrow> wdb" where
  "run_webhook_op drv hmac_hex (CreateEndpoint mint gen url types secret desc) d =
     durable (snd (create_endpoint drv mint gen url types secret desc (open_session d)))"
| "run_webhook_op drv hmac_hex (UpdateEndpoint i url types desc) d =
     durable (snd (update_endpoint drv i url types desc (open_session d)))"
| "run_webhook_op drv hmac_hex (ToggleEndpoint i) d =
     durable (snd (toggle_endpoint drv i (open_session d)))"
| "run_webhook_op drv hmac_hex (DeleteEndpoint i) d =
     durable (snd (delete_endpoint drv i (open_session d)))"
| "run_webhook_op drv hmac_hex (RelayEvent mint now name payload) d =
     durable (snd (relay drv mint now name payload (open_session d)))"
| "run_webhook_op drv hmac_hex (SendTest http mint now i) d =
     durable (snd (send_test drv hmac_hex http mint now i (open_session d)))"
| "run_webhook_op drv hmac_hex (DeliveryJob http now) d =
     durable (snd (run_webhook_delivery_job drv hmac_hex http now (open_session d)))"

lemma snd_seqP_return: "snd (seqP m (ret x) s) = snd (m s)"
  by (cases "m s"; cases "fst (m s)") (auto simp: seqP_def bindP_def)

lemma snd_try_return: "snd (try_except m (\<lambda>e. ret x) s) = snd (m s)"
  by (cases "m s"; cases "fst (m s)") (auto simp: try_except_def)

lemma run_webhook_op_inv: "webhook_inv d \<Longrightarrow> webhook_inv (run_webhook_op drv hmac_hex op d)"
  by (cases op) (simp_all add: webhook_inv_with create_sound update_sound toggle_sound delete_sound
      sound_durable relay_def snd_try_return snd_seqP_return enqueue_keeps [unfolded webhook_inv_with]
      test_keeps [unfolded webhook_inv_with] drain_keeps [unfolded webhook_inv_with]
      run_webhook_delivery_job_def)


definition sample_endpoint :: endpoint where
  "sample_endpoint = \<lparr>ep_id = ''w1'', ep_url = ''https://a.example'', ep_secret = ''s'',
     ep_event_types = [''*''], ep_is_active = True, ep_description = None,
     ep_last_triggered_at = None, ep_failures = 4\<rparr>"

definition sample_delivery :: delivery where
  "sample_delivery = (new_delivery ''d1'' ''w1'' ''invoice.paid'' ''{}'' 100)\<lparr>dl_attempt_count := 4\<rparr>"

definition sample_wdb :: wdb where
  "sample_wdb = \<lparr>wb_endpoints = [sample_endpoint], wb_deliveries = [sample_delivery]\<rparr>"

lemma sample_wdb_inv: "webhook_inv sample_wdb"
  by (simp add: webhook_inv_def sample_wdb_def delivery_ok_def endpoint_ok_def owned_def
      sample_endpoint_def sample_delivery_def new_delivery_def default_max_attempts_def
      auto_disable_threshold_def)


text \<open>One attempt on a database that answers: the row it saves, and what is left to do.\<close>

lemma attempted_row:
  defines "ok answer \<equiv> (case answer of Inr (code, body) \<Rightarrow> 200 \<le> code \<and> code \<le> 299 | Inl err \<Rightarrow> False)"
  shows "dl_status (attempted now sg answer x) = (if ok answer then Delivery_SUCCESS
      else if dl_attempt_count x + 1 < dl_max_attempts x then Delivery_PENDING else Delivery_FAILED)"
    and "dl_next_attempt_at (attempted now sg answer x) = (if ok answer then None
      else if dl_attempt_count x + 1 < dl_max_attempts x
      then Some (now + min (30 * 2 ^ nat (dl_attempt_count x + 1)) 21600) else None)"
    and "dl_attempt_count (attempted now sg answer x) = dl_attempt_count x + 1"
  by (auto simp: ok_def attempted_def Let_def backoff_def split: sum.split prod.split)

lemma attempt_answered:
  assumes "\<forall>n. drv n = None"
    and "http 0 (ep_url e) (build_body x)
      (delivery_headers now (compute_signature hmac_hex (ep_secret e) (build_body x)) x) = answer"
  defines "y \<equiv> attempted now (compute_signature hmac_hex (ep_secret e) (build_body x)) answer x"
  shows "\<exists>t. attempt_delivery drv hmac_hex http now x e (open_session d) =
      (if dl_status y = Delivery_PENDING then ret ()
       else bindP (reload_endpoint (ep_id e))
         (\<lambda>e'. save_endpoint drv (settle_endpoint (dl_status y) e'))) t \<and>
    pending t = durable t \<and> find_row dl_id (dl_id x) (wb_deliveries (durable t)) = Some y \<and>
    wb_endpoints (durable t) = wb_endpoints d"
proof -
  have a: "attempt_answer hmac_hex http now x e (calls (open_session d)) = answer"
    using assms(2) by (simp add: attempt_answer_def)
  let ?sg = "compute_signature hmac_hex (ep_secret e) (build_body x)"
  let ?x1 = "x\<lparr>dl_attempt_count := dl_attempt_count x + 1, dl_signature := Some ?sg\<rparr>"
  let ?rest = "if dl_status y = Delivery_PENDING then ret ()
       else bindP (reload_endpoint (ep_id e))
         (\<lambda>e'. save_endpoint drv (settle_endpoint (dl_status y) e'))"
  have id: "dl_id y = dl_id x" by (simp add: y_def)
  obtain t where save: "save_delivery drv y ((open_session d)\<lparr>pending := put_delivery ?x1 d\<rparr>) = (Inr (), t)"
    and t: "durable t = put_delivery y (put_delivery ?x1 d)" "pending t = durable t"
    using assms(1) by (simp add: save_delivery_def repo_save_def)
  have "attempt_delivery drv hmac_hex http now x e (open_session d) =
      seqP (save_delivery drv y) ?rest ((open_session d)\<lparr>pending := put_delivery ?x1 d\<rparr>)"
    unfolding attempt_delivery_run a Let_def y_def by simp
  also have "\<dots> = ?rest t" by (rule seqP_Inr) (rule save)
  finally show ?thesis using t id by (intro exI [of _ t]) (simp add: put_delivery_def)
qed

text \<open>
  One delivery attempt on a database that answers, for a stored endpoint, ends in
  exactly one of three ways, saved durably. On a 2xx answer the delivery is a success and
  the endpoint's failure count is cleared. On any other answer or a transport error the
  attempt is counted, and while attempts are left the delivery stays pending, due again
  after 30 * 2^n seconds but at most six hours, with the endpoint untouched; on the last
  attempt it has failed for good, and the endpoint counts one more failure in a row and is
  disabled at five.
\<close>

theorem delivery_attempt_spec:
  assumes "\<forall>n. drv n = None" and "find_row ep_id (ep_id e) (wb_endpoints d) = Some e"
    and "http 0 (ep_url e) (build_body x)
      (delivery_headers now (compute_signature hmac_hex (ep_secret e) (build_body x)) x) = answer"
  shows "\<exists>s'. attempt_delivery drv hmac_hex http now x e (open_session d) = (Inr (), s') \<and>
    (let n = dl_attempt_count x + 1;
         row = find_row dl_id (dl_id x) (wb_deliveries (durable s'));
         ep = find_row ep_id (ep_id e) (wb_endpoints (durable s'))
     in map_option dl_attempt_count row = Some n \<and>
        (if (case answer of Inr (code, body) \<Rightarrow> 200 \<le> code \<and> code \<le> 299 | Inl err \<Rightarrow> False)
         then map_option dl_status row = Some Delivery_SUCCESS \<and> ep = Some (e\<lparr>ep_failures := 0\<rparr>)
         else if n < dl_max_attempts x
         then map_option dl_status row = Some Delivery_PENDING \<and>
           map_option dl_next_attempt_at row = Some (Some (now + min (30 * 2 ^ nat n) 21600)) \<and>
           ep = Some e
         else map_option dl_status row = Some Delivery_FAILED \<and>
           map_option dl_next_attempt_at row = Some None \<and>
           ep = Some (if 5 \<le> ep_failures e + 1
             then e\<lparr>ep_failures := ep_failures e + 1, ep_is_active := False\<rparr>
             else e\<lparr>ep_failures := ep_failures e + 1\<rparr>)))"
proof -
  define y where "y = attempted now (compute_signature hmac_hex (ep_secret e) (build_body x)) answer x"
  note st = attempted_row [of now "compute_signature hmac_hex (ep_secret e) (build_body x)" answer x,
      folded y_def]
  obtain t where run: "attempt_delivery drv hmac_hex http now x e (open_session d) =
      (if dl_status y = Delivery_PENDING then ret ()
       else bindP (reload_endpoint (ep_id e))
         (\<lambda>e'. save_endpoint drv (settle_endpoint (dl_status y) e'))) t"
    and t: "pending t = durable t"
    and rows: "find_row dl_id (dl_id x) (wb_deliveries (durable t)) = Some y"
      "wb_endpoints (durable t) = wb_endpoints d"
    using attempt_answered [of drv http e x now hmac_hex answer d] assms(1,3)
    unfolding y_def by auto
  show ?thesis
  proof (cases "dl_status y = Delivery_PENDING")
    case True
    with run rows assms(2) st show ?thesis by (simp add: Let_def split: if_splits)
  next
    case False
    define e2 where "e2 = settle_endpoint (dl_status y) e"
    have "ep_id e2 = ep_id e" by (simp add: e2_def settle_endpoint_def count_failure_def Let_def)
    moreover have "attempt_delivery drv hmac_hex http now x e (open_session d) = save_endpoint drv e2 t"
      using run False assms(2) rows t by (simp add: bindP_reload e2_def)
    ultimately obtain s' where s': "attempt_delivery drv hmac_hex http now x e (open_session d) = (Inr (), s')"
      "wb_deliveries (durable s') = wb_deliveries (durable t)"
      "find_row ep_id (ep_id e) (wb_endpoints (durable s')) = Some e2"
      using assms(1) t by (simp add: save_endpoint_def repo_save_def put_endpoint_def)
    then show ?thesis
      using rows st False
      by (simp add: Let_def e2_def settle_endpoint_def count_failure_def auto_disable_threshold_def
          split: if_splits)
  qed
qed

theorem delivery_attempt_spec_witness:
  "\<exists>s'. attempt_delivery (\<lambda>n. None) (\<lambda>k b. ''sig'') (\<lambda>n u b h. Inr (500, ''oops'')) 300
      sample_delivery sample_endpoint (open_session sample_wdb) = (Inr (), s') \<and>
    map_option dl_status (find_row dl_id ''d1'' (wb_deliveries (durable s'))) = Some Delivery_FAILED \<and>
    map_option ep_is_active (find_row ep_id ''w1'' (wb_endpoints (durable s'))) = Some False"
proof -
  have ep: "find_row ep_id (ep_id sample_endpoint) (wb_endpoints sample_wdb) = Some sample_endpoint"
    by (simp add: sample_wdb_def find_row_def)
  have nf: "\<forall>n. (\<lambda>n. None :: exn option) n = None" by simp
  show ?thesis
    using delivery_attempt_spec [where drv = "\<lambda>n. None" and hmac_hex = "\<lambda>k b. ''sig''"
        and http = "\<lambda>n u b h. Inr (500, ''oops'')" and now = 300 and x = sample_delivery, OF nf ep refl]
    by (auto simp: Let_def sample_delivery_def sample_endpoint_def new_delivery_def
        default_max_attempts_def)
qed

text \<open>
  The drain does let exceptions out: when the database refuses to save the outcome of a
  due delivery, \<open>deliver_due\<close> raises, and the deliveries after it are not attempted.
\<close>

theorem drain_raises_on_save_fault:
  assumes "find_due now limit d = x # rest" and "find_row dl_id (dl_id x) (wb_deliveries d) = Some x"
    and "find_row ep_id (dl_webhook_id x) (wb_endpoints d) = Some e" and "drv 0 = Some err"
  shows "\<exists>err' s'. deliver_due drv hmac_hex http now limit (open_session d) = (Inl err', s') \<and> durable s' = d"
proof -
  define sg where "sg = compute_signature hmac_hex (ep_secret e) (build_body x)"
  define y where "y = attempted now sg (attempt_answer hmac_hex http now x e 0) x"
  let ?x1 = "x\<lparr>dl_attempt_count := dl_attempt_count x + 1, dl_signature := Some sg\<rparr>"
  let ?s = "(open_session d)\<lparr>pending := put_delivery ?x1 d\<rparr>"
  obtain err' t where f: "save_commit drv (?s\<lparr>pending := put_delivery y (pending ?s)\<rparr>) = (Inl err', t)"
    "durable t = d"
    using save_commit_fault [of drv "?s\<lparr>pending := put_delivery y (pending ?s)\<rparr>" err] assms(4) by auto
  then have "save_delivery drv y ?s = (Inl err', t)"
    by (simp add: save_delivery_def repo_save_def)
  then have "attempt_delivery drv hmac_hex http now x e (open_session d) = (Inl err', t)"
    by (simp add: attempt_delivery_run Let_def sg_def y_def seqP_Inl)
  then have "drain_one drv hmac_hex http now 0 (dl_id x) (open_session d) = (Inl err', t)"
    using assms(2,3) by (simp add: drain_one_def find_delivery_def find_endpoint_def prog_simps)
  then have "deliver_due drv hmac_hex http now limit (open_session d) = (Inl err', t)"
    using assms(1) by (simp add: deliver_due_def prog_simps)
  with f(2) show ?thesis by blast
qed

theorem drain_raises_on_save_fault_witness:
  "\<exists>err s'. deliver_due (\<lambda>n. Some (DatabaseError ''gone'')) (\<lambda>k b. ''sig'')
      (\<lambda>n u b h. Inr (200, ''ok'')) 300 50 (open_session sample_wdb) = (Inl err, s') \<and>
    durable s' = sample_wdb"
proof -
  have due: "find_due 300 50 sample_wdb = sample_delivery # []"
    by (simp add: find_due_def sample_wdb_def is_due_def sample_delivery_def new_delivery_def
        default_max_attempts_def)
  have row: "find_row dl_id (dl_id sample_delivery) (wb_deliveries sample_wdb) = Some sample_delivery"
    by (simp add: find_row_def sample_wdb_def)
  have ep: "find_row ep_id (dl_webhook_id sample_delivery) (wb_endpoints sample_wdb) = Some sample_endpoint"
    by (simp add: find_row_def sample_wdb_def sample_delivery_def new_delivery_def sample_endpoint_def)
  show ?thesis by (rule drain_raises_on_save_fault [OF due row ep]) simp
qed

text \<open>What follows once the signature is verified.\<close>

lemma verified_webhook:
  assumes "handlers provider = Some h"
    and "wh_verify h payload signature (case secrets provider of Some x \<Rightarrow> x | None \<Rightarrow> []) s = (Inr True, t)"
    and "process_webhook json_loads handlers secrets provider payload signature s = (Inr (True, m), s')"
  shows "\<exists>data ev u. json_loads payload = Inr data \<and> wh_parse h data t = (Inr ev, u) \<and>
    wh_handle h ev u = (Inr (True, m), s')"
  using assms(2,3) unfolding process_webhook_def assms(1) option.case
  by (auto simp: try_except_def bindP_def raise_def
      split: sum.splits prod.splits exn.splits bool.splits)

text \<open>
  An inbound webhook is only ever reported as processed when the provider is known, its
  handler verified the signature with the provider's secret, the payload was parsed and the
  handler reported success; with a signature that does not verify nothing else is run.
\<close>

theorem inbound_webhook_verified:
  "let res = process_webhook json_loads handlers secrets provider payload signature s
   in case handlers provider of
        None \<Rightarrow> res = (Inr (False, Some (''Unknown provider: '' @ provider)), s)
      | Some h \<Rightarrow>
          let v = wh_verify h payload signature
                (case secrets provider of Some x \<Rightarrow> x | None \<Rightarrow> []) s
          in case fst v of
               Inl e \<Rightarrow> res = (Inl e, snd v)
             | Inr False \<Rightarrow> res = (Inr (False, Some ''Invalid signature''), snd v)
             | Inr True \<Rightarrow>
                 (case fst res of
                    Inr (True, m) \<Rightarrow> (\<exists>data ev t. json_loads payload = Inr data \<and>
                      wh_parse h data (snd v) = (Inr ev, t) \<and> wh_handle h ev t = (Inr (True, m), snd res))
                  | _ \<Rightarrow> True)"
proof (cases "handlers provider")
  case None
  then show ?thesis by (simp add: process_webhook_def)
next
  case (Some h)
  let ?secret = "case secrets provider of Some x \<Rightarrow> x | None \<Rightarrow> []"
  obtain r t where v: "wh_verify h payload signature ?secret s = (r, t)" by fastforce
  obtain res s' where run: "process_webhook json_loads handlers secrets provider payload signature s = (res, s')"
    by fastforce
  consider (raised) e where "r = Inl e" | (bad) "r = Inr False" | (good) "r = Inr True"
    by (cases r) auto
  then show ?thesis
  proof cases
    case raised
    with Some v show ?thesis by (simp add: process_webhook_def prog_simps)
  next
    case bad
    with Some v show ?thesis by (simp add: process_webhook_def bindP_def)
  next
    case good
    with Some v run verified_webhook [of handlers provider h payload signature secrets s t json_loads _ s']
    show ?thesis by (auto simp: Let_def split: sum.split prod.split bool.split)
  qed
qed

end
