(* ===== verification/PluginStore.thy ===== *)
theory PluginStore
  imports Rows
begin

text \<open>
  The persisted plugin manifest: \<open>JsonFilePluginConfigStore\<close>
  (\<open>vbwd/plugins/json_config_store.py\<close>) and the interface \<open>PluginConfigStore\<close>
  (\<open>config_store.py\<close>) it provides to the plugin manager. The two files are two dicts, in
  the order of insertion; what the operating system does on a read is a parameter. A
  store is what the reads of the two files give: a file that is missing, or does not parse in five
  attempts, is an empty dict, and the next save then writes a file with nothing but its own entry.
\<close>

section \<open>The files\<close>

type_synonym config = "(string \<times> string) list"

record manifest_entry =
  mf_name :: string
  mf_enabled :: bool
  mf_version :: "string option"
  mf_installed_at :: string
  mf_source :: string

record json_store =
  js_plugins :: "manifest_entry list"
  js_configs :: "(string \<times> config) list"

definition empty_store :: json_store where
  "empty_store = \<lparr>js_plugins = [], js_configs = []\<rparr>"

text \<open>
  \<open>_read_json\<close>: one read yields the parsed file, no file, or a parse error; a parse error is
  retried, five attempts in all, and then counts as an empty file.
\<close>

datatype 'a read_attempt = Parsed 'a | NoFile | Truncated

fun read_attempts :: "'a \<Rightarrow> (nat \<Rightarrow> 'a read_attempt) \<Rightarrow> nat \<Rightarrow> nat \<Rightarrow> 'a" where
  "read_attempts dflt answer attempt 0 = dflt"
| "read_attempts dflt answer attempt (Suc left) =
     (case answer attempt of
        Parsed x \<Rightarrow> x
      | NoFile \<Rightarrow> dflt
      | Truncated \<Rightarrow> read_attempts dflt answer (Suc attempt) left)"

definition read_json :: "'a \<Rightarrow> (nat \<Rightarrow> 'a read_attempt) \<Rightarrow> 'a" where
  "read_json dflt answer = read_attempts dflt answer 0 5"

lemma read_attempts_eq:
  "(\<And>k. k < n \<Longrightarrow> answer (a + k) = Truncated) \<Longrightarrow> n < left \<Longrightarrow> answer (a + n) = Parsed x \<Longrightarrow>
   read_attempts dflt answer a left = x"
proof (induction n arbitrary: a left)
  case 0
  then show ?case by (cases left) simp_all
next
  case (Suc n)
  then obtain left' where left: "left = Suc left'" by (cases left) auto
  have "answer a = Truncated" using Suc.prems(1) [of 0] by simp
  moreover have "read_attempts dflt answer (Suc a) left' = x"
  proof (rule Suc.IH)
    show "answer (Suc a + k) = Truncated" if "k < n" for k
      using Suc.prems(1) [of "Suc k"] that by simp
    show "n < left'" using Suc.prems(2) left by simp
    show "answer (Suc a + n) = Parsed x" using Suc.prems(3) by simp
  qed
  ultimately show ?case using left by simp
qed

section \<open>The operations\<close>

record config_entry =
  ce_plugin_name :: string
  ce_enabled :: bool
  ce_config :: config
  ce_version :: "string option"

definition store_config :: "string \<Rightarrow> json_store \<Rightarrow> config" where
  "store_config name st = (case map_of (js_configs st) name of Some c \<Rightarrow> c | None \<Rightarrow> [])"

definition entry_of :: "json_store \<Rightarrow> manifest_entry \<Rightarrow> config_entry" where
  "entry_of st m = \<lparr>ce_plugin_name = mf_name m, ce_enabled = mf_enabled m,
     ce_config = store_config (mf_name m) st, ce_version = mf_version m\<rparr>"

definition store_get_enabled :: "json_store \<Rightarrow> config_entry list" where
  "store_get_enabled st = map (entry_of st) (filter mf_enabled (js_plugins st))"

definition store_get_all :: "json_store \<Rightarrow> config_entry list" where
  "store_get_all st = map (entry_of st) (js_plugins st)"

definition store_get_by_name :: "string \<Rightarrow> json_store \<Rightarrow> config_entry option" where
  "store_get_by_name name st = map_option (entry_of st) (find_row mf_name name (js_plugins st))"

definition store_save_config :: "string \<Rightarrow> config \<Rightarrow> json_store \<Rightarrow> json_store" where
  "store_save_config name c st = st\<lparr>js_configs := upsert fst (name, c) (js_configs st)\<rparr>"

definition saved_row ::
  "string \<Rightarrow> bool \<Rightarrow> string option \<Rightarrow> manifest_entry option \<Rightarrow> manifest_entry" where
  "saved_row name enabled version old =
     (case old of
        None \<Rightarrow> \<lparr>mf_name = name, mf_enabled = enabled, mf_version = Some (str_or version ''1.0.0''),
           mf_installed_at = [], mf_source = ''local''\<rparr>
      | Some m \<Rightarrow>
          (case version of Some v \<Rightarrow> m\<lparr>mf_version := Some v\<rparr> | None \<Rightarrow> m)\<lparr>mf_enabled := enabled\<rparr>)"

definition store_save ::
  "string \<Rightarrow> bool \<Rightarrow> config option \<Rightarrow> string option \<Rightarrow> json_store \<Rightarrow> json_store" where
  "store_save name enabled c version st =
     (let row = saved_row name enabled version (find_row mf_name name (js_plugins st));
          st1 = st\<lparr>js_plugins := upsert mf_name row (js_plugins st)\<rparr>
      in case c of Some c \<Rightarrow> store_save_config name c st1 | None \<Rightarrow> st1)"

section \<open>The contract of a plugin config store\<close>

text \<open>
  What the plugin manager relies on: a saved status is read back, other plugins' entries
  are untouched, a status-only save keeps the configuration, and the enabled entries are
  exactly the entries whose status is enabled.
\<close>

locale plugin_config_store =
  fixes save :: "string \<Rightarrow> bool \<Rightarrow> config option \<Rightarrow> string option \<Rightarrow> 's \<Rightarrow> 's"
    and get_by_name :: "string \<Rightarrow> 's \<Rightarrow> config_entry option"
    and get_enabled :: "'s \<Rightarrow> config_entry list"
    and wf :: "'s \<Rightarrow> bool"
  assumes save_wf: "wf s \<Longrightarrow> wf (save n b c v s)"
    and save_status: "\<exists>e. get_by_name n (save n b c v s) = Some e \<and> ce_enabled e = b \<and> ce_plugin_name e = n"
    and save_keeps_config: "get_by_name n s = Some e \<Longrightarrow>
      map_option ce_config (get_by_name n (save n b None v s)) = Some (ce_config e)"
    and save_config: "map_option ce_config (get_by_name n (save n b (Some x) v s)) = Some x"
    and save_other: "m \<noteq> n \<Longrightarrow> get_by_name m (save n b c v s) = get_by_name m s"
    and enabled_iff: "wf s \<Longrightarrow> e \<in> set (get_enabled s) \<longleftrightarrow>
      get_by_name (ce_plugin_name e) s = Some e \<and> ce_enabled e"
begin

text \<open>What a restart sees: the last status saved decides whether a plugin is restored.\<close>

lemma last_status_decides:
  assumes "wf s"
  shows "(\<exists>e \<in> set (get_enabled (save n b c v s)). ce_plugin_name e = n) \<longleftrightarrow> b"
  using save_status [of n b c v s] enabled_iff [OF save_wf [OF assms]] by fastforce

lemma others_unaffected:
  assumes "wf s" and "ce_plugin_name e \<noteq> n"
  shows "e \<in> set (get_enabled (save n b c v s)) \<longleftrightarrow> e \<in> set (get_enabled s)"
  using assms enabled_iff [OF assms(1)] enabled_iff [OF save_wf [OF assms(1)]]
  by (simp add: save_other)

lemma enable_then_disable:
  assumes "wf s"
  shows "\<nexists>e. e \<in> set (get_enabled (save n False c' v' (save n True c v s))) \<and> ce_plugin_name e = n"
  using last_status_decides [OF save_wf [OF assms], of n False c' v'] by blast

end

definition store_wf :: "json_store \<Rightarrow> bool" where
  "store_wf st \<longleftrightarrow> distinct (map mf_name (js_plugins st))"

lemma map_of_find_row: "map_of ps k = map_option snd (find_row fst k ps)"
  by (induction ps) (auto simp: find_row_def)

lemma store_config_save_config [simp]:
  "store_config m (store_save_config n c st) = (if m = n then c else store_config m st)"
  by (simp add: store_config_def store_save_config_def map_of_find_row)

lemma store_save_rows:
  "\<exists>m. mf_name m = n \<and> mf_enabled m = b \<and>
     js_plugins (store_save n b c v st) = upsert mf_name m (js_plugins st)"
proof (intro exI conjI)
  let ?m = "saved_row n b v (find_row mf_name n (js_plugins st))"
  show "mf_name ?m = n" "mf_enabled ?m = b"
    by (auto simp: saved_row_def dest: find_row_Some split: option.split)
  show "js_plugins (store_save n b c v st) = upsert mf_name ?m (js_plugins st)"
    by (simp add: store_save_def Let_def store_save_config_def split: option.split)
qed

lemma store_config_save:
  "store_config m (store_save n b c v st) =
     (if m = n then (case c of Some x \<Rightarrow> x | None \<Rightarrow> store_config n st) else store_config m st)"
  by (auto simp: store_save_def Let_def split: option.split) (simp_all add: store_config_def)

lemma get_by_name_save_other:
  assumes "m \<noteq> n"
  shows "store_get_by_name m (store_save n b c v st) = store_get_by_name m st"
proof -
  obtain r where "mf_name r = n" "js_plugins (store_save n b c v st) = upsert mf_name r (js_plugins st)"
    using store_save_rows by blast
  with assms have "find_row mf_name m (js_plugins (store_save n b c v st)) =
      find_row mf_name m (js_plugins st)" by simp
  moreover have "entry_of (store_save n b c v st) r' = entry_of st r'" if "mf_name r' = m" for r'
    using assms that by (simp add: entry_of_def store_config_save)
  ultimately show ?thesis
    by (auto simp: store_get_by_name_def dest: find_row_Some split: option.splits
        intro!: option.map_cong)
qed

lemma get_by_name_save:
  "\<exists>e. store_get_by_name n (store_save n b c v st) = Some e \<and> ce_plugin_name e = n \<and>
     ce_enabled e = b \<and> ce_config e = (case c of Some x \<Rightarrow> x | None \<Rightarrow> store_config n st)"
proof -
  obtain r where r: "mf_name r = n" "mf_enabled r = b"
    "js_plugins (store_save n b c v st) = upsert mf_name r (js_plugins st)"
    using store_save_rows by blast
  then have "find_row mf_name n (js_plugins (store_save n b c v st)) = Some r" by simp
  with r(1,2) show ?thesis by (simp add: store_get_by_name_def entry_of_def store_config_save)
qed

lemma get_enabled_iff:
  assumes "store_wf st"
  shows "e \<in> set (store_get_enabled st) \<longleftrightarrow>
    store_get_by_name (ce_plugin_name e) st = Some e \<and> ce_enabled e"
proof
  assume "e \<in> set (store_get_enabled st)"
  then obtain m where m: "m \<in> set (js_plugins st)" "mf_enabled m" "e = entry_of st m"
    by (auto simp: store_get_enabled_def)
  then have "find_row mf_name (mf_name m) (js_plugins st) = Some m"
    using assms by (simp add: find_row_mem store_wf_def)
  with m show "store_get_by_name (ce_plugin_name e) st = Some e \<and> ce_enabled e"
    by (simp add: store_get_by_name_def entry_of_def)
next
  assume e: "store_get_by_name (ce_plugin_name e) st = Some e \<and> ce_enabled e"
  then obtain m where "find_row mf_name (ce_plugin_name e) (js_plugins st) = Some m"
    "e = entry_of st m" by (auto simp: store_get_by_name_def)
  with e show "e \<in> set (store_get_enabled st)"
    by (auto simp: store_get_enabled_def entry_of_def dest: find_row_Some)
qed

lemma store_wf_save: "store_wf st \<Longrightarrow> store_wf (store_save n b c v st)"
  using store_save_rows [of n b c v st] by (auto simp: store_wf_def)

interpretation json_config_store: plugin_config_store
  store_save store_get_by_name store_get_enabled store_wf
proof
  show "store_wf s \<Longrightarrow> store_wf (store_save n b c v s)" for s n b c v by (rule store_wf_save)
  show "\<exists>e. store_get_by_name n (store_save n b c v s) = Some e \<and> ce_enabled e = b \<and>
      ce_plugin_name e = n" for n b c v s
    using get_by_name_save [of n b c v s] by blast
  show "map_option ce_config (store_get_by_name n (store_save n b None v s)) = Some (ce_config e)"
    if "store_get_by_name n s = Some e" for n b v s e
  proof -
    have "ce_config e = store_config n s"
      using that by (auto simp: store_get_by_name_def entry_of_def dest: find_row_Some)
    then show ?thesis using get_by_name_save [of n b None v s] by auto
  qed
  show "map_option ce_config (store_get_by_name n (store_save n b (Some c) v s)) = Some c"
    for n b c v s using get_by_name_save [of n b "Some c" v s] by auto
  show "m \<noteq> n \<Longrightarrow> store_get_by_name m (store_save n b c v s) = store_get_by_name m s"
    for m n b c v s by (rule get_by_name_save_other)
  show "store_wf s \<Longrightarrow> (e \<in> set (store_get_enabled s)) =
      (store_get_by_name (ce_plugin_name e) s = Some e \<and> ce_enabled e)" for s e
    by (rule get_enabled_iff)
qed

section \<open>Properties\<close>

definition last_saved :: "string \<Rightarrow> (string \<times> bool \<times> config option \<times> string option) list \<Rightarrow> bool" where
  "last_saved n saves =
     (case find (\<lambda>(m, _). m = n) (rev saves) of Some (_, b, _) \<Rightarrow> b | None \<Rightarrow> False)"

text \<open>
  The manifest remembers the last status: after any sequence of saves on an empty store,
  a plugin is among the enabled entries a restart restores exactly when the last save for it
  was an enable.
\<close>

theorem manifest_remembers_last_status:
  "(n \<in> ce_plugin_name ` set (store_get_enabled
      (fold (\<lambda>(m, b, c, v). store_save m b c v) saves empty_store))) = last_saved n saves"
proof -
  let ?run = "\<lambda>saves. fold (\<lambda>(m, b, c, v). store_save m b c v) saves empty_store"
  have "store_wf (?run saves) \<and>
    (n \<in> ce_plugin_name ` set (store_get_enabled (?run saves))) = last_saved n saves"
  proof (induction saves rule: rev_induct)
    case Nil
    show ?case by (simp add: last_saved_def store_get_enabled_def empty_store_def store_wf_def)
  next
    case (snoc x saves)
    obtain m b c v where x: "x = (m, b, c, v)" by (metis prod_cases4)
    have wf: "store_wf (?run saves)" using snoc.IH by blast
    have run: "?run (saves @ [x]) = store_save m b c v (?run saves)" using x by simp
    show ?case
    proof (cases "m = n")
      case True
      then have "last_saved n (saves @ [x]) = b" using x by (simp add: last_saved_def)
      moreover have "(n \<in> ce_plugin_name ` set (store_get_enabled (?run (saves @ [x])))) = b"
        unfolding run True [symmetric]
        using json_config_store.last_status_decides [OF wf, of m b c v] by (auto simp: image_iff)
      ultimately show ?thesis using store_wf_save [OF wf] run by simp
    next
      case False
      have "(n \<in> ce_plugin_name ` set (store_get_enabled (?run (saves @ [x])))) =
          (n \<in> ce_plugin_name ` set (store_get_enabled (?run saves)))"
        unfolding run using json_config_store.others_unaffected [OF wf] False
        by (auto simp: image_iff)
      moreover have "last_saved n (saves @ [x]) = last_saved n saves"
        using x False by (simp add: last_saved_def)
      ultimately show ?thesis using snoc.IH store_wf_save [OF wf] run by simp
    qed
  qed
  then show ?thesis by blast
qed

end
