(* ===== verification/Plugins.thy ===== *)
theory Plugins
  imports PluginStore Enums
begin

text \<open>
  The plugin system: dependency strings (\<open>vbwd/plugins/versioning.py\<close>), the
  \<open>DependencyResolver\<close> (\<open>dependency_resolver.py\<close>), the life cycle of \<open>BasePlugin\<close>
  (\<open>base.py\<close>) and the \<open>PluginManager\<close> (\<open>manager.py\<close>).

  Parameters: the \<open>packaging\<close> library (parsing a specifier, and whether a version is in it);
  what a plugin's own code raises, if anything, in each hook; the licence context; whether a
  write of the manifest fails. A plugin's hooks leave the manager's table alone.
\<close>

section \<open>Dependency strings\<close>

text \<open>
  \<open>SpecifierSet(text)\<close> yields the specifier's canonical text or an \<open>InvalidSpecifier\<close>
  message; \<open>Version(v) in specifier\<close> yields a truth value, or nothing for an invalid version.
\<close>

record packaging =
  pk_specifier :: "string \<Rightarrow> string + string"
  pk_contains :: "string \<Rightarrow> string \<Rightarrow> bool option"

record requirement =
  rq_name :: string
  rq_specifier :: string

definition is_satisfied_by :: "packaging \<Rightarrow> requirement \<Rightarrow> string \<Rightarrow> bool" where
  "is_satisfied_by pk rq version =
     (if rq_specifier rq = [] then True
      else case pk_contains pk (rq_specifier rq) version of Some b \<Rightarrow> b | None \<Rightarrow> False)"

definition is_operator :: "char \<Rightarrow> bool" where
  "is_operator c \<longleftrightarrow> c \<in> set ''<>=!~''"

definition quoted :: "string \<Rightarrow> string" where
  "quoted s = CHR 0x27 # s @ [CHR 0x27]"

definition parse_dependency :: "packaging \<Rightarrow> string \<Rightarrow> exn + requirement" where
  "parse_dependency pk raw =
     (let stripped = str_strip raw
      in if stripped = [] then Inl (ValueError ''Empty dependency specification'')
         else
           let name = (if list_ex is_operator stripped
                       then str_strip (takeWhile (\<lambda>c. \<not> is_operator c) stripped) else stripped);
               spec = (if list_ex is_operator stripped
                       then str_strip (dropWhile (\<lambda>c. \<not> is_operator c) stripped) else [])
           in if name = []
              then Inl (ValueError (''Dependency '' @ quoted raw @ '' is missing a plugin name''))
              else case pk_specifier pk spec of
                Inl m \<Rightarrow> Inl (ValueError (''Invalid version specifier '' @ quoted spec @
                  '' in dependency '' @ quoted raw @ '': '' @ m))
              | Inr canonical \<Rightarrow> Inr \<lparr>rq_name = name, rq_specifier = canonical\<rparr>)"

section \<open>Plugins\<close>

datatype plugin_status =
    Plugin_DISCOVERED | Plugin_REGISTERED | Plugin_INITIALIZED | Plugin_ENABLED | Plugin_DISABLED
  | Plugin_ERROR

fun plugin_status_value :: "plugin_status \<Rightarrow> string" where
  "plugin_status_value Plugin_DISCOVERED = ''discovered''"
| "plugin_status_value Plugin_REGISTERED = ''registered''"
| "plugin_status_value Plugin_INITIALIZED = ''initialized''"
| "plugin_status_value Plugin_ENABLED = ''enabled''"
| "plugin_status_value Plugin_DISABLED = ''disabled''"
| "plugin_status_value Plugin_ERROR = ''error''"

record plugin =
  pl_name :: string
  pl_version :: string
  pl_dependencies :: "string list"
  pl_status :: plugin_status
  pl_config :: config
  pl_requires_license :: bool
  pl_features :: "string list"
  pl_categories :: "string list"

text \<open>What a plugin's own code raises in each hook, when it raises.\<close>

record plugin_code =
  pc_validate :: "exn option"
  pc_on_enable :: "exn option"
  pc_on_disable :: "exn option"
  pc_register :: "exn option"

definition plugin_initialize :: "config \<Rightarrow> plugin \<Rightarrow> plugin" where
  "plugin_initialize c p =
     (if c \<noteq> [] then p\<lparr>pl_config := c, pl_status := Plugin_INITIALIZED\<rparr>
      else p\<lparr>pl_status := Plugin_INITIALIZED\<rparr>)"

definition plugin_enable :: "plugin_code \<Rightarrow> plugin \<Rightarrow> exn + plugin" where
  "plugin_enable code p =
     (if pl_status p \<noteq> Plugin_INITIALIZED
      then Inl (ValueError (''Cannot enable plugin in '' @ plugin_status_value (pl_status p) @ '' state''))
      else case pc_on_enable code of
        Some e \<Rightarrow> Inl e
      | None \<Rightarrow> Inr (p\<lparr>pl_status := Plugin_ENABLED\<rparr>))"

definition plugin_disable :: "plugin_code \<Rightarrow> plugin \<Rightarrow> exn + plugin" where
  "plugin_disable code p =
     (if pl_status p \<noteq> Plugin_ENABLED
      then Inl (ValueError (''Cannot disable plugin in '' @ plugin_status_value (pl_status p) @ '' state''))
      else case pc_on_disable code of
        Some e \<Rightarrow> Inl e
      | None \<Rightarrow> Inr (p\<lparr>pl_status := Plugin_DISABLED\<rparr>))"

section \<open>DependencyResolver\<close>

fun check_dependencies ::
  "packaging \<Rightarrow> (string \<Rightarrow> plugin option) \<Rightarrow> string \<Rightarrow> string list \<Rightarrow> exn + unit" where
  "check_dependencies pk get name [] = Inr ()"
| "check_dependencies pk get name (raw # deps) =
     (case parse_dependency pk raw of
        Inl e \<Rightarrow> Inl e
      | Inr rq \<Rightarrow>
          (case get (rq_name rq) of
             None \<Rightarrow> Inl (PluginDependencyError (''Cannot enable '' @ quoted name @ '': dependency '' @
               quoted (rq_name rq) @ '' is not enabled''))
           | Some d \<Rightarrow>
               if pl_status d \<noteq> Plugin_ENABLED
               then Inl (PluginDependencyError (''Cannot enable '' @ quoted name @ '': dependency '' @
                 quoted (rq_name rq) @ '' is not enabled''))
               else if rq_specifier rq \<noteq> [] \<and> \<not> is_satisfied_by pk rq (pl_version d)
               then Inl (PluginDependencyError (''Cannot enable '' @ quoted name @ '': requires '' @
                 quoted (rq_name rq @ rq_specifier rq) @ '' but '' @ quoted (rq_name rq) @ '' v'' @
                 pl_version d @ '' is installed''))
               else check_dependencies pk get name deps))"

definition resolver_check :: "packaging \<Rightarrow> (string \<Rightarrow> plugin option) \<Rightarrow> plugin \<Rightarrow> exn + unit" where
  "resolver_check pk get p = check_dependencies pk get (pl_name p) (pl_dependencies p)"

record dependency_descriptor =
  dd_name :: string
  dd_specifier :: string
  dd_installed :: "string option"
  dd_satisfied :: bool

definition dependency_satisfied :: "packaging \<Rightarrow> requirement \<Rightarrow> plugin option \<Rightarrow> bool" where
  "dependency_satisfied pk rq d =
     (case d of
        None \<Rightarrow> False
      | Some d \<Rightarrow> pl_status d = Plugin_ENABLED \<and> is_satisfied_by pk rq (pl_version d))"

fun describe_dependencies ::
  "packaging \<Rightarrow> (string \<Rightarrow> plugin option) \<Rightarrow> string list \<Rightarrow> exn + dependency_descriptor list" where
  "describe_dependencies pk get [] = Inr []"
| "describe_dependencies pk get (raw # deps) =
     (case parse_dependency pk raw of
        Inl e \<Rightarrow> Inl e
      | Inr rq \<Rightarrow>
          (case describe_dependencies pk get deps of
             Inl e \<Rightarrow> Inl e
           | Inr ds \<Rightarrow> Inr (\<lparr>dd_name = rq_name rq, dd_specifier = rq_specifier rq,
               dd_installed = map_option pl_version (get (rq_name rq)),
               dd_satisfied = dependency_satisfied pk rq (get (rq_name rq))\<rparr> # ds)))"

definition resolver_describe ::
  "packaging \<Rightarrow> (string \<Rightarrow> plugin option) \<Rightarrow> plugin \<Rightarrow> exn + dependency_descriptor list" where
  "resolver_describe pk get p = describe_dependencies pk get (pl_dependencies p)"

text \<open>
  \<open>enable_order\<close>: the dependencies of a plugin that are in the set; passes over the
  remaining names, a name taken as soon as all its dependencies are resolved; and the names
  of a cycle at the end.
\<close>

definition in_set_dependencies :: "packaging \<Rightarrow> plugin list \<Rightarrow> string \<Rightarrow> string list" where
  "in_set_dependencies pk plugins name =
     (case find (\<lambda>p. pl_name p = name) (rev plugins) of
        None \<Rightarrow> []
      | Some p \<Rightarrow> concat (map (\<lambda>raw. case parse_dependency pk raw of
          Inl e \<Rightarrow> []
        | Inr rq \<Rightarrow> if rq_name rq \<in> set (map pl_name plugins) then [rq_name rq] else [])
          (pl_dependencies p)))"

fun order_pass ::
  "(string \<Rightarrow> string list) \<Rightarrow> string list \<Rightarrow> string list \<Rightarrow> string list \<times> string list" where
  "order_pass deps resolved [] = ([], [])"
| "order_pass deps resolved (n # ns) =
     (if list_all (\<lambda>d. d \<in> set resolved) (deps n)
      then (case order_pass deps (n # resolved) ns of (taken, blocked) \<Rightarrow> (n # taken, blocked))
      else (case order_pass deps resolved ns of (taken, blocked) \<Rightarrow> (taken, n # blocked)))"

lemma order_pass_length:
  "order_pass deps resolved ns = (taken, blocked) \<Longrightarrow> length taken + length blocked = length ns"
  by (induction ns arbitrary: resolved taken blocked) (auto split: if_splits prod.splits)

function order_loop ::
  "(string \<Rightarrow> string list) \<Rightarrow> string list \<Rightarrow> string list \<Rightarrow> string list \<times> string list" where
  "order_loop deps ordered remaining =
     (if remaining = [] then (ordered, [])
      else case order_pass deps ordered remaining of (taken, blocked) \<Rightarrow>
        if taken = [] then (ordered, remaining)
        else order_loop deps (ordered @ taken) blocked)"
  by pat_completeness auto
termination
proof (relation "measure (\<lambda>(deps, ordered, remaining). length remaining)", goal_cases)
  case 1
  show ?case by simp
next
  case (2 deps ordered remaining)
  then show ?case
    using order_pass_length [OF sym [OF 2(2)]] by (simp flip: length_greater_0_conv)
qed

declare order_loop.simps [simp del]

definition enable_order :: "packaging \<Rightarrow> plugin list \<Rightarrow> string list" where
  "enable_order pk plugins =
     (case order_loop (in_set_dependencies pk plugins) [] (map pl_name plugins) of
        (ordered, remaining) \<Rightarrow> ordered @ remaining)"

section \<open>PluginManager\<close>

record manager =
  mg_plugins :: "plugin list"
  mg_store :: json_store
  mg_events :: "(string \<times> string) list"
  mg_wired :: "string list"
  mg_categories :: "string list"

record environment =
  en_packaging :: packaging
  en_code :: "string \<Rightarrow> plugin_code"
  en_license :: "(string \<Rightarrow> bool) option"
  en_has_store :: bool
  en_load_fault :: "exn option"
  en_save_fault :: "exn option"
  en_has_categories :: bool
  en_category_fault :: "string \<Rightarrow> exn option"

definition mgr_get :: "string \<Rightarrow> manager \<Rightarrow> plugin option" where
  "mgr_get name m = find_row pl_name name (mg_plugins m)"

definition mgr_put :: "plugin \<Rightarrow> manager \<Rightarrow> manager" where
  "mgr_put p m = m\<lparr>mg_plugins := upsert pl_name p (mg_plugins m)\<rparr>"

definition get_enabled_plugins :: "manager \<Rightarrow> plugin list" where
  "get_enabled_plugins m = filter (\<lambda>p. pl_status p = Plugin_ENABLED) (mg_plugins m)"

definition dispatch_event :: "string \<Rightarrow> string \<Rightarrow> (manager, unit) prog" where
  "dispatch_event event name = modify (\<lambda>m. m\<lparr>mg_events := mg_events m @ [(event, name)]\<rparr>)"

definition register_plugin :: "plugin \<Rightarrow> (manager, unit) prog" where
  "register_plugin p = bindP (gets (mgr_get (pl_name p))) (\<lambda>found.
     case found of
       Some _ \<Rightarrow> raise (ValueError (''Plugin '' @ quoted (pl_name p) @ '' already registered''))
     | None \<Rightarrow> seqP (modify (mgr_put p)) (dispatch_event ''plugin.registered'' (pl_name p)))"

definition with_plugin :: "string \<Rightarrow> (plugin \<Rightarrow> (manager, 'a) prog) \<Rightarrow> (manager, 'a) prog" where
  "with_plugin name f = bindP (gets (mgr_get name)) (\<lambda>found.
     case found of
       None \<Rightarrow> raise (ValueError (''Plugin '' @ quoted name @ '' not found''))
     | Some p \<Rightarrow> f p)"

definition initialize_plugin :: "string \<Rightarrow> config \<Rightarrow> (manager, unit) prog" where
  "initialize_plugin name c = with_plugin name (\<lambda>p.
     seqP (modify (mgr_put (plugin_initialize c p))) (dispatch_event ''plugin.initialized'' name))"

text \<open>The message of \<open>PluginLicenseError\<close>; strings are bytes, so the dash is three.\<close>

fun list_repr :: "string list \<Rightarrow> string" where
  "list_repr [] = ''[]''"
| "list_repr (n # ns) = CHR ''['' # quoted n @ concat (map (\<lambda>x. '', '' @ quoted x) ns) @ '']''"

definition license_error :: "string \<Rightarrow> string list \<Rightarrow> exn" where
  "license_error name features = PluginLicenseError (''Plugin '' @ quoted name @
     '' requires a licence covering one of '' @ list_repr features @ CHR 0x20 #
     [CHR 0xE2, CHR 0x80, CHR 0x94] @ '' no covering licence key is configured or held, '' @
     ''so it will not be activated. Install a licence key that covers it (Admin > License).'')"

definition check_license :: "environment \<Rightarrow> plugin \<Rightarrow> exn + unit" where
  "check_license env p =
     (if \<not> pl_requires_license p then Inr ()
      else if pl_features p \<noteq> [] \<and>
        (case en_license env of None \<Rightarrow> False | Some has \<Rightarrow> list_ex has (pl_features p))
      then Inr ()
      else Inl (license_error (pl_name p) (pl_features p)))"

definition attempt :: "exn + 'a \<Rightarrow> ('s, 'a) prog" where
  "attempt r = (case r of Inl e \<Rightarrow> raise e | Inr x \<Rightarrow> ret x)"

definition attempt_hook :: "exn option \<Rightarrow> ('s, unit) prog" where
  "attempt_hook h = (case h of Some e \<Rightarrow> raise e | None \<Rightarrow> ret ())"

definition wire_runtime_handlers :: "environment \<Rightarrow> string \<Rightarrow> (manager, unit) prog" where
  "wire_runtime_handlers env name =
     try_except
       (seqP (attempt_hook (pc_register (en_code env name)))
         (modify (\<lambda>m. m\<lparr>mg_wired := mg_wired m @ [name]\<rparr>)))
       (\<lambda>e. ret ())"

definition save_state ::
  "environment \<Rightarrow> string \<Rightarrow> bool \<Rightarrow> config option \<Rightarrow> string \<Rightarrow> (manager, unit) prog" where
  "save_state env name enabled c version =
     whenP (en_has_store env)
       (try_except
          (seqP (attempt_hook (en_save_fault env))
            (modify (\<lambda>m. m\<lparr>mg_store := store_save name enabled c (Some version) (mg_store m)\<rparr>)))
          (\<lambda>e. ret ()))"

definition register_category :: "environment \<Rightarrow> string \<Rightarrow> (manager, unit) prog" where
  "register_category env slug =
     try_except
       (seqP (attempt_hook (en_category_fault env slug))
         (modify (\<lambda>m. if slug \<in> set (mg_categories m) then m
            else m\<lparr>mg_categories := mg_categories m @ [slug]\<rparr>)))
       (\<lambda>e. ret ())"

text \<open>What follows once \<open>plugin.enable()\<close> has returned.\<close>

definition after_enable :: "environment \<Rightarrow> string \<Rightarrow> plugin \<Rightarrow> (manager, unit) prog" where
  "after_enable env name p =
     seqP (wire_runtime_handlers env name)
     (seqP (whenP (en_has_categories env) (for_each (register_category env) (pl_categories p)))
     (seqP (save_state env name True (Some (pl_config p)) (pl_version p))
       (dispatch_event ''plugin.enabled'' name)))"

definition enable_plugin :: "environment \<Rightarrow> string \<Rightarrow> (manager, unit) prog" where
  "enable_plugin env name = with_plugin name (\<lambda>p.
     seqP (attempt_hook (pc_validate (en_code env name)))
     (bindP (gets (\<lambda>m. resolver_check (en_packaging env) (\<lambda>n. mgr_get n m) p)) (\<lambda>checked.
     seqP (attempt checked)
     (seqP (attempt (check_license env p))
     (bindP (attempt (plugin_enable (en_code env name) p)) (\<lambda>p'.
     seqP (modify (mgr_put p')) (after_enable env name p')))))))"

text \<open>The dependents are looked up by the raw dependency string.\<close>

definition dependents :: "string \<Rightarrow> manager \<Rightarrow> plugin list" where
  "dependents name m =
     filter (\<lambda>p. name \<in> set (pl_dependencies p) \<and> pl_status p = Plugin_ENABLED) (mg_plugins m)"

definition disable_plugin :: "environment \<Rightarrow> string \<Rightarrow> (manager, unit) prog" where
  "disable_plugin env name = with_plugin name (\<lambda>p.
     bindP (gets (dependents name)) (\<lambda>deps.
       if deps \<noteq> []
       then raise (ValueError (''Cannot disable: plugins '' @ list_repr (map pl_name deps) @
              '' depend on it''))
       else
         bindP (attempt (plugin_disable (en_code env name) p)) (\<lambda>p'.
           seqP (modify (mgr_put p'))
           (seqP (save_state env name False (Some (pl_config p')) (pl_version p'))
             (dispatch_event ''plugin.disabled'' name)))))"

definition reconcile_version_pin :: "environment \<Rightarrow> plugin \<Rightarrow> config_entry \<Rightarrow> (manager, unit) prog" where
  "reconcile_version_pin env p entry =
     (if \<not> truthy (ce_version entry) \<or> ce_version entry = Some (pl_version p) then ret ()
      else save_state env (pl_name p) True None (pl_version p))"

text \<open>
  One turn of the boot loop. A fatal misconfiguration is let through; of the dependency
  check only a \<open>PluginDependencyError\<close> is caught.
\<close>

definition enable_restored :: "environment \<Rightarrow> string \<Rightarrow> plugin \<Rightarrow> (manager, unit) prog" where
  "enable_restored env name p =
     bindP (gets (\<lambda>m. resolver_check (en_packaging env) (\<lambda>n. mgr_get n m) p)) (\<lambda>checked.
       case checked of
         Inl (PluginDependencyError _) \<Rightarrow> ret ()
       | Inl e \<Rightarrow> raise e
       | Inr _ \<Rightarrow>
           (case check_license env p of
              Inl _ \<Rightarrow> ret ()
            | Inr _ \<Rightarrow>
                try_except
                  (bindP (attempt (plugin_enable (en_code env name) p)) (\<lambda>p'.
                     seqP (modify (mgr_put p')) (wire_runtime_handlers env name)))
                  (\<lambda>e. ret ())))"

definition restore_plugin :: "environment \<Rightarrow> config_entry \<Rightarrow> (manager, unit) prog" where
  "restore_plugin env entry =
     (let name = ce_plugin_name entry in
      bindP (gets (mgr_get name)) (\<lambda>found.
        case found of
          None \<Rightarrow> ret ()
        | Some p \<Rightarrow>
            seqP (attempt_hook (pc_validate (en_code env name)))
            (let p1 = (if ce_config entry \<noteq> [] then plugin_initialize (ce_config entry) p else p) in
             seqP (modify (mgr_put p1))
             (seqP (reconcile_version_pin env p1 entry) (enable_restored env name p1)))))"

text \<open>The persisted-enabled entries whose plugin is registered and initialized.\<close>

definition pending_plugins :: "manager \<Rightarrow> config_entry list \<Rightarrow> plugin list" where
  "pending_plugins m entries =
     concat (map (\<lambda>e. case mgr_get (ce_plugin_name e) m of
       Some p \<Rightarrow> if pl_status p = Plugin_INITIALIZED then [p] else []
     | None \<Rightarrow> []) entries)"

definition load_persisted_state :: "environment \<Rightarrow> (manager, unit) prog" where
  "load_persisted_state env =
     (if \<not> en_has_store env then ret ()
      else case en_load_fault env of
        Some e \<Rightarrow> ret ()
      | None \<Rightarrow>
          bindP (gets (\<lambda>m. (store_get_enabled (mg_store m), m))) (\<lambda>(entries, m).
            for_each
              (\<lambda>name. case find (\<lambda>e. ce_plugin_name e = name) entries of
                 Some entry \<Rightarrow> restore_plugin env entry
               | None \<Rightarrow> ret ())
              (enable_order (en_packaging env) (pending_plugins m entries))))"

end
