(* ===== verification/PluginFlow.thy ===== *)
theory PluginFlow
  imports Plugins "HOL-Library.Multiset"
begin

text \<open>
  What the plugin system guarantees: the order in which a set of plugins is enabled, the
  invariant of the manager's table (every enabled plugin has its dependencies enabled at
  the right version, and its licence), and where the code gives less than it promises.
\<close>

section \<open>The enable order\<close>

text \<open>A list in which every name comes after the names it depends on.\<close>

fun deps_first :: "(string \<Rightarrow> string list) \<Rightarrow> string list \<Rightarrow> string list \<Rightarrow> bool" where
  "deps_first deps seen [] = True"
| "deps_first deps seen (n # ns) =
     (list_all (\<lambda>d. d \<in> set seen) (deps n) \<and> deps_first deps (n # seen) ns)"

lemma deps_first_cong: "set seen = set seen' \<Longrightarrow> deps_first deps seen ns = deps_first deps seen' ns"
  by (induction ns arbitrary: seen seen') (simp_all, metis list.simps(15))

lemma deps_first_append:
  "deps_first deps seen (xs @ ys) \<longleftrightarrow> deps_first deps seen xs \<and> deps_first deps (xs @ seen) ys"
proof (induction xs arbitrary: seen)
  case (Cons x xs)
  have "deps_first deps (xs @ x # seen) ys = deps_first deps (x # xs @ seen) ys"
    by (rule deps_first_cong) auto
  with Cons show ?case by simp
qed simp

lemma order_pass_mset:
  "order_pass deps resolved ns = (taken, blocked) \<Longrightarrow> mset taken + mset blocked = mset ns"
  by (induction ns arbitrary: resolved taken blocked) (auto split: if_splits prod.splits)

lemma order_pass_deps_first:
  "order_pass deps resolved ns = (taken, blocked) \<Longrightarrow> deps_first deps resolved taken"
  by (induction ns arbitrary: resolved taken blocked) (auto split: if_splits prod.splits)

lemma order_pass_stuck:
  "order_pass deps resolved ns = ([], blocked) \<Longrightarrow> n \<in> set ns \<Longrightarrow> \<not> list_all (\<lambda>d. d \<in> set resolved) (deps n)"
  by (induction ns arbitrary: blocked) (auto split: if_splits prod.splits)

text \<open>The loop: what it has ordered, and why it stopped.\<close>

lemma order_loop_spec:
  assumes "order_loop deps ordered remaining = (ord, stuck)" and "deps_first deps [] ordered"
  shows "deps_first deps [] ord \<and> mset ord + mset stuck = mset ordered + mset remaining \<and>
    (\<forall>n \<in> set stuck. \<exists>d \<in> set (deps n). d \<notin> set ord)"
  using assms
proof (induction deps ordered remaining rule: order_loop.induct)
  case (1 deps ordered remaining)
  obtain taken blocked where pass: "order_pass deps ordered remaining = (taken, blocked)"
    by fastforce
  show ?case
  proof (cases "remaining = [] \<or> taken = []")
    case True
    then show ?thesis
      using 1(2,3) pass order_pass_stuck [of deps ordered remaining blocked]
      by (subst (asm) order_loop.simps) (auto split: if_splits simp: list_all_iff)
  next
    case False
    then have loop: "order_loop deps (ordered @ taken) blocked = (ord, stuck)"
      using 1(2) pass by (subst (asm) order_loop.simps) simp
    have "deps_first deps [] (ordered @ taken)"
      using 1(3) order_pass_deps_first [OF pass] by (simp add: deps_first_append)
    from 1(1) [OF _ refl [THEN trans, OF pass [symmetric]] _ loop this] False
    have "deps_first deps [] ord \<and> mset ord + mset stuck = mset (ordered @ taken) + mset blocked \<and>
      (\<forall>n \<in> set stuck. \<exists>d \<in> set (deps n). d \<notin> set ord)"
      using pass by auto
    then show ?thesis using order_pass_mset [OF pass] by (simp add: ac_simps)
  qed
qed

lemma in_set_dependencies_subset:
  "set (in_set_dependencies pk plugins n) \<subseteq> set (map pl_name plugins)"
  by (auto simp: in_set_dependencies_def split: option.splits sum.splits if_splits)

lemma enable_order_spec:
  obtains ordered stuck where "enable_order pk plugins = ordered @ stuck"
    and "mset (ordered @ stuck) = mset (map pl_name plugins)"
    and "deps_first (in_set_dependencies pk plugins) [] ordered"
    and "\<forall>n \<in> set stuck. \<exists>d \<in> set (in_set_dependencies pk plugins n). d \<in> set stuck"
proof -
  let ?deps = "in_set_dependencies pk plugins"
  obtain ordered stuck where loop: "order_loop ?deps [] (map pl_name plugins) = (ordered, stuck)"
    by fastforce
  then have spec: "deps_first ?deps [] ordered"
    "mset ordered + mset stuck = mset (map pl_name plugins)"
    "\<forall>n \<in> set stuck. \<exists>d \<in> set (?deps n). d \<notin> set ordered"
    using order_loop_spec [OF loop] by simp_all
  have names: "set ordered \<union> set stuck = set (map pl_name plugins)"
    using arg_cong [OF spec(2), of set_mset] by simp
  show thesis
  proof (rule that)
    show "enable_order pk plugins = ordered @ stuck" using loop by (simp add: enable_order_def)
    show "\<forall>n \<in> set stuck. \<exists>d \<in> set (?deps n). d \<in> set stuck"
      using spec(3) names in_set_dependencies_subset [of pk plugins] by blast
  qed (use spec in simp_all)
qed

text \<open>
  \<open>enable_order\<close> loses and invents no plugin, whatever the dependencies: it returns the
  given names, first a part in which every plugin comes after all its dependencies in the
  set, then the plugins it could not order, each of which waits for another of them (so
  every plugin of the rest is on, or behind, a cycle).
\<close>

theorem enable_order_partition:
  "\<exists>ordered stuck. enable_order pk plugins = ordered @ stuck \<and>
     mset (ordered @ stuck) = mset (map pl_name plugins) \<and>
     deps_first (in_set_dependencies pk plugins) [] ordered \<and>
     list_all (\<lambda>n. list_ex (\<lambda>d. d \<in> set stuck) (in_set_dependencies pk plugins n)) stuck"
  by (rule enable_order_spec [of pk plugins]) (auto simp: list_all_iff list_ex_iff)

text \<open>
  C36. Without a cycle the order is complete: when the dependencies among the plugins decrease
  some rank, \<open>enable_order\<close> lists every plugin that it is given, as often as it is given, and
  each of them after all its dependencies among them.
\<close>

theorem acyclic_order_complete:
  assumes "list_all (\<lambda>p. list_all (\<lambda>d. rank d < (rank (pl_name p) :: nat))
      (in_set_dependencies pk plugins (pl_name p))) plugins"
  shows "mset (enable_order pk plugins) = mset (map pl_name plugins) \<and>
    deps_first (in_set_dependencies pk plugins) [] (enable_order pk plugins)"
proof -
  let ?deps = "in_set_dependencies pk plugins"
  obtain ordered stuck where spec: "enable_order pk plugins = ordered @ stuck"
    "mset (ordered @ stuck) = mset (map pl_name plugins)"
    "deps_first ?deps [] ordered" "\<forall>n \<in> set stuck. \<exists>d \<in> set (?deps n). d \<in> set stuck"
    by (rule enable_order_spec)
  have lower: "rank d < rank n" if "n \<in> set stuck" "d \<in> set (?deps n)" for n d
  proof -
    have "n \<in> set (map pl_name plugins)"
      using that(1) mset_eq_setD [OF spec(2)] by auto
    with assms that(2) show ?thesis by (auto simp: list_all_iff)
  qed
  have "n \<notin> set stuck" for n
    by (induction n rule: measure_induct_rule [of rank]) (use spec(4) lower in blast)
  then have "stuck = []" by (cases stuck) auto
  with spec show ?thesis by simp
qed

definition tiny_packaging :: packaging where
  "tiny_packaging = \<lparr>pk_specifier = (\<lambda>s. Inr s), pk_contains = (\<lambda>s v. Some (v \<noteq> ''0.1''))\<rparr>"

definition tiny_plugin :: "string \<Rightarrow> string list \<Rightarrow> plugin_status \<Rightarrow> plugin" where
  "tiny_plugin name deps st = \<lparr>pl_name = name, pl_version = ''1.0'', pl_dependencies = deps,
     pl_status = st, pl_config = [], pl_requires_license = False, pl_features = [],
     pl_categories = []\<rparr>"

lemma acyclic_order_complete_witness:
  "mset (enable_order tiny_packaging
      [tiny_plugin ''shop'' [''mail>=1''] Plugin_INITIALIZED, tiny_plugin ''mail'' [] Plugin_INITIALIZED]) =
    mset (map pl_name [tiny_plugin ''shop'' [''mail>=1''] Plugin_INITIALIZED, tiny_plugin ''mail'' [] Plugin_INITIALIZED]) \<and>
   deps_first (in_set_dependencies tiny_packaging
      [tiny_plugin ''shop'' [''mail>=1''] Plugin_INITIALIZED, tiny_plugin ''mail'' [] Plugin_INITIALIZED]) []
    (enable_order tiny_packaging
      [tiny_plugin ''shop'' [''mail>=1''] Plugin_INITIALIZED, tiny_plugin ''mail'' [] Plugin_INITIALIZED])"
  by (rule acyclic_order_complete [where rank = "\<lambda>n. if n = ''shop'' then 1 else 0"]) code_simp

section \<open>The manager's table\<close>

text \<open>An active plugin meets the dependency check and the licence gate.\<close>

definition plugin_backed :: "environment \<Rightarrow> manager \<Rightarrow> plugin \<Rightarrow> bool" where
  "plugin_backed env m p \<longleftrightarrow>
     resolver_check (en_packaging env) (\<lambda>n. mgr_get n m) p = Inr () \<and> check_license env p = Inr ()"

definition plugins_closed :: "environment \<Rightarrow> manager \<Rightarrow> bool" where
  "plugins_closed env m \<longleftrightarrow> list_all (plugin_backed env m) (get_enabled_plugins m)"

lemma plugins_closed_iff: "plugins_closed env m \<longleftrightarrow>
    (\<forall>p \<in> set (mg_plugins m). pl_status p = Plugin_ENABLED \<longrightarrow> plugin_backed env m p)"
  by (auto simp: plugins_closed_def get_enabled_plugins_def list_all_iff)

text \<open>The check is monotone: it looks at enabled plugins and their versions only.\<close>

definition enabled_below :: "(string \<Rightarrow> plugin option) \<Rightarrow> (string \<Rightarrow> plugin option) \<Rightarrow> bool" where
  "enabled_below get get' \<longleftrightarrow> (\<forall>n d. get n = Some d \<longrightarrow> pl_status d = Plugin_ENABLED \<longrightarrow>
     (\<exists>d'. get' n = Some d' \<and> pl_status d' = Plugin_ENABLED \<and> pl_version d' = pl_version d))"

lemma enabled_belowD:
  "enabled_below get get' \<Longrightarrow> get n = Some d \<Longrightarrow> pl_status d = Plugin_ENABLED \<Longrightarrow>
   \<exists>d'. get' n = Some d' \<and> pl_status d' = Plugin_ENABLED \<and> pl_version d' = pl_version d"
  by (simp add: enabled_below_def)

lemma check_mono:
  assumes "enabled_below get get'" and "check_dependencies pk get name deps = Inr ()"
  shows "check_dependencies pk get' name deps = Inr ()"
  using assms(2)
proof (induction deps)
  case (Cons raw deps)
  then obtain rq d where rq: "parse_dependency pk raw = Inr rq" "get (rq_name rq) = Some d"
    "pl_status d = Plugin_ENABLED" "rq_specifier rq \<noteq> [] \<longrightarrow> is_satisfied_by pk rq (pl_version d)"
    "check_dependencies pk get name deps = Inr ()"
    by (auto split: sum.splits option.splits if_splits)
  with enabled_belowD [OF assms(1) rq(2,3)] Cons.IH show ?case by auto
qed simp

lemma backed_mono:
  assumes "enabled_below (\<lambda>n. mgr_get n m) (\<lambda>n. mgr_get n m')" and "plugin_backed env m p"
    and "pl_name p' = pl_name p" "pl_dependencies p' = pl_dependencies p"
      "pl_requires_license p' = pl_requires_license p" "pl_features p' = pl_features p"
  shows "plugin_backed env m' p'"
proof -
  have "check_license env p' = check_license env p"
    using assms(3,5,6) by (simp add: check_license_def split: option.split)
  with assms(2-4) check_mono [OF assms(1)] show ?thesis
    by (simp add: plugin_backed_def resolver_check_def)
qed

lemma mgr_get_put [simp]: "mgr_get n (mgr_put p m) = (if n = pl_name p then Some p else mgr_get n m)"
  by (simp add: mgr_get_def mgr_put_def)

lemma mgr_getD: "mgr_get n m = Some p \<Longrightarrow> p \<in> set (mg_plugins m) \<and> pl_name p = n"
  unfolding mgr_get_def by (rule find_row_Some)

lemma mgr_get_cong: "mg_plugins m' = mg_plugins m \<Longrightarrow> mgr_get n m' = mgr_get n m"
  by (simp add: mgr_get_def)

lemma closed_cong:
  "mg_plugins m' = mg_plugins m \<Longrightarrow> plugins_closed env m' = plugins_closed env m"
  by (simp add: plugins_closed_iff plugin_backed_def mgr_get_def)

text \<open>Enabling a plugin that passes the gates, or rewriting a plugin that is not enabled.\<close>

lemma closed_put:
  assumes "plugins_closed env m"
    and "\<And>d. mgr_get (pl_name p) m = Some d \<Longrightarrow> pl_status d \<noteq> Plugin_ENABLED"
    and "pl_status p = Plugin_ENABLED \<Longrightarrow> plugin_backed env m p"
  shows "plugins_closed env (mgr_put p m)"
  unfolding plugins_closed_iff
proof (intro ballI impI)
  fix q assume q: "q \<in> set (mg_plugins (mgr_put p m))" "pl_status q = Plugin_ENABLED"
  have below: "enabled_below (\<lambda>n. mgr_get n m) (\<lambda>n. mgr_get n (mgr_put p m))"
    using assms(2) by (auto simp: enabled_below_def)
  have "plugin_backed env m q"
    using q assms(1,3) by (auto simp: mgr_put_def plugins_closed_iff dest!: set_upsert)
  with below show "plugin_backed env (mgr_put p m) q" by (rule backed_mono) simp_all
qed

text \<open>The parts of the operations that leave the table of plugins alone.\<close>

definition table_is :: "plugin list \<Rightarrow> manager \<Rightarrow> bool" where
  "table_is ps m \<longleftrightarrow> mg_plugins m = ps \<and> store_wf (mg_store m)"

lemma keeps_table_modify:
  "(\<And>m. mg_plugins (f m) = mg_plugins m) \<Longrightarrow> (\<And>m. store_wf (mg_store m) \<Longrightarrow> store_wf (mg_store (f m)))
   \<Longrightarrow> keeps (table_is ps) (modify f)"
  by (simp add: keeps_def table_is_def)

lemma keeps_attempt_hook [intro]: "keeps P (attempt_hook h)"
  by (auto simp: attempt_hook_def split: option.split)

lemma keeps_attempt [intro]: "keeps P (attempt r)"
  by (auto simp: attempt_def split: sum.split)

lemma keeps_table_wire [intro]: "keeps (table_is ps) (wire_runtime_handlers env name)"
  unfolding wire_runtime_handlers_def by (intro keeps_try keeps_seqP keeps_table_modify) auto

lemma keeps_table_save [intro]: "keeps (table_is ps) (save_state env name b c v)"
  unfolding save_state_def
  by (intro keeps_when keeps_try keeps_seqP keeps_table_modify) (auto simp: store_wf_save)

lemma keeps_table_dispatch [intro]: "keeps (table_is ps) (dispatch_event e name)"
  unfolding dispatch_event_def by (rule keeps_table_modify) auto

lemma keeps_table_category [intro]: "keeps (table_is ps) (register_category env slug)"
  unfolding register_category_def by (intro keeps_try keeps_seqP keeps_table_modify) auto

lemma keeps_table_reconcile [intro]: "keeps (table_is ps) (reconcile_version_pin env p entry)"
  unfolding reconcile_version_pin_def by auto

lemma keeps_table_after_enable [intro]: "keeps (table_is ps) (after_enable env name p)"
  unfolding after_enable_def by (intro keeps_seqP keeps_when keeps_for_each) auto

text \<open>The guards of \<open>enable_plugin\<close>, in the order of the code.\<close>

definition enable_guard :: "environment \<Rightarrow> manager \<Rightarrow> string \<Rightarrow> exn + plugin" where
  "enable_guard env m name =
     (case mgr_get name m of
        None \<Rightarrow> Inl (ValueError (''Plugin '' @ quoted name @ '' not found''))
      | Some p \<Rightarrow>
          (case pc_validate (en_code env name) of
             Some e \<Rightarrow> Inl e
           | None \<Rightarrow>
               (case resolver_check (en_packaging env) (\<lambda>n. mgr_get n m) p of
                  Inl e \<Rightarrow> Inl e
                | Inr _ \<Rightarrow>
                    (case check_license env p of
                       Inl e \<Rightarrow> Inl e
                     | Inr _ \<Rightarrow> plugin_enable (en_code env name) p))))"

lemma enable_plugin_eval:
  "enable_plugin env name m =
     (case enable_guard env m name of
        Inl e \<Rightarrow> (Inl e, m)
      | Inr p \<Rightarrow> after_enable env name p (mgr_put p m))"
  by (simp add: enable_plugin_def with_plugin_def enable_guard_def attempt_def attempt_hook_def
      split: option.split sum.split)

lemma plugin_enable_InrD:
  "plugin_enable code p = Inr p' \<Longrightarrow> pl_status p = Plugin_INITIALIZED \<and>
     p' = p\<lparr>pl_status := Plugin_ENABLED\<rparr>"
  by (auto simp: plugin_enable_def split: if_splits option.splits)

lemma enable_guard_InrD:
  assumes "enable_guard env m name = Inr p'"
  obtains p where "mgr_get name m = Some p" "pl_status p = Plugin_INITIALIZED"
    "p' = p\<lparr>pl_status := Plugin_ENABLED\<rparr>" "pl_name p' = name" "plugin_backed env m p"
  using assms by (auto simp: enable_guard_def plugin_backed_def dest!: plugin_enable_InrD dest: mgr_getD
      split: option.splits sum.splits)

lemma closed_enable_put:
  assumes "plugins_closed env m" and "mgr_get (pl_name p) m = Some p"
    and "pl_status p \<noteq> Plugin_ENABLED" and "plugin_backed env m p"
  shows "plugins_closed env (mgr_put (p\<lparr>pl_status := Plugin_ENABLED\<rparr>) m)"
proof (rule closed_put)
  show "plugin_backed env m (p\<lparr>pl_status := Plugin_ENABLED\<rparr>)"
    by (rule backed_mono [OF _ assms(4)]) (simp_all add: enabled_below_def)
qed (use assms in simp_all)

definition manager_ok :: "environment \<Rightarrow> manager \<Rightarrow> bool" where
  "manager_ok env m \<longleftrightarrow> plugins_closed env m \<and> store_wf (mg_store m)"

lemma manager_ok_table:
  "table_is ps m' \<Longrightarrow> mg_plugins m = ps \<Longrightarrow> plugins_closed env m \<Longrightarrow> manager_ok env m'"
  using closed_cong [of m' m] by (simp add: manager_ok_def table_is_def)

lemma store_mgr_put [simp]: "mg_store (mgr_put p m) = mg_store m"
  by (simp add: mgr_put_def)

lemma table_isI: "store_wf (mg_store m) \<Longrightarrow> table_is (mg_plugins m) m"
  by (simp add: table_is_def)

lemma enable_plugin_ok:
  assumes "manager_ok env m" and "enable_plugin env name m = (r, m')"
  shows "manager_ok env m'"
proof (cases "enable_guard env m name")
  case (Inl e)
  then show ?thesis using assms by (simp add: enable_plugin_eval)
next
  case (Inr p')
  then obtain p where p: "mgr_get name m = Some p" "pl_status p = Plugin_INITIALIZED"
    "p' = p\<lparr>pl_status := Plugin_ENABLED\<rparr>" "pl_name p' = name" "plugin_backed env m p"
    by (rule enable_guard_InrD)
  have closed: "plugins_closed env (mgr_put p' m)"
    unfolding p(3) by (rule closed_enable_put) (use p assms in \<open>simp_all add: manager_ok_def\<close>)
  have run: "after_enable env name p' (mgr_put p' m) = (r, m')"
    using assms(2) Inr by (simp add: enable_plugin_eval)
  have "table_is (mg_plugins (mgr_put p' m)) m'"
    by (rule keepsD [OF keeps_table_after_enable _ run])
      (use assms(1) in \<open>simp add: table_is_def manager_ok_def\<close>)
  then show ?thesis using closed by (auto intro: manager_ok_table)
qed

text \<open>The boot path: one plugin, then the loop over the enable order.\<close>

definition others_same :: "string \<Rightarrow> manager \<Rightarrow> manager \<Rightarrow> bool" where
  "others_same name m m' \<longleftrightarrow> (\<forall>k. k \<noteq> name \<longrightarrow> mgr_get k m' = mgr_get k m)"

lemma enable_restored_ok:
  assumes ok: "manager_ok env m" and p: "mgr_get name m = Some p" "pl_status p \<noteq> Plugin_ENABLED"
    and run: "enable_restored env name p m = (r, m')"
  shows "manager_ok env m' \<and> others_same name m m'"
proof -
  have name: "pl_name p = name" using mgr_getD [OF p(1)] by simp
  show ?thesis
  proof (cases "plugin_backed env m p \<and> (\<exists>p'. plugin_enable (en_code env name) p = Inr p')")
    case False
    then have "m' = m"
      using run by (auto simp: enable_restored_def plugin_backed_def attempt_def try_except_def
          split: sum.splits exn.splits)
    with ok show ?thesis by (simp add: others_same_def)
  next
    case True
    then obtain p' where p': "plugin_enable (en_code env name) p = Inr p'" by blast
    then have p'_eq: "p' = p\<lparr>pl_status := Plugin_ENABLED\<rparr>" using plugin_enable_InrD by blast
    have closed: "plugins_closed env (mgr_put p' m)"
      unfolding p'_eq by (rule closed_enable_put) (use p name True ok in \<open>simp_all add: manager_ok_def\<close>)
    obtain r2 m2 where wire: "wire_runtime_handlers env name (mgr_put p' m) = (r2, m2)" by fastforce
    have table: "table_is (mg_plugins (mgr_put p' m)) m2"
      by (rule keepsD [OF keeps_table_wire _ wire])
        (use ok in \<open>simp add: table_is_def manager_ok_def\<close>)
    have "m' = m2"
      using run True p' wire
      by (auto simp: enable_restored_def plugin_backed_def attempt_def try_except_def
          split: sum.splits prod.splits)
    moreover have "others_same name m m2"
      using table name p'_eq by (simp add: others_same_def table_is_def mgr_get_cong [of m2])
    ultimately show ?thesis using table closed manager_ok_table by blast
  qed
qed

lemma restore_plugin_ok:
  assumes ok: "manager_ok env m"
    and idle: "\<And>p. mgr_get (ce_plugin_name entry) m = Some p \<Longrightarrow> pl_status p \<noteq> Plugin_ENABLED"
    and run: "restore_plugin env entry m = (r, m')"
  shows "manager_ok env m' \<and> others_same (ce_plugin_name entry) m m'"
proof (cases "mgr_get (ce_plugin_name entry) m")
  case None
  with run ok show ?thesis by (simp add: restore_plugin_def others_same_def Let_def)
next
  case (Some p)
  let ?name = "ce_plugin_name entry"
  define p1 where "p1 = (if ce_config entry \<noteq> [] then plugin_initialize (ce_config entry) p else p)"
  have p1: "pl_name p1 = ?name" "pl_status p1 \<noteq> Plugin_ENABLED"
    using mgr_getD [OF Some] idle [OF Some] by (auto simp: p1_def plugin_initialize_def)
  have closed: "plugins_closed env (mgr_put p1 m)"
    by (rule closed_put) (use ok idle p1 in \<open>auto simp: manager_ok_def\<close>)
  obtain r2 m2 where pin: "reconcile_version_pin env p1 entry (mgr_put p1 m) = (r2, m2)" by fastforce
  have table: "table_is (mg_plugins (mgr_put p1 m)) m2"
    by (rule keepsD [OF keeps_table_reconcile _ pin])
      (use ok in \<open>simp add: table_is_def manager_ok_def\<close>)
  have ok2: "manager_ok env m2" by (rule manager_ok_table [OF table refl closed])
  have same2: "mgr_get k m2 = mgr_get k (mgr_put p1 m)" for k
    using table by (simp add: table_is_def mgr_get_def)
  show ?thesis
  proof (cases "pc_validate (en_code env ?name)")
    case (Some e)
    with run \<open>mgr_get ?name m = Some p\<close> ok show ?thesis
      by (simp add: restore_plugin_def attempt_hook_def others_same_def Let_def)
  next
    case None
    then have run2: "seqP (reconcile_version_pin env p1 entry) (enable_restored env ?name p1)
        (mgr_put p1 m) = (r, m')"
      using run Some by (simp add: restore_plugin_def attempt_hook_def Let_def p1_def)
    show ?thesis
    proof (cases r2)
      case (Inl e)
      with run2 pin have "m' = m2" by (simp add: seqP_Inl)
      with ok2 same2 p1 show ?thesis by (simp add: others_same_def)
    next
      case (Inr u)
      with run2 pin have run3: "enable_restored env ?name p1 m2 = (r, m')" by (simp add: seqP_Inr)
      have "manager_ok env m' \<and> others_same ?name m2 m'"
        by (rule enable_restored_ok [OF ok2 _ p1(2) run3]) (simp add: same2 p1)
      with same2 p1 show ?thesis by (simp add: others_same_def)
    qed
  qed
qed

definition restore_named ::
  "environment \<Rightarrow> config_entry list \<Rightarrow> string \<Rightarrow> (manager, unit) prog" where
  "restore_named env entries name =
     (case find (\<lambda>e. ce_plugin_name e = name) entries of
        Some entry \<Rightarrow> restore_plugin env entry
      | None \<Rightarrow> ret ())"

lemma restore_named_ok:
  assumes "manager_ok env m" and "\<And>p. mgr_get name m = Some p \<Longrightarrow> pl_status p \<noteq> Plugin_ENABLED"
    and "restore_named env entries name m = (r, m')"
  shows "manager_ok env m' \<and> others_same name m m'"
proof (cases "find (\<lambda>e. ce_plugin_name e = name) entries")
  case None
  with assms show ?thesis by (simp add: restore_named_def others_same_def)
next
  case (Some entry)
  then have "ce_plugin_name entry = name" by (auto simp: find_Some_iff)
  with restore_plugin_ok [of env m entry r m'] assms Some show ?thesis
    by (simp add: restore_named_def)
qed

lemma boot_loop_ok:
  assumes "manager_ok env m" and "distinct names"
    and "\<And>n p. n \<in> set names \<Longrightarrow> mgr_get n m = Some p \<Longrightarrow> pl_status p \<noteq> Plugin_ENABLED"
    and "for_each (restore_named env entries) names m = (r, m')"
  shows "manager_ok env m'"
  using assms
proof (induction names arbitrary: m)
  case (Cons n ns)
  obtain r1 m1 where first: "restore_named env entries n m = (r1, m1)" by fastforce
  have m1: "manager_ok env m1" "others_same n m m1"
    using restore_named_ok [OF Cons.prems(1) _ first] Cons.prems(3) [of n] by simp_all
  show ?case
  proof (cases r1)
    case (Inl e)
    with first Cons.prems(4) m1 show ?thesis by (simp add: seqP_Inl)
  next
    case (Inr u)
    show ?thesis
    proof (rule Cons.IH [OF m1(1)])
      show "pl_status p \<noteq> Plugin_ENABLED" if "k \<in> set ns" "mgr_get k m1 = Some p" for k p
        using that m1(2) Cons.prems(2) Cons.prems(3) [of k p]
        by (cases "k = n") (simp_all add: others_same_def)
    qed (use Cons.prems first Inr in \<open>auto simp: seqP_Inr\<close>)
  qed
qed simp

lemma pending_plugins_spec:
  assumes "distinct (map ce_plugin_name entries)"
  shows "distinct (map pl_name (pending_plugins m entries)) \<and>
    set (map pl_name (pending_plugins m entries)) \<subseteq> ce_plugin_name ` set entries \<and>
    (\<forall>p \<in> set (pending_plugins m entries). mgr_get (pl_name p) m = Some p \<and> pl_status p = Plugin_INITIALIZED)"
  using assms
proof (induction entries)
  case (Cons e entries)
  consider (skip) "pending_plugins m (e # entries) = pending_plugins m entries"
    | (take) p where "pending_plugins m (e # entries) = p # pending_plugins m entries"
      "mgr_get (ce_plugin_name e) m = Some p" "pl_status p = Plugin_INITIALIZED"
    by (cases "\<exists>p. mgr_get (ce_plugin_name e) m = Some p \<and> pl_status p = Plugin_INITIALIZED")
      (auto simp: pending_plugins_def split: option.split)
  then show ?case
  proof cases
    case skip
    with Cons show ?thesis by auto
  next
    case take
    moreover have "pl_name p = ce_plugin_name e" using take(2) mgr_getD by blast
    ultimately show ?thesis using Cons by auto
  qed
qed (simp add: pending_plugins_def)

lemma enabled_entries_distinct:
  "store_wf st \<Longrightarrow> distinct (map ce_plugin_name (store_get_enabled st))"
  by (simp add: store_wf_def store_get_enabled_def entry_of_def o_def distinct_map_filter)

lemma load_persisted_state_ok:
  assumes "manager_ok env m" and "load_persisted_state env m = (r, m')"
  shows "manager_ok env m'"
proof (cases "en_has_store env \<and> en_load_fault env = None")
  case False
  with assms show ?thesis by (auto simp: load_persisted_state_def split: if_splits option.splits)
next
  case True
  let ?entries = "store_get_enabled (mg_store m)"
  let ?pending = "pending_plugins m ?entries"
  have run: "for_each (restore_named env ?entries) (enable_order (en_packaging env) ?pending) m = (r, m')"
    using assms(2) True by (simp add: load_persisted_state_def restore_named_def [abs_def])
  have distinct: "distinct (map ce_plugin_name ?entries)"
    using assms(1) by (simp add: manager_ok_def enabled_entries_distinct)
  note pending = pending_plugins_spec [OF distinct, of m]
  have order: "mset (enable_order (en_packaging env) ?pending) = mset (map pl_name ?pending)"
    by (rule enable_order_spec [of "en_packaging env" ?pending]) simp
  show ?thesis
  proof (rule boot_loop_ok [OF assms(1) _ _ run])
    show "distinct (enable_order (en_packaging env) ?pending)"
      using pending mset_eq_imp_distinct_iff [OF order] by blast
    show "pl_status p \<noteq> Plugin_ENABLED"
      if "n \<in> set (enable_order (en_packaging env) ?pending)" "mgr_get n m = Some p" for n p
      using that mset_eq_setD [OF order] pending by auto
  qed
qed

text \<open>Disabling: the check by raw name suffices when dependencies are bare names.\<close>

definition named_plainly :: "packaging \<Rightarrow> string \<Rightarrow> string list \<Rightarrow> bool" where
  "named_plainly pk name deps \<longleftrightarrow> list_all (\<lambda>raw. case parse_dependency pk raw of
     Inl _ \<Rightarrow> True | Inr rq \<Rightarrow> rq_name rq \<noteq> name \<or> raw = name) deps"

definition plain_dependents :: "environment \<Rightarrow> string \<Rightarrow> manager \<Rightarrow> bool" where
  "plain_dependents env name m \<longleftrightarrow> list_all (\<lambda>p. named_plainly (en_packaging env) name (pl_dependencies p))
     (get_enabled_plugins m)"

lemma check_cong:
  assumes "named_plainly pk name deps" and "name \<notin> set deps"
    and "\<And>n. n \<noteq> name \<Longrightarrow> get' n = get n"
  shows "check_dependencies pk get' who deps = check_dependencies pk get who deps"
  using assms(1,2)
proof (induction deps)
  case (Cons raw deps)
  then show ?case
    using assms(3) by (auto simp: named_plainly_def split: sum.splits option.split)
qed simp

lemma closed_disable_put:
  assumes "plugins_closed env m" and "plain_dependents env (pl_name p) m"
    and "dependents (pl_name p) m = []" and "pl_status p \<noteq> Plugin_ENABLED"
  shows "plugins_closed env (mgr_put p m)"
  unfolding plugins_closed_iff
proof (intro ballI impI)
  fix q assume "q \<in> set (mg_plugins (mgr_put p m))" "pl_status q = Plugin_ENABLED"
  with assms(4) have q: "q \<in> set (mg_plugins m)" "pl_status q = Plugin_ENABLED"
    by (auto simp: mgr_put_def dest!: set_upsert)
  then have "named_plainly (en_packaging env) (pl_name p) (pl_dependencies q)"
    "pl_name p \<notin> set (pl_dependencies q)"
    using assms(2,3) by (auto simp: plain_dependents_def get_enabled_plugins_def list_all_iff
        dependents_def filter_empty_conv)
  from check_cong [OF this, of "\<lambda>n. mgr_get n (mgr_put p m)" "\<lambda>n. mgr_get n m"] q assms(1)
  show "plugin_backed env (mgr_put p m) q"
    by (simp add: plugin_backed_def resolver_check_def plugins_closed_iff)
qed

lemma disable_plugin_ok:
  assumes ok: "manager_ok env m" and plain: "plain_dependents env name m"
    and run: "disable_plugin env name m = (r, m')"
  shows "manager_ok env m'"
proof (cases "\<exists>p p'. mgr_get name m = Some p \<and> dependents name m = [] \<and>
    plugin_disable (en_code env name) p = Inr p'")
  case False
  then have "m' = m"
    using run by (auto simp: disable_plugin_def with_plugin_def attempt_def bindP_def
        split: option.splits if_splits sum.splits)
  with ok show ?thesis by simp
next
  case True
  then obtain p p' where p: "mgr_get name m = Some p" "dependents name m = []"
    "plugin_disable (en_code env name) p = Inr p'" by blast
  have p': "pl_name p' = name" "pl_status p' \<noteq> Plugin_ENABLED"
    using p(1,3) by (auto simp: plugin_disable_def dest: mgr_getD split: if_splits option.splits)
  have closed: "plugins_closed env (mgr_put p' m)"
    by (rule closed_disable_put) (use ok plain p p' in \<open>simp_all add: manager_ok_def\<close>)
  have run2: "seqP (save_state env name False (Some (pl_config p')) (pl_version p'))
      (dispatch_event ''plugin.disabled'' name) (mgr_put p' m) = (r, m')"
    using run p by (simp add: disable_plugin_def with_plugin_def attempt_def)
  have "keeps (table_is ps) (seqP (save_state env name False (Some (pl_config p')) (pl_version p'))
      (dispatch_event ''plugin.disabled'' name))" for ps by auto
  from keepsD [OF this _ run2, of "mg_plugins (mgr_put p' m)"] ok
  have "table_is (mg_plugins (mgr_put p' m)) m'" by (simp add: table_is_def manager_ok_def)
  then show ?thesis using closed by (auto intro: manager_ok_table)
qed

lemma put_idle_ok:
  assumes "manager_ok env m" and "pl_status p \<noteq> Plugin_ENABLED"
    and "\<And>d. mgr_get (pl_name p) m = Some d \<Longrightarrow> pl_status d \<noteq> Plugin_ENABLED"
  shows "manager_ok env (mgr_put p m)"
  using closed_put [of env m p] assms by (simp add: manager_ok_def)

lemma dispatch_event_ok:
  assumes "manager_ok env m" and "dispatch_event e n m = (r, m')"
  shows "manager_ok env m'"
proof -
  have "m' = m\<lparr>mg_events := mg_events m @ [(e, n)]\<rparr>" using assms(2) by (simp add: dispatch_event_def)
  with assms(1) closed_cong [of m' m env] show ?thesis by (simp add: manager_ok_def)
qed

lemma register_plugin_ok:
  assumes "manager_ok env m" and "pl_status p \<noteq> Plugin_ENABLED" and "register_plugin p m = (r, m')"
  shows "manager_ok env m'"
  using assms dispatch_event_ok [OF put_idle_ok [OF assms(1,2)]]
  by (auto simp: register_plugin_def split: option.splits)

lemma initialize_plugin_ok:
  assumes "manager_ok env m" and "\<And>p. mgr_get name m = Some p \<Longrightarrow> pl_status p \<noteq> Plugin_ENABLED"
    and "initialize_plugin name c m = (r, m')"
  shows "manager_ok env m'"
proof (cases "mgr_get name m")
  case None
  with assms show ?thesis by (simp add: initialize_plugin_def with_plugin_def)
next
  case (Some p)
  have p: "pl_name (plugin_initialize c p) = name" "pl_status (plugin_initialize c p) \<noteq> Plugin_ENABLED"
    using mgr_getD [OF Some] by (simp_all add: plugin_initialize_def)
  have "manager_ok env (mgr_put (plugin_initialize c p) m)"
    by (rule put_idle_ok) (use assms(1,2) p in simp_all)
  moreover have "dispatch_event ''plugin.initialized'' name (mgr_put (plugin_initialize c p) m) = (r, m')"
    using assms(3) Some by (simp add: initialize_plugin_def with_plugin_def)
  ultimately show ?thesis by (rule dispatch_event_ok)
qed

section \<open>Reachable tables\<close>

text \<open>
  The manager's operations in any order, with any outcome. \<open>discover\<close> registers and
  initializes a fresh instance, which is not enabled; a plugin is disabled where the enabled
  plugins name it without a version.
\<close>

inductive manager_step :: "environment \<Rightarrow> manager \<Rightarrow> manager \<Rightarrow> bool" for env where
  step_register: "pl_status p \<noteq> Plugin_ENABLED \<Longrightarrow> register_plugin p m = (r, m') \<Longrightarrow>
     manager_step env m m'"
| step_initialize: "(\<And>p. mgr_get name m = Some p \<Longrightarrow> pl_status p \<noteq> Plugin_ENABLED) \<Longrightarrow>
     initialize_plugin name c m = (r, m') \<Longrightarrow> manager_step env m m'"
| step_enable: "enable_plugin env name m = (r, m') \<Longrightarrow> manager_step env m m'"
| step_boot: "load_persisted_state env m = (r, m') \<Longrightarrow> manager_step env m m'"
| step_disable: "plain_dependents env name m \<Longrightarrow> disable_plugin env name m = (r, m') \<Longrightarrow>
     manager_step env m m'"

lemma manager_step_ok: "manager_step env m m' \<Longrightarrow> manager_ok env m \<Longrightarrow> manager_ok env m'"
  by (induction rule: manager_step.induct)
    (auto intro: register_plugin_ok initialize_plugin_ok enable_plugin_ok load_persisted_state_ok
      disable_plugin_ok)

definition fresh_manager :: manager where
  "fresh_manager = \<lparr>mg_plugins = [], mg_store = empty_store, mg_events = [], mg_wired = [],
     mg_categories = []\<rparr>"


definition tiny_env :: environment where
  "tiny_env = \<lparr>en_packaging = tiny_packaging,
     en_code = (\<lambda>n. \<lparr>pc_validate = None, pc_on_enable = None, pc_on_disable = None, pc_register = None\<rparr>),
     en_license = None, en_has_store = True, en_load_fault = None, en_save_fault = None,
     en_has_categories = True, en_category_fault = (\<lambda>s. None)\<rparr>"

definition tiny_manifest :: json_store where
  "tiny_manifest = store_save ''mail'' True None None (store_save ''shop'' True None None empty_store)"

definition tiny_registered :: manager where
  "tiny_registered = snd (register_plugin (tiny_plugin ''mail'' [] Plugin_INITIALIZED)
     (snd (register_plugin (tiny_plugin ''shop'' [''mail>=1''] Plugin_INITIALIZED)
        (fresh_manager\<lparr>mg_store := tiny_manifest\<rparr>))))"

definition tiny_booted :: manager where
  "tiny_booted = snd (load_persisted_state tiny_env tiny_registered)"


section \<open>What enabling and disabling do\<close>

text \<open>Programs that return, and leave the table, the manifest and the event log alone.\<close>

definition side_job :: "(manager, unit) prog \<Rightarrow> bool" where
  "side_job p \<longleftrightarrow> (\<forall>m. \<exists>m'. p m = (Inr (), m') \<and> mg_plugins m' = mg_plugins m \<and>
     mg_store m' = mg_store m \<and> mg_events m' = mg_events m)"

lemma side_jobE:
  assumes "side_job p"
  obtains m' where "p m = (Inr (), m')" "mg_plugins m' = mg_plugins m" "mg_store m' = mg_store m"
    "mg_events m' = mg_events m"
  using assms unfolding side_job_def by blast

lemma side_job_ret: "side_job (ret ())"
  by (simp add: side_job_def)

lemma side_job_seq:
  assumes "side_job p" and "side_job q"
  shows "side_job (seqP p q)"
  unfolding side_job_def
proof
  fix m
  obtain m1 where m1: "p m = (Inr (), m1)" "mg_plugins m1 = mg_plugins m"
    "mg_store m1 = mg_store m" "mg_events m1 = mg_events m"
    using assms(1) by (rule side_jobE)
  obtain m2 where "q m1 = (Inr (), m2)" "mg_plugins m2 = mg_plugins m1"
    "mg_store m2 = mg_store m1" "mg_events m2 = mg_events m1"
    using assms(2) by (rule side_jobE)
  with m1 show "\<exists>m'. seqP p q m = (Inr (), m') \<and> mg_plugins m' = mg_plugins m \<and>
      mg_store m' = mg_store m \<and> mg_events m' = mg_events m"
    by (simp add: seqP_Inr)
qed

lemma side_job_wire: "side_job (wire_runtime_handlers env name)"
  by (auto simp: side_job_def wire_runtime_handlers_def try_except_def attempt_hook_def
      split: option.split)

lemma side_job_category: "side_job (register_category env slug)"
  by (auto simp: side_job_def register_category_def try_except_def attempt_hook_def
      split: option.split)

lemma side_job_categories: "side_job (for_each (register_category env) slugs)"
  by (induction slugs) (simp_all add: side_job_ret side_job_seq side_job_category del: ret_eval)

definition save_works :: "environment \<Rightarrow> bool" where
  "save_works env \<longleftrightarrow> en_has_store env \<and> en_save_fault env = None"

lemma save_state_eval:
  "save_state env name b c v m =
     (Inr (), if save_works env
        then m\<lparr>mg_store := store_save name b c (Some v) (mg_store m)\<rparr> else m)"
  by (simp add: save_state_def save_works_def whenP_def try_except_def attempt_hook_def
      split: option.split)

lemma after_enable_eval:
  "\<exists>m'. after_enable env name p m = (Inr (), m') \<and> mg_plugins m' = mg_plugins m \<and>
     mg_events m' = mg_events m @ [(''plugin.enabled'', name)] \<and>
     mg_store m' = (if save_works env
       then store_save name True (Some (pl_config p)) (Some (pl_version p)) (mg_store m)
       else mg_store m)"
proof -
  obtain m1 where m1: "wire_runtime_handlers env name m = (Inr (), m1)"
    "mg_plugins m1 = mg_plugins m" "mg_store m1 = mg_store m" "mg_events m1 = mg_events m"
    using side_job_wire by (rule side_jobE)
  have "side_job (whenP (en_has_categories env) (for_each (register_category env) (pl_categories p)))"
    by (simp add: whenP_def side_job_categories side_job_ret del: ret_eval)
  then obtain m2 where "whenP (en_has_categories env)
      (for_each (register_category env) (pl_categories p)) m1 = (Inr (), m2)"
    "mg_plugins m2 = mg_plugins m1" "mg_store m2 = mg_store m1" "mg_events m2 = mg_events m1"
    by (rule side_jobE)
  with m1 show ?thesis
    by (simp add: after_enable_def seqP_Inr save_state_eval dispatch_event_def seqP_def bindP_def)
qed

text \<open>
  The gate of \<open>enable_plugin\<close>: the guards run in the order of the code (registered,
  environment, dependencies, licence, state, the plugin's own hook); the first that fails is
  the exception raised, and nothing has changed. When all pass, the call returns: the plugin
  is enabled in the table, no other plugin is touched, and exactly one event is announced,
  whatever the handlers, the categories or the manifest write do.
\<close>

theorem enable_plugin_gate:
  "case enable_guard env m name of
     Inl e \<Rightarrow> enable_plugin env name m = (Inl e, m)
   | Inr p \<Rightarrow> \<exists>m'. enable_plugin env name m = (Inr (), m') \<and> pl_status p = Plugin_ENABLED \<and>
       mg_plugins m' = upsert pl_name p (mg_plugins m) \<and>
       mg_events m' = mg_events m @ [(''plugin.enabled'', name)]"
proof (cases "enable_guard env m name")
  case (Inl e)
  then show ?thesis by (simp add: enable_plugin_eval)
next
  case (Inr p)
  then have "pl_status p = Plugin_ENABLED" by (auto elim: enable_guard_InrD)
  with Inr after_enable_eval [of env name p "mgr_put p m"] show ?thesis
    by (auto simp: enable_plugin_eval mgr_put_def)
qed

lemma enable_store:
  assumes "save_works env" and "enable_plugin env name m = (Inr (), m')"
  shows "\<exists>c v. mg_store m' = store_save name True c v (mg_store m)"
proof (cases "enable_guard env m name")
  case (Inl e)
  with assms show ?thesis by (simp add: enable_plugin_eval)
next
  case (Inr p)
  with assms after_enable_eval [of env name p "mgr_put p m"] show ?thesis
    by (auto simp: enable_plugin_eval)
qed

lemma disable_store:
  assumes "save_works env" and "disable_plugin env name m = (Inr (), m')"
  shows "\<exists>c v. mg_store m' = store_save name False c v (mg_store m)"
  using assms by (auto simp: disable_plugin_def with_plugin_def attempt_def seqP_def bindP_def
      save_state_eval dispatch_event_def split: option.splits if_splits sum.splits) blast

text \<open>
  C37. What the manager does is what the next boot finds: where the manifest can be written, after
  an enable (or a disable) that returned, the plugin is (or is not) among the persisted
  entries that \<open>load_persisted_state\<close> restores, and no other plugin's entry has come or gone.
\<close>

theorem manifest_follows_manager:
  assumes "store_wf (mg_store m)" and "save_works env"
    and "(if on then enable_plugin env name m else disable_plugin env name m) = (Inr (), m')"
  shows "(name \<in> ce_plugin_name ` set (store_get_enabled (mg_store m'))) = on \<and>
    ce_plugin_name ` set (store_get_enabled (mg_store m')) - {name} =
      ce_plugin_name ` set (store_get_enabled (mg_store m)) - {name}"
proof -
  obtain c v where st: "mg_store m' = store_save name on c v (mg_store m)"
    using assms(2,3) enable_store [of env name m m'] disable_store [of env name m m']
    by (cases on) auto
  have "(name \<in> ce_plugin_name ` set (store_get_enabled (mg_store m'))) = on"
    unfolding st using json_config_store.last_status_decides [OF assms(1), of name on c v]
    by (auto simp: image_iff)
  moreover have "ce_plugin_name ` set (store_get_enabled (mg_store m')) - {name} =
      ce_plugin_name ` set (store_get_enabled (mg_store m)) - {name}"
    unfolding st using json_config_store.others_unaffected [OF assms(1), of _ name on c v]
    by (auto simp: image_iff)
  ultimately show ?thesis ..
qed

lemma manifest_follows_manager_witness:
  "''mail'' \<in> ce_plugin_name ` set (store_get_enabled (mg_store
      (snd (enable_plugin tiny_env ''mail'' tiny_registered))))"
proof -
  have "(''mail'' \<in> ce_plugin_name ` set (store_get_enabled (mg_store
      (snd (enable_plugin tiny_env ''mail'' tiny_registered))))) = True \<and>
    ce_plugin_name ` set (store_get_enabled (mg_store
      (snd (enable_plugin tiny_env ''mail'' tiny_registered)))) - {''mail''} =
    ce_plugin_name ` set (store_get_enabled (mg_store tiny_registered)) - {''mail''}"
    by (rule manifest_follows_manager [where env = tiny_env and m = tiny_registered]) code_simp+
  then show ?thesis by simp
qed

section \<open>Where the promises stop\<close>

lemma check_missing_dep:
  assumes "raw \<in> set deps" and "parse_dependency pk raw = Inr rq"
    and "get (rq_name rq) = Some d" and "pl_status d \<noteq> Plugin_ENABLED"
  shows "check_dependencies pk get who deps \<noteq> Inr ()"
  using assms by (induction deps) (auto split: sum.splits option.splits if_splits)

text \<open>
  \<open>disable_plugin\<close> looks its dependents up by the raw dependency string, so it does not
  see a dependent that names a version: when the only enabled dependents of a plugin name
  it with a specifier, the disable goes through and leaves an enabled plugin whose
  dependency is disabled.
\<close>

theorem disable_misses_versioned_dependents:
  assumes "mgr_get name m = Some p" and "pl_status p = Plugin_ENABLED"
    and "pc_on_disable (en_code env name) = None"
    and "dependents name m = []"
    and "q \<in> set (get_enabled_plugins m)" and "pl_name q \<noteq> name"
    and "raw \<in> set (pl_dependencies q)" and "parse_dependency (en_packaging env) raw = Inr rq"
    and "rq_name rq = name"
  shows "\<exists>m'. disable_plugin env name m = (Inr (), m') \<and> q \<in> set (get_enabled_plugins m') \<and>
    \<not> plugins_closed env m'"
proof -
  let ?p = "p\<lparr>pl_status := Plugin_DISABLED\<rparr>"
  define m' where "m' = snd (disable_plugin env name m)"
  have name: "pl_name ?p = name" using mgr_getD [OF assms(1)] by simp
  have run: "disable_plugin env name m = (Inr (), m')" and plugins: "mg_plugins m' = mg_plugins (mgr_put ?p m)"
    using assms(1-4) by (simp_all add: m'_def disable_plugin_def with_plugin_def attempt_def
        plugin_disable_def seqP_def bindP_def save_state_eval dispatch_event_def)
  have q: "q \<in> set (mg_plugins m)" "pl_status q = Plugin_ENABLED"
    using assms(5) by (simp_all add: get_enabled_plugins_def)
  have "q \<in> set (upsert pl_name ?p (mg_plugins m))"
    using q(1) assms(6) name by (auto simp: upsert_def image_iff)
  then have q': "q \<in> set (get_enabled_plugins m')"
    using q(2) plugins by (simp add: get_enabled_plugins_def mgr_put_def)
  have "mgr_get name m' = Some ?p"
    using plugins name by (simp add: mgr_get_def mgr_put_def)
  with check_missing_dep [OF assms(7,8), of "\<lambda>n. mgr_get n m'" ?p "pl_name q"] assms(9)
  have "\<not> plugin_backed env m' q" by (simp add: plugin_backed_def resolver_check_def)
  with q' have "\<not> plugins_closed env m'" by (auto simp: plugins_closed_def list_all_iff)
  with run q' show ?thesis by blast
qed

lemma disable_misses_versioned_dependents_witness:
  "\<exists>m'. disable_plugin tiny_env ''mail'' tiny_booted = (Inr (), m') \<and>
     tiny_plugin ''shop'' [''mail>=1''] Plugin_ENABLED \<in> set (get_enabled_plugins m') \<and>
     \<not> plugins_closed tiny_env m'"
proof (rule disable_misses_versioned_dependents)
  show "mgr_get ''mail'' tiny_booted = Some (tiny_plugin ''mail'' [] Plugin_ENABLED)" by code_simp
  show "parse_dependency (en_packaging tiny_env) ''mail>=1'' =
      Inr \<lparr>rq_name = ''mail'', rq_specifier = ''>=1''\<rparr>" by code_simp
  show "tiny_plugin ''shop'' [''mail>=1''] Plugin_ENABLED \<in> set (get_enabled_plugins tiny_booted)"
    by code_simp
qed code_simp+

text \<open>
  The boot is documented to skip a plugin whose dependencies are unmet, and to fail only on a
  fatal misconfiguration; a dependency string that does not parse is neither skipped nor
  caught: the \<open>ValueError\<close> leaves \<open>load_persisted_state\<close>, and the plugins after it in the
  order are not restored.
\<close>

theorem boot_aborts_on_malformed_dependency:
  assumes "en_has_store env" and "en_load_fault env = None" and "store_wf (mg_store m)"
    and "mgr_get name m = Some p" and "pl_status p = Plugin_INITIALIZED"
    and "pc_validate (en_code env name) = None"
    and "pl_dependencies p = raw # deps" and "parse_dependency (en_packaging env) raw = Inl e"
    and "enable_order (en_packaging env) (pending_plugins m (store_get_enabled (mg_store m))) = name # rest"
  shows "fst (load_persisted_state env m) = Inl e"
proof -
  let ?entries = "store_get_enabled (mg_store m)"
  have "name \<in> set (map pl_name (pending_plugins m ?entries))"
    by (rule enable_order_spec [of "en_packaging env" "pending_plugins m ?entries"])
      (use assms(9) in \<open>metis list.set_intros(1) set_mset_mset\<close>)
  then have "name \<in> ce_plugin_name ` set ?entries"
    using pending_plugins_spec [OF enabled_entries_distinct [OF assms(3)], of m] by blast
  then obtain entry where entry: "find (\<lambda>e. ce_plugin_name e = name) ?entries = Some entry"
    by (cases "find (\<lambda>e. ce_plugin_name e = name) ?entries") (auto simp: find_None_iff)
  then have name: "ce_plugin_name entry = name" by (auto simp: find_Some_iff)
  define p1 where "p1 = (if ce_config entry \<noteq> [] then plugin_initialize (ce_config entry) p else p)"
  have deps: "pl_dependencies p1 = raw # deps" using assms(7) by (simp add: p1_def plugin_initialize_def)
  have not_dep: "\<not> (\<exists>x. e = PluginDependencyError x)"
    using assms(8) by (auto simp: parse_dependency_def Let_def split: if_splits sum.splits)
  have stuck: "enable_restored env name p1 m2 = (Inl e, m2)" for m2
    using deps assms(8) not_dep
    by (simp add: enable_restored_def resolver_check_def split: exn.split)
  have pin: "\<exists>m2. reconcile_version_pin env p1 entry s = (Inr (), m2)" for s
    by (auto simp: reconcile_version_pin_def save_state_eval)
  then obtain m2 where m2: "reconcile_version_pin env p1 entry (mgr_put p1 m) = (Inr (), m2)" by blast
  have "restore_plugin env entry m = (Inl e, m2)"
    using assms(4,6) name m2 stuck
    by (simp add: restore_plugin_def attempt_hook_def Let_def seqP_Inr flip: p1_def)
  then have "restore_named env ?entries name m = (Inl e, m2)" using entry by (simp add: restore_named_def)
  then have "for_each (restore_named env ?entries) (name # rest) m = (Inl e, m2)"
    by (simp add: seqP_Inl)
  then show ?thesis
    using assms(1,2,9) by (simp add: load_persisted_state_def restore_named_def [abs_def])
qed

definition malformed_registered :: manager where
  "malformed_registered = snd (register_plugin (tiny_plugin ''shop'' [''>=1''] Plugin_INITIALIZED)
     (fresh_manager\<lparr>mg_store := tiny_manifest\<rparr>))"

lemma boot_aborts_on_malformed_dependency_witness:
  "fst (load_persisted_state tiny_env malformed_registered) =
     Inl (ValueError (''Dependency '' @ quoted ''>=1'' @ '' is missing a plugin name''))"
  by (rule boot_aborts_on_malformed_dependency [where name = "''shop''" and raw = "''>=1''"
        and deps = "[]" and rest = "[]" and p = "tiny_plugin ''shop'' [''>=1''] Plugin_INITIALIZED"])
    code_simp+

end
