(* ===== verification/IpNet.thy ===== *)
theory IpNet
  imports Patterns "HOL-Library.Word"
begin

text \<open>
  What the API-key service uses of Python's \<open>ipaddress\<close>: parsing of addresses and of networks
  in both versions (with \<open>strict=False\<close>), and membership. An IPv4 address is a 32-bit word,
  an IPv6 address a 128-bit word; a network is an address with a prefix length.
\<close>

unbundle bit_operations_syntax

datatype ip = V4 "32 word" | V6 "128 word"

datatype network = Net4 "32 word" nat | Net6 "128 word" nat

section \<open>Numerals\<close>

fun decimal :: "int \<Rightarrow> string \<Rightarrow> int" where
  "decimal n [] = n"
| "decimal n (c # cs) = decimal (10 * n + (of_char c - 48)) cs"

definition hex_digit :: "char \<Rightarrow> int" where
  "hex_digit c = (if is_digit_char c then of_char c - 48
     else if 97 \<le> code c then of_char c - 87 else of_char c - 55)"

fun hexadecimal :: "int \<Rightarrow> string \<Rightarrow> int" where
  "hexadecimal n [] = n"
| "hexadecimal n (c # cs) = hexadecimal (16 * n + hex_digit c) cs"

section \<open>IPv4\<close>

definition parse_octet :: "string \<Rightarrow> int option" where
  "parse_octet s =
     (if s = [] \<or> \<not> list_all is_digit_char s \<or> length s > 3 then None
      else if s \<noteq> ''0'' \<and> hd s = CHR ''0'' then None
      else if decimal 0 s > 255 then None
      else Some (decimal 0 s))"

definition parse_v4 :: "string \<Rightarrow> int option" where
  "parse_v4 s =
     (case map parse_octet (split_on CHR ''.'' s) of
        [Some a, Some b, Some c, Some d] \<Rightarrow> Some (((a * 256 + b) * 256 + c) * 256 + d)
      | _ \<Rightarrow> None)"

text \<open>The prefix length of a mask: ones followed by zeros, in \<open>w\<close> bits.\<close>

definition prefix_from_int :: "nat \<Rightarrow> int \<Rightarrow> nat option" where
  "prefix_from_int w n =
     find (\<lambda>p. n = (2 ^ p - 1) * 2 ^ (w - p)) [0..<Suc w]"

definition parse_prefix :: "nat \<Rightarrow> string \<Rightarrow> nat option" where
  "parse_prefix w s =
     (if s = [] \<or> \<not> list_all is_digit_char s \<or> decimal 0 s > int w then None
      else Some (nat (decimal 0 s)))"

text \<open>A length, a netmask, or a host mask.\<close>

definition parse_mask4 :: "string \<Rightarrow> nat option" where
  "parse_mask4 s =
     (case parse_prefix 32 s of
        Some p \<Rightarrow> Some p
      | None \<Rightarrow>
          (case parse_v4 s of
             None \<Rightarrow> None
           | Some n \<Rightarrow>
               (case prefix_from_int 32 n of
                  Some p \<Rightarrow> Some p
                | None \<Rightarrow> prefix_from_int 32 (2 ^ 32 - 1 - n))))"

section \<open>IPv6\<close>

definition parse_hextet :: "string \<Rightarrow> int option" where
  "parse_hextet s =
     (if s = [] \<or> \<not> list_all is_hex_char s \<or> length s > 4 then None else Some (hexadecimal 0 s))"

fun all_some :: "'a option list \<Rightarrow> 'a list option" where
  "all_some [] = Some []"
| "all_some (v # vs) =
     (case (v, all_some vs) of (Some x, Some xs) \<Rightarrow> Some (x # xs) | _ \<Rightarrow> None)"

text \<open>An IPv4 address in the last part stands for two parts.\<close>

definition expand_last :: "string list \<Rightarrow> int option list option" where
  "expand_last parts =
     (if CHR ''.'' \<in> set (last parts) then
        (case parse_v4 (last parts) of
           None \<Rightarrow> None
         | Some n \<Rightarrow> Some (map (\<lambda>p. if p = [] then Some 0 else parse_hextet p) (butlast parts) @
             [Some (n div 65536), Some (n mod 65536)]))
      else Some (map (\<lambda>p. if p = [] then Some 0 else parse_hextet p) parts))"

definition expanded_parts :: "string list \<Rightarrow> string list" where
  "expanded_parts parts =
     (if CHR ''.'' \<in> set (last parts) then butlast parts @ [''0'', ''0''] else parts)"

definition hextets_value :: "int list \<Rightarrow> int" where
  "hextets_value = foldl (\<lambda>n h. n * 65536 + h) 0"

text \<open>
  The position of the empty part that \<open>::\<close> leaves between the first and the last part; more
  than one is an error.
\<close>

definition parse_v6_parts :: "string list \<Rightarrow> int list \<Rightarrow> int option" where
  "parse_v6_parts ps hs =
     (let k = length ps;
          skips = filter (\<lambda>i. ps ! i = []) [1..<k - 1]
      in case skips of
           [i] \<Rightarrow>
             (let hi = (if hd ps = [] then i - 1 else i);
                  lo = (if last ps = [] then k - i - 2 else k - i - 1)
              in if hd ps = [] \<and> hi \<noteq> 0 then None
                 else if last ps = [] \<and> lo \<noteq> 0 then None
                 else if hi + lo \<ge> 8 then None
                 else Some (hextets_value (take hi hs @ replicate (8 - hi - lo) 0 @ drop (k - lo) hs)))
         | [] \<Rightarrow>
             (if k \<noteq> 8 \<or> hd ps = [] \<or> last ps = [] then None else Some (hextets_value hs))
         | _ \<Rightarrow> None)"

definition parse_v6 :: "string \<Rightarrow> int option" where
  "parse_v6 s =
     (let parts = split_on CHR '':'' s in
      if length parts < 3 then None
      else case expand_last parts of
        None \<Rightarrow> None
      | Some vs \<Rightarrow>
          (case all_some vs of
             None \<Rightarrow> None
           | Some hs \<Rightarrow>
               if length hs > 9 then None else parse_v6_parts (expanded_parts parts) hs))"

text \<open>The zone of an address, after \<open>%\<close>, is cut off.\<close>

definition cut_zone :: "string \<Rightarrow> string option" where
  "cut_zone s =
     (case split_on CHR ''%'' s of
        [a] \<Rightarrow> Some a
      | [a, z] \<Rightarrow> if z = [] then None else Some a
      | _ \<Rightarrow> None)"

section \<open>Addresses and networks\<close>

definition parse_ip :: "string \<Rightarrow> ip option" where
  "parse_ip s =
     (case parse_v4 s of
        Some n \<Rightarrow> Some (V4 (of_int n))
      | None \<Rightarrow>
          if CHR ''/'' \<in> set s then None
          else (case cut_zone s of
             None \<Rightarrow> None
           | Some a \<Rightarrow> map_option (\<lambda>n. V6 (of_int n)) (parse_v6 a)))"

definition parse_net4 :: "string \<Rightarrow> network option" where
  "parse_net4 s =
     (case split_on CHR ''/'' s of
        [a] \<Rightarrow> map_option (\<lambda>n. Net4 (of_int n) 32) (parse_v4 a)
      | [a, m] \<Rightarrow>
          (case (parse_v4 a, parse_mask4 m) of
             (Some n, Some p) \<Rightarrow> Some (Net4 (of_int n) p)
           | _ \<Rightarrow> None)
      | _ \<Rightarrow> None)"

definition parse_net6 :: "string \<Rightarrow> network option" where
  "parse_net6 s =
     (case split_on CHR ''/'' s of
        [a] \<Rightarrow>
          (case cut_zone a of
             None \<Rightarrow> None
           | Some b \<Rightarrow> map_option (\<lambda>n. Net6 (of_int n) 128) (parse_v6 b))
      | [a, m] \<Rightarrow>
          (case (cut_zone a, parse_prefix 128 m) of
             (Some b, Some p) \<Rightarrow> map_option (\<lambda>n. Net6 (of_int n) p) (parse_v6 b)
           | _ \<Rightarrow> None)
      | _ \<Rightarrow> None)"

definition parse_network :: "string \<Rightarrow> network option" where
  "parse_network s = (case parse_net4 s of Some n \<Rightarrow> Some n | None \<Rightarrow> parse_net6 s)"

text \<open>\<open>address in network\<close>.\<close>

definition netmask :: "nat \<Rightarrow> 'a::len word" where
  "netmask p = NOT (mask (LENGTH('a) - p))"

definition in_prefix :: "'a::len word \<Rightarrow> nat \<Rightarrow> 'a word \<Rightarrow> bool" where
  "in_prefix n p a \<longleftrightarrow> a AND netmask p = n AND netmask p"

fun in_network :: "ip \<Rightarrow> network \<Rightarrow> bool" where
  "in_network (V4 a) (Net4 n p) = in_prefix n p a"
| "in_network (V6 a) (Net6 n p) = in_prefix n p a"
| "in_network _ _ = False"

section \<open>A network is an interval\<close>

lemma and_netmask: "a AND netmask p = push_bit (LENGTH('a) - p) (drop_bit (LENGTH('a) - p) a)"
  for a :: "'a::len word"
  by (rule bit_word_eqI) (auto simp: netmask_def bit_simps)

lemma in_prefix_div:
  "in_prefix n p a \<longleftrightarrow> unat a div 2 ^ (LENGTH('a) - p) = unat n div 2 ^ (LENGTH('a) - p)"
  for a :: "'a::len word"
proof -
  let ?k = "LENGTH('a) - p"
  have "in_prefix n p a \<longleftrightarrow> drop_bit ?k a = drop_bit ?k n"
  proof
    assume "in_prefix n p a"
    then have "push_bit ?k (drop_bit ?k a) = push_bit ?k (drop_bit ?k n)"
      by (simp only: in_prefix_def and_netmask)
    then have "drop_bit ?k (push_bit ?k (drop_bit ?k a)) = drop_bit ?k (push_bit ?k (drop_bit ?k n))"
      by simp
    moreover have "drop_bit ?k (push_bit ?k (drop_bit ?k x)) = drop_bit ?k x" for x :: "'a word"
      by (rule bit_word_eqI) (auto simp: bit_simps dest: bit_imp_le_length)
    ultimately show "drop_bit ?k a = drop_bit ?k n" by simp
  next
    assume "drop_bit ?k a = drop_bit ?k n"
    then show "in_prefix n p a" by (simp only: in_prefix_def and_netmask)
  qed
  also have "\<dots> \<longleftrightarrow> unat (drop_bit ?k a) = unat (drop_bit ?k n)"
    by (simp add: word_unat_eq_iff)
  also have "\<dots> \<longleftrightarrow> unat a div 2 ^ ?k = unat n div 2 ^ ?k"
    unfolding unat_drop_bit_eq by (simp add: drop_bit_eq_div)
  finally show ?thesis .
qed

lemma div_eq_interval: "(a::nat) div b = q \<longleftrightarrow> q * b \<le> a \<and> a < q * b + b" if "0 < b"
proof
  assume "a div b = q"
  then show "q * b \<le> a \<and> a < q * b + b"
    using that by (metis add.commute div_times_less_eq_dividend dividend_less_div_times)
next
  assume "q * b \<le> a \<and> a < q * b + b"
  then show "a div b = q" using that by (metis add.commute div_nat_eqI mult.commute mult_Suc)
qed

lemma in_prefix_interval:
  "in_prefix n p a \<longleftrightarrow>
     (let size = 2 ^ (LENGTH('a) - p); first = unat n div size * size
      in first \<le> unat a \<and> unat a < first + size)"
  for a :: "'a::len word"
  unfolding in_prefix_div Let_def by (rule div_eq_interval) simp

end
