(* ===== verification/Accounts.thy ===== *)
theory Accounts
  imports Tables Rows Strings
begin

text \<open>
  The accounts part of the database and the permission checks on it: users
  (\<open>vbwd/models/user.py\<close>, \<open>user_details.py\<close>), admin roles (\<open>role.py\<close>), access levels
  (\<open>user_access_level.py\<close>), user groups (\<open>user_group.py\<close>), password reset tokens
  (\<open>password_reset_token.py\<close>) and API keys (\<open>api_key.py\<close>). The tables extend those of the
  billing core, so that an operation on accounts can move tokens as well. A permission is its
  unique name; an association table is a list of pairs.
\<close>

section \<open>Rows\<close>

record admin_role =
  ro_id :: uuid
  ro_name :: string
  ro_slug :: string
  ro_description :: "string option"
  ro_is_system :: bool
  ro_permissions :: "string list"

text \<open>An access level has the columns of a role, and a linked plan.\<close>

record access_level = admin_role +
  al_linked_plan_slug :: "string option"

record user =
  us_id :: uuid
  us_email :: string
  us_password_hash :: string
  us_status :: user_status
  us_role :: user_role

text \<open>A details row: its columns by name; a column that is \<open>None\<close> is not in the map.\<close>

record user_details =
  ud_user_id :: uuid
  ud_fields :: "string \<rightharpoonup> string"

record user_group =
  ug_id :: uuid
  ug_slug :: string
  ug_name :: string
  ug_lang :: "string option"
  ug_parent :: "string option"

record reset_token =
  rt_id :: uuid
  rt_user_id :: uuid
  rt_token :: string
  rt_expires_at :: time
  rt_used_at :: "time option"

record api_key =
  ak_id :: uuid
  ak_user_id :: uuid
  ak_label :: string
  ak_key_hash :: string
  ak_key_prefix :: string
  ak_scopes :: "string list"
  ak_ip_whitelist :: "string list"
  ak_is_active :: bool
  ak_created_by :: uuid
  ak_last_used_at :: "time option"

record account_db = db +
  ad_permissions :: "string list"
  ad_roles :: "admin_role list"
  ad_levels :: "access_level list"
  ad_users :: "user list"
  ad_details :: "user_details list"
  ad_user_roles :: "(uuid \<times> uuid) list"
  ad_user_levels :: "(uuid \<times> uuid) list"
  ad_groups :: "user_group list"
  ad_user_groups :: "(uuid \<times> string) list"
  ad_resets :: "reset_token list"
  ad_keys :: "api_key list"

definition empty_accounts :: account_db where
  "empty_accounts = \<lparr>tbl_balance = Map.empty, tbl_tx = [], tbl_purchase = Map.empty,
     tbl_invoice = Map.empty, ad_permissions = [], ad_roles = [], ad_levels = [], ad_users = [],
     ad_details = [], ad_user_roles = [], ad_user_levels = [], ad_groups = [], ad_user_groups = [],
     ad_resets = [], ad_keys = []\<rparr>"

section \<open>Reads\<close>

definition user_by_id :: "'p account_db_scheme \<Rightarrow> uuid \<Rightarrow> user option" where
  "user_by_id d i = find_row us_id i (ad_users d)"

definition user_by_email :: "'p account_db_scheme \<Rightarrow> string \<Rightarrow> user option" where
  "user_by_email d e = find_row us_email e (ad_users d)"

definition put_user :: "user \<Rightarrow> 'p account_db_scheme \<Rightarrow> 'p account_db_scheme" where
  "put_user u d = d\<lparr>ad_users := upsert us_id u (ad_users d)\<rparr>"

text \<open>The rows of a table that an association table links to a user.\<close>

definition linked :: "('r \<Rightarrow> uuid) \<Rightarrow> (uuid \<times> uuid) list \<Rightarrow> 'r list \<Rightarrow> uuid \<Rightarrow> 'r list" where
  "linked key links rows i = filter (\<lambda>r. (i, key r) \<in> set links) rows"

definition get_access_levels :: "'p account_db_scheme \<Rightarrow> user \<Rightarrow> admin_role list" where
  "get_access_levels d u = linked ro_id (ad_user_roles d) (ad_roles d) (us_id u)"

definition get_user_access_levels :: "'p account_db_scheme \<Rightarrow> user \<Rightarrow> access_level list" where
  "get_user_access_levels d u = linked ro_id (ad_user_levels d) (ad_levels d) (us_id u)"

section \<open>Permission checks\<close>

text \<open>
  \<open>AdminRole.has_permission\<close> and \<open>AccessLevel.has_permission\<close>: the loop over the permission
  rows, with the wildcards \<open>*\<close> and \<open>prefix.*\<close>.
\<close>

fun names_grant :: "string list \<Rightarrow> string \<Rightarrow> bool" where
  "names_grant [] p = False"
| "names_grant (n # ns) p =
     (if n = ''*'' then True
      else if n = p then True
      else if ends_with ''.*'' n \<and> starts_with (butlast n) p then True
      else names_grant ns p)"

definition role_has_permission :: "'a admin_role_scheme \<Rightarrow> string \<Rightarrow> bool" where
  "role_has_permission r p = names_grant (ro_permissions r) p"

definition is_active :: "user \<Rightarrow> bool" where
  "is_active u \<longleftrightarrow> us_status u = User_ACTIVE"

definition is_admin :: "user \<Rightarrow> bool" where
  "is_admin u \<longleftrightarrow> us_role u = SUPER_ADMIN \<or> us_role u = ADMIN"

definition has_permission :: "'p account_db_scheme \<Rightarrow> user \<Rightarrow> string \<Rightarrow> bool" where
  "has_permission d u p =
     (if us_role u = SUPER_ADMIN then True
      else if us_role u = ADMIN \<and> get_access_levels d u = [] then True
      else list_ex (\<lambda>r. role_has_permission r p) (get_access_levels d u))"

definition effective_permissions :: "'p account_db_scheme \<Rightarrow> user \<Rightarrow> string list" where
  "effective_permissions d u =
     (if us_role u = SUPER_ADMIN then [''*'']
      else if us_role u = ADMIN \<and> get_access_levels d u = [] then [''*'']
      else sorted_set (concat (map ro_permissions (get_access_levels d u))))"

definition has_user_permission :: "'p account_db_scheme \<Rightarrow> user \<Rightarrow> string \<Rightarrow> bool" where
  "has_user_permission d u p =
     (if us_role u = SUPER_ADMIN then True
      else if us_role u = ADMIN \<and> get_user_access_levels d u = [] then True
      else list_ex (\<lambda>r. role_has_permission r p) (get_user_access_levels d u))"

definition effective_user_permissions :: "'p account_db_scheme \<Rightarrow> user \<Rightarrow> string list" where
  "effective_user_permissions d u =
     (if us_role u = SUPER_ADMIN then [''*'']
      else if us_role u = ADMIN \<and> get_user_access_levels d u = [] then [''*'']
      else sorted_set (concat (map ro_permissions (get_user_access_levels d u))))"

section \<open>A permission name as a pattern\<close>

text \<open>What one permission name admits.\<close>

definition admits :: "string \<Rightarrow> string \<Rightarrow> bool" where
  "admits n p \<longleftrightarrow> n = ''*'' \<or> n = p \<or> (ends_with ''.*'' n \<and> starts_with (butlast n) p)"

lemma names_grant_iff: "names_grant ns p \<longleftrightarrow> list_ex (\<lambda>n. admits n p) ns"
  by (induction ns) (auto simp: admits_def)

lemma admits_family: "admits (r @ ''.*'') (r @ CHR ''.'' # q)"
  by (simp add: admits_def ends_with_iff starts_with_iff butlast_append)

lemma linked_iff: "r \<in> set (linked key links rows i) \<longleftrightarrow> r \<in> set rows \<and> (i, key r) \<in> set links"
  by (auto simp: linked_def)

end
