(* ===== verification/AccessControl.thy ===== *)
theory AccessControl
  imports Accounts
begin

text \<open>
  Roles and access levels: \<open>RoleRepository\<close> (\<open>vbwd/repositories/role_repository.py\<close>) behind
  \<open>RBACService\<close> (\<open>services/rbac_service.py\<close>), \<open>UserAccessLevelService\<close>
  (\<open>services/user_access_level_service.py\<close>) and the write port by which a plan grants
  permissions, \<open>DefaultUserPermissionGrant\<close> (\<open>services/user_permission_grant.py\<close>); and the
  contract that both tracks of permission checks on a user meet.

  Parameters: the database driver, the identifier drawn for a new row, and the setting
  \<open>allow_plan_special_permissions\<close>.
\<close>

section \<open>The contract of a permission track\<close>

text \<open>
  A track has the rows assigned to a user, the check of a permission, and the list of
  effective permissions that clients are given. The check is what the list says; the list is
  the names on the rows, save for staff, who fall back to the wildcard.
\<close>

definition falls_back :: "user \<Rightarrow> 'r list \<Rightarrow> bool" where
  "falls_back u rows \<longleftrightarrow> us_role u = SUPER_ADMIN \<or> us_role u = ADMIN \<and> rows = []"

locale permission_track =
  fixes rows :: "'d \<Rightarrow> user \<Rightarrow> 'r admin_role_scheme list"
    and check :: "'d \<Rightarrow> user \<Rightarrow> string \<Rightarrow> bool"
    and effective :: "'d \<Rightarrow> user \<Rightarrow> string list"
  assumes check_effective: "check d u p = list_ex (\<lambda>n. admits n p) (effective d u)"
    and effective_fallback: "falls_back u (rows d u) \<Longrightarrow> effective d u = [''*'']"
    and effective_rows: "\<not> falls_back u (rows d u) \<Longrightarrow>
      set (effective d u) = (\<Union>r \<in> set (rows d u). set (ro_permissions r))"
begin

lemma staff_may_all: "falls_back u (rows d u) \<Longrightarrow> check d u p"
  by (simp add: check_effective effective_fallback admits_def)

lemma checked_by_row:
  assumes "\<not> falls_back u (rows d u)"
  shows "check d u p \<longleftrightarrow> (\<exists>r \<in> set (rows d u). \<exists>n \<in> set (ro_permissions r). admits n p)"
  using effective_rows [OF assms] by (auto simp: check_effective list_ex_iff)

lemma nothing_assigned:
  assumes "us_role u \<noteq> SUPER_ADMIN" and "us_role u \<noteq> ADMIN" and "rows d u = []"
  shows "\<not> check d u p"
  using checked_by_row [of u d p] assms by (simp add: falls_back_def)

lemma more_rows_more_permissions:
  assumes "us_role u \<noteq> ADMIN" and "set (rows d u) \<subseteq> set (rows d' u)" and "check d u p"
  shows "check d' u p"
proof (cases "us_role u = SUPER_ADMIN")
  case True
  then show ?thesis by (simp add: staff_may_all falls_back_def)
next
  case False
  with assms(1) have "\<not> falls_back u (rows d u)" "\<not> falls_back u (rows d' u)"
    by (simp_all add: falls_back_def)
  with assms(2,3) show ?thesis by (auto simp: checked_by_row)
qed

end

lemma sorted_set_ex: "list_ex P (sorted_set names) = list_ex P names"
  by (auto simp: list_ex_iff)

interpretation admin_track: permission_track get_access_levels has_permission effective_permissions
  by unfold_locales
    (auto simp: has_permission_def effective_permissions_def falls_back_def role_has_permission_def
      names_grant_iff admits_def list_ex_iff)

interpretation user_track: permission_track
  get_user_access_levels has_user_permission effective_user_permissions
  by unfold_locales
    (auto simp: has_user_permission_def effective_user_permissions_def falls_back_def
      role_has_permission_def names_grant_iff admits_def list_ex_iff)

section \<open>RoleRepository and RBACService\<close>

definition role_by_name :: "'p account_db_scheme \<Rightarrow> string \<Rightarrow> admin_role option" where
  "role_by_name d name = find_row ro_name name (ad_roles d)"

definition get_user_roles :: "'p account_db_scheme \<Rightarrow> uuid \<Rightarrow> admin_role list" where
  "get_user_roles d i = linked ro_id (ad_user_roles d) (ad_roles d) i"

definition get_user_permissions :: "'p account_db_scheme \<Rightarrow> uuid \<Rightarrow> string set" where
  "get_user_permissions d i = (\<Union>r \<in> set (get_user_roles d i). set (ro_permissions r))"

definition link_role :: "uuid \<Rightarrow> uuid \<Rightarrow> 'p account_db_scheme \<Rightarrow> 'p account_db_scheme" where
  "link_role i r d = d\<lparr>ad_user_roles := ad_user_roles d @ [(i, r)]\<rparr>"

definition unlink_role :: "uuid \<Rightarrow> uuid \<Rightarrow> 'p account_db_scheme \<Rightarrow> 'p account_db_scheme" where
  "unlink_role i r d = d\<lparr>ad_user_roles := filter (\<lambda>l. l \<noteq> (i, r)) (ad_user_roles d)\<rparr>"

text \<open>\<open>session.execute\<close> of a statement: a call of the database, then its effect.\<close>

definition execute :: "driver \<Rightarrow> ('db \<Rightarrow> 'db) \<Rightarrow> ('db session, unit) prog" where
  "execute drv f = seqP (flush drv) (on_db f)"

definition assign_role ::
  "driver \<Rightarrow> uuid \<Rightarrow> string \<Rightarrow> ('p account_db_scheme session, bool) prog" where
  "assign_role drv i name =
     bindP (query (\<lambda>d. role_by_name d name)) (\<lambda>found.
       case found of
         None \<Rightarrow> ret False
       | Some r \<Rightarrow>
           bindP (query (\<lambda>d. (i, ro_id r) \<in> set (ad_user_roles d))) (\<lambda>existing.
             if existing then ret True
             else seqP (execute drv (link_role i (ro_id r))) (seqP (commit drv) (ret True))))"

definition revoke_role ::
  "driver \<Rightarrow> uuid \<Rightarrow> string \<Rightarrow> ('p account_db_scheme session, bool) prog" where
  "revoke_role drv i name =
     bindP (query (\<lambda>d. role_by_name d name)) (\<lambda>found.
       case found of
         None \<Rightarrow> ret False
       | Some r \<Rightarrow>
           seqP (execute drv (unlink_role i (ro_id r))) (seqP (commit drv) (ret True)))"

definition user_has_role :: "'p account_db_scheme \<Rightarrow> uuid \<Rightarrow> string \<Rightarrow> bool" where
  "user_has_role d i name =
     (case role_by_name d name of
        None \<Rightarrow> False
      | Some r \<Rightarrow> (i, ro_id r) \<in> set (ad_user_roles d))"

definition user_role_names :: "'p account_db_scheme \<Rightarrow> uuid \<Rightarrow> string list" where
  "user_role_names d i = map ro_name (get_user_roles d i)"

definition rbac_is_admin :: "'p account_db_scheme \<Rightarrow> uuid \<Rightarrow> bool" where
  "rbac_is_admin d i = user_has_role d i ''admin''"

section \<open>UserAccessLevelService\<close>

definition level_by_slug :: "'p account_db_scheme \<Rightarrow> string \<Rightarrow> access_level option" where
  "level_by_slug d slug = find_row ro_slug slug (ad_levels d)"

definition level_by_id :: "'p account_db_scheme \<Rightarrow> uuid \<Rightarrow> access_level option" where
  "level_by_id d i = find_row ro_id i (ad_levels d)"

definition levels_of_plan :: "'p account_db_scheme \<Rightarrow> string \<Rightarrow> access_level list" where
  "levels_of_plan d plan = filter (\<lambda>l. al_linked_plan_slug l = Some plan) (ad_levels d)"

definition link_level :: "uuid \<Rightarrow> uuid \<Rightarrow> 'p account_db_scheme \<Rightarrow> 'p account_db_scheme" where
  "link_level i l d = d\<lparr>ad_user_levels := ad_user_levels d @ [(i, l)]\<rparr>"

definition unlink_level :: "uuid \<Rightarrow> uuid \<Rightarrow> 'p account_db_scheme \<Rightarrow> 'p account_db_scheme" where
  "unlink_level i l d = d\<lparr>ad_user_levels := filter (\<lambda>x. x \<noteq> (i, l)) (ad_user_levels d)\<rparr>"

text \<open>The checks both operations begin with.\<close>

definition with_user_and_level ::
  "uuid \<Rightarrow> uuid \<Rightarrow> (bool \<Rightarrow> ('p account_db_scheme session, bool) prog)
     \<Rightarrow> ('p account_db_scheme session, bool) prog" where
  "with_user_and_level i l f =
     bindP (query (\<lambda>d. user_by_id d i)) (\<lambda>u.
       case u of
         None \<Rightarrow> ret False
       | Some _ \<Rightarrow> bindP (query (\<lambda>d. level_by_id d l)) (\<lambda>lv.
           case lv of
             None \<Rightarrow> ret False
           | Some _ \<Rightarrow> bindP (query (\<lambda>d. (i, l) \<in> set (ad_user_levels d))) f))"

definition assign_level ::
  "driver \<Rightarrow> uuid \<Rightarrow> uuid \<Rightarrow> ('p account_db_scheme session, bool) prog" where
  "assign_level drv i l = with_user_and_level i l (\<lambda>has.
     if has then ret False
     else seqP (on_db (link_level i l)) (seqP (flush drv) (ret True)))"

definition revoke_level ::
  "driver \<Rightarrow> uuid \<Rightarrow> uuid \<Rightarrow> ('p account_db_scheme session, bool) prog" where
  "revoke_level drv i l = with_user_and_level i l (\<lambda>has.
     if \<not> has then ret False
     else seqP (on_db (unlink_level i l)) (seqP (flush drv) (ret True)))"

definition revoke_plan_linked_levels ::
  "driver \<Rightarrow> uuid \<Rightarrow> string \<Rightarrow> ('p account_db_scheme session, nat) prog" where
  "revoke_plan_linked_levels drv i plan =
     bindP (query (\<lambda>d. levels_of_plan d plan)) (\<lambda>levels.
       foldP (\<lambda>n l. bindP (revoke_level drv i (ro_id l)) (\<lambda>done.
           ret (if done then n + 1 else n))) 0 levels)"

section \<open>DefaultUserPermissionGrant\<close>

definition special_deny_list :: "string list" where
  "special_deny_list = [''settings.system'']"

definition clamp_special_permissions :: "string list \<Rightarrow> string list" where
  "clamp_special_permissions names =
     filter (\<lambda>n. n \<noteq> ''*'' \<and> n \<notin> set special_deny_list) names"

definition resolve_permission_rows :: "'p account_db_scheme \<Rightarrow> string list \<Rightarrow> string list" where
  "resolve_permission_rows d names = filter (\<lambda>n. n \<in> set (ad_permissions d)) names"

definition put_role :: "admin_role \<Rightarrow> 'p account_db_scheme \<Rightarrow> 'p account_db_scheme" where
  "put_role r d = d\<lparr>ad_roles := upsert ro_id r (ad_roles d)\<rparr>"

definition put_level :: "access_level \<Rightarrow> 'p account_db_scheme \<Rightarrow> 'p account_db_scheme" where
  "put_level l d = d\<lparr>ad_levels := upsert ro_id l (ad_levels d)\<rparr>"

definition ensure_user_access_level ::
  "driver \<Rightarrow> (nat \<Rightarrow> uuid) \<Rightarrow> string \<Rightarrow> string \<Rightarrow> string list \<Rightarrow> string option
     \<Rightarrow> ('p account_db_scheme session, uuid) prog" where
  "ensure_user_access_level drv mint slug name names plan =
     bindP (gets (\<lambda>s. mint (calls s))) (\<lambda>new_id.
     bindP (query (\<lambda>d. (level_by_slug d slug, resolve_permission_rows d names))) (\<lambda>(found, perms).
       let l = (case found of
             None \<Rightarrow> \<lparr>ro_id = new_id, ro_name = name, ro_slug = slug, ro_description = Some name,
                 ro_is_system = True, ro_permissions = perms, al_linked_plan_slug = plan\<rparr>
           | Some l \<Rightarrow> l\<lparr>ro_name := name, al_linked_plan_slug := plan, ro_permissions := perms\<rparr>)
       in seqP (on_db (put_level l)) (seqP (flush drv) (ret (ro_id l)))))"

definition ensure_role ::
  "driver \<Rightarrow> (nat \<Rightarrow> uuid) \<Rightarrow> bool \<Rightarrow> string \<Rightarrow> string \<Rightarrow> string list
     \<Rightarrow> ('p account_db_scheme session, uuid option) prog" where
  "ensure_role drv mint allow slug name names =
     (if \<not> allow then ret None
      else
        bindP (gets (\<lambda>s. mint (calls s))) (\<lambda>new_id.
        bindP (query (\<lambda>d. (role_by_name d slug,
            resolve_permission_rows d (clamp_special_permissions names)))) (\<lambda>(found, perms).
          let r = (case found of
                None \<Rightarrow> \<lparr>ro_id = new_id, ro_name = slug, ro_slug = slug, ro_description = Some name,
                    ro_is_system = True, ro_permissions = perms\<rparr>
              | Some r \<Rightarrow> r\<lparr>ro_description := Some name, ro_permissions := perms\<rparr>)
          in seqP (on_db (put_role r)) (seqP (flush drv) (ret (Some (ro_id r)))))))"

definition grant_assign_role ::
  "driver \<Rightarrow> bool \<Rightarrow> uuid \<Rightarrow> string \<Rightarrow> ('p account_db_scheme session, unit) prog" where
  "grant_assign_role drv allow i slug =
     (if \<not> allow then ret () else seqP (assign_role drv i slug) (ret ()))"

definition grant_revoke_role ::
  "driver \<Rightarrow> uuid \<Rightarrow> string \<Rightarrow> ('p account_db_scheme session, unit) prog" where
  "grant_revoke_role drv i slug = seqP (revoke_role drv i slug) (ret ())"

definition list_assigned_levels :: "'p account_db_scheme \<Rightarrow> uuid \<Rightarrow> (string \<times> uuid) list" where
  "list_assigned_levels d i =
     (case user_by_id d i of
        None \<Rightarrow> []
      | Some u \<Rightarrow> map (\<lambda>l. (ro_slug l, ro_id l)) (get_user_access_levels d u))"

definition list_assigned_roles :: "'p account_db_scheme \<Rightarrow> uuid \<Rightarrow> (string \<times> uuid) list" where
  "list_assigned_roles d i = map (\<lambda>r. (ro_slug r, ro_id r)) (get_user_roles d i)"

end
