(* ===== verification/AccessFlow.thy ===== *)
theory AccessFlow
  imports AccessControl
begin

text \<open>
  Properties of access control: the two permission tracks agree with the lists the clients
  are shown, what a plan can grant, what the end of a plan revokes, and what revoking a role
  does to an administrator.
\<close>

section \<open>Assigning and revoking\<close>

lemma role_by_name_Some:
  "role_by_name d name = Some r \<Longrightarrow> r \<in> set (ad_roles d) \<and> ro_name r = name"
  by (auto simp: role_by_name_def dest: find_row_Some)

lemma link_role_sel [simp]:
  "ad_user_roles (link_role i r d) = ad_user_roles d @ [(i, r)]"
  "ad_roles (link_role i r d) = ad_roles d"
  by (simp_all add: link_role_def)

lemma unlink_role_sel [simp]:
  "ad_user_roles (unlink_role i r d) = filter (\<lambda>l. l \<noteq> (i, r)) (ad_user_roles d)"
  "ad_roles (unlink_role i r d) = ad_roles d"
  by (simp_all add: unlink_role_def)

lemma unlink_level_sel [simp]:
  "ad_user_levels (unlink_level i l d) = filter (\<lambda>x. x \<noteq> (i, l)) (ad_user_levels d)"
  "ad_levels (unlink_level i l d) = ad_levels d" "ad_users (unlink_level i l d) = ad_users d"
  by (simp_all add: unlink_level_def)

text \<open>Assigning a role that exists settles the link, once.\<close>

definition role_assigned :: "uuid \<Rightarrow> string \<Rightarrow> 'p account_db_scheme session \<Rightarrow> bool" where
  "role_assigned i name s \<longleftrightarrow> user_has_role (pending s) i name"

lemma assign_role_cases:
  assumes "assign_role drv i name s = (Inr b, s')"
  shows "(\<not> b \<and> role_by_name (pending s) name = None \<and> s' = s) \<or>
     (b \<and> role_assigned i name s' \<and> (role_assigned i name s \<longrightarrow> s' = s))"
  using assms
  by (cases "drv (calls s)"; cases "drv (Suc (calls s))")
    (auto simp: assign_role_def role_assigned_def user_has_role_def role_by_name_def execute_def
      seqP_def bindP_def split: option.splits if_splits)

interpretation assigning: once_only "assign_role drv i name"
  "\<lambda>s. role_by_name (pending s) name \<noteq> None" "role_assigned i name" for drv i name
proof unfold_locales
  fix s s' :: "'p account_db_scheme session" and b
  assume known: "role_by_name (pending s) name \<noteq> None" and run: "assign_role drv i name s = (Inr b, s')"
  with assign_role_cases [OF run]
  show "role_by_name (pending s') name \<noteq> None \<and> role_assigned i name s'"
    by (auto simp: role_assigned_def user_has_role_def split: option.splits)
next
  fix s :: "'p account_db_scheme session"
  assume "role_by_name (pending s) name \<noteq> None" and "role_assigned i name s"
  then show "\<exists>x. assign_role drv i name s = (Inr x, s)"
    by (auto simp: assign_role_def role_assigned_def user_has_role_def split: option.splits)
qed

text \<open>An assignment that has returned can be repeated any number of times.\<close>

lemma assign_role_repeats:
  assumes "role_by_name (pending s) name \<noteq> None" and "assign_role drv i name s = (Inr b, s')"
  shows "((\<lambda>t. snd (assign_role drv i name t)) ^^ n) s' = s'"
  using assms by (rule assigning.repeats)

lemma revoke_role_Inr:
  assumes "role_by_name (pending s) name = Some r" and "revoke_role drv i name s = (Inr b, s')"
  shows "pending s' = unlink_role i (ro_id r) (pending s) \<and> durable s' = pending s' \<and> b"
  using assms
  by (cases "drv (calls s)"; cases "drv (Suc (calls s))")
    (auto simp: revoke_role_def execute_def seqP_def bindP_def)

section \<open>The two tracks\<close>

text \<open>
  C9. The permission checks that guard the routes and the lists of permissions the clients
  are given agree, on both tracks: a permission is admitted exactly when some name of the
  effective list admits it, as the wildcard, as itself, or as a family \<open>prefix.*\<close>.
\<close>

theorem permission_checks_agree:
  "has_permission d u p = list_ex (\<lambda>n. admits n p) (effective_permissions d u) \<and>
   has_user_permission d u p = list_ex (\<lambda>n. admits n p) (effective_user_permissions d u)"
  by (rule conjI [OF admin_track.check_effective user_track.check_effective])

text \<open>
  Revoking a permission can widen what an administrator may do: an \<open>ADMIN\<close> user whose
  only role is revoked falls back to the wildcard of administrators without roles, and every
  permission check succeeds from then on.
\<close>

theorem revoking_last_role_widens:
  assumes "us_role u = ADMIN" and "get_access_levels (pending s) u = [r]"
    and "role_by_name (pending s) name = Some r"
    and "revoke_role drv (us_id u) name s = (Inr b, s')"
  shows "has_permission (durable s') u p"
proof -
  have d: "durable s' = unlink_role (us_id u) (ro_id r) (pending s)"
    using revoke_role_Inr [OF assms(3,4)] by simp
  have only: "(us_id u, ro_id x) \<in> set (ad_user_roles (pending s)) \<Longrightarrow> x \<in> set (ad_roles (pending s))
    \<Longrightarrow> x = r" for x
    using assms(2) linked_iff [of x ro_id "ad_user_roles (pending s)" "ad_roles (pending s)" "us_id u"]
    by (simp add: get_access_levels_def)
  then have "get_access_levels (durable s') u = []"
    by (auto simp: d get_access_levels_def linked_def filter_empty_conv)
  with assms(1) show ?thesis by (intro admin_track.staff_may_all) (simp add: falls_back_def)
qed

definition support_role :: admin_role where
  "support_role = \<lparr>ro_id = ''r1'', ro_name = ''support'', ro_slug = ''support'',
     ro_description = None, ro_is_system = False, ro_permissions = [''users.view'']\<rparr>"

definition support_admin :: user where
  "support_admin = \<lparr>us_id = ''u1'', us_email = ''a@b.cd'', us_password_hash = ''h'',
     us_status = User_ACTIVE, us_role = ADMIN\<rparr>"

definition support_db :: account_db where
  "support_db = empty_accounts\<lparr>ad_permissions := [''users.view'', ''users.manage'', ''settings.*''],
     ad_roles := [support_role], ad_users := [support_admin], ad_user_roles := [(''u1'', ''r1'')]\<rparr>"

lemma support_sel [simp]:
  "ad_roles support_db = [support_role]" "ad_user_roles support_db = [(''u1'', ''r1'')]"
  "ad_permissions support_db = [''users.view'', ''users.manage'', ''settings.*'']"
  "ad_users support_db = [support_admin]"
  "ro_id support_role = ''r1''" "ro_name support_role = ''support''"
  "us_id support_admin = ''u1''" "us_role support_admin = ADMIN"
  by (simp_all add: support_db_def support_role_def support_admin_def empty_accounts_def)

lemma support_revoke:
  "revoke_role (\<lambda>_. None) ''u1'' ''support'' (open_session support_db) =
   (Inr True, \<lparr>durable = unlink_role ''u1'' ''r1'' support_db,
      pending = unlink_role ''u1'' ''r1'' support_db, calls = 2, bus_log = []\<rparr>)"
  by (simp add: revoke_role_def role_by_name_def find_row_def execute_def seqP_def bindP_def
      open_session_def)

theorem revoking_last_role_widens_witness:
  "\<not> has_permission support_db support_admin ''users.manage'' \<and>
   has_permission (unlink_role ''u1'' ''r1'' support_db) support_admin ''users.manage''"
proof
  show "\<not> has_permission support_db support_admin ''users.manage''" by code_simp
  have a: "us_role support_admin = ADMIN" by simp
  have l: "get_access_levels (pending (open_session support_db)) support_admin = [support_role]"
    by (simp add: get_access_levels_def linked_def)
  have r: "role_by_name (pending (open_session support_db)) ''support'' = Some support_role"
    by (simp add: role_by_name_def find_row_def)
  have "revoke_role (\<lambda>_. None) (us_id support_admin) ''support'' (open_session support_db) =
      (Inr True, \<lparr>durable = unlink_role ''u1'' ''r1'' support_db,
        pending = unlink_role ''u1'' ''r1'' support_db, calls = 2, bus_log = []\<rparr>)"
    by (simp add: support_revoke)
  from revoking_last_role_widens [OF a l r this]
  show "has_permission (unlink_role ''u1'' ''r1'' support_db) support_admin ''users.manage''"
    by simp
qed

section \<open>What a plan can grant\<close>

lemma dot_family:
  assumes "t @ ''.'' = take k ''settings.system''"
  shows "t = ''settings''"
proof -
  have "k < 16 \<or> take k ''settings.system'' = ''settings.system''" by auto
  then show ?thesis
  proof
    assume k: "k < 16"
    then have "k = 0 \<or> k = 1 \<or> k = 2 \<or> k = 3 \<or> k = 4 \<or> k = 5 \<or> k = 6 \<or> k = 7 \<or> k = 8 \<or>
      k = 9 \<or> k = 10 \<or> k = 11 \<or> k = 12 \<or> k = 13 \<or> k = 14 \<or> k = 15" by arith
    with assms show ?thesis by (auto simp: append_eq_Cons_conv)
  next
    assume "take k ''settings.system'' = ''settings.system''"
    with assms have "last (t @ ''.'') = last ''settings.system''" by simp
    then show ?thesis by simp
  qed
qed

text \<open>The names that admit the deny-listed permission.\<close>

lemma admits_settings_system:
  "admits n ''settings.system'' \<longleftrightarrow>
     n = ''*'' \<or> n = ''settings.system'' \<or> n = ''settings.*''"
proof
  assume a: "admits n ''settings.system''"
  show "n = ''*'' \<or> n = ''settings.system'' \<or> n = ''settings.*''"
  proof (cases "n = ''*'' \<or> n = ''settings.system''")
    case False
    with a obtain t where n: "n = t @ ''.*''" and "starts_with (t @ ''.'') ''settings.system''"
      by (auto simp: admits_def ends_with_iff butlast_append)
    then have "t @ ''.'' = take (length (t @ ''.'')) ''settings.system''"
      by (simp only: starts_with_def)
    then have "t = ''settings''" by (rule dot_family)
    with n show ?thesis by simp
  qed auto
next
  assume "n = ''*'' \<or> n = ''settings.system'' \<or> n = ''settings.*''"
  then show "admits n ''settings.system''" by (auto simp: admits_def ends_with_def starts_with_def)
qed

lemma ensure_role_run:
  assumes "allow" and "drv (calls s) = None"
    and "distinct (map ro_id (ad_roles (pending s)))"
    and "mint (calls s) \<notin> ro_id ` set (ad_roles (pending s))"
  shows "\<exists>r t. ensure_role drv mint allow slug name names s = (Inr (Some (ro_id r)), t) \<and>
     find_row ro_id (ro_id r) (ad_roles (pending t)) = Some r \<and> ro_name r = slug \<and>
     ro_permissions r =
       resolve_permission_rows (pending s) (clamp_special_permissions names)"
proof (cases "role_by_name (pending s) slug")
  case None
  let ?r = "\<lparr>ro_id = mint (calls s), ro_name = slug, ro_slug = slug, ro_description = Some name,
    ro_is_system = True, ro_permissions =
      resolve_permission_rows (pending s) (clamp_special_permissions names)\<rparr>"
  show ?thesis
    by (rule exI [of _ ?r])
      (use None assms in \<open>simp add: ensure_role_def Let_def put_role_def seqP_def bindP_def\<close>)
next
  case (Some r)
  let ?r = "r\<lparr>ro_description := Some name, ro_permissions :=
      resolve_permission_rows (pending s) (clamp_special_permissions names)\<rparr>"
  show ?thesis
    by (rule exI [of _ ?r])
      (use Some assms role_by_name_Some [OF Some]
        in \<open>simp add: ensure_role_def Let_def put_role_def seqP_def bindP_def\<close>)
qed

text \<open>
  C33. What a plan can grant on the admin track. With the setting off, \<open>ensure_role\<close> does
  nothing. With it on, and when the database does not fail, the managed role is left with
  the known names the plan asked for other than \<open>*\<close> and the deny-listed
  \<open>settings.system\<close>; but the role still admits \<open>settings.system\<close> when the plan asked for
  the family \<open>settings.*\<close> and a permission of that name exists.
\<close>

theorem ensure_role_clamps:
  assumes "drv (calls s) = None" and "distinct (map ro_id (ad_roles (pending s)))"
    and "mint (calls s) \<notin> ro_id ` set (ad_roles (pending s))"
  shows "case ensure_role drv mint allow slug name names s of
      (Inl e, t) \<Rightarrow> False
    | (Inr None, t) \<Rightarrow> \<not> allow \<and> t = s
    | (Inr (Some i), t) \<Rightarrow> allow \<and>
        (\<exists>r. find_row ro_id i (ad_roles (pending t)) = Some r \<and> ro_name r = slug \<and>
          set (ro_permissions r) =
            set names \<inter> set (ad_permissions (pending s)) - {''*'', ''settings.system''} \<and>
          (role_has_permission r ''settings.system'' \<longleftrightarrow>
            ''settings.*'' \<in> set names \<and> ''settings.*'' \<in> set (ad_permissions (pending s))))"
proof (cases allow)
  case False
  then show ?thesis by (simp add: ensure_role_def)
next
  case True
  obtain r t where run: "ensure_role drv mint allow slug name names s = (Inr (Some (ro_id r)), t)"
    and row: "find_row ro_id (ro_id r) (ad_roles (pending t)) = Some r" "ro_name r = slug"
    and perms: "ro_permissions r =
       resolve_permission_rows (pending s) (clamp_special_permissions names)"
    using ensure_role_run [of allow drv s mint slug name names] True assms by blast
  have set: "set (ro_permissions r) =
      set names \<inter> set (ad_permissions (pending s)) - {''*'', ''settings.system''}"
    by (auto simp: perms resolve_permission_rows_def clamp_special_permissions_def
        special_deny_list_def)
  have "role_has_permission r ''settings.system'' \<longleftrightarrow> ''settings.*'' \<in> set (ro_permissions r)"
    by (auto simp: role_has_permission_def names_grant_iff list_ex_iff admits_settings_system set)
  with True run row set show ?thesis by auto
qed

theorem ensure_role_clamps_witness:
  "case ensure_role (\<lambda>_. None) (\<lambda>_. ''r2'') True ''pro'' ''Pro'' [''*'', ''settings.*''] (open_session support_db) of
      (Inr (Some i), t) \<Rightarrow> (case find_row ro_id i (ad_roles (pending t)) of
         Some r \<Rightarrow> role_has_permission r ''settings.system'' | None \<Rightarrow> False)
    | _ \<Rightarrow> False"
proof -
  let ?run = "ensure_role (\<lambda>_. None) (\<lambda>_. ''r2'') True ''pro'' ''Pro'' [''*'', ''settings.*'']
    (open_session support_db)"
  have ids: "distinct (map ro_id (ad_roles (pending (open_session support_db))))"
    "''r2'' \<notin> ro_id ` set (ad_roles (pending (open_session support_db)))" by simp_all
  obtain res t where run: "?run = (res, t)" by fastforce
  have "case ?run of (Inl e, t) \<Rightarrow> False | (Inr None, t) \<Rightarrow> \<not> True \<and> t = open_session support_db
    | (Inr (Some i), t) \<Rightarrow> True \<and> (\<exists>r. find_row ro_id i (ad_roles (pending t)) = Some r \<and>
        ro_name r = ''pro'' \<and> set (ro_permissions r) = set [''*'', ''settings.*''] \<inter>
          set (ad_permissions (pending (open_session support_db))) - {''*'', ''settings.system''} \<and>
        (role_has_permission r ''settings.system'' \<longleftrightarrow> ''settings.*'' \<in> set [''*'', ''settings.*''] \<and>
          ''settings.*'' \<in> set (ad_permissions (pending (open_session support_db)))))"
    by (rule ensure_role_clamps) (use ids in simp_all)
  then obtain i r where "res = Inr (Some i)"
    and "find_row ro_id i (ad_roles (pending t)) = Some r"
    and "role_has_permission r ''settings.system''"
    unfolding run by (cases res) (auto split: option.splits)
  with run show ?thesis by simp
qed

section \<open>The end of a plan\<close>

lemma unlink_level_more [simp]:
  "user_by_id (unlink_level i l d) j = user_by_id d j"
  "level_by_id (unlink_level i l d) j = level_by_id d j"
  by (simp_all add: user_by_id_def level_by_id_def)

lemma revoke_level_run:
  assumes "user_by_id (pending s) i = Some u" and "level_by_id (pending s) l = Some lv"
  shows "revoke_level (\<lambda>_. None) i l s =
    (if (i, l) \<in> set (ad_user_levels (pending s))
     then (Inr True, s\<lparr>calls := Suc (calls s), pending := unlink_level i l (pending s)\<rparr>)
     else (Inr False, s))"
  using assms by (simp add: revoke_level_def with_user_and_level_def seqP_def bindP_def)

lemma revoke_levels_loop:
  assumes "user_by_id (pending s) i = Some u"
    and "\<And>l. l \<in> set ls \<Longrightarrow> level_by_id (pending s) (ro_id l) = Some l"
    and "distinct (map ro_id ls)"
  shows "\<exists>s'. foldP (\<lambda>n l. bindP (revoke_level (\<lambda>_. None) i (ro_id l)) (\<lambda>done.
          ret (if done then n + 1 else n))) n ls s =
        (Inr (n + length (filter (\<lambda>l. (i, ro_id l) \<in> set (ad_user_levels (pending s))) ls)), s')
      \<and> ad_user_levels (pending s') =
          filter (\<lambda>x. \<not> (fst x = i \<and> snd x \<in> ro_id ` set ls)) (ad_user_levels (pending s))"
  using assms
proof (induction ls arbitrary: n s)
  case Nil
  then show ?case by simp
next
  case (Cons l ls)
  let ?L = "ad_user_levels (pending s)"
  let ?has = "(i, ro_id l) \<in> set ?L"
  let ?t = "if ?has then s\<lparr>calls := Suc (calls s), pending := unlink_level i (ro_id l) (pending s)\<rparr>
    else s"
  have step: "revoke_level (\<lambda>_. None) i (ro_id l) s = (Inr ?has, ?t)"
    using revoke_level_run [OF Cons.prems(1), of "ro_id l"] Cons.prems(2) [of l] by simp
  have links: "ad_user_levels (pending ?t) = filter (\<lambda>x. x \<noteq> (i, ro_id l)) ?L"
    by (auto intro!: filter_True [symmetric])
  have "user_by_id (pending ?t) i = Some u"
    and "\<And>k. k \<in> set ls \<Longrightarrow> level_by_id (pending ?t) (ro_id k) = Some k"
    and "distinct (map ro_id ls)" using Cons.prems by simp_all
  from Cons.IH [OF this, where n = "if ?has then n + 1 else n"] obtain s' where
    rest: "foldP (\<lambda>n l. bindP (revoke_level (\<lambda>_. None) i (ro_id l)) (\<lambda>done.
          ret (if done then n + 1 else n))) (if ?has then n + 1 else n) ls ?t =
        (Inr ((if ?has then n + 1 else n) +
          length (filter (\<lambda>l. (i, ro_id l) \<in> set (ad_user_levels (pending ?t))) ls)), s')"
    and final: "ad_user_levels (pending s') =
      filter (\<lambda>x. \<not> (fst x = i \<and> snd x \<in> ro_id ` set ls)) (ad_user_levels (pending ?t))"
    by blast
  have other: "filter (\<lambda>k. (i, ro_id k) \<in> set (ad_user_levels (pending ?t))) ls =
      filter (\<lambda>k. (i, ro_id k) \<in> set ?L) ls"
    using Cons.prems(3) by (intro filter_cong) (auto simp: links, metis imageI)
  have "filter (\<lambda>x. \<not> (fst x = i \<and> snd x \<in> ro_id ` set ls)) (ad_user_levels (pending ?t)) =
      filter (\<lambda>x. \<not> (fst x = i \<and> snd x \<in> ro_id ` set (l # ls))) ?L"
    unfolding links filter_filter by (intro filter_cong) auto
  with final have links': "ad_user_levels (pending s') =
      filter (\<lambda>x. \<not> (fst x = i \<and> snd x \<in> ro_id ` set (l # ls))) ?L" by simp
  have body: "bindP (revoke_level (\<lambda>_. None) i (ro_id l)) (\<lambda>done.
      ret (if done then n + 1 else n)) s = (Inr (if ?has then n + 1 else n), ?t)"
    by (simp add: bindP_def step)
  have "foldP (\<lambda>n l. bindP (revoke_level (\<lambda>_. None) i (ro_id l)) (\<lambda>done.
      ret (if done then n + 1 else n))) n (l # ls) s =
    foldP (\<lambda>n l. bindP (revoke_level (\<lambda>_. None) i (ro_id l)) (\<lambda>done.
      ret (if done then n + 1 else n))) (if ?has then n + 1 else n) ls ?t"
    by (rule foldP_step) (rule body)
  with rest other links' show ?case by (intro exI [of _ s']) (simp del: ret_eval)
qed

text \<open>
  The end of a plan. For a user that exists, \<open>revoke_plan_linked_levels\<close> revokes exactly
  the access levels linked to the plan, leaves every other assignment of every user as it
  was, in its order, and returns how many of them the user had.
\<close>

theorem plan_end_revokes_linked_levels:
  assumes "user_by_id (pending s) i = Some u"
    and "distinct (map ro_id (ad_levels (pending s)))"
  shows "case revoke_plan_linked_levels (\<lambda>_. None) i plan s of
      (Inl e, s') \<Rightarrow> False
    | (Inr n, s') \<Rightarrow>
        n = length (filter (\<lambda>l. (i, ro_id l) \<in> set (ad_user_levels (pending s)))
              (levels_of_plan (pending s) plan)) \<and>
        ad_user_levels (pending s') =
          filter (\<lambda>x. \<not> (fst x = i \<and> snd x \<in> ro_id ` set (levels_of_plan (pending s) plan)))
            (ad_user_levels (pending s))"
proof -
  let ?ls = "levels_of_plan (pending s) plan"
  have "level_by_id (pending s) (ro_id l) = Some l" if "l \<in> set ?ls" for l
    using that find_row_mem [OF assms(2)] by (auto simp: levels_of_plan_def level_by_id_def)
  moreover have "distinct (map ro_id ?ls)"
    using assms(2) by (simp add: levels_of_plan_def distinct_map_filter)
  ultimately show ?thesis
    using revoke_levels_loop [OF assms(1), of ?ls 0]
    by (auto simp: revoke_plan_linked_levels_def)
qed

definition plan_level :: "uuid \<Rightarrow> string option \<Rightarrow> access_level" where
  "plan_level i plan = \<lparr>ro_id = i, ro_name = i, ro_slug = i, ro_description = None,
     ro_is_system = True, ro_permissions = [], al_linked_plan_slug = plan\<rparr>"

theorem plan_end_revokes_linked_levels_witness:
  "fst (revoke_plan_linked_levels (\<lambda>_. None) ''u1'' ''pro'' (open_session (support_db
     \<lparr>ad_levels := [plan_level ''l1'' (Some ''pro''), plan_level ''l2'' None],
      ad_user_levels := [(''u1'', ''l2''), (''u1'', ''l1'')]\<rparr>))) = Inr 1"
proof -
  let ?d = "support_db\<lparr>ad_levels := [plan_level ''l1'' (Some ''pro''), plan_level ''l2'' None],
      ad_user_levels := [(''u1'', ''l2''), (''u1'', ''l1'')]\<rparr>"
  have "user_by_id (pending (open_session ?d)) ''u1'' = Some support_admin"
    and "distinct (map ro_id (ad_levels (pending (open_session ?d))))"
    by (simp_all add: user_by_id_def find_row_def plan_level_def)
  from plan_end_revokes_linked_levels [OF this, where plan = "''pro''"] show ?thesis
    by (auto simp: levels_of_plan_def plan_level_def split: prod.splits sum.splits)
qed

end
