(* ===== verification/Auth.thy ===== *)
theory Auth
  imports AccessControl Json
begin

text \<open>
  Authentication: \<open>AuthService\<close> (\<open>vbwd/services/auth_service.py\<close>), the guards of the routes
  (\<open>vbwd/middleware/auth.py\<close>) and the entitlement port (\<open>vbwd/services/entitlement.py\<close>,
  \<open>vbwd/decorators/permissions.py\<close>).

  Parameters: bcrypt (\<open>hash_pw\<close>, \<open>check_pw\<close>), the JWT library (\<open>jwt_encode\<close>, \<open>jwt_decode\<close>,
  which also knows the secret and rejects an expired or forged token), the clock, and the
  identifiers drawn for new rows. A view is a program of a request context, the attributes
  of Flask's \<open>g\<close>.
\<close>

section \<open>Parameters\<close>

record claims =
  cl_user_id :: "string option"
  cl_email :: string
  cl_exp :: time
  cl_iat :: time

record auth_env =
  hash_pw :: "nat \<Rightarrow> string \<Rightarrow> exn + string"
  check_pw :: "string \<Rightarrow> string \<Rightarrow> exn + bool"
  jwt_encode :: "claims \<Rightarrow> string"
  jwt_decode :: "time \<Rightarrow> string \<Rightarrow> claims option"
  jwt_expiration_hours :: int

section \<open>What is checked of an address and of a password\<close>

definition local_char :: "char \<Rightarrow> bool" where
  "local_char c \<longleftrightarrow> is_alnum_char c \<or> c \<in> set ''._%+-''"

definition domain_char :: "char \<Rightarrow> bool" where
  "domain_char c \<longleftrightarrow> is_alnum_char c \<or> c \<in> set ''.-''"

definition email_pattern :: "pattern_item list" where
  "email_pattern =
     [Run local_char 1, Chr CHR ''@'', Run domain_char 1, Chr CHR ''.'', Run is_alpha_char 2, Eol]"

definition validate_email :: "string \<Rightarrow> bool" where
  "validate_email email \<longleftrightarrow> email \<noteq> [] \<and> match_items email_pattern email"

definition special_chars :: string where
  "special_chars = ''!@#$%^&*(),.?'' @ [CHR 0x22] @ '':{}|<>''"

definition validate_password_strength :: "string \<Rightarrow> string option" where
  "validate_password_strength password =
     (if length password < 8 then Some ''Password must be at least 8 characters long''
      else if \<not> list_ex is_lower_char password
        then Some ''Password must contain at least one lowercase letter''
      else if \<not> list_ex is_upper_char password
        then Some ''Password must contain at least one uppercase letter''
      else if \<not> list_ex is_digit_char password then Some ''Password must contain at least one number''
      else if \<not> list_ex (\<lambda>c. c \<in> set special_chars) password
        then Some ''Password must contain at least one special character''
      else None)"

section \<open>Passwords and tokens\<close>

definition verify_password :: "auth_env \<Rightarrow> string \<Rightarrow> string \<Rightarrow> bool" where
  "verify_password env password hashed =
     (case check_pw env password hashed of Inl e \<Rightarrow> False | Inr ok \<Rightarrow> ok)"

definition hash_password :: "auth_env \<Rightarrow> string \<Rightarrow> ('db session, string) prog" where
  "hash_password env password =
     bindP (gets (\<lambda>s. hash_pw env (calls s) password)) (\<lambda>r.
       case r of Inl e \<Rightarrow> raise e | Inr h \<Rightarrow> ret h)"

definition generate_access_token ::
  "auth_env \<Rightarrow> time \<Rightarrow> uuid \<Rightarrow> string \<Rightarrow> int option \<Rightarrow> string" where
  "generate_access_token env now i email expiration_hours =
     (let hours = (case expiration_hours of None \<Rightarrow> jwt_expiration_hours env | Some h \<Rightarrow> h) in
      jwt_encode env \<lparr>cl_user_id = Some i, cl_email = email, cl_exp = now + hours * 3600,
        cl_iat = now\<rparr>)"

definition generate_token :: "auth_env \<Rightarrow> time \<Rightarrow> uuid \<Rightarrow> string \<Rightarrow> string" where
  "generate_token env now i email = generate_access_token env now i email None"

definition verify_token :: "auth_env \<Rightarrow> time \<Rightarrow> string \<Rightarrow> uuid option" where
  "verify_token env now token =
     (case jwt_decode env now token of
        None \<Rightarrow> None
      | Some payload \<Rightarrow>
          (case cl_user_id payload of
             None \<Rightarrow> None
           | Some s \<Rightarrow> if s = [] then None else parse_uuid s))"

section \<open>Registration\<close>

record user_data =
  ua_id :: string
  ua_email :: string
  ua_name :: string
  ua_role :: string
  ua_is_admin :: bool
  ua_access_levels :: "(uuid \<times> string \<times> string) list"
  ua_permissions :: "string list"
  ua_user_access_levels :: "(uuid \<times> string \<times> string) list"
  ua_user_permissions :: "string list"
  ua_account_type :: string

record auth_result =
  ar_success :: bool
  ar_user_id :: "uuid option"
  ar_token :: "string option"
  ar_error :: "string option"
  ar_user :: "user_data option"

definition auth_failure :: "string \<Rightarrow> auth_result" where
  "auth_failure e = \<lparr>ar_success = False, ar_user_id = None, ar_token = None, ar_error = Some e,
     ar_user = None\<rparr>"

definition auth_success :: "uuid \<Rightarrow> string \<Rightarrow> user_data option \<Rightarrow> auth_result" where
  "auth_success i token data = \<lparr>ar_success = True, ar_user_id = Some i, ar_token = Some token,
     ar_error = None, ar_user = data\<rparr>"

text \<open>The default access level; every failure is swallowed.\<close>

definition assign_default_access_level ::
  "driver \<Rightarrow> user \<Rightarrow> ('p account_db_scheme session, unit) prog" where
  "assign_default_access_level drv u =
     try_except
       (bindP (query (\<lambda>d. level_by_slug d ''logged-in'')) (\<lambda>level.
          case level of
            None \<Rightarrow> ret ()
          | Some l \<Rightarrow> bindP (assign_level drv (us_id u) (ro_id l)) (\<lambda>assigned.
              whenP assigned (commit drv))))
       (\<lambda>e. ret ())"

definition save_user :: "driver \<Rightarrow> user \<Rightarrow> ('p account_db_scheme session, unit) prog" where
  "save_user drv u = repo_save drv (\<lambda>d i. None) (put_user u) (Some (us_id u)) None"

definition register ::
  "auth_env \<Rightarrow> driver \<Rightarrow> (nat \<Rightarrow> uuid) \<Rightarrow> time \<Rightarrow> string \<Rightarrow> string
     \<Rightarrow> ('p account_db_scheme session, auth_result) prog" where
  "register env drv mint now email password =
     (if \<not> validate_email email then ret (auth_failure ''Invalid email format'')
      else case validate_password_strength password of
        Some password_error \<Rightarrow> ret (auth_failure password_error)
      | None \<Rightarrow>
          bindP (query (\<lambda>d. user_by_email d email)) (\<lambda>existing.
            case existing of
              Some _ \<Rightarrow> ret (auth_failure ''User with this email already exists'')
            | None \<Rightarrow>
                bindP (hash_password env password) (\<lambda>password_hash.
                bindP (gets (\<lambda>s. mint (calls s))) (\<lambda>new_id.
                let u = \<lparr>us_id = new_id, us_email = email, us_password_hash = password_hash,
                         us_status = User_ACTIVE, us_role = USER\<rparr> in
                seqP (save_user drv u)
                (seqP (assign_default_access_level drv u)
                (ret (auth_success new_id (generate_token env now new_id email) None)))))))"

section \<open>Login\<close>

definition details_of :: "'p account_db_scheme \<Rightarrow> uuid \<Rightarrow> user_details option" where
  "details_of d i = find_row ud_user_id i (ad_details d)"

definition opt_str :: "string option \<Rightarrow> string" where
  "opt_str v = (case v of None \<Rightarrow> [] | Some s \<Rightarrow> s)"

text \<open>The parts of \<open>User.to_dict\<close> that the login answer takes.\<close>

definition user_name :: "user_details option \<Rightarrow> string option" where
  "user_name details =
     (case details of
        None \<Rightarrow> None
      | Some ud \<Rightarrow>
          (let parts = filter (\<lambda>p. p \<noteq> [])
                 [opt_str (ud_fields ud ''first_name''), opt_str (ud_fields ud ''last_name'')]
           in case parts of
                [] \<Rightarrow> None
              | [a] \<Rightarrow> Some a
              | a # b # _ \<Rightarrow> Some (a @ '' '' @ b)))"

definition level_refs :: "'a admin_role_scheme list \<Rightarrow> (uuid \<times> string \<times> string) list" where
  "level_refs rows = map (\<lambda>r. (ro_id r, ro_slug r, ro_name r)) rows"

definition user_data_of :: "'p account_db_scheme \<Rightarrow> user \<Rightarrow> user_data" where
  "user_data_of d u =
     (let details = details_of d (us_id u) in
      \<lparr>ua_id = us_id u, ua_email = us_email u,
       ua_name = str_or (user_name details) (hd (split_on CHR ''@'' (us_email u))),
       ua_role = user_role_value (us_role u),
       ua_is_admin = is_admin u,
       ua_access_levels = level_refs (get_access_levels d u),
       ua_permissions = effective_permissions d u,
       ua_user_access_levels = level_refs (get_user_access_levels d u),
       ua_user_permissions = effective_user_permissions d u,
       ua_account_type =
         (case details of
            None \<Rightarrow> account_type_value PRIVATE
          | Some ud \<Rightarrow> str_or (ud_fields ud ''account_type'') (account_type_value PRIVATE))\<rparr>)"

definition login ::
  "auth_env \<Rightarrow> time \<Rightarrow> 'p account_db_scheme \<Rightarrow> string \<Rightarrow> string \<Rightarrow> auth_result" where
  "login env now d email password =
     (case user_by_email d email of
        None \<Rightarrow> auth_failure ''Invalid credentials''
      | Some u \<Rightarrow>
          if us_role u = BOT \<or> us_role u = GUEST then auth_failure ''Invalid credentials''
          else if us_status u \<noteq> User_ACTIVE then auth_failure ''User account is inactive''
          else if \<not> verify_password env password (us_password_hash u)
            then auth_failure ''Invalid credentials''
          else auth_success (us_id u) (generate_token env now (us_id u) (us_email u))
                 (Some (user_data_of d u)))"

section \<open>The guards of the routes\<close>

text \<open>
  \<open>g\<close>: an attribute that was never set is \<open>None\<close>. A response is a status and a body; the
  bodies kept here are the error texts and what the views themselves return.
\<close>

record response =
  rs_status :: nat
  rs_body :: json

record gctx =
  g_user_id :: "uuid option"
  g_user :: "user option option"
  g_api_key :: "api_key option"

definition empty_g :: gctx where
  "empty_g = \<lparr>g_user_id = None, g_user = None, g_api_key = None\<rparr>"

type_synonym 'p view = "gctx \<Rightarrow> ('p account_db_scheme session, response) prog"

definition answer :: "nat \<Rightarrow> json_dict \<Rightarrow> response" where
  "answer status kvs = \<lparr>rs_status = status, rs_body = JObj kvs\<rparr>"

definition error_answer :: "nat \<Rightarrow> string \<Rightarrow> response" where
  "error_answer status e = answer status [(''error'', JStr e)]"

text \<open>The bearer token of an \<open>Authorization\<close> header.\<close>

definition bearer_token :: "string \<Rightarrow> string option" where
  "bearer_token header =
     (case str_split header of
        [scheme, token] \<Rightarrow> if str_lower scheme = ''bearer'' then Some token else None
      | _ \<Rightarrow> None)"

definition require_auth :: "auth_env \<Rightarrow> time \<Rightarrow> string option \<Rightarrow> 'p view \<Rightarrow> 'p view" where
  "require_auth env now header f g =
     (if \<not> truthy header then ret (error_answer 401 ''Authorization header is required'')
      else case bearer_token (opt_str header) of
        None \<Rightarrow> ret (error_answer 401 ''Invalid Authorization header format'')
      | Some token \<Rightarrow>
          (case verify_token env now token of
             None \<Rightarrow> ret (error_answer 401 ''Invalid or expired token'')
           | Some i \<Rightarrow>
               bindP (query (\<lambda>d. user_by_id d i)) (\<lambda>found.
                 case found of
                   None \<Rightarrow> ret (error_answer 401 ''User not found'')
                 | Some u \<Rightarrow>
                     if user_status_value (us_status u) \<noteq> ''ACTIVE''
                     then ret (error_answer 401 ''User account is not active'')
                     else f (g\<lparr>g_user_id := Some i, g_user := Some (Some u)\<rparr>))))"

definition optional_auth :: "auth_env \<Rightarrow> time \<Rightarrow> string option \<Rightarrow> 'p view \<Rightarrow> 'p view" where
  "optional_auth env now header f g =
     (if \<not> truthy header then f g
      else case bearer_token (opt_str header) of
        None \<Rightarrow> f g
      | Some token \<Rightarrow>
          (case verify_token env now token of
             None \<Rightarrow> f g
           | Some i \<Rightarrow>
               bindP (query (\<lambda>d. user_by_id d i)) (\<lambda>found.
                 case found of
                   None \<Rightarrow> f g
                 | Some u \<Rightarrow>
                     if user_status_value (us_status u) = ''ACTIVE''
                     then f (g\<lparr>g_user_id := Some i, g_user := Some (Some u)\<rparr>)
                     else f g)))"

definition require_admin :: "'p view \<Rightarrow> 'p view" where
  "require_admin f g =
     (case g_user g of
        None \<Rightarrow> ret (error_answer 401 ''Authentication required'')
      | Some None \<Rightarrow> raise (OtherError ''NoneType object has no attribute is_admin'')
      | Some (Some u) \<Rightarrow>
          if \<not> is_admin u then ret (error_answer 403 ''Admin access required'') else f g)"

definition denied :: "string \<Rightarrow> response" where
  "denied perm = answer 403 [(''error'', JStr ''Permission denied''), (''required'', JStr perm)]"

text \<open>Both permission guards, for the check \<open>holds\<close> of a track.\<close>

definition permission_guard ::
  "('p account_db_scheme \<Rightarrow> user \<Rightarrow> string \<Rightarrow> bool) \<Rightarrow> string list \<Rightarrow> 'p view \<Rightarrow> 'p view" where
  "permission_guard holds permissions f g =
     (case g_user g of
        Some (Some u) \<Rightarrow>
          bindP (query (\<lambda>d. find (\<lambda>perm. \<not> holds d u perm) permissions)) (\<lambda>missing.
            case missing of Some perm \<Rightarrow> ret (denied perm) | None \<Rightarrow> f g)
      | _ \<Rightarrow> ret (error_answer 401 ''Authentication required''))"

definition require_permission :: "string list \<Rightarrow> 'p view \<Rightarrow> 'p view" where
  "require_permission = permission_guard has_permission"

definition require_user_permission :: "string list \<Rightarrow> 'p view \<Rightarrow> 'p view" where
  "require_user_permission = permission_guard has_user_permission"

section \<open>The entitlement port\<close>

text \<open>
  A registered provider answers from the state; without one, the configuration flag decides
  for every feature. \<open>identity\<close> is what the JWT extension found in the request, or its error.
\<close>

record 'd entitlement =
  en_feature_allowed :: "'d \<Rightarrow> uuid \<Rightarrow> string \<Rightarrow> bool"
  en_usage :: "'d \<Rightarrow> uuid \<Rightarrow> string \<Rightarrow> int \<Rightarrow> bool \<times> int option"

definition default_entitlement :: "bool option \<Rightarrow> 'd entitlement" where
  "default_entitlement flag =
     (let allows = (case flag of None \<Rightarrow> True | Some b \<Rightarrow> b) in
      \<lparr>en_feature_allowed = (\<lambda>_ _ _. allows),
       en_usage = (\<lambda>_ _ _ _. (allows, if allows then None else Some 0))\<rparr>)"

definition resolve_entitlement_provider ::
  "bool option \<Rightarrow> 'd entitlement option \<Rightarrow> 'd entitlement" where
  "resolve_entitlement_provider flag provider =
     (case provider of Some p \<Rightarrow> p | None \<Rightarrow> default_entitlement flag)"

definition require_feature ::
  "exn + uuid \<Rightarrow> 'p account_db_scheme entitlement \<Rightarrow> string \<Rightarrow> 'p view \<Rightarrow> 'p view" where
  "require_feature identity guard feature f g =
     (case identity of
        Inl e \<Rightarrow> raise e
      | Inr i \<Rightarrow>
          bindP (query (\<lambda>d. en_feature_allowed guard d i feature)) (\<lambda>ok.
            if ok then f g
            else ret (answer 403 [(''error'', JStr ''Feature not available''),
              (''feature'', JStr feature), (''upgrade_required'', JBool True),
              (''code'', JStr ''FEATURE_UNAVAILABLE'')])))"

definition check_usage_limit ::
  "exn + uuid \<Rightarrow> 'p account_db_scheme entitlement \<Rightarrow> string \<Rightarrow> int \<Rightarrow> (int option \<Rightarrow> 'p view) \<Rightarrow> 'p view" where
  "check_usage_limit identity guard feature amount f g =
     (case identity of
        Inl e \<Rightarrow> raise e
      | Inr i \<Rightarrow>
          bindP (query (\<lambda>d. en_usage guard d i feature amount)) (\<lambda>(allowed, remaining).
            if allowed then f remaining g
            else ret (answer 429 [(''error'', JStr ''Usage limit exceeded''),
              (''feature'', JStr feature),
              (''remaining'', case remaining of None \<Rightarrow> JNull | Some n \<Rightarrow> JInt n),
              (''code'', JStr ''LIMIT_EXCEEDED'')])))"

end
