(* ===== verification/PasswordReset.thy ===== *)
theory PasswordReset
  imports Auth Events
begin

text \<open>
  Password reset: \<open>PasswordResetRepository\<close>
  (\<open>vbwd/repositories/password_reset_repository.py\<close>), \<open>PasswordResetService\<close>
  (\<open>services/password_reset_service.py\<close>), the two event handlers
  (\<open>handlers/password_reset_handler.py\<close>) and the routes that emit their events, with the
  other authentication routes (\<open>routes/auth.py\<close>) and the change of one's own password
  (\<open>routes/user.py\<close>).

  Parameters: the clock and the random tokens, both read at the call count of the session,
  the e-mail service and the activity log (programs on the session).
\<close>

section \<open>PasswordResetRepository\<close>

type_synonym clock = "nat \<Rightarrow> time"

definition utcnow :: "clock \<Rightarrow> ('db session, time) prog" where
  "utcnow clk = gets (\<lambda>s. clk (calls s))"

definition find_by_token :: "'p account_db_scheme \<Rightarrow> string \<Rightarrow> reset_token option" where
  "find_by_token d token = find_row rt_token token (ad_resets d)"

definition create_token ::
  "driver \<Rightarrow> (nat \<Rightarrow> uuid) \<Rightarrow> uuid \<Rightarrow> string \<Rightarrow> time \<Rightarrow> ('p account_db_scheme session, unit) prog" where
  "create_token drv mint i token expires =
     bindP (gets (\<lambda>s. mint (calls s))) (\<lambda>new_id.
     seqP (on_db (\<lambda>d. d\<lparr>ad_resets := ad_resets d @
         [\<lparr>rt_id = new_id, rt_user_id = i, rt_token = token, rt_expires_at = expires,
           rt_used_at = None\<rparr>]\<rparr>))
       (commit drv))"

definition open_token :: "uuid \<Rightarrow> reset_token \<Rightarrow> bool" where
  "open_token i r \<longleftrightarrow> rt_user_id r = i \<and> rt_used_at r = None"

definition stamp_tokens ::
  "(reset_token \<Rightarrow> bool) \<Rightarrow> time \<Rightarrow> 'p account_db_scheme \<Rightarrow> 'p account_db_scheme" where
  "stamp_tokens P now d =
     d\<lparr>ad_resets := map (\<lambda>r. if P r then r\<lparr>rt_used_at := Some now\<rparr> else r) (ad_resets d)\<rparr>"

definition invalidate_tokens_for_user ::
  "driver \<Rightarrow> clock \<Rightarrow> uuid \<Rightarrow> ('p account_db_scheme session, nat) prog" where
  "invalidate_tokens_for_user drv clk i =
     bindP (query (\<lambda>d. length (filter (open_token i) (ad_resets d)))) (\<lambda>count.
     bindP (utcnow clk) (\<lambda>now.
     seqP (execute drv (stamp_tokens (open_token i) now))
     (seqP (commit drv) (ret count))))"

definition mark_used ::
  "driver \<Rightarrow> clock \<Rightarrow> uuid \<Rightarrow> ('p account_db_scheme session, bool) prog" where
  "mark_used drv clk token_id =
     bindP (query (\<lambda>d. find_row rt_id token_id (ad_resets d))) (\<lambda>found.
       case found of
         None \<Rightarrow> ret False
       | Some _ \<Rightarrow>
           bindP (utcnow clk) (\<lambda>now.
           seqP (on_db (stamp_tokens (\<lambda>r. rt_id r = token_id) now))
           (seqP (commit drv) (ret True))))"

definition cleanup_expired ::
  "driver \<Rightarrow> clock \<Rightarrow> int \<Rightarrow> ('p account_db_scheme session, nat) prog" where
  "cleanup_expired drv clk older_than_days =
     bindP (utcnow clk) (\<lambda>now.
     let cutoff = now - older_than_days * 86400 in
     bindP (query (\<lambda>d. length (filter (\<lambda>r. rt_expires_at r < cutoff) (ad_resets d)))) (\<lambda>count.
     seqP (execute drv (\<lambda>d. d\<lparr>ad_resets :=
         remove_rows (\<lambda>r. rt_expires_at r < cutoff) (ad_resets d)\<rparr>))
     (seqP (commit drv) (ret count))))"

section \<open>PasswordResetService\<close>

record reset_request_result =
  rq_success :: bool
  rq_user_id :: "string option"
  rq_email :: "string option"
  rq_token :: "string option"
  rq_expires_at :: "time option"
  rq_error :: "string option"

record reset_result =
  rr_success :: bool
  rr_user_id :: "string option"
  rr_email :: "string option"
  rr_error :: "string option"
  rr_failure_reason :: "string option"

definition token_expiry_hours :: int where
  "token_expiry_hours = 1"

definition create_reset_token ::
  "driver \<Rightarrow> (nat \<Rightarrow> uuid) \<Rightarrow> clock \<Rightarrow> (nat \<Rightarrow> string) \<Rightarrow> string
     \<Rightarrow> ('p account_db_scheme session, reset_request_result) prog" where
  "create_reset_token drv mint clk draw email =
     bindP (query (\<lambda>d. user_by_email d email)) (\<lambda>found.
       case found of
         None \<Rightarrow> ret \<lparr>rq_success = True, rq_user_id = None, rq_email = None, rq_token = None,
             rq_expires_at = None, rq_error = None\<rparr>
       | Some u \<Rightarrow>
           seqP (invalidate_tokens_for_user drv clk (us_id u))
           (bindP (gets (\<lambda>s. draw (calls s))) (\<lambda>token.
            bindP (utcnow clk) (\<lambda>now.
            let expires_at = now + token_expiry_hours * 3600 in
            seqP (create_token drv mint (us_id u) token expires_at)
            (ret \<lparr>rq_success = True, rq_user_id = Some (us_id u), rq_email = Some (us_email u),
               rq_token = Some token, rq_expires_at = Some expires_at, rq_error = None\<rparr>)))))"

definition reset_failure :: "string \<Rightarrow> string \<Rightarrow> reset_result" where
  "reset_failure e reason = \<lparr>rr_success = False, rr_user_id = None, rr_email = None,
     rr_error = Some e, rr_failure_reason = Some reason\<rparr>"

definition reset_password ::
  "auth_env \<Rightarrow> driver \<Rightarrow> clock \<Rightarrow> string \<Rightarrow> string
     \<Rightarrow> ('p account_db_scheme session, reset_result) prog" where
  "reset_password env drv clk token new_password =
     bindP (query (\<lambda>d. find_by_token d token)) (\<lambda>found.
       case found of
         None \<Rightarrow> ret (reset_failure ''Invalid token'' ''invalid'')
       | Some rt \<Rightarrow>
           bindP (utcnow clk) (\<lambda>now.
           if rt_expires_at rt < now then ret (reset_failure ''Token expired'' ''expired'')
           else if rt_used_at rt \<noteq> None
             then ret (reset_failure ''Token already used'' ''already_used'')
           else
             bindP (query (\<lambda>d. user_by_id d (rt_user_id rt))) (\<lambda>user.
               case user of
                 None \<Rightarrow> ret (reset_failure ''User not found'' ''invalid'')
               | Some u \<Rightarrow>
                   bindP (hash_password env new_password) (\<lambda>h.
                   seqP (on_db (put_user (u\<lparr>us_password_hash := h\<rparr>)))
                   (seqP (commit drv)
                   (seqP (mark_used drv clk (rt_id rt))
                   (ret \<lparr>rr_success = True, rr_user_id = Some (us_id u),
                      rr_email = Some (us_email u), rr_error = None,
                      rr_failure_reason = None\<rparr>)))))))"

section \<open>The event handlers\<close>

datatype reset_event =
    ResetRequest string "string option"
  | ResetExecute string string "string option"

text \<open>
  The collaborators of the handlers: \<open>send_template to template ctx\<close> and
  \<open>log action user_id metadata\<close>.
\<close>

record 's reset_ports =
  send_template :: "string \<Rightarrow> string \<Rightarrow> (string \<times> string) list \<Rightarrow> ('s, unit) prog"
  log_activity :: "string \<Rightarrow> string option \<Rightarrow> (string \<times> string option) list \<Rightarrow> ('s, unit) prog"
  reset_url_base :: string

type_synonym message = "(string \<times> string) list"

definition request_handler_do ::
  "'p account_db_scheme session reset_ports \<Rightarrow> driver \<Rightarrow> (nat \<Rightarrow> uuid) \<Rightarrow> clock \<Rightarrow> (nat \<Rightarrow> string)
     \<Rightarrow> string \<Rightarrow> string option \<Rightarrow> ('p account_db_scheme session, message event_result) prog" where
  "request_handler_do ports drv mint clk draw email ip =
     bindP (create_reset_token drv mint clk draw email) (\<lambda>result.
     seqP
       (if rq_success result \<and> truthy (rq_token result) then
          seqP (send_template ports (opt_str (rq_email result)) ''password_reset''
              [(''reset_url'', reset_url_base ports @ ''?token='' @ opt_str (rq_token result)),
               (''expires_in'', ''1 hour'')])
            (log_activity ports ''password_reset_requested'' (rq_user_id result) [(''ip'', ip)])
        else ret ())
       (ret (success_result (Some (One [(''message'', ''If email exists, reset link sent'')])))))"

definition execute_handler_do ::
  "'p account_db_scheme session reset_ports \<Rightarrow> auth_env \<Rightarrow> driver \<Rightarrow> clock \<Rightarrow> string \<Rightarrow> string
     \<Rightarrow> string option \<Rightarrow> ('p account_db_scheme session, message event_result) prog" where
  "execute_handler_do ports env drv clk token new_password ip =
     bindP (reset_password env drv clk token new_password) (\<lambda>result.
       if rr_success result then
         seqP (send_template ports (opt_str (rr_email result)) ''password_changed'' [])
         (seqP (log_activity ports ''password_reset_completed'' (rr_user_id result) [(''ip'', ip)])
         (ret (success_result (Some (One [(''message'', ''Password reset successful'')])))))
       else
         seqP (log_activity ports ''password_reset_failed'' None
             [(''reason'', rr_failure_reason result), (''ip'', ip),
              (''token_prefix'',
                Some (if length token > 8 then take 8 token @ ''...'' else token))])
         (ret (error_result (str_or (rr_error result) ''Unknown error'')
            (str_or (rr_failure_reason result) ''unknown''))))"

datatype reset_handler = RequestHandler | ExecuteHandler | LegacyHandler

fun reset_can_handle :: "reset_handler \<Rightarrow> reset_event \<Rightarrow> bool" where
  "reset_can_handle RequestHandler (ResetRequest _ _) = True"
| "reset_can_handle ExecuteHandler (ResetExecute _ _ _) = True"
| "reset_can_handle LegacyHandler _ = True"
| "reset_can_handle _ _ = False"

fun reset_handle ::
  "'p account_db_scheme session reset_ports \<Rightarrow> auth_env \<Rightarrow> driver \<Rightarrow> (nat \<Rightarrow> uuid) \<Rightarrow> clock
     \<Rightarrow> (nat \<Rightarrow> string) \<Rightarrow> reset_handler \<Rightarrow> reset_event
     \<Rightarrow> ('p account_db_scheme session, message event_result) prog" where
  "reset_handle ports env drv mint clk draw RequestHandler (ResetRequest email ip) =
     request_handler_do ports drv mint clk draw email ip"
| "reset_handle ports env drv mint clk draw ExecuteHandler (ResetExecute token pw ip) =
     execute_handler_do ports env drv clk token pw ip"
| "reset_handle ports env drv mint clk draw LegacyHandler (ResetRequest email ip) =
     request_handler_do ports drv mint clk draw email ip"
| "reset_handle ports env drv mint clk draw LegacyHandler (ResetExecute token pw ip) =
     execute_handler_do ports env drv clk token pw ip"
| "reset_handle ports env drv mint clk draw _ _ =
     ret (error_result ''Unexpected event type'' ''handler_error'')"

text \<open>The handlers as the application registers them (\<open>vbwd/app.py\<close>).\<close>

definition reset_handlers :: "reset_handler handler_table" where
  "reset_handlers =
     dispatcher_register ''security.password_reset.execute'' ExecuteHandler
       (dispatcher_register ''security.password_reset.request'' RequestHandler Map.empty)"

definition emit_reset ::
  "'p account_db_scheme session reset_ports \<Rightarrow> auth_env \<Rightarrow> driver \<Rightarrow> (nat \<Rightarrow> uuid) \<Rightarrow> clock
     \<Rightarrow> (nat \<Rightarrow> string) \<Rightarrow> reset_handler handler_table \<Rightarrow> reset_event
     \<Rightarrow> ('p account_db_scheme session, message event_result) prog" where
  "emit_reset ports env drv mint clk draw tbl event =
     emit (\<lambda>h ev. ret (reset_can_handle h ev)) (reset_handle ports env drv mint clk draw)
       (Some (\<lambda>name _. publish name [])) tbl
       (case event of
          ResetRequest _ _ \<Rightarrow> ''security.password_reset.request''
        | ResetExecute _ _ _ \<Rightarrow> ''security.password_reset.execute'')
       event"

section \<open>The routes\<close>

fun rdata_json :: "message rdata \<Rightarrow> json" where
  "rdata_json (One m) = JObj (map (\<lambda>(k, v). (k, JStr v)) m)"
| "rdata_json (Many ds) = JList (map rdata_json ds)"

text \<open>\<open>result.data or {"message": ...}\<close>.\<close>

definition message_json :: "message rdata option \<Rightarrow> string \<Rightarrow> json" where
  "message_json data fallback =
     (case data of
        Some (One (kv # kvs)) \<Rightarrow> rdata_json (One (kv # kvs))
      | Some (Many (d # ds)) \<Rightarrow> rdata_json (Many (d # ds))
      | _ \<Rightarrow> JObj [(''message'', JStr fallback)])"

text \<open>The request body after \<open>request.get_json() or {}\<close>; the fields of both routes are strings.\<close>

definition body_str :: "json_dict \<Rightarrow> string \<Rightarrow> string option" where
  "body_str data k = (case jget data k of JStr s \<Rightarrow> if s = [] then None else Some s | _ \<Rightarrow> None)"

definition forgot_password ::
  "(reset_event \<Rightarrow> ('p account_db_scheme session, message event_result) prog)
     \<Rightarrow> json_dict \<Rightarrow> string option \<Rightarrow> ('p account_db_scheme session, response) prog" where
  "forgot_password emit_event data ip =
     (case body_str data ''email'' of
        None \<Rightarrow> ret (error_answer 400 ''Email required'')
      | Some email \<Rightarrow>
          try_except
            (bindP (emit_event (ResetRequest email ip)) (\<lambda>result.
               ret \<lparr>rs_status = 200,
                 rs_body = message_json (er_data result) ''If email exists, reset link sent''\<rparr>))
            (\<lambda>e. ret (answer 200 [(''message'', JStr ''If email exists, reset link sent'')])))"

definition reset_password_route ::
  "(reset_event \<Rightarrow> ('p account_db_scheme session, message event_result) prog)
     \<Rightarrow> json_dict \<Rightarrow> string option \<Rightarrow> ('p account_db_scheme session, response) prog" where
  "reset_password_route emit_event data ip =
     (case (body_str data ''token'', body_str data ''new_password'') of
        (Some token, Some new_password) \<Rightarrow>
          try_except
            (bindP (emit_event (ResetExecute token new_password ip)) (\<lambda>result.
               ret (if er_success result
                    then \<lparr>rs_status = 200,
                      rs_body = message_json (er_data result) ''Password reset successful''\<rparr>
                    else error_answer 400 (opt_str (er_error result)))))
            (\<lambda>e. ret (error_answer 400 ''Password reset failed''))
      | _ \<Rightarrow> ret (error_answer 400 ''Token and new password required''))"

definition check_email ::
  "string option \<Rightarrow> ('p account_db_scheme session, response) prog" where
  "check_email arg =
     (let email = str_lower (str_strip (opt_str arg)) in
      if email = [] then ret (error_answer 400 ''Email required'')
      else bindP (query (\<lambda>d. user_by_email d email)) (\<lambda>u.
        ret (answer 200 [(''exists'', JBool (u \<noteq> None))])))"

text \<open>
  \<open>POST /register\<close> and \<open>/login\<close> after the schema has accepted the body. The answer carries
  the result; its rendering by the schema is the library's.
\<close>

definition auth_answer :: "nat \<Rightarrow> auth_result \<Rightarrow> response" where
  "auth_answer failure_status r =
     answer (if ar_success r then 200 else failure_status)
       [(''success'', JBool (ar_success r)),
        (''token'', case ar_token r of None \<Rightarrow> JNull | Some t \<Rightarrow> JStr t),
        (''user_id'', case ar_user_id r of None \<Rightarrow> JNull | Some i \<Rightarrow> JStr i),
        (''error'', case ar_error r of None \<Rightarrow> JNull | Some e \<Rightarrow> JStr e)]"

definition register_route ::
  "auth_env \<Rightarrow> driver \<Rightarrow> (nat \<Rightarrow> uuid) \<Rightarrow> time \<Rightarrow> string \<Rightarrow> string
     \<Rightarrow> ('p account_db_scheme session, response) prog" where
  "register_route env drv mint now email password =
     bindP (register env drv mint now email password) (\<lambda>r. ret (auth_answer 400 r))"

definition login_route ::
  "auth_env \<Rightarrow> time \<Rightarrow> string \<Rightarrow> string \<Rightarrow> ('p account_db_scheme session, response) prog" where
  "login_route env now email password =
     bindP (query (\<lambda>d. login env now d email password)) (\<lambda>r. ret (auth_answer 401 r))"

text \<open>\<open>POST /user/change-password\<close>, behind \<open>require_auth\<close>.\<close>

definition change_password :: "auth_env \<Rightarrow> driver \<Rightarrow> json_dict \<Rightarrow> 'p view" where
  "change_password env drv data g =
     (case (body_str data ''currentPassword'', body_str data ''newPassword'') of
        (Some current, Some new) \<Rightarrow>
          bindP (query (\<lambda>d. user_by_id d (opt_str (g_user_id g)))) (\<lambda>found.
            case found of
              None \<Rightarrow> ret (error_answer 404 ''User not found'')
            | Some u \<Rightarrow>
                if \<not> verify_password env current (us_password_hash u)
                then ret (error_answer 400 ''Current password is incorrect'')
                else
                  bindP (hash_password env new) (\<lambda>h.
                  seqP (save_user drv (u\<lparr>us_password_hash := h\<rparr>))
                  (ret (answer 200 [(''success'', JBool True)]))))
      | _ \<Rightarrow> ret (error_answer 400 ''Current password and new password are required''))"

end
