(* ===== verification/AuthFlow.thy ===== *)
theory AuthFlow
  imports PasswordReset AccessFlow
begin

text \<open>
  Properties of authentication: what opens a guarded route, what a login checks and what its
  token is good for, that a registered user can log in, and the life of a reset token.
\<close>

section \<open>Guards\<close>

text \<open>
  The reference: who a request is, and why it is turned away.
\<close>

definition authenticate ::
  "auth_env \<Rightarrow> time \<Rightarrow> 'p account_db_scheme \<Rightarrow> string option \<Rightarrow> string + (uuid \<times> user)" where
  "authenticate env now d header =
     (if \<not> truthy header then Inl ''Authorization header is required''
      else case bearer_token (opt_str header) of
        None \<Rightarrow> Inl ''Invalid Authorization header format''
      | Some token \<Rightarrow> (case verify_token env now token of
          None \<Rightarrow> Inl ''Invalid or expired token''
        | Some i \<Rightarrow> (case user_by_id d i of
            None \<Rightarrow> Inl ''User not found''
          | Some u \<Rightarrow> if is_active u then Inr (i, u) else Inl ''User account is not active'')))"

lemma active_value: "user_status_value (us_status u) = ''ACTIVE'' \<longleftrightarrow> is_active u"
  by (cases "us_status u") (simp_all add: is_active_def)

lemma require_auth_run:
  "require_auth env now header f g s =
     (case authenticate env now (pending s) header of
        Inl e \<Rightarrow> (Inr (error_answer 401 e), s)
      | Inr (i, u) \<Rightarrow> f (g\<lparr>g_user_id := Some i, g_user := Some (Some u)\<rparr>) s)"
  by (auto simp: require_auth_def authenticate_def active_value split: option.splits)

lemma permission_guard_run:
  assumes "g_user g = Some (Some u)"
  shows "permission_guard holds perms f g s =
     (case find (\<lambda>p. \<not> holds (pending s) u p) perms of
        Some p \<Rightarrow> (Inr (denied p), s)
      | None \<Rightarrow> f g s)"
  using assms by (simp add: permission_guard_def split: option.split)

text \<open>
  C5. A route behind \<open>require_auth\<close> and \<open>require_permission\<close>. The view runs exactly when
  the request carries a token that verifies, the token names a user that exists and is
  active, and that user holds every listed permission at that moment; it then runs once, on
  the unchanged state, with this user in \<open>g\<close>. Otherwise the answer is 401, or 403 naming the
  first permission that is missing, and the state is unchanged.
\<close>

theorem guarded_route:
  "require_auth env now header (require_permission perms view) g s =
     (case authenticate env now (pending s) header of
        Inl e \<Rightarrow> (Inr (error_answer 401 e), s)
      | Inr (i, u) \<Rightarrow>
          if list_all (has_permission (pending s) u) perms
          then view (g\<lparr>g_user_id := Some i, g_user := Some (Some u)\<rparr>) s
          else (Inr (denied (hd (filter (\<lambda>p. \<not> has_permission (pending s) u p) perms))), s))"
proof (cases "authenticate env now (pending s) header")
  case (Inl e)
  then show ?thesis by (simp add: require_auth_run)
next
  case (Inr iu)
  obtain i u where iu: "iu = (i, u)" by fastforce
  let ?miss = "\<lambda>p. \<not> has_permission (pending s) u p"
  show ?thesis
  proof (cases "find ?miss perms")
    case None
    then have "list_all (has_permission (pending s) u) perms"
      by (auto simp: find_None_iff list_all_iff)
    with Inr iu None show ?thesis
      by (simp add: require_auth_run require_permission_def permission_guard_run)
  next
    case (Some p)
    then have "\<not> list_all (has_permission (pending s) u) perms"
      by (auto simp: find_Some_iff list_all_iff)
    moreover have "hd (filter ?miss perms) = p"
      using Some by (induction perms) (auto split: if_splits)
    ultimately show ?thesis using Inr iu Some
      by (simp add: require_auth_run require_permission_def permission_guard_run)
  qed
qed

section \<open>Login\<close>

lemma login_outcome:
  "ar_success (login env now d email password) \<longleftrightarrow>
     (\<exists>u. user_by_email d email = Some u \<and> us_role u \<notin> {BOT, GUEST} \<and> is_active u \<and>
        verify_password env password (us_password_hash u))"
  by (auto simp: login_def auth_failure_def auth_success_def is_active_def split: option.splits)

lemma login_token:
  assumes "user_by_email d email = Some u" and "ar_success (login env now d email password)"
  shows "ar_user_id (login env now d email password) = Some (us_id u)"
    and "ar_token (login env now d email password) =
      Some (generate_token env now (us_id u) (us_email u))"
  using assms
  by (auto simp: login_def auth_failure_def auth_success_def split: if_splits)

text \<open>
  What is relied on of the JWT library: a token it signed is accepted from the time it was issued
  (before it, \<open>ImmatureSignatureError\<close> is raised) until it expires.
\<close>

definition jwt_accepts :: "auth_env \<Rightarrow> claims \<Rightarrow> bool" where
  "jwt_accepts env c \<longleftrightarrow> (\<forall>t. cl_iat c \<le> t \<longrightarrow> t < cl_exp c \<longrightarrow> jwt_decode env t (jwt_encode env c) = Some c)"

definition login_claims :: "auth_env \<Rightarrow> time \<Rightarrow> uuid \<Rightarrow> string \<Rightarrow> claims" where
  "login_claims env now i email = \<lparr>cl_user_id = Some i, cl_email = email,
     cl_exp = now + jwt_expiration_hours env * 3600, cl_iat = now\<rparr>"

lemma generate_token_claims:
  "generate_token env now i email = jwt_encode env (login_claims env now i email)"
  by (simp add: generate_token_def generate_access_token_def login_claims_def)

lemma verify_generated:
  assumes "jwt_accepts env (login_claims env now i email)" and "parse_uuid i = Some i"
    and "now \<le> t" and "t < now + jwt_expiration_hours env * 3600"
  shows "verify_token env t (generate_token env now i email) = Some i"
proof -
  have "i \<noteq> []" using assms(2) by (auto simp: parse_uuid_def strip_chars_def Let_def)
  with assms show ?thesis
    by (simp add: verify_token_def generate_token_claims jwt_accepts_def login_claims_def)
qed

lemma split_words_word:
  "\<lbrakk>list_all (\<lambda>c. \<not> is_blank c) w; w \<noteq> [] \<or> acc \<noteq> []\<rbrakk> \<Longrightarrow> split_words acc w = [rev acc @ w]"
  by (induction w arbitrary: acc) auto

lemma split_words_two:
  "\<lbrakk>list_all (\<lambda>c. \<not> is_blank c) v; v \<noteq> [] \<or> acc \<noteq> []; is_blank b\<rbrakk> \<Longrightarrow>
   split_words acc (v @ b # w) = (rev acc @ v) # split_words [] w"
  by (induction v arbitrary: acc) auto

lemma bearer_header:
  assumes "list_all (\<lambda>c. \<not> is_blank c) token" and "token \<noteq> []"
  shows "bearer_token (''Bearer '' @ token) = Some token"
proof -
  have "''Bearer '' @ token = ''Bearer'' @ CHR 0x20 # token" by simp
  moreover have "split_words [] (''Bearer'' @ CHR 0x20 # token) = [''Bearer'', token]"
    using split_words_two [of "''Bearer''" "[]" "CHR 0x20" token] split_words_word [of token "[]"] assms
    by (simp add: is_blank_def)
  moreover have "str_lower ''Bearer'' = ''bearer''" by code_simp
  ultimately show ?thesis by (simp add: bearer_token_def str_split_def)
qed

text \<open>
  C6. Login and the guard agree. A login succeeds exactly for a user with that address who is
  active, is neither a bot nor a guest, and whose stored hash the password verifies; and the
  token it hands out, sent as a bearer token from the time of the login until it expires, opens
  every route behind \<open>require_auth\<close> as that user, for as long as the account exists and is active.
\<close>

theorem login_opens_guard:
  assumes "user_by_email d email = Some u"
    and "jwt_accepts env (login_claims env now (us_id u) (us_email u))"
    and "now \<le> t" and "t < now + jwt_expiration_hours env * 3600" and "parse_uuid (us_id u) = Some (us_id u)"
    and "list_all (\<lambda>c. \<not> is_blank c) (generate_token env now (us_id u) (us_email u))"
    and "generate_token env now (us_id u) (us_email u) \<noteq> []"
  shows "(ar_success (login env now d email password) \<longleftrightarrow>
      us_role u \<notin> {BOT, GUEST} \<and> is_active u \<and> verify_password env password (us_password_hash u)) \<and>
    (ar_success (login env now d email password) \<longrightarrow>
      (\<exists>token. ar_token (login env now d email password) = Some token \<and>
        (case user_by_id (pending s) (us_id u) of
           Some w \<Rightarrow> is_active w \<longrightarrow>
             require_auth env t (Some (''Bearer '' @ token)) view g s =
               view (g\<lparr>g_user_id := Some (us_id u), g_user := Some (Some w)\<rparr>) s
         | None \<Rightarrow> True)))"
proof -
  let ?token = "generate_token env now (us_id u) (us_email u)"
  have auth: "authenticate env t (pending s) (Some (''Bearer '' @ ?token)) = Inr (us_id u, w)"
    if "user_by_id (pending s) (us_id u) = Some w" and "is_active w" for w
    using that bearer_header [OF assms(6,7)] verify_generated [OF assms(2,5,3,4)]
    by (simp add: authenticate_def opt_str_def)
  then have "require_auth env t (Some (''Bearer '' @ ?token)) view g s =
      view (g\<lparr>g_user_id := Some (us_id u), g_user := Some (Some w)\<rparr>) s"
    if "user_by_id (pending s) (us_id u) = Some w" and "is_active w" for w
    unfolding require_auth_run auth [OF that] by simp
  with login_token(2) [OF assms(1)] login_outcome [of env now d email password] assms(1)
  show ?thesis by (auto split: option.split)
qed

text \<open>An environment and a user for the examples: the hash of a password is itself, reversed.\<close>

definition demo_id :: uuid where
  "demo_id = ''00000000-0000-0000-0000-0000000000a1''"

definition demo_env :: auth_env where
  "demo_env = \<lparr>hash_pw = (\<lambda>n p. Inr (rev p)), check_pw = (\<lambda>p h. Inr (rev p = h)),
     jwt_encode = (\<lambda>c. ''tok''),
     jwt_decode = (\<lambda>t s. if s = ''tok'' \<and> t < 86400 then
        Some \<lparr>cl_user_id = Some demo_id, cl_email = ''a@b.cd'', cl_exp = 86400, cl_iat = 0\<rparr> else None),
     jwt_expiration_hours = 24\<rparr>"

definition demo_user :: user where
  "demo_user = \<lparr>us_id = demo_id, us_email = ''a@b.cd'', us_password_hash = ''9!terceS'',
     us_status = User_ACTIVE, us_role = USER\<rparr>"

definition demo_db :: account_db where
  "demo_db = empty_accounts\<lparr>ad_users := [demo_user]\<rparr>"

lemma demo_sel [simp]:
  "us_id demo_user = demo_id" "us_email demo_user = ''a@b.cd''" "us_role demo_user = USER"
  "us_status demo_user = User_ACTIVE" "us_password_hash demo_user = ''9!terceS''"
  "ad_users demo_db = [demo_user]" "jwt_expiration_hours demo_env = 24"
  "check_pw demo_env p h = Inr (rev p = h)" "hash_pw demo_env n p = Inr (rev p)"
  "jwt_encode demo_env c = ''tok''" "ad_resets demo_db = []" "ad_levels demo_db = []"
  by (simp_all add: demo_user_def demo_db_def demo_env_def empty_accounts_def)

lemma demo_uuid [simp]: "parse_uuid demo_id = Some demo_id"
  by code_simp

lemma demo_jwt: "jwt_accepts demo_env (login_claims demo_env 0 demo_id ''a@b.cd'')"
  by (simp add: jwt_accepts_def login_claims_def demo_env_def)

theorem login_opens_guard_witness:
  "ar_success (login demo_env 0 demo_db ''a@b.cd'' ''Secret!9'') \<and>
   require_auth demo_env 3600 (Some ''Bearer tok'') (\<lambda>g. ret (answer 200 [])) empty_g
     (open_session demo_db) = (Inr (answer 200 []), open_session demo_db)"
proof -
  have d: "user_by_email demo_db ''a@b.cd'' = Some demo_user"
    and i: "user_by_id (pending (open_session demo_db)) demo_id = Some demo_user"
    by (simp_all add: user_by_email_def user_by_id_def find_row_def)
  have tok: "generate_token demo_env 0 (us_id demo_user) (us_email demo_user) = ''tok''"
    by (simp add: generate_token_claims)
  have blank: "list_all (\<lambda>c. \<not> is_blank c) ''tok''" by (simp add: is_blank_def)
  have law: "jwt_accepts demo_env (login_claims demo_env 0 (us_id demo_user) (us_email demo_user))"
    by (simp add: demo_jwt)
  have now: "0 \<le> (3600 :: time)" by simp
  have t: "3600 < 0 + jwt_expiration_hours demo_env * 3600" by simp
  have u: "parse_uuid (us_id demo_user) = Some (us_id demo_user)" by simp
  have ok: "ar_success (login demo_env 0 demo_db ''a@b.cd'' ''Secret!9'')"
    and act: "is_active demo_user"
    by (auto simp: login_outcome d is_active_def verify_password_def)
  have "ar_token (login demo_env 0 demo_db ''a@b.cd'' ''Secret!9'') = Some ''tok''"
    using login_token(2) [OF d ok] tok by simp
  with login_opens_guard [OF d law now t u, unfolded tok, OF blank,
      where password = "''Secret!9''" and s = "open_session demo_db" and g = empty_g
        and view = "\<lambda>g. ret (answer 200 [])"] ok i act
  show ?thesis by simp
qed

end
