(* ===== verification/ResetFlow.thy ===== *)
theory ResetFlow
  imports AuthFlow
begin

text \<open>
  The life of a password reset token: it is good once, a new request replaces it, and the
  answer to a request does not tell whether the address is known.
\<close>

section \<open>Tokens that are spent\<close>

definition spent :: "string \<Rightarrow> 'p account_db_scheme \<Rightarrow> bool" where
  "spent token d \<longleftrightarrow> list_all (\<lambda>r. rt_token r = token \<longrightarrow> rt_used_at r \<noteq> None) (ad_resets d)"

lemma spent_refused:
  assumes "spent token (pending s)"
  shows "\<exists>r. reset_password env drv clk token pw s = (Inr r, s) \<and> \<not> rr_success r"
proof (cases "find_by_token (pending s) token")
  case None
  then show ?thesis by (simp add: reset_password_def reset_failure_def)
next
  case (Some rt)
  then have "rt_used_at rt \<noteq> None"
    using assms by (auto simp: spent_def find_by_token_def list_all_iff dest!: find_row_Some)
  with Some show ?thesis
    by (auto simp: reset_password_def reset_failure_def utcnow_def)
qed

lemma spent_stamp [simp]: "spent token d \<Longrightarrow> spent token (stamp_tokens P now d)"
  by (auto simp: spent_def stamp_tokens_def list_all_iff)

lemma spent_put_user [simp]: "spent token (put_user u d) = spent token d"
  by (simp add: spent_def put_user_def)

lemma sound_execute: "(\<And>d. Q d \<Longrightarrow> Q (f d)) \<Longrightarrow> sound Q (execute drv f)"
  unfolding execute_def by (intro sound_seqP sound_flush sound_on_db)

lemma sound_invalidate: "(\<And>P now d. Q d \<Longrightarrow> Q (stamp_tokens P now d)) \<Longrightarrow>
    sound Q (invalidate_tokens_for_user drv clk i)"
  unfolding invalidate_tokens_for_user_def utcnow_def
  by (intro sound_query_bind sound_bindP sound_gets sound_seqP sound_execute sound_commit sound_ret)

lemma sound_mark_used: "(\<And>P now d. Q d \<Longrightarrow> Q (stamp_tokens P now d)) \<Longrightarrow>
    sound Q (mark_used drv clk i)"
  unfolding mark_used_def utcnow_def
  by (auto intro!: sound_query_bind sound_bindP sound_seqP sound_on_db split: option.split)

lemma hash_password_run: "hash_password env pw s = (hash_pw env (calls s) pw, s)"
  by (simp add: hash_password_def split: sum.split)

lemma sound_at_hash [simp]:
  "sound_at Q (bindP (hash_password env pw) f) s =
     (case hash_pw env (calls s) pw of Inl e \<Rightarrow> Q (durable s) | Inr h \<Rightarrow> sound_at Q (f h) s)"
  by (simp add: sound_at_def bindP_def hash_password_run split: sum.split)

lemma sound_reset_password:
  assumes stamp: "\<And>P now d. Q d \<Longrightarrow> Q (stamp_tokens P now d)"
    and upd: "\<And>u h d. Q d \<Longrightarrow> user_by_id d (us_id u) = Some u \<Longrightarrow>
      Q (put_user (u\<lparr>us_password_hash := h\<rparr>) d)"
  shows "sound Q (reset_password env drv clk token pw)"
proof (rule soundI_at)
  fix s assume good: "both Q s"
  have change: "sound_at Q (bindP (hash_password env pw) (\<lambda>h.
      seqP (on_db (put_user (u\<lparr>us_password_hash := h\<rparr>))) (seqP (commit drv)
        (seqP (mark_used drv clk i) (ret r))))) s"
    if "user_by_id (pending s) j = Some u" for u j i and r :: reset_result
  proof -
    have "us_id u = j" using that by (auto simp: user_by_id_def dest: find_row_Some)
    with that upd good have "both Q (s\<lparr>pending := put_user (u\<lparr>us_password_hash := h\<rparr>) (pending s)\<rparr>)"
      for h by (auto simp: both_def)
    then show ?thesis using good
      by (auto simp: both_def split: sum.split
          intro!: sound_at_seqP sound_at_commit sound_seqP sound_mark_used stamp)
  qed
  show "sound_at Q (reset_password env drv clk token pw) s"
    using good change
    by (auto simp: reset_password_def utcnow_def split: option.split)
qed

lemma sound_create_reset_token:
  assumes stamp: "\<And>P now d. Q d \<Longrightarrow> Q (stamp_tokens P now d)"
    and add: "\<And>n i u now d. Q d \<Longrightarrow> Q (d\<lparr>ad_resets := ad_resets d @
        [\<lparr>rt_id = i, rt_user_id = u, rt_token = draw n, rt_expires_at = now, rt_used_at = None\<rparr>]\<rparr>)"
  shows "sound Q (create_reset_token drv mint clk draw email)"
proof -
  have 1: "sound Q (invalidate_tokens_for_user drv clk i)" for i
    using stamp by (rule sound_invalidate)
  have 2: "sound Q (bindP (gets (\<lambda>s. draw (calls s))) (\<lambda>token. bindP (utcnow clk) (\<lambda>now.
      let expires = now + token_expiry_hours * 3600 in
      seqP (create_token drv mint i token expires) (ret (r token expires)))))"
    for i and r :: "string \<Rightarrow> time \<Rightarrow> reset_request_result"
  proof (rule soundI_at)
    fix s assume "both Q s"
    then have "both Q (s\<lparr>pending := pending s\<lparr>ad_resets := ad_resets (pending s) @
        [\<lparr>rt_id = mint (calls s), rt_user_id = i, rt_token = draw (calls s),
          rt_expires_at = clk (calls s) + token_expiry_hours * 3600, rt_used_at = None\<rparr>]\<rparr>\<rparr>)"
      by (auto simp: both_def add)
    then show "sound_at Q (bindP (gets (\<lambda>s. draw (calls s))) (\<lambda>token. bindP (utcnow clk) (\<lambda>now.
      let expires = now + token_expiry_hours * 3600 in
      seqP (create_token drv mint i token expires) (ret (r token expires))))) s"
      by (auto simp: utcnow_def Let_def create_token_def intro!: sound_at_seqP sound_at_commit)
  qed
  show ?thesis unfolding create_reset_token_def
    by (rule sound_query_bind) (auto intro!: sound_seqP 1 2 split: option.split)
qed

lemma sound_cleanup:
  "(\<And>P d. Q d \<Longrightarrow> Q (d\<lparr>ad_resets := remove_rows P (ad_resets d)\<rparr>)) \<Longrightarrow> sound Q (cleanup_expired drv clk n)"
  unfolding cleanup_expired_def utcnow_def Let_def
  by (intro sound_query_bind sound_bindP sound_gets sound_seqP sound_execute sound_commit sound_ret)

section \<open>Single use\<close>

text \<open>What may happen to the tokens between two attempts, each in a session of its own.\<close>

datatype reset_op = RequestOp string | ExecuteOp string string | CleanupOp int

fun run_reset_op ::
  "auth_env \<Rightarrow> (nat \<Rightarrow> driver) \<Rightarrow> (nat \<Rightarrow> uuid) \<Rightarrow> clock \<Rightarrow> (nat \<Rightarrow> string) \<Rightarrow> nat \<Rightarrow> reset_op
     \<Rightarrow> ('p account_db_scheme session, unit) prog" where
  "run_reset_op env drv mint clk draw n (RequestOp email) =
     seqP (create_reset_token (drv n) mint clk draw email) (ret ())"
| "run_reset_op env drv mint clk draw n (ExecuteOp token pw) =
     seqP (reset_password env (drv n) clk token pw) (ret ())"
| "run_reset_op env drv mint clk draw n (CleanupOp days) =
     seqP (cleanup_expired (drv n) clk days) (ret ())"

fun run_reset_ops ::
  "auth_env \<Rightarrow> (nat \<Rightarrow> driver) \<Rightarrow> (nat \<Rightarrow> uuid) \<Rightarrow> clock \<Rightarrow> (nat \<Rightarrow> string) \<Rightarrow> reset_op list
     \<Rightarrow> 'p account_db_scheme \<Rightarrow> 'p account_db_scheme" where
  "run_reset_ops env drv mint clk draw [] d = d"
| "run_reset_ops env drv mint clk draw (op # ops) d =
     run_reset_ops env drv mint clk draw ops
       (durable (snd (run_reset_op env drv mint clk draw (length ops) op (open_session d))))"

lemma run_reset_ops_keep:
  assumes "\<And>n op. sound Q (run_reset_op env drv mint clk draw n op)" and "Q d"
  shows "Q (run_reset_ops env drv mint clk draw ops d)"
  using assms(2) by (induction ops arbitrary: d) (auto intro: sound_durable [OF assms(1)])

lemma spent_remove [simp]:
  "spent token d \<Longrightarrow> spent token (d\<lparr>ad_resets := remove_rows P (ad_resets d)\<rparr>)"
  by (auto simp: spent_def remove_rows_def list_all_iff)

lemma spent_kept:
  assumes "\<And>k. draw k \<noteq> token"
  shows "sound (spent token) (run_reset_op env drv mint clk draw n op)"
proof (cases op)
  case (RequestOp email)
  have "sound (spent token) (create_reset_token (drv n) mint clk draw email)"
    using assms by (intro sound_create_reset_token spent_stamp) (auto simp: spent_def)
  then show ?thesis by (auto simp: RequestOp)
next
  case (ExecuteOp t pw)
  have "sound (spent token) (reset_password env (drv n) clk t pw)"
    by (rule sound_reset_password) simp_all
  then show ?thesis by (auto simp: ExecuteOp)
next
  case (CleanupOp days)
  have "sound (spent token) (cleanup_expired (drv n) clk days)"
    by (rule sound_cleanup) simp
  then show ?thesis by (auto simp: CleanupOp)
qed

lemma mark_used_True:
  assumes "mark_used drv clk i s = (Inr b, s')"
  shows "if i \<in> rt_id ` set (ad_resets (pending s))
    then b \<and> durable s' = stamp_tokens (\<lambda>r. rt_id r = i) (clk (calls s)) (pending s) \<and> pending s' = durable s'
    else \<not> b \<and> s' = s"
proof (cases "find_row rt_id i (ad_resets (pending s))")
  case None
  with assms have "\<not> b \<and> s' = s" by (auto simp: mark_used_def)
  with None show ?thesis by (simp add: find_row_None)
next
  case (Some r)
  then have "i \<in> rt_id ` set (ad_resets (pending s))" by (auto dest: find_row_Some)
  with Some assms show ?thesis
    by (cases "drv (calls s)") (auto simp: mark_used_def utcnow_def seqP_def bindP_def)
qed

lemma put_user_resets [simp]: "ad_resets (put_user u d) = ad_resets d"
  by (simp add: put_user_def)

lemma reset_password_success:
  assumes "reset_password env drv clk token pw s = (Inr r, s')" and "rr_success r"
  shows "\<exists>rt u h. find_by_token (pending s) token = Some rt \<and>
    user_by_id (pending s) (rt_user_id rt) = Some u \<and> hash_pw env (calls s) pw = Inr h \<and>
    rt_used_at rt = None \<and> clk (calls s) \<le> rt_expires_at rt \<and>
    (\<exists>now. durable s' = stamp_tokens (\<lambda>r. rt_id r = rt_id rt) now
       (put_user (u\<lparr>us_password_hash := h\<rparr>) (pending s)))"
proof -
  obtain rt where rt: "find_by_token (pending s) token = Some rt"
    using assms by (cases "find_by_token (pending s) token")
      (auto simp: reset_password_def reset_failure_def)
  have ok: "\<not> rt_expires_at rt < clk (calls s)" "rt_used_at rt = None"
    using assms rt by (auto simp: reset_password_def reset_failure_def utcnow_def split: if_splits)
  obtain u where u: "user_by_id (pending s) (rt_user_id rt) = Some u"
    using assms rt ok by (cases "user_by_id (pending s) (rt_user_id rt)")
      (auto simp: reset_password_def reset_failure_def utcnow_def)
  obtain h where h: "hash_pw env (calls s) pw = Inr h"
    using assms rt ok u by (cases "hash_pw env (calls s) pw")
      (auto simp: reset_password_def utcnow_def bindP_def hash_password_run)
  let ?d = "put_user (u\<lparr>us_password_hash := h\<rparr>) (pending s)"
  have c: "drv (calls s) = None"
    using assms rt ok u h by (cases "drv (calls s)")
      (auto simp: reset_password_def utcnow_def bindP_def seqP_def hash_password_run)
  let ?t = "s\<lparr>pending := ?d, calls := Suc (calls s), durable := ?d\<rparr>"
  obtain b where m: "mark_used drv clk (rt_id rt) ?t = (Inr b, s')"
    using assms rt ok u h c
    by (auto simp: reset_password_def utcnow_def bindP_def seqP_def hash_password_run
        split: prod.splits sum.splits)
  have "rt_id rt \<in> rt_id ` set (ad_resets (pending ?t))"
    using rt by (auto simp: find_by_token_def dest: find_row_Some)
  with mark_used_True [OF m] have "durable s' = stamp_tokens (\<lambda>r. rt_id r = rt_id rt) (clk (Suc (calls s))) ?d"
    by simp
  with rt u h ok show ?thesis by (auto simp: not_less)
qed

text \<open>
  C8. A reset token is good once. After a reset that succeeded, whatever requests, resets and
  clean-ups follow, each under its own database faults, and none of which draws the same
  token again, the token is refused and the attempt changes nothing.
\<close>

theorem reset_token_single_use:
  assumes "reset_password env drv clk token pw (open_session d) = (Inr r, s1)"
    and "rr_success r" and "distinct (map rt_token (ad_resets d))" and "\<And>k. draw k \<noteq> token"
  shows "\<exists>r'. reset_password env' drv' clk' token pw'
        (open_session (run_reset_ops env ds mint clk2 draw ops (durable s1))) =
      (Inr r', open_session (run_reset_ops env ds mint clk2 draw ops (durable s1))) \<and>
    \<not> rr_success r'"
proof -
  obtain rt u h now where rt: "find_by_token d token = Some rt"
    and s1: "durable s1 = stamp_tokens (\<lambda>r. rt_id r = rt_id rt) now
       (put_user (u\<lparr>us_password_hash := h\<rparr>) d)"
    by (rule exE [OF reset_password_success [OF assms(1,2), unfolded open_session_sel]]) blast
  have "x = rt" if "x \<in> set (ad_resets d)" and "rt_token x = token" for x
    using find_row_mem [OF assms(3) that(1)] that(2) rt by (simp add: find_by_token_def)
  then have "spent token (durable s1)"
    by (auto simp: s1 spent_def stamp_tokens_def list_all_iff)
  with spent_kept [OF assms(4)] have "spent token (run_reset_ops env ds mint clk2 draw ops (durable s1))"
    by (rule run_reset_ops_keep)
  then show ?thesis by (intro spent_refused) simp
qed

definition demo_reset :: reset_token where
  "demo_reset = \<lparr>rt_id = ''t1'', rt_user_id = demo_id, rt_token = ''secret'', rt_expires_at = 3600,
     rt_used_at = None\<rparr>"

definition reset_db :: account_db where
  "reset_db = demo_db\<lparr>ad_resets := [demo_reset]\<rparr>"

lemma reset_db_sel [simp]:
  "ad_resets reset_db = [demo_reset]" "ad_users reset_db = [demo_user]" "rt_id demo_reset = ''t1''"
  "rt_token demo_reset = ''secret''" "rt_user_id demo_reset = demo_id"
  "rt_expires_at demo_reset = 3600" "rt_used_at demo_reset = None"
  by (simp_all add: reset_db_def demo_reset_def)

lemma reset_db_reads [simp]:
  "find_by_token reset_db ''secret'' = Some demo_reset" "user_by_id reset_db demo_id = Some demo_user"
  by (simp_all add: find_by_token_def user_by_id_def find_row_def)

lemma demo_reset_run:
  "\<exists>r s1. reset_password demo_env (\<lambda>_. None) (\<lambda>_. 60) ''secret'' ''New!pass1'' (open_session reset_db) =
     (Inr r, s1) \<and> rr_success r"
  by (simp add: reset_password_def utcnow_def bindP_def seqP_def hash_password_run mark_used_def
      find_row_def)

theorem reset_token_single_use_witness:
  "\<exists>(s1 :: account_db session) r'. reset_password demo_env (\<lambda>_. None) (\<lambda>_. 60) ''secret'' ''New!pass1''
        (open_session (run_reset_ops demo_env (\<lambda>_ _. None) (\<lambda>_. ''t2'') (\<lambda>_. 60) (\<lambda>_. ''other'')
           [RequestOp ''a@b.cd''] (durable s1))) =
      (Inr r', open_session (run_reset_ops demo_env (\<lambda>_ _. None) (\<lambda>_. ''t2'') (\<lambda>_. 60) (\<lambda>_. ''other'')
           [RequestOp ''a@b.cd''] (durable s1))) \<and> \<not> rr_success r'"
proof -
  obtain r s1 where run: "reset_password demo_env (\<lambda>_. None) (\<lambda>_. 60) ''secret'' ''New!pass1''
      (open_session reset_db) = (Inr r, s1)" and ok: "rr_success r"
    using demo_reset_run by blast
  have dist: "distinct (map rt_token (ad_resets reset_db))" by simp
  have draw: "\<And>k::nat. (\<lambda>_. ''other'') k \<noteq> ''secret''" by simp
  show ?thesis
    using reset_token_single_use [OF run ok dist draw, where env' = demo_env and drv' = "\<lambda>_. None"
        and clk' = "\<lambda>_. 60" and pw' = "''New!pass1''" and ds = "\<lambda>_ _. None" and mint = "\<lambda>_. ''t2''"
        and ?clk2.0 = "\<lambda>_. 60" and ops = "[RequestOp ''a@b.cd'']"]
    by blast
qed

section \<open>A fault in the middle\<close>

text \<open>
  The new password is committed before the token is marked as used: when the database
  fails between the two commits, the caller gets an exception, but the new password is in
  force and the token is still open, so that it can be used again.
\<close>

theorem reset_fault_keeps_token_open:
  assumes "find_by_token d token = Some rt" and "rt_used_at rt = None"
    and "clk 0 \<le> rt_expires_at rt" and "user_by_id d (rt_user_id rt) = Some u"
    and "hash_pw env 0 pw = Inr h" and "drv 0 = None" and "drv 1 = Some e"
  shows "\<exists>s'. reset_password env drv clk token pw (open_session d) = (Inl e, s') \<and>
    user_by_id (durable s') (rt_user_id rt) = Some (u\<lparr>us_password_hash := h\<rparr>) \<and>
    find_by_token (durable s') token = Some rt"
proof -
  let ?u = "u\<lparr>us_password_hash := h\<rparr>"
  have id: "us_id u = rt_user_id rt" using assms(4) by (auto simp: user_by_id_def dest: find_row_Some)
  have row: "rt \<in> set (ad_resets d)" using assms(1) by (auto simp: find_by_token_def dest: find_row_Some)
  obtain x where x: "find_row rt_id (rt_id rt) (ad_resets d) = Some x"
    using row by (cases "find_row rt_id (rt_id rt) (ad_resets d)") (auto simp: find_row_None)
  let ?d = "put_user ?u d"
  let ?s = "(open_session d)\<lparr>pending := ?d, calls := 1, durable := ?d\<rparr>"
  have mark: "mark_used drv clk (rt_id rt) ?s =
      (Inl e, ?s\<lparr>pending := stamp_tokens (\<lambda>r. rt_id r = rt_id rt) (clk 1) ?d, calls := 2\<rparr>)"
    using x assms(7) by (simp add: mark_used_def utcnow_def seqP_def bindP_def numeral_2_eq_2)
  have "reset_password env drv clk token pw (open_session d) =
      (Inl e, ?s\<lparr>pending := stamp_tokens (\<lambda>r. rt_id r = rt_id rt) (clk 1) ?d, calls := 2\<rparr>)"
    using assms mark
    by (simp add: reset_password_def utcnow_def bindP_def seqP_def hash_password_run)
  then show ?thesis
    using assms(1) id by (simp add: find_by_token_def user_by_id_def put_user_def)
qed

theorem reset_fault_keeps_token_open_witness:
  "\<exists>s'. reset_password demo_env (\<lambda>n. if n = 1 then Some (DatabaseError ''gone'') else None)
       (\<lambda>_. 60) ''secret'' ''New!pass1'' (open_session reset_db) = (Inl (DatabaseError ''gone''), s') \<and>
     user_by_id (durable s') demo_id = Some (demo_user\<lparr>us_password_hash := ''1ssap!weN''\<rparr>) \<and>
     find_by_token (durable s') ''secret'' = Some demo_reset"
proof -
  let ?drv = "\<lambda>n::nat. if n = 1 then Some (DatabaseError ''gone'') else None"
  have "find_by_token reset_db ''secret'' = Some demo_reset" and "rt_used_at demo_reset = None"
    and "(60::int) \<le> rt_expires_at demo_reset"
    and "user_by_id reset_db (rt_user_id demo_reset) = Some demo_user"
    and "hash_pw demo_env 0 ''New!pass1'' = Inr ''1ssap!weN''" and "?drv 0 = None"
    and "?drv 1 = Some (DatabaseError ''gone'')" by simp_all
  from reset_fault_keeps_token_open [of reset_db "''secret''" demo_reset "\<lambda>_. 60" demo_user demo_env
      "''New!pass1''" "''1ssap!weN''" ?drv "DatabaseError ''gone''", OF this]
  show ?thesis unfolding reset_db_sel .
qed

section \<open>What a request reveals\<close>

text \<open>E-mail and activity log, when they do not fail.\<close>

definition ports_ok :: "'s reset_ports \<Rightarrow> bool" where
  "ports_ok ports \<longleftrightarrow>
     (\<forall>a b c s. fst (send_template ports a b c s) = Inr ()) \<and>
     (\<forall>a b c s. fst (log_activity ports a b c s) = Inr ())"

lemma ports_ok_run:
  assumes "ports_ok ports"
  shows "\<exists>s'. send_template ports a b c s = (Inr (), s')"
    and "\<exists>s'. log_activity ports a' b' c' s = (Inr (), s')"
  using assms by (metis ports_ok_def prod.collapse)+

lemma create_reset_token_total: "\<exists>q s'. create_reset_token (\<lambda>_. None) mint clk draw email s = (Inr q, s')"
  by (auto simp: create_reset_token_def invalidate_tokens_for_user_def utcnow_def execute_def
      seqP_def bindP_def create_token_def Let_def split: option.split)

lemma request_handler_total:
  assumes "ports_ok ports"
  shows "\<exists>s'. request_handler_do ports (\<lambda>_. None) mint clk draw email ip s =
    (Inr (success_result (Some (One [(''message'', ''If email exists, reset link sent'')]))), s')"
proof -
  obtain q t where q: "create_reset_token (\<lambda>_. None) mint clk draw email s = (Inr q, t)"
    using create_reset_token_total by blast
  obtain t1 where m: "send_template ports (opt_str (rq_email q)) ''password_reset''
      [(''reset_url'', reset_url_base ports @ ''?token='' @ opt_str (rq_token q)),
       (''expires_in'', ''1 hour'')] t = (Inr (), t1)"
    using ports_ok_run(1) [OF assms] by blast
  obtain t2 where l: "log_activity ports ''password_reset_requested'' (rq_user_id q) [(''ip'', ip)] t1 =
      (Inr (), t2)"
    using ports_ok_run(2) [OF assms] by blast
  show ?thesis
    by (cases "rq_success q \<and> truthy (rq_token q)")
      (use q m l in \<open>auto simp: request_handler_do_def bindP_def seqP_def\<close>)
qed

lemma reset_handlers_request:
  "reset_handlers ''security.password_reset.request'' = Some [RequestHandler]"
  by (simp add: reset_handlers_def dispatcher_register_def)

lemma combine_one: "combine [success_result (Some x)] = success_result (Some (Many [x]))"
  by (simp add: combine_def)

text \<open>
  A request for a reset answers the same whether or not the address is known: as long as
  the database, the e-mail service and the log do not fail, the response to a non-empty
  address is one and the same, whatever the tables hold. (It is a list with the message in
  it, as the dispatcher collects the handlers' data.)
\<close>

theorem forgot_password_reveals_nothing:
  assumes "ports_ok ports" and "email \<noteq> []"
  shows "fst (forgot_password (emit_reset ports env (\<lambda>_. None) mint clk draw reset_handlers)
      [(''email'', JStr email)] ip s) =
    Inr \<lparr>rs_status = 200,
      rs_body = JList [JObj [(''message'', JStr ''If email exists, reset link sent'')]]\<rparr>"
proof -
  obtain t where h: "request_handler_do ports (\<lambda>_. None) mint clk draw email ip s =
    (Inr (success_result (Some (One [(''message'', ''If email exists, reset link sent'')]))), t)"
    using request_handler_total [OF assms(1)] by blast
  let ?emit = "emit_reset ports env (\<lambda>_. None) mint clk draw reset_handlers"
  have "\<exists>u. ?emit (ResetRequest email ip) s =
      (Inr (success_result (Some (Many [One [(''message'', ''If email exists, reset link sent'')]]))), u)"
    using h by (simp add: emit_reset_def emit_def reset_handlers_request try_handler_def
        try_except_def bindP_def seqP_def combine_one)
  then show ?thesis
    using assms(2) by (auto simp: forgot_password_def body_str_def jget_def try_except_def bindP_def
        message_json_def)
qed

definition quiet_ports :: "'s reset_ports" where
  "quiet_ports = \<lparr>send_template = (\<lambda>_ _ _. ret ()), log_activity = (\<lambda>_ _ _. ret ()),
     reset_url_base = ''http://app/reset''\<rparr>"

theorem forgot_password_reveals_nothing_witness:
  "list_all (\<lambda>email. fst (forgot_password (emit_reset quiet_ports demo_env (\<lambda>_. None) (\<lambda>_. ''t2'')
        (\<lambda>_. 60) (\<lambda>_. ''other'') reset_handlers) [(''email'', JStr email)] None (open_session reset_db)) =
      Inr \<lparr>rs_status = 200,
        rs_body = JList [JObj [(''message'', JStr ''If email exists, reset link sent'')]]\<rparr>)
    [''a@b.cd'', ''nobody@b.cd'']"
proof -
  have "ports_ok (quiet_ports :: account_db session reset_ports)"
    by (simp add: ports_ok_def quiet_ports_def)
  from forgot_password_reveals_nothing [OF this] show ?thesis by simp
qed

end
