(* ===== verification/ApiKeys.thy ===== *)
theory ApiKeys
  imports PasswordReset IpNet
begin

text \<open>
  API keys: \<open>ApiKeyRepository\<close> and \<open>ApiKeyService\<close>
  (\<open>vbwd/services/api_key_service.py\<close>), the guard \<open>require_api_key\<close>
  (\<open>middleware/api_key_auth.py\<close>), the scope catalogue (\<open>services/api_scope_registry.py\<close>)
  and the routes (\<open>routes/api_keys.py\<close>, \<open>routes/admin/api_keys.py\<close>).

  Parameters: the digest of a key (SHA-256), the random tokens, the clock, the enabled
  plugins with the scopes they declare.
\<close>

section \<open>Scopes\<close>

record api_scope =
  sc_key :: string
  sc_user_grantable :: bool

type_synonym scope_catalog = "(string \<times> api_scope list) list"

definition collect_api_scopes :: "(string \<times> api_scope list) list option \<Rightarrow> scope_catalog" where
  "collect_api_scopes enabled =
     (case enabled of
        None \<Rightarrow> [(''core'', [])]
      | Some plugins \<Rightarrow>
          foldl (\<lambda>cat (name, scopes). if scopes = [] then cat else dict_set name scopes cat)
            [(''core'', [])] plugins)"

definition collect_user_grantable_scopes ::
  "(string \<times> api_scope list) list option \<Rightarrow> scope_catalog" where
  "collect_user_grantable_scopes enabled =
     foldl (\<lambda>cat (source, scopes).
         if source = ''core'' then cat
         else let allowed = filter sc_user_grantable scopes
              in if allowed = [] then cat else dict_set source allowed cat)
       [(''core'', [])] (collect_api_scopes enabled)"

definition grantable_scope_keys :: "(string \<times> api_scope list) list option \<Rightarrow> string list" where
  "grantable_scope_keys enabled =
     concat (map (\<lambda>(_, scopes). map sc_key scopes) (collect_user_grantable_scopes enabled))"

section \<open>Repository and service\<close>

definition key_by_id :: "'p account_db_scheme \<Rightarrow> uuid \<Rightarrow> api_key option" where
  "key_by_id d i = find_row ak_id i (ad_keys d)"

definition find_by_hash :: "'p account_db_scheme \<Rightarrow> string \<Rightarrow> api_key option" where
  "find_by_hash d h = find_row ak_key_hash h (ad_keys d)"

text \<open>Newest first: the table is in the order of creation.\<close>

definition find_by_user :: "'p account_db_scheme \<Rightarrow> uuid \<Rightarrow> api_key list" where
  "find_by_user d i = rev (filter (\<lambda>k. ak_user_id k = i) (ad_keys d))"

definition put_key :: "api_key \<Rightarrow> 'p account_db_scheme \<Rightarrow> 'p account_db_scheme" where
  "put_key k d = d\<lparr>ad_keys := upsert ak_id k (ad_keys d)\<rparr>"

definition save_key :: "driver \<Rightarrow> api_key \<Rightarrow> ('p account_db_scheme session, unit) prog" where
  "save_key drv k = repo_save drv (\<lambda>d i. None) (put_key k) (Some (ak_id k)) None"

definition token_prefix :: string where
  "token_prefix = ''vbwdk_''"

definition generate_key ::
  "driver \<Rightarrow> (string \<Rightarrow> string) \<Rightarrow> (nat \<Rightarrow> uuid) \<Rightarrow> (nat \<Rightarrow> string) \<Rightarrow> uuid \<Rightarrow> string
     \<Rightarrow> string list \<Rightarrow> string list option \<Rightarrow> uuid option
     \<Rightarrow> ('p account_db_scheme session, api_key \<times> string) prog" where
  "generate_key drv digest mint draw i label scopes ips created_by =
     bindP (gets (\<lambda>s. (mint (calls s), token_prefix @ draw (calls s)))) (\<lambda>(new_id, plaintext).
     let k = \<lparr>ak_id = new_id, ak_user_id = i, ak_label = label, ak_key_hash = digest plaintext,
         ak_key_prefix = take 10 plaintext, ak_scopes = scopes,
         ak_ip_whitelist = (case ips of None \<Rightarrow> [] | Some l \<Rightarrow> l), ak_is_active = True,
         ak_created_by = str_or created_by i, ak_last_used_at = None\<rparr> in
     seqP (save_key drv k) (ret (k, plaintext)))"

definition verify_key ::
  "(string \<Rightarrow> string) \<Rightarrow> 'p account_db_scheme \<Rightarrow> string option \<Rightarrow> api_key option" where
  "verify_key digest d plaintext =
     (if \<not> truthy plaintext then None
      else let presented = digest (opt_str plaintext) in
        (case find_by_hash d presented of
           None \<Rightarrow> None
         | Some k \<Rightarrow>
             if \<not> ak_is_active k then None
             else if ak_key_hash k \<noteq> presented then None
             else Some k))"

fun any_network :: "ip \<Rightarrow> string list \<Rightarrow> bool" where
  "any_network a [] = False"
| "any_network a (e # es) =
     (case parse_network e of
        None \<Rightarrow> any_network a es
      | Some n \<Rightarrow> if in_network a n then True else any_network a es)"

definition is_ip_allowed :: "api_key \<Rightarrow> string option \<Rightarrow> bool" where
  "is_ip_allowed k client_ip =
     (if ak_ip_whitelist k = [] then True
      else if \<not> truthy client_ip then False
      else case parse_ip (opt_str client_ip) of
        None \<Rightarrow> False
      | Some a \<Rightarrow> any_network a (ak_ip_whitelist k))"

definition has_scope :: "api_key \<Rightarrow> string \<Rightarrow> bool" where
  "has_scope k required \<longleftrightarrow> required \<in> set (ak_scopes k)"

text \<open>\<open>touch\<close> writes the time on the row as it is now, not on the copy the guard holds.\<close>

definition touch_row :: "uuid \<Rightarrow> time \<Rightarrow> 'p account_db_scheme \<Rightarrow> 'p account_db_scheme" where
  "touch_row i now d = d\<lparr>ad_keys :=
     map (\<lambda>k. if ak_id k = i then k\<lparr>ak_last_used_at := Some now\<rparr> else k) (ad_keys d)\<rparr>"

definition touch ::
  "driver \<Rightarrow> clock \<Rightarrow> api_key \<Rightarrow> ('p account_db_scheme session, unit) prog" where
  "touch drv clk k =
     bindP (utcnow clk) (\<lambda>now.
       repo_save drv (\<lambda>d i. None) (touch_row (ak_id k) now) (Some (ak_id k)) None)"

definition deactivate :: "uuid \<Rightarrow> 'p account_db_scheme \<Rightarrow> 'p account_db_scheme" where
  "deactivate i d = d\<lparr>ad_keys :=
     map (\<lambda>k. if ak_id k = i then k\<lparr>ak_is_active := False\<rparr> else k) (ad_keys d)\<rparr>"

definition repo_revoke_key ::
  "driver \<Rightarrow> uuid \<Rightarrow> ('p account_db_scheme session, bool) prog" where
  "repo_revoke_key drv i =
     bindP (query (\<lambda>d. key_by_id d i)) (\<lambda>found.
       case found of
         None \<Rightarrow> ret False
       | Some _ \<Rightarrow> seqP (on_db (deactivate i)) (seqP (commit drv) (ret True)))"

definition revoke_key ::
  "driver \<Rightarrow> uuid \<Rightarrow> uuid option \<Rightarrow> ('p account_db_scheme session, bool) prog" where
  "revoke_key drv i owner =
     bindP (query (\<lambda>d. key_by_id d i)) (\<lambda>found.
       case found of
         None \<Rightarrow> ret False
       | Some k \<Rightarrow>
           if owner \<noteq> None \<and> owner \<noteq> Some (ak_user_id k)
           then raise (PermissionError ''API key does not belong to the requesting user'')
           else repo_revoke_key drv i)"

definition drop_key :: "uuid \<Rightarrow> 'p account_db_scheme \<Rightarrow> 'p account_db_scheme" where
  "drop_key i d = d\<lparr>ad_keys := remove_rows (\<lambda>k. ak_id k = i) (ad_keys d)\<rparr>"

definition delete_key :: "driver \<Rightarrow> uuid \<Rightarrow> ('p account_db_scheme session, bool) prog" where
  "delete_key drv i = repo_delete drv (\<lambda>d j. key_by_id d j \<noteq> None) drop_key i"

section \<open>The guard\<close>

record key_request =
  kr_api_key :: "string option"
  kr_forwarded :: "string option"
  kr_remote_addr :: "string option"

definition client_ip :: "bool \<Rightarrow> key_request \<Rightarrow> string" where
  "client_ip trust_forwarded req =
     (if trust_forwarded \<and> truthy (kr_forwarded req)
      then str_strip (hd (split_on CHR '','' (opt_str (kr_forwarded req))))
      else opt_str (kr_remote_addr req))"

definition require_api_key ::
  "driver \<Rightarrow> (string \<Rightarrow> string) \<Rightarrow> clock \<Rightarrow> bool \<Rightarrow> key_request \<Rightarrow> string option \<Rightarrow> 'p view \<Rightarrow> 'p view" where
  "require_api_key drv digest clk trust req scope f g =
     (if \<not> truthy (kr_api_key req) then ret (error_answer 401 ''API key is required'')
      else bindP (query (\<lambda>d. verify_key digest d (kr_api_key req))) (\<lambda>verified.
        case verified of
          None \<Rightarrow> ret (error_answer 401 ''Invalid or inactive API key'')
        | Some k \<Rightarrow>
            if \<not> is_ip_allowed k (Some (client_ip trust req))
            then ret (error_answer 403 ''IP not allowed'')
            else if scope \<noteq> None \<and> \<not> has_scope k (opt_str scope)
            then ret (answer 403 [(''error'', JStr ''Scope not granted''),
                   (''required'', JStr (opt_str scope))])
            else
              seqP (touch drv clk k)
              (bindP (query (\<lambda>d. user_by_id d (ak_user_id k))) (\<lambda>u.
                f (g\<lparr>g_user_id := Some (ak_user_id k), g_user := Some u, g_api_key := Some k\<rparr>)))))"

section \<open>The routes\<close>

definition str_list_json :: "string list \<Rightarrow> json" where
  "str_list_json ss = JList (map JStr ss)"

definition key_json :: "api_key \<Rightarrow> json_dict" where
  "key_json k =
     [(''id'', JStr (ak_id k)), (''user_id'', JStr (ak_user_id k)), (''label'', JStr (ak_label k)),
      (''key_prefix'', JStr (ak_key_prefix k)), (''scopes'', str_list_json (ak_scopes k)),
      (''ip_whitelist'', str_list_json (ak_ip_whitelist k)), (''is_active'', JBool (ak_is_active k)),
      (''created_by_user_id'', JStr (ak_created_by k))]"

definition api_key_health :: "'p view" where
  "api_key_health g =
     (case g_api_key g of
        None \<Rightarrow> raise (OtherError ''api_key'')
      | Some k \<Rightarrow> ret (answer 200
          [(''ok'', JBool True), (''message'', JStr ''API key is valid''),
           (''user_id'', JStr (opt_str (g_user_id g))), (''key_prefix'', JStr (ak_key_prefix k)),
           (''label'', JStr (ak_label k)), (''scopes'', str_list_json (ak_scopes k)),
           (''ip_whitelist'', str_list_json (ak_ip_whitelist k))]))"

definition list_own_keys :: "'p view" where
  "list_own_keys g =
     bindP (query (\<lambda>d. find_by_user d (opt_str (g_user_id g)))) (\<lambda>ks.
       ret (answer 200 [(''api_keys'', JList (map (\<lambda>k. JObj (key_json k)) ks))]))"

text \<open>The fields \<open>label\<close>, \<open>scopes\<close> and \<open>ip_whitelist\<close> of the body, of their documented types.\<close>

fun str_items :: "json \<Rightarrow> string list" where
  "str_items (JList vs) = concat (map (\<lambda>v. case v of JStr s \<Rightarrow> [s] | _ \<Rightarrow> []) vs)"
| "str_items _ = []"

definition create_own_key ::
  "driver \<Rightarrow> (string \<Rightarrow> string) \<Rightarrow> (nat \<Rightarrow> uuid) \<Rightarrow> (nat \<Rightarrow> string)
     \<Rightarrow> (string \<times> api_scope list) list option \<Rightarrow> json_dict \<Rightarrow> 'p view" where
  "create_own_key drv digest mint draw plugins data g =
     (let label = str_strip (opt_str (body_str data ''label''));
          requested = str_items (jget data ''scopes'');
          forbidden = filter (\<lambda>s. s \<notin> set (grantable_scope_keys plugins)) requested
      in if label = [] then ret (error_answer 400 ''label is required'')
         else if forbidden \<noteq> [] then
           ret (answer 403 [(''error'', JStr ''Scope not self-grantable''),
             (''scopes'', str_list_json forbidden)])
         else
           bindP (generate_key drv digest mint draw (opt_str (g_user_id g)) label requested
               (Some (str_items (jget data ''ip_whitelist''))) (g_user_id g)) (\<lambda>(k, plaintext).
             ret (answer 201 [(''api_key'', JObj (key_json k @ [(''plaintext'', JStr plaintext)]))])))"

definition revoke_own_key :: "driver \<Rightarrow> uuid \<Rightarrow> 'p view" where
  "revoke_own_key drv i g =
     try_except
       (bindP (revoke_key drv i (g_user_id g)) (\<lambda>revoked.
          ret (if \<not> revoked then error_answer 404 ''Not found''
               else answer 200 [(''message'', JStr ''API key revoked'')])))
       (\<lambda>e. case e of PermissionError _ \<Rightarrow> ret (error_answer 404 ''Not found'') | _ \<Rightarrow> raise e)"

definition delete_own_key :: "driver \<Rightarrow> uuid \<Rightarrow> 'p view" where
  "delete_own_key drv i g =
     bindP (query (\<lambda>d. key_by_id d i)) (\<lambda>found.
       case found of
         None \<Rightarrow> ret (error_answer 404 ''Not found'')
       | Some k \<Rightarrow>
           if ak_user_id k \<noteq> opt_str (g_user_id g) then ret (error_answer 404 ''Not found'')
           else seqP (delete_key drv i)
                  (ret (answer 200 [(''message'', JStr ''API key deleted'')])))"

definition admin_create_user_key ::
  "driver \<Rightarrow> (string \<Rightarrow> string) \<Rightarrow> (nat \<Rightarrow> uuid) \<Rightarrow> (nat \<Rightarrow> string) \<Rightarrow> uuid \<Rightarrow> json_dict \<Rightarrow> 'p view" where
  "admin_create_user_key drv digest mint draw i data g =
     bindP (query (\<lambda>d. user_by_id d i)) (\<lambda>u.
       case u of
         None \<Rightarrow> ret (error_answer 404 ''User not found'')
       | Some _ \<Rightarrow>
           (let label = str_strip (opt_str (body_str data ''label'')) in
            if label = [] then ret (error_answer 400 ''label is required'')
            else
              bindP (generate_key drv digest mint draw i label (str_items (jget data ''scopes''))
                  (Some (str_items (jget data ''ip_whitelist''))) (g_user_id g)) (\<lambda>(k, plaintext).
                ret (answer 201 [(''api_key'',
                  JObj (key_json k @ [(''plaintext'', JStr plaintext)]))]))))"

definition admin_list_user_keys :: "uuid \<Rightarrow> 'p view" where
  "admin_list_user_keys i g =
     bindP (query (\<lambda>d. user_by_id d i)) (\<lambda>u.
       case u of
         None \<Rightarrow> ret (error_answer 404 ''User not found'')
       | Some _ \<Rightarrow> bindP (query (\<lambda>d. find_by_user d i)) (\<lambda>ks.
           ret (answer 200 [(''api_keys'', JList (map (\<lambda>k. JObj (key_json k)) ks))])))"

definition admin_revoke_key :: "driver \<Rightarrow> uuid \<Rightarrow> 'p view" where
  "admin_revoke_key drv i g =
     bindP (revoke_key drv i None) (\<lambda>revoked.
       ret (if \<not> revoked then error_answer 404 ''Not found''
            else answer 200 [(''message'', JStr ''API key revoked'')]))"

definition admin_delete_key :: "driver \<Rightarrow> uuid \<Rightarrow> 'p view" where
  "admin_delete_key drv i g =
     bindP (delete_key drv i) (\<lambda>deleted.
       ret (if \<not> deleted then error_answer 404 ''Not found''
            else answer 200 [(''message'', JStr ''API key deleted'')]))"

end
