(* ===== verification/ApiKeyFlow.thy ===== *)
theory ApiKeyFlow
  imports ApiKeys AuthFlow
begin

text \<open>
  Properties of API keys: what opens a route behind \<open>require_api_key\<close>, which addresses a
  whitelist lets in, and that a revoked key is refused.
\<close>

section \<open>The whitelist\<close>

text \<open>A network as the interval of the addresses it contains.\<close>

fun network_first :: "network \<Rightarrow> nat" where
  "network_first (Net4 n p) = unat n div 2 ^ (32 - p) * 2 ^ (32 - p)"
| "network_first (Net6 n p) = unat n div 2 ^ (128 - p) * 2 ^ (128 - p)"

fun network_size :: "network \<Rightarrow> nat" where
  "network_size (Net4 n p) = 2 ^ (32 - p)"
| "network_size (Net6 n p) = 2 ^ (128 - p)"

fun ip_number :: "ip \<Rightarrow> nat" where
  "ip_number (V4 a) = unat a"
| "ip_number (V6 a) = unat a"

fun same_version :: "ip \<Rightarrow> network \<Rightarrow> bool" where
  "same_version (V4 a) (Net4 n p) = True"
| "same_version (V6 a) (Net6 n p) = True"
| "same_version _ _ = False"

definition covers :: "network \<Rightarrow> ip \<Rightarrow> bool" where
  "covers n a \<longleftrightarrow> same_version a n \<and> network_first n \<le> ip_number a \<and>
     ip_number a < network_first n + network_size n"

lemma in_network_covers: "in_network a n \<longleftrightarrow> covers n a"
  by (cases "(a, n)" rule: in_network.cases) (simp_all add: covers_def in_prefix_interval Let_def)

lemma any_network_ex:
  "any_network a es \<longleftrightarrow>
     list_ex (\<lambda>e. case parse_network e of None \<Rightarrow> False | Some n \<Rightarrow> in_network a n) es"
  by (induction es) (auto split: option.split)

lemma parse_ip_empty: "parse_ip [] = None"
  by code_simp

text \<open>
  The IP whitelist of a key. An empty whitelist lets every client in. Otherwise the
  client's address must parse, and some entry that parses as a network of the same version
  must cover it: the number of the address lies in the interval of \<open>2 ^ (w - p)\<close> numbers
  that starts at the network's number rounded down to a multiple of it. Entries that do not
  parse let nobody in.
\<close>

theorem whitelist_intervals:
  "is_ip_allowed k (Some client) \<longleftrightarrow>
     ak_ip_whitelist k = [] \<or>
     (case parse_ip client of
        None \<Rightarrow> False
      | Some a \<Rightarrow>
          list_ex (\<lambda>e. case parse_network e of None \<Rightarrow> False | Some n \<Rightarrow> covers n a)
            (ak_ip_whitelist k))"
  by (cases "client = []")
    (auto simp: is_ip_allowed_def opt_str_def parse_ip_empty any_network_ex in_network_covers
      split: option.split)

section \<open>The guard\<close>

lemma touch_ok:
  assumes "drv (calls s) = None"
  shows "touch drv clk k s = (Inr (),
    s\<lparr>calls := Suc (calls s), pending := touch_row (ak_id k) (clk (calls s)) (pending s),
      durable := touch_row (ak_id k) (clk (calls s)) (pending s)\<rparr>)"
  using assms by (simp add: touch_def utcnow_def repo_save_def)

lemma touch_row_users [simp]: "user_by_id (touch_row i now d) j = user_by_id d j"
  by (simp add: touch_row_def user_by_id_def)

lemma verify_key_run:
  "verify_key digest d (Some token) =
     (if token = [] then None
      else case find (\<lambda>k. ak_key_hash k = digest token) (ad_keys d) of
        None \<Rightarrow> None
      | Some k \<Rightarrow> if ak_is_active k then Some k else None)"
proof (cases "find (\<lambda>k. ak_key_hash k = digest token) (ad_keys d)")
  case None
  then show ?thesis by (simp add: verify_key_def find_by_hash_def find_row_def opt_str_def)
next
  case (Some k)
  then have "ak_key_hash k = digest token" by (auto simp: find_Some_iff)
  with Some show ?thesis by (simp add: verify_key_def find_by_hash_def find_row_def opt_str_def)
qed

text \<open>A whitelist that has entries, none of which covers the address of the client.\<close>

definition whitelist_excludes :: "string list \<Rightarrow> string \<Rightarrow> bool" where
  "whitelist_excludes entries client \<longleftrightarrow> entries \<noteq> [] \<and>
     (case parse_ip client of
        None \<Rightarrow> True
      | Some a \<Rightarrow> list_all (\<lambda>e. case parse_network e of None \<Rightarrow> True | Some n \<Rightarrow> \<not> covers n a) entries)"

lemma not_allowed: "is_ip_allowed k (Some client) \<longleftrightarrow> \<not> whitelist_excludes (ak_ip_whitelist k) client"
  unfolding whitelist_intervals whitelist_excludes_def
  by (auto simp: list_ex_iff list_all_iff split: option.splits)

text \<open>
  C32. The gate of API keys, as a decision over the stored keys. A request without a token, or
  with one that is not the token of a stored and active key, is answered with 401, one from
  an address that the whitelist of the key does not cover with 403, and one whose key has not the
  scope that the route demands with 403; none of these changes anything. Every other request runs
  the view, when the database does not fail, with the time of use of the key stamped and with its
  owner in \<open>g\<close>: the account of the owner is loaded and not looked at, so the view runs
  whatever its status is, and even when there is none.
\<close>

theorem api_key_gate:
  assumes "drv (calls s) = None"
  shows "require_api_key drv digest clk trust req scope view g s =
    (let refuse = (\<lambda>status body. (Inr (answer status body), s)) in
     case kr_api_key req of
       None \<Rightarrow> refuse 401 [(''error'', JStr ''API key is required'')]
     | Some token \<Rightarrow>
         if token = [] then refuse 401 [(''error'', JStr ''API key is required'')]
         else case find (\<lambda>k. ak_key_hash k = digest token) (ad_keys (pending s)) of
           None \<Rightarrow> refuse 401 [(''error'', JStr ''Invalid or inactive API key'')]
         | Some k \<Rightarrow>
             if \<not> ak_is_active k then refuse 401 [(''error'', JStr ''Invalid or inactive API key'')]
             else if whitelist_excludes (ak_ip_whitelist k) (client_ip trust req)
             then refuse 403 [(''error'', JStr ''IP not allowed'')]
             else if (case scope of None \<Rightarrow> False | Some sc \<Rightarrow> sc \<notin> set (ak_scopes k))
             then refuse 403 [(''error'', JStr ''Scope not granted''), (''required'', JStr (opt_str scope))]
             else
               let d = touch_row (ak_id k) (clk (calls s)) (pending s) in
               view (g\<lparr>g_user_id := Some (ak_user_id k), g_user := Some (user_by_id (pending s) (ak_user_id k)),
                   g_api_key := Some k\<rparr>)
                 (s\<lparr>calls := Suc (calls s), pending := d, durable := d\<rparr>))"
proof (cases "kr_api_key req")
  case None
  then show ?thesis by (simp add: require_api_key_def error_answer_def)
next
  case (Some token)
  show ?thesis
  proof (cases "token = []")
    case True
    with Some show ?thesis by (simp add: require_api_key_def error_answer_def)
  next
    case False
    let ?found = "find (\<lambda>k. ak_key_hash k = digest token) (ad_keys (pending s))"
    show ?thesis
    proof (cases ?found)
      case None
      with Some False show ?thesis by (simp add: require_api_key_def verify_key_run error_answer_def bindP_def)
    next
      case key: (Some k)
      have verified: "verify_key digest (pending s) (Some token) = (if ak_is_active k then Some k else None)"
        using False key by (simp add: verify_key_run)
      have token: "truthy (kr_api_key req)" using Some False by simp
      show ?thesis
        unfolding require_api_key_def if_not_P [OF not_not [THEN iffD2, OF token]] Let_def
        using Some False key assms
        by (cases scope) (simp_all add: verified error_answer_def bindP_def seqP_def touch_ok
            not_allowed has_scope_def opt_str_def)
    qed
  qed
qed

definition demo_key :: api_key where
  "demo_key = \<lparr>ak_id = ''k1'', ak_user_id = demo_id, ak_label = ''ci'', ak_key_hash = ''x_kdwbv'',
     ak_key_prefix = ''vbwdk_x'', ak_scopes = [''shop:read''], ak_ip_whitelist = [''10.0.0.0/8''],
     ak_is_active = True, ak_created_by = demo_id, ak_last_used_at = None\<rparr>"

definition suspended_db :: account_db where
  "suspended_db = empty_accounts\<lparr>ad_users := [demo_user\<lparr>us_status := User_SUSPENDED\<rparr>],
     ad_keys := [demo_key]\<rparr>"

definition demo_key_request :: key_request where
  "demo_key_request = \<lparr>kr_api_key = Some ''vbwdk_x'', kr_forwarded = None,
     kr_remote_addr = Some ''10.1.2.3''\<rparr>"

lemma demo_facts:
  "kr_api_key demo_key_request = Some ''vbwdk_x''" "ad_keys suspended_db = [demo_key]"
  "ak_key_hash demo_key = ''x_kdwbv''" "ak_user_id demo_key = demo_id" "ak_is_active demo_key"
  "ak_ip_whitelist demo_key = [''10.0.0.0/8'']" "ak_scopes demo_key = [''shop:read'']"
  "user_by_id suspended_db demo_id = Some (demo_user\<lparr>us_status := User_SUSPENDED\<rparr>)"
  by (simp_all add: demo_key_request_def suspended_db_def demo_key_def user_by_id_def find_row_def demo_user_def)

lemma demo_address: "client_ip False demo_key_request = ''10.1.2.3''" "is_ip_allowed demo_key (Some ''10.1.2.3'')"
  by code_simp+

lemma demo_inside: "\<not> whitelist_excludes [''10.0.0.0/8''] ''10.1.2.3''"
  using not_allowed [of demo_key "''10.1.2.3''"] demo_address(2) demo_facts(6) by simp

theorem api_key_gate_witness:
  "fst (require_api_key (\<lambda>_. None) rev (\<lambda>_. 7) False demo_key_request (Some ''shop:read'')
     (\<lambda>g. ret (answer (case g_user g of Some (Some u) \<Rightarrow> if is_active u then 200 else 202 | _ \<Rightarrow> 201) []))
     empty_g (open_session suspended_db)) = Inr (answer 202 [])"
  by (subst api_key_gate [where drv = "\<lambda>_. None" and s = "open_session suspended_db"])
    (simp_all add: demo_facts demo_address demo_inside Let_def is_active_def open_session_def)

section \<open>Revocation\<close>

lemma find_row_map:
  "(\<And>r. key (f r) = key r) \<Longrightarrow> find_row key k (map f rows) = map_option f (find_row key k rows)"
  by (induction rows) (auto simp: find_row_def)

lemma revoke_key_True:
  assumes "revoke_key drv i owner s = (Inr True, s')"
  shows "durable s' = deactivate i (pending s) \<and> pending s' = durable s'"
  using assms
  by (cases "drv (calls s)")
    (auto simp: revoke_key_def repo_revoke_key_def seqP_def bindP_def split: option.splits if_splits)

text \<open>
  Revocation is immediate and for good: once \<open>revoke\<close> has returned \<open>True\<close>, the revoked
  key is committed as inactive and no token with its hash is verified any more (the column of
  hashes is unique); every other key stays as it was.
\<close>

theorem revoked_key_refused:
  assumes "revoke_key drv i owner s = (Inr True, s')"
    and "key_by_id (pending s) i = Some k"
    and "distinct (map ak_key_hash (ad_keys (pending s)))"
    and "digest token = ak_key_hash k"
  shows "verify_key digest (durable s') (Some token) = None \<and>
    filter (\<lambda>x. ak_id x \<noteq> i) (ad_keys (durable s')) =
      filter (\<lambda>x. ak_id x \<noteq> i) (ad_keys (pending s)) \<and>
    (case owner of None \<Rightarrow> True | Some o_id \<Rightarrow> ak_user_id k = o_id)"
proof -
  have d: "durable s' = deactivate i (pending s)" using revoke_key_True [OF assms(1)] by simp
  have k: "k \<in> set (ad_keys (pending s))" "ak_id k = i"
    using assms(2) by (auto simp: key_by_id_def dest: find_row_Some)
  have "find_by_hash (pending s) (ak_key_hash k) = Some k"
    using find_row_mem [OF assms(3) k(1)] by (simp add: find_by_hash_def)
  then have "find_by_hash (durable s') (ak_key_hash k) = Some (k\<lparr>ak_is_active := False\<rparr>)"
    using k(2) by (simp add: d find_by_hash_def deactivate_def find_row_map)
  then have "verify_key digest (durable s') (Some token) = None"
    by (simp add: verify_key_def opt_str_def assms(4))
  moreover have "filter (\<lambda>x. ak_id x \<noteq> i) (map (\<lambda>k. if ak_id k = i then k\<lparr>ak_is_active := False\<rparr>
      else k) ks) = filter (\<lambda>x. ak_id x \<noteq> i) ks" for ks
    by (induction ks) auto
  moreover have "case owner of None \<Rightarrow> True | Some o_id \<Rightarrow> ak_user_id k = o_id"
    using assms(1,2) by (auto simp: revoke_key_def split: option.splits if_splits)
  ultimately show ?thesis by (simp add: d deactivate_def)
qed

theorem revoked_key_refused_witness:
  "verify_key rev suspended_db (Some ''vbwdk_x'') = Some demo_key \<and>
   verify_key rev (deactivate ''k1'' suspended_db) (Some ''vbwdk_x'') = None"
proof -
  have k: "ad_keys suspended_db = [demo_key]" by (simp add: suspended_db_def)
  have id: "ak_id demo_key = ''k1''" "ak_user_id demo_key = demo_id" "ak_key_hash demo_key = ''x_kdwbv''"
    "ak_is_active demo_key"
    by (simp_all add: demo_key_def)
  have row: "key_by_id (pending (open_session suspended_db)) ''k1'' = Some demo_key"
    by (simp add: key_by_id_def find_row_def k id)
  have run: "revoke_key (\<lambda>_. None) ''k1'' (Some demo_id) (open_session suspended_db) =
     (Inr True, \<lparr>durable = deactivate ''k1'' suspended_db, pending = deactivate ''k1'' suspended_db,
        calls = 1, bus_log = []\<rparr>)"
    using row by (simp add: revoke_key_def repo_revoke_key_def id seqP_def bindP_def open_session_def)
  have dist: "distinct (map ak_key_hash (ad_keys (pending (open_session suspended_db))))"
    by (simp add: k)
  have hash: "rev ''vbwdk_x'' = ak_key_hash demo_key" by (simp add: id)
  have "verify_key rev suspended_db (Some ''vbwdk_x'') = Some demo_key"
    by (simp add: verify_key_def find_by_hash_def find_row_def k id opt_str_def)
  with revoked_key_refused [where drv = "\<lambda>_. None" and i = "''k1''" and owner = "Some demo_id"
      and s = "open_session suspended_db" and digest = rev and token = "''vbwdk_x''", OF run row dist hash]
  show ?thesis by simp
qed

end
