(* ===== verification/UserGroups.thy ===== *)
theory UserGroups
  imports Auth
begin

text \<open>
  User groups: \<open>UserGroupService\<close> (\<open>vbwd/services/user_group_service.py\<close>) over its
  repository, the membership port \<open>DefaultUserGroupMembership\<close>
  (\<open>services/user_group_membership.py\<close>), and the routes (\<open>routes/admin/user_groups.py\<close>).

  Two constraints of the database are written out where the code relies on them: deleting a
  group deletes its membership rows, and a slug that has members cannot be renamed.
\<close>

section \<open>Repository\<close>

definition group_by_id :: "'p account_db_scheme \<Rightarrow> uuid \<Rightarrow> user_group option" where
  "group_by_id d i = find_row ug_id i (ad_groups d)"

definition group_by_slug :: "'p account_db_scheme \<Rightarrow> string \<Rightarrow> user_group option" where
  "group_by_slug d slug = find_row ug_slug slug (ad_groups d)"

definition list_all_groups :: "'p account_db_scheme \<Rightarrow> user_group list" where
  "list_all_groups d = sort_key ug_slug (ad_groups d)"

definition put_group :: "user_group \<Rightarrow> 'p account_db_scheme \<Rightarrow> 'p account_db_scheme" where
  "put_group grp d = d\<lparr>ad_groups := upsert ug_id grp (ad_groups d)\<rparr>"

definition drop_group :: "user_group \<Rightarrow> 'p account_db_scheme \<Rightarrow> 'p account_db_scheme" where
  "drop_group grp d = d\<lparr>ad_groups := remove_rows (\<lambda>x. ug_id x = ug_id grp) (ad_groups d),
     ad_user_groups := remove_rows (\<lambda>m. snd m = ug_slug grp) (ad_user_groups d)\<rparr>"

text \<open>The foreign key from the memberships to the slugs.\<close>

definition memberships_ok :: "'p account_db_scheme \<Rightarrow> bool" where
  "memberships_ok d \<longleftrightarrow> list_all (\<lambda>m. snd m \<in> ug_slug ` set (ad_groups d)) (ad_user_groups d)"

section \<open>Validation\<close>

definition slug_head :: "char \<Rightarrow> bool" where
  "slug_head c \<longleftrightarrow> is_lower_char c \<or> is_digit_char c"

definition slug_pattern :: "pattern_item list" where
  "slug_pattern = [One slug_head, Run (\<lambda>c. slug_head c \<or> c = CHR ''-'') 0, Eol]"

definition validate_slug :: "string option \<Rightarrow> exn + string" where
  "validate_slug slug =
     (let s = str_strip (opt_str slug) in
      if s = [] then Inl (ValidationError ''slug is required'')
      else if \<not> match_items slug_pattern s
        then Inl (ValidationError ''slug must be lowercase letters, digits and hyphens'')
      else Inr s)"

definition validate_name :: "string option \<Rightarrow> exn + string" where
  "validate_name name =
     (let s = str_strip (opt_str name) in
      if s = [] then Inl (ValidationError ''name is required'') else Inr s)"

definition validate_parent_group ::
  "'p account_db_scheme \<Rightarrow> string option \<Rightarrow> string \<Rightarrow> exn + unit" where
  "validate_parent_group d parent current_slug =
     (if \<not> truthy parent then Inr ()
      else if parent = Some current_slug then Inl (ValidationError ''a group cannot be its own parent'')
      else if group_by_slug d (opt_str parent) = None
        then Inl (ValidationError (''parent_group '' @ quoted (opt_str parent) @
          '' does not reference an existing group''))
      else Inr ())"

definition none_if_empty :: "string option \<Rightarrow> string option" where
  "none_if_empty v = (if truthy v then v else None)"

section \<open>UserGroupService\<close>

definition create_group ::
  "driver \<Rightarrow> (nat \<Rightarrow> uuid) \<Rightarrow> string option \<Rightarrow> string option \<Rightarrow> string option \<Rightarrow> string option
     \<Rightarrow> ('p account_db_scheme session, user_group) prog" where
  "create_group drv mint slug name lang parent =
     bindP (of_sum (validate_slug slug)) (\<lambda>slug'.
     bindP (of_sum (validate_name name)) (\<lambda>name'.
     bindP (query (\<lambda>d. group_by_slug d slug')) (\<lambda>existing.
     if existing \<noteq> None
     then raise (ValidationError (''Group slug '' @ quoted slug' @ '' already exists''))
     else
       bindP (query (\<lambda>d. validate_parent_group d parent slug')) (\<lambda>checked.
       seqP (of_sum checked)
       (bindP (gets (\<lambda>s. mint (calls s))) (\<lambda>new_id.
        let grp = \<lparr>ug_id = new_id, ug_slug = slug', ug_name = name', ug_lang = none_if_empty lang,
              ug_parent = none_if_empty parent\<rparr> in
        seqP (on_db (put_group grp)) (seqP (commit drv) (ret grp))))))))"

text \<open>
  The payload of an update: a field that is not in it is \<open>None\<close>. Each field is written on
  the row in the session as soon as it has been checked; the last statement commits.
\<close>

record group_payload =
  gp_slug :: "string option option"
  gp_name :: "string option option"
  gp_lang :: "string option option"
  gp_parent :: "string option option"

definition change_group ::
  "uuid \<Rightarrow> (user_group \<Rightarrow> user_group) \<Rightarrow> ('p account_db_scheme session, unit) prog" where
  "change_group i f = on_db (\<lambda>d. d\<lparr>ad_groups := map (\<lambda>x. if ug_id x = i then f x else x) (ad_groups d)\<rparr>)"

definition update_slug ::
  "user_group \<Rightarrow> string option option \<Rightarrow> ('p account_db_scheme session, string) prog" where
  "update_slug grp field =
     (case field of
        None \<Rightarrow> ret (ug_slug grp)
      | Some slug \<Rightarrow>
          bindP (of_sum (validate_slug slug)) (\<lambda>new_slug.
          bindP (query (\<lambda>d. group_by_slug d new_slug)) (\<lambda>existing.
            case existing of
              Some other \<Rightarrow>
                if ug_id other \<noteq> ug_id grp
                then raise (ValidationError (''Group slug '' @ quoted new_slug @ '' already exists''))
                else seqP (change_group (ug_id grp) (ug_slug_update (\<lambda>_. new_slug))) (ret new_slug)
            | None \<Rightarrow>
                seqP (change_group (ug_id grp) (ug_slug_update (\<lambda>_. new_slug))) (ret new_slug))))"

definition update_group ::
  "driver \<Rightarrow> uuid \<Rightarrow> group_payload \<Rightarrow> ('p account_db_scheme session, user_group option) prog" where
  "update_group drv i payload =
     bindP (query (\<lambda>d. group_by_id d i)) (\<lambda>found.
       case found of
         None \<Rightarrow> ret None
       | Some grp \<Rightarrow>
           bindP (update_slug grp (gp_slug payload)) (\<lambda>slug'.
           seqP (case gp_name payload of
               None \<Rightarrow> ret ()
             | Some name \<Rightarrow> bindP (of_sum (validate_name name)) (\<lambda>name'.
                 change_group i (ug_name_update (\<lambda>_. name'))))
           (seqP (case gp_lang payload of
               None \<Rightarrow> ret ()
             | Some lang \<Rightarrow> change_group i (ug_lang_update (\<lambda>_. none_if_empty lang)))
           (seqP (case gp_parent payload of
               None \<Rightarrow> ret ()
             | Some parent \<Rightarrow>
                 bindP (query (\<lambda>d. validate_parent_group d (none_if_empty parent) slug')) (\<lambda>checked.
                 seqP (of_sum checked)
                   (change_group i (ug_parent_update (\<lambda>_. none_if_empty parent)))))
           (seqP (commit_checked drv memberships_ok)
           (query (\<lambda>d. group_by_id d i)))))))"

definition delete_group :: "driver \<Rightarrow> uuid \<Rightarrow> ('p account_db_scheme session, bool) prog" where
  "delete_group drv i =
     bindP (query (\<lambda>d. group_by_id d i)) (\<lambda>found.
       case found of
         None \<Rightarrow> ret False
       | Some grp \<Rightarrow> seqP (on_db (drop_group grp)) (seqP (commit drv) (ret True)))"

text \<open>
  The identifiers are strings, so that every lookup of the loop is a \<open>SELECT\<close>, which first
  flushes the deletions made so far: an identifier that occurs twice is found once.
\<close>

definition bulk_delete :: "driver \<Rightarrow> uuid list \<Rightarrow> ('p account_db_scheme session, nat) prog" where
  "bulk_delete drv ids =
     bindP
       (foldP (\<lambda>deleted i.
          bindP (query (\<lambda>d. group_by_id d i)) (\<lambda>found.
            case found of
              None \<Rightarrow> ret deleted
            | Some grp \<Rightarrow> seqP (on_db (drop_group grp)) (ret (deleted + 1)))) 0 ids)
       (\<lambda>deleted. seqP (commit drv) (ret deleted))"

section \<open>Membership\<close>

definition user_group_slugs :: "'p account_db_scheme \<Rightarrow> uuid \<Rightarrow> string list" where
  "user_group_slugs d i = map snd (filter (\<lambda>m. fst m = i) (ad_user_groups d))"

definition add_membership ::
  "driver \<Rightarrow> uuid \<Rightarrow> string \<Rightarrow> ('p account_db_scheme session, unit) prog" where
  "add_membership drv i slug =
     bindP (query (\<lambda>d. slug \<in> set (user_group_slugs d i))) (\<lambda>has.
       if has then ret ()
       else bindP (query (\<lambda>d. slug \<in> ug_slug ` set (ad_groups d))) (\<lambda>known.
         if \<not> known then ret ()
         else execute drv (\<lambda>d. d\<lparr>ad_user_groups := ad_user_groups d @ [(i, slug)]\<rparr>)))"

definition remove_membership ::
  "driver \<Rightarrow> uuid \<Rightarrow> string \<Rightarrow> ('p account_db_scheme session, unit) prog" where
  "remove_membership drv i slug =
     execute drv (\<lambda>d. d\<lparr>ad_user_groups := remove_rows (\<lambda>m. m = (i, slug)) (ad_user_groups d)\<rparr>)"

text \<open>The sets of the code are iterated here in the order of the lists they are made from.\<close>

definition set_user_groups ::
  "driver \<Rightarrow> uuid \<Rightarrow> string list \<Rightarrow> ('p account_db_scheme session, unit) prog" where
  "set_user_groups drv i slugs =
     (let desired = remdups (filter (\<lambda>s. s \<noteq> []) slugs) in
      bindP (query (\<lambda>d. remdups (user_group_slugs d i))) (\<lambda>current.
        seqP (for_each (add_membership drv i) (filter (\<lambda>s. s \<notin> set current) desired))
          (for_each (remove_membership drv i) (filter (\<lambda>s. s \<notin> set desired) current))))"

section \<open>The routes\<close>

definition group_json :: "user_group \<Rightarrow> json" where
  "group_json grp = JObj
     [(''id'', JStr (ug_id grp)), (''slug'', JStr (ug_slug grp)), (''name'', JStr (ug_name grp)),
      (''lang'', case ug_lang grp of None \<Rightarrow> JNull | Some l \<Rightarrow> JStr l),
      (''parent_group'', case ug_parent grp of None \<Rightarrow> JNull | Some l \<Rightarrow> JStr l)]"

definition validation_answer :: "('s, response) prog \<Rightarrow> ('s, response) prog" where
  "validation_answer m = try_except m (\<lambda>e. case e of
     ValidationError msg \<Rightarrow> ret (error_answer 400 msg) | _ \<Rightarrow> raise e)"

text \<open>The string fields of the body, of their documented types.\<close>

definition opt_field :: "json_dict \<Rightarrow> string \<Rightarrow> string option" where
  "opt_field data k = (case jget data k of JStr s \<Rightarrow> Some s | _ \<Rightarrow> None)"

definition create_user_group ::
  "driver \<Rightarrow> (nat \<Rightarrow> uuid) \<Rightarrow> json_dict \<Rightarrow> 'p view" where
  "create_user_group drv mint data g =
     validation_answer
       (bindP (create_group drv mint (opt_field data ''slug'') (opt_field data ''name'')
            (opt_field data ''lang'') (opt_field data ''parent_group'')) (\<lambda>grp.
          ret (answer 201 [(''group'', group_json grp)])))"

definition payload_of :: "json_dict \<Rightarrow> group_payload" where
  "payload_of data =
     (let field = (\<lambda>k. if has_key k data then Some (opt_field data k) else None) in
      \<lparr>gp_slug = field ''slug'', gp_name = field ''name'', gp_lang = field ''lang'',
       gp_parent = field ''parent_group''\<rparr>)"

definition update_user_group :: "driver \<Rightarrow> uuid \<Rightarrow> json_dict \<Rightarrow> 'p view" where
  "update_user_group drv i data g =
     validation_answer
       (bindP (update_group drv i (payload_of data)) (\<lambda>updated.
          ret (case updated of
             None \<Rightarrow> error_answer 404 ''User group not found''
           | Some grp \<Rightarrow> answer 200 [(''group'', group_json grp)])))"

definition delete_user_group :: "driver \<Rightarrow> uuid \<Rightarrow> 'p view" where
  "delete_user_group drv i g =
     bindP (delete_group drv i) (\<lambda>ok.
       ret (if ok then answer 200 [(''message'', JStr ''User group deleted'')]
            else error_answer 404 ''User group not found''))"

definition get_user_group :: "uuid \<Rightarrow> 'p view" where
  "get_user_group i g =
     bindP (query (\<lambda>d. group_by_id d i)) (\<lambda>found.
       ret (case found of
          None \<Rightarrow> error_answer 404 ''User group not found''
        | Some grp \<Rightarrow> answer 200 [(''group'', group_json grp)]))"

definition bulk_delete_user_groups :: "driver \<Rightarrow> json_dict \<Rightarrow> 'p view" where
  "bulk_delete_user_groups drv data g =
     (let ids = (if jtrue (jget data ''ids'') then jget data ''ids'' else JList []) in
      case ids of
        JList vs \<Rightarrow>
          bindP (bulk_delete drv (map jstr vs)) (\<lambda>n.
            ret (answer 200 [(''deleted'', JInt (int n))]))
      | _ \<Rightarrow> ret (error_answer 400 ''ids must be a list''))"

definition set_user_groups_route :: "driver \<Rightarrow> uuid \<Rightarrow> json_dict \<Rightarrow> 'p view" where
  "set_user_groups_route drv i data g =
     (case jget data ''group_slugs'' of
        JList vs \<Rightarrow>
          seqP (set_user_groups drv i (map jstr vs))
          (seqP (commit drv)
          (bindP (query (\<lambda>d. sorted_set (user_group_slugs d i))) (\<lambda>slugs.
             ret (answer 200 [(''group_slugs'', JList (map JStr slugs))]))))
      | _ \<Rightarrow> ret (error_answer 400 ''group_slugs must be a list''))"

end
