(* ===== verification/UserAdmin.thy ===== *)
theory UserAdmin
  imports PasswordReset UserGroups Tokens
begin

text \<open>
  User management: \<open>UserService\<close> (\<open>vbwd/services/user_service.py\<close>), the validation of account
  types (\<open>models/user_details.py\<close>), the registries of provisioning guards and of deletion
  dependencies, and the admin routes (\<open>routes/admin/users.py\<close>).

  Parameters: the guards and dependency providers of plugins, the token hooks, bcrypt, and
  the invoices of a user (the result of the invoice repository). The fields of a body have
  their documented types (an address or password that is not a string counts as absent); a
  detail column that is given another type than a string is stored as its text. The
  call-to-action a veto can carry, and the columns of a user that are dates, are left out.
\<close>

section \<open>Account types\<close>

definition validate_account_type :: "string option \<Rightarrow> string option \<Rightarrow> exn + unit" where
  "validate_account_type account_type company =
     (case account_type of
        None \<Rightarrow> Inr ()
      | Some t \<Rightarrow>
          if t \<notin> set account_type_values
          then Inl (AccountTypeValidationError (''Invalid account type: '' @ t))
          else if t = account_type_value BUSINESS \<and> str_strip (opt_str company) = []
          then Inl (AccountTypeValidationError ''Company is required for a business account'')
          else Inr ())"

definition user_detail_fields :: "string list" where
  "user_detail_fields = [''first_name'', ''last_name'', ''phone'', ''address_line_1'',
     ''address_line_2'', ''city'', ''state'', ''postal_code'', ''country'', ''company'',
     ''tax_number'', ''account_type'']"

section \<open>Provisioning guards and deletion dependencies\<close>

record provisioning_request =
  pv_action :: string
  pv_email :: string
  pv_role :: user_role
  pv_acting_user_id :: "string option"

type_synonym 'p provisioning_guard =
  "provisioning_request \<Rightarrow> ('p account_db_scheme session, unit) prog"

definition register_guard :: "'g \<Rightarrow> 'g list \<Rightarrow> 'g list" where
  "register_guard guard guards = guards @ [guard]"

definition clear_guards :: "'g list \<Rightarrow> 'g list" where
  "clear_guards guards = []"

definition run_user_provisioning_guards ::
  "'p provisioning_guard list \<Rightarrow> provisioning_request \<Rightarrow> ('p account_db_scheme session, unit) prog" where
  "run_user_provisioning_guards guards request = for_each (\<lambda>guard. guard request) guards"

record dependency =
  dep_type :: string
  dep_count :: int
  dep_label :: string

type_synonym provider_table = "(string \<times> (uuid \<Rightarrow> dependency option)) list"

definition register_deletion_provider ::
  "string \<Rightarrow> (uuid \<Rightarrow> dependency option) \<Rightarrow> provider_table \<Rightarrow> provider_table" where
  "register_deletion_provider k provider tbl = dict_set k provider tbl"

definition unregister_deletion_provider :: "string \<Rightarrow> provider_table \<Rightarrow> provider_table" where
  "unregister_deletion_provider k tbl = dict_del k tbl"

definition resolve_deletion_dependencies :: "provider_table \<Rightarrow> uuid \<Rightarrow> dependency list" where
  "resolve_deletion_dependencies tbl i =
     concat (map (\<lambda>(_, provider). case provider i of
        None \<Rightarrow> [] | Some dp \<Rightarrow> if dep_count dp > 0 then [dp] else []) tbl)"

section \<open>Details\<close>

definition put_details :: "user_details \<Rightarrow> 'p account_db_scheme \<Rightarrow> 'p account_db_scheme" where
  "put_details ud d = d\<lparr>ad_details := upsert ud_user_id ud (ad_details d)\<rparr>"

definition column_value :: "json \<Rightarrow> string option" where
  "column_value v = (if v = JNull then None else Some (jstr v))"

definition set_column :: "string \<Rightarrow> string option \<Rightarrow> user_details \<Rightarrow> user_details" where
  "set_column k v ud = ud\<lparr>ud_fields := (ud_fields ud)(k := v)\<rparr>"

text \<open>
  \<open>setattr\<close> for every key the row has. The only caller is the profile route, whose schema admits
  exactly the columns listed above; the keys of a payload are these.
\<close>

fun set_columns :: "json_dict \<Rightarrow> user_details \<Rightarrow> user_details" where
  "set_columns [] ud = ud"
| "set_columns ((k, v) # kvs) ud =
     set_columns kvs (if k \<in> set user_detail_fields then set_column k (column_value v) ud else ud)"

definition check_account_type :: "user_details \<Rightarrow> json_dict \<Rightarrow> exn + unit" where
  "check_account_type ud payload =
     (if \<not> has_key ''account_type'' payload then Inr ()
      else validate_account_type (ud_fields ud ''account_type'') (ud_fields ud ''company''))"

definition update_user_details ::
  "driver \<Rightarrow> uuid \<Rightarrow> json_dict \<Rightarrow> ('p account_db_scheme session, user_details) prog" where
  "update_user_details drv i details =
     bindP (query (\<lambda>d. details_of d i)) (\<lambda>found.
       case found of
         Some ud \<Rightarrow>
           (let ud' = set_columns details ud in
            seqP (on_db (put_details ud'))
            (seqP (of_sum (check_account_type ud' details))
            (seqP (commit drv) (ret ud'))))
       | None \<Rightarrow>
           (let ud' = set_columns details \<lparr>ud_user_id = i, ud_fields = Map.empty\<rparr> in
            seqP (of_sum (check_account_type ud' details))
            (seqP (repo_save drv (\<lambda>d i. None) (put_details ud') None None) (ret ud'))))"

definition update_user_status ::
  "driver \<Rightarrow> uuid \<Rightarrow> user_status \<Rightarrow> ('p account_db_scheme session, user option) prog" where
  "update_user_status drv i status =
     bindP (query (\<lambda>d. user_by_id d i)) (\<lambda>found.
       case found of
         None \<Rightarrow> ret None
       | Some u \<Rightarrow>
           seqP (on_db (put_user (u\<lparr>us_status := status\<rparr>)))
           (seqP (commit drv) (ret (Some (u\<lparr>us_status := status\<rparr>)))))"

section \<open>Creating a user\<close>

definition admin_error :: "string \<Rightarrow> exn" where
  "admin_error msg = AdminUserUpdateError msg"

text \<open>The value of an enumeration field, or the error that quotes it.\<close>

definition enum_field ::
  "(string \<Rightarrow> exn + 'e) \<Rightarrow> string \<Rightarrow> json \<Rightarrow> exn + 'e" where
  "enum_field parse what v =
     (case v of
        JStr s \<Rightarrow> (case parse s of
          Inr x \<Rightarrow> Inr x
        | Inl _ \<Rightarrow> Inl (admin_error (''Invalid '' @ what @ '': '' @ s)))
      | _ \<Rightarrow> Inl (admin_error (''Invalid '' @ what @ '': '' @ jstr v)))"

definition create_detail_fields :: "string list" where
  "create_detail_fields = [''first_name'', ''last_name'', ''address_line_1'', ''address_line_2'',
     ''city'', ''state'', ''postal_code'', ''country'', ''phone'', ''company'', ''tax_number'']"

definition details_on_create :: "uuid \<Rightarrow> json_dict \<Rightarrow> user_details" where
  "details_on_create i payload =
     (let ud = foldl (\<lambda>ud k. set_column k (column_value (jget payload k)) ud)
           \<lparr>ud_user_id = i, ud_fields = Map.empty\<rparr> create_detail_fields
      in if has_key ''account_type'' payload
         then set_column ''account_type'' (column_value (jget payload ''account_type'')) ud else ud)"

definition attach_details_on_create ::
  "driver \<Rightarrow> uuid \<Rightarrow> json_dict \<Rightarrow> ('p account_db_scheme session, unit) prog" where
  "attach_details_on_create drv i payload =
     (let ud = details_on_create i payload in
      seqP (of_sum (validate_account_type (ud_fields ud ''account_type'') (ud_fields ud ''company'')))
      (seqP (on_db (put_details ud)) (commit drv)))"

definition admin_create ::
  "auth_env \<Rightarrow> driver \<Rightarrow> (nat \<Rightarrow> uuid) \<Rightarrow> 'p provisioning_guard list \<Rightarrow> string option \<Rightarrow> json_dict
     \<Rightarrow> ('p account_db_scheme session, user) prog" where
  "admin_create env drv mint guards actor payload =
     (case (body_str payload ''email'', body_str payload ''password'') of
        (None, _) \<Rightarrow> raise (admin_error ''Email is required'')
      | (_, None) \<Rightarrow> raise (admin_error ''Password is required'')
      | (Some email, Some password) \<Rightarrow>
          if length password < 8 then raise (admin_error ''Password must be at least 8 characters'')
          else bindP (query (\<lambda>d. user_by_email d email)) (\<lambda>existing.
            if existing \<noteq> None then raise (admin_error ''User with this email already exists'')
            else
              bindP (of_sum (enum_field parse_user_status ''status''
                  (jget_or payload ''status'' (JStr ''ACTIVE'')))) (\<lambda>status.
              bindP (of_sum (enum_field parse_user_role ''role''
                  (jget_or payload ''role'' (JStr ''USER'')))) (\<lambda>role.
              seqP (run_user_provisioning_guards guards
                  \<lparr>pv_action = ''create'', pv_email = email, pv_role = role, pv_acting_user_id = actor\<rparr>)
              (bindP (hash_password env password) (\<lambda>h.
               bindP (gets (\<lambda>s. mint (calls s))) (\<lambda>new_id.
               let u = \<lparr>us_id = new_id, us_email = email, us_password_hash = h, us_status = status,
                        us_role = role\<rparr> in
               seqP (save_user drv u)
               (seqP
                 (case jget payload ''details'' of
                    JObj kvs \<Rightarrow> if kvs = [] then ret () else attach_details_on_create drv new_id kvs
                  | v \<Rightarrow> if jtrue v then raise (OtherError ''details has no attribute get'') else ret ())
                 (ret u)))))))))"

section \<open>Updating a user\<close>

text \<open>Each step writes on the session's user; the last one saves.\<close>

definition change_user ::
  "uuid \<Rightarrow> (user \<Rightarrow> user) \<Rightarrow> ('p account_db_scheme session, unit) prog" where
  "change_user i f = on_db (\<lambda>d. d\<lparr>ad_users := map (\<lambda>u. if us_id u = i then f u else u) (ad_users d)\<rparr>)"

definition apply_status :: "uuid \<Rightarrow> json_dict \<Rightarrow> ('p account_db_scheme session, unit) prog" where
  "apply_status i payload =
     seqP (whenP (has_key ''is_active'' payload)
         (change_user i (us_status_update (\<lambda>_. if jtrue (jget payload ''is_active'')
            then User_ACTIVE else User_SUSPENDED))))
       (if \<not> has_key ''status'' payload then ret ()
        else bindP (of_sum (enum_field parse_user_status ''status'' (jget payload ''status''))) (\<lambda>st.
          change_user i (us_status_update (\<lambda>_. st))))"

definition apply_role :: "uuid \<Rightarrow> json_dict \<Rightarrow> ('p account_db_scheme session, unit) prog" where
  "apply_role i payload =
     (if \<not> has_key ''role'' payload then ret ()
      else bindP (of_sum (enum_field parse_user_role ''role'' (jget payload ''role''))) (\<lambda>r.
        change_user i (us_role_update (\<lambda>_. r))))"

definition apply_password ::
  "auth_env \<Rightarrow> uuid \<Rightarrow> json_dict \<Rightarrow> ('p account_db_scheme session, unit) prog" where
  "apply_password env i payload =
     (case body_str payload ''password'' of
        None \<Rightarrow> ret ()
      | Some pw \<Rightarrow>
          if length pw < 8 then raise (admin_error ''Password must be at least 8 characters'')
          else bindP (hash_password env pw) (\<lambda>h. change_user i (us_password_hash_update (\<lambda>_. h))))"

definition touches_details :: "json_dict \<Rightarrow> bool" where
  "touches_details payload \<longleftrightarrow> list_ex (\<lambda>k. has_key k payload) user_detail_fields"

definition ensure_details_row ::
  "driver \<Rightarrow> uuid \<Rightarrow> json_dict \<Rightarrow> ('p account_db_scheme session, unit) prog" where
  "ensure_details_row drv i payload =
     (if \<not> (touches_details payload \<or> jtrue (jget payload ''name'')) then ret ()
      else bindP (query (\<lambda>d. details_of d i)) (\<lambda>found.
        if found \<noteq> None then ret ()
        else seqP (on_db (put_details \<lparr>ud_user_id = i, ud_fields = Map.empty\<rparr>)) (flush drv)))"

definition change_details ::
  "uuid \<Rightarrow> (user_details \<Rightarrow> user_details) \<Rightarrow> ('p account_db_scheme session, unit) prog" where
  "change_details i f =
     on_db (\<lambda>d. d\<lparr>ad_details := map (\<lambda>ud. if ud_user_id ud = i then f ud else ud) (ad_details d)\<rparr>)"

definition falsy_to_none :: "json \<Rightarrow> string option" where
  "falsy_to_none v = (if jtrue v then Some (jstr v) else None)"

definition detail_fields_update :: "json_dict \<Rightarrow> user_details \<Rightarrow> user_details" where
  "detail_fields_update payload ud =
     foldl (\<lambda>ud k. if has_key k payload then set_column k (falsy_to_none (jget payload k)) ud else ud)
       ud user_detail_fields"

definition apply_detail_fields :: "uuid \<Rightarrow> json_dict \<Rightarrow> ('p account_db_scheme session, unit) prog" where
  "apply_detail_fields i payload = change_details i (detail_fields_update payload)"

definition validate_details :: "uuid \<Rightarrow> json_dict \<Rightarrow> ('p account_db_scheme session, unit) prog" where
  "validate_details i payload =
     bindP (query (\<lambda>d. details_of d i)) (\<lambda>found.
       case found of None \<Rightarrow> ret () | Some ud \<Rightarrow> of_sum (check_account_type ud payload))"

text \<open>\<open>name.strip().partition(" ")\<close>.\<close>

definition split_name :: "string \<Rightarrow> string \<times> string" where
  "split_name name =
     (let n = str_strip name in
      (takeWhile (\<lambda>c. c \<noteq> CHR 0x20) n, drop 1 (dropWhile (\<lambda>c. c \<noteq> CHR 0x20) n)))"

definition apply_legacy_name :: "uuid \<Rightarrow> json_dict \<Rightarrow> ('p account_db_scheme session, unit) prog" where
  "apply_legacy_name i payload =
     (case body_str payload ''name'' of
        None \<Rightarrow> ret ()
      | Some name \<Rightarrow>
          if touches_details payload then ret ()
          else change_details i (\<lambda>ud. set_column ''last_name'' (Some (snd (split_name name)))
                 (set_column ''first_name'' (Some (fst (split_name name))) ud)))"

definition apply_token_balance ::
  "driver \<Rightarrow> 'h hook list \<Rightarrow> uuid \<Rightarrow> json_dict \<Rightarrow> ('h db_scheme session, unit) prog" where
  "apply_token_balance drv hooks i payload =
     (if \<not> has_key ''token_balance'' payload then ret ()
      else case int_of_json (jget payload ''token_balance'') of
        None \<Rightarrow> raise (admin_error ''Invalid token balance value'')
      | Some v \<Rightarrow>
          if v < 0 then raise (admin_error ''Token balance cannot be negative'')
          else bindP (get_balance i) (\<lambda>balance.
            let delta = v - balance;
                desc = Some (''Admin set token balance to '' @ str_int v)
            in if delta > 0 then credit_tokens drv hooks i (Whole delta) T_ADJUSTMENT None desc False
               else if delta < 0
               then debit_tokens drv hooks i (Whole (- delta)) T_ADJUSTMENT None desc False
               else ret ()))"

definition apply_group_slugs ::
  "driver \<Rightarrow> uuid \<Rightarrow> json_dict \<Rightarrow> ('p account_db_scheme session, unit) prog" where
  "apply_group_slugs drv i payload =
     (if \<not> has_key ''group_slugs'' payload then ret ()
      else case jget payload ''group_slugs'' of
        JList vs \<Rightarrow> set_user_groups drv i (map jstr (filter jtrue vs))
      | _ \<Rightarrow> raise (admin_error ''group_slugs must be a list''))"

definition admin_update ::
  "auth_env \<Rightarrow> driver \<Rightarrow> 'p account_db_ext hook list \<Rightarrow> uuid \<Rightarrow> json_dict
     \<Rightarrow> ('p account_db_scheme session, user option) prog" where
  "admin_update env drv hooks i payload =
     bindP (query (\<lambda>d. user_by_id d i)) (\<lambda>found.
       if found = None then ret None
       else
         seqP (apply_status i payload)
         (seqP (apply_role i payload)
         (seqP (apply_password env i payload)
         (seqP (ensure_details_row drv i payload)
         (seqP (apply_detail_fields i payload)
         (seqP (validate_details i payload)
         (seqP (apply_legacy_name i payload)
         (seqP (apply_token_balance drv hooks i payload)
         (seqP (apply_group_slugs drv i payload)
         (seqP (save_commit drv)
         (query (\<lambda>d. user_by_id d i))))))))))))"

section \<open>The admin routes\<close>

definition create_user_answer ::
  "('p account_db_scheme session, user) prog \<Rightarrow> ('p account_db_scheme session, response) prog" where
  "create_user_answer create =
     try_except
       (bindP create (\<lambda>u. ret (answer 201
          [(''id'', JStr (us_id u)), (''email'', JStr (us_email u)),
           (''status'', JStr (user_status_value (us_status u))),
           (''role'', JStr (user_role_value (us_role u)))])))
       (\<lambda>e. case e of
          AdminUserUpdateError msg \<Rightarrow>
            ret (error_answer
              (if contains ''already exists'' msg then 409 else 400) msg)
        | AccountTypeValidationError msg \<Rightarrow> ret (error_answer 400 msg)
        | UserProvisioningBlocked msg blocked_code status \<Rightarrow>
            ret (answer (nat status) [(''error'', JStr msg), (''code'', JStr blocked_code)])
        | _ \<Rightarrow> raise e)"

definition create_user ::
  "auth_env \<Rightarrow> driver \<Rightarrow> (nat \<Rightarrow> uuid) \<Rightarrow> 'p provisioning_guard list \<Rightarrow> json_dict \<Rightarrow> 'p view" where
  "create_user env drv mint guards payload g =
     create_user_answer (admin_create env drv mint guards (g_user_id g) payload)"

definition user_json :: "user \<Rightarrow> json" where
  "user_json u = JObj [(''id'', JStr (us_id u)), (''email'', JStr (us_email u)),
     (''status'', JStr (user_status_value (us_status u))), (''is_active'', JBool (is_active u)),
     (''role'', JStr (user_role_value (us_role u))), (''is_admin'', JBool (is_admin u))]"

definition update_user ::
  "auth_env \<Rightarrow> driver \<Rightarrow> 'p account_db_ext hook list \<Rightarrow> uuid \<Rightarrow> json_dict \<Rightarrow> 'p view" where
  "update_user env drv hooks i payload g =
     try_except
       (bindP (admin_update env drv hooks i payload) (\<lambda>saved.
          ret (case saved of
             None \<Rightarrow> error_answer 404 ''User not found''
           | Some u \<Rightarrow> answer 200 [(''user'', user_json u)])))
       (\<lambda>e. case e of
          AdminUserUpdateError msg \<Rightarrow> ret (error_answer 400 msg)
        | AccountTypeValidationError msg \<Rightarrow> ret (error_answer 400 msg)
        | _ \<Rightarrow> raise e)"

text \<open>\<open>roles[0]\<close> of a value that is not falsy.\<close>

fun first_item :: "json \<Rightarrow> exn + json" where
  "first_item (JList (v # _)) = Inr v"
| "first_item (JStr (c # _)) = Inr (JStr [c])"
| "first_item (JObj _) = Inl (KeyError ''0'')"
| "first_item _ = Inl (TypeError ''object is not subscriptable'')"

definition update_user_roles :: "driver \<Rightarrow> uuid \<Rightarrow> json_dict \<Rightarrow> 'p view" where
  "update_user_roles drv i data g =
     bindP (query (\<lambda>d. user_by_id d i)) (\<lambda>found.
       case found of
         None \<Rightarrow> ret (error_answer 404 ''User not found'')
       | Some u \<Rightarrow>
           (let roles = jget_or data ''roles'' (JList []) in
            if \<not> jtrue roles then ret (error_answer 400 ''At least one role is required'')
            else bindP (of_sum (first_item roles)) (\<lambda>first.
              case enum_field parse_user_role ''role'' first of
                Inl e \<Rightarrow> ret (error_answer 400 (exn_str e))
              | Inr role \<Rightarrow>
                  seqP (save_user drv (u\<lparr>us_role := role\<rparr>))
                  (ret (answer 200 [(''user'', user_json (u\<lparr>us_role := role\<rparr>)),
                     (''message'', JStr ''Roles updated'')])))))"

definition set_status_route :: "user_status \<Rightarrow> string \<Rightarrow> driver \<Rightarrow> uuid \<Rightarrow> 'p view" where
  "set_status_route status message drv i g =
     bindP (query (\<lambda>d. user_by_id d i)) (\<lambda>found.
       case found of
         None \<Rightarrow> ret (error_answer 404 ''User not found'')
       | Some u \<Rightarrow>
           seqP (save_user drv (u\<lparr>us_status := status\<rparr>))
           (ret (answer 200 [(''user'', user_json (u\<lparr>us_status := status\<rparr>)),
              (''message'', JStr message)])))"

definition suspend_user :: "driver \<Rightarrow> uuid \<Rightarrow> 'p view" where
  "suspend_user = set_status_route User_SUSPENDED ''User suspended successfully''"

definition activate_user :: "driver \<Rightarrow> uuid \<Rightarrow> 'p view" where
  "activate_user = set_status_route User_ACTIVE ''User activated successfully''"

text \<open>Deleting a user: the foreign keys of the account tables cascade.\<close>

definition drop_user :: "uuid \<Rightarrow> 'p account_db_scheme \<Rightarrow> 'p account_db_scheme" where
  "drop_user i d = d\<lparr>ad_users := remove_rows (\<lambda>u. us_id u = i) (ad_users d),
     ad_details := remove_rows (\<lambda>ud. ud_user_id ud = i) (ad_details d),
     ad_user_roles := remove_rows (\<lambda>l. fst l = i) (ad_user_roles d),
     ad_user_levels := remove_rows (\<lambda>l. fst l = i) (ad_user_levels d),
     ad_user_groups := remove_rows (\<lambda>m. fst m = i) (ad_user_groups d),
     ad_resets := remove_rows (\<lambda>r. rt_user_id r = i) (ad_resets d),
     ad_keys := remove_rows (\<lambda>k. ak_user_id k = i) (ad_keys d),
     tbl_balance := (\<lambda>j. if j = i then None else tbl_balance d j),
     tbl_tx := filter (\<lambda>t. tx_user t \<noteq> i) (tbl_tx d),
     tbl_purchase := (\<lambda>j. case tbl_purchase d j of
        Some p \<Rightarrow> if p_user p = i then None else Some p | None \<Rightarrow> None),
     tbl_invoice := (\<lambda>j. case tbl_invoice d j of
        Some v \<Rightarrow> if inv_user_id v = i then None else Some v | None \<Rightarrow> None)\<rparr>"

definition repo_delete_user ::
  "driver \<Rightarrow> uuid \<Rightarrow> ('p account_db_scheme session, bool) prog" where
  "repo_delete_user drv i =
     bindP (query (\<lambda>d. user_by_id d i \<noteq> None)) (\<lambda>present.
     seqP (execute drv (drop_user i)) (seqP (commit drv) (ret present)))"

definition deletion_dependencies ::
  "('p account_db_scheme \<Rightarrow> uuid \<Rightarrow> invoice list) \<Rightarrow> provider_table \<Rightarrow> 'p account_db_scheme \<Rightarrow> uuid
     \<Rightarrow> dependency list" where
  "deletion_dependencies find_by_user tbl d i =
     (let n = length (find_by_user d i) in
      (if n > 0 then [\<lparr>dep_type = ''invoice'', dep_count = int n, dep_label = ''Invoices''\<rparr>] else []) @
      resolve_deletion_dependencies tbl i)"

definition dependency_json :: "dependency \<Rightarrow> json" where
  "dependency_json dp = JObj [(''type'', JStr (dep_type dp)), (''count'', JInt (dep_count dp)),
     (''label'', JStr (dep_label dp))]"

definition get_deletion_info ::
  "('p account_db_scheme \<Rightarrow> uuid \<Rightarrow> invoice list) \<Rightarrow> provider_table \<Rightarrow> uuid \<Rightarrow> 'p view" where
  "get_deletion_info find_by_user tbl i g =
     bindP (query (\<lambda>d. (user_by_id d i, deletion_dependencies find_by_user tbl d i))) (\<lambda>(found, deps).
       ret (case found of
          None \<Rightarrow> error_answer 404 ''User not found''
        | Some u \<Rightarrow> answer 200
            [(''user_id'', JStr (us_id u)), (''email'', JStr (us_email u)),
             (''has_cascade_dependencies'', JBool (deps \<noteq> [])),
             (''dependencies'', JList (map dependency_json deps))]))"

definition delete_user ::
  "driver \<Rightarrow> (exn \<Rightarrow> bool) \<Rightarrow> ('p account_db_scheme \<Rightarrow> uuid \<Rightarrow> invoice list) \<Rightarrow> provider_table \<Rightarrow> uuid
     \<Rightarrow> json_dict \<Rightarrow> 'p view" where
  "delete_user drv integrity_error find_by_user tbl i data g =
     bindP (query (\<lambda>d. (user_by_id d i, deletion_dependencies find_by_user tbl d i))) (\<lambda>(found, deps).
       case found of
         None \<Rightarrow> ret (error_answer 404 ''User not found'')
       | Some u \<Rightarrow>
           if deps \<noteq> [] \<and> \<not> jtrue (jget_or data ''force'' (JBool False)) then
             ret (answer 409
               [(''error'', JStr (''Cannot delete user with '' @
                   comma_sep (map (\<lambda>dp. str_int (dep_count dp) @ '' '' @ str_lower (dep_label dp)) deps) @
                   ''. User has transaction history.'')),
                (''has_dependencies'', JBool True),
                (''dependencies'', JList (map dependency_json deps))])
           else
             try_except
               (seqP (repo_delete_user drv i)
                 (ret (answer 200 [(''message'', JStr ''User deleted successfully'')])))
               (\<lambda>e. if integrity_error e then
                   seqP rollback
                     (ret (answer 409
                       [(''error'', JStr
                          ''Cannot delete user: it is still referenced by other records.''),
                        (''detail'', JStr (exn_str e))]))
                 else raise e))"

end
