(* ===== verification/UserAdminFlow.thy ===== *)
theory UserAdminFlow
  imports UserAdmin ApiKeyFlow ResetFlow
begin

text \<open>
  Properties of user management: an update that sets a balance goes through the token ledger
  and is committed as a whole; what the permission to manage users amounts to; and a creation
  that is refused half-way.
\<close>

section \<open>Steps that leave money alone\<close>

text \<open>The committed tables are \<open>d0\<close>, and the billing tables the session shows are \<open>c\<close>.\<close>

definition money_as :: "'p account_db_scheme \<Rightarrow> db \<Rightarrow> 'p account_db_scheme session \<Rightarrow> bool" where
  "money_as d0 c s \<longleftrightarrow> durable s = d0 \<and> core (pending s) = c"

lemma core_account_update [simp]:
  "core (d\<lparr>ad_users := us\<rparr>) = core d" "core (d\<lparr>ad_details := ds\<rparr>) = core d"
  "core (d\<lparr>ad_user_groups := gs\<rparr>) = core d"
  by (simp_all add: core_def db.defs)

lemma money_flush [intro]: "keeps (money_as d0 c) (flush drv)"
  by (auto simp: keeps_def money_as_def flush_def db_call_def Let_def split: option.splits)

lemma money_query [intro]: "keeps (money_as d0 c) (query f)"
  by (simp add: keeps_def)

lemma money_on_db: "(\<And>d. core (f d) = core d) \<Longrightarrow> keeps (money_as d0 c) (on_db f)"
  by (simp add: keeps_def money_as_def)

lemma money_of_sum [intro]: "keeps (money_as d0 c) (of_sum r)"
  by (cases r) (auto simp: of_sum_def)

lemma money_change_user [intro]: "keeps (money_as d0 c) (change_user i f)"
  unfolding change_user_def by (rule money_on_db) simp

lemma money_change_details [intro]: "keeps (money_as d0 c) (change_details i f)"
  unfolding change_details_def by (rule money_on_db) simp

lemma money_hash [intro]: "keeps (money_as d0 c) (hash_password env pw)"
  unfolding hash_password_def by (auto intro!: keeps_bindP split: sum.split)

lemma money_apply_status: "keeps (money_as d0 c) (apply_status i payload)"
  unfolding apply_status_def
  by (intro keeps_seqP keeps_when money_change_user) (auto intro!: keeps_bindP)

lemma money_apply_role: "keeps (money_as d0 c) (apply_role i payload)"
  unfolding apply_role_def by (auto intro!: keeps_bindP)

lemma money_apply_password: "keeps (money_as d0 c) (apply_password env i payload)"
  unfolding apply_password_def by (auto intro!: keeps_bindP split: option.split)

lemma money_ensure_details: "keeps (money_as d0 c) (ensure_details_row drv i payload)"
proof -
  have "keeps (money_as d0 c) (on_db (put_details ud))" for ud :: user_details
    by (rule money_on_db) (simp add: put_details_def)
  then show ?thesis
    unfolding ensure_details_row_def by (auto intro!: keeps_bindP keeps_seqP)
qed

lemma money_detail_fields: "keeps (money_as d0 c) (apply_detail_fields i payload)"
  unfolding apply_detail_fields_def ..

lemma money_validate: "keeps (money_as d0 c) (validate_details i payload)"
  unfolding validate_details_def by (auto intro!: keeps_bindP split: option.split)

lemma money_legacy_name: "keeps (money_as d0 c) (apply_legacy_name i payload)"
  unfolding apply_legacy_name_def by (auto split: option.split)

lemma money_execute: "(\<And>d. core (f d) = core d) \<Longrightarrow> keeps (money_as d0 c) (execute drv f)"
  unfolding execute_def by (intro keeps_seqP money_flush money_on_db)

lemma money_add: "keeps (money_as d0 c) (add_membership drv i slug)"
  unfolding add_membership_def
  by (intro keeps_bindP keeps_if money_query money_execute keeps_ret) simp

lemma money_remove: "keeps (money_as d0 c) (remove_membership drv i slug)"
  unfolding remove_membership_def by (rule money_execute) simp

lemma money_groups: "keeps (money_as d0 c) (apply_group_slugs drv i payload)"
  unfolding apply_group_slugs_def set_user_groups_def Let_def
  by (auto intro!: keeps_bindP keeps_seqP keeps_for_each money_add money_remove split: json.split)

section \<open>The update as a whole\<close>

definition update_prelude ::
  "auth_env \<Rightarrow> driver \<Rightarrow> uuid \<Rightarrow> json_dict \<Rightarrow> ('p account_db_scheme session, unit) prog" where
  "update_prelude env drv i payload =
     seqP (apply_status i payload)
     (seqP (apply_role i payload)
     (seqP (apply_password env i payload)
     (seqP (ensure_details_row drv i payload)
     (seqP (apply_detail_fields i payload)
     (seqP (validate_details i payload)
     (apply_legacy_name i payload))))))"

lemma money_prelude: "keeps (money_as d0 c) (update_prelude env drv i payload)"
  unfolding update_prelude_def
  by (intro keeps_seqP money_apply_status money_apply_role money_apply_password money_ensure_details
      money_detail_fields money_validate money_legacy_name)

lemma admin_update_split:
  "admin_update env drv hooks i payload s =
     (if user_by_id (pending s) i = None then (Inr None, s)
      else seqP (update_prelude env drv i payload)
        (seqP (apply_token_balance drv hooks i payload)
        (seqP (apply_group_slugs drv i payload)
        (seqP (save_commit drv) (query (\<lambda>d. user_by_id d i))))) s)"
  by (simp add: admin_update_def update_prelude_def seqP_assoc)

lemma token_step_Inl:
  assumes "hooks_ok hooks" and "apply_token_balance drv hooks i payload s = (Inl e, s')"
  shows "durable s' = durable s"
  using assms(2)
  by (auto simp: apply_token_balance_def get_balance_def Let_def
      split: if_splits option.splits dest: credit_Inl [OF assms(1)] debit_Inl [OF assms(1)])

text \<open>The tables a target balance asks for.\<close>

definition adjusted :: "uuid \<Rightarrow> int \<Rightarrow> 'd db_scheme \<Rightarrow> 'd db_scheme" where
  "adjusted i v d = (if v = balance_of d i then d
     else moved i (v - balance_of d i) T_ADJUSTMENT None
       (Some (''Admin set token balance to '' @ str_int v)) d)"

lemma token_step_Inr:
  assumes "hooks_ok hooks" and "apply_token_balance drv hooks i payload s = (Inr x, s')"
  shows "durable s' = durable s \<and>
    (if has_key ''token_balance'' payload
     then (\<exists>v. int_of_json (jget payload ''token_balance'') = Some v \<and> 0 \<le> v \<and>
       core (pending s') = adjusted i v (core (pending s)))
     else core (pending s') = core (pending s))"
proof (cases "has_key ''token_balance'' payload")
  case False
  with assms(2) show ?thesis by (simp add: apply_token_balance_def)
next
  case True
  with assms(2) obtain v where v: "int_of_json (jget payload ''token_balance'') = Some v" "0 \<le> v"
    by (auto simp: apply_token_balance_def split: option.splits if_splits)
  let ?b = "balance_of (pending s) i"
  let ?ds = "Some (''Admin set token balance to '' @ str_int v)"
  consider (more) "v > ?b" | (less) "v < ?b" | (same) "v = ?b" by linarith
  then have "durable s' = durable s \<and> core (pending s') = adjusted i v (core (pending s))"
  proof cases
    case more
    then have "credit_tokens drv hooks i (Whole (v - ?b)) T_ADJUSTMENT None ?ds False s = (Inr x, s')"
      using assms(2) True v by (simp add: apply_token_balance_def get_balance_def Let_def)
    from credit_Inr [OF assms(1) this] more show ?thesis by (auto simp: adjusted_def)
  next
    case less
    then have "debit_tokens drv hooks i (Whole (?b - v)) T_ADJUSTMENT None ?ds False s = (Inr x, s')"
      using assms(2) True v by (simp add: apply_token_balance_def get_balance_def Let_def)
    from debit_Inr [OF assms(1) this] less show ?thesis by (auto simp: adjusted_def)
  next
    case same
    then show ?thesis
      using assms(2) True v by (simp add: apply_token_balance_def get_balance_def Let_def adjusted_def)
  qed
  with True v show ?thesis by auto
qed

lemma adjusted_balance [simp]: "balance_of (adjusted i v d) i = v"
  by (simp add: adjusted_def)

lemma adjusted_inv: "token_inv d \<Longrightarrow> 0 \<le> v \<Longrightarrow> token_inv (adjusted i v d)"
  by (simp add: adjusted_def token_inv_moved)

lemma admin_update_Inr:
  assumes "hooks_ok hooks" and "admin_update env drv hooks i payload s = (Inr (Some u), s')"
  shows "durable s' = pending s' \<and> user_by_id (durable s') i = Some u \<and>
    (if has_key ''token_balance'' payload
     then (\<exists>v. int_of_json (jget payload ''token_balance'') = Some v \<and> 0 \<le> v \<and>
       core (durable s') = adjusted i v (core (pending s)))
     else core (durable s') = core (pending s))"
proof -
  have "seqP (update_prelude env drv i payload)
        (seqP (apply_token_balance drv hooks i payload)
        (seqP (apply_group_slugs drv i payload)
        (seqP (save_commit drv) (query (\<lambda>d. user_by_id d i))))) s = (Inr (Some u), s')"
    using assms(2) by (auto simp: admin_update_split split: if_splits)
  then obtain x1 s1 x2 s2 x3 s3 x4 where
    p: "update_prelude env drv i payload s = (Inr x1, s1)" and
    t: "apply_token_balance drv hooks i payload s1 = (Inr x2, s2)" and
    g: "apply_group_slugs drv i payload s2 = (Inr x3, s3)" and
    c: "save_commit drv s3 = (Inr x4, s')" and u: "user_by_id (pending s') i = Some u"
    by (elim seqP_InrE) auto
  have 1: "core (pending s1) = core (pending s)"
    using keepsD [OF money_prelude _ p, of "durable s" "core (pending s)"] by (simp add: money_as_def)
  have 3: "core (pending s3) = core (pending s2)"
    using keepsD [OF money_groups _ g, of "durable s2" "core (pending s2)"] by (simp add: money_as_def)
  from save_commit_Inr [OF c] token_step_Inr [OF assms(1) t] u 1 3 show ?thesis by auto
qed

lemma prelude_durable: "update_prelude env drv i payload s = (r, t) \<Longrightarrow> durable t = durable s"
  using keepsD [OF money_prelude [of "durable s" "core (pending s)"], where s = s and r = r and s' = t]
  by (auto simp: money_as_def)

lemma groups_durable: "apply_group_slugs drv i payload s = (r, t) \<Longrightarrow> durable t = durable s"
  using keepsD [OF money_groups [of "durable s" "core (pending s)"], where s = s and r = r and s' = t]
  by (auto simp: money_as_def)

lemma admin_update_Inl:
  assumes "hooks_ok hooks" and "admin_update env drv hooks i payload s = (Inl e, s')"
  shows "durable s' = durable s"
proof -
  have "seqP (update_prelude env drv i payload)
        (seqP (apply_token_balance drv hooks i payload)
        (seqP (apply_group_slugs drv i payload)
        (seqP (save_commit drv) (query (\<lambda>d. user_by_id d i))))) s = (Inl e, s')"
    using assms(2) by (auto simp: admin_update_split split: if_splits)
  then show ?thesis
    by (elim seqP_InlE)
      (simp_all add: prelude_durable groups_durable token_step_Inl [OF assms(1)]
        token_step_Inr [OF assms(1), THEN conjunct1] save_commit_Inl_durable)
qed


text \<open>An administrator who may only manage users, and a customer with seven tokens.\<close>

definition manager_role :: admin_role where
  "manager_role = \<lparr>ro_id = ''r9'', ro_name = ''user-desk'', ro_slug = ''user-desk'',
     ro_description = None, ro_is_system = False, ro_permissions = [''users.manage'']\<rparr>"

definition desk_user :: user where
  "desk_user = \<lparr>us_id = demo_id, us_email = ''desk@b.cd'', us_password_hash = ''h'',
     us_status = User_ACTIVE, us_role = ADMIN\<rparr>"

definition desk_db :: account_db where
  "desk_db = moved demo_id 7 T_BONUS None None (empty_accounts\<lparr>ad_permissions := [''users.manage''],
     ad_roles := [manager_role], ad_users := [desk_user], ad_user_roles := [(demo_id, ''r9'')]\<rparr>)"

lemma moved_accounts [simp]:
  "ad_users (moved i n ty r ds d) = ad_users d" "ad_roles (moved i n ty r ds d) = ad_roles d"
  "ad_user_roles (moved i n ty r ds d) = ad_user_roles d"
  "ad_user_levels (moved i n ty r ds d) = ad_user_levels d"
  by (simp_all add: moved_def add_tx_def put_balance_def)

lemma desk_sel [simp]:
  "ad_users desk_db = [desk_user]" "ad_roles desk_db = [manager_role]"
  "ad_user_roles desk_db = [(demo_id, ''r9'')]" "us_id desk_user = demo_id" "us_role desk_user = ADMIN"
  "us_status desk_user = User_ACTIVE" "ro_id manager_role = ''r9''"
  "ro_permissions manager_role = [''users.manage'']" "balance_of desk_db demo_id = 7"
  by (simp_all add: desk_db_def desk_user_def manager_role_def empty_accounts_def balance_of_def
      moved_def put_balance_def add_tx_def)

lemma desk_user_found [simp]: "user_by_id desk_db demo_id = Some desk_user"
  by (simp add: user_by_id_def find_row_def)

lemma desk_inv: "token_inv desk_db"
  unfolding desk_db_def
  by (rule token_inv_moved) (auto simp: token_inv_def empty_accounts_def balance_of_def tx_sum_def)

section \<open>What the permission to manage users amounts to\<close>

lemma change_user_run:
  "change_user i f s = (Inr (), s\<lparr>pending := (pending s)\<lparr>ad_users :=
     map (\<lambda>u. if us_id u = i then f u else u) (ad_users (pending s))\<rparr>\<rparr>)"
  by (simp add: change_user_def)

lemma role_payload:
  "has_key k [(''role'', v)] \<longleftrightarrow> k = ''role''"
  "jget [(''role'', v)] k = (if k = ''role'' then v else JNull)"
  by (simp_all add: has_key_def jget_def)

lemma role_update_run:
  assumes "user_by_id (pending s) i = Some u" and "\<forall>n. drv n = None"
  shows "\<exists>s'. admin_update env drv hooks i [(''role'', JStr ''SUPER_ADMIN'')] s =
      (Inr (Some (u\<lparr>us_role := SUPER_ADMIN\<rparr>)), s') \<and>
    user_by_id (durable s') i = Some (u\<lparr>us_role := SUPER_ADMIN\<rparr>)"
proof -
  let ?p = "[(''role'', JStr ''SUPER_ADMIN'')]"
  let ?d = "(pending s)\<lparr>ad_users := map (\<lambda>u. if us_id u = i then u\<lparr>us_role := SUPER_ADMIN\<rparr> else u)
    (ad_users (pending s))\<rparr>"
  let ?t = "s\<lparr>pending := ?d\<rparr>"
  have parse: "enum_field parse_user_role ''role'' (JStr ''SUPER_ADMIN'') = Inr SUPER_ADMIN"
    by code_simp
  have nodetail: "\<not> touches_details ?p" by (simp add: touches_details_def role_payload user_detail_fields_def)
  have upd: "detail_fields_update ?p ud = ud" for ud
    by (simp add: detail_fields_update_def role_payload user_detail_fields_def)
  have 1: "apply_status i ?p s = (Inr (), s)" "apply_role i ?p s = (Inr (), ?t)"
    "apply_password env i ?p ?t = (Inr (), ?t)" "ensure_details_row drv i ?p ?t = (Inr (), ?t)"
    "apply_legacy_name i ?p ?t = (Inr (), ?t)" "apply_token_balance drv hooks i ?p ?t = (Inr (), ?t)"
    "apply_group_slugs drv i ?p ?t = (Inr (), ?t)"
    by (simp_all add: apply_status_def apply_role_def apply_password_def ensure_details_row_def
        apply_legacy_name_def apply_token_balance_def apply_group_slugs_def role_payload whenP_def
        seqP_def bindP_def of_sum_def parse change_user_run body_str_def nodetail)
  have 2: "apply_detail_fields i ?p ?t = (Inr (), ?t)" "validate_details i ?p ?t = (Inr (), ?t)"
    by (simp_all add: apply_detail_fields_def change_details_def upd validate_details_def
        check_account_type_def role_payload of_sum_def map_idI split: option.split)
  have u: "user_by_id ?d i = Some (u\<lparr>us_role := SUPER_ADMIN\<rparr>)"
  proof -
    have "us_id u = i" using assms(1) by (auto simp: user_by_id_def dest: find_row_Some)
    with assms(1) show ?thesis by (simp add: user_by_id_def find_row_map)
  qed
  show ?thesis
    using assms by (simp add: admin_update_split update_prelude_def seqP_def bindP_def 1 2 u)
qed

lemma balance_update_returns:
  "case fst (admin_update demo_env no_faults [] demo_id [(''token_balance'', JInt 10)] (open_session desk_db)) of
     Inr (Some u) \<Rightarrow> True | _ \<Rightarrow> False"
  by code_simp


text \<open>
  The permission \<open>users.manage\<close> amounts to every permission. A request of an active
  administrator whose roles give \<open>users.manage\<close> and nothing else passes the guards of the
  update route, and the route sets any role on any user, the caller included: one request
  with the role \<open>SUPER_ADMIN\<close> for the caller's own account leaves an account for which every
  permission check succeeds.
\<close>

theorem users_manage_escalates:
  assumes "authenticate env now (pending s) header = Inr (i, u)" and "us_id u = i"
    and "us_role u = ADMIN" and "has_permission (pending s) u ''users.manage''"
    and "\<forall>n. drv n = None"
  shows "\<exists>s'. require_auth env now header (\<lambda>g. require_admin (require_permission [''users.manage'']
        (update_user env drv hooks i [(''role'', JStr ''SUPER_ADMIN'')])) g) g0 s =
      (Inr (answer 200 [(''user'', user_json (u\<lparr>us_role := SUPER_ADMIN\<rparr>))]), s') \<and>
    user_by_id (durable s') i = Some (u\<lparr>us_role := SUPER_ADMIN\<rparr>) \<and>
    list_all (has_permission (durable s') (u\<lparr>us_role := SUPER_ADMIN\<rparr>)) perms"
proof -
  have "user_by_id (pending s) i = Some u"
    using assms(1) by (auto simp: authenticate_def split: if_splits option.splits)
  then obtain s' where run: "admin_update env drv hooks i [(''role'', JStr ''SUPER_ADMIN'')] s =
      (Inr (Some (u\<lparr>us_role := SUPER_ADMIN\<rparr>)), s')"
    and row: "user_by_id (durable s') i = Some (u\<lparr>us_role := SUPER_ADMIN\<rparr>)"
    using role_update_run assms(5) by blast
  have "has_permission (durable s') (u\<lparr>us_role := SUPER_ADMIN\<rparr>) p" for p
    by (simp add: has_permission_def)
  then have "list_all (has_permission (durable s') (u\<lparr>us_role := SUPER_ADMIN\<rparr>)) perms"
    by (simp add: list_all_iff)
  with run row assms(3,4) show ?thesis
    by (simp add: require_auth_run assms(1) require_admin_def is_admin_def require_permission_def
        permission_guard_def update_user_def try_except_def bindP_def)
qed

theorem users_manage_escalates_witness:
  "\<not> has_permission desk_db desk_user ''settings.system'' \<and>
   (\<exists>(s' :: account_db session). user_by_id (durable s') demo_id = Some (desk_user\<lparr>us_role := SUPER_ADMIN\<rparr>) \<and>
      fst (require_auth demo_env 60 (Some ''Bearer tok'') (\<lambda>g. require_admin
          (require_permission [''users.manage''] (update_user demo_env no_faults [] demo_id
            [(''role'', JStr ''SUPER_ADMIN'')])) g) empty_g (open_session desk_db)) =
        Inr (answer 200 [(''user'', user_json (desk_user\<lparr>us_role := SUPER_ADMIN\<rparr>))]) \<and>
      has_permission (durable s') (desk_user\<lparr>us_role := SUPER_ADMIN\<rparr>) ''settings.system'')"
proof -
  have levels: "get_access_levels desk_db desk_user = [manager_role]"
    by (simp add: get_access_levels_def linked_def)
  have bearer: "bearer_token ''Bearer tok'' = Some ''tok''"
    by code_simp
  have "jwt_decode demo_env 60 ''tok'' = Some \<lparr>cl_user_id = Some demo_id, cl_email = ''a@b.cd'',
      cl_exp = 86400, cl_iat = 0\<rparr>" by (simp add: demo_env_def)
  moreover have "demo_id \<noteq> []" by (simp add: demo_id_def)
  ultimately have "verify_token demo_env 60 ''tok'' = Some demo_id" by (simp add: verify_token_def)
  then have auth: "authenticate demo_env 60 (pending (open_session desk_db)) (Some ''Bearer tok'') =
      Inr (demo_id, desk_user)"
    using bearer by (simp add: authenticate_def opt_str_def is_active_def)
  have perm: "has_permission (pending (open_session desk_db)) desk_user ''users.manage''"
    by (simp add: has_permission_def levels role_has_permission_def)
  have "\<not> has_permission desk_db desk_user ''settings.system''"
    by (simp add: has_permission_def levels role_has_permission_def ends_with_def starts_with_def)
  moreover have "us_id desk_user = demo_id" "us_role desk_user = ADMIN" "\<forall>n. no_faults n = None"
    by simp_all
  ultimately show ?thesis
    using users_manage_escalates [OF auth _ _ perm, of no_faults "[]" empty_g "[''settings.system'']"]
    by (auto simp del: desk_sel)
qed

section \<open>A creation that is refused half-way\<close>

definition create_payload :: "string \<Rightarrow> string \<Rightarrow> json_dict \<Rightarrow> json_dict" where
  "create_payload email password details =
     [(''email'', JStr email), (''password'', JStr password), (''details'', JObj details)]"

lemma create_payload_sel [simp]:
  "body_str (create_payload e pw ds) ''email'' = none_if_empty (Some e)"
  "body_str (create_payload e pw ds) ''password'' = none_if_empty (Some pw)"
  "jget (create_payload e pw ds) ''details'' = JObj ds"
  "jget_or (create_payload e pw ds) ''status'' v = v" "jget_or (create_payload e pw ds) ''role'' v = v"
  by (simp_all add: create_payload_def body_str_def jget_def jget_or_def none_if_empty_def)

lemma default_enums:
  "enum_field parse_user_status ''status'' (JStr ''ACTIVE'') = Inr User_ACTIVE"
  "enum_field parse_user_role ''role'' (JStr ''USER'') = Inr USER"
  by code_simp+

lemma save_user_ok:
  "drv (calls s) = None \<Longrightarrow> save_user drv u s =
     (Inr (), s\<lparr>pending := put_user u (pending s), calls := Suc (calls s),
       durable := put_user u (pending s)\<rparr>)"
  by (simp add: save_user_def repo_save_def)

text \<open>
  Creating a user with details that are refused. The user is committed before the details
  are validated: with an account type that is not valid the caller gets the error, but the
  account exists, active and with the password given, and a corrected second attempt is
  turned away because the address is taken.
\<close>

theorem refused_details_leave_user:
  assumes "drv (calls s) = None" and "email \<noteq> []" and "length password \<ge> 8"
    and "user_by_email (pending s) email = None" and "details \<noteq> []"
    and "hash_pw env (calls s) password = Inr h"
    and "(let ud = details_on_create (mint (calls s)) details in
      validate_account_type (ud_fields ud ''account_type'') (ud_fields ud ''company'')) = Inl e"
  shows "\<exists>s' u. admin_create env drv mint [] actor (create_payload email password details) s = (Inl e, s') \<and>
    user_by_id (durable s') (mint (calls s)) = Some u \<and> us_email u = email \<and> is_active u \<and>
    us_password_hash u = h \<and>
    fst (admin_create env drv' mint [] actor (create_payload email password details')
      (open_session (durable s'))) = Inl (AdminUserUpdateError ''User with this email already exists'')"
proof -
  let ?u = "\<lparr>us_id = mint (calls s), us_email = email, us_password_hash = h,
    us_status = User_ACTIVE, us_role = USER\<rparr>"
  let ?t = "s\<lparr>pending := put_user ?u (pending s), calls := Suc (calls s), durable := put_user ?u (pending s)\<rparr>"
  have pw: "password \<noteq> []" using assms(3) by auto
  have bad: "validate_account_type (ud_fields (details_on_create (mint (calls s)) details) ''account_type'')
      (ud_fields (details_on_create (mint (calls s)) details) ''company'') = Inl e"
    using assms(7) by (simp add: Let_def)
  have "attach_details_on_create drv (mint (calls s)) details ?t = (Inl e, ?t)"
    by (simp add: attach_details_on_create_def bad Let_def of_sum_def seqP_def bindP_def)
  moreover have "save_user drv ?u s = (Inr (), ?t)" using assms(1) by (simp add: save_user_ok)
  ultimately have run: "admin_create env drv mint [] actor (create_payload email password details) s = (Inl e, ?t)"
    using assms pw
    by (simp add: admin_create_def none_if_empty_def default_enums of_sum_def run_user_provisioning_guards_def
        hash_password_run seqP_def bindP_def Let_def)
  have "\<exists>w. user_by_email (put_user ?u (pending s)) email = Some w"
  proof -
    have "?u \<in> set (ad_users (put_user ?u (pending s)))"
      using find_row_Some [of us_id "us_id ?u" "upsert us_id ?u (ad_users (pending s))" ?u]
      by (simp add: put_user_def)
    then have "email \<in> us_email ` set (ad_users (put_user ?u (pending s)))" by force
    then show ?thesis
      by (cases "user_by_email (put_user ?u (pending s)) email") (auto simp: user_by_email_def find_row_None)
  qed
  then have "fst (admin_create env drv' mint [] actor (create_payload email password details')
      (open_session (durable ?t))) = Inl (AdminUserUpdateError ''User with this email already exists'')"
    using assms(2,3) pw by (auto simp: admin_create_def none_if_empty_def admin_error_def)
  with run show ?thesis
    by (intro exI [of _ ?t] exI [of _ ?u]) (simp add: user_by_id_def put_user_def is_active_def)
qed

theorem refused_details_leave_user_witness:
  "\<exists>(s' :: account_db session) u.
     admin_create demo_env no_faults (\<lambda>_. ''u7'') [] None
        (create_payload ''n@b.cd'' ''Secret!9'' [(''account_type'', JStr ''business'')]) (open_session desk_db) =
      (Inl (AccountTypeValidationError ''Company is required for a business account''), s') \<and>
     user_by_id (durable s') ''u7'' = Some u \<and> us_email u = ''n@b.cd''"
proof -
  let ?d = "[(''account_type'', JStr ''business'')]"
  have a: "no_faults (calls (open_session desk_db)) = None" and b: "''n@b.cd'' \<noteq> []"
    and c: "length ''Secret!9'' \<ge> 8" and f: "?d \<noteq> []"
    and h: "hash_pw demo_env (calls (open_session desk_db)) ''Secret!9'' = Inr ''9!terceS''" by simp_all
  have e: "user_by_email (pending (open_session desk_db)) ''n@b.cd'' = None"
    by (simp add: user_by_email_def find_row_def desk_user_def)
  have g: "(let ud = details_on_create ((\<lambda>_. ''u7'') (calls (open_session desk_db))) ?d in
      validate_account_type (ud_fields ud ''account_type'') (ud_fields ud ''company'')) =
      Inl (AccountTypeValidationError ''Company is required for a business account'')"
    by code_simp
  from refused_details_leave_user [where mint = "\<lambda>_. ''u7''" and s = "open_session desk_db"
      and drv = no_faults, OF a b c e f h g, of None no_faults "[]"] show ?thesis
    by blast
qed

end
