(* ===== verification/AccountFlow.thy ===== *)
theory AccountFlow
  imports UserAdminFlow
begin

text \<open>
  The account tables as a whole: every operation of the services leaves them well-formed
  whatever the database does, and a registered user can log in.
\<close>

section \<open>Well-formed account tables\<close>

definition accounts_ok :: "'p account_db_scheme \<Rightarrow> bool" where
  "accounts_ok d \<longleftrightarrow>
     distinct (map us_id (ad_users d)) \<and> distinct (map us_email (ad_users d)) \<and>
     distinct (map ro_id (ad_roles d)) \<and> distinct (map ro_id (ad_levels d)) \<and>
     distinct (map ud_user_id (ad_details d)) \<and>
     snd ` set (ad_user_roles d) \<subseteq> ro_id ` set (ad_roles d) \<and>
     snd ` set (ad_user_levels d) \<subseteq> ro_id ` set (ad_levels d) \<and>
     fst ` set (ad_user_levels d) \<subseteq> us_id ` set (ad_users d) \<and>
     (\<forall>r \<in> set (ad_roles d). set (ro_permissions r) \<subseteq> set (ad_permissions d)) \<and>
     (\<forall>l \<in> set (ad_levels d). set (ro_permissions l) \<subseteq> set (ad_permissions d))"

lemma upsert_distinct_other:
  assumes "distinct (map key rows)" and "distinct (map f rows)"
    and "\<And>x. x \<in> set rows \<Longrightarrow> f x = f r \<Longrightarrow> key x = key r"
  shows "distinct (map f (upsert key r rows))"
proof (cases "key r \<in> key ` set rows")
  case False
  then have "f r \<noteq> f x" if "x \<in> set rows" for x
    using assms(3) [OF that] that by (metis imageI)
  then have "f r \<notin> f ` set rows" by blast
  with False assms(2) show ?thesis by (simp add: upsert_def)
next
  case True
  have "distinct (map f (map (\<lambda>x. if key x = key r then r else x) rows))"
    using assms
  proof (induction rows)
    case (Cons x rows)
    have rest: "distinct (map f (map (\<lambda>x. if key x = key r then r else x) rows))"
      using Cons by simp
    have "f (if key x = key r then r else x) \<noteq> f (if key y = key r then r else y)"
      if y: "y \<in> set rows" for y
    proof -
      have "key x \<noteq> key y" "f x \<noteq> f y" using Cons.prems(1,2) y by (auto intro: imageI)
      with Cons.prems(3) [of x] Cons.prems(3) [of y] y show ?thesis by auto
    qed
    then have "f (if key x = key r then r else x) \<notin>
        set (map f (map (\<lambda>y. if key y = key r then r else y) rows))"
      unfolding set_map image_image by blast
    with rest show ?case by (simp only: list.map distinct.simps simp_thms)
  qed simp
  with True show ?thesis by (simp add: upsert_def)
qed

lemma keys_upsert_subset: "key ` set rows \<subseteq> key ` set (upsert key r rows)"
proof -
  have "set (map key (upsert key r rows)) = insert (key r) (set (map key rows))"
    unfolding keys_upsert by auto
  then show ?thesis by auto
qed

lemma put_user_sel [simp]:
  "ad_users (put_user u d) = upsert us_id u (ad_users d)" "ad_roles (put_user u d) = ad_roles d"
  "ad_levels (put_user u d) = ad_levels d" "ad_details (put_user u d) = ad_details d"
  "ad_user_roles (put_user u d) = ad_user_roles d" "ad_user_levels (put_user u d) = ad_user_levels d"
  "ad_permissions (put_user u d) = ad_permissions d"
  by (simp_all add: put_user_def)

lemma ok_put_user:
  assumes "accounts_ok d"
    and "\<And>x. x \<in> set (ad_users d) \<Longrightarrow> us_email x = us_email u \<Longrightarrow> us_id x = us_id u"
  shows "accounts_ok (put_user u d)"
proof -
  have "distinct (map us_email (upsert us_id u (ad_users d)))"
    using assms by (intro upsert_distinct_other) (auto simp: accounts_ok_def)
  moreover have "fst ` set (ad_user_levels d) \<subseteq> us_id ` set (ad_users d)"
    using assms(1) by (simp add: accounts_ok_def)
  then have "fst ` set (ad_user_levels d) \<subseteq> us_id ` set (upsert us_id u (ad_users d))"
    by (rule subset_trans [OF _ keys_upsert_subset])
  ultimately show ?thesis using assms(1) by (simp add: accounts_ok_def)
qed

lemma ok_new_user:
  assumes "accounts_ok d" and "user_by_email d (us_email u) = None"
  shows "accounts_ok (put_user u d)"
  using assms(1)
proof (rule ok_put_user)
  fix x assume "x \<in> set (ad_users d)" and "us_email x = us_email u"
  then have "us_email u \<in> us_email ` set (ad_users d)" by (metis imageI)
  with assms(2) show "us_id x = us_id u" by (simp add: user_by_email_def find_row_None)
qed

lemma ok_same_email:
  assumes "accounts_ok d" and "user_by_id d i = Some w" and "us_id u = i" and "us_email u = us_email w"
  shows "accounts_ok (put_user u d)"
  using assms(1)
proof (rule ok_put_user)
  fix x assume x: "x \<in> set (ad_users d)" and e: "us_email x = us_email u"
  have w: "w \<in> set (ad_users d)" "us_id w = i"
    using assms(2) by (auto simp: user_by_id_def dest: find_row_Some)
  have "inj_on us_email (set (ad_users d))" using assms(1) by (simp add: accounts_ok_def distinct_map)
  with x w e assms(3,4) show "us_id x = us_id u" by (metis inj_onD)
qed

lemma ok_change_user:
  assumes "accounts_ok d" and "\<And>u. us_id (f u) = us_id u" and "\<And>u. us_email (f u) = us_email u"
  shows "accounts_ok (d\<lparr>ad_users := map (\<lambda>u. if us_id u = i then f u else u) (ad_users d)\<rparr>)"
proof -
  have "us_id ` (\<lambda>u. if us_id u = i then f u else u) ` us = us_id ` us" for us
    unfolding image_image by (rule image_cong) (simp_all add: assms(2))
  with assms show ?thesis
    by (auto simp: accounts_ok_def o_def if_distrib [of us_id] if_distrib [of us_email] cong: if_cong)
qed

lemma ok_details:
  assumes "accounts_ok d" and "distinct (map ud_user_id ds)"
  shows "accounts_ok (d\<lparr>ad_details := ds\<rparr>)"
  using assms by (simp add: accounts_ok_def)

lemma ok_put_details: "accounts_ok d \<Longrightarrow> accounts_ok (put_details ud d)"
  unfolding put_details_def by (rule ok_details) (simp_all add: accounts_ok_def)

lemma ok_other_tables [simp]:
  "accounts_ok (d\<lparr>ad_resets := rs\<rparr>) = accounts_ok d" "accounts_ok (d\<lparr>ad_keys := ks\<rparr>) = accounts_ok d"
  "accounts_ok (d\<lparr>ad_user_groups := gs\<rparr>) = accounts_ok d"
  by (simp_all add: accounts_ok_def)

lemma ok_stamp [simp]: "accounts_ok (stamp_tokens P now d) = accounts_ok d"
  by (simp add: stamp_tokens_def)

lemma ok_money [simp]:
  "accounts_ok (put_balance i b d) = accounts_ok d" "accounts_ok (add_tx t d) = accounts_ok d"
  by (simp_all add: accounts_ok_def put_balance_def add_tx_def)

lemma ok_link_role:
  "accounts_ok d \<Longrightarrow> role_by_name d name = Some r \<Longrightarrow> accounts_ok (link_role i (ro_id r) d)"
  by (auto simp: accounts_ok_def link_role_def dest: role_by_name_Some)

lemma ok_unlink_role: "accounts_ok d \<Longrightarrow> accounts_ok (unlink_role i r d)"
  by (auto simp: accounts_ok_def unlink_role_def)

lemma ok_link_level:
  "accounts_ok d \<Longrightarrow> user_by_id d i = Some u \<Longrightarrow> level_by_id d l = Some lv \<Longrightarrow>
   accounts_ok (link_level i l d)"
  by (auto simp: accounts_ok_def link_level_def user_by_id_def level_by_id_def dest!: find_row_Some)

lemma ok_unlink_level: "accounts_ok d \<Longrightarrow> accounts_ok (unlink_level i l d)"
  by (auto simp: accounts_ok_def unlink_level_def)

lemma ok_put_role:
  assumes "accounts_ok d" and "set (ro_permissions r) \<subseteq> set (ad_permissions d)"
  shows "accounts_ok (put_role r d)"
  using assms subset_trans [OF _ keys_upsert_subset [of ro_id "ad_roles d" r]]
  by (auto simp: accounts_ok_def put_role_def dest!: set_upsert del: subsetI)

lemma ok_put_level:
  assumes "accounts_ok d" and "set (ro_permissions l) \<subseteq> set (ad_permissions d)"
  shows "accounts_ok (put_level l d)"
  using assms subset_trans [OF _ keys_upsert_subset [of ro_id "ad_levels d" l]]
  by (auto simp: accounts_ok_def put_level_def dest!: set_upsert del: subsetI)

lemma ok_drop_user: "accounts_ok d \<Longrightarrow> accounts_ok (drop_user i d)"
proof -
  assume ok: "accounts_ok d"
  have "fst l \<in> us_id ` set (remove_rows (\<lambda>u. us_id u = i) (ad_users d))"
    if "l \<in> set (remove_rows (\<lambda>l. fst l = i) (ad_user_levels d))" for l
    using ok that by (force simp: accounts_ok_def remove_rows_def)
  with ok show ?thesis
    by (auto simp: accounts_ok_def drop_user_def remove_rows_def distinct_map_filter)
qed

section \<open>Every operation keeps them\<close>

lemma sound_at_of_sum [simp]:
  "sound_at Q (bindP (of_sum r) f) s = (case r of Inl e \<Rightarrow> Q (durable s) | Inr x \<Rightarrow> sound_at Q (f x) s)"
  by (simp add: sound_at_def of_sum_def split: sum.split)

lemma sound_at_of_sum_seq [simp]:
  "sound_at Q (seqP (of_sum r) m) s = (case r of Inl e \<Rightarrow> Q (durable s) | Inr x \<Rightarrow> sound_at Q m s)"
  by (simp add: seqP_def)

lemma sound_at_execute:
  assumes "both Q s" and "Q (f (pending s))"
  shows "sound_at Q (execute drv f) s"
  using assms by (cases "drv (calls s)")
    (auto simp: sound_at_def execute_def seqP_def bindP_def both_def)

lemma sound_at_save_user:
  assumes "both Q s" and "Q (put_user u (pending s))"
  shows "sound_at Q (save_user drv u) s"
  using assms unfolding save_user_def by (intro sound_at_write) (simp_all add: both_def)

lemma bothD: "both Q s \<Longrightarrow> Q (durable s)" "both Q s \<Longrightarrow> Q (pending s)"
  by (simp_all add: both_def)

lemma both_pending: "both Q s \<Longrightarrow> Q d \<Longrightarrow> both Q (s\<lparr>pending := d\<rparr>)"
  by (simp add: both_def)

text \<open>The level operations keep the tables well-formed even when they raise.\<close>

lemma keeps_with_level:
  assumes "\<And>s. \<lbrakk>both accounts_ok s; user_by_id (pending s) i \<noteq> None; level_by_id (pending s) l \<noteq> None\<rbrakk>
    \<Longrightarrow> both accounts_ok (snd (f ((i, l) \<in> set (ad_user_levels (pending s))) s))"
  shows "keeps (both accounts_ok) (with_user_and_level i l f)"
  by (rule keepsI) (use assms in \<open>auto simp: with_user_and_level_def split: option.split\<close>)

lemma flush_after:
  "both Q (s\<lparr>pending := d\<rparr>) \<Longrightarrow> both Q (snd (seqP (flush drv) (ret x) (s\<lparr>pending := d\<rparr>)))"
  by (cases "drv (calls s)") (auto simp: seqP_def bindP_def both_def)

lemma keeps_assign_level: "keeps (both accounts_ok) (assign_level drv i l)"
  unfolding assign_level_def
  by (rule keeps_with_level) (auto intro!: flush_after both_pending ok_link_level dest: bothD)

lemma keeps_revoke_level: "keeps (both accounts_ok) (revoke_level drv i l)"
  unfolding revoke_level_def
  by (rule keeps_with_level) (auto intro!: flush_after both_pending ok_unlink_level dest: bothD)

lemma sound_plan_end: "sound accounts_ok (revoke_plan_linked_levels drv i plan)"
  unfolding revoke_plan_linked_levels_def
  by (intro sound_query_bind sound_foldP sound_bindP keeps_sound [OF keeps_revoke_level] sound_ret)

lemma keeps_default_level: "keeps (both accounts_ok) (assign_default_access_level drv u)"
  unfolding assign_default_access_level_def
  by (intro keeps_try keeps_bindP both_query) 
    (auto split: option.split intro!: keeps_bindP keeps_assign_level keeps_when both_commit)

lemma sound_register: "sound accounts_ok (register env drv mint now email password)"
proof (rule soundI_at)
  fix s assume ok: "both accounts_ok s"
  have "sound accounts_ok (seqP (assign_default_access_level drv u) (ret x))" for u and x :: auth_result
    by (intro sound_seqP keeps_sound keeps_default_level sound_ret)
  then have "sound_at accounts_ok (seqP (save_user drv u) (seqP (assign_default_access_level drv u) (ret x))) s"
    if "user_by_email (pending s) (us_email u) = None" for u and x :: auth_result
    using ok that by (intro sound_at_seqP sound_at_save_user ok_new_user) (auto dest: bothD)
  with ok show "sound_at accounts_ok (register env drv mint now email password) s"
    by (auto simp: register_def Let_def dest: bothD split: option.split sum.split)
qed

lemma sound_assign_role: "sound accounts_ok (assign_role drv i name)"
  by (rule soundI_at)
    (auto simp: assign_role_def split: option.split dest: bothD
      intro!: sound_at_seqP sound_at_execute ok_link_role)

lemma sound_revoke_role: "sound accounts_ok (revoke_role drv i name)"
  by (rule soundI_at)
    (auto simp: revoke_role_def split: option.split dest: bothD
      intro!: sound_at_seqP sound_at_execute ok_unlink_role)

lemma sound_ensure_level: "sound accounts_ok (ensure_user_access_level drv mint slug name names plan)"
proof (rule soundI_at)
  fix s :: "'p account_db_scheme session" assume ok: "both accounts_ok s"
  have "accounts_ok (put_level l (pending s))"
    if "ro_permissions l = resolve_permission_rows (pending s) names" for l
    using ok that by (intro ok_put_level) (auto simp: resolve_permission_rows_def dest: bothD)
  with ok show "sound_at accounts_ok (ensure_user_access_level drv mint slug name names plan) s"
    by (auto simp: ensure_user_access_level_def Let_def split: option.split
        intro!: sound_at_seqP sound_at_flush both_pending)
qed

lemma sound_ensure_role: "sound accounts_ok (ensure_role drv mint allow slug name names)"
proof (rule soundI_at)
  fix s :: "'p account_db_scheme session" assume ok: "both accounts_ok s"
  have "accounts_ok (put_role r (pending s))"
    if "ro_permissions r = resolve_permission_rows (pending s) (clamp_special_permissions names)" for r
    using ok that by (intro ok_put_role) (auto simp: resolve_permission_rows_def dest: bothD)
  with ok show "sound_at accounts_ok (ensure_role drv mint allow slug name names) s"
    by (auto simp: ensure_role_def Let_def split: option.split
        intro!: sound_at_seqP sound_at_flush both_pending)
qed

lemma sound_reset_op: "sound accounts_ok (run_reset_op env drv mint clk draw n op)"
proof (cases op)
  case (RequestOp email)
  then show ?thesis by (auto intro!: sound_seqP sound_create_reset_token)
next
  case (ExecuteOp token pw)
  have "sound accounts_ok (reset_password env (drv n) clk token pw)"
    by (rule sound_reset_password) (auto intro: ok_same_email)
  then show ?thesis by (auto simp: ExecuteOp)
next
  case (CleanupOp days)
  then show ?thesis by (auto intro!: sound_seqP sound_cleanup)
qed

lemma ok_put_key: "accounts_ok (put_key k d) = accounts_ok d"
  by (simp add: put_key_def)

lemma sound_generate_key:
  "sound accounts_ok (generate_key drv digest mint draw i label scopes ips creator)"
proof -
  have "sound accounts_ok (save_key drv k)" for k :: api_key
    unfolding save_key_def by (rule sound_repo_save) (simp add: ok_put_key)
  then show ?thesis
    unfolding generate_key_def Let_def by (auto intro!: sound_bindP sound_seqP split: prod.split)
qed

lemma sound_revoke_key: "sound accounts_ok (revoke_key drv i owner)"
proof (rule soundI_at)
  fix s :: "'p account_db_scheme session" assume "both accounts_ok s"
  then show "sound_at accounts_ok (revoke_key drv i owner) s"
    by (auto simp: revoke_key_def repo_revoke_key_def deactivate_def split: option.split dest: bothD
        intro!: sound_at_seqP sound_at_commit both_pending)
qed

lemma sound_set_status: "sound accounts_ok (set_status_route st msg drv i g)"
proof (rule soundI_at)
  fix s :: "'p account_db_scheme session" assume ok: "both accounts_ok s"
  have "accounts_ok (put_user (u\<lparr>us_status := st\<rparr>) (pending s))" if "user_by_id (pending s) i = Some u" for u
    using ok that by (intro ok_same_email [OF _ that])
      (auto simp: user_by_id_def dest: bothD find_row_Some)
  with ok show "sound_at accounts_ok (set_status_route st msg drv i g) s"
    by (auto simp: set_status_route_def split: option.split intro!: sound_at_seqP sound_at_save_user)
qed

lemma sound_change_password: "sound accounts_ok (change_password env drv data g)"
proof (rule soundI_at)
  fix s :: "'p account_db_scheme session" assume ok: "both accounts_ok s"
  have "accounts_ok (put_user (u\<lparr>us_password_hash := h\<rparr>) (pending s))"
    if "user_by_id (pending s) i = Some u" for i u h
    using ok that by (intro ok_same_email [OF _ that])
      (auto simp: user_by_id_def dest: bothD find_row_Some)
  with ok show "sound_at accounts_ok (change_password env drv data g) s"
    by (auto simp: change_password_def dest: bothD split: option.split sum.split
        intro!: sound_at_seqP sound_at_save_user)
qed

text \<open>The ledger does not touch the account tables.\<close>

definition accounts_hooks :: "'p account_db_ext hook list \<Rightarrow> bool" where
  "accounts_hooks hooks \<longleftrightarrow> (\<forall>h \<in> set hooks. \<forall>mv. keeps (both accounts_ok) (h mv))"

lemma keeps_movement:
  assumes "accounts_hooks hooks"
  shows "keeps (both accounts_ok) (apply_movement drv hooks i n ty r ds c)"
  unfolding apply_movement_def run_token_movement_hooks_def Let_def publish_token_moved_def
  using assms
  by (intro keeps_bindP keeps_try keeps_seqP both_on_db both_flush both_query keeps_for_each keeps_when
      both_commit keeps_ret both_rollback keeps_raise both_publish) (simp_all add: accounts_hooks_def)

lemma keeps_credit:
  assumes "accounts_hooks hooks"
  shows "keeps (both accounts_ok) (credit_tokens drv hooks i a ty r ds c)"
proof -
  have "keeps (both accounts_ok) (get_or_create drv i)"
    unfolding get_or_create_def find_balance_def
    by (intro keeps_bindP both_query) (auto split: option.split intro!: keeps_seqP both_on_db)
  with keeps_movement [OF assms] show ?thesis
    unfolding credit_tokens_def by (auto split: sum.split)
qed

lemma keeps_debit:
  assumes "accounts_hooks hooks"
  shows "keeps (both accounts_ok) (debit_tokens drv hooks i a ty r ds c)"
  unfolding debit_tokens_def find_balance_def
  using keeps_movement [OF assms] by (auto split: sum.split option.split intro!: keeps_bindP)

lemma keeps_change_user:
  "\<lbrakk>\<And>u. us_id (f u) = us_id u; \<And>u. us_email (f u) = us_email u\<rbrakk> \<Longrightarrow>
   keeps (both accounts_ok) (change_user i f)"
  unfolding change_user_def by (rule both_on_db) (rule ok_change_user)

lemma keeps_of_sum [intro]: "keeps P (of_sum r)"
  by (cases r) (auto simp: of_sum_def)

lemma keeps_hash [intro]: "keeps P (hash_password env pw)"
  unfolding hash_password_def by (intro keeps_bindP keeps_gets) (auto split: sum.split)

lemma set_column_user [simp]: "ud_user_id (set_column k v ud) = ud_user_id ud"
  by (simp add: set_column_def)

lemma set_columns_user [simp]: "ud_user_id (set_columns kvs ud) = ud_user_id ud"
  by (induction kvs ud rule: set_columns.induct) simp_all

lemma detail_fields_user [simp]: "ud_user_id (detail_fields_update payload ud) = ud_user_id ud"
proof -
  have "ud_user_id (foldl (\<lambda>ud k. if has_key k payload
      then set_column k (falsy_to_none (jget payload k)) ud else ud) ud ks) = ud_user_id ud" for ks
    by (induction ks arbitrary: ud) simp_all
  then show ?thesis by (simp add: detail_fields_update_def)
qed

lemma keeps_change_details:
  assumes "\<And>ud. ud_user_id (f ud) = ud_user_id ud"
  shows "keeps (both accounts_ok) (change_details i f)"
  unfolding change_details_def
proof (rule both_on_db)
  fix d :: "'p account_db_scheme" assume ok: "accounts_ok d"
  have "map ud_user_id (map (\<lambda>ud. if ud_user_id ud = i then f ud else ud) ds) = map ud_user_id ds" for ds
    by (induction ds) (simp_all add: assms)
  moreover have "distinct (map ud_user_id (ad_details d))" using ok by (simp only: accounts_ok_def)
  ultimately show "accounts_ok (d\<lparr>ad_details := map (\<lambda>ud. if ud_user_id ud = i then f ud else ud) (ad_details d)\<rparr>)"
    using ok by (intro ok_details) (simp_all only:)
qed

lemma keeps_apply_status: "keeps (both accounts_ok) (apply_status i payload)"
  unfolding apply_status_def
  by (intro keeps_seqP keeps_when keeps_if keeps_ret keeps_bindP keeps_of_sum keeps_change_user) simp_all

lemma keeps_apply_role: "keeps (both accounts_ok) (apply_role i payload)"
  unfolding apply_role_def
  by (intro keeps_if keeps_ret keeps_bindP keeps_of_sum keeps_change_user) simp_all

lemma keeps_apply_password: "keeps (both accounts_ok) (apply_password env i payload)"
proof -
  have "keeps (both accounts_ok) (bindP (hash_password env pw)
      (\<lambda>h. change_user i (us_password_hash_update (\<lambda>_. h))))" for pw
    by (intro keeps_bindP keeps_hash keeps_change_user) simp_all
  then show ?thesis unfolding apply_password_def by (auto split: option.split)
qed

lemma keeps_ensure_details: "keeps (both accounts_ok) (ensure_details_row drv i payload)"
  unfolding ensure_details_row_def
  by (intro keeps_if keeps_ret keeps_bindP both_query keeps_seqP both_flush both_on_db ok_put_details)

lemma keeps_legacy_name: "keeps (both accounts_ok) (apply_legacy_name i payload)"
  unfolding apply_legacy_name_def by (auto split: option.split intro!: keeps_change_details)

lemma keeps_prelude: "keeps (both accounts_ok) (update_prelude env drv i payload)"
proof -
  have "keeps (both accounts_ok) (apply_detail_fields i payload)"
    unfolding apply_detail_fields_def by (rule keeps_change_details) simp
  moreover have "keeps (both accounts_ok) (validate_details i payload)"
    unfolding validate_details_def
    by (intro keeps_bindP both_query) (auto split: option.split)
  ultimately show ?thesis
    unfolding update_prelude_def
    by (intro keeps_seqP keeps_apply_status keeps_apply_role keeps_apply_password keeps_ensure_details
        keeps_legacy_name)
qed

lemma keeps_execute:
  "(\<And>d. Q d \<Longrightarrow> Q (f d)) \<Longrightarrow> keeps (both Q) (execute drv f)"
  unfolding execute_def by (intro keeps_seqP both_flush both_on_db)

lemma keeps_add: "keeps (both accounts_ok) (add_membership drv i slug)"
  unfolding add_membership_def
  by (intro keeps_bindP keeps_if both_query keeps_execute keeps_ret) simp

lemma keeps_remove: "keeps (both accounts_ok) (remove_membership drv i slug)"
  unfolding remove_membership_def by (rule keeps_execute) simp

lemma keeps_groups: "keeps (both accounts_ok) (apply_group_slugs drv i payload)"
  unfolding apply_group_slugs_def set_user_groups_def Let_def
  by (auto intro!: keeps_bindP keeps_seqP keeps_for_each keeps_add keeps_remove split: json.split)

lemma keeps_balance:
  assumes "accounts_hooks hooks"
  shows "keeps (both accounts_ok) (apply_token_balance drv hooks i payload)"
  unfolding apply_token_balance_def get_balance_def Let_def
  using keeps_credit [OF assms] keeps_debit [OF assms]
  by (auto intro!: keeps_bindP split: option.split)

lemma sound_admin_update:
  fixes hooks :: "'p account_db_ext hook list"
  assumes "accounts_hooks hooks"
  shows "sound accounts_ok (admin_update env drv hooks i payload)"
proof (rule soundI_at)
  fix s :: "'p account_db_scheme session" assume ok: "both accounts_ok s"
  have "keeps (both accounts_ok) (seqP (update_prelude env drv i payload)
        (seqP (apply_token_balance drv hooks i payload)
        (seqP (apply_group_slugs drv i payload)
        (seqP (save_commit drv) (query (\<lambda>d. user_by_id d i))))))"
    by (intro keeps_seqP keeps_prelude keeps_balance keeps_groups both_save_commit both_query) (rule assms)
  then have "sound_at accounts_ok (seqP (update_prelude env drv i payload)
        (seqP (apply_token_balance drv hooks i payload)
        (seqP (apply_group_slugs drv i payload)
        (seqP (save_commit drv) (query (\<lambda>d. user_by_id d i)))))) s"
    by (intro sound_at_sound keeps_sound ok)
  with ok
  show "sound_at accounts_ok (admin_update env drv hooks i payload) s"
    by (simp add: sound_at_def admin_update_split)
qed

lemma sound_update_details: "sound accounts_ok (update_user_details drv i details)"
proof (rule soundI_at)
  fix s :: "'p account_db_scheme session" assume ok: "both accounts_ok s"
  then show "sound_at accounts_ok (update_user_details drv i details) s"
    by (auto simp: update_user_details_def Let_def split: option.split sum.split dest: bothD
        intro!: sound_at_seqP sound_at_commit sound_at_write both_pending ok_put_details)
qed

lemma sound_update_roles: "sound accounts_ok (update_user_roles drv i data g)"
proof (rule soundI_at)
  fix s :: "'p account_db_scheme session" assume ok: "both accounts_ok s"
  have "accounts_ok (put_user (u\<lparr>us_role := r\<rparr>) (pending s))" if "user_by_id (pending s) i = Some u" for u r
    using ok that by (intro ok_same_email [OF _ that])
      (auto simp: user_by_id_def dest: bothD find_row_Some)
  with ok show "sound_at accounts_ok (update_user_roles drv i data g) s"
    by (auto simp: update_user_roles_def Let_def split: option.split sum.split dest: bothD
        intro!: sound_at_seqP sound_at_save_user)
qed

lemma sound_delete: "sound accounts_ok (repo_delete_user drv i)"
  unfolding repo_delete_user_def
  by (intro sound_query_bind sound_seqP sound_ret sound_commit keeps_sound keeps_execute ok_drop_user)

lemma sound_attach: "sound accounts_ok (attach_details_on_create drv i payload)"
proof (rule soundI_at)
  fix s :: "'p account_db_scheme session" assume ok: "both accounts_ok s"
  then show "sound_at accounts_ok (attach_details_on_create drv i payload) s"
    by (auto simp: attach_details_on_create_def Let_def split: sum.split dest: bothD
        intro!: sound_at_commit both_pending ok_put_details)
qed

lemma sound_admin_create: "sound accounts_ok (admin_create env drv mint [] actor payload)"
proof (rule soundI_at)
  fix s :: "'p account_db_scheme session" assume ok: "both accounts_ok s"
  have save: "sound_at accounts_ok (seqP (save_user drv u) m) s"
    if "user_by_email (pending s) (us_email u) = None" "sound accounts_ok m"
    for u and m :: "('p account_db_scheme session, user) prog"
    using ok that by (intro sound_at_seqP sound_at_save_user ok_new_user) (auto dest: bothD)
  from ok show "sound_at accounts_ok (admin_create env drv mint [] actor payload) s"
    by (auto simp: admin_create_def run_user_provisioning_guards_def Let_def
        dest: bothD split: option.split sum.split json.split
        intro!: save sound_seqP sound_ret sound_raise sound_attach)
qed

lemma sound_update_status: "sound accounts_ok (update_user_status drv i st)"
proof (rule soundI_at)
  fix s :: "'p account_db_scheme session" assume ok: "both accounts_ok s"
  have "accounts_ok (put_user (u\<lparr>us_status := st\<rparr>) (pending s))" if "user_by_id (pending s) i = Some u" for u
    using ok that by (intro ok_same_email [OF _ that])
      (auto simp: user_by_id_def dest: bothD find_row_Some)
  with ok show "sound_at accounts_ok (update_user_status drv i st) s"
    by (auto simp: update_user_status_def split: option.split dest: bothD
        intro!: sound_at_seqP sound_at_commit both_pending)
qed

section \<open>A registered user can log in\<close>

text \<open>What is relied on of bcrypt: a password matches the hashes made of it.\<close>

definition hash_matches :: "auth_env \<Rightarrow> bool" where
  "hash_matches env \<longleftrightarrow> (\<forall>n pw h. hash_pw env n pw = Inr h \<longrightarrow> check_pw env pw h = Inr True)"

lemma users_kept: "keeps (both (\<lambda>d. ad_users d = us)) (assign_default_access_level drv u)"
proof -
  have "keeps (both (\<lambda>d. ad_users d = us)) (assign_level drv i l)" for i l
  proof (rule keepsI)
    fix s :: "'p account_db_scheme session" assume "both (\<lambda>d. ad_users d = us) s"
    then show "both (\<lambda>d. ad_users d = us) (snd (assign_level drv i l s))"
      by (auto simp: assign_level_def with_user_and_level_def link_level_def both_def
          intro!: flush_after [unfolded both_def] split: option.split)
  qed
  then show ?thesis
    unfolding assign_default_access_level_def
    by (intro keeps_try keeps_bindP both_query)
      (auto split: option.split intro!: keeps_bindP keeps_when both_commit)
qed

lemma find_new_email:
  assumes "find_row us_email (us_email u) us = None"
  shows "find_row us_email (us_email u) (upsert us_id u us) = Some u"
proof -
  have none: "us_email x \<noteq> us_email u" if "x \<in> set us" for x
    using assms that by (metis find_row_None imageI)
  have "find_row us_email (us_email u) (map (\<lambda>x. if us_id x = us_id u then u else x) us) = Some u"
    if "us_id u \<in> us_id ` set us"
    using that none by (induction us) (auto simp: find_row_def)
  moreover have "find_row us_email (us_email u) (us @ [u]) = Some u"
    using none by (induction us) (auto simp: find_row_def)
  ultimately show ?thesis by (simp add: upsert_def)
qed

text \<open>
  C7. A registered user can log in. Whatever the database does, a registration that returns
  without success has changed nothing; one that succeeds has committed exactly one user with
  this address, active, with the ordinary role and the identifier it returned, the address was
  free and has the accepted form, and on the committed tables a login with the same
  address and password succeeds, for that user.
\<close>

theorem register_then_login:
  assumes "hash_matches env" and "register env drv mint now email password s = (Inr res, s')"
  shows "if ar_success res
    then validate_email email \<and> validate_password_strength password = None \<and>
      user_by_email (pending s) email = None \<and>
      (\<exists>u. user_by_email (durable s') email = Some u \<and> ar_user_id res = Some (us_id u) \<and>
         is_active u \<and> us_role u = USER \<and>
         ar_token res = Some (generate_token env now (us_id u) email) \<and>
         ad_users (durable s') = upsert us_id u (ad_users (pending s))) \<and>
      ar_success (login env later (durable s') email password) \<and>
      ar_user_id (login env later (durable s') email password) = ar_user_id res
    else s' = s"
proof (cases "validate_email email \<and> validate_password_strength password = None \<and>
    user_by_email (pending s) email = None")
  case False
  then have "\<not> ar_success res \<and> s' = s" using assms(2)
    by (auto simp: register_def auth_failure_def split: option.splits if_splits)
  then show ?thesis by simp
next
  case True
  define i where "i = mint (calls s)"
  from True assms(2) obtain h where h: "hash_pw env (calls s) password = Inr h"
    by (auto simp: register_def hash_password_run bindP_def split: sum.splits)
  define u where "u = \<lparr>us_id = i, us_email = email, us_password_hash = h, us_status = User_ACTIVE,
    us_role = USER\<rparr>"
  have "seqP (save_user drv u) (seqP (assign_default_access_level drv u)
      (ret (auth_success i (generate_token env now i email) None))) s = (Inr res, s')"
    using True assms(2) h
    by (simp add: register_def hash_password_run bindP_def u_def i_def Let_def)
  then obtain x s1 y where save: "save_user drv u s = (Inr x, s1)"
    and level: "assign_default_access_level drv u s1 = (Inr y, s')"
    and res: "res = auth_success i (generate_token env now i email) None"
    by (elim seqP_InrE) auto
  have s1: "ad_users (durable s1) = upsert us_id u (ad_users (pending s))" "durable s1 = pending s1"
    using save by (auto simp: save_user_def repo_save_def dest!: save_commit_Inr)
  have users: "ad_users (durable s') = upsert us_id u (ad_users (pending s))"
    using keepsD [OF users_kept _ level, of "upsert us_id u (ad_users (pending s))"] s1
    by (simp add: both_def)
  have row: "user_by_email (durable s') email = Some u"
    using True find_new_email [of u "ad_users (pending s)"]
    by (simp add: user_by_email_def users u_def)
  have "verify_password env password h"
    using assms(1) h by (simp add: hash_matches_def verify_password_def)
  then have "ar_success (login env later (durable s') email password)"
    by (auto simp: login_outcome row is_active_def u_def)
  moreover from login_token(1) [OF row this]
  have "ar_user_id (login env later (durable s') email password) = Some i" by (simp add: u_def)
  ultimately show ?thesis
    using True row users res
    by (auto simp: auth_success_def u_def is_active_def)
qed

theorem register_then_login_witness:
  "\<exists>res (s' :: account_db session).
     register demo_env no_faults (\<lambda>_. demo_id) 0 ''a@b.cd'' ''Secret!9'' (open_session empty_accounts) =
       (Inr res, s') \<and> ar_success res \<and>
     ar_success (login demo_env 60 (durable s') ''a@b.cd'' ''Secret!9'')"
proof -
  have law: "hash_matches demo_env" by (simp add: hash_matches_def)
  have ok: "validate_email ''a@b.cd''" "validate_password_strength ''Secret!9'' = None" by code_simp+
  have free: "user_by_email empty_accounts ''a@b.cd'' = None" "ad_levels empty_accounts = []"
    by (simp_all add: user_by_email_def find_row_def empty_accounts_def)
  have level: "level_by_slug d ''logged-in'' = None" if "ad_levels d = []" for d :: account_db
    using that by (simp add: level_by_slug_def find_row_def)
  have "\<exists>res s'. register demo_env no_faults (\<lambda>_. demo_id) 0 ''a@b.cd'' ''Secret!9''
      (open_session empty_accounts) = (Inr res, s') \<and> ar_success res"
    using ok by (simp add: free level register_def hash_password_run bindP_def seqP_def Let_def save_user_ok
        assign_default_access_level_def try_except_def auth_success_def put_user_def)
  then obtain res s' where run: "register demo_env no_faults (\<lambda>_. demo_id) 0 ''a@b.cd'' ''Secret!9''
      (open_session empty_accounts) = (Inr res, s')" and yes: "ar_success res" by blast
  from register_then_login [OF law run, of 60] run yes show ?thesis by auto
qed

end
