(* ===== verification/Rbac.thy ===== *)
theory Rbac
  imports UserGroups
begin

text \<open>
  The permission catalog (\<open>vbwd/services/permission_catalog.py\<close>) and the seeder of the default
  roles and access levels, which runs on every deploy (\<open>services/rbac_seeder.py\<close>).

  Parameters: the enabled plugins with the permission entries they declare, the registered
  data exchangers, and the content of the operator's override file. An entry is a dict; its
  keys have their documented types.
\<close>

section \<open>The catalog\<close>

type_synonym catalog = "(string \<times> json_dict list) list"

record plugin_permissions =
  pp_name :: string
  pp_admin :: "json_dict list"
  pp_user :: "json_dict list"

record exchanger_permissions =
  ex_cluster :: string
  ex_label :: string
  ex_supports_export :: bool
  ex_supports_import :: bool
  ex_has_pii :: bool
  ex_export_permission :: string
  ex_import_permission :: string
  ex_pii_permission :: string

definition catalog_entry :: "string \<Rightarrow> string \<Rightarrow> string \<Rightarrow> json_dict" where
  "catalog_entry key label grp = [(''key'', JStr key), (''label'', JStr label), (''group'', JStr grp)]"

definition core_permissions :: "json_dict list" where
  "core_permissions =
     [catalog_entry ''users.view'' ''View users'' ''Users'',
      catalog_entry ''users.manage'' ''Manage users'' ''Users'',
      catalog_entry ''invoices.view'' ''View invoices'' ''Invoices'',
      catalog_entry ''invoices.manage'' ''Manage invoices'' ''Invoices'',
      catalog_entry ''analytics.view'' ''View analytics'' ''Analytics'',
      catalog_entry ''settings.view'' ''View settings'' ''Settings'',
      catalog_entry ''settings.manage'' ''Manage settings'' ''Settings'',
      catalog_entry ''settings.system'' ''System settings (payment providers, API keys)'' ''Settings'',
      catalog_entry ''api_keys.manage'' ''Manage user API keys'' ''API Keys'',
      catalog_entry ''llm.connections.view'' ''View LLM connections'' ''LLM Connections'',
      catalog_entry ''llm.connections.manage'' ''Manage LLM connections'' ''LLM Connections'',
      catalog_entry ''logs.read'' ''Read system logs'' ''Observability'',
      catalog_entry ''license.view'' ''View license status'' ''License'',
      catalog_entry ''license.manage'' ''Manage license keys'' ''License'']"

definition core_user_permissions :: "json_dict list" where
  "core_user_permissions = [catalog_entry ''manage_api'' ''Manage own API keys'' ''API'']"

fun collect_plugin_permissions ::
  "(plugin_permissions \<Rightarrow> json_dict list) \<Rightarrow> plugin_permissions list \<Rightarrow> catalog \<Rightarrow> catalog" where
  "collect_plugin_permissions attr [] collected = collected"
| "collect_plugin_permissions attr (p # ps) collected =
     collect_plugin_permissions attr ps
       (if attr p \<noteq> [] then dict_set (pp_name p) (attr p) collected else collected)"

text \<open>The group is titled with the capitalized cluster, \<open>sales\<close>; its dash is written as a hyphen.\<close>

definition exchanger_entries :: "exchanger_permissions \<Rightarrow> json_dict list" where
  "exchanger_entries ex =
     (let grp = ''Data Exchange - Sales'' in
      if ex_cluster ex \<noteq> ''sales'' then []
      else (if ex_supports_export ex
              then [catalog_entry (ex_export_permission ex) (''Export '' @ ex_label ex) grp] else []) @
           (if ex_supports_import ex
              then [catalog_entry (ex_import_permission ex) (''Import '' @ ex_label ex) grp] else []) @
           (if ex_has_pii ex
              then [catalog_entry (ex_pii_permission ex) (''Export '' @ ex_label ex @ '' (PII)'') grp]
              else []))"

definition collect_data_exchange_permissions :: "exchanger_permissions list \<Rightarrow> json_dict list" where
  "collect_data_exchange_permissions exs = concat (map exchanger_entries exs)"

definition collect_permission_catalog ::
  "plugin_permissions list \<Rightarrow> exchanger_permissions list \<Rightarrow> catalog" where
  "collect_permission_catalog plugins exs =
     (let cat = dict_update [(''core'', core_permissions)]
            (collect_plugin_permissions pp_admin plugins []);
          dx = collect_data_exchange_permissions exs
      in if dx \<noteq> [] then dict_set ''data_exchange'' dx cat else cat)"

definition source_entries :: "catalog \<Rightarrow> string \<Rightarrow> json_dict list" where
  "source_entries cat source = (case map_of cat source of None \<Rightarrow> [] | Some es \<Rightarrow> es)"

definition collect_user_permission_catalog :: "plugin_permissions list \<Rightarrow> catalog" where
  "collect_user_permission_catalog plugins =
     dict_update [(''core'', core_user_permissions)] (collect_plugin_permissions pp_user plugins [])"

section \<open>The seeder: what is wanted\<close>

record seed_result =
  sr_roles_created :: int
  sr_roles_updated :: int
  sr_permissions_created :: int
  sr_levels_created :: int

definition default_roles :: "(string \<times> string \<times> string) list" where
  "default_roles =
     [(''super_admin'', ''super_admin'', ''Full system access (all permissions).''),
      (''admin'', ''admin'', ''Administrative access to all core features.'')]"

text \<open>The shipped data file \<open>data/default_admin_role_permissions.json\<close>.\<close>

definition default_admin_role_permissions :: "string list" where
  "default_admin_role_permissions = [''cms.manage'', ''cms.images.view'', ''cms.images.manage'']"

text \<open>
  The override, a value read from a JSON file (\<open>None\<close> when the file is missing or broken),
  replaces the shipped levels, a parameter, when it is a list that is not empty.
\<close>

definition resolve_user_access_levels :: "json list \<Rightarrow> json option \<Rightarrow> json list" where
  "resolve_user_access_levels shipped loaded =
     (case loaded of Some (JList (v # vs)) \<Rightarrow> v # vs | _ \<Rightarrow> shipped)"

fun catalog_keys :: "string list \<Rightarrow> (string \<times> json_dict) list \<Rightarrow> exn + string list" where
  "catalog_keys keys [] = Inr keys"
| "catalog_keys keys ((source, entry) # es) =
     (case map_of entry ''key'' of
        None \<Rightarrow> Inl (ValueError (''Malformed permission entry in '' @ quoted source @
          '': missing '' @ quoted ''key'' @ '' ('' @ jrepr (JObj entry) @ '')''))
      | Some key \<Rightarrow>
          catalog_keys (if jstr key \<in> set keys then keys else keys @ [jstr key]) es)"

definition permission_keys_from_catalog :: "catalog \<Rightarrow> exn + string list" where
  "permission_keys_from_catalog cat =
     catalog_keys [] (concat (map (\<lambda>(source, entries). map (Pair source) entries) cat))"

text \<open>\<open>[entry["key"] for entry in catalog["core"]]\<close>; the key \<open>core\<close> is always there.\<close>

fun entry_keys :: "json_dict list \<Rightarrow> exn + string list" where
  "entry_keys [] = Inr []"
| "entry_keys (e # es) =
     (case map_of e ''key'' of
        None \<Rightarrow> Inl (KeyError ''key'')
      | Some k \<Rightarrow> (case entry_keys es of Inl x \<Rightarrow> Inl x | Inr ks \<Rightarrow> Inr (jstr k # ks)))"

definition permissions_for_role :: "string \<Rightarrow> string list \<Rightarrow> string list" where
  "permissions_for_role slug core_keys =
     (if slug = ''super_admin'' then [''*'']
      else if slug = ''admin'' then core_keys @ default_admin_role_permissions
      else [])"

section \<open>The seeder: what is written\<close>

definition add_permission :: "string \<Rightarrow> 'p account_db_scheme \<Rightarrow> 'p account_db_scheme" where
  "add_permission name d = d\<lparr>ad_permissions := ad_permissions d @ [name]\<rparr>"

definition upsert_permission ::
  "driver \<Rightarrow> string \<Rightarrow> ('p account_db_scheme session, bool) prog" where
  "upsert_permission drv name =
     bindP (query (\<lambda>d. name \<in> set (ad_permissions d))) (\<lambda>existing.
       if existing then ret False
       else seqP (on_db (add_permission name)) (seqP (flush drv) (ret True)))"

definition role_by_slug :: "'p account_db_scheme \<Rightarrow> string \<Rightarrow> admin_role option" where
  "role_by_slug d slug = find_row ro_slug slug (ad_roles d)"

text \<open>An attribute of a loaded row is set: the row is replaced in place.\<close>

definition replace_role :: "admin_role \<Rightarrow> admin_role \<Rightarrow> 'p account_db_scheme \<Rightarrow> 'p account_db_scheme" where
  "replace_role r r' d = d\<lparr>ad_roles := map (\<lambda>x. if x = r then r' else x) (ad_roles d)\<rparr>"

definition replace_level ::
  "access_level \<Rightarrow> access_level \<Rightarrow> 'p account_db_scheme \<Rightarrow> 'p account_db_scheme" where
  "replace_level l l' d = d\<lparr>ad_levels := map (\<lambda>x. if x = l then l' else x) (ad_levels d)\<rparr>"

definition missing_from :: "'a admin_role_scheme \<Rightarrow> string list \<Rightarrow> string list" where
  "missing_from r wanted = filter (\<lambda>n. n \<notin> set (ro_permissions r)) wanted"

definition extend_permissions :: "string list \<Rightarrow> 'a admin_role_scheme \<Rightarrow> 'a admin_role_scheme" where
  "extend_permissions names r = r\<lparr>ro_permissions := ro_permissions r @ names\<rparr>"

definition update_system_role ::
  "admin_role \<Rightarrow> string \<Rightarrow> string \<Rightarrow> string list \<Rightarrow> ('p account_db_scheme session, bool) prog" where
  "update_system_role role name description wanted =
     (let renamed = ro_name role \<noteq> name \<or> ro_description role \<noteq> Some description;
          missing = missing_from role wanted;
          named = (if renamed then role\<lparr>ro_name := name, ro_description := Some description\<rparr> else role);
          changed = renamed \<or> missing \<noteq> []
      in seqP (whenP changed (on_db (replace_role role (extend_permissions missing named)))) (ret changed))"

definition add_role :: "admin_role \<Rightarrow> 'p account_db_scheme \<Rightarrow> 'p account_db_scheme" where
  "add_role r d = d\<lparr>ad_roles := ad_roles d @ [r]\<rparr>"

definition add_level :: "access_level \<Rightarrow> 'p account_db_scheme \<Rightarrow> 'p account_db_scheme" where
  "add_level l d = d\<lparr>ad_levels := ad_levels d @ [l]\<rparr>"

text \<open>One of the default roles: what it adds to the two counts.\<close>

definition seed_role ::
  "(nat \<Rightarrow> uuid) \<Rightarrow> string list \<Rightarrow> string \<times> string \<times> string \<Rightarrow> ('p account_db_scheme session, int \<times> int) prog" where
  "seed_role mint core_keys = (\<lambda>(slug, name, description).
     bindP (query (\<lambda>d. role_by_slug d slug)) (\<lambda>existing.
       if (case existing of Some r \<Rightarrow> \<not> ro_is_system r | None \<Rightarrow> False) then ret (0, 0)
       else
         bindP (query (\<lambda>d. resolve_permission_rows d (permissions_for_role slug core_keys))) (\<lambda>wanted.
           case existing of
             Some r \<Rightarrow>
               bindP (update_system_role r name description wanted) (\<lambda>changed.
                 ret (0, if changed then 1 else 0))
           | None \<Rightarrow>
               bindP (query (\<lambda>d. mint (length (ad_roles d)))) (\<lambda>new_id.
               seqP (on_db (add_role
                 \<lparr>ro_id = new_id, ro_name = name, ro_slug = slug, ro_description = Some description,
                  ro_is_system = True, ro_permissions = wanted\<rparr>))
               (ret (1, 0))))))"

text \<open>One access level of the data, with the subset of its permissions that exist.\<close>

definition seed_level ::
  "driver \<Rightarrow> (nat \<Rightarrow> uuid) \<Rightarrow> json_dict \<Rightarrow> ('p account_db_scheme session, int) prog" where
  "seed_level drv mint data =
     (case map_of data ''slug'' of
        None \<Rightarrow> raise (KeyError ''slug'')
      | Some slug_value \<Rightarrow>
          (let slug = jstr slug_value in
           bindP (query (\<lambda>d. resolve_permission_rows d (json_names (jget data ''permissions'')))) (\<lambda>want.
           bindP (query (\<lambda>d. level_by_slug d slug)) (\<lambda>existing.
             case existing of
               Some l \<Rightarrow>
                 if ro_is_system l \<and> missing_from l want \<noteq> []
                 then seqP (on_db (replace_level l (extend_permissions (missing_from l want) l)))
                        (seqP (flush drv) (ret 0))
                 else ret 0
             | None \<Rightarrow>
                 bindP (query (\<lambda>d. mint (length (ad_levels d)))) (\<lambda>new_id.
                 seqP (on_db (add_level
                   \<lparr>ro_id = new_id, ro_name = str_or (json_text (jget data ''name'')) slug, ro_slug = slug,
                    ro_description = json_text (jget data ''description''), ro_is_system = True,
                    ro_permissions = want,
                    al_linked_plan_slug = json_text (jget data ''linked_plan_slug'')\<rparr>))
                 (seqP (flush drv) (ret 1)))))))"

definition seed_user_access_levels ::
  "driver \<Rightarrow> (nat \<Rightarrow> uuid) \<Rightarrow> json list \<Rightarrow> ('p account_db_scheme session, int) prog" where
  "seed_user_access_levels drv mint levels =
     foldP (\<lambda>n v. case v of
         JObj data \<Rightarrow> bindP (seed_level drv mint data) (\<lambda>k. ret (n + k))
       | _ \<Rightarrow> raise (TypeError ''level is not an object'')) 0 levels"

text \<open>The grants that plugins declare on their user permissions.\<close>

definition grant_to_level :: "string \<Rightarrow> string \<Rightarrow> ('p account_db_scheme session, unit) prog" where
  "grant_to_level name slug =
     bindP (query (\<lambda>d. level_by_slug d slug)) (\<lambda>level.
       case level of
         None \<Rightarrow> ret ()
       | Some l \<Rightarrow>
           if \<not> ro_is_system l \<or> name \<in> set (ro_permissions l) then ret ()
           else on_db (replace_level l (extend_permissions [name] l)))"

definition seed_entry_grants :: "json_dict \<Rightarrow> ('p account_db_scheme session, unit) prog" where
  "seed_entry_grants entry =
     (let slugs = json_names (jget entry ''default_access_levels'');
          name = jstr (jget entry ''key'')
      in if slugs = [] then ret ()
         else bindP (query (\<lambda>d. name \<in> set (ad_permissions d))) (\<lambda>known.
           if \<not> known then ret () else for_each (grant_to_level name) slugs))"

definition seed_plugin_declared_access_grants ::
  "driver \<Rightarrow> plugin_permissions list \<Rightarrow> ('p account_db_scheme session, unit) prog" where
  "seed_plugin_declared_access_grants drv plugins =
     seqP (for_each seed_entry_grants (concat (map snd (collect_user_permission_catalog plugins))))
       (flush drv)"

definition seed_default_rbac ::
  "driver \<Rightarrow> (nat \<Rightarrow> uuid) \<Rightarrow> (nat \<Rightarrow> uuid) \<Rightarrow> plugin_permissions list \<Rightarrow> exchanger_permissions list
     \<Rightarrow> json list \<Rightarrow> ('p account_db_scheme session, seed_result) prog" where
  "seed_default_rbac drv mint_role mint_level plugins exs levels =
     (let cat = collect_permission_catalog plugins exs in
      bindP (of_sum (entry_keys (source_entries cat ''core''))) (\<lambda>core_keys.
      bindP (of_sum (permission_keys_from_catalog (collect_user_permission_catalog plugins))) (\<lambda>user_keys.
      bindP (of_sum (permission_keys_from_catalog cat)) (\<lambda>keys.
      bindP (foldP (\<lambda>n name. bindP (upsert_permission drv name) (\<lambda>created.
          ret (if created then n + 1 else n))) 0 (''*'' # keys @ user_keys)) (\<lambda>permissions_created.
      bindP (foldP (\<lambda>(c, u) role. bindP (seed_role mint_role core_keys role) (\<lambda>(c', u').
          ret (c + c', u + u'))) (0, 0) default_roles) (\<lambda>(roles_created, roles_updated).
      bindP (seed_user_access_levels drv mint_level levels) (\<lambda>levels_created.
      seqP (seed_plugin_declared_access_grants drv plugins)
      (seqP (commit drv)
      (ret \<lparr>sr_roles_created = roles_created, sr_roles_updated = roles_updated,
         sr_permissions_created = permissions_created, sr_levels_created = levels_created\<rparr>)))))))))"

end
