(* ===== verification/RbacFlow.thy ===== *)
theory RbacFlow
  imports Rbac AccountFlow
begin

text \<open>
  Properties of the seeder: it only ever adds, and a second run changes nothing.
\<close>

section \<open>Rows that grow\<close>

text \<open>
  What the seeder may do to a row: a row of the operator stays as it is; a system row keeps its
  identity and all that it grants, and may be granted more. The name and the description of
  a system row become those of its slug in a catalogue, or stay as they are.
\<close>

type_synonym row_catalogue = "(string \<times> string \<times> string) list"

definition regranted :: "'a admin_role_scheme \<Rightarrow> 'a admin_role_scheme \<Rightarrow> bool" where
  "regranted r r' \<longleftrightarrow> set (ro_permissions r) \<subseteq> set (ro_permissions r') \<and>
     r' = r\<lparr>ro_permissions := ro_permissions r'\<rparr>"

definition kept_row :: "row_catalogue \<Rightarrow> 'a admin_role_scheme \<Rightarrow> 'a admin_role_scheme \<Rightarrow> bool" where
  "kept_row cat r r' \<longleftrightarrow>
     (if ro_is_system r
      then regranted r r' \<or>
        list_ex (\<lambda>(slug, name, description). slug = ro_slug r \<and>
          regranted (r\<lparr>ro_name := name, ro_description := Some description\<rparr>) r') cat
      else r' = r)"

lemma kept_row_same:
  "kept_row cat r r' \<Longrightarrow> ro_id r' = ro_id r \<and> ro_slug r' = ro_slug r \<and> ro_is_system r' = ro_is_system r \<and>
     set (ro_permissions r) \<subseteq> set (ro_permissions r') \<and> (\<not> ro_is_system r \<longrightarrow> r' = r)"
  by (cases r; cases r') (auto simp: kept_row_def regranted_def list_ex_iff split: if_splits)

definition rows_grow :: "row_catalogue \<Rightarrow> 'a admin_role_scheme list \<Rightarrow> 'a admin_role_scheme list \<Rightarrow> bool" where
  "rows_grow cat rows rows' \<longleftrightarrow> (\<exists>old new. rows' = old @ new \<and> list_all2 (kept_row cat) rows old)"

lemma regranted_refl [simp]: "regranted r r"
  by (simp add: regranted_def)

lemma regranted_trans: "regranted a b \<Longrightarrow> regranted b c \<Longrightarrow> regranted a c"
  by (cases a; cases b; cases c) (auto simp: regranted_def)

lemma regranted_rename:
  "regranted a b \<Longrightarrow> regranted (b\<lparr>ro_name := n, ro_description := t\<rparr>) c \<Longrightarrow>
   regranted (a\<lparr>ro_name := n, ro_description := t\<rparr>) c"
  by (cases a; cases b; cases c) (auto simp: regranted_def)

lemma regranted_rename2:
  "regranted (a\<lparr>ro_name := n', ro_description := t'\<rparr>) b \<Longrightarrow> regranted (b\<lparr>ro_name := n, ro_description := t\<rparr>) c \<Longrightarrow>
   regranted (a\<lparr>ro_name := n, ro_description := t\<rparr>) c"
  by (cases a; cases b; cases c) (auto simp: regranted_def)

lemma kept_refl [simp]: "kept_row cat r r"
  by (simp add: kept_row_def)

lemma kept_trans:
  assumes "kept_row cat a b" and "kept_row cat b c"
  shows "kept_row cat a c"
proof (cases "ro_is_system a")
  case True
  have same: "ro_slug b = ro_slug a" "ro_is_system b" using kept_row_same [OF assms(1)] True by simp_all
  from assms True same show ?thesis
    unfolding kept_row_def list_ex_iff
    by (auto 0 4 intro: regranted_trans regranted_rename regranted_rename2 dest: regranted_trans)
next
  case False
  with assms show ?thesis by (simp add: kept_row_def)
qed

lemma grow_refl [simp]: "rows_grow cat rows rows"
  unfolding rows_grow_def by (intro exI [of _ rows] exI [of _ "[]"]) (simp add: list_all2_refl)

lemma grow_append [simp]: "rows_grow cat rows (rows @ new)"
  unfolding rows_grow_def by (intro exI [of _ rows] exI [of _ new]) (simp add: list_all2_refl)

lemma grow_trans: "rows_grow cat a b \<Longrightarrow> rows_grow cat b c \<Longrightarrow> rows_grow cat a c"
proof -
  assume "rows_grow cat a b" "rows_grow cat b c"
  then obtain b1 b2 c1 c2 where b: "b = b1 @ b2" "list_all2 (kept_row cat) a b1"
    and c: "c = c1 @ c2" "list_all2 (kept_row cat) b c1" by (auto simp: rows_grow_def)
  then obtain x y where xy: "c1 = x @ y" "list_all2 (kept_row cat) b1 x" by (auto simp: list_all2_append1)
  have "list_all2 (kept_row cat) a x" by (rule list_all2_trans [OF kept_trans b(2) xy(2)])
  with c(1) xy(1) show "rows_grow cat a c"
    unfolding rows_grow_def by (intro exI [of _ x] exI [of _ "y @ c2"]) simp
qed

lemma grow_replace: "kept_row cat r r' \<Longrightarrow> rows_grow cat rows (map (\<lambda>x. if x = r then r' else x) rows)"
proof -
  assume "kept_row cat r r'"
  then have "list_all2 (kept_row cat) rows (map (\<lambda>x. if x = r then r' else x) rows)"
    by (simp add: list_all2_conv_all_nth)
  then show ?thesis unfolding rows_grow_def
    by (intro exI [of _ "map (\<lambda>x. if x = r then r' else x) rows"] exI [of _ "[]"]) simp
qed

lemma grow_find:
  assumes "rows_grow cat rows rows'" and "find_row ro_slug slug rows = Some r"
  shows "\<exists>r'. find_row ro_slug slug rows' = Some r' \<and> kept_row cat r r'"
proof -
  obtain old new where split: "rows' = old @ new" and all: "list_all2 (kept_row cat) rows old"
    using assms(1) by (auto simp: rows_grow_def)
  from all assms(2) have "\<exists>r'. find_row ro_slug slug old = Some r' \<and> kept_row cat r r'"
    by (induction rows old rule: list_all2_induct) (auto simp: find_row_def dest!: kept_row_same split: if_splits)
  then show ?thesis by (auto simp: split find_row_def find_append)
qed

lemma kept_extend: "ro_is_system r \<Longrightarrow> kept_row cat r (extend_permissions names r)"
  by (auto simp: kept_row_def regranted_def extend_permissions_def)

section \<open>Tables that grow\<close>

text \<open>Nothing but the catalog and the two kinds of rows changes, and these grow.\<close>

definition grown :: "'p account_db_scheme \<Rightarrow> 'p account_db_scheme \<Rightarrow> bool" where
  "grown d d' \<longleftrightarrow> (\<exists>names roles levels.
     d' = d\<lparr>ad_permissions := ad_permissions d @ names, ad_roles := roles, ad_levels := levels\<rparr> \<and>
     rows_grow default_roles (ad_roles d) roles \<and> rows_grow [] (ad_levels d) levels)"

lemma grown_refl [simp]: "grown d d"
  unfolding grown_def by (intro exI [of _ "[]"] exI [of _ "ad_roles d"] exI [of _ "ad_levels d"]) simp

lemma grown_trans:
  assumes "grown a b" and "grown b c"
  shows "grown a c"
proof -
  obtain n1 r1 l1 where 1: "b = a\<lparr>ad_permissions := ad_permissions a @ n1, ad_roles := r1, ad_levels := l1\<rparr>"
    "rows_grow default_roles (ad_roles a) r1" "rows_grow [] (ad_levels a) l1"
    using assms(1) unfolding grown_def by blast
  obtain n2 r2 l2 where 2: "c = b\<lparr>ad_permissions := ad_permissions b @ n2, ad_roles := r2, ad_levels := l2\<rparr>"
    "rows_grow default_roles (ad_roles b) r2" "rows_grow [] (ad_levels b) l2"
    using assms(2) unfolding grown_def by blast
  have "c = a\<lparr>ad_permissions := ad_permissions a @ (n1 @ n2), ad_roles := r2, ad_levels := l2\<rparr>"
    unfolding 2(1) unfolding 1(1) by simp
  moreover have "rows_grow default_roles (ad_roles a) r2" using 1 2 by (auto intro: grow_trans)
  moreover have "rows_grow [] (ad_levels a) l2" using 1 2 by (auto intro: grow_trans)
  ultimately show ?thesis unfolding grown_def by blast
qed

lemma grown_add_permission: "grown d (add_permission name d)"
  unfolding grown_def add_permission_def
  by (intro exI [of _ "[name]"] exI [of _ "ad_roles d"] exI [of _ "ad_levels d"]) simp

lemma grown_roles: "rows_grow default_roles (ad_roles d) roles \<Longrightarrow> grown d (d\<lparr>ad_roles := roles\<rparr>)"
  unfolding grown_def
  by (intro exI [of _ "[]"] exI [of _ roles] exI [of _ "ad_levels d"]) simp

lemma grown_levels: "rows_grow [] (ad_levels d) levels \<Longrightarrow> grown d (d\<lparr>ad_levels := levels\<rparr>)"
  unfolding grown_def
  by (intro exI [of _ "[]"] exI [of _ "ad_roles d"] exI [of _ levels]) simp

lemma grown_level:
  assumes "grown d d'" and "level_by_slug d slug = Some l"
  shows "\<exists>l'. level_by_slug d' slug = Some l' \<and> kept_row [] l l'"
  using assms grow_find unfolding grown_def level_by_slug_def by fastforce

text \<open>The later phases touch the levels only.\<close>

definition levels_grown :: "'p account_db_scheme \<Rightarrow> 'p account_db_scheme \<Rightarrow> bool" where
  "levels_grown d d' \<longleftrightarrow> (\<exists>levels. d' = d\<lparr>ad_levels := levels\<rparr> \<and> rows_grow [] (ad_levels d) levels)"

lemma levels_grown_refl [simp]: "levels_grown d d"
  unfolding levels_grown_def by (intro exI [of _ "ad_levels d"]) simp

lemma levels_grown_trans:
  assumes "levels_grown a b" and "levels_grown b c"
  shows "levels_grown a c"
proof -
  obtain l1 where 1: "b = a\<lparr>ad_levels := l1\<rparr>" "rows_grow [] (ad_levels a) l1"
    using assms(1) unfolding levels_grown_def by blast
  obtain l2 where 2: "c = b\<lparr>ad_levels := l2\<rparr>" "rows_grow [] (ad_levels b) l2"
    using assms(2) unfolding levels_grown_def by blast
  have "c = a\<lparr>ad_levels := l2\<rparr>" unfolding 2(1) unfolding 1(1) by simp
  moreover have "rows_grow [] (ad_levels a) l2" using 1 2 by (auto intro: grow_trans)
  ultimately show ?thesis unfolding levels_grown_def by blast
qed

lemma levels_grown_grown: "levels_grown d d' \<Longrightarrow> grown d d'"
  unfolding levels_grown_def by (auto intro: grown_levels)

lemma levels_grown_same:
  assumes "levels_grown d d'"
  shows "ad_roles d' = ad_roles d" "ad_permissions d' = ad_permissions d"
  using assms by (auto simp: levels_grown_def)

section \<open>Programs that move the tables along an order\<close>

text \<open>
  A step leaves the committed tables alone and moves the pending ones along \<open>R\<close>, whether it
  returns or raises.
\<close>

definition moves :: "('db \<Rightarrow> 'db \<Rightarrow> bool) \<Rightarrow> ('db session, 'a) prog \<Rightarrow> bool" where
  "moves R m \<longleftrightarrow> (\<forall>s r s'. m s = (r, s') \<longrightarrow> durable s' = durable s \<and> R (pending s) (pending s'))"

lemma movesI:
  "(\<And>s r s'. m s = (r, s') \<Longrightarrow> durable s' = durable s \<and> R (pending s) (pending s')) \<Longrightarrow> moves R m"
  by (simp add: moves_def)

lemma movesD: "moves R m \<Longrightarrow> m s = (r, s') \<Longrightarrow> durable s' = durable s \<and> R (pending s) (pending s')"
  by (simp add: moves_def)

lemma moves_on_db: "(\<And>d. R d (f d)) \<Longrightarrow> moves R (on_db f)"
  by (rule movesI) auto

locale table_order =
  fixes R :: "'db \<Rightarrow> 'db \<Rightarrow> bool"
  assumes R_refl: "R d d"
    and R_trans: "R a b \<Longrightarrow> R b c \<Longrightarrow> R a c"
begin

lemma moves_ret: "moves R (ret x)"
  by (rule movesI) (auto intro: R_refl)

lemma moves_raise: "moves R (raise e)"
  by (rule movesI) (auto intro: R_refl)

lemma moves_query: "moves R (query f)"
  by (rule movesI) (auto intro: R_refl)

lemma moves_of_sum: "moves R (of_sum r)"
  by (cases r) (auto simp: of_sum_def intro: moves_ret moves_raise)

lemma moves_flush: "moves R (flush drv)"
  by (rule movesI) (auto simp: flush_def db_call_def Let_def R_refl split: option.splits)

lemma moves_bindP:
  assumes "moves R m" and "\<And>x. moves R (f x)"
  shows "moves R (bindP m f)"
proof (rule movesI)
  fix s r s' assume run: "bindP m f s = (r, s')"
  obtain q t where m: "m s = (q, t)" by fastforce
  note 1 = movesD [OF assms(1) m]
  show "durable s' = durable s \<and> R (pending s) (pending s')"
  proof (cases q)
    case (Inl e)
    with run m 1 show ?thesis by (simp add: bindP_def)
  next
    case (Inr x)
    with run m have "f x t = (r, s')" by (simp add: bindP_def)
    from movesD [OF assms(2) this] 1 show ?thesis by (auto intro: R_trans)
  qed
qed

lemma moves_seqP: "moves R m \<Longrightarrow> moves R n \<Longrightarrow> moves R (seqP m n)"
  unfolding seqP_def by (rule moves_bindP)

lemma moves_when: "moves R m \<Longrightarrow> moves R (whenP b m)"
  by (auto simp: whenP_def intro: moves_ret)

lemma moves_foldP: "(\<And>acc x. x \<in> set xs \<Longrightarrow> moves R (f acc x)) \<Longrightarrow> moves R (foldP f acc xs)"
  by (induction xs arbitrary: acc) (auto intro: moves_ret moves_bindP)

lemma moves_for_each: "(\<And>x. moves R (f x)) \<Longrightarrow> moves R (for_each f xs)"
  by (induction xs) (auto intro: moves_ret moves_seqP)

lemmas moves_rules = moves_ret moves_raise moves_query moves_of_sum moves_flush moves_bindP moves_seqP
  moves_when moves_foldP moves_for_each

text \<open>What each step of a loop establishes, and the later ones preserve, holds at the end.\<close>

lemma foldP_establishes:
  assumes step: "\<And>acc x. x \<in> set xs \<Longrightarrow> moves R (f acc x)"
    and est: "\<And>acc x s acc' s'. x \<in> set xs \<Longrightarrow> f acc x s = (Inr acc', s') \<Longrightarrow> P x (pending s')"
    and stable: "\<And>x d d'. P x d \<Longrightarrow> R d d' \<Longrightarrow> P x d'"
    and run: "foldP f acc xs s = (Inr r, s')" and x: "x \<in> set xs"
  shows "P x (pending s')"
  using step est run x
proof (induction xs arbitrary: acc s)
  case (Cons y ys)
  from Cons.prems(3) obtain acc' t where y: "f acc y s = (Inr acc', t)"
    and ys: "foldP f acc' ys t = (Inr r, s')" by (auto elim: bindP_InrE)
  show ?case
  proof (cases "x \<in> set ys")
    case True
    with Cons.IH [OF _ _ ys] Cons.prems(1,2) show ?thesis by auto
  next
    case False
    with Cons.prems(4) have "x = y" by simp
    with Cons.prems(2) [OF _ y] have "P x (pending t)" by simp
    moreover have "R (pending t) (pending s')" using movesD [OF moves_foldP [OF Cons.prems(1)] ys] by simp
    ultimately show ?thesis by (rule stable)
  qed
qed simp

end

lemma foldP_idle: "(\<And>acc x. x \<in> set xs \<Longrightarrow> f acc x s = (Inr acc, s)) \<Longrightarrow> foldP f acc xs s = (Inr acc, s)"
  by (induction xs) (auto simp: bindP_def)

lemma for_each_foldP: "for_each f xs = foldP (\<lambda>_. f) () xs"
  by (induction xs) (auto simp: seqP_def)

interpretation growing: table_order grown
  by unfold_locales (auto intro: grown_trans)

interpretation levelling: table_order levels_grown
  by unfold_locales (auto intro: levels_grown_trans)

section \<open>The steps of the seeder\<close>

lemma grown_replace_role: "kept_row default_roles r r' \<Longrightarrow> grown d (replace_role r r' d)"
  unfolding replace_role_def by (intro grown_roles grow_replace)

lemma levels_replace: "kept_row [] l l' \<Longrightarrow> levels_grown d (replace_level l l' d)"
  unfolding replace_level_def levels_grown_def by (blast intro: grow_replace)

lemma adds_upsert: "moves grown (upsert_permission drv name)"
  unfolding upsert_permission_def
  by (intro growing.moves_bindP growing.moves_query)
    (auto intro!: growing.moves_rules moves_on_db grown_add_permission)

lemma adds_update_role:
  "ro_is_system r \<Longrightarrow> (ro_slug r, name, desc) \<in> set default_roles \<Longrightarrow>
   moves grown (update_system_role r name desc wanted)"
  unfolding update_system_role_def Let_def
  by (intro growing.moves_seqP growing.moves_when growing.moves_ret moves_on_db grown_replace_role)
    (auto simp: kept_row_def regranted_def extend_permissions_def list_ex_iff intro!: bexI [of _ "(ro_slug r, name, desc)"])

lemma moves_known: "(\<And>d. moves R (f (g d))) \<Longrightarrow> moves R (bindP (query g) f)"
  by (simp add: moves_def bindP_def)

lemma adds_seed_role:
  assumes "role \<in> set default_roles"
  shows "moves grown (seed_role mint core_keys role)"
proof -
  obtain slug name desc where role: "role = (slug, name, desc)" by (metis prod_cases3)
  have add: "moves grown (on_db (add_role r))" for r
    by (rule moves_on_db) (simp add: add_role_def grown_roles)
  have slug: "role_by_slug d slug = Some r \<Longrightarrow> ro_slug r = slug" for d :: "'a account_db_scheme" and r
    by (auto simp: role_by_slug_def find_row_def find_Some_iff)
  show ?thesis
    unfolding role seed_role_def prod.case
    by (rule moves_known)
      (use assms slug add in \<open>auto simp: role intro!: growing.moves_rules adds_update_role split: option.split\<close>)
qed

lemma levels_add: "levels_grown d (add_level l d)"
  unfolding add_level_def levels_grown_def by (intro exI [of _ "ad_levels d @ [l]"]) simp

lemma levels_seed_level: "moves levels_grown (seed_level drv mint data)"
  unfolding seed_level_def Let_def
  by (auto intro!: levelling.moves_rules moves_on_db levels_replace levels_add kept_extend split: option.split)

lemma levels_seed_all: "moves levels_grown (seed_user_access_levels drv mint levels)"
  unfolding seed_user_access_levels_def
  by (rule levelling.moves_foldP)
    (auto intro!: levelling.moves_rules levels_seed_level split: json.split)

text \<open>The last phase only extends rows.\<close>

definition levels_extended :: "'p account_db_scheme \<Rightarrow> 'p account_db_scheme \<Rightarrow> bool" where
  "levels_extended d d' \<longleftrightarrow>
     (\<exists>levels. d' = d\<lparr>ad_levels := levels\<rparr> \<and> list_all2 (kept_row []) (ad_levels d) levels)"

lemma levels_extended_refl [simp]: "levels_extended d d"
  unfolding levels_extended_def by (intro exI [of _ "ad_levels d"]) (simp add: list_all2_refl)

lemma levels_extended_trans:
  assumes "levels_extended a b" and "levels_extended b c"
  shows "levels_extended a c"
proof -
  obtain l1 where 1: "b = a\<lparr>ad_levels := l1\<rparr>" "list_all2 (kept_row []) (ad_levels a) l1"
    using assms(1) unfolding levels_extended_def by blast
  obtain l2 where 2: "c = b\<lparr>ad_levels := l2\<rparr>" "list_all2 (kept_row []) (ad_levels b) l2"
    using assms(2) unfolding levels_extended_def by blast
  have "c = a\<lparr>ad_levels := l2\<rparr>" unfolding 2(1) unfolding 1(1) by simp
  moreover have "list_all2 (kept_row []) (ad_levels a) l2"
    using 1 2 by (auto intro: list_all2_trans [OF kept_trans])
  ultimately show ?thesis unfolding levels_extended_def by blast
qed

lemma extended_grown: "levels_extended d d' \<Longrightarrow> levels_grown d d'"
  unfolding levels_extended_def levels_grown_def rows_grow_def by (metis append_Nil2)

lemma extended_replace: "kept_row [] l l' \<Longrightarrow> levels_extended d (replace_level l l' d)"
  unfolding replace_level_def levels_extended_def
  by (intro exI [of _ "map (\<lambda>x. if x = l then l' else x) (ad_levels d)"])
    (simp add: list_all2_conv_all_nth)

lemma extend_find:
  assumes "list_all2 (kept_row cat) rows rows'" and "find_row ro_slug slug rows' = Some r'"
  shows "\<exists>r. find_row ro_slug slug rows = Some r \<and> kept_row cat r r'"
  using assms
  by (induction rows rows' rule: list_all2_induct) (auto simp: find_row_def dest!: kept_row_same split: if_splits)

lemma extended_level:
  "levels_extended d d' \<Longrightarrow> level_by_slug d' slug = Some l' \<Longrightarrow>
   \<exists>l. level_by_slug d slug = Some l \<and> kept_row [] l l'"
  by (auto simp: levels_extended_def level_by_slug_def dest: extend_find)

interpretation extending: table_order levels_extended
  by unfold_locales (auto intro: levels_extended_trans)

lemma extends_grant: "moves levels_extended (grant_to_level name slug)"
  unfolding grant_to_level_def
  by (auto intro!: extending.moves_rules moves_on_db extended_replace kept_extend split: option.split)

lemma extends_entry: "moves levels_extended (seed_entry_grants entry)"
  unfolding seed_entry_grants_def Let_def
  by (auto intro!: extending.moves_rules extends_grant)

lemma extends_grants: "moves levels_extended (seed_plugin_declared_access_grants drv plugins)"
  unfolding seed_plugin_declared_access_grants_def
  by (intro extending.moves_rules extends_entry)

section \<open>What the steps establish\<close>

definition role_seeded :: "string list \<Rightarrow> string \<times> string \<times> string \<Rightarrow> 'p account_db_scheme \<Rightarrow> bool" where
  "role_seeded core_keys = (\<lambda>(slug, name, desc) d. \<exists>r. role_by_slug d slug = Some r \<and>
     (ro_is_system r \<longrightarrow> ro_name r = name \<and> ro_description r = Some desc \<and>
        set (resolve_permission_rows d (permissions_for_role slug core_keys)) \<subseteq> set (ro_permissions r)))"

definition level_seeded :: "json \<Rightarrow> 'p account_db_scheme \<Rightarrow> bool" where
  "level_seeded v d \<longleftrightarrow> (\<exists>data slug l. v = JObj data \<and> map_of data ''slug'' = Some slug \<and>
     level_by_slug d (jstr slug) = Some l \<and>
     (ro_is_system l \<longrightarrow>
        set (resolve_permission_rows d (json_names (jget data ''permissions''))) \<subseteq> set (ro_permissions l)))"

definition grant_seeded :: "string \<Rightarrow> string \<Rightarrow> 'p account_db_scheme \<Rightarrow> bool" where
  "grant_seeded name slug d \<longleftrightarrow> (\<forall>l. level_by_slug d slug = Some l \<longrightarrow> ro_is_system l \<longrightarrow>
     name \<in> set (ro_permissions l))"

definition entry_seeded :: "json_dict \<Rightarrow> 'p account_db_scheme \<Rightarrow> bool" where
  "entry_seeded entry d \<longleftrightarrow> (jstr (jget entry ''key'') \<in> set (ad_permissions d) \<longrightarrow>
     (\<forall>slug \<in> set (json_names (jget entry ''default_access_levels'')).
        grant_seeded (jstr (jget entry ''key'')) slug d))"

lemma upsert_establishes:
  "upsert_permission drv name s = (Inr x, s') \<Longrightarrow> name \<in> set (ad_permissions (pending s'))"
  by (auto simp: upsert_permission_def add_permission_def seqP_def bindP_def flush_def db_call_def Let_def
      split: if_splits option.splits)

lemma find_replace:
  assumes "key r' = key r"
  shows "find_row key k (map (\<lambda>x. if x = r then r' else x) rows) =
    map_option (\<lambda>x. if x = r then r' else x) (find_row key k rows)"
  using assms by (intro find_row_map) simp

lemma resolve_same [simp]:
  "resolve_permission_rows (replace_role r r' d) = resolve_permission_rows d"
  "resolve_permission_rows (add_role r d) = resolve_permission_rows d"
  "resolve_permission_rows (replace_level l l' d) = resolve_permission_rows d"
  "resolve_permission_rows (add_level l d) = resolve_permission_rows d"
  by (rule ext, simp add: resolve_permission_rows_def replace_role_def add_role_def replace_level_def
      add_level_def)+

text \<open>The row a default role becomes; the flag says whether it differs.\<close>

definition updated_role :: "admin_role \<Rightarrow> string \<Rightarrow> string \<Rightarrow> string list \<Rightarrow> admin_role" where
  "updated_role r name desc wanted =
     r\<lparr>ro_name := name, ro_description := Some desc,
       ro_permissions := ro_permissions r @ missing_from r wanted\<rparr>"

lemma updated_role_sel [simp]:
  "ro_slug (updated_role r name desc wanted) = ro_slug r"
  "ro_name (updated_role r name desc wanted) = name"
  "ro_description (updated_role r name desc wanted) = Some desc"
  "ro_is_system (updated_role r name desc wanted) = ro_is_system r"
  "set (ro_permissions (updated_role r name desc wanted)) = set (ro_permissions r) \<union> set wanted"
  by (auto simp: updated_role_def missing_from_def)

lemma updated_role_same:
  "updated_role r name desc wanted = r \<longleftrightarrow>
     ro_name r = name \<and> ro_description r = Some desc \<and> missing_from r wanted = []"
proof
  assume same: "updated_role r name desc wanted = r"
  then have "ro_permissions (updated_role r name desc wanted) = ro_permissions r" by simp
  then have "missing_from r wanted = []" by (simp add: updated_role_def)
  with same show "ro_name r = name \<and> ro_description r = Some desc \<and> missing_from r wanted = []"
    using updated_role_sel(2,3) [of r name desc wanted] by simp
qed (simp add: updated_role_def)

lemma replace_role_same [simp]: "replace_role r r d = d"
  by (simp add: replace_role_def)

lemma extend_named:
  "extend_permissions (missing_from r wanted)
     (if ro_name r \<noteq> name \<or> ro_description r \<noteq> Some desc
      then r\<lparr>ro_name := name, ro_description := Some desc\<rparr> else r) = updated_role r name desc wanted"
  by (auto simp: extend_permissions_def updated_role_def)

lemma update_role_run:
  "update_system_role r name desc wanted s =
     (Inr (updated_role r name desc wanted \<noteq> r),
      s\<lparr>pending := replace_role r (updated_role r name desc wanted) (pending s)\<rparr>)"
proof -
  have same: "updated_role r name desc wanted = r"
    if "ro_name r = name" "ro_description r = Some desc" "missing_from r wanted = []"
    using that by (simp add: updated_role_same)
  show ?thesis
    unfolding update_system_role_def Let_def extend_named
    by (cases "updated_role r name desc wanted = r")
      (auto simp: whenP_def seqP_def bindP_def updated_role_same same)
qed

lemma seed_role_establishes:
  assumes "seed_role mint cks (slug, name, desc) s = (Inr x, s')"
  shows "role_seeded cks (slug, name, desc) (pending s')"
proof (cases "role_by_slug (pending s) slug")
  case None
  with assms have "pending s' = add_role \<lparr>ro_id = mint (length (ad_roles (pending s))), ro_name = name,
      ro_slug = slug, ro_description = Some desc, ro_is_system = True,
      ro_permissions = resolve_permission_rows (pending s) (permissions_for_role slug cks)\<rparr> (pending s)"
    by (auto simp: seed_role_def)
  with None show ?thesis
    by (simp add: role_seeded_def) (simp add: role_by_slug_def add_role_def find_row_def find_append)
next
  case (Some r)
  show ?thesis
  proof (cases "ro_is_system r")
    case False
    with Some assms have "s' = s" by (simp add: seed_role_def)
    with Some False show ?thesis by (simp add: role_seeded_def)
  next
    case True
    let ?w = "resolve_permission_rows (pending s) (permissions_for_role slug cks)"
    have "pending s' = replace_role r (updated_role r name desc ?w) (pending s)"
      using assms Some True by (auto simp: seed_role_def bindP_def update_role_run)
    moreover from this have "role_by_slug (pending s') slug = Some (updated_role r name desc ?w)"
      using Some by (simp add: role_by_slug_def replace_role_def find_replace)
    ultimately show ?thesis by (simp add: role_seeded_def)
  qed
qed

lemma seed_role_other:
  assumes "seed_role mint cks (slug, name, desc) s = (Inr x, s')"
    and "role_seeded cks (slug2, name2, desc2) (pending s)" and "slug \<noteq> slug2"
  shows "role_seeded cks (slug2, name2, desc2) (pending s')"
proof -
  obtain r2 where r2: "role_by_slug (pending s) slug2 = Some r2" using assms(2) by (auto simp: role_seeded_def)
  then have s2: "ro_slug r2 = slug2" by (auto simp: role_by_slug_def dest: find_row_Some)
  have "role_by_slug (pending s') slug2 = Some r2 \<and>
    resolve_permission_rows (pending s') = resolve_permission_rows (pending s)"
  proof (cases "role_by_slug (pending s) slug")
    case None
    with assms(1) r2 show ?thesis
      by (auto simp: seed_role_def) (auto simp: role_by_slug_def add_role_def find_row_def find_append)
  next
    case (Some r)
    then have s1: "ro_slug r = slug" by (auto simp: role_by_slug_def dest: find_row_Some)
    from Some assms(1) r2 s1 s2 assms(3) show ?thesis
      by (auto simp: seed_role_def bindP_def update_role_run role_by_slug_def replace_role_def find_replace
          resolve_permission_rows_def split: if_splits)
  qed
  with assms(2) r2 show ?thesis by (simp add: role_seeded_def)
qed

lemma seed_role_idle:
  assumes "role_seeded cks role (pending s)"
  shows "seed_role mint cks role s = (Inr (0, 0), s)"
proof -
  obtain slug name desc where role: "role = (slug, name, desc)" by (metis prod_cases3)
  obtain r where r: "role_by_slug (pending s) slug = Some r" using assms by (auto simp: role role_seeded_def)
  show ?thesis
  proof (cases "ro_is_system r")
    case True
    let ?w = "resolve_permission_rows (pending s) (permissions_for_role slug cks)"
    have "updated_role r name desc ?w = r"
      using assms r True
      by (auto simp: role role_seeded_def updated_role_same missing_from_def filter_empty_conv)
    with r True show ?thesis by (simp add: role seed_role_def bindP_def update_role_run)
  qed (simp add: role seed_role_def r)
qed

text \<open>The same for a level.\<close>

lemma flush_Inr: "flush drv s = (Inr x, s') \<Longrightarrow> pending s' = pending s"
  by (auto simp: flush_def db_call_def Let_def split: option.splits)

lemma seed_level_establishes:
  assumes "seed_level drv mint data s = (Inr x, s')"
  shows "level_seeded (JObj data) (pending s')"
proof -
  from assms obtain v where slug: "map_of data ''slug'' = Some v"
    by (auto simp: seed_level_def split: option.splits)
  let ?w = "resolve_permission_rows (pending s) (json_names (jget data ''permissions''))"
  have "\<exists>l. level_by_slug (pending s') (jstr v) = Some l \<and>
      (ro_is_system l \<longrightarrow> set ?w \<subseteq> set (ro_permissions l)) \<and>
      resolve_permission_rows (pending s') = resolve_permission_rows (pending s)"
  proof (cases "level_by_slug (pending s) (jstr v)")
    case None
    with assms slug show ?thesis
      by (auto simp: seed_level_def Let_def level_by_slug_def add_level_def find_row_def find_append
          resolve_permission_rows_def fun_eq_iff dest!: flush_Inr elim!: seqP_InrE split: option.splits)
  next
    case (Some l)
    show ?thesis
    proof (cases "ro_is_system l \<and> missing_from l ?w \<noteq> []")
      case True
      have "pending s' = replace_level l (extend_permissions (missing_from l ?w) l) (pending s)"
        using assms slug Some True
        by (auto simp: seed_level_def Let_def flush_def db_call_def seqP_def bindP_def split: option.splits)
      moreover from this have "level_by_slug (pending s') (jstr v) =
          Some (extend_permissions (missing_from l ?w) l)"
        using Some by (simp add: level_by_slug_def replace_level_def find_replace extend_permissions_def)
      ultimately show ?thesis by (auto simp: extend_permissions_def missing_from_def)
    next
      case False
      with assms slug Some have "s' = s" by (auto simp: seed_level_def Let_def)
      with Some False show ?thesis by (auto simp: missing_from_def filter_empty_conv)
    qed
  qed
  with slug show ?thesis by (auto simp: level_seeded_def)
qed

lemma level_seeded_stable: "level_seeded v d \<Longrightarrow> levels_grown d d' \<Longrightarrow> level_seeded v d'"
proof -
  assume v: "level_seeded v d" and g: "levels_grown d d'"
  obtain data slug l where l: "v = JObj data" "map_of data ''slug'' = Some slug"
    "level_by_slug d (jstr slug) = Some l" and sys: "ro_is_system l \<longrightarrow>
      set (resolve_permission_rows d (json_names (jget data ''permissions''))) \<subseteq> set (ro_permissions l)"
    using v by (auto simp: level_seeded_def)
  obtain l' where "level_by_slug d' (jstr slug) = Some l'" "kept_row [] l l'"
    using grown_level [OF levels_grown_grown [OF g] l(3)] by blast
  moreover have "resolve_permission_rows d' = resolve_permission_rows d"
    using levels_grown_same [OF g] by (simp add: resolve_permission_rows_def fun_eq_iff)
  ultimately show "level_seeded v d'"
    using l sys kept_row_same unfolding level_seeded_def by fastforce
qed

lemma seed_level_idle:
  assumes "level_seeded (JObj data) (pending s)"
  shows "seed_level drv mint data s = (Inr 0, s)"
  using assms by (auto simp: level_seeded_def seed_level_def Let_def missing_from_def filter_empty_conv)

text \<open>And for the grants of plugins.\<close>

lemma grant_establishes:
  assumes "grant_to_level name slug s = (Inr x, s')"
  shows "grant_seeded name slug (pending s')"
  using assms
  by (auto simp: grant_to_level_def grant_seeded_def level_by_slug_def replace_level_def find_replace
      extend_permissions_def split: option.splits if_splits)

lemma grant_stable: "grant_seeded name slug d \<Longrightarrow> levels_extended d d' \<Longrightarrow> grant_seeded name slug d'"
  unfolding grant_seeded_def using extended_level kept_row_same by (fastforce split: option.splits)

lemma extended_permissions: "levels_extended d d' \<Longrightarrow> ad_permissions d' = ad_permissions d"
  by (auto simp: levels_extended_def)

lemma entry_establishes:
  assumes "seed_entry_grants entry s = (Inr x, s')"
  shows "entry_seeded entry (pending s')"
proof -
  let ?n = "jstr (jget entry ''key'')" and ?slugs = "json_names (jget entry ''default_access_levels'')"
  show ?thesis
  proof (cases "?slugs \<noteq> [] \<and> ?n \<in> set (ad_permissions (pending s))")
    case True
    with assms have run: "foldP (\<lambda>_. grant_to_level ?n) () ?slugs s = (Inr x, s')"
      by (simp add: seed_entry_grants_def Let_def for_each_foldP)
    have "grant_seeded ?n slug (pending s')" if "slug \<in> set ?slugs" for slug
      using extends_grant grant_establishes grant_stable run that
      by (rule extending.foldP_establishes [where P = "grant_seeded ?n" and f = "\<lambda>_. grant_to_level ?n"])
    then show ?thesis by (simp add: entry_seeded_def)
  next
    case False
    with assms have "s' = s" by (auto simp: seed_entry_grants_def Let_def split: if_splits)
    with False show ?thesis by (auto simp: entry_seeded_def)
  qed
qed

lemma entry_stable: "entry_seeded entry d \<Longrightarrow> levels_extended d d' \<Longrightarrow> entry_seeded entry d'"
  by (auto simp: entry_seeded_def extended_permissions intro: grant_stable)

lemma grant_idle: "grant_seeded name slug (pending s) \<Longrightarrow> grant_to_level name slug s = (Inr (), s)"
  by (auto simp: grant_to_level_def grant_seeded_def split: option.split)

lemma entry_idle:
  assumes "entry_seeded entry (pending s)"
  shows "seed_entry_grants entry s = (Inr (), s)"
  using assms
  by (auto simp: seed_entry_grants_def Let_def entry_seeded_def for_each_foldP grant_idle intro!: foldP_idle)

section \<open>The seeder as a whole\<close>

text \<open>Everything a run has to have written for the next one to be idle.\<close>

definition all_seeded ::
  "plugin_permissions list \<Rightarrow> exchanger_permissions list \<Rightarrow> json list \<Rightarrow> 'p account_db_scheme \<Rightarrow> bool" where
  "all_seeded plugins exs levels d \<longleftrightarrow>
     (\<exists>cks keys user_keys.
        entry_keys (source_entries (collect_permission_catalog plugins exs) ''core'') = Inr cks \<and>
        permission_keys_from_catalog (collect_permission_catalog plugins exs) = Inr keys \<and>
        permission_keys_from_catalog (collect_user_permission_catalog plugins) = Inr user_keys \<and>
        set (''*'' # keys @ user_keys) \<subseteq> set (ad_permissions d) \<and>
        (\<forall>role \<in> set default_roles. role_seeded cks role d)) \<and>
     (\<forall>v \<in> set levels. level_seeded v d) \<and>
     (\<forall>entry \<in> set (concat (map snd (collect_user_permission_catalog plugins))). entry_seeded entry d)"

lemma roles_establish:
  assumes "foldP (\<lambda>(c, u) role. bindP (seed_role mint cks role) (\<lambda>(c', u'). ret (c + c', u + u')))
      (0, 0) default_roles s = (Inr x, s')"
  shows "\<forall>role \<in> set default_roles. role_seeded cks role (pending s')"
proof -
  let ?a = "(''super_admin'', ''super_admin'', ''Full system access (all permissions).'')"
  let ?b = "(''admin'', ''admin'', ''Administrative access to all core features.'')"
  from assms obtain x1 t x2 where a: "seed_role mint cks ?a s = (Inr x1, t)"
    and b: "seed_role mint cks ?b t = (Inr x2, s')"
    by (auto simp: default_roles_def elim!: bindP_InrE split: prod.splits)
  from seed_role_other [OF b seed_role_establishes [OF a]] seed_role_establishes [OF b]
  show ?thesis by (auto simp: default_roles_def)
qed

lemma seed_steps:
  assumes "seed_default_rbac drv mr ml plugins exs levels s = (Inr res, s')"
  obtains cks keys user_keys s1 s2 s3 s4 x1 x2 x3 x4 x5 where
    "entry_keys (source_entries (collect_permission_catalog plugins exs) ''core'') = Inr cks"
    "permission_keys_from_catalog (collect_permission_catalog plugins exs) = Inr keys"
    "permission_keys_from_catalog (collect_user_permission_catalog plugins) = Inr user_keys"
    "foldP (\<lambda>n name. bindP (upsert_permission drv name) (\<lambda>created.
        ret (if created then n + 1 else n))) (0::int) (''*'' # keys @ user_keys) s = (Inr x1, s1)"
    "foldP (\<lambda>(c, u) role. bindP (seed_role mr cks role) (\<lambda>(c', u'). ret (c + c', u + u')))
        (0, 0) default_roles s1 = (Inr x2, s2)"
    "seed_user_access_levels drv ml levels s2 = (Inr x3, s3)"
    "seed_plugin_declared_access_grants drv plugins s3 = (Inr x4, s4)"
    "commit drv s4 = (Inr x5, s')"
  using assms
  by (auto simp: seed_default_rbac_def Let_def of_sum_def simp del: foldP.simps split: sum.splits
      elim!: bindP_InrE seqP_InrE)

lemma adds_upserts: "moves grown (foldP (\<lambda>n name. bindP (upsert_permission drv name) (\<lambda>created.
    ret (if created then n + 1 else n))) (0::int) names)"
  by (intro growing.moves_rules adds_upsert)

lemma adds_seed_roles: "moves grown (foldP (\<lambda>(c, u) role. bindP (seed_role mint cks role)
    (\<lambda>(c', u'). ret (c + c', u + u'))) (0::int, 0::int) default_roles)"
  by (intro growing.moves_foldP) (auto intro!: growing.moves_rules adds_seed_role)

lemma grown_all: "moves levels_grown m \<Longrightarrow> moves grown m"
  unfolding moves_def by (blast intro: levels_grown_grown)

lemma commit_Inr: "commit drv s = (Inr x, s') \<Longrightarrow> durable s' = pending s \<and> pending s' = pending s"
  by (cases "drv (calls s)") auto

lemma seed_result_tables:
  assumes "seed_default_rbac drv mr ml plugins exs levels s = (Inr res, s')"
  shows "durable s' = pending s' \<and> grown (pending s) (pending s')"
  using assms
proof (rule seed_steps)
  fix cks keys user_keys s1 s2 s3 s4 x1 x2 x3 x4 x5
  assume 1: "foldP (\<lambda>n name. bindP (upsert_permission drv name) (\<lambda>created.
        ret (if created then n + 1 else n))) (0::int) (''*'' # keys @ user_keys) s = (Inr x1, s1)"
    and 2: "foldP (\<lambda>(c, u) role. bindP (seed_role mr cks role) (\<lambda>(c', u'). ret (c + c', u + u')))
        (0, 0) default_roles s1 = (Inr x2, s2)"
    and 3: "seed_user_access_levels drv ml levels s2 = (Inr x3, s3)"
    and 4: "seed_plugin_declared_access_grants drv plugins s3 = (Inr x4, s4)"
    and 5: "commit drv s4 = (Inr x5, s')"
  have "grown (pending s) (pending s1)" "grown (pending s1) (pending s2)"
    "grown (pending s2) (pending s3)" "grown (pending s3) (pending s4)"
    using movesD [OF adds_upserts 1] movesD [OF adds_seed_roles 2] movesD [OF levels_seed_all 3]
      movesD [OF extends_grants 4] by (auto intro: levels_grown_grown extended_grown)
  with commit_Inr [OF 5] show ?thesis by (auto intro: grown_trans)
qed

lemma seed_establishes:
  assumes "seed_default_rbac drv mr ml plugins exs levels s = (Inr res, s')"
  shows "all_seeded plugins exs levels (durable s')"
  using assms
proof (rule seed_steps)
  fix cks keys user_keys s1 s2 s3 s4 x1 x2 x3 x4 x5
  let ?names = "''*'' # keys @ user_keys"
  let ?entries = "concat (map snd (collect_user_permission_catalog plugins))"
  assume cat: "entry_keys (source_entries (collect_permission_catalog plugins exs) ''core'') = Inr cks"
    "permission_keys_from_catalog (collect_permission_catalog plugins exs) = Inr keys"
    "permission_keys_from_catalog (collect_user_permission_catalog plugins) = Inr user_keys"
    and 1: "foldP (\<lambda>n name. bindP (upsert_permission drv name) (\<lambda>created.
        ret (if created then n + 1 else n))) (0::int) ?names s = (Inr x1, s1)"
    and 2: "foldP (\<lambda>(c, u) role. bindP (seed_role mr cks role) (\<lambda>(c', u'). ret (c + c', u + u')))
        (0, 0) default_roles s1 = (Inr x2, s2)"
    and 3: "seed_user_access_levels drv ml levels s2 = (Inr x3, s3)"
    and 4: "seed_plugin_declared_access_grants drv plugins s3 = (Inr x4, s4)"
    and 5: "commit drv s4 = (Inr x5, s')"
  have "name \<in> set (ad_permissions (pending s1))" if "name \<in> set ?names" for name
    by (rule growing.foldP_establishes [OF _ _ _ 1 that])
      (auto intro!: growing.moves_rules adds_upsert dest: upsert_establishes simp: grown_def elim!: bindP_InrE)
  then have names: "set ?names \<subseteq> set (ad_permissions (pending s4))"
    using movesD [OF adds_seed_roles 2] movesD [OF levels_seed_all 3] movesD [OF extends_grants 4]
    by (auto simp: grown_def levels_grown_def levels_extended_def)
  have same: "ad_roles (pending s4) = ad_roles (pending s2)"
    "ad_permissions (pending s4) = ad_permissions (pending s2)"
    using movesD [OF levels_seed_all 3] movesD [OF extends_grants 4]
    by (auto simp: levels_grown_def levels_extended_def)
  have roles: "\<forall>role \<in> set default_roles. role_seeded cks role (pending s4)"
    using roles_establish [OF 2] same
    by (auto simp: role_seeded_def role_by_slug_def resolve_permission_rows_def)
  have "level_seeded v (pending s3)" if "v \<in> set levels" for v
    by (rule levelling.foldP_establishes [OF _ _ _ 3 [unfolded seed_user_access_levels_def] that])
      (auto intro!: levelling.moves_rules levels_seed_level dest: seed_level_establishes
        intro: level_seeded_stable elim!: bindP_InrE split: json.splits)
  then have lev: "\<forall>v \<in> set levels. level_seeded v (pending s4)"
    using movesD [OF extends_grants 4] by (auto intro: level_seeded_stable extended_grown)
  from 4 obtain y t where loop: "foldP (\<lambda>_. seed_entry_grants) () ?entries s3 = (Inr y, t)"
    and fl: "flush drv t = (Inr x4, s4)"
    by (auto simp: seed_plugin_declared_access_grants_def for_each_foldP elim!: seqP_InrE)
  have "entry_seeded entry (pending t)" if "entry \<in> set ?entries" for entry
    by (rule extending.foldP_establishes [OF _ _ _ loop that])
      (auto intro: extends_entry entry_establishes entry_stable)
  with flush_Inr [OF fl] have entries: "\<forall>entry \<in> set ?entries. entry_seeded entry (pending s4)" by auto
  have d: "durable s' = pending s4" using commit_Inr [OF 5] by simp
  show ?thesis
    unfolding all_seeded_def d using cat names roles lev entries by (intro conjI exI) assumption+
qed

lemma seed_idle:
  assumes "all_seeded plugins exs levels d" and "\<forall>n. drv n = None"
  shows "\<exists>t. seed_default_rbac drv mr ml plugins exs levels (open_session d) =
      (Inr \<lparr>sr_roles_created = 0, sr_roles_updated = 0, sr_permissions_created = 0, sr_levels_created = 0\<rparr>, t)
    \<and> durable t = d \<and> pending t = d"
proof -
  let ?s = "open_session d"
  obtain cks keys user_keys where
    cat: "entry_keys (source_entries (collect_permission_catalog plugins exs) ''core'') = Inr cks"
    "permission_keys_from_catalog (collect_permission_catalog plugins exs) = Inr keys"
    "permission_keys_from_catalog (collect_user_permission_catalog plugins) = Inr user_keys"
    and names: "set (''*'' # keys @ user_keys) \<subseteq> set (ad_permissions d)"
    and roles: "\<forall>role \<in> set default_roles. role_seeded cks role d"
    using assms(1) unfolding all_seeded_def by blast
  have 1: "foldP (\<lambda>n name. bindP (upsert_permission drv name) (\<lambda>created.
      ret (if created then n + 1 else n))) (0::int) (''*'' # keys @ user_keys) ?s = (Inr 0, ?s)"
    by (rule foldP_idle) (use names in \<open>auto simp: upsert_permission_def bindP_def\<close>)
  have 2: "foldP (\<lambda>(c, u) role. bindP (seed_role mr cks role) (\<lambda>(c', u'). ret (c + c', u + u')))
      (0, 0) default_roles ?s = (Inr (0, 0), ?s)"
    by (rule foldP_idle) (use roles in \<open>auto simp: seed_role_idle bindP_def\<close>)
  have lev: "\<exists>data. v = JObj data \<and> seed_level drv ml data ?s = (Inr 0, ?s)" if "v \<in> set levels" for v
  proof -
    have v: "level_seeded v (pending ?s)" using assms(1) that by (simp add: all_seeded_def)
    then obtain data where "v = JObj data" by (auto simp: level_seeded_def)
    with v show ?thesis by (auto intro: seed_level_idle)
  qed
  have 3: "seed_user_access_levels drv ml levels ?s = (Inr 0, ?s)"
    unfolding seed_user_access_levels_def
    by (rule foldP_idle) (auto dest!: lev simp: bindP_def)
  have "foldP (\<lambda>_. seed_entry_grants) () (concat (map snd (collect_user_permission_catalog plugins))) ?s = (Inr (), ?s)"
    by (rule foldP_idle) (use assms(1) in \<open>auto simp: all_seeded_def entry_idle\<close>)
  then have 4: "seed_plugin_declared_access_grants drv plugins ?s = (Inr (), ?s\<lparr>calls := 1\<rparr>)"
    using assms(2) by (simp add: seed_plugin_declared_access_grants_def for_each_foldP seqP_def bindP_def)
  show ?thesis
    using assms(2) by (simp add: seed_default_rbac_def Let_def cat of_sum_def bindP_def seqP_def 1 2 3 4
      del: foldP.simps)
qed

lemma seed_Inl_durable:
  assumes "seed_default_rbac drv mr ml plugins exs levels s = (Inl e, s')"
  shows "durable s' = durable s"
proof -
  have 1: "durable s1 = durable s0" if "foldP (\<lambda>n name. bindP (upsert_permission drv name) (\<lambda>created.
      ret (if created then n + 1 else n))) (0::int) names s0 = (r, s1)" for names s0 r s1
    using movesD [OF adds_upserts that] by simp
  have 2: "durable s1 = durable s0" if "foldP (\<lambda>(c, u) role. bindP (seed_role mr cks role)
      (\<lambda>(c', u'). ret (c + c', u + u'))) (0, 0) default_roles s0 = (r, s1)" for cks s0 r s1
    using movesD [OF adds_seed_roles that] by simp
  have 3: "durable s1 = durable s0" if "seed_user_access_levels drv ml levels s0 = (r, s1)" for s0 r s1
    using movesD [OF levels_seed_all that] by simp
  have 4: "durable s1 = durable s0" if "seed_plugin_declared_access_grants drv plugins s0 = (r, s1)" for s0 r s1
    using movesD [OF extends_grants that] by simp
  have 5: "durable s1 = durable s0" if "commit drv s0 = (Inl e, s1)" for s0 s1 :: "'a account_db_scheme session" and e
    using that by (cases "drv (calls s0)") auto
  from assms show ?thesis
    by (auto simp: seed_default_rbac_def Let_def of_sum_def simp del: foldP.simps split: sum.splits
        elim!: bindP_InlE seqP_InlE dest!: 1 2 3 4 5)
qed

text \<open>
  C31. The seeder of the default roles and levels takes nothing away. Whatever the database does
  at each call, a run that raises has changed nothing; one that returns has committed tables in
  which every permission is still there, every role and every level is still there and grants
  at least what it granted, a row that is not a system row is exactly as the operator left it, a
  system level has changed in nothing but what it grants, a system role in that or in its name and
  description as well, which then are those of the default role of its slug, whatever an
  operator had written there, and nothing else (users, assignments, balances) has changed.
\<close>

theorem seeding_only_adds:
  assumes "seed_default_rbac drv mint_role mint_level plugins exs levels s = (r, s')"
  shows "case r of
      Inl e \<Rightarrow> durable s' = durable s
    | Inr res \<Rightarrow> durable s' = pending s' \<and> (\<exists>names roles new_roles lvls new_levels.
        durable s' = (pending s)\<lparr>ad_permissions := ad_permissions (pending s) @ names,
          ad_roles := roles @ new_roles, ad_levels := lvls @ new_levels\<rparr> \<and>
        list_all2 (kept_row default_roles) (ad_roles (pending s)) roles \<and>
        list_all2 (kept_row []) (ad_levels (pending s)) lvls)"
proof (cases r)
  case (Inl e)
  with assms show ?thesis by (simp add: seed_Inl_durable)
next
  case (Inr res)
  with assms have "durable s' = pending s'" "grown (pending s) (durable s')"
    using seed_result_tables by fastforce+
  then obtain names rs ls where "durable s' = (pending s)\<lparr>ad_permissions := ad_permissions (pending s) @ names,
      ad_roles := rs, ad_levels := ls\<rparr>" and "rows_grow default_roles (ad_roles (pending s)) rs"
    and "rows_grow [] (ad_levels (pending s)) ls" and same: "durable s' = pending s'"
    unfolding grown_def by blast
  then have "\<exists>names roles new_roles lvls new_levels.
      durable s' = (pending s)\<lparr>ad_permissions := ad_permissions (pending s) @ names,
        ad_roles := roles @ new_roles, ad_levels := lvls @ new_levels\<rparr> \<and>
      list_all2 (kept_row default_roles) (ad_roles (pending s)) roles \<and> list_all2 (kept_row []) (ad_levels (pending s)) lvls"
    unfolding rows_grow_def by blast
  with same show ?thesis by (simp only: Inr sum.case simp_thms)
qed

text \<open>
  C30. Seeding twice is seeding once. After a run that returned, whatever faults it met and
  whatever it found, a second run on a working database creates nothing, updates nothing,
  reports only zeros, and leaves the committed tables exactly as they are.
\<close>

theorem seeding_idempotent:
  assumes "seed_default_rbac drv mint_role mint_level plugins exs levels s = (Inr res, s')"
    and "\<forall>n. drv' n = None"
  shows "\<exists>t. seed_default_rbac drv' mint_role' mint_level' plugins exs levels (open_session (durable s')) =
      (Inr \<lparr>sr_roles_created = 0, sr_roles_updated = 0, sr_permissions_created = 0, sr_levels_created = 0\<rparr>, t)
    \<and> durable t = durable s'"
  using seed_idle [OF seed_establishes [OF assms(1)] assms(2)] by blast

text \<open>A plugin with one permission for the default level of logged-in users.\<close>

definition shop_plugin :: plugin_permissions where
  "shop_plugin = \<lparr>pp_name = ''shop'', pp_admin = [catalog_entry ''shop.manage'' ''Shop'' ''Shop''],
     pp_user = [[(''key'', JStr ''shop.view''), (''default_access_levels'', JList [JStr ''logged-in''])]]\<rparr>"

definition shop_levels :: "json list" where
  "shop_levels = [JObj [(''slug'', JStr ''logged-in''), (''permissions'', JList [JStr ''shop.view''])]]"

definition shop_run :: "(exn + seed_result) \<times> account_db session" where
  "shop_run = seed_default_rbac no_faults (\<lambda>n. ''r'' @ str_nat n) (\<lambda>n. ''l'' @ str_nat n)
     [shop_plugin] [] shop_levels (open_session empty_accounts)"

definition shop_result :: seed_result where
  "shop_result = \<lparr>sr_roles_created = 2, sr_roles_updated = 0, sr_permissions_created = 18, sr_levels_created = 1\<rparr>"

lemma shop_seeds: "fst shop_run = Inr shop_result"
  by code_simp

lemma shop_returns:
  "seed_default_rbac no_faults (\<lambda>n. ''r'' @ str_nat n) (\<lambda>n. ''l'' @ str_nat n) [shop_plugin] [] shop_levels
     (open_session empty_accounts) = (Inr shop_result, snd shop_run)"
  using shop_seeds unfolding shop_run_def by (metis prod.collapse)

theorem seeding_only_adds_witness:
  "durable (snd shop_run) = pending (snd shop_run) \<and>
   ad_users (durable (snd shop_run)) = [] \<and> ad_user_roles (durable (snd shop_run)) = []"
proof -
  from seeding_only_adds [OF shop_returns] obtain names roles lvls where
    same: "durable (snd shop_run) = pending (snd shop_run)"
    and tables: "durable (snd shop_run) = (pending (open_session empty_accounts))\<lparr>ad_permissions := names,
      ad_roles := roles, ad_levels := lvls\<rparr>" by auto
  have "ad_users (durable (snd shop_run)) = [] \<and> ad_user_roles (durable (snd shop_run)) = []"
    unfolding tables by (simp add: empty_accounts_def)
  with same show ?thesis by blast
qed

theorem seeding_idempotent_witness:
  "\<exists>t. seed_default_rbac no_faults (\<lambda>n. ''x'') (\<lambda>n. ''y'') [shop_plugin] [] shop_levels
      (open_session (durable (snd shop_run))) =
      (Inr \<lparr>sr_roles_created = 0, sr_roles_updated = 0, sr_permissions_created = 0, sr_levels_created = 0\<rparr>, t)
    \<and> durable t = durable (snd shop_run)"
  by (rule seeding_idempotent [OF shop_returns]) simp

end
