(* ===== verification/AccessRoutes.thy ===== *)
theory AccessRoutes
  imports Rbac ApiKeys
begin

text \<open>
  The admin routes on roles and access levels (\<open>vbwd/routes/admin/access.py\<close>) and the registry
  of content providers (\<open>services/access_level_content_provider.py\<close>). Both kinds of rows have
  the same routes; what differs is the table, so each route is written once over a \<open>row_table\<close>
  and instantiated twice.

  The bodies have their documented types: names of permissions are strings, each given once.
  The order of a listing by name is the database's collation, a parameter.
\<close>

section \<open>Permissions of a row\<close>

text \<open>
  \<open>_assign_permissions\<close>: the row's permissions become exactly the keys given; a key that is
  not in the catalog is added to it, with a flush.
\<close>

definition ensure_permission :: "driver \<Rightarrow> string \<Rightarrow> ('p account_db_scheme session, unit) prog" where
  "ensure_permission drv key = bindP (upsert_permission drv key) (\<lambda>_. ret ())"

definition assign_permissions ::
  "driver \<Rightarrow> string list \<Rightarrow> ('p account_db_scheme session, string list) prog" where
  "assign_permissions drv keys =
     seqP (for_each (ensure_permission drv) keys) (ret keys)"

section \<open>The two tables\<close>

record ('r, 'd) row_table =
  rw_rows :: "'d \<Rightarrow> 'r list"
  rw_put :: "'r \<Rightarrow> 'd \<Rightarrow> 'd"
  rw_drop :: "'r \<Rightarrow> 'd \<Rightarrow> 'd"
  rw_links :: "'d \<Rightarrow> (uuid \<times> uuid) list"
  rw_link :: "uuid \<Rightarrow> uuid \<Rightarrow> 'd \<Rightarrow> 'd"
  rw_unlink :: "uuid \<Rightarrow> uuid \<Rightarrow> 'd \<Rightarrow> 'd"
  rw_what :: string
  rw_system :: string
  rw_id_field :: string
  rw_assigned :: "string \<times> string \<times> string \<times> string"

text \<open>Deleting a row deletes its assignments; the names of a table are unique.\<close>

definition drop_role :: "admin_role \<Rightarrow> 'p account_db_scheme \<Rightarrow> 'p account_db_scheme" where
  "drop_role r d = d\<lparr>ad_roles := remove_rows (\<lambda>x. ro_id x = ro_id r) (ad_roles d),
     ad_user_roles := remove_rows (\<lambda>l. snd l = ro_id r) (ad_user_roles d)\<rparr>"

definition drop_level :: "access_level \<Rightarrow> 'p account_db_scheme \<Rightarrow> 'p account_db_scheme" where
  "drop_level r d = d\<lparr>ad_levels := remove_rows (\<lambda>x. ro_id x = ro_id r) (ad_levels d),
     ad_user_levels := remove_rows (\<lambda>l. snd l = ro_id r) (ad_user_levels d)\<rparr>"

definition role_table :: "(admin_role, 'p account_db_scheme) row_table" where
  "role_table = \<lparr>rw_rows = ad_roles, rw_put = put_role, rw_drop = drop_role, rw_links = ad_user_roles,
     rw_link = link_role, rw_unlink = unlink_role, rw_what = ''Role'',
     rw_system = ''System roles can only be deleted by a super admin'', rw_id_field = ''role_id'',
     rw_assigned = (''Role not found'', ''Role already assigned'', ''Role assigned'', ''Role revoked'')\<rparr>"

definition level_table :: "(access_level, 'p account_db_scheme) row_table" where
  "level_table = \<lparr>rw_rows = ad_levels, rw_put = put_level, rw_drop = drop_level, rw_links = ad_user_levels,
     rw_link = link_level, rw_unlink = unlink_level, rw_what = ''Access level'',
     rw_system = ''System levels can only be deleted by a super admin'', rw_id_field = ''level_id'',
     rw_assigned = (''Access level not found'', ''Level already assigned'', ''User access level assigned'',
       ''User access level revoked'')\<rparr>"

definition names_unique :: "('a admin_role_scheme, 'd) row_table \<Rightarrow> 'd \<Rightarrow> bool" where
  "names_unique tb d \<longleftrightarrow> distinct (map ro_name (rw_rows tb d)) \<and> distinct (map ro_slug (rw_rows tb d))"

definition row_by_id :: "('a admin_role_scheme, 'd) row_table \<Rightarrow> 'd \<Rightarrow> uuid \<Rightarrow> 'a admin_role_scheme option" where
  "row_by_id tb d i = find_row ro_id i (rw_rows tb d)"

definition row_by_slug ::
  "('a admin_role_scheme, 'd) row_table \<Rightarrow> 'd \<Rightarrow> string \<Rightarrow> 'a admin_role_scheme option" where
  "row_by_slug tb d slug = find_row ro_slug slug (rw_rows tb d)"

section \<open>Rendering\<close>

definition role_json :: "'a admin_role_scheme \<Rightarrow> json_dict" where
  "role_json r = [(''id'', JStr (ro_id r)), (''name'', JStr (ro_name r)), (''slug'', JStr (ro_slug r)),
     (''description'', opt_json (ro_description r)), (''is_system'', JBool (ro_is_system r)),
     (''permissions'', JList (map JStr (ro_permissions r)))]"

definition level_json :: "access_level \<Rightarrow> json_dict" where
  "level_json l = [(''id'', JStr (ro_id l)), (''name'', JStr (ro_name l)), (''slug'', JStr (ro_slug l)),
     (''description'', opt_json (ro_description l)), (''is_system'', JBool (ro_is_system l)),
     (''linked_plan_slug'', opt_json (al_linked_plan_slug l)),
     (''permissions'', JList (map JStr (ro_permissions l)))]"

definition row_users ::
  "('a admin_role_scheme, 'p account_db_scheme) row_table \<Rightarrow> 'p account_db_scheme \<Rightarrow> 'a admin_role_scheme \<Rightarrow> json" where
  "row_users tb d r =
     JList (map (\<lambda>u. JObj [(''id'', JStr (us_id u)), (''email'', JStr (us_email u)),
          (''name'', opt_json (user_name (details_of d (us_id u))))])
       (filter (\<lambda>u. (us_id u, ro_id r) \<in> set (rw_links tb d)) (ad_users d)))"

section \<open>The routes\<close>

definition acting_user_is_super_admin :: "gctx \<Rightarrow> bool" where
  "acting_user_is_super_admin g =
     (case g_user g of Some (Some u) \<Rightarrow> us_role u = SUPER_ADMIN | _ \<Rightarrow> False)"

text \<open>System rows first, then by name.\<close>

definition list_rows ::
  "('a admin_role_scheme list \<Rightarrow> 'a admin_role_scheme list) \<Rightarrow> ('a admin_role_scheme \<Rightarrow> json_dict)
     \<Rightarrow> ('a admin_role_scheme, 'p account_db_scheme) row_table \<Rightarrow> 'p view" where
  "list_rows collate render tb g =
     bindP (query (rw_rows tb)) (\<lambda>rows.
       ret (answer 200 [(''levels'', JList (map (\<lambda>r. JObj (render r))
         (collate (filter ro_is_system rows) @ collate (filter (\<lambda>r. \<not> ro_is_system r) rows))))]))"

text \<open>\<open>name.lower().replace(" ", "-")\<close>.\<close>

definition slug_of_name :: "string \<Rightarrow> string" where
  "slug_of_name name = map (\<lambda>c. if c = CHR 0x20 then CHR ''-'' else c) (str_lower name)"

definition new_slug :: "json_dict \<Rightarrow> string \<Rightarrow> string" where
  "new_slug data name = str_or (json_text (jget data ''slug'')) (slug_of_name name)"

definition create_row ::
  "driver \<Rightarrow> (nat \<Rightarrow> uuid) \<Rightarrow> (uuid \<Rightarrow> string \<Rightarrow> string \<Rightarrow> json_dict \<Rightarrow> string list \<Rightarrow> 'a admin_role_scheme)
     \<Rightarrow> ('a admin_role_scheme \<Rightarrow> json_dict) \<Rightarrow> ('a admin_role_scheme, 'p account_db_scheme) row_table
     \<Rightarrow> json_dict \<Rightarrow> 'p view" where
  "create_row drv mint build render tb data g =
     (case jget_or data ''name'' (JStr []) of
        JStr raw \<Rightarrow>
          (let name = str_strip raw; slug = new_slug data name in
           if name = [] then ret (error_answer 400 ''Name is required'')
           else bindP (query (\<lambda>d. row_by_slug tb d slug)) (\<lambda>existing.
             if existing \<noteq> None
             then ret (error_answer 400 (rw_what tb @ '' '' @ quoted slug @ '' already exists''))
             else
               bindP (gets (\<lambda>s. mint (calls s))) (\<lambda>new_id.
               bindP (assign_permissions drv (json_names (jget data ''permissions''))) (\<lambda>names.
               let r = build new_id name slug data names in
               seqP (on_db (rw_put tb r))
               (seqP (commit_checked drv (names_unique tb))
               (ret (answer 201 [(''level'', JObj (render r))])))))))
      | _ \<Rightarrow> raise (OtherError ''name has no attribute strip''))"

definition get_row ::
  "('a admin_role_scheme \<Rightarrow> json_dict) \<Rightarrow> ('a admin_role_scheme, 'p account_db_scheme) row_table \<Rightarrow> uuid
     \<Rightarrow> 'p view" where
  "get_row render tb i g =
     bindP (query (\<lambda>d. (row_by_id tb d i, d))) (\<lambda>(found, d).
       ret (case found of
          None \<Rightarrow> error_answer 404 ''Access level not found''
        | Some r \<Rightarrow> answer 200
            [(''level'', JObj (dict_set ''users'' (row_users tb d r) (render r)))]))"

text \<open>
  The fields in the order of the code. A slug that is taken is answered after the name has
  been written on the row, which no commit follows.
\<close>

definition update_row ::
  "driver \<Rightarrow> (json_dict \<Rightarrow> 'a admin_role_scheme \<Rightarrow> 'a admin_role_scheme) \<Rightarrow> ('a admin_role_scheme \<Rightarrow> json_dict)
     \<Rightarrow> ('a admin_role_scheme, 'p account_db_scheme) row_table \<Rightarrow> uuid \<Rightarrow> json_dict \<Rightarrow> 'p view" where
  "update_row drv extra render tb i data g =
     bindP (query (\<lambda>d. row_by_id tb d i)) (\<lambda>found.
       case found of
         None \<Rightarrow> ret (error_answer 404 ''Access level not found'')
       | Some r0 \<Rightarrow>
           (let r1 = (if has_key ''name'' data then r0\<lparr>ro_name := jstr (jget data ''name'')\<rparr> else r0);
                slug = (if has_key ''slug'' data then jstr (jget data ''slug'') else ro_slug r0)
            in seqP (on_db (rw_put tb r1))
              (bindP (query (\<lambda>d. row_by_slug tb d slug)) (\<lambda>existing.
                if slug \<noteq> ro_slug r0 \<and> existing \<noteq> None
                then ret (error_answer 400 (''Slug '' @ quoted slug @ '' already exists''))
                else
                  bindP (if has_key ''permissions'' data
                         then assign_permissions drv (json_names (jget data ''permissions''))
                         else ret (ro_permissions r0)) (\<lambda>names.
                  let r2 = (if has_key ''description'' data
                        then r1\<lparr>ro_slug := slug, ro_description := json_text (jget data ''description'')\<rparr>
                        else r1\<lparr>ro_slug := slug\<rparr>);
                      r = (extra data r2)\<lparr>ro_permissions := names\<rparr>
                  in seqP (on_db (rw_put tb r))
                    (seqP (commit_checked drv (names_unique tb))
                    (ret (answer 200 [(''level'', JObj (render r))]))))))))"

definition delete_row ::
  "driver \<Rightarrow> ('a admin_role_scheme, 'p account_db_scheme) row_table \<Rightarrow> uuid \<Rightarrow> 'p view" where
  "delete_row drv tb i g =
     bindP (query (\<lambda>d. row_by_id tb d i)) (\<lambda>found.
       case found of
         None \<Rightarrow> ret (error_answer 404 ''Access level not found'')
       | Some r \<Rightarrow>
           if ro_is_system r \<and> \<not> acting_user_is_super_admin g
           then ret (error_answer 400 (rw_system tb))
           else seqP (on_db (rw_drop tb r)) (seqP (commit drv)
             (ret (answer 200 [(''message'', JStr ''Access level deleted'')]))))"

definition list_row_users ::
  "('a admin_role_scheme, 'p account_db_scheme) row_table \<Rightarrow> uuid \<Rightarrow> 'p view" where
  "list_row_users tb i g =
     bindP (query (\<lambda>d. (row_by_id tb d i, d))) (\<lambda>(found, d).
       ret (case found of
          None \<Rightarrow> error_answer 404 ''Access level not found''
        | Some r \<Rightarrow> answer 200 [(''users'', row_users tb d r)]))"

definition assign_row ::
  "driver \<Rightarrow> ('a admin_role_scheme, 'p account_db_scheme) row_table \<Rightarrow> uuid \<Rightarrow> json_dict \<Rightarrow> 'p view" where
  "assign_row drv tb i data g =
     (let (missing, already, assigned, _) = rw_assigned tb; j = jget data (rw_id_field tb) in
      if \<not> jtrue j then ret (error_answer 400 (rw_id_field tb @ '' is required''))
      else bindP (query (\<lambda>d. user_by_id d i)) (\<lambda>user.
        if user = None then ret (error_answer 404 ''User not found'')
        else bindP (query (\<lambda>d. row_by_id tb d (jstr j))) (\<lambda>found.
          case found of
            None \<Rightarrow> ret (error_answer 404 missing)
          | Some r \<Rightarrow> bindP (query (\<lambda>d. (i, ro_id r) \<in> set (rw_links tb d))) (\<lambda>existing.
              if existing then ret (answer 200 [(''message'', JStr already)])
              else seqP (execute drv (rw_link tb i (ro_id r))) (seqP (commit drv)
                (ret (answer 200 [(''message'', JStr assigned)])))))))"

definition revoke_row ::
  "driver \<Rightarrow> ('a admin_role_scheme, 'p account_db_scheme) row_table \<Rightarrow> uuid \<Rightarrow> uuid \<Rightarrow> 'p view" where
  "revoke_row drv tb i j g =
     (let (_, _, _, revoked) = rw_assigned tb in
      seqP (execute drv (rw_unlink tb i j)) (seqP (commit drv)
        (ret (answer 200 [(''message'', JStr revoked)]))))"

text \<open>The routes on roles.\<close>

definition make_role :: "uuid \<Rightarrow> string \<Rightarrow> string \<Rightarrow> json_dict \<Rightarrow> string list \<Rightarrow> admin_role" where
  "make_role new_id name slug data names =
     \<lparr>ro_id = new_id, ro_name = name, ro_slug = slug,
      ro_description = json_text (jget_or data ''description'' (JStr [])), ro_is_system = False,
      ro_permissions = names\<rparr>"

definition list_levels :: "(admin_role list \<Rightarrow> admin_role list) \<Rightarrow> 'p view" where
  "list_levels collate = list_rows collate role_json role_table"

definition create_level :: "driver \<Rightarrow> (nat \<Rightarrow> uuid) \<Rightarrow> json_dict \<Rightarrow> 'p view" where
  "create_level drv mint = create_row drv mint make_role role_json role_table"

definition get_level :: "uuid \<Rightarrow> 'p view" where
  "get_level = get_row role_json role_table"

definition update_level :: "driver \<Rightarrow> uuid \<Rightarrow> json_dict \<Rightarrow> 'p view" where
  "update_level drv = update_row drv (\<lambda>data r. r) role_json role_table"

definition delete_level :: "driver \<Rightarrow> uuid \<Rightarrow> 'p view" where
  "delete_level drv = delete_row drv role_table"

definition list_level_users :: "uuid \<Rightarrow> 'p view" where
  "list_level_users = list_row_users role_table"

definition assign_user_role :: "driver \<Rightarrow> uuid \<Rightarrow> json_dict \<Rightarrow> 'p view" where
  "assign_user_role drv = assign_row drv role_table"

definition revoke_user_role :: "driver \<Rightarrow> uuid \<Rightarrow> uuid \<Rightarrow> 'p view" where
  "revoke_user_role drv = revoke_row drv role_table"

text \<open>The routes on access levels, which have a linked plan.\<close>

definition make_level :: "uuid \<Rightarrow> string \<Rightarrow> string \<Rightarrow> json_dict \<Rightarrow> string list \<Rightarrow> access_level" where
  "make_level new_id name slug data names =
     \<lparr>ro_id = new_id, ro_name = name, ro_slug = slug,
      ro_description = json_text (jget_or data ''description'' (JStr [])), ro_is_system = False,
      ro_permissions = names,
      al_linked_plan_slug = none_if_empty (json_text (jget data ''linked_plan_slug''))\<rparr>"

definition set_plan :: "json_dict \<Rightarrow> access_level \<Rightarrow> access_level" where
  "set_plan data l =
     (if has_key ''linked_plan_slug'' data
      then l\<lparr>al_linked_plan_slug := none_if_empty (json_text (jget data ''linked_plan_slug''))\<rparr> else l)"

definition list_user_levels :: "(access_level list \<Rightarrow> access_level list) \<Rightarrow> 'p view" where
  "list_user_levels collate = list_rows collate level_json level_table"

definition create_user_level :: "driver \<Rightarrow> (nat \<Rightarrow> uuid) \<Rightarrow> json_dict \<Rightarrow> 'p view" where
  "create_user_level drv mint = create_row drv mint make_level level_json level_table"

definition get_user_level :: "uuid \<Rightarrow> 'p view" where
  "get_user_level = get_row level_json level_table"

definition update_user_level :: "driver \<Rightarrow> uuid \<Rightarrow> json_dict \<Rightarrow> 'p view" where
  "update_user_level drv = update_row drv set_plan level_json level_table"

definition delete_user_level :: "driver \<Rightarrow> uuid \<Rightarrow> 'p view" where
  "delete_user_level drv = delete_row drv level_table"

definition assign_user_access_level :: "driver \<Rightarrow> uuid \<Rightarrow> json_dict \<Rightarrow> 'p view" where
  "assign_user_access_level drv = assign_row drv level_table"

definition revoke_user_access_level :: "driver \<Rightarrow> uuid \<Rightarrow> uuid \<Rightarrow> 'p view" where
  "revoke_user_access_level drv = revoke_row drv level_table"

section \<open>Content restricted to a level\<close>

type_synonym content = "(string \<times> json list) list"
type_synonym content_provider = "uuid \<Rightarrow> content"

definition register_content_provider ::
  "content_provider \<Rightarrow> content_provider list \<Rightarrow> content_provider list" where
  "register_content_provider provider providers = providers @ [provider]"

text \<open>\<open>merged.setdefault(category, []).extend(items)\<close>.\<close>

definition extend_category :: "content \<Rightarrow> string \<times> json list \<Rightarrow> content" where
  "extend_category merged = (\<lambda>(category, items).
     dict_set category ((case map_of merged category of None \<Rightarrow> [] | Some l \<Rightarrow> l) @ items) merged)"

definition merge_content :: "content list \<Rightarrow> content" where
  "merge_content contents =
     (let merged = foldl extend_category [] (concat contents)
      in foldl (\<lambda>m k. extend_category m (k, [])) merged [''pages'', ''widgets''])"

definition get_user_level_content :: "content_provider list \<Rightarrow> uuid \<Rightarrow> 'p view" where
  "get_user_level_content providers i g =
     bindP (query (\<lambda>d. level_by_id d i)) (\<lambda>found.
       ret (if found = None then error_answer 404 ''Access level not found''
         else answer 200 (map (\<lambda>(k, items). (k, JList items))
           (merge_content (map (\<lambda>provider. provider i) providers)))))"

section \<open>The vacated paths\<close>

text \<open>The target of the permanent redirects of the old paths, with the query string.\<close>

definition redirect_to :: "string \<Rightarrow> string \<Rightarrow> string" where
  "redirect_to query_string new_path =
     (let target = ''/api/v1/admin/access'' @ new_path in
      if query_string \<noteq> [] then target @ ''?'' @ query_string else target)"

definition redirect_user_levels :: "string \<Rightarrow> (string \<times> bool) option \<Rightarrow> nat \<times> string" where
  "redirect_user_levels query_string target =
     (308, redirect_to query_string
       (case target of
          None \<Rightarrow> ''/levels''
        | Some (i, False) \<Rightarrow> ''/levels/'' @ i
        | Some (i, True) \<Rightarrow> ''/levels/'' @ i @ ''/content''))"

end
