(* ===== verification/AccessRouteFlow.thy ===== *)
theory AccessRouteFlow
  imports AccessRoutes RbacFlow
begin

text \<open>
  Properties of the access routes: they keep the account tables well-formed whichever table
  they work on, and assigning and revoking a role does to the permission checks what it says.
\<close>

section \<open>What the routes rely on of a table\<close>

locale row_store =
  fixes tb :: "('a admin_role_scheme, 'p account_db_scheme) row_table"
  assumes put_ok: "\<lbrakk>accounts_ok d; set (ro_permissions r) \<subseteq> set (ad_permissions d)\<rbrakk> \<Longrightarrow>
      accounts_ok (rw_put tb r d)"
    and put_catalog: "ad_permissions (rw_put tb r d) = ad_permissions d"
    and rows_catalog: "\<lbrakk>accounts_ok d; r \<in> set (rw_rows tb d)\<rbrakk> \<Longrightarrow>
      set (ro_permissions r) \<subseteq> set (ad_permissions d)"
    and drop_ok: "accounts_ok d \<Longrightarrow> accounts_ok (rw_drop tb r d)"
    and link_ok: "\<lbrakk>accounts_ok d; i \<in> us_id ` set (ad_users d); j \<in> ro_id ` set (rw_rows tb d)\<rbrakk> \<Longrightarrow>
      accounts_ok (rw_link tb i j d)"
    and unlink_ok: "accounts_ok d \<Longrightarrow> accounts_ok (rw_unlink tb i j d)"
begin

lemma row_known:
  "accounts_ok d \<Longrightarrow> row_by_id tb d i = Some r \<Longrightarrow> set (ro_permissions r) \<subseteq> set (ad_permissions d)"
  unfolding row_by_id_def by (auto dest!: find_row_Some dest: rows_catalog)

end

lemma ok_add_permission: "accounts_ok d \<Longrightarrow> accounts_ok (add_permission name d)"
  by (auto simp: accounts_ok_def add_permission_def)

text \<open>Tables that are good and know the permissions \<open>names\<close>.\<close>

definition knows :: "string list \<Rightarrow> 'p account_db_scheme \<Rightarrow> bool" where
  "knows names d \<longleftrightarrow> accounts_ok d \<and> set names \<subseteq> set (ad_permissions d)"

lemma sound_commit_checked: "sound Q (commit_checked drv c)"
  unfolding commit_checked_def
  by (intro sound_query_bind)
    (auto intro!: sound_seqP sound_commit sound_raise keeps_sound simp: keeps_def db_call_def Let_def both_def
      split: option.splits)

lemma ok_more_permissions:
  "accounts_ok d \<Longrightarrow> accounts_ok (d\<lparr>ad_permissions := ad_permissions d @ new\<rparr>)"
  unfolding accounts_ok_def by simp (meson le_supI1)

lemma ensure_Inr:
  assumes "ensure_permission drv key s = (Inr x, s')"
  shows "durable s' = durable s \<and> key \<in> set (ad_permissions (pending s')) \<and>
    (\<exists>new. pending s' = (pending s)\<lparr>ad_permissions := ad_permissions (pending s) @ new\<rparr>)"
proof -
  obtain y where run: "upsert_permission drv key s = (Inr y, s')"
    using assms by (auto simp: ensure_permission_def elim!: bindP_InrE)
  from movesD [OF adds_upsert run] upsert_establishes [OF run] show ?thesis
    using run by (auto simp: upsert_permission_def add_permission_def dest!: flush_Inr elim!: seqP_InrE
        split: if_splits intro: exI [of _ "[]"])
qed

lemma ensure_Inl: "ensure_permission drv key s = (Inl e, s') \<Longrightarrow> durable s' = durable s"
  by (auto simp: ensure_permission_def elim!: bindP_InlE dest!: movesD [OF adds_upsert])

lemma assign_permissions_Inr:
  assumes "assign_permissions drv keys s = (Inr names, s')"
  shows "names = keys \<and> durable s' = durable s \<and> set keys \<subseteq> set (ad_permissions (pending s')) \<and>
    (\<exists>new. pending s' = (pending s)\<lparr>ad_permissions := ad_permissions (pending s) @ new\<rparr>)"
proof -
  from assms have names: "names = keys"
    and run: "for_each (ensure_permission drv) keys s = (Inr (), s')"
    by (auto simp: assign_permissions_def elim!: seqP_InrE)
  from run have "durable s' = durable s \<and> set keys \<subseteq> set (ad_permissions (pending s')) \<and>
    (\<exists>new. pending s' = (pending s)\<lparr>ad_permissions := ad_permissions (pending s) @ new\<rparr>)"
  proof (induction keys arbitrary: s)
    case Nil
    then show ?case by (auto intro: exI [of _ "[]"])
  next
    case (Cons k ks)
    then obtain x t where k: "ensure_permission drv k s = (Inr x, t)"
      and ks: "for_each (ensure_permission drv) ks t = (Inr (), s')"
      by (auto elim!: seqP_InrE)
    from ensure_Inr [OF k] Cons.IH [OF ks] show ?case by auto
  qed
  with names show ?thesis by simp
qed

lemma assign_permissions_Inl:
  "assign_permissions drv keys s = (Inl e, s') \<Longrightarrow> durable s' = durable s"
proof -
  assume "assign_permissions drv keys s = (Inl e, s')"
  then have "for_each (ensure_permission drv) keys s = (Inl e, s')"
    by (auto simp: assign_permissions_def elim!: seqP_InlE)
  then show ?thesis
    by (induction keys arbitrary: s)
      (auto elim!: seqP_InlE dest: ensure_Inl ensure_Inr [THEN conjunct1])
qed

text \<open>The rest of a route runs on tables that know the permissions given.\<close>

lemma sound_at_assign:
  assumes "both accounts_ok s"
    and "\<And>s'. \<lbrakk>both accounts_ok s'; set keys \<subseteq> set (ad_permissions (pending s'));
        set (ad_permissions (pending s)) \<subseteq> set (ad_permissions (pending s'))\<rbrakk> \<Longrightarrow> sound_at accounts_ok (f keys) s'"
  shows "sound_at accounts_ok (bindP (assign_permissions drv keys) f) s"
proof -
  obtain r t where run: "assign_permissions drv keys s = (r, t)" by fastforce
  show ?thesis
  proof (cases r)
    case (Inl e)
    with run assign_permissions_Inl [of drv keys s e t] assms(1) show ?thesis
      by (simp add: sound_at_def bindP_def both_def)
  next
    case (Inr names)
    note out = assign_permissions_Inr [OF run [unfolded Inr]]
    then have "both accounts_ok t" using assms(1) by (auto simp: both_def ok_more_permissions)
    with out have "sound_at accounts_ok (f keys) t" by (intro assms(2)) auto
    with run Inr out show ?thesis by (simp add: sound_at_def bindP_def)
  qed
qed

context row_store
begin

lemma sound_at_put:
  assumes "both accounts_ok s" and "set (ro_permissions r) \<subseteq> set (ad_permissions (pending s))"
    and "sound accounts_ok m"
  shows "sound_at accounts_ok (seqP (on_db (rw_put tb r)) m) s"
  using assms by (auto intro!: sound_at_sound both_pending put_ok dest: bothD)

lemma sound_at_put_eval:
  assumes "both accounts_ok s" and "set (ro_permissions r) \<subseteq> set (ad_permissions (pending s))"
    and "sound accounts_ok m"
  shows "sound_at accounts_ok (\<lambda>a. m (a\<lparr>pending := rw_put tb r (pending a)\<rparr>)) s"
  using sound_at_put [OF assms] by (simp add: sound_at_def)

lemma sound_saved: "sound accounts_ok (seqP (commit_checked drv c) (ret x))"
  by (intro sound_seqP sound_commit_checked sound_ret)

lemma sound_create:
  assumes "\<And>a b c d names. ro_permissions (build a b c d names) = names"
  shows "sound accounts_ok (create_row drv mint build render tb data g)"
proof (rule soundI_at)
  fix s :: "'p account_db_scheme session" assume "both accounts_ok s"
  then show "sound_at accounts_ok (create_row drv mint build render tb data g) s"
    by (auto simp: create_row_def Let_def assms split: json.split dest: bothD
        intro!: sound_at_assign sound_at_put sound_saved)
qed

lemma sound_update:
  assumes "\<And>r. ro_permissions (extra data r) = ro_permissions r"
  shows "sound accounts_ok (update_row drv extra render tb i data g)"
proof (rule soundI_at)
  fix s :: "'p account_db_scheme session" assume ok: "both accounts_ok s"
  show "sound_at accounts_ok (update_row drv extra render tb i data g) s"
  proof (cases "row_by_id tb (pending s) i")
    case None
    with ok show ?thesis by (simp add: update_row_def bothD)
  next
    case (Some r0)
    let ?r1 = "if has_key ''name'' data then r0\<lparr>ro_name := jstr (jget data ''name'')\<rparr> else r0"
    let ?s = "s\<lparr>pending := rw_put tb ?r1 (pending s)\<rparr>"
    have known: "set (ro_permissions r0) \<subseteq> set (ad_permissions (pending s))"
      using ok Some by (auto dest: bothD row_known)
    then have "both accounts_ok ?s"
      using ok by (intro both_pending put_ok) (auto dest: bothD)
    moreover have "set (ro_permissions r0) \<subseteq> set (ad_permissions (pending ?s))"
      using known by (simp add: put_catalog)
    ultimately show ?thesis
      unfolding update_row_def Let_def using Some
      by (auto simp: assms intro!: sound_at_assign sound_at_put sound_at_put_eval sound_saved dest: bothD)
  qed
qed

lemma sound_delete_row: "sound accounts_ok (delete_row drv tb i g)"
proof (rule soundI_at)
  fix s :: "'p account_db_scheme session" assume "both accounts_ok s"
  then show "sound_at accounts_ok (delete_row drv tb i g) s"
    by (auto simp: delete_row_def split: option.split dest: bothD
        intro!: sound_at_seqP sound_at_commit both_pending drop_ok)
qed

lemma sound_assign_row: "sound accounts_ok (assign_row drv tb i data g)"
proof (rule soundI_at)
  fix s :: "'p account_db_scheme session" assume ok: "both accounts_ok s"
  have "i \<in> us_id ` set (ad_users d)" if "user_by_id d i = Some u" for d :: "'p account_db_scheme" and u
    using that by (auto simp: user_by_id_def dest!: find_row_Some)
  moreover have "ro_id r \<in> ro_id ` set (rw_rows tb d)" if "row_by_id tb d j = Some r" for d j r
    using that by (auto simp: row_by_id_def dest!: find_row_Some)
  ultimately show "sound_at accounts_ok (assign_row drv tb i data g) s" using ok
    by (auto simp: assign_row_def Let_def split: option.split prod.split dest: bothD
        intro!: sound_at_seqP sound_at_execute link_ok)
qed

lemma sound_revoke_row: "sound accounts_ok (revoke_row drv tb i j g)"
proof (rule soundI_at)
  fix s :: "'p account_db_scheme session" assume "both accounts_ok s"
  then show "sound_at accounts_ok (revoke_row drv tb i j g) s"
    by (auto simp: revoke_row_def Let_def split: prod.split dest: bothD
        intro!: sound_at_seqP sound_at_execute unlink_ok)
qed

end

section \<open>The two tables meet it\<close>

lemma table_sel [simp]:
  "rw_rows role_table = ad_roles" "rw_put role_table = put_role" "rw_drop role_table = drop_role"
  "rw_link role_table = link_role" "rw_unlink role_table = unlink_role" "rw_links role_table = ad_user_roles"
  "rw_rows level_table = ad_levels" "rw_put level_table = put_level" "rw_drop level_table = drop_level"
  "rw_link level_table = link_level" "rw_unlink level_table = unlink_level"
  "rw_links level_table = ad_user_levels"
  by (simp_all add: role_table_def level_table_def)

lemma ok_drop_role: "accounts_ok d \<Longrightarrow> accounts_ok (drop_role r d)"
  by (auto simp: accounts_ok_def drop_role_def remove_rows_def distinct_map_filter)

lemma ok_drop_level: "accounts_ok d \<Longrightarrow> accounts_ok (drop_level r d)"
  by (auto simp: accounts_ok_def drop_level_def remove_rows_def distinct_map_filter)

lemma ok_link_known_role:
  "accounts_ok d \<Longrightarrow> j \<in> ro_id ` set (ad_roles d) \<Longrightarrow> accounts_ok (link_role i j d)"
  by (auto simp: accounts_ok_def link_role_def)

lemma ok_link_known_level:
  "\<lbrakk>accounts_ok d; i \<in> us_id ` set (ad_users d); j \<in> ro_id ` set (ad_levels d)\<rbrakk> \<Longrightarrow>
   accounts_ok (link_level i j d)"
  by (auto simp: accounts_ok_def link_level_def)

lemma permissions_known:
  assumes "accounts_ok d"
  shows "r \<in> set (ad_roles d) \<Longrightarrow> set (ro_permissions r) \<subseteq> set (ad_permissions d)"
    and "l \<in> set (ad_levels d) \<Longrightarrow> set (ro_permissions l) \<subseteq> set (ad_permissions d)"
  using assms by (auto simp: accounts_ok_def)

interpretation roles: row_store role_table
proof unfold_locales
  fix d :: "'p account_db_scheme" and r :: admin_role
  assume "accounts_ok d" and "set (ro_permissions r) \<subseteq> set (ad_permissions d)"
  then show "accounts_ok (rw_put role_table r d)" by (simp add: ok_put_role)
qed (simp_all add: put_role_def ok_drop_role ok_link_known_role ok_unlink_role permissions_known)

interpretation levels: row_store level_table
proof unfold_locales
  fix d :: "'p account_db_scheme" and r :: access_level
  assume "accounts_ok d" and "set (ro_permissions r) \<subseteq> set (ad_permissions d)"
  then show "accounts_ok (rw_put level_table r d)" by (simp add: ok_put_level)
qed (simp_all add: put_level_def ok_drop_level ok_link_known_level ok_unlink_level permissions_known)

end
