(* ===== verification/AccountOps.thy ===== *)
theory AccountOps
  imports AccessRouteFlow
begin

text \<open>
  Any history of the services on accounts: registrations, administration, assignments, resets,
  keys and the routes on roles and access levels keep the account tables well-formed.
\<close>

section \<open>The routes on roles and levels\<close>

datatype row_op =
    CreateRow json_dict
  | UpdateRow uuid json_dict
  | DeleteRow uuid
  | AssignRow uuid json_dict
  | RevokeRow uuid uuid

fun run_role_op :: "driver \<Rightarrow> (nat \<Rightarrow> uuid) \<Rightarrow> row_op \<Rightarrow> 'p view" where
  "run_role_op drv mint (CreateRow data) = create_level drv mint data"
| "run_role_op drv mint (UpdateRow i data) = update_level drv i data"
| "run_role_op drv mint (DeleteRow i) = delete_level drv i"
| "run_role_op drv mint (AssignRow i data) = assign_user_role drv i data"
| "run_role_op drv mint (RevokeRow i j) = revoke_user_role drv i j"

fun run_level_op :: "driver \<Rightarrow> (nat \<Rightarrow> uuid) \<Rightarrow> row_op \<Rightarrow> 'p view" where
  "run_level_op drv mint (CreateRow data) = create_user_level drv mint data"
| "run_level_op drv mint (UpdateRow i data) = update_user_level drv i data"
| "run_level_op drv mint (DeleteRow i) = delete_user_level drv i"
| "run_level_op drv mint (AssignRow i data) = assign_user_access_level drv i data"
| "run_level_op drv mint (RevokeRow i j) = revoke_user_access_level drv i j"

lemma sound_role_op: "sound accounts_ok (run_role_op drv mint op g)"
  by (cases op)
    (simp_all add: create_level_def update_level_def delete_level_def assign_user_role_def
      revoke_user_role_def make_role_def roles.sound_create roles.sound_update roles.sound_delete_row
      roles.sound_assign_row roles.sound_revoke_row)

lemma sound_level_op: "sound accounts_ok (run_level_op drv mint op g)"
  by (cases op)
    (simp_all add: create_user_level_def update_user_level_def delete_user_level_def
      assign_user_access_level_def revoke_user_access_level_def make_level_def set_plan_def
      levels.sound_create levels.sound_update levels.sound_delete_row levels.sound_assign_row
      levels.sound_revoke_row)

section \<open>Any history of the account services\<close>

datatype account_op =
    RegisterOp string string
  | AdminCreateOp json_dict
  | AdminUpdateOp uuid json_dict
  | DetailsOp uuid json_dict
  | StatusOp uuid user_status
  | RolesOp uuid json_dict
  | DeleteUserOp uuid
  | AssignRoleOp uuid string
  | RevokeRoleOp uuid string
  | AssignLevelOp uuid uuid
  | RevokeLevelOp uuid uuid
  | PlanEndOp uuid string
  | EnsureLevelOp string string "string list" "string option"
  | EnsureRoleOp string string "string list"
  | ResetOp reset_op
  | PasswordOp uuid json_dict
  | NewKeyOp uuid string "string list" "string list option"
  | RevokeKeyOp uuid "uuid option"
  | RoleRouteOp row_op gctx
  | LevelRouteOp row_op gctx

fun run_account_op ::
  "auth_env \<Rightarrow> driver \<Rightarrow> (nat \<Rightarrow> uuid) \<Rightarrow> clock \<Rightarrow> (nat \<Rightarrow> string) \<Rightarrow> (string \<Rightarrow> string) \<Rightarrow> account_op
     \<Rightarrow> ('p account_db_scheme session, unit) prog" where
  "run_account_op env drv mint clk draw digest (RegisterOp email pw) =
     seqP (register env drv mint (clk 0) email pw) (ret ())"
| "run_account_op env drv mint clk draw digest (AdminCreateOp payload) =
     seqP (admin_create env drv mint [] None payload) (ret ())"
| "run_account_op env drv mint clk draw digest (AdminUpdateOp i payload) =
     seqP (admin_update env drv [] i payload) (ret ())"
| "run_account_op env drv mint clk draw digest (DetailsOp i payload) =
     seqP (update_user_details drv i payload) (ret ())"
| "run_account_op env drv mint clk draw digest (StatusOp i st) =
     seqP (update_user_status drv i st) (ret ())"
| "run_account_op env drv mint clk draw digest (RolesOp i data) =
     seqP (update_user_roles drv i data empty_g) (ret ())"
| "run_account_op env drv mint clk draw digest (DeleteUserOp i) =
     seqP (repo_delete_user drv i) (ret ())"
| "run_account_op env drv mint clk draw digest (AssignRoleOp i name) =
     seqP (assign_role drv i name) (ret ())"
| "run_account_op env drv mint clk draw digest (RevokeRoleOp i name) =
     seqP (revoke_role drv i name) (ret ())"
| "run_account_op env drv mint clk draw digest (AssignLevelOp i l) =
     seqP (assign_level drv i l) (ret ())"
| "run_account_op env drv mint clk draw digest (RevokeLevelOp i l) =
     seqP (revoke_level drv i l) (ret ())"
| "run_account_op env drv mint clk draw digest (PlanEndOp i plan) =
     seqP (revoke_plan_linked_levels drv i plan) (ret ())"
| "run_account_op env drv mint clk draw digest (EnsureLevelOp slug name names plan) =
     seqP (ensure_user_access_level drv mint slug name names plan) (ret ())"
| "run_account_op env drv mint clk draw digest (EnsureRoleOp slug name names) =
     seqP (ensure_role drv mint True slug name names) (ret ())"
| "run_account_op env drv mint clk draw digest (ResetOp op) =
     run_reset_op env (\<lambda>_. drv) mint clk draw 0 op"
| "run_account_op env drv mint clk draw digest (PasswordOp i data) =
     seqP (change_password env drv data (empty_g\<lparr>g_user_id := Some i\<rparr>)) (ret ())"
| "run_account_op env drv mint clk draw digest (NewKeyOp i label scopes ips) =
     seqP (generate_key drv digest mint draw i label scopes ips None) (ret ())"
| "run_account_op env drv mint clk draw digest (RevokeKeyOp i owner) =
     seqP (revoke_key drv i owner) (ret ())"
| "run_account_op env drv mint clk draw digest (RoleRouteOp op g) =
     seqP (run_role_op drv mint op g) (ret ())"
| "run_account_op env drv mint clk draw digest (LevelRouteOp op g) =
     seqP (run_level_op drv mint op g) (ret ())"

lemma sound_account_op: "sound accounts_ok (run_account_op env drv mint clk draw digest op)"
  by (cases op)
    (simp_all add: sound_seqP sound_ret sound_register sound_admin_create sound_admin_update
      accounts_hooks_def sound_update_details sound_update_status sound_update_roles sound_delete
      sound_assign_role sound_revoke_role keeps_sound [OF keeps_assign_level]
      keeps_sound [OF keeps_revoke_level] sound_plan_end sound_ensure_level sound_ensure_role
      sound_reset_op sound_change_password sound_generate_key sound_revoke_key sound_role_op
      sound_level_op)

text \<open>Each operation in a session of its own, with the faults, identifiers and clock of its run.\<close>

fun run_account_ops ::
  "auth_env \<Rightarrow> (nat \<Rightarrow> driver) \<Rightarrow> (nat \<Rightarrow> nat \<Rightarrow> uuid) \<Rightarrow> (nat \<Rightarrow> clock) \<Rightarrow> (nat \<Rightarrow> string) \<Rightarrow> (string \<Rightarrow> string)
     \<Rightarrow> account_op list \<Rightarrow> 'p account_db_scheme \<Rightarrow> 'p account_db_scheme" where
  "run_account_ops env drv mint clk draw digest [] d = d"
| "run_account_ops env drv mint clk draw digest (op # ops) d =
     run_account_ops env drv mint clk draw digest ops
       (durable (snd (run_account_op env (drv (length ops)) (mint (length ops)) (clk (length ops))
          draw digest op (open_session d))))"

text \<open>
  C4. The account tables stay well-formed. Over any history of registrations, user
  administration, role and level assignments, grants of plugins, password resets and changes,
  API keys, and creating, editing, deleting, assigning and revoking roles and levels, whatever the database does at each call and whatever identifiers are drawn:
  no two users share an identifier or an address, no two details rows a user; a role or level
  link points at a row of its table and a level link at a user; and every role and level
  names only permissions of the catalog.
\<close>

theorem account_tables_wellformed:
  "accounts_ok d \<Longrightarrow> accounts_ok (run_account_ops env drv mint clk draw digest ops d)"
proof (induction ops arbitrary: d)
  case (Cons op ops)
  then show ?case by (simp add: sound_durable [OF sound_account_op])
qed simp

lemma empty_ok: "accounts_ok empty_accounts"
  by (simp add: accounts_ok_def empty_accounts_def)

theorem account_tables_wellformed_witness:
  "accounts_ok (run_account_ops demo_env (\<lambda>_. no_faults) (\<lambda>_ _. demo_id) (\<lambda>_ _. 0) (\<lambda>_. ''t'') (\<lambda>s. s)
     [RegisterOp ''a@b.cd'' ''Secret!9'', DeleteUserOp demo_id] empty_accounts)"
  by (rule account_tables_wellformed [OF empty_ok])

section \<open>System rows\<close>

text \<open>
  Only a super admin deletes a system row. When the role is a system role and the acting
  user is not a super admin, the route answers 400 and leaves the session as it was; and
  whoever acts, deleting removes that role and its assignments only, and every other role,
  assignment, user and level is still there.
\<close>

theorem delete_role_guarded:
  assumes "row_by_id role_table (pending s) i = Some r"
  shows "if ro_is_system r \<and> \<not> acting_user_is_super_admin g
    then delete_level drv i g s =
      (Inr (error_answer 400 ''System roles can only be deleted by a super admin''), s)
    else (case delete_level drv i g s of
        (Inl e, s') \<Rightarrow> durable s' = durable s
      | (Inr a, s') \<Rightarrow> durable s' = drop_role r (pending s) \<and> row_by_id role_table (durable s') i = None)"
proof -
  have "ro_id r = i" using assms by (auto simp: row_by_id_def dest: find_row_Some)
  then have gone: "row_by_id role_table (drop_role r (pending s)) i = None"
    by (auto simp: row_by_id_def drop_role_def remove_rows_def find_row_None)
  show ?thesis
    using assms gone by (cases "drv (calls s)")
      (auto simp: delete_level_def delete_row_def role_table_def seqP_def bindP_def)
qed

text \<open>A system role, deleted by an administrator who is not a super admin.\<close>

definition system_role :: admin_role where
  "system_role = \<lparr>ro_id = ''r1'', ro_name = ''Admin'', ro_slug = ''admin'', ro_description = None,
     ro_is_system = True, ro_permissions = []\<rparr>"

theorem delete_role_guarded_witness:
  "delete_level no_faults ''r1'' empty_g (open_session (put_role system_role empty_accounts)) =
     (Inr (error_answer 400 ''System roles can only be deleted by a super admin''),
      open_session (put_role system_role empty_accounts))"
proof -
  have "row_by_id role_table (pending (open_session (put_role system_role empty_accounts))) ''r1'' =
      Some system_role"
    by (simp add: row_by_id_def put_role_def system_role_def empty_accounts_def upsert_def find_row_def)
  from delete_role_guarded [OF this, of empty_g no_faults] show ?thesis
    by (simp add: system_role_def acting_user_is_super_admin_def empty_g_def)
qed

end
