(* ===== verification/Disk.thy ===== *)
theory Disk
  imports Json "HOL-Library.AList" "HOL-Library.Sublist"
begin

text \<open>
  The disk as the file services see it through \<open>os\<close> and \<open>open\<close>: files and directories by their
  canonical path, symbolic links, and a counter of system calls. Which call fails, and with
  what \<open>OSError\<close>, is decided by a driver. Contents are byte strings. The permission bits of
  directories, the umask and the advisory locks have no effect in a sequential model.

  A link is recorded with the place it finally leads to, what \<open>os.path.realpath\<close> of it
  gives; \<open>well_linked\<close> says that this is so. A link that leads through another one keeps the
  place that is recorded when the other one is moved or deleted.
\<close>

section \<open>Paths\<close>

type_synonym path = "string list"

definition is_abs :: "string \<Rightarrow> bool" where
  "is_abs s \<longleftrightarrow> starts_with [CHR ''/''] s"

text \<open>\<open>os.path.join(a, b)\<close>.\<close>

definition path_join :: "string \<Rightarrow> string \<Rightarrow> string" where
  "path_join a b =
     (if is_abs b then b
      else if a = [] \<or> ends_with [CHR ''/''] a then a @ b
      else a @ [CHR ''/''] @ b)"

text \<open>The text of a canonical path.\<close>

definition path_str :: "path \<Rightarrow> string" where
  "path_str p = (if p = [] then [CHR ''/''] else concat (map (\<lambda>n. CHR ''/'' # n) p))"

text \<open>\<open>f"{path}{suffix}"\<close> on a canonical path.\<close>

definition with_suffix :: "path \<Rightarrow> string \<Rightarrow> path" where
  "with_suffix p sfx = (if p = [] then [sfx] else butlast p @ [last p @ sfx])"

text \<open>The walk along the components of a path: dots and links are resolved on the way.\<close>

fun walk :: "(path \<Rightarrow> path option) \<Rightarrow> path \<Rightarrow> string list \<Rightarrow> path" where
  "walk links at [] = at"
| "walk links at (n # ns) =
     (if n = [] \<or> n = ''.'' then walk links at ns
      else if n = ''..'' then walk links (butlast at) ns
      else (case links (at @ [n]) of
          Some target \<Rightarrow> walk links target ns
        | None \<Rightarrow> walk links (at @ [n]) ns))"

section \<open>The disk\<close>

datatype node =
    File string int
  | Dir

record disk =
  dk_nodes :: "(path \<times> node) list"
  dk_links :: "(path \<times> path) list"
  dk_cwd :: path
  dk_calls :: nat

definition links_of :: "disk \<Rightarrow> path \<Rightarrow> path option" where
  "links_of d = map_of (dk_links d)"

definition realpath :: "disk \<Rightarrow> string \<Rightarrow> path" where
  "realpath d s = walk (links_of d) (if is_abs s then [] else dk_cwd d) (split_on (CHR ''/'') s)"

text \<open>What a system call on a path works on: the kernel follows the links.\<close>

definition follow :: "disk \<Rightarrow> path \<Rightarrow> path" where
  "follow d p = walk (links_of d) [] p"

definition node_at :: "disk \<Rightarrow> path \<Rightarrow> node option" where
  "node_at d p = (if p = [] then Some Dir else map_of (dk_nodes d) p)"

definition put_node :: "path \<Rightarrow> node \<Rightarrow> disk \<Rightarrow> disk" where
  "put_node p n d = d\<lparr>dk_nodes := AList.update p n (dk_nodes d)\<rparr>"

text \<open>Some directory on the way is a file.\<close>

definition is_file :: "disk \<Rightarrow> path \<Rightarrow> bool" where
  "is_file d p \<longleftrightarrow> (case node_at d p of Some (File _ _) \<Rightarrow> True | _ \<Rightarrow> False)"

definition parents :: "path \<Rightarrow> path list" where
  "parents p = map (\<lambda>i. take i p) [1..<length p]"

definition blocked :: "disk \<Rightarrow> path \<Rightarrow> bool" where
  "blocked d p \<longleftrightarrow> list_ex (is_file d) (parents p)"

section \<open>System calls\<close>

type_synonym os_driver = "nat \<Rightarrow> exn option"

definition os_call :: "os_driver \<Rightarrow> (disk, unit) prog" where
  "os_call drv d =
     (let d' = d\<lparr>dk_calls := Suc (dk_calls d)\<rparr>
      in case drv (dk_calls d) of None \<Rightarrow> (Inr (), d') | Some e \<Rightarrow> (Inl e, d'))"

definition os_exists :: "disk \<Rightarrow> path \<Rightarrow> bool" where
  "os_exists d p \<longleftrightarrow> node_at d (follow d p) \<noteq> None"

text \<open>Opening a file to read all of it.\<close>

definition os_read :: "os_driver \<Rightarrow> path \<Rightarrow> (disk, string) prog" where
  "os_read drv p =
     seqP (os_call drv)
       (bindP (gets (\<lambda>d. (blocked d (follow d p), node_at d (follow d p)))) (\<lambda>(stuck, found).
          if stuck then raise (OtherError ''NotADirectoryError'')
          else case found of
              None \<Rightarrow> raise (FileNotFoundError (path_str p))
            | Some Dir \<Rightarrow> raise (OtherError ''IsADirectoryError'')
            | Some (File bytes _) \<Rightarrow> ret bytes))"

text \<open>Opening a file to write, creating it when it is not there.\<close>

definition os_open :: "os_driver \<Rightarrow> path \<Rightarrow> int \<Rightarrow> (disk, unit) prog" where
  "os_open drv p mode =
     seqP (os_call drv)
       (bindP (gets (\<lambda>d. (follow d p, blocked d (follow d p), node_at d (follow d p)))) (\<lambda>(q, stuck, found).
          if stuck then raise (OtherError ''NotADirectoryError'')
          else case found of
              None \<Rightarrow> modify (put_node q (File [] mode))
            | Some Dir \<Rightarrow> raise (OtherError ''IsADirectoryError'')
            | Some (File _ _) \<Rightarrow> ret ()))"

text \<open>A call that changes the contents, or the mode, of an open file.\<close>

definition os_change :: "os_driver \<Rightarrow> path \<Rightarrow> (string \<Rightarrow> string) \<Rightarrow> (int \<Rightarrow> int) \<Rightarrow> (disk, unit) prog" where
  "os_change drv p f g =
     seqP (os_call drv)
       (modify (\<lambda>d. case node_at d (follow d p) of
            Some (File bytes mode) \<Rightarrow> put_node (follow d p) (File (f bytes) (g mode)) d
          | _ \<Rightarrow> d))"

definition os_write :: "os_driver \<Rightarrow> path \<Rightarrow> (string \<Rightarrow> string) \<Rightarrow> (disk, unit) prog" where
  "os_write drv p f = os_change drv p f (\<lambda>mode. mode)"

definition os_chmod :: "os_driver \<Rightarrow> path \<Rightarrow> int \<Rightarrow> (disk, unit) prog" where
  "os_chmod drv p mode = os_change drv p (\<lambda>bytes. bytes) (\<lambda>_. mode)"

text \<open>\<open>fsync\<close> can fail and changes nothing that is seen.\<close>

definition os_fsync :: "os_driver \<Rightarrow> (disk, unit) prog" where
  "os_fsync drv = os_call drv"

text \<open>\<open>os.makedirs(p, exist_ok=True)\<close> on a canonical path.\<close>

definition make_dir :: "path \<Rightarrow> disk \<Rightarrow> disk" where
  "make_dir p d = (if node_at d p = None then put_node p Dir d else d)"

definition os_makedirs :: "os_driver \<Rightarrow> path \<Rightarrow> (disk, unit) prog" where
  "os_makedirs drv p =
     seqP (os_call drv)
       (bindP (gets (\<lambda>d. list_ex (is_file d) (parents p @ [p]))) (\<lambda>stuck.
          if stuck then raise (OtherError ''FileExistsError'')
          else modify (\<lambda>d. foldl (\<lambda>d q. make_dir q d) d (parents p @ [p]))))"

text \<open>
  \<open>os.remove\<close> and \<open>os.replace\<close> do not follow a link: they delete, move or overwrite the
  link itself. What is moved over a link takes its place.
\<close>

definition link_at :: "disk \<Rightarrow> path \<Rightarrow> path option" where
  "link_at d p = (if p = [] then None else links_of d p)"

definition drop_entry :: "path \<Rightarrow> disk \<Rightarrow> disk" where
  "drop_entry p d = d\<lparr>dk_nodes := AList.delete p (dk_nodes d), dk_links := AList.delete p (dk_links d)\<rparr>"

definition put_link :: "path \<Rightarrow> path \<Rightarrow> disk \<Rightarrow> disk" where
  "put_link p t d = d\<lparr>dk_links := AList.update p t (dk_links d)\<rparr>"

definition os_remove :: "os_driver \<Rightarrow> path \<Rightarrow> (disk, unit) prog" where
  "os_remove drv p =
     seqP (os_call drv)
       (bindP (gets (\<lambda>d. (link_at d p, node_at d p))) (\<lambda>(link, found).
          if link \<noteq> None then modify (drop_entry p)
          else case found of
            None \<Rightarrow> raise (FileNotFoundError (path_str p))
          | Some Dir \<Rightarrow> raise (OtherError ''IsADirectoryError'')
          | Some (File _ _) \<Rightarrow> modify (drop_entry p)))"

text \<open>A directory takes all that is below it along; it can only replace an empty directory.\<close>

definition relocate :: "path \<Rightarrow> path \<Rightarrow> path \<Rightarrow> path" where
  "relocate src dst p = (if prefix src p then dst @ drop (length src) p else p)"

definition move_tree :: "path \<Rightarrow> path \<Rightarrow> disk \<Rightarrow> disk" where
  "move_tree src dst d =
     d\<lparr>dk_nodes := map (\<lambda>(p, n). (relocate src dst p, n)) (dk_nodes d),
       dk_links := map (\<lambda>(p, t). (relocate src dst p, t)) (dk_links d)\<rparr>"

definition below_any :: "disk \<Rightarrow> path \<Rightarrow> bool" where
  "below_any d p \<longleftrightarrow> list_ex (strict_prefix p) (map fst (dk_nodes d) @ map fst (dk_links d))"

definition replace_dir :: "path \<Rightarrow> path \<Rightarrow> (disk, unit) prog" where
  "replace_dir src dst =
     bindP (gets (\<lambda>d. (link_at d dst, node_at d dst, below_any d dst))) (\<lambda>(link, there, full).
       if strict_prefix src dst then raise (OtherError ''OSError'')
       else if src = dst then ret ()
       else if link \<noteq> None \<or> (there \<noteq> None \<and> there \<noteq> Some Dir) then raise (OtherError ''NotADirectoryError'')
       else if full then raise (OtherError ''OSError'')
       else modify (\<lambda>d. move_tree src dst (drop_entry dst d)))"

definition os_replace :: "os_driver \<Rightarrow> path \<Rightarrow> path \<Rightarrow> (disk, unit) prog" where
  "os_replace drv src dst =
     seqP (os_call drv)
       (bindP (gets (\<lambda>d. (link_at d src, node_at d src, link_at d dst = None \<and> node_at d dst = Some Dir)))
       (\<lambda>(link, found, at_dir).
          if src = [] \<or> dst = [] then raise (OtherError ''OSError'')
          else case link of
            Some t \<Rightarrow>
              if at_dir then raise (OtherError ''IsADirectoryError'')
              else modify (\<lambda>d. put_link dst t (drop_entry dst (drop_entry src d)))
          | None \<Rightarrow> (case found of
              None \<Rightarrow> raise (FileNotFoundError (path_str src))
            | Some Dir \<Rightarrow> replace_dir src dst
            | Some (File bytes mode) \<Rightarrow>
                if at_dir then raise (OtherError ''IsADirectoryError'')
                else modify (\<lambda>d. put_node dst (File bytes mode) (drop_entry dst (drop_entry src d))))))"

text \<open>
  \<open>tempfile.mkstemp\<close> beside the file that is to be replaced: an empty file, with mode 0600,
  under a name that is not taken. The name is drawn at random; all that matters is that it is
  none of those in use, so it is one longer than all of them.
\<close>

definition longest_name :: "path \<Rightarrow> disk \<Rightarrow> nat" where
  "longest_name target d =
     foldr max (map (\<lambda>p. length (concat p)) (target # map fst (dk_nodes d) @ map fst (dk_links d))) 0"

definition temp_path :: "disk \<Rightarrow> path \<Rightarrow> path" where
  "temp_path d target = butlast target @ [replicate (Suc (longest_name target d)) (CHR ''a'') @ ''.tmp'']"

definition os_mkstemp :: "os_driver \<Rightarrow> path \<Rightarrow> (disk, path) prog" where
  "os_mkstemp drv target =
     seqP (os_call drv)
       (bindP (gets (\<lambda>d. temp_path d target)) (\<lambda>p.
          seqP (modify (put_node p (File [] 384))) (ret p)))"

definition os_listdir :: "disk \<Rightarrow> path \<Rightarrow> string list" where
  "os_listdir d p =
     map last (filter (\<lambda>q. q \<noteq> [] \<and> butlast q = p)
       (map fst (AList.clearjunk (dk_nodes d)) @ map fst (AList.clearjunk (dk_links d))))"

section \<open>Links that are resolved\<close>

definition plain_name :: "string \<Rightarrow> bool" where
  "plain_name n \<longleftrightarrow> n \<noteq> [] \<and> n \<noteq> ''.'' \<and> n \<noteq> ''..'' \<and> CHR ''/'' \<notin> set n"

text \<open>A canonical path: plain names, and no link on the way.\<close>

definition resolved :: "(path \<Rightarrow> path option) \<Rightarrow> path \<Rightarrow> bool" where
  "resolved links p \<longleftrightarrow> list_all plain_name p \<and> (\<forall>i. 0 < i \<longrightarrow> i \<le> length p \<longrightarrow> links (take i p) = None)"

definition well_linked :: "disk \<Rightarrow> bool" where
  "well_linked d \<longleftrightarrow> (\<forall>(q, t) \<in> set (dk_links d). resolved (links_of d) t) \<and> resolved (links_of d) (dk_cwd d)"

end
