(* ===== verification/PathFlow.thy ===== *)
theory PathFlow
  imports Disk
begin

text \<open>
  Lemmas on paths: the walk along a path resolves all links, what is resolved stays where it
  is, and the textual test for "below" is the prefix order on components.
\<close>

section \<open>Splitting and joining\<close>

lemma split_on_append: "split_on c (a @ [c] @ b) = split_on c a @ split_on c b"
proof (induction a)
  case (Cons x xs)
  then show ?case using split_on_nonempty [of c xs] by (auto split: list.split)
qed simp

lemma split_on_none: "c \<notin> set a \<Longrightarrow> split_on c a = [a]"
  by (induction a) auto

lemma split_on_parts: "s \<in> set (split_on c a) \<Longrightarrow> c \<notin> set s"
proof (induction a arbitrary: s)
  case (Cons x xs)
  then show ?case by (cases "split_on c xs") (auto split: if_splits)
qed simp

abbreviation pcat :: "path \<Rightarrow> string" where
  "pcat p \<equiv> concat (map (\<lambda>n. CHR ''/'' # n) p)"

lemma split_path:
  "list_all (\<lambda>n. CHR ''/'' \<notin> set n) p \<Longrightarrow>
   split_on (CHR ''/'') (pcat p @ [CHR ''/''] @ s) = [] # p @ split_on (CHR ''/'') s"
proof (induction p)
  case (Cons n p)
  have "split_on (CHR ''/'') (pcat (n # p) @ [CHR ''/''] @ s)
      = [] # split_on (CHR ''/'') (n @ pcat p @ [CHR ''/''] @ s)" by simp
  also have "\<dots> = [] # n # p @ split_on (CHR ''/'') s"
  proof (cases "pcat p @ [CHR ''/''] @ s")
    case (Cons c cs)
    have c: "c = CHR ''/''" using Cons by (cases p) auto
    have "split_on (CHR ''/'') (c # cs) = [] # p @ split_on (CHR ''/'') s" using Cons.IH Cons.prems Cons by simp
    with c have "split_on (CHR ''/'') cs = p @ split_on (CHR ''/'') s" by simp
    with split_on_append [of "CHR ''/''" n cs] c Cons.prems show ?thesis
      unfolding Cons by (simp add: split_on_none)
  qed simp
  finally show ?case by simp
qed simp

section \<open>The walk\<close>

lemma resolved_plain: "resolved links p \<Longrightarrow> list_all plain_name p"
  by (simp add: resolved_def)

lemma plain_no_slash: "list_all plain_name p \<Longrightarrow> list_all (\<lambda>n. CHR ''/'' \<notin> set n) p"
  by (auto simp: list_all_iff plain_name_def)

lemma resolved_Nil [simp]: "resolved links []"
  by (simp add: resolved_def)

lemma resolved_prefix: "resolved links (p @ q) \<Longrightarrow> resolved links p"
  unfolding resolved_def by (auto simp: take_append) (metis add.commute diff_is_0_eq' le_trans le_add2 length_append take_append take0 append_Nil2 le_add1)

lemma resolved_butlast: "resolved links p \<Longrightarrow> resolved links (butlast p)"
  by (cases p rule: rev_cases) (auto dest: resolved_prefix)

lemma resolved_snoc:
  "resolved links (p @ [n]) \<longleftrightarrow> resolved links p \<and> plain_name n \<and> links (p @ [n]) = None"
proof
  assume "resolved links (p @ [n])"
  then show "resolved links p \<and> plain_name n \<and> links (p @ [n]) = None"
    using resolved_prefix [of links p "[n]"] unfolding resolved_def
    by (auto dest!: spec [of _ "Suc (length p)"])
next
  assume "resolved links p \<and> plain_name n \<and> links (p @ [n]) = None"
  then show "resolved links (p @ [n])"
    unfolding resolved_def by (auto simp: take_append le_Suc_eq)
qed

lemma walk_resolved:
  assumes "resolved links at" and "list_all (\<lambda>n. CHR ''/'' \<notin> set n) ns"
    and "\<forall>q t. links q = Some t \<longrightarrow> resolved links t"
  shows "resolved links (walk links at ns)"
  using assms
proof (induction links at ns rule: walk.induct)
  case (2 links at n ns)
  then show ?case
    by (auto simp: resolved_butlast resolved_snoc plain_name_def split: option.split)
qed simp

lemma walk_id: "resolved links (at @ ns) \<Longrightarrow> walk links at ns = at @ ns"
proof (induction ns arbitrary: at)
  case (Cons n ns)
  have "resolved links ((at @ [n]) @ ns)" using Cons.prems by simp
  moreover from this have "plain_name n \<and> links (at @ [n]) = None"
    using resolved_prefix resolved_snoc by blast
  ultimately show ?case using Cons.IH [of "at @ [n]"] by (auto simp: plain_name_def)
qed simp

lemma walk_append: "walk links at (ms @ ns) = walk links (walk links at ms) ns"
  by (induction links at ms rule: walk.induct) (auto split: option.split)

lemma follow_resolved: "resolved (links_of d) p \<Longrightarrow> follow d p = p"
  using walk_id [of "links_of d" "[]" p] by (simp add: follow_def)

lemma well_linkedD:
  assumes "well_linked d"
  shows "links_of d q = Some t \<Longrightarrow> resolved (links_of d) t" and "resolved (links_of d) (dk_cwd d)"
  using assms by (auto simp: well_linked_def links_of_def dest: map_of_SomeD)

lemma realpath_resolved: "well_linked d \<Longrightarrow> resolved (links_of d) (realpath d s)"
  unfolding realpath_def
  by (rule walk_resolved) (auto simp: list_all_iff dest: well_linkedD split_on_parts)

text \<open>The path of a name below a resolved directory is walked from that directory.\<close>

lemma path_str_abs [simp]: "is_abs (path_str p)"
  by (cases p) (simp_all add: is_abs_def path_str_def starts_with_def)

lemma realpath_path_str:
  assumes "resolved (links_of d) p"
  shows "realpath d (path_str p) = p"
proof (cases p)
  case Nil
  then show ?thesis by (simp add: realpath_def path_str_def is_abs_def starts_with_def)
next
  case (Cons n ns)
  have "split_on (CHR ''/'') (pcat p) = [] # p"
  proof -
    have plain: "list_all (\<lambda>n. CHR ''/'' \<notin> set n) p"
      using assms by (simp add: resolved_plain plain_no_slash)
    obtain q x where p: "p = q @ [x]" using Cons by (metis list.distinct(1) rev_exhaust)
    then have "split_on (CHR ''/'') (pcat p) = [] # q @ split_on (CHR ''/'') x"
      using split_path [of q x] plain by simp
    with plain p show ?thesis by (simp add: split_on_none)
  qed
  then show ?thesis
    using assms Cons walk_id [of "links_of d" "[]" p]
    by (simp add: realpath_def path_str_def is_abs_def starts_with_def)
qed

lemma realpath_join:
  assumes "resolved (links_of d) p" and "\<not> is_abs s"
  shows "realpath d (path_join (path_str p) s) = walk (links_of d) p (split_on (CHR ''/'') s)"
proof (cases p)
  case Nil
  have "path_join (path_str p) s = CHR ''/'' # s"
    using assms(2) Nil by (simp add: path_join_def path_str_def ends_with_def starts_with_def)
  then show ?thesis using Nil by (simp add: realpath_def is_abs_def starts_with_def)
next
  case (Cons n ns)
  have plain: "list_all plain_name p" using assms(1) by (rule resolved_plain)
  have "last p \<noteq> [] \<and> CHR ''/'' \<notin> set (last p)"
    using plain Cons by (auto simp: list_all_iff plain_name_def)
  moreover have "pcat p = pcat (butlast p) @ CHR ''/'' # last p"
    using Cons append_butlast_last_id [of p] by (metis (no_types, lifting) list.distinct(1) concat.simps concat_append list.simps(8) list.simps(9) map_append append.right_neutral)
  ultimately have "\<not> ends_with [CHR ''/''] (pcat p)"
    by (auto simp: ends_with_iff) (metis last_in_set last_append last_snoc list.distinct(1) last_ConsR)
  then have "path_join (path_str p) s = pcat p @ [CHR ''/''] @ s"
    using assms(2) Cons by (simp add: path_join_def path_str_def)
  moreover have "is_abs (pcat p @ [CHR ''/''] @ s)" using Cons by (simp add: is_abs_def starts_with_def)
  ultimately show ?thesis
    using split_path [OF plain_no_slash [OF plain], of s] walk_id [of "links_of d" "[]" p] assms(1)
    by (simp add: realpath_def walk_append)
qed

section \<open>Below\<close>

lemma pcat_below:
  assumes "list_all plain_name r" and "list_all plain_name c" and "pcat c = pcat r @ [CHR ''/''] @ t"
  shows "strict_prefix r c"
  using assms
proof (induction r arbitrary: c)
  case Nil
  then show ?case by (cases c) auto
next
  case (Cons a r)
  then obtain b c' where c: "c = b # c'" by (cases c) auto
  have "b @ pcat c' = a @ pcat r @ [CHR ''/''] @ t" using Cons.prems(3) c by simp
  then have "takeWhile (\<lambda>x. x \<noteq> CHR ''/'') (b @ pcat c') =
      takeWhile (\<lambda>x. x \<noteq> CHR ''/'') (a @ pcat r @ [CHR ''/''] @ t)" by simp
  moreover have "takeWhile (\<lambda>x. x \<noteq> CHR ''/'') (b @ pcat c') = b"
    using Cons.prems(2) c by (cases c') (auto simp: plain_name_def takeWhile_append intro: takeWhile_eq_all_conv [THEN iffD2])
  moreover have "takeWhile (\<lambda>x. x \<noteq> CHR ''/'') (a @ pcat r @ [CHR ''/''] @ t) = a"
    using Cons.prems(1) by (cases r) (auto simp: plain_name_def takeWhile_append)
  ultimately have "b = a" by simp
  with Cons c show ?case by simp
qed

lemma starts_below:
  assumes "list_all plain_name r" and "list_all plain_name c"
    and "starts_with (path_str r @ [CHR ''/'']) (path_str c)"
  shows "strict_prefix r c"
proof (cases "r = []")
  case True
  with assms show ?thesis
    by (cases c) (auto simp: starts_with_iff path_str_def plain_name_def)
next
  case False
  from assms(3) obtain t where t: "path_str c = path_str r @ [CHR ''/''] @ t"
    by (auto simp: starts_with_iff)
  have "c \<noteq> []"
  proof
    assume "c = []"
    with t False show False by (cases r) (auto simp: path_str_def)
  qed
  with t False assms(1,2) show ?thesis by (intro pcat_below) (simp_all add: path_str_def)
qed

end
