(* ===== verification/Files.thy ===== *)
theory Files
  imports Disk
begin

text \<open>
  The managed file tree of \<open>vbwd/services/filesystem/\<close>: namespaces with their policies and the
  validation of names and paths (\<open>_common.py\<close>), the manager on disk (\<open>local.py\<close>), the one in
  memory (\<open>memory.py\<close>), the filespace of a plugin (\<open>ports.py\<close>) and the file storage on top
  (\<open>interfaces/file_storage.py\<close>).

  The text encoding, the JSON library and the cipher are a parameter, the \<open>codec\<close>; the cipher
  takes the number of the system call as its nonce.
\<close>

section \<open>Namespaces\<close>

datatype write_mode = ATOMIC_REPLACE | INPLACE_LOCKED | APPEND

record namespace_policy =
  np_write_mode :: write_mode
  np_dir_mode :: int
  np_file_mode :: int
  np_encrypt :: bool
  np_base_root :: string
  np_url_base :: "string option"

definition var_policy :: "write_mode \<Rightarrow> namespace_policy" where
  "var_policy wm = \<lparr>np_write_mode = wm, np_dir_mode = 493, np_file_mode = 420, np_encrypt = False,
     np_base_root = ''var'', np_url_base = None\<rparr>"

definition build_default_plugin_policy :: namespace_policy where
  "build_default_plugin_policy = var_policy ATOMIC_REPLACE"

definition build_default_namespaces :: "string option \<Rightarrow> (string \<times> namespace_policy) list" where
  "build_default_namespaces uploads_url_base =
     [(''core'', var_policy ATOMIC_REPLACE),
      (''plugins'', var_policy INPLACE_LOCKED),
      (''seo'', var_policy ATOMIC_REPLACE),
      (''secrets'', (var_policy ATOMIC_REPLACE)\<lparr>np_dir_mode := 448, np_file_mode := 384, np_encrypt := True\<rparr>),
      (''logs'', var_policy APPEND),
      (''tmp'', var_policy ATOMIC_REPLACE),
      (''uploads'', (var_policy ATOMIC_REPLACE)\<lparr>np_base_root := ''uploads'', np_url_base := uploads_url_base\<rparr>)]"

definition namespace_pattern :: "pattern_item list" where
  "namespace_pattern =
     [One is_alnum_char, Run (\<lambda>c. is_alnum_char c \<or> c = CHR ''_'' \<or> c = CHR ''-'') 0, Eol]"

definition validate_namespace_segment :: "string \<Rightarrow> exn + string" where
  "validate_namespace_segment namespace =
     (if match_items namespace_pattern namespace then Inr namespace
      else Inl (ValueError (''Unsafe filesystem namespace: '' @ quoted namespace @
        ''. A namespace must be a single path segment of [A-Za-z0-9_-] starting with an alphanumeric '' @
        ''(no separators, dots, or leading '' @ quoted ''-'' @ ''/'' @ quoted ''_'' @ '').'')))"

definition slashes :: "string \<Rightarrow> string" where
  "slashes = map (\<lambda>c. if c = CHR 0x5C then CHR ''/'' else c)"

definition validate_relative_path :: "string \<Rightarrow> string \<Rightarrow> exn + string" where
  "validate_relative_path namespace rel =
     (if CHR 0x00 \<in> set rel then
        Inl (ValueError (''Relative path for namespace '' @ quoted namespace @ '' contains a NUL byte''))
      else if is_abs rel then
        Inl (ValueError (''Relative path '' @ quoted rel @ '' for namespace '' @ quoted namespace @
          '' must not be absolute''))
      else if list_ex (\<lambda>segment. segment = ''..'') (split_on (CHR ''/'') (slashes rel)) then
        Inl (ValueError (''Relative path '' @ quoted rel @ '' for namespace '' @ quoted namespace @
          '' must not contain '' @ quoted ''..'' @ '' segments''))
      else Inr rel)"

text \<open>The policy of a namespace; any other safe name is the filespace of a plugin.\<close>

definition policy_of :: "(string \<times> namespace_policy) list \<Rightarrow> string \<Rightarrow> exn + namespace_policy" where
  "policy_of namespaces namespace =
     (case map_of namespaces namespace of
        Some reserved \<Rightarrow> Inr reserved
      | None \<Rightarrow> (case validate_namespace_segment namespace of
            Inl e \<Rightarrow> Inl e | Inr _ \<Rightarrow> Inr build_default_plugin_policy))"

text \<open>The filespace of a plugin is its id, bound as the namespace of every call.\<close>

definition claim_namespace :: "(string \<times> namespace_policy) list \<Rightarrow> string \<Rightarrow> exn + string" where
  "claim_namespace namespaces plugin_id =
     (case validate_namespace_segment plugin_id of
        Inl e \<Rightarrow> Inl e
      | Inr _ \<Rightarrow>
          if map_of namespaces plugin_id \<noteq> None
          then Inl (ValueError (''Plugin id '' @ quoted plugin_id @ '' collides with a reserved core '' @
            ''namespace and cannot be claimed as a plugin filespace''))
          else Inr plugin_id)"

definition strip_char :: "char \<Rightarrow> string \<Rightarrow> string" where
  "strip_char c s = rev (dropWhile (\<lambda>x. x = c) (rev (dropWhile (\<lambda>x. x = c) s)))"

definition public_url :: "namespace_policy \<Rightarrow> string \<Rightarrow> string \<Rightarrow> exn + string" where
  "public_url policy namespace rel =
     (case np_url_base policy of
        None \<Rightarrow> Inl (ValueError (''Namespace '' @ quoted namespace @ '' is not served over HTTP''))
      | Some base \<Rightarrow> Inr (rev (dropWhile (\<lambda>x. x = CHR ''/'') (rev base)) @ [CHR ''/''] @
          dropWhile (\<lambda>x. x = CHR ''/'') rel))"

section \<open>Contents\<close>

record codec =
  cd_encode :: "string \<Rightarrow> string"
  cd_decode :: "string \<Rightarrow> string option"
  cd_dumps :: "json \<Rightarrow> string"
  cd_loads :: "string \<Rightarrow> json option"
  cd_encrypt :: "nat \<Rightarrow> string \<Rightarrow> string"
  cd_decrypt :: "string \<Rightarrow> string option"

text \<open>\<open>bytes.decode("utf-8")\<close>; the error is a \<open>ValueError\<close>, but not one that JSON parsing raises.\<close>

definition decode_bytes :: "codec \<Rightarrow> string \<Rightarrow> exn + string" where
  "decode_bytes cd raw = (case cd_decode cd raw of
      None \<Rightarrow> Inl (ValueError ''UnicodeDecodeError'') | Some t \<Rightarrow> Inr t)"

definition encrypt_bytes :: "codec \<Rightarrow> nat \<Rightarrow> string \<Rightarrow> exn + string" where
  "encrypt_bytes cd nonce data = (case decode_bytes cd data of
      Inl e \<Rightarrow> Inl e | Inr t \<Rightarrow> Inr (cd_encrypt cd nonce t))"

definition decrypt_bytes :: "codec \<Rightarrow> string \<Rightarrow> exn + string" where
  "decrypt_bytes cd raw =
     (if list_all (\<lambda>c. code c < 128) raw then
        (case cd_decrypt cd raw of None \<Rightarrow> Inl (OtherError ''InvalidToken'') | Some t \<Rightarrow> Inr (cd_encode cd t))
      else Inl (ValueError ''UnicodeDecodeError''))"

definition lift_sum :: "exn + 'a \<Rightarrow> ('s, 'a) prog" where
  "lift_sum r = (case r of Inl e \<Rightarrow> raise e | Inr x \<Rightarrow> ret x)"

definition then_decode :: "codec \<Rightarrow> ('s, string) prog \<Rightarrow> ('s, string) prog" where
  "then_decode cd read = bindP read (\<lambda>raw. lift_sum (decode_bytes cd raw))"

text \<open>\<open>read_json\<close>, the same in both managers: a missing or malformed file is the default.\<close>

definition load_json :: "codec \<Rightarrow> json \<Rightarrow> ('s, string) prog \<Rightarrow> ('s, json) prog" where
  "load_json cd dflt read_text =
     try_except
       (bindP read_text (\<lambda>raw. ret (case cd_loads cd raw of None \<Rightarrow> dflt | Some v \<Rightarrow> v)))
       (\<lambda>e. case e of FileNotFoundError _ \<Rightarrow> ret dflt | _ \<Rightarrow> raise e)"

section \<open>The manager on disk\<close>

record fs_manager =
  fm_namespaces :: "(string \<times> namespace_policy) list"
  fm_var_root :: path
  fm_uploads_root :: path
  fm_roots :: "(string \<times> path) list"

definition new_fs_manager ::
  "(string \<Rightarrow> string option) \<Rightarrow> disk \<Rightarrow> (string \<times> namespace_policy) list \<Rightarrow> string option \<Rightarrow> string option
     \<Rightarrow> string option \<Rightarrow> (string \<times> string) list \<Rightarrow> fs_manager" where
  "new_fs_manager environ d namespaces var_root uploads_root uploads_url_base roots =
     (let env_or = (\<lambda>k v0. case environ k of None \<Rightarrow> v0 | Some v \<Rightarrow> v);
          url = str_or uploads_url_base (env_or ''UPLOADS_BASE_URL'' ''/uploads'')
      in \<lparr>fm_namespaces = (if namespaces = [] then build_default_namespaces (Some url) else namespaces),
          fm_var_root = realpath d (str_or var_root (env_or ''VBWD_VAR_DIR'' ''/app/var'')),
          fm_uploads_root = realpath d (str_or uploads_root (env_or ''UPLOADS_BASE_PATH'' ''/app/uploads'')),
          fm_roots = map (\<lambda>(namespace, root). (namespace, realpath d root)) roots\<rparr>)"

definition build_uploads_pinned_manager :: "(string \<Rightarrow> string option) \<Rightarrow> disk \<Rightarrow> fs_manager" where
  "build_uploads_pinned_manager environ d =
     new_fs_manager environ d [] None None None
       [(''uploads'', path_str (realpath d (case environ ''UPLOADS_BASE_PATH'' of
           None \<Rightarrow> ''/app/uploads'' | Some v \<Rightarrow> v)))]"

definition fs_policy :: "fs_manager \<Rightarrow> string \<Rightarrow> exn + namespace_policy" where
  "fs_policy m = policy_of (fm_namespaces m)"

definition fs_for_plugin :: "fs_manager \<Rightarrow> string \<Rightarrow> exn + string" where
  "fs_for_plugin m = claim_namespace (fm_namespaces m)"

definition namespace_root :: "fs_manager \<Rightarrow> namespace_policy \<Rightarrow> string \<Rightarrow> string" where
  "namespace_root m policy namespace =
     (case map_of (fm_roots m) namespace of
        Some root \<Rightarrow> path_str root
      | None \<Rightarrow> path_join
          (path_str (if np_base_root policy = ''var'' then fm_var_root m else fm_uploads_root m)) namespace)"

definition fs_resolve :: "fs_manager \<Rightarrow> string \<Rightarrow> string \<Rightarrow> disk \<Rightarrow> exn + path" where
  "fs_resolve m namespace rel d =
     (case fs_policy m namespace of
        Inl e \<Rightarrow> Inl e
      | Inr policy \<Rightarrow>
          (case validate_relative_path namespace rel of
             Inl e \<Rightarrow> Inl e
           | Inr _ \<Rightarrow>
               (let root = namespace_root m policy namespace;
                    confined_root = realpath d root;
                    candidate = realpath d (path_join root rel)
                in if candidate \<noteq> confined_root \<and>
                      \<not> starts_with (path_str confined_root @ [CHR ''/'']) (path_str candidate)
                   then Inl (ValueError (''Resolved path for namespace '' @ quoted namespace @
                     '' escapes its root: '' @ quoted rel))
                   else Inr candidate)))"

text \<open>What most operations start with: the policy and the confined path.\<close>

definition fs_target :: "fs_manager \<Rightarrow> string \<Rightarrow> string \<Rightarrow> (disk, namespace_policy \<times> path) prog" where
  "fs_target m namespace rel =
     bindP (lift_sum (fs_policy m namespace)) (\<lambda>policy.
     bindP (gets (fs_resolve m namespace rel)) (\<lambda>resolved.
     bindP (lift_sum resolved) (\<lambda>target. ret (policy, target))))"

definition fs_read_bytes :: "codec \<Rightarrow> os_driver \<Rightarrow> fs_manager \<Rightarrow> string \<Rightarrow> string \<Rightarrow> (disk, string) prog" where
  "fs_read_bytes cd drv m namespace rel =
     bindP (fs_target m namespace rel) (\<lambda>(policy, target).
     bindP (os_read drv target) (\<lambda>raw.
       if np_encrypt policy then lift_sum (decrypt_bytes cd raw) else ret raw))"

definition fs_read_text :: "codec \<Rightarrow> os_driver \<Rightarrow> fs_manager \<Rightarrow> string \<Rightarrow> string \<Rightarrow> (disk, string) prog" where
  "fs_read_text cd drv m namespace rel = then_decode cd (fs_read_bytes cd drv m namespace rel)"

definition fs_read_json ::
  "codec \<Rightarrow> os_driver \<Rightarrow> fs_manager \<Rightarrow> string \<Rightarrow> string \<Rightarrow> json \<Rightarrow> (disk, json) prog" where
  "fs_read_json cd drv m namespace rel dflt = load_json cd dflt (fs_read_text cd drv m namespace rel)"

definition ensure_parent :: "os_driver \<Rightarrow> path \<Rightarrow> (disk, unit) prog" where
  "ensure_parent drv target = os_makedirs drv (butlast target)"

definition write_atomic :: "os_driver \<Rightarrow> path \<Rightarrow> string \<Rightarrow> namespace_policy \<Rightarrow> (disk, unit) prog" where
  "write_atomic drv target payload policy =
     bindP (os_mkstemp drv target) (\<lambda>temp.
       seqP
         (try_except
           (seqP (os_write drv temp (\<lambda>_. payload)) (seqP (os_fsync drv) (os_replace drv temp target)))
           (\<lambda>e. seqP
              (bindP (gets (\<lambda>d. os_exists d temp)) (\<lambda>there. whenP there (os_remove drv temp)))
              (raise e)))
         (os_chmod drv target (np_file_mode policy)))"

definition write_inplace_locked :: "os_driver \<Rightarrow> path \<Rightarrow> string \<Rightarrow> namespace_policy \<Rightarrow> (disk, unit) prog" where
  "write_inplace_locked drv target payload policy =
     seqP (os_open drv target (np_file_mode policy))
     (seqP (os_write drv target (\<lambda>_. []))
     (seqP (os_write drv target (\<lambda>_. payload))
     (seqP (os_fsync drv)
     (os_chmod drv target (np_file_mode policy)))))"

definition append_bytes :: "os_driver \<Rightarrow> path \<Rightarrow> string \<Rightarrow> namespace_policy \<Rightarrow> (disk, unit) prog" where
  "append_bytes drv target payload policy =
     seqP (os_open drv target (np_file_mode policy)) (os_write drv target (\<lambda>bytes. bytes @ payload))"

definition write_payload :: "os_driver \<Rightarrow> path \<Rightarrow> string \<Rightarrow> namespace_policy \<Rightarrow> (disk, unit) prog" where
  "write_payload drv target payload policy =
     (case np_write_mode policy of
        ATOMIC_REPLACE \<Rightarrow> write_atomic drv target payload policy
      | INPLACE_LOCKED \<Rightarrow> write_inplace_locked drv target payload policy
      | APPEND \<Rightarrow> append_bytes drv target payload policy)"

definition fs_write_bytes ::
  "codec \<Rightarrow> os_driver \<Rightarrow> fs_manager \<Rightarrow> string \<Rightarrow> string \<Rightarrow> string \<Rightarrow> (disk, string) prog" where
  "fs_write_bytes cd drv m namespace rel data =
     bindP (fs_target m namespace rel) (\<lambda>(policy, target).
     seqP (ensure_parent drv target)
     (bindP (gets dk_calls) (\<lambda>nonce.
     bindP (lift_sum (if np_encrypt policy then encrypt_bytes cd nonce data else Inr data)) (\<lambda>payload.
     seqP (write_payload drv target payload policy) (ret rel)))))"

definition fs_write_text ::
  "codec \<Rightarrow> os_driver \<Rightarrow> fs_manager \<Rightarrow> string \<Rightarrow> string \<Rightarrow> string \<Rightarrow> (disk, string) prog" where
  "fs_write_text cd drv m namespace rel txt = fs_write_bytes cd drv m namespace rel (cd_encode cd txt)"

definition fs_write_json ::
  "codec \<Rightarrow> os_driver \<Rightarrow> fs_manager \<Rightarrow> string \<Rightarrow> string \<Rightarrow> json \<Rightarrow> (disk, string) prog" where
  "fs_write_json cd drv m namespace rel v = fs_write_text cd drv m namespace rel (cd_dumps cd v)"

definition fs_append_text ::
  "codec \<Rightarrow> os_driver \<Rightarrow> fs_manager \<Rightarrow> string \<Rightarrow> string \<Rightarrow> string \<Rightarrow> (disk, unit) prog" where
  "fs_append_text cd drv m namespace rel txt =
     bindP (fs_target m namespace rel) (\<lambda>(policy, target).
     seqP (ensure_parent drv target) (append_bytes drv target (cd_encode cd txt) policy))"

section \<open>Rotation\<close>

definition file_size :: "disk \<Rightarrow> path \<Rightarrow> nat option" where
  "file_size d p = (case node_at d (follow d p) of Some (File bytes _) \<Rightarrow> Some (length bytes) | _ \<Rightarrow> None)"

text \<open>\<open>_exceeds\<close>; what is not a file has no size here.\<close>

definition exceeds :: "disk \<Rightarrow> path \<Rightarrow> int \<Rightarrow> nat \<Rightarrow> bool" where
  "exceeds d target max_bytes incoming =
     (if max_bytes \<le> 0 then False
      else (case file_size d target of
          None \<Rightarrow> False
        | Some current \<Rightarrow> 0 < current \<and> max_bytes < int current + int incoming))"

definition segment :: "path \<Rightarrow> nat \<Rightarrow> path" where
  "segment target i = with_suffix target (''.'' @ str_nat i)"

definition remove_if_exists :: "os_driver \<Rightarrow> path \<Rightarrow> (disk, unit) prog" where
  "remove_if_exists drv p = bindP (gets (\<lambda>d. os_exists d p)) (\<lambda>there. whenP there (os_remove drv p))"

definition replace_if_exists :: "os_driver \<Rightarrow> path \<Rightarrow> path \<Rightarrow> (disk, unit) prog" where
  "replace_if_exists drv src dst =
     bindP (gets (\<lambda>d. os_exists d src)) (\<lambda>there. whenP there (os_replace drv src dst))"

definition rotate_files :: "os_driver \<Rightarrow> path \<Rightarrow> int \<Rightarrow> (disk, unit) prog" where
  "rotate_files drv target backups =
     (if backups \<le> 0 then remove_if_exists drv target
      else
        (let n = nat backups in
         seqP (remove_if_exists drv (segment target n))
         (seqP (for_each (\<lambda>i. replace_if_exists drv (segment target i) (segment target (Suc i))) (rev [1..<n]))
         (replace_if_exists drv target (segment target 1)))))"

definition fs_append_with_rotation ::
  "codec \<Rightarrow> os_driver \<Rightarrow> fs_manager \<Rightarrow> string \<Rightarrow> string \<Rightarrow> string \<Rightarrow> int \<Rightarrow> int \<Rightarrow> (disk, unit) prog" where
  "fs_append_with_rotation cd drv m namespace rel txt max_bytes backups =
     bindP (fs_target m namespace rel) (\<lambda>(policy, target).
     seqP (ensure_parent drv target)
     (seqP (os_open drv (with_suffix target ''.lock'') (np_file_mode policy))
     (bindP (gets (\<lambda>d. exceeds d target max_bytes (length (cd_encode cd txt)))) (\<lambda>full.
     seqP (whenP full (rotate_files drv target backups))
     (append_bytes drv target (cd_encode cd txt) policy)))))"

section \<open>The other operations\<close>

definition fs_delete :: "os_driver \<Rightarrow> fs_manager \<Rightarrow> string \<Rightarrow> string \<Rightarrow> (disk, unit) prog" where
  "fs_delete drv m namespace rel =
     bindP (fs_target m namespace rel) (\<lambda>(_, target). remove_if_exists drv target)"

definition fs_exists :: "fs_manager \<Rightarrow> string \<Rightarrow> string \<Rightarrow> (disk, bool) prog" where
  "fs_exists m namespace rel =
     bindP (fs_target m namespace rel) (\<lambda>(_, target). gets (\<lambda>d. os_exists d target))"

definition fs_listdir :: "fs_manager \<Rightarrow> string \<Rightarrow> string \<Rightarrow> (disk, string list) prog" where
  "fs_listdir m namespace rel =
     bindP (fs_target m namespace rel) (\<lambda>(_, target).
       gets (\<lambda>d. if node_at d (follow d target) \<noteq> Some Dir then [] else os_listdir d target))"

definition fs_url_for :: "fs_manager \<Rightarrow> string \<Rightarrow> string \<Rightarrow> exn + string" where
  "fs_url_for m namespace rel =
     (case fs_policy m namespace of
        Inl e \<Rightarrow> Inl e
      | Inr policy \<Rightarrow>
          (case validate_relative_path namespace rel of
             Inl e \<Rightarrow> Inl e
           | Inr _ \<Rightarrow> public_url policy namespace rel))"

section \<open>The manager in memory\<close>

record memory_manager =
  mm_namespaces :: "(string \<times> namespace_policy) list"
  mm_store :: "((string \<times> string) \<times> string) list"

definition new_memory_manager :: "(string \<times> namespace_policy) list \<Rightarrow> string \<Rightarrow> memory_manager" where
  "new_memory_manager namespaces url =
     \<lparr>mm_namespaces = (if namespaces = [] then build_default_namespaces (Some url) else namespaces),
      mm_store = []\<rparr>"

definition mem_policy :: "memory_manager \<Rightarrow> string \<Rightarrow> exn + namespace_policy" where
  "mem_policy m = policy_of (mm_namespaces m)"

definition mem_for_plugin :: "memory_manager \<Rightarrow> string \<Rightarrow> exn + string" where
  "mem_for_plugin m = claim_namespace (mm_namespaces m)"

definition normalised :: "string \<Rightarrow> string" where
  "normalised rel = strip_char (CHR ''/'') (slashes rel)"

definition mem_check :: "string \<Rightarrow> string \<Rightarrow> (memory_manager, unit) prog" where
  "mem_check namespace rel =
     bindP (gets (\<lambda>m. mem_policy m namespace)) (\<lambda>policy.
     bindP (lift_sum policy) (\<lambda>_.
     bindP (lift_sum (validate_relative_path namespace rel)) (\<lambda>_. ret ())))"

definition mem_key :: "string \<Rightarrow> string \<Rightarrow> (memory_manager, string \<times> string) prog" where
  "mem_key namespace rel = seqP (mem_check namespace rel) (ret (namespace, normalised rel))"

definition mem_resolve :: "string \<Rightarrow> string \<Rightarrow> (memory_manager, string) prog" where
  "mem_resolve namespace rel =
     seqP (mem_check namespace rel)
       (ret (''memory://'' @ namespace @ ''/'' @ dropWhile (\<lambda>c. c = CHR ''/'') rel))"

definition store_get :: "string \<times> string \<Rightarrow> memory_manager \<Rightarrow> string option" where
  "store_get key m = map_of (mm_store m) key"

definition store_put :: "string \<times> string \<Rightarrow> string \<Rightarrow> memory_manager \<Rightarrow> memory_manager" where
  "store_put key bytes m = m\<lparr>mm_store := AList.update key bytes (mm_store m)\<rparr>"

definition store_pop :: "string \<times> string \<Rightarrow> memory_manager \<Rightarrow> memory_manager" where
  "store_pop key m = m\<lparr>mm_store := AList.delete key (mm_store m)\<rparr>"

definition mem_read_bytes :: "string \<Rightarrow> string \<Rightarrow> (memory_manager, string) prog" where
  "mem_read_bytes namespace rel =
     bindP (mem_key namespace rel) (\<lambda>key.
     bindP (gets (store_get key)) (\<lambda>found. case found of
         None \<Rightarrow> raise (FileNotFoundError (namespace @ ''/'' @ rel))
       | Some bytes \<Rightarrow> ret bytes))"

definition mem_read_text :: "codec \<Rightarrow> string \<Rightarrow> string \<Rightarrow> (memory_manager, string) prog" where
  "mem_read_text cd namespace rel = then_decode cd (mem_read_bytes namespace rel)"

definition mem_read_json :: "codec \<Rightarrow> string \<Rightarrow> string \<Rightarrow> json \<Rightarrow> (memory_manager, json) prog" where
  "mem_read_json cd namespace rel dflt = load_json cd dflt (mem_read_text cd namespace rel)"

definition mem_write_bytes :: "string \<Rightarrow> string \<Rightarrow> string \<Rightarrow> (memory_manager, string) prog" where
  "mem_write_bytes namespace rel data =
     bindP (mem_key namespace rel) (\<lambda>key. seqP (modify (store_put key data)) (ret rel))"

definition mem_write_text :: "codec \<Rightarrow> string \<Rightarrow> string \<Rightarrow> string \<Rightarrow> (memory_manager, string) prog" where
  "mem_write_text cd namespace rel txt = mem_write_bytes namespace rel (cd_encode cd txt)"

definition mem_write_json :: "codec \<Rightarrow> string \<Rightarrow> string \<Rightarrow> json \<Rightarrow> (memory_manager, string) prog" where
  "mem_write_json cd namespace rel v = mem_write_text cd namespace rel (cd_dumps cd v)"

definition stored :: "string \<times> string \<Rightarrow> memory_manager \<Rightarrow> string" where
  "stored key m = (case store_get key m of None \<Rightarrow> [] | Some bytes \<Rightarrow> bytes)"

definition mem_append_text :: "codec \<Rightarrow> string \<Rightarrow> string \<Rightarrow> string \<Rightarrow> (memory_manager, unit) prog" where
  "mem_append_text cd namespace rel txt =
     bindP (mem_key namespace rel) (\<lambda>key.
       modify (\<lambda>m. store_put key (stored key m @ cd_encode cd txt) m))"

definition pop_to :: "string \<times> string \<Rightarrow> string \<times> string \<Rightarrow> memory_manager \<Rightarrow> memory_manager" where
  "pop_to src dst m = (case store_get src m of
      None \<Rightarrow> m | Some bytes \<Rightarrow> store_put dst bytes (store_pop src m))"

definition mem_segment :: "string \<times> string \<Rightarrow> nat \<Rightarrow> string \<times> string" where
  "mem_segment key i = (fst key, snd key @ ''.'' @ str_nat i)"

definition mem_rotate :: "string \<times> string \<Rightarrow> int \<Rightarrow> memory_manager \<Rightarrow> memory_manager" where
  "mem_rotate key backups m =
     (if backups \<le> 0 then store_pop key m
      else
        (let n = nat backups;
             m1 = store_pop (mem_segment key n) m;
             m2 = foldl (\<lambda>m i. pop_to (mem_segment key i) (mem_segment key (Suc i)) m) m1 (rev [1..<n])
         in pop_to key (mem_segment key 1) m2))"

definition mem_append_with_rotation ::
  "codec \<Rightarrow> string \<Rightarrow> string \<Rightarrow> string \<Rightarrow> int \<Rightarrow> int \<Rightarrow> (memory_manager, unit) prog" where
  "mem_append_with_rotation cd namespace rel txt max_bytes backups =
     bindP (mem_key namespace rel) (\<lambda>key.
       modify (\<lambda>m.
         let payload = cd_encode cd txt; old = stored key m in
         if 0 < max_bytes \<and> old \<noteq> [] \<and> max_bytes < int (length old) + int (length payload)
         then store_put key payload (mem_rotate key backups m)
         else store_put key (old @ payload) m))"

definition mem_delete :: "string \<Rightarrow> string \<Rightarrow> (memory_manager, unit) prog" where
  "mem_delete namespace rel = bindP (mem_key namespace rel) (\<lambda>key. modify (store_pop key))"

definition mem_exists :: "string \<Rightarrow> string \<Rightarrow> (memory_manager, bool) prog" where
  "mem_exists namespace rel =
     bindP (mem_key namespace rel) (\<lambda>key. gets (\<lambda>m. store_get key m \<noteq> None))"

text \<open>The first segments of what is stored under the prefix, each once.\<close>

definition mem_entries :: "string \<Rightarrow> string \<Rightarrow> memory_manager \<Rightarrow> string list" where
  "mem_entries namespace pre m =
     remdups (map (takeWhile (\<lambda>c. c \<noteq> CHR ''/''))
       (filter (\<lambda>r. r \<noteq> [])
         (map (\<lambda>k. drop (length pre) (snd k))
           (filter (\<lambda>k. fst k = namespace \<and> starts_with pre (snd k)) (map fst (mm_store m))))))"

definition mem_listdir :: "string \<Rightarrow> string \<Rightarrow> (memory_manager, string list) prog" where
  "mem_listdir namespace rel =
     seqP (mem_check namespace rel)
       (let dir = normalised rel in
        gets (mem_entries namespace (if dir = [] then [] else dir @ [CHR ''/''])))"

definition mem_url_for :: "string \<Rightarrow> string \<Rightarrow> (memory_manager, string) prog" where
  "mem_url_for namespace rel =
     bindP (gets (\<lambda>m. mem_policy m namespace)) (\<lambda>policy.
     bindP (lift_sum policy) (\<lambda>p.
     seqP (mem_check namespace rel) (lift_sum (public_url p namespace rel))))"

section \<open>The file storage on the uploads namespace\<close>

definition storage_save ::
  "codec \<Rightarrow> os_driver \<Rightarrow> fs_manager \<Rightarrow> string \<Rightarrow> string \<Rightarrow> (disk, string) prog" where
  "storage_save cd drv m data rel = fs_write_bytes cd drv m ''uploads'' rel data"

definition storage_delete :: "os_driver \<Rightarrow> fs_manager \<Rightarrow> string \<Rightarrow> (disk, unit) prog" where
  "storage_delete drv m rel = fs_delete drv m ''uploads'' rel"

definition storage_get_url :: "fs_manager \<Rightarrow> string \<Rightarrow> exn + string" where
  "storage_get_url m rel = fs_url_for m ''uploads'' rel"

definition storage_exists :: "fs_manager \<Rightarrow> string \<Rightarrow> (disk, bool) prog" where
  "storage_exists m rel = fs_exists m ''uploads'' rel"

definition storage_read :: "codec \<Rightarrow> os_driver \<Rightarrow> fs_manager \<Rightarrow> string \<Rightarrow> (disk, string) prog" where
  "storage_read cd drv m rel = fs_read_bytes cd drv m ''uploads'' rel"

end
