(* ===== verification/FileFlow.thy ===== *)
theory FileFlow
  imports Files PathFlow "HOL-Library.Countable"
begin

text \<open>
  Properties of the file managers: confinement to the namespace whatever the links of the disk
  are, isolation of plugins, writes that are never torn, and what is read after a write, the
  contract \<open>text_files\<close> that both managers meet.
\<close>

section \<open>Effects of the system calls\<close>

lemma node_at_put [simp]:
  "node_at (put_node p n d) q = (if q = p \<and> p \<noteq> [] then Some n else node_at d q)"
  by (auto simp: node_at_def put_node_def update_conv')

lemma node_at_drop [simp]:
  "node_at (drop_entry p d) q = (if q = p \<and> p \<noteq> [] then None else node_at d q)"
  by (auto simp: node_at_def drop_entry_def delete_conv')

lemma node_at_calls [simp]: "node_at (d\<lparr>dk_calls := n\<rparr>) q = node_at d q"
  by (simp add: node_at_def)

lemma blocked_calls [simp]: "is_file (d\<lparr>dk_calls := n\<rparr>) = is_file d" "blocked (d\<lparr>dk_calls := n\<rparr>) q = blocked d q"
  by (auto simp: blocked_def is_file_def list_ex_iff)

lemma disk_sel [simp]:
  "dk_links (put_node p n d) = dk_links d" "dk_cwd (put_node p n d) = dk_cwd d" "dk_calls (put_node p n d) = dk_calls d"
  "dk_cwd (drop_entry p d) = dk_cwd d" "dk_calls (drop_entry p d) = dk_calls d"
  "dk_cwd (move_tree p q d) = dk_cwd d" "dk_calls (move_tree p q d) = dk_calls d"
  by (simp_all add: put_node_def drop_entry_def move_tree_def)

lemma links_of_cong: "dk_links d' = dk_links d \<Longrightarrow> links_of d' = links_of d"
  by (simp add: links_of_def)

lemma follow_cong: "dk_links d' = dk_links d \<Longrightarrow> follow d' p = follow d p"
  by (simp add: follow_def links_of_def)

lemma realpath_cong: "dk_links d' = dk_links d \<Longrightarrow> dk_cwd d' = dk_cwd d \<Longrightarrow> realpath d' s = realpath d s"
  by (simp add: realpath_def links_of_def)

lemma node_at_Nil [simp]: "node_at d [] = Some Dir"
  by (simp add: node_at_def)

lemma node_at_make_dir [simp]:
  "node_at (make_dir q d) p = (if p = q \<and> node_at d p = None then Some Dir else node_at d p)"
  by (cases "p = []") (auto simp: make_dir_def)

lemma make_dirs_nodes:
  "node_at (foldl (\<lambda>d q. make_dir q d) d qs) p = (if node_at d p = None \<and> p \<in> set qs then Some Dir else node_at d p)"
  by (induction qs arbitrary: d) auto

lemma make_dirs_sel [simp]:
  "dk_links (foldl (\<lambda>d q. make_dir q d) d qs) = dk_links d"
  "dk_cwd (foldl (\<lambda>d q. make_dir q d) d qs) = dk_cwd d"
  "dk_calls (foldl (\<lambda>d q. make_dir q d) d qs) = dk_calls d"
  by (induction qs arbitrary: d) (auto simp: make_dir_def)

text \<open>What is moved or deleted is no link when the path is resolved; then the links stay.\<close>

lemma resolved_link: "resolved links p \<Longrightarrow> p \<noteq> [] \<Longrightarrow> links p = None"
  unfolding resolved_def by (auto dest!: spec [of _ "length p"])

lemma link_at_resolved: "resolved (links_of d) p \<Longrightarrow> link_at d p = None"
  by (auto simp: link_at_def resolved_link)

lemma drop_links: "links_of d p = None \<Longrightarrow> dk_links (drop_entry p d) = dk_links d"
  by (simp add: drop_entry_def links_of_def map_of_eq_None_iff)

lemma link_at_calls [simp]: "link_at (d\<lparr>dk_calls := n\<rparr>) p = link_at d p"
  by (simp add: link_at_def links_of_def)

definition no_links_below :: "disk \<Rightarrow> path \<Rightarrow> bool" where
  "no_links_below d p \<longleftrightarrow> list_all (\<lambda>(q, _). \<not> prefix p q) (dk_links d)"

lemma no_links_cong: "dk_links d' = dk_links d \<Longrightarrow> no_links_below d' p = no_links_below d p"
  by (simp add: no_links_below_def)

lemma move_links: "no_links_below d src \<Longrightarrow> dk_links (move_tree src dst d) = dk_links d"
  by (auto simp: move_tree_def no_links_below_def list_all_iff relocate_def intro!: map_idI split: prod.split)

lemma relocate_eq: "\<not> prefix src p \<Longrightarrow> \<not> prefix dst p \<Longrightarrow> relocate src dst q = p \<longleftrightarrow> q = p"
  by (auto simp: relocate_def)

lemma move_node:
  assumes "\<not> prefix src p" and "\<not> prefix dst p"
  shows "node_at (move_tree src dst d) p = node_at d p"
proof -
  have "map_of (map (\<lambda>(q, n). (relocate src dst q, n)) xs) p = map_of xs p" for xs :: "(path \<times> node) list"
  proof (induction xs)
    case (Cons x xs)
    obtain q n where x: "x = (q, n)" by fastforce
    show ?case
    proof (cases "q = p")
      case True
      with x relocate_eq [OF assms, of q] show ?thesis by simp
    next
      case False
      then have "relocate src dst q \<noteq> p" using relocate_eq [OF assms] by blast
      with x False Cons show ?thesis by simp
    qed
  qed simp
  then show ?thesis by (simp add: node_at_def move_tree_def)
qed

text \<open>What \<open>os.replace\<close> does to links and to what is elsewhere.\<close>

lemma replace_effect:
  assumes "os_replace drv src dst d = (r, d')" and "resolved (links_of d) src" and "resolved (links_of d) dst"
    and "no_links_below d src \<or> node_at d src \<noteq> Some Dir"
  shows "dk_links d' = dk_links d \<and> dk_cwd d' = dk_cwd d \<and>
    (\<forall>p. \<not> prefix src p \<longrightarrow> \<not> prefix dst p \<longrightarrow> node_at d' p = node_at d p)"
proof (cases "drv (dk_calls d) = None \<and> src \<noteq> [] \<and> dst \<noteq> []")
  case False
  have "d' = d\<lparr>dk_calls := Suc (dk_calls d)\<rparr>"
  proof (cases "drv (dk_calls d)")
    case None
    with False have "src = [] \<or> dst = []" by simp
    then show ?thesis
      using assms(1) None by (simp add: os_replace_def os_call_def seqP_Inr bindP_def)
  next
    case (Some e)
    with assms(1) show ?thesis by (simp add: os_replace_def os_call_def seqP_Inl)
  qed
  then show ?thesis by simp
next
  case True
  let ?d = "d\<lparr>dk_calls := Suc (dk_calls d)\<rparr>"
  from True have call: "os_call drv d = (Inr (), ?d)" by (simp add: os_call_def)
  have no: "link_at d src = None" "link_at d dst = None" "links_of ?d src = None" "links_of ?d dst = None"
    using assms(2,3) True by (simp_all add: link_at_resolved resolved_link links_of_def)
  have links: "dk_links (drop_entry src ?d) = dk_links d" "dk_links (drop_entry dst ?d) = dk_links d"
    using drop_links [OF no(3)] drop_links [OF no(4)] by simp_all
  then have "dk_links (drop_entry dst (drop_entry src ?d)) = dk_links d"
    using no(4) by (subst drop_links) (simp_all add: links_of_def)
  note links = links this
  show ?thesis
  proof (cases "node_at d src")
    case None
    with assms(1) True no show ?thesis by (auto simp: os_replace_def call seqP_def bindP_def)
  next
    case (Some n)
    show ?thesis
    proof (cases n)
      case (File bytes mode)
      with Some assms(1) True no links show ?thesis
        by (auto simp: os_replace_def call seqP_def bindP_def split: if_splits)
    next
      case Dir
      with Some assms(4) have "no_links_below (drop_entry dst ?d) src"
        using links(2) no_links_cong [of "drop_entry dst ?d" d] by simp
      from move_links [OF this, of dst] have "dk_links (move_tree src dst (drop_entry dst ?d)) = dk_links d"
        using links(2) by simp
      with Some Dir assms(1) True no show ?thesis
        by (auto simp: os_replace_def replace_dir_def call seqP_def bindP_def move_node split: if_splits)
    qed
  qed
qed

text \<open>\<open>os.remove\<close> on a path that is resolved.\<close>

lemma remove_effect:
  assumes "os_remove drv p d = (r, d')" and "resolved (links_of d) p"
  shows "dk_links d' = dk_links d \<and> dk_cwd d' = dk_cwd d \<and> (\<forall>q. q \<noteq> p \<longrightarrow> node_at d' q = node_at d q)"
proof (cases "drv (dk_calls d) = None")
  case False
  with assms(1) show ?thesis by (auto simp: os_remove_def os_call_def seqP_Inl)
next
  case True
  let ?d = "d\<lparr>dk_calls := Suc (dk_calls d)\<rparr>"
  from True have call: "os_call drv d = (Inr (), ?d)" by (simp add: os_call_def)
  have link: "link_at d p = None" using assms(2) by (rule link_at_resolved)
  have "dk_links (drop_entry p ?d) = dk_links d" if "p \<noteq> []"
    using drop_links [of ?d p] resolved_link [OF assms(2) that] by (simp add: links_of_def)
  with assms(1) link show ?thesis
    by (cases "p = []") (auto simp: os_remove_def call seqP_def bindP_def split: option.splits node.splits)
qed

lemma parents_prefix: "q \<in> set (parents p @ [p]) \<Longrightarrow> prefix q p"
  by (auto simp: parents_def take_is_prefix)

section \<open>What is near a namespace\<close>

text \<open>
  At or below the root, or at or below a sibling of the root with a dot in its name: what an
  operation on the root itself (an empty path) may use as its temporary, lock or rotated file.
  No namespace of a plugin has a dot in its name.
\<close>

definition near :: "path \<Rightarrow> path \<Rightarrow> bool" where
  "near root p \<longleftrightarrow> prefix root p \<or>
     (p \<noteq> [] \<and> butlast (take (length root) p) = butlast root \<and> CHR ''.'' \<in> set (last (take (length root) p)))"

lemma near_upward:
  assumes "near root p" and "prefix p q" and "length root \<le> length p"
  shows "near root q"
proof -
  from assms(2) obtain r where q: "q = p @ r" by (auto simp: prefix_def)
  with assms(3) have "take (length root) q = take (length root) p" by simp
  with assms(1) q show ?thesis by (auto simp: near_def intro: prefix_prefix)
qed

definition within :: "disk \<Rightarrow> path \<Rightarrow> disk \<Rightarrow> bool" where
  "within d0 root d \<longleftrightarrow> dk_links d = dk_links d0 \<and> dk_cwd d = dk_cwd d0 \<and>
     (\<forall>p. near root p \<or> node_at d p = node_at d0 p \<or>
        (node_at d0 p = None \<and> node_at d p = Some Dir \<and> strict_prefix p root))"

lemma within_refl: "within d root d"
  by (simp add: within_def)

lemma within_step:
  assumes "within d0 root d" and "dk_links d' = dk_links d" and "dk_cwd d' = dk_cwd d"
    and "\<And>p. \<not> near root p \<Longrightarrow> node_at d' p = node_at d p \<or>
        (node_at d p = None \<and> node_at d' p = Some Dir \<and> strict_prefix p root)"
  shows "within d0 root d'"
  using assms unfolding within_def by (metis option.distinct(1))

lemma near_below: "prefix root p \<Longrightarrow> near root p"
  by (simp add: near_def)

lemma near_beside:
  assumes "prefix root target" and "butlast p = butlast target" and "p \<noteq> []" and "CHR ''.'' \<in> set (last p)"
  shows "near root p"
proof (cases "target = root")
  case True
  show ?thesis
  proof (cases "root = []")
    case False
    have "length (butlast p) = length (butlast root)" using assms(2) True by simp
    then have "length p - 1 = length root - 1" by simp
    moreover have "0 < length p" "0 < length root" using assms(3) False by simp_all
    ultimately have "length p = length root" by arith
    with assms True show ?thesis by (simp add: near_def)
  qed (simp add: near_def)
next
  case False
  then obtain t where "target = root @ t" "t \<noteq> []" using assms(1) by (auto simp: prefix_def)
  then have "prefix root (butlast target)" by (simp add: butlast_append)
  then have "prefix root p" using assms(2) by (metis prefix_order.trans prefixeq_butlast)
  then show ?thesis by (rule near_below)
qed

lemma keeps_os_call:
  assumes "\<And>d n. P d \<Longrightarrow> P (d\<lparr>dk_calls := n\<rparr>)" and "keeps P m"
  shows "keeps P (seqP (os_call drv) m)"
  using assms by (auto simp: keeps_def seqP_def bindP_def os_call_def Let_def split: option.splits)

lemma within_calls: "within d0 root d \<Longrightarrow> within d0 root (d\<lparr>dk_calls := n\<rparr>)"
  by (simp add: within_def)

lemmas within_call = keeps_os_call [of "within d0 root" for d0 root, OF within_calls]

lemma within_put: "within d0 root d \<Longrightarrow> near root p \<Longrightarrow> within d0 root (put_node p n d)"
  by (rule within_step) auto

lemma within_links: "within d0 root d \<Longrightarrow> dk_links d = dk_links d0"
  by (simp add: within_def)

text \<open>A path that is resolved is worked on where it is.\<close>

lemma within_follow: "within d0 root d \<Longrightarrow> resolved (links_of d0) p \<Longrightarrow> follow d p = p"
  using follow_resolved [of d0 p] by (simp add: follow_cong [OF within_links])

lemma keeps_open:
  assumes "resolved (links_of d0) p" and "near root p"
  shows "keeps (within d0 root) (os_open drv p mode)"
  unfolding os_open_def
  by (intro within_call keepsI)
    (auto simp: within_follow [OF _ assms(1)] assms(2) within_put bindP_def split: node.splits option.splits)

lemma keeps_change:
  assumes "resolved (links_of d0) p" and "near root p"
  shows "keeps (within d0 root) (os_change drv p f g)"
  unfolding os_change_def
  by (intro within_call keepsI)
    (auto simp: within_follow [OF _ assms(1)] assms(2) within_put split: node.splits option.splits)

text \<open>A place that calls may work on: near the root, not above it, and free of links.\<close>

definition free_place :: "disk \<Rightarrow> path \<Rightarrow> path \<Rightarrow> bool" where
  "free_place d0 root p \<longleftrightarrow> resolved (links_of d0) p \<and> near root p \<and> length root \<le> length p"

lemma within_resolved: "within d0 root d \<Longrightarrow> resolved (links_of d0) p \<Longrightarrow> resolved (links_of d) p"
  using links_of_cong [OF within_links] by simp

lemma keeps_os_remove:
  assumes "free_place d0 root p"
  shows "keeps (within d0 root) (os_remove drv p)"
proof (rule keepsI)
  fix d assume w: "within d0 root d"
  obtain r d' where run: "os_remove drv p d = (r, d')" by fastforce
  have "resolved (links_of d) p" using assms within_resolved [OF w] by (simp add: free_place_def)
  from remove_effect [OF run this] assms have "within d0 root d'"
    by (intro within_step [OF w]) (auto simp: free_place_def)
  then show "within d0 root (snd (os_remove drv p d))" by (simp add: run)
qed

lemma within_replace:
  assumes "within d0 root d" and "free_place d0 root p" and "free_place d0 root q"
    and "no_links_below d0 p \<or> node_at d p \<noteq> Some Dir"
  shows "within d0 root (snd (os_replace drv p q d))"
proof -
  obtain r d' where run: "os_replace drv p q d = (r, d')" by fastforce
  have "resolved (links_of d) p" "resolved (links_of d) q"
    using assms(2,3) within_resolved [OF assms(1)] by (simp_all add: free_place_def)
  from replace_effect [OF run this] assms(4) no_links_cong [OF within_links [OF assms(1)]]
  have "dk_links d' = dk_links d \<and> dk_cwd d' = dk_cwd d \<and>
      (\<forall>r. \<not> prefix p r \<longrightarrow> \<not> prefix q r \<longrightarrow> node_at d' r = node_at d r)" by blast
  moreover have "\<not> prefix p r \<and> \<not> prefix q r" if "\<not> near root r" for r
    using that assms(2,3) near_upward unfolding free_place_def by blast
  ultimately have "within d0 root d'" by (intro within_step [OF assms(1)]) auto
  then show ?thesis by (simp add: run)
qed

lemma keeps_replace:
  "free_place d0 root p \<Longrightarrow> free_place d0 root q \<Longrightarrow> no_links_below d0 p \<Longrightarrow> keeps (within d0 root) (os_replace drv p q)"
  by (intro keepsI within_replace) auto

lemma keeps_fsync: "keeps (within d0 root) (os_fsync drv)"
  by (auto simp: os_fsync_def os_call_def keeps_def Let_def within_calls split: option.split)

lemma keeps_makedirs:
  assumes "prefix root target"
  shows "keeps (within d0 root) (os_makedirs drv (butlast target))"
proof -
  have "within d0 root (foldl (\<lambda>d q. make_dir q d) d (parents (butlast target) @ [butlast target]))"
    if "within d0 root d" for d
  proof (rule within_step [OF that])
    fix p assume far: "\<not> near root p"
    have "strict_prefix p root" if "p \<in> set (parents (butlast target) @ [butlast target])"
    proof -
      have "prefix p target" using parents_prefix [OF that] prefixeq_butlast prefix_order.trans by blast
      with assms far show ?thesis
        using prefix_same_cases [of root target p] by (auto simp: near_def strict_prefix_def)
    qed
    then show "node_at (foldl (\<lambda>d q. make_dir q d) d (parents (butlast target) @ [butlast target])) p = node_at d p \<or>
        node_at d p = None \<and> node_at (foldl (\<lambda>d q. make_dir q d) d (parents (butlast target) @ [butlast target])) p = Some Dir \<and>
        strict_prefix p root"
      unfolding make_dirs_nodes by simp
  qed (simp_all only: make_dirs_sel)
  then show ?thesis
    unfolding os_makedirs_def by (intro within_call keepsI) (auto simp: bindP_def)
qed

section \<open>The names derived from a path\<close>

lemma longest_name_bound:
  "p \<in> set (target # map fst (dk_nodes d) @ map fst (dk_links d)) \<Longrightarrow> length (concat p) \<le> longest_name target d"
proof -
  have "x \<in> set xs \<Longrightarrow> length (concat x) \<le> foldr max (map (\<lambda>p. length (concat p)) xs) 0"
    for x :: path and xs
    by (induction xs) auto
  then show "p \<in> set (target # map fst (dk_nodes d) @ map fst (dk_links d)) \<Longrightarrow> ?thesis"
    unfolding longest_name_def .
qed

lemma temp_fresh:
  "temp_path d target \<notin> set (target # map fst (dk_nodes d) @ map fst (dk_links d))"
proof
  assume "temp_path d target \<in> set (target # map fst (dk_nodes d) @ map fst (dk_links d))"
  then have "length (concat (temp_path d target)) \<le> longest_name target d" by (rule longest_name_bound)
  then show False by (simp add: temp_path_def)
qed

lemma temp_props:
  "temp_path d target \<noteq> target" "node_at d (temp_path d target) = None" "temp_path d target \<noteq> []"
  "butlast (temp_path d target) = butlast target" "CHR ''.'' \<in> set (last (temp_path d target))"
  using temp_fresh [of d target] by (auto simp: temp_path_def node_at_def map_of_eq_None_iff)

lemma temp_resolved:
  assumes "resolved (links_of d) target"
  shows "resolved (links_of d) (temp_path d target)"
proof -
  have "links_of d (temp_path d target) = None"
    using temp_fresh [of d target] by (auto simp: links_of_def map_of_eq_None_iff)
  then show ?thesis
    using resolved_butlast [OF assms] unfolding temp_path_def resolved_snoc
    by (auto simp: plain_name_def)
qed

lemma temp_no_links: "no_links_below d (temp_path d target)"
proof -
  have "\<not> prefix (temp_path d target) q" if "(q, t) \<in> set (dk_links d)" for q t
  proof
    assume "prefix (temp_path d target) q"
    then have "length (concat (temp_path d target)) \<le> length (concat q)" by (auto simp: prefix_def)
    moreover have "length (concat q) \<le> longest_name target d"
      using that by (intro longest_name_bound) force
    ultimately show False by (simp add: temp_path_def)
  qed
  then show ?thesis by (auto simp: no_links_below_def list_all_iff)
qed

lemma suffix_props:
  "butlast (with_suffix p s) = butlast p" "with_suffix p s \<noteq> []" "x \<in> set s \<Longrightarrow> x \<in> set (last (with_suffix p s))"
  by (auto simp: with_suffix_def)

lemma keeps_mkstemp:
  assumes "resolved (links_of d0) target" and "prefix root target"
    and "\<And>temp. \<lbrakk>free_place d0 root temp; no_links_below d0 temp\<rbrakk> \<Longrightarrow> keeps (within d0 root) (f temp)"
  shows "keeps (within d0 root) (bindP (os_mkstemp drv target) f)"
proof (rule keepsI)
  fix d assume w: "within d0 root d"
  let ?d = "d\<lparr>dk_calls := Suc (dk_calls d)\<rparr>"
  have temp: "resolved (links_of d0) (temp_path ?d target)"
    using temp_resolved [of ?d target] assms(1) within_links [OF w] by (simp add: links_of_def)
  moreover have nr: "near root (temp_path ?d target)"
    using assms(2) temp_props [of ?d target] by (intro near_beside)
  moreover have "length root \<le> length (temp_path ?d target)"
    using prefix_length_le [OF assms(2)] by (simp add: temp_path_def)
  moreover have "no_links_below d0 (temp_path ?d target)"
    using temp_no_links [of ?d target] within_links [OF w] by (simp add: no_links_below_def)
  ultimately have "keeps (within d0 root) (f (temp_path ?d target))" by (intro assms(3)) (simp_all add: free_place_def)
  with w nr show "within d0 root (snd (bindP (os_mkstemp drv target) f d))"
    by (auto simp: os_mkstemp_def os_call_def Let_def bindP_def seqP_def keeps_def within_calls within_put
        split: option.split)
qed

section \<open>Confinement\<close>

definition namespace_dir :: "fs_manager \<Rightarrow> string \<Rightarrow> disk \<Rightarrow> path" where
  "namespace_dir m namespace d = (case fs_policy m namespace of
      Inl _ \<Rightarrow> [] | Inr policy \<Rightarrow> realpath d (namespace_root m policy namespace))"

lemma namespace_dir_cong:
  assumes "dk_links d' = dk_links d" and "dk_cwd d' = dk_cwd d"
  shows "namespace_dir m namespace d' = namespace_dir m namespace d"
  by (simp add: namespace_dir_def realpath_cong [OF assms] split: sum.split)

lemma well_linked_cong: "dk_links d' = dk_links d \<Longrightarrow> dk_cwd d' = dk_cwd d \<Longrightarrow> well_linked d' = well_linked d"
  by (simp add: well_linked_def links_of_def)

lemma fs_resolve_Inr:
  assumes "fs_resolve m namespace rel d = Inr target" and "well_linked d"
  shows "resolved (links_of d) target \<and> prefix (namespace_dir m namespace d) target"
proof -
  from assms(1) obtain policy where pol: "fs_policy m namespace = Inr policy"
    by (auto simp: fs_resolve_def split: sum.splits)
  let ?root = "namespace_root m policy namespace"
  from assms(1) pol have target: "target = realpath d (path_join ?root rel)"
    and inside: "target = realpath d ?root \<or>
      starts_with (path_str (realpath d ?root) @ [CHR ''/'']) (path_str target)"
    by (auto simp: fs_resolve_def Let_def split: sum.splits if_splits)
  have res: "resolved (links_of d) target" "resolved (links_of d) (realpath d ?root)"
    unfolding target using assms(2) by (auto intro: realpath_resolved)
  have "prefix (realpath d ?root) target"
    using inside starts_below [OF resolved_plain resolved_plain, OF res(2,1)]
    by (auto simp: strict_prefix_def)
  with res pol show ?thesis by (simp add: namespace_dir_def)
qed

lemma fs_target_cases:
  obtains (refused) e where "fs_target m namespace rel d = (Inl e, d)"
  | (found) policy target where "fs_target m namespace rel d = (Inr (policy, target), d)"
      "fs_policy m namespace = Inr policy" "fs_resolve m namespace rel d = Inr target"
  by (cases "fs_policy m namespace"; cases "fs_resolve m namespace rel d")
    (auto simp: fs_target_def lift_sum_def bindP_def)

lemma keeps_target:
  assumes "well_linked d0" and "root = namespace_dir m namespace d0"
    and "\<And>policy target. \<lbrakk>resolved (links_of d0) target; prefix root target\<rbrakk> \<Longrightarrow>
      keeps (within d0 root) (f (policy, target))"
  shows "keeps (within d0 root) (bindP (fs_target m namespace rel) f)"
proof (rule keepsI)
  fix d assume w: "within d0 root d"
  then have same: "dk_links d = dk_links d0" "dk_cwd d = dk_cwd d0" by (simp_all add: within_def)
  show "within d0 root (snd (bindP (fs_target m namespace rel) f d))"
  proof (cases rule: fs_target_cases [of m namespace rel d])
    case (refused e)
    with w show ?thesis by (simp add: bindP_def)
  next
    case (found policy target)
    have "resolved (links_of d) target \<and> prefix (namespace_dir m namespace d) target"
      using found(3) assms(1) by (intro fs_resolve_Inr) (simp_all add: well_linked_cong [OF same])
    then have "resolved (links_of d0) target" "prefix root target"
      using assms(2) by (simp_all add: links_of_def same(1) namespace_dir_cong [OF same])
    from assms(3) [OF this] w found(1) show ?thesis by (simp add: bindP_def keeps_def)
  qed
qed

lemma keeps_lift_sum: "keeps P (lift_sum r)"
  by (cases r) (auto simp: lift_sum_def)

lemma target_place: "resolved (links_of d0) target \<Longrightarrow> prefix root target \<Longrightarrow> free_place d0 root target"
  by (simp add: free_place_def near_below prefix_length_le)

lemma keeps_remove_if: "free_place d0 root p \<Longrightarrow> keeps (within d0 root) (remove_if_exists drv p)"
  unfolding remove_if_exists_def by (intro keeps_bindP keeps_gets keeps_when keeps_os_remove)

lemma keeps_replace_if:
  "free_place d0 root p \<Longrightarrow> free_place d0 root q \<Longrightarrow> no_links_below d0 p \<Longrightarrow>
   keeps (within d0 root) (replace_if_exists drv p q)"
  unfolding replace_if_exists_def by (intro keeps_bindP keeps_gets keeps_when keeps_replace)

lemma keeps_append:
  "resolved (links_of d0) target \<Longrightarrow> near root target \<Longrightarrow>
   keeps (within d0 root) (append_bytes drv target payload policy)"
  unfolding append_bytes_def os_write_def by (intro keeps_seqP keeps_open keeps_change)

lemma keeps_write:
  assumes "resolved (links_of d0) target" and "prefix root target"
  shows "keeps (within d0 root) (write_payload drv target payload policy)"
proof -
  note target = assms(1) near_below [OF assms(2)]
  have "keeps (within d0 root) (write_atomic drv target payload policy)"
    unfolding write_atomic_def os_write_def os_chmod_def
  proof (rule keeps_mkstemp [OF assms], intro keeps_seqP keeps_try)
    fix temp assume place: "free_place d0 root temp" and links: "no_links_below d0 temp"
    then have temp: "resolved (links_of d0) temp" "near root temp" by (simp_all add: free_place_def)
    show "keeps (within d0 root) (os_change drv temp (\<lambda>_. payload) (\<lambda>mode. mode))" by (rule keeps_change [OF temp])
    show "keeps (within d0 root) (os_fsync drv)" by (rule keeps_fsync)
    show "keeps (within d0 root) (os_replace drv temp target)" by (rule keeps_replace [OF place target_place [OF assms] links])
    show "keeps (within d0 root) (bindP (gets (\<lambda>d. os_exists d temp)) (\<lambda>there. whenP there (os_remove drv temp)))"
      by (intro keeps_bindP keeps_gets keeps_when keeps_os_remove place)
    show "keeps (within d0 root) (raise e)" for e :: exn by (rule keeps_raise)
    show "keeps (within d0 root) (os_change drv target (\<lambda>bytes. bytes) (\<lambda>_. np_file_mode policy))"
      by (rule keeps_change [OF target])
  qed
  moreover have "keeps (within d0 root) (write_inplace_locked drv target payload policy)"
    unfolding write_inplace_locked_def os_write_def os_chmod_def
    by (intro keeps_seqP keeps_open keeps_change keeps_fsync target)
  ultimately show ?thesis using keeps_append [OF target] by (simp add: write_payload_def split: write_mode.split)
qed

lemma nth_in_drop: "k \<le> i \<Longrightarrow> i < length xs \<Longrightarrow> xs ! i \<in> set (drop k xs)"
  using nth_mem [of "i - k" "drop k xs"] by simp

lemma same_length_prefix: "prefix p q \<Longrightarrow> length p = length q \<Longrightarrow> p = q"
  by (auto simp: prefix_def)

text \<open>
  The names of sidecars and of rotated segments, which are not resolved: they end in \<open>.lock\<close>,
  or in a dot and digits. No link of the namespace, or of a sibling with a dot in its name, has
  such a name on its way.
\<close>

definition odd_name :: "string \<Rightarrow> bool" where
  "odd_name n \<longleftrightarrow> ends_with ''.lock'' n \<or>
     (last n \<noteq> CHR ''.'' \<and> (case dropWhile is_digit_char (rev n) of c # _ \<Rightarrow> c = CHR ''.'' | [] \<Rightarrow> False))"

definition no_odd_links :: "path \<Rightarrow> disk \<Rightarrow> bool" where
  "no_odd_links root d \<longleftrightarrow> list_all (\<lambda>(q, _). near root q \<longrightarrow>
     \<not> list_ex odd_name (drop (if prefix root q then length root else length root - 1) q)) (dk_links d)"

definition odd_suffix :: "string \<Rightarrow> bool" where
  "odd_suffix s \<longleftrightarrow> s = ''.lock'' \<or> (\<exists>i. s = ''.'' @ str_nat i)"

lemma digit_chars: "list_all (\<lambda>n. is_digit_char (digit_char n)) [0..<10]"
  by code_simp

lemma str_nat_digits: "str_nat n \<noteq> [] \<and> list_all is_digit_char (str_nat n)"
proof (induction n rule: str_nat.induct)
  case (1 n)
  have "is_digit_char (digit_char k)" if "k < 10" for k
    using digit_chars that by (simp add: list_all_iff del: digit_char.simps)
  with 1 show ?case by (subst (1 2) str_nat.simps) (simp del: digit_char.simps)
qed

lemma odd_suffixD:
  assumes "odd_suffix s"
  shows "odd_name (n @ s)" and "CHR ''.'' \<in> set s" and "CHR ''/'' \<notin> set s" and "s \<noteq> []" and "plain_name s"
proof -
  have other: "\<not> is_digit_char (CHR ''.'')" "\<not> is_digit_char (CHR ''/'')" by (simp_all add: is_digit_char_def code_def)
  have "odd_name (n @ ''.'' @ str_nat i)" for i
  proof -
    have "is_digit_char (last (str_nat i))" using str_nat_digits [of i] by (simp add: list_all_iff)
    moreover have "last (n @ ''.'' @ str_nat i) = last (str_nat i)" using str_nat_digits [of i] by simp
    ultimately have "last (n @ ''.'' @ str_nat i) \<noteq> CHR ''.''" using other(1) by metis
    moreover have "dropWhile is_digit_char (rev (str_nat i) @ CHR ''.'' # rev n) = CHR ''.'' # rev n"
      using str_nat_digits [of i] other(1) by (subst dropWhile_append2) (auto simp: list_all_iff)
    ultimately show ?thesis by (simp add: odd_name_def)
  qed
  moreover have "odd_name (n @ ''.lock'')" by (auto simp: odd_name_def ends_with_iff)
  ultimately show "odd_name (n @ s)" using assms unfolding odd_suffix_def by blast
  have slash: "CHR ''/'' \<notin> set (str_nat i)" for i using str_nat_digits [of i] other(2) by (auto simp: list_all_iff)
  then show "CHR ''.'' \<in> set s" "CHR ''/'' \<notin> set s" "s \<noteq> []"
    using assms by (auto simp: odd_suffix_def)
  have "str_nat i \<noteq> ''.''" for i using str_nat_digits [of i] other(1) by auto
  with slash show "plain_name s"
    using assms str_nat_digits by (auto simp: odd_suffix_def plain_name_def)
qed

lemma suffix_beside:
  assumes "s \<noteq> []"
  shows "\<not> prefix (with_suffix target s) target"
proof
  assume below: "prefix (with_suffix target s) target"
  then have len: "length (with_suffix target s) \<le> length target" by (rule prefix_length_le)
  then have "target \<noteq> []" by (auto simp: with_suffix_def)
  then have "length (with_suffix target s) = length target" by (simp add: with_suffix_def)
  with below have "with_suffix target s = target" by (rule same_length_prefix)
  with \<open>target \<noteq> []\<close> assms show False
    unfolding with_suffix_def by (metis append_butlast_last_id append_self_conv last_snoc)
qed

lemma suffix_place:
  assumes "resolved (links_of d) target" and "prefix root target" and "no_odd_links root d" and "odd_suffix s"
  shows "free_place d root (with_suffix target s)" and "no_links_below d (with_suffix target s)"
proof -
  let ?p = "with_suffix target s"
  have nr: "near root ?p"
    using assms(2) odd_suffixD(2) [OF assms(4)] by (intro near_beside [OF assms(2)]) (auto simp: suffix_props)
  have len: "length root \<le> length ?p"
    using prefix_length_le [OF assms(2)] by (auto simp: with_suffix_def)
  show "no_links_below d ?p"
    unfolding no_links_below_def list_all_iff
  proof safe
    fix q t assume q: "(q, t) \<in> set (dk_links d)" and below: "prefix ?p q"
    then have "near root q" using near_upward [OF nr below len] by simp
    with assms(3) q have even: "\<not> list_ex odd_name (drop (if prefix root q then length root else length root - 1) q)"
      by (force simp: no_odd_links_def list_all_iff)
    from below obtain r where r: "q = ?p @ r" by (auto simp: prefix_def)
    have "odd_name (last ?p)" using odd_suffixD(1) [OF assms(4), of "[]"] odd_suffixD(1) [OF assms(4)]
      by (simp add: with_suffix_def)
    moreover have "last ?p \<in> set (drop (if prefix root q then length root else length root - 1) q)"
    proof -
      have "last ?p = q ! (length ?p - 1)"
        using suffix_props(2) [of target s] r by (simp add: last_conv_nth nth_append)
      moreover have "(if prefix root q then length root else length root - 1) \<le> length ?p - 1"
      proof (cases "prefix root q")
        case True
        show ?thesis
        proof (cases "length root = length ?p")
          case eq: True
          with True r have "root = ?p" by (auto simp: prefix_def append_eq_append_conv)
          moreover have "root \<noteq> ?p"
            using assms(2) suffix_beside [OF odd_suffixD(4) [OF assms(4)]] by metis
          ultimately have False by simp
          then show ?thesis ..
        next
          case False
          with len True show ?thesis by simp
        qed
      next
        case False
        with len show ?thesis by simp
      qed
      moreover have "length ?p - 1 < length q" using suffix_props(2) [of target s] r by (cases ?p) auto
      ultimately show ?thesis using nth_in_drop by metis
    qed
    ultimately show False using even by (auto simp: list_ex_iff)
  qed
  then have "links_of d ?p = None"
    by (force simp: no_links_below_def links_of_def map_of_eq_None_iff list_all_iff)
  then have "resolved (links_of d) ?p"
  proof (cases target rule: rev_cases)
    case Nil
    with \<open>links_of d ?p = None\<close> odd_suffixD(5) [OF assms(4)] show ?thesis
      using resolved_snoc [of "links_of d" "[]" s] by (simp add: with_suffix_def)
  next
    case (snoc p n)
    with assms(1) \<open>links_of d ?p = None\<close> odd_suffixD [OF assms(4)] show ?thesis
      by (auto simp: with_suffix_def resolved_snoc plain_name_def append_eq_Cons_conv)
  qed
  with nr len show "free_place d root ?p" by (simp add: free_place_def)
qed

lemma segment_place:
  assumes "resolved (links_of d) target" and "prefix root target" and "no_odd_links root d"
  shows "free_place d root (segment target i)" and "no_links_below d (segment target i)"
  using suffix_place [OF assms, of "''.'' @ str_nat i"] by (auto simp: segment_def odd_suffix_def)

text \<open>The file is no directory while its segments are moved.\<close>

lemma segment_beside: "\<not> prefix (segment target i) target"
  unfolding segment_def by (rule suffix_beside) simp

definition within_file :: "disk \<Rightarrow> path \<Rightarrow> path \<Rightarrow> disk \<Rightarrow> bool" where
  "within_file d0 root target d \<longleftrightarrow> within d0 root d \<and> node_at d target \<noteq> Some Dir"

lemma file_remove:
  assumes "free_place d0 root p" and "p \<noteq> target"
  shows "keeps (within_file d0 root target) (remove_if_exists drv p)"
proof -
  have "keeps (within_file d0 root target) (os_remove drv p)"
  proof (rule keepsI)
    fix d assume w: "within_file d0 root target d"
    then have w': "within d0 root d" by (simp add: within_file_def)
    obtain r d' where run: "os_remove drv p d = (r, d')" by fastforce
    have "resolved (links_of d) p" using assms within_resolved [OF w'] by (simp add: free_place_def)
    from remove_effect [OF run this] keepsD [OF keeps_os_remove [OF assms(1)] w' run] w assms(2)
    show "within_file d0 root target (snd (os_remove drv p d))" by (simp add: run within_file_def)
  qed
  then show ?thesis unfolding remove_if_exists_def by (intro keeps_bindP keeps_gets keeps_when)
qed

lemma file_replace:
  assumes "free_place d0 root p" and "free_place d0 root q" and "no_links_below d0 p"
    and "\<not> prefix p target" and "\<not> prefix q target"
  shows "keeps (within_file d0 root target) (replace_if_exists drv p q)"
proof -
  have "keeps (within_file d0 root target) (os_replace drv p q)"
  proof (rule keepsI)
    fix d assume w: "within_file d0 root target d"
    then have w': "within d0 root d" by (simp add: within_file_def)
    obtain r d' where run: "os_replace drv p q d = (r, d')" by fastforce
    have "resolved (links_of d) p" "resolved (links_of d) q" "no_links_below d p"
      using assms within_resolved [OF w'] no_links_cong [OF within_links [OF w']] by (simp_all add: free_place_def)
    with replace_effect [OF run] keepsD [OF keeps_replace [OF assms(1-3)] w' run] w assms(4,5)
    show "within_file d0 root target (snd (os_replace drv p q d))" by (simp add: run within_file_def)
  qed
  then show ?thesis unfolding replace_if_exists_def by (intro keeps_bindP keeps_gets keeps_when)
qed

lemma within_rotate:
  assumes "resolved (links_of d0) target" and "prefix root target" and "no_odd_links root d0"
    and "within_file d0 root target d"
  shows "within d0 root (snd (rotate_files drv target backups d))"
proof (cases "backups \<le> 0")
  case True
  have "keeps (within d0 root) (remove_if_exists drv target)"
    by (intro keeps_remove_if target_place assms(1,2))
  with True assms(4) show ?thesis by (simp add: rotate_files_def keeps_def within_file_def)
next
  case False
  note place = segment_place [OF assms(1-3)] and target = target_place [OF assms(1,2)]
  let ?n = "nat backups"
  let ?moves = "for_each (\<lambda>i. replace_if_exists drv (segment target i) (segment target (Suc i))) (rev [1..<?n])"
  let ?last = "replace_if_exists drv target (segment target 1)"
  have "segment target ?n \<noteq> target" using segment_beside [of target ?n] by auto
  then have first: "keeps (within_file d0 root target) (remove_if_exists drv (segment target ?n))"
    by (rule file_remove [OF place(1)])
  have moves: "keeps (within_file d0 root target) ?moves"
    by (intro keeps_for_each file_replace place segment_beside)
  have final: "within d0 root (snd (?last e))" if "within_file d0 root target e" for e
    using that within_replace [OF _ target place(1)]
    by (auto simp: within_file_def replace_if_exists_def bindP_def whenP_def)
  have "within d0 root (snd (seqP (remove_if_exists drv (segment target ?n)) (seqP ?moves ?last) d))"
  proof -
    obtain r1 d1 where 1: "remove_if_exists drv (segment target ?n) d = (r1, d1)" by fastforce
    obtain r2 d2 where 2: "?moves d1 = (r2, d2)" by fastforce
    have w1: "within_file d0 root target d1" by (rule keepsD [OF first assms(4) 1])
    have w2: "within_file d0 root target d2" by (rule keepsD [OF moves w1 2])
    from 1 2 w1 w2 final [OF w2] show ?thesis
      by (cases r1; cases r2) (simp_all add: seqP_Inl seqP_Inr within_file_def)
  qed
  with False show ?thesis by (simp add: rotate_files_def Let_def)
qed

text \<open>A rotation starts when the file is there, so it is no directory.\<close>

lemma keeps_rotate:
  assumes "resolved (links_of d0) target" and "prefix root target" and "no_odd_links root d0"
    and "keeps (within d0 root) m"
  shows "keeps (within d0 root)
    (bindP (gets (\<lambda>d. exceeds d target mx n)) (\<lambda>full. seqP (whenP full (rotate_files drv target backups)) m))"
proof (rule keepsI)
  fix d assume w: "within d0 root d"
  have "within d0 root (snd (seqP (whenP (exceeds d target mx n) (rotate_files drv target backups)) m d))"
  proof (cases "exceeds d target mx n")
    case True
    then have "node_at d target \<noteq> Some Dir"
      using within_follow [OF w assms(1)] by (auto simp: exceeds_def file_size_def split: if_splits)
    then have "within d0 root (snd (rotate_files drv target backups d))"
      using w by (intro within_rotate assms) (simp add: within_file_def)
    with True assms(4) show ?thesis
      by (auto simp: whenP_def seqP_def bindP_def keeps_def split: prod.split sum.split)
  next
    case False
    with w assms(4) show ?thesis by (simp add: whenP_def seqP_def bindP_def keeps_def)
  qed
  then show "within d0 root (snd (bindP (gets (\<lambda>d. exceeds d target mx n))
      (\<lambda>full. seqP (whenP full (rotate_files drv target backups)) m) d))"
    by (simp add: bindP_def)
qed

datatype file_op =
    WriteBytes string string
  | WriteText string string
  | WriteJson string json
  | AppendText string string
  | AppendRotating string string int int
  | DeleteFile string

fun run_file_op :: "codec \<Rightarrow> os_driver \<Rightarrow> fs_manager \<Rightarrow> string \<Rightarrow> file_op \<Rightarrow> (disk, unit) prog" where
  "run_file_op cd drv m ns (WriteBytes rel data) = seqP (fs_write_bytes cd drv m ns rel data) (ret ())"
| "run_file_op cd drv m ns (WriteText rel txt) = seqP (fs_write_text cd drv m ns rel txt) (ret ())"
| "run_file_op cd drv m ns (WriteJson rel v) = seqP (fs_write_json cd drv m ns rel v) (ret ())"
| "run_file_op cd drv m ns (AppendText rel txt) = fs_append_text cd drv m ns rel txt"
| "run_file_op cd drv m ns (AppendRotating rel txt mx n) = fs_append_with_rotation cd drv m ns rel txt mx n"
| "run_file_op cd drv m ns (DeleteFile rel) = fs_delete drv m ns rel"

lemma keeps_write_bytes:
  assumes "well_linked d0"
  shows "keeps (within d0 (namespace_dir m ns d0)) (fs_write_bytes cd drv m ns rel data)"
  unfolding fs_write_bytes_def ensure_parent_def
  by (rule keeps_target [OF assms refl])
    (auto intro!: keeps_bindP keeps_seqP keeps_makedirs keeps_gets keeps_lift_sum keeps_write keeps_ret)

lemma keeps_file_op:
  assumes "well_linked d0" and "no_odd_links (namespace_dir m ns d0) d0"
  shows "keeps (within d0 (namespace_dir m ns d0)) (run_file_op cd drv m ns op)"
proof -
  have append: "keeps (within d0 (namespace_dir m ns d0)) (fs_append_text cd drv m ns rel tx)" for rel tx
    unfolding fs_append_text_def ensure_parent_def
    by (rule keeps_target [OF assms(1) refl])
      (auto intro!: keeps_seqP keeps_makedirs keeps_append near_below)
  have rotate: "keeps (within d0 (namespace_dir m ns d0)) (fs_append_with_rotation cd drv m ns rel tx mx n)"
    for rel tx mx n
    unfolding fs_append_with_rotation_def ensure_parent_def
  proof (rule keeps_target [OF assms(1) refl], unfold prod.case, intro keeps_seqP)
    let ?root = "namespace_dir m ns d0"
    fix policy :: namespace_policy and target
    assume target: "resolved (links_of d0) target" "prefix ?root target"
    have "free_place d0 ?root (with_suffix target ''.lock'')"
      by (rule suffix_place [OF target assms(2)]) (simp add: odd_suffix_def)
    then show "keeps (within d0 ?root) (os_open drv (with_suffix target ''.lock'') (np_file_mode policy))"
      by (intro keeps_open) (simp_all add: free_place_def)
    show "keeps (within d0 ?root) (os_makedirs drv (butlast target))" by (rule keeps_makedirs [OF target(2)])
    show "keeps (within d0 ?root)
        (bindP (gets (\<lambda>d. exceeds d target mx (length (cd_encode cd tx))))
          (\<lambda>full. seqP (whenP full (rotate_files drv target n)) (append_bytes drv target (cd_encode cd tx) policy)))"
      by (intro keeps_rotate target assms(2) keeps_append near_below)
  qed
  have delete: "keeps (within d0 (namespace_dir m ns d0)) (fs_delete drv m ns rel)" for rel
    unfolding fs_delete_def
    by (rule keeps_target [OF assms(1) refl]) (auto intro!: keeps_remove_if target_place)
  show ?thesis
    by (cases op) (auto intro!: keeps_seqP keeps_ret keeps_write_bytes assms(1) append rotate delete simp: fs_write_text_def fs_write_json_def)
qed

text \<open>A history of operations of one namespace, each with its own faults.\<close>

fun run_file_ops ::
  "codec \<Rightarrow> (nat \<Rightarrow> os_driver) \<Rightarrow> fs_manager \<Rightarrow> string \<Rightarrow> file_op list \<Rightarrow> disk \<Rightarrow> disk" where
  "run_file_ops cd drv m ns [] d = d"
| "run_file_ops cd drv m ns (op # ops) d =
     run_file_ops cd drv m ns ops (snd (run_file_op cd (drv (length ops)) m ns op d))"

lemma within_file_ops:
  assumes "well_linked d0" and "no_odd_links (namespace_dir m ns d0) d0" and "within d0 (namespace_dir m ns d0) d"
  shows "within d0 (namespace_dir m ns d0) (run_file_ops cd drv m ns ops d)"
  using assms(3)
proof (induction ops arbitrary: d)
  case (Cons op ops)
  with keeps_file_op [OF assms(1,2)] show ?case by (simp add: keeps_def)
qed simp


lemma namespace_plain:
  assumes "match_items namespace_pattern a"
  shows "plain_name a \<and> CHR ''.'' \<notin> set a \<and> \<not> is_abs a"
proof -
  from assms obtain c r t where a: "a = c # r @ t" and c: "is_alnum_char c"
    and r: "list_all (\<lambda>c. is_alnum_char c \<or> c = CHR ''_'' \<or> c = CHR ''-'') r" and "t = [] \<or> t = [CHR 0x0A]"
    unfolding namespace_pattern_def match_One match_Run by auto
  moreover have "\<not> is_alnum_char (CHR ''.'')" "\<not> is_alnum_char (CHR ''/'')"
    by (simp_all add: is_alnum_char_def is_alpha_char_def is_lower_char_def is_upper_char_def is_digit_char_def code_def)
  ultimately have "\<forall>x \<in> set a. x \<noteq> CHR ''.'' \<and> x \<noteq> CHR ''/''" by (auto simp: list_all_iff)
  with a show ?thesis by (auto simp: plain_name_def is_abs_def starts_with_def)
qed

lemma claim_Inr:
  assumes "claim_namespace namespaces a = Inr a'"
  shows "match_items namespace_pattern a \<and> policy_of namespaces a = Inr build_default_plugin_policy"
  using assms
  by (auto simp: claim_namespace_def policy_of_def validate_namespace_segment_def split: if_splits sum.splits)

text \<open>The directory of a plugin, when its way is free of links.\<close>

lemma plugin_dir:
  assumes "fs_for_plugin m a = Inr a'" and "map_of (fm_roots m) a = None"
    and "resolved (links_of d) (fm_var_root m @ [a])"
  shows "namespace_dir m a d = fm_var_root m @ [a]"
proof -
  have a: "match_items namespace_pattern a" "fs_policy m a = Inr build_default_plugin_policy"
    using claim_Inr assms(1) by (auto simp: fs_for_plugin_def fs_policy_def)
  have "resolved (links_of d) (fm_var_root m)" using assms(3) by (rule resolved_prefix)
  moreover have "split_on (CHR ''/'') a = [a]"
    using namespace_plain [OF a(1)] by (simp add: split_on_none plain_name_def)
  moreover have "walk (links_of d) (fm_var_root m) [a] = fm_var_root m @ [a]" using assms(3) by (rule walk_id)
  ultimately show ?thesis
    using a(2) assms(2) namespace_plain [OF a(1)]
    by (simp add: namespace_dir_def namespace_root_def realpath_join build_default_plugin_policy_def var_policy_def
        del: walk.simps)
qed

lemma beside_untouched:
  assumes "within d (v @ [a]) d'" and "a \<noteq> b" and "CHR ''.'' \<notin> set b"
  shows "prefix (v @ [b]) p \<Longrightarrow> node_at d' p = node_at d p"
    and "strict_prefix q (v @ [b]) \<Longrightarrow> is_file d' q = is_file d q"
proof -
  assume p: "prefix (v @ [b]) p"
  then have "\<not> prefix (v @ [a]) p" using assms(2) by (auto simp: prefix_def)
  moreover have "take (length (v @ [a])) p = v @ [b]" using p by (auto simp: prefix_def)
  then have "\<not> CHR ''.'' \<in> set (last (take (length (v @ [a])) p))" using assms(3) by simp
  moreover have "\<not> strict_prefix p (v @ [a])"
    using p assms(2) by (auto simp: prefix_def strict_prefix_def)
  ultimately show "node_at d' p = node_at d p" using assms(1) by (auto simp: within_def near_def)
next
  assume "strict_prefix q (v @ [b])"
  then have q: "prefix q v" by (auto simp: strict_prefix_def)
  then have len: "length q \<le> length v" by (rule prefix_length_le)
  then have "\<not> prefix (v @ [a]) q" by (auto dest: prefix_length_le)
  moreover have "butlast (take (length (v @ [a])) q) \<noteq> v" if "q \<noteq> []"
  proof
    assume "butlast (take (length (v @ [a])) q) = v"
    then have "length (butlast q) = length v" using len by simp
    then have "length q - 1 = length v" by simp
    moreover have "0 < length q" using that by simp
    ultimately show False using len by arith
  qed
  ultimately have "\<not> near (v @ [a]) q" by (auto simp: near_def)
  with assms(1) show "is_file d' q = is_file d q" by (auto simp: within_def is_file_def split: option.splits)
qed

section \<open>Isolation of plugins\<close>

lemma fs_target_cong:
  assumes "dk_links d' = dk_links d" and "dk_cwd d' = dk_cwd d"
  shows "fst (fs_target m ns rel d') = fst (fs_target m ns rel d)"
  by (auto simp: fs_target_def lift_sum_def bindP_def fs_resolve_def realpath_cong [OF assms] Let_def split: sum.splits)

lemma read_cong:
  assumes "dk_links d' = dk_links d" and "dk_cwd d' = dk_cwd d"
    and "\<And>target. fs_resolve m ns rel d = Inr target \<Longrightarrow> node_at d' (follow d target) = node_at d (follow d target)
      \<and> blocked d' (follow d target) = blocked d (follow d target)"
  shows "fst (fs_read_bytes cd (\<lambda>_. None) m ns rel d') = fst (fs_read_bytes cd (\<lambda>_. None) m ns rel d)"
proof (cases rule: fs_target_cases [of m ns rel d])
  case (refused e)
  then show ?thesis
    using fs_target_cong [OF assms(1,2), of m ns rel]
    by (auto simp: fs_read_bytes_def bindP_def split: prod.splits sum.splits)
next
  case (found policy target)
  obtain r t where run: "fs_target m ns rel d' = (r, t)" by fastforce
  moreover from run have "t = d'" by (cases rule: fs_target_cases [of m ns rel d']) auto
  ultimately have "fs_target m ns rel d' = (Inr (policy, target), d')"
    using fs_target_cong [OF assms(1,2), of m ns rel] found(1) by simp
  then show ?thesis
    using found(1) assms(3) [OF found(3)] follow_cong [OF assms(1), of target]
      follow_cong [of "d'\<lparr>dk_calls := Suc (dk_calls d')\<rparr>" d'] follow_cong [of "d\<lparr>dk_calls := Suc (dk_calls d)\<rparr>" d]
    by (auto simp: fs_read_bytes_def os_read_def os_call_def bindP_def seqP_def lift_sum_def Let_def
        split: node.splits option.splits sum.splits)
qed


section \<open>What a write leaves\<close>

definition contents :: "disk \<Rightarrow> path \<Rightarrow> string option" where
  "contents d p = (case node_at d p of Some (File bytes _) \<Rightarrow> Some bytes | _ \<Rightarrow> None)"

text \<open>
  While a file is being replaced its contents are the old or the new ones. What is kept is
  relative to the disk \<open>d0\<close> as it was before.
\<close>

definition old_or_new :: "disk \<Rightarrow> path \<Rightarrow> string \<Rightarrow> disk \<Rightarrow> bool" where
  "old_or_new d0 target payload d \<longleftrightarrow> dk_links d = dk_links d0 \<and>
     (contents d target = contents d0 target \<or> contents d target = Some payload)"

lemma contents_calls [simp]: "contents (d\<lparr>dk_calls := n\<rparr>) p = contents d p"
  by (simp add: contents_def)

lemma old_calls: "old_or_new d0 target payload d \<Longrightarrow> old_or_new d0 target payload (d\<lparr>dk_calls := n\<rparr>)"
  by (simp add: old_or_new_def)

lemmas old_call = keeps_os_call [of "old_or_new d0 target payload" for d0 target payload, OF old_calls]

lemma old_follow: "old_or_new d0 target payload d \<Longrightarrow> resolved (links_of d0) p \<Longrightarrow> follow d p = p"
  using follow_resolved [of d0 p] follow_cong [of d d0 p] by (simp add: old_or_new_def)

lemma old_elsewhere:
  assumes "old_or_new d0 target payload d" and "p \<noteq> target"
  shows "old_or_new d0 target payload (put_node p n d)"
  using assms by (simp_all add: old_or_new_def contents_def)

lemma old_change:
  assumes "resolved (links_of d0) p" and "p \<noteq> target \<or> (\<forall>bytes. f bytes = bytes)"
  shows "keeps (old_or_new d0 target payload) (os_change drv p f g)"
  unfolding os_change_def
proof (intro old_call keepsI)
  fix d assume w: "old_or_new d0 target payload d"
  show "old_or_new d0 target payload (snd (modify (\<lambda>d. case node_at d (follow d p) of
      Some (File bytes mode) \<Rightarrow> put_node (follow d p) (File (f bytes) (g mode)) d | _ \<Rightarrow> d) d))"
    using w assms(2) old_elsewhere [OF w]
    by (cases "p = target") (auto simp: old_follow [OF w assms(1)] old_or_new_def contents_def split: node.splits option.splits)
qed

lemma old_fsync: "keeps (old_or_new d0 target payload) (os_fsync drv)"
  by (auto simp: os_fsync_def os_call_def keeps_def Let_def old_calls split: option.split)

lemma old_remove:
  assumes "resolved (links_of d0) p" and "p \<noteq> target"
  shows "keeps (old_or_new d0 target payload) (os_remove drv p)"
proof (rule keepsI)
  fix d assume w: "old_or_new d0 target payload d"
  obtain r d' where run: "os_remove drv p d = (r, d')" by fastforce
  have "resolved (links_of d) p" using assms(1) w by (simp add: old_or_new_def links_of_def)
  from remove_effect [OF run this] w assms(2) show "old_or_new d0 target payload (snd (os_remove drv p d))"
    by (simp add: run old_or_new_def contents_def)
qed

text \<open>The calls of a replacement, from the disk with the new temporary file.\<close>

lemma os_call_Inr: "os_call drv d = (Inr x, d') \<longleftrightarrow> drv (dk_calls d) = None \<and> d' = d\<lparr>dk_calls := Suc (dk_calls d)\<rparr>"
  by (auto simp: os_call_def Let_def split: option.splits)

lemma os_call_Inl: "os_call drv d = (Inl e, d') \<longleftrightarrow> drv (dk_calls d) = Some e \<and> d' = d\<lparr>dk_calls := Suc (dk_calls d)\<rparr>"
  by (auto simp: os_call_def Let_def split: option.splits)

lemma follow_calls [simp]: "follow (d\<lparr>dk_calls := n\<rparr>) p = follow d p"
  by (simp add: follow_def links_of_def)

lemma change_Inr:
  assumes "os_change drv p f g d = (Inr x, d')" and "follow d p = p"
  shows "dk_links d' = dk_links d \<and> dk_cwd d' = dk_cwd d \<and>
    (\<forall>q. node_at d' q = (if q = p then (case node_at d p of
        Some (File bytes mode) \<Rightarrow> Some (File (f bytes) (g mode)) | other \<Rightarrow> other) else node_at d q))"
  using assms unfolding os_change_def
  by (cases "p = []") (auto elim!: seqP_InrE simp: os_call_Inr split: option.splits node.splits)

lemma replace_file:
  assumes "os_replace drv p q d = (r, d')" and "resolved (links_of d) p" and "resolved (links_of d) q"
    and "node_at d p = Some (File bytes mode)"
  shows "dk_links d' = dk_links d \<and> dk_cwd d' = dk_cwd d \<and>
    (\<forall>u. node_at d' u = (if r \<noteq> Inr () then node_at d u
       else if u = q then Some (File bytes mode) else if u = p then None else node_at d u))"
proof (cases "drv (dk_calls d)")
  case (Some e)
  with assms(1) show ?thesis by (auto simp: os_replace_def os_call_def seqP_Inl)
next
  case None
  then have call: "os_call drv d = (Inr (), d\<lparr>dk_calls := Suc (dk_calls d)\<rparr>)" by (simp add: os_call_def)
  have links: "dk_links d' = dk_links d" "dk_cwd d' = dk_cwd d"
    using replace_effect [OF assms(1-3)] assms(4) by simp_all
  have none: "link_at d p = None" "link_at d q = None" using assms(2,3) by (simp_all add: link_at_resolved)
  from assms(4) have "p \<noteq> []" by auto
  with assms(1,4) none links show ?thesis
    by (cases "q = []") (auto simp: os_replace_def call seqP_def bindP_def split: if_splits)
qed

lemma replacement:
  assumes "seqP (os_write drv temp (\<lambda>_. payload)) (seqP (os_fsync drv) (os_replace drv temp target)) d = (Inr x, d')"
    and "resolved (links_of d) temp" and "resolved (links_of d) target"
    and "node_at d temp = Some (File bytes mode)" and "temp \<noteq> target"
  shows "dk_links d' = dk_links d \<and> dk_cwd d' = dk_cwd d \<and> node_at d' target = Some (File payload mode) \<and>
    (\<forall>p. p \<noteq> target \<longrightarrow> p \<noteq> temp \<longrightarrow> node_at d' p = node_at d p)"
proof -
  from assms(1) obtain d1 d2 y z where 1: "os_change drv temp (\<lambda>_. payload) (\<lambda>mode. mode) d = (Inr y, d1)"
    and 2: "os_fsync drv d1 = (Inr z, d2)" and 3: "os_replace drv temp target d2 = (Inr x, d')"
    unfolding os_write_def by (elim seqP_InrE)
  from 2 have "d2 = d1\<lparr>dk_calls := Suc (dk_calls d1)\<rparr>" by (simp add: os_fsync_def os_call_Inr)
  note c = change_Inr [OF 1 follow_resolved [OF assms(2)]]
  have "dk_links d2 = dk_links d" "node_at d2 temp = Some (File payload mode)"
    using c \<open>d2 = _\<close> assms(4) by simp_all
  with replace_file [OF 3, of payload mode] assms(2,3) have
    "dk_links d' = dk_links d2 \<and> dk_cwd d' = dk_cwd d2 \<and>
     (\<forall>u. node_at d' u = (if u = target then Some (File payload mode) else if u = temp then None else node_at d2 u))"
    by (simp add: links_of_def)
  with c \<open>d2 = _\<close> assms(4,5) show ?thesis by simp
qed

lemma replace_old_or_new:
  assumes "os_replace drv temp target d = (r, d')" and "old_or_new d0 target payload d"
    and "contents d temp = Some payload" and "resolved (links_of d0) temp" and "resolved (links_of d0) target"
  shows "old_or_new d0 target payload d'"
proof -
  from assms(3) obtain mode where "node_at d temp = Some (File payload mode)"
    by (auto simp: contents_def split: option.splits node.splits)
  with replace_file [OF assms(1)] assms(2,4,5) show ?thesis
    by (simp add: old_or_new_def contents_def links_of_def)
qed

lemma torn_free_body:
  assumes "old_or_new d0 target payload d" and "resolved (links_of d0) temp" and "temp \<noteq> target"
    and "resolved (links_of d0) target" and "node_at d temp = Some (File bytes mode)"
  shows "old_or_new d0 target payload
    (snd (seqP (os_write drv temp (\<lambda>_. payload)) (seqP (os_fsync drv) (os_replace drv temp target)) d))"
proof -
  let ?run = "seqP (os_write drv temp (\<lambda>_. payload)) (seqP (os_fsync drv) (os_replace drv temp target)) d"
  obtain r1 d1 where 1: "os_change drv temp (\<lambda>_. payload) (\<lambda>mode. mode) d = (r1, d1)" by fastforce
  have o1: "old_or_new d0 target payload d1"
    using keepsD [OF old_change assms(1) 1] assms(2,3) by blast
  show ?thesis
  proof (cases r1)
    case (Inl e)
    with 1 o1 show ?thesis by (simp add: os_write_def seqP_Inl)
  next
    case (Inr x)
    have f: "follow d temp = temp" using assms(1,2) by (rule old_follow)
    have c1: "contents d1 temp = Some payload"
      using change_Inr [OF 1 [unfolded Inr] f] assms(5) by (simp add: contents_def)
    obtain r2 d2 where 2: "os_fsync drv d1 = (r2, d2)" by fastforce
    have o2: "old_or_new d0 target payload d2" by (rule keepsD [OF old_fsync o1 2])
    have c2: "contents d2 temp = Some payload"
      using 2 c1 by (cases r2) (auto simp: os_fsync_def os_call_Inr os_call_Inl)
    obtain r3 d3 where 3: "os_replace drv temp target d2 = (r3, d3)" by fastforce
    have o3: "old_or_new d0 target payload d3" by (rule replace_old_or_new [OF 3 o2 c2 assms(2,4)])
    from 1 2 3 Inr o2 o3 show ?thesis
      by (cases r2) (simp_all add: os_write_def seqP_Inl seqP_Inr)
  qed
qed

lemma torn_free_write:
  assumes "resolved (links_of d) target" and "target \<noteq> []"
  shows "old_or_new d target payload (snd (write_atomic drv target payload policy d))"
proof -
  let ?d = "d\<lparr>dk_calls := Suc (dk_calls d)\<rparr>" let ?temp = "temp_path ?d target"
  let ?t = "put_node ?temp (File [] 384) ?d"
  have o: "old_or_new d target payload d" by (simp add: old_or_new_def)
  have temp: "resolved (links_of d) ?temp"
    using temp_resolved [of ?d target] assms(1) by (simp add: links_of_def)
  have o1: "old_or_new d target payload ?t"
    using temp_props(1) [of ?d target] by (intro old_elsewhere old_calls o)
  show ?thesis
  proof (cases "drv (dk_calls d)")
    case None
    let ?body = "seqP (os_write drv ?temp (\<lambda>_. payload)) (seqP (os_fsync drv) (os_replace drv ?temp target))"
    let ?clean = "\<lambda>e. seqP (bindP (gets (\<lambda>d. os_exists d ?temp)) (\<lambda>there. whenP there (os_remove drv ?temp))) (raise e)"
    have clean: "keeps (old_or_new d target payload) (?clean e :: (disk, unit) prog)" for e
      using temp_props(1) [of ?d target]
      by (intro keeps_seqP keeps_bindP keeps_gets keeps_when old_remove temp keeps_raise)
    have chmod: "keeps (old_or_new d target payload) (os_chmod drv target n)" for n
      unfolding os_chmod_def by (rule old_change [OF assms(1)]) simp
    have "node_at ?t ?temp = Some (File [] 384)" using temp_props(3) [of ?d target] by simp
    then have body: "old_or_new d target payload (snd (?body ?t))"
      by (rule torn_free_body [OF o1 temp temp_props(1) assms(1)])
    have "old_or_new d target payload (snd (try_except ?body ?clean ?t))"
      using body clean by (auto simp: try_except_def keeps_def split: prod.split sum.split)
    then have "old_or_new d target payload (snd (seqP (try_except ?body ?clean) (os_chmod drv target (np_file_mode policy)) ?t))"
      using chmod by (auto simp: seqP_def bindP_def keeps_def split: prod.split sum.split)
    then show ?thesis
      using None by (simp add: write_atomic_def os_mkstemp_def os_call_def seqP_def bindP_def Let_def)
  next
    case (Some e)
    then show ?thesis
      by (simp add: write_atomic_def os_mkstemp_def os_call_def seqP_def bindP_def Let_def old_calls o)
  qed
qed

lemma makedirs_Inr:
  assumes "os_makedirs drv p d = (Inr x, d')"
  shows "dk_links d' = dk_links d \<and> dk_cwd d' = dk_cwd d \<and>
    (\<forall>q. is_file d' q = is_file d q \<and> contents d' q = contents d q) \<and>
    (\<forall>q \<in> set (parents p @ [p]). \<not> is_file d' q)"
proof -
  let ?mk = "foldl (\<lambda>d q. make_dir q d)"
  have same: "is_file (?mk e qs) q = is_file e q" "contents (?mk e qs) q = contents e q" for e qs q
    by (auto simp: is_file_def contents_def make_dirs_nodes)
  from assms have d': "d' = ?mk (d\<lparr>dk_calls := Suc (dk_calls d)\<rparr>) (parents p @ [p])"
    and free: "\<not> list_ex (is_file d) (parents p @ [p])"
    by (auto simp: os_makedirs_def os_call_Inr bindP_def simp del: foldl_append elim!: seqP_InrE split: if_splits)
  have "\<forall>q \<in> set (parents p @ [p]). \<not> is_file d' q"
    using free unfolding d' same by (auto simp: list_ex_iff)
  moreover have "\<forall>q. is_file d' q = is_file d q \<and> contents d' q = contents d q" unfolding d' same by simp
  moreover have "dk_links d' = dk_links d \<and> dk_cwd d' = dk_cwd d" unfolding d' make_dirs_sel by simp
  ultimately show ?thesis by blast
qed

lemma makedirs_Inl: "os_makedirs drv p d = (Inl e, d') \<Longrightarrow> d' = d\<lparr>dk_calls := Suc (dk_calls d)\<rparr>"
  by (auto simp: os_makedirs_def os_call_Inl os_call_Inr bindP_def simp del: foldl_append elim!: seqP_InlE split: if_splits)

lemma never_torn:
  assumes "well_linked d" and "fs_policy m ns = Inr policy" and "np_write_mode policy = ATOMIC_REPLACE"
    and "\<not> np_encrypt policy" and "fs_resolve m ns rel d = Inr target"
  shows "contents (snd (fs_write_bytes cd drv m ns rel data d)) target \<in> {contents d target, Some data}"
proof (cases "target = []")
  case True
  then show ?thesis by (simp add: contents_def)
next
  case False
  have res: "resolved (links_of d) target" using fs_resolve_Inr assms(1,5) by blast
  have target: "fs_target m ns rel d = (Inr (policy, target), d)"
    using assms(2,5) by (simp add: fs_target_def lift_sum_def bindP_def)
  obtain r1 d1 where mk: "os_makedirs drv (butlast target) d = (r1, d1)" by fastforce
  show ?thesis
  proof (cases r1)
    case (Inl e)
    with mk target makedirs_Inl [OF mk [unfolded Inl]] show ?thesis
      by (simp add: fs_write_bytes_def bindP_def seqP_def ensure_parent_def)
  next
    case (Inr x)
    note same = makedirs_Inr [OF mk [unfolded Inr]]
    then have "resolved (links_of d1) target" using res by (simp add: links_of_def)
    then have "old_or_new d1 target data (snd (write_atomic drv target data policy d1))"
      using False by (rule torn_free_write)
    with same have "contents (snd (write_atomic drv target data policy d1)) target \<in> {contents d target, Some data}"
      by (auto simp: old_or_new_def)
    with mk Inr target assms(3,4) show ?thesis
      by (auto simp: fs_write_bytes_def ensure_parent_def write_payload_def lift_sum_def bindP_def seqP_def
          split: prod.split sum.split)
  qed
qed

text \<open>
  C20. A write that replaces is never torn. In a namespace whose policy is to replace and
  not to encrypt (all but the plugin manifests, which are overwritten in place, the logs, which
  are appended to, and the secrets, whose data are encrypted first), whichever system call of a
  write fails, the file holds afterwards either all of what it held before or all of the new data.
\<close>

theorem replacing_write_never_torn:
  assumes "well_linked d" and "fs_policy m ns = Inr policy" and "np_write_mode policy = ATOMIC_REPLACE"
    and "\<not> np_encrypt policy" and "fs_resolve m ns rel d = Inr target"
  shows "contents (snd (fs_write_bytes cd drv m ns rel data d)) target \<in> {contents d target, Some data}"
  by (rule never_torn [OF assms])

section \<open>What is read after a write\<close>

lemma open_Inr:
  assumes "os_open drv p mode d = (Inr x, d')" and "follow d p = p"
  shows "dk_links d' = dk_links d \<and> dk_cwd d' = dk_cwd d \<and> (\<forall>q. q \<noteq> p \<longrightarrow> node_at d' q = node_at d q) \<and>
    (\<exists>bytes mode. node_at d' p = Some (File bytes mode))"
  using assms unfolding os_open_def
  by (cases "p = []") (auto simp: os_call_Inr bindP_def elim!: seqP_InrE split: option.splits node.splits if_splits)

lemma atomic_Inr:
  assumes "write_atomic drv target payload policy d = (Inr x, d')" and "resolved (links_of d) target"
  shows "dk_links d' = dk_links d \<and> dk_cwd d' = dk_cwd d \<and> contents d' target = Some payload \<and>
    (\<forall>p. length p < length target \<longrightarrow> node_at d' p = node_at d p)"
proof -
  let ?d = "d\<lparr>dk_calls := Suc (dk_calls d)\<rparr>" let ?temp = "temp_path ?d target"
  let ?t = "put_node ?temp (File [] 384) ?d"
  let ?body = "seqP (os_write drv ?temp (\<lambda>_. payload)) (seqP (os_fsync drv) (os_replace drv ?temp target))"
  from assms(1) obtain y d1 where body: "?body ?t = (Inr y, d1)"
    and chmod: "os_change drv target (\<lambda>bytes. bytes) (\<lambda>_. np_file_mode policy) d1 = (Inr x, d')"
    unfolding write_atomic_def os_mkstemp_def os_chmod_def
    by (auto simp: os_call_Inr try_except_def bindP_def seqP_def split: prod.splits sum.splits)
  have temp: "resolved (links_of ?t) ?temp"
    using temp_resolved [of ?d target] assms(2) by (simp add: links_of_def)
  have len: "length ?temp = length target \<or> target = []" by (cases target) (simp_all add: temp_path_def)
  have made: "node_at ?t ?temp = Some (File [] 384)" using temp_props(3) [of ?d target] by simp
  have "resolved (links_of ?t) target" using assms(2) by (simp add: links_of_def)
  note r = replacement [OF body temp this made temp_props(1)]
  have f: "follow d1 target = target"
    using r follow_resolved [OF assms(2)] follow_cong [of d1 d target] by simp
  from change_Inr [OF chmod f] r len show ?thesis by (auto simp: contents_def)
qed

lemma inplace_Inr:
  assumes "write_inplace_locked drv target payload policy d = (Inr x, d')" and "resolved (links_of d) target"
  shows "dk_links d' = dk_links d \<and> dk_cwd d' = dk_cwd d \<and> contents d' target = Some payload \<and>
    (\<forall>p. length p < length target \<longrightarrow> node_at d' p = node_at d p)"
proof -
  from assms(1) obtain d1 d2 d3 d4 x1 x2 x3 x4 where
    1: "os_open drv target (np_file_mode policy) d = (Inr x1, d1)"
    and 2: "os_change drv target (\<lambda>_. []) (\<lambda>mode. mode) d1 = (Inr x2, d2)"
    and 3: "os_change drv target (\<lambda>_. payload) (\<lambda>mode. mode) d2 = (Inr x3, d3)"
    and 4: "os_fsync drv d3 = (Inr x4, d4)"
    and 5: "os_change drv target (\<lambda>bytes. bytes) (\<lambda>_. np_file_mode policy) d4 = (Inr x, d')"
    unfolding write_inplace_locked_def os_write_def os_chmod_def by (elim seqP_InrE)
  have f: "follow e target = target" if "dk_links e = dk_links d" for e
    using follow_cong [OF that] follow_resolved [OF assms(2)] by simp
  note r1 = open_Inr [OF 1 f [OF refl]]
  note r2 = change_Inr [OF 2 f]
  note r3 = change_Inr [OF 3 f]
  have r4: "d4 = d3\<lparr>dk_calls := Suc (dk_calls d3)\<rparr>" using 4 by (simp add: os_fsync_def os_call_Inr)
  note r5 = change_Inr [OF 5 f]
  have l1: "dk_links d1 = dk_links d" using r1 by simp
  have l2: "dk_links d2 = dk_links d" using r2 l1 by simp
  have l3: "dk_links d3 = dk_links d" using r3 l2 by simp
  have l4: "dk_links d4 = dk_links d" using r4 l3 by simp
  from r1 r2 [OF l1] r3 [OF l2] r4 r5 [OF l4] show ?thesis
    by (auto simp: contents_def split: option.splits node.splits)
qed

lemma write_Inr:
  assumes "fs_write_bytes cd drv m ns rel data d = (Inr r, d')" and "well_linked d"
    and "fs_policy m ns = Inr policy" and "np_write_mode policy \<noteq> APPEND"
  obtains target nonce payload where "fs_resolve m ns rel d' = Inr target" "well_linked d'"
    "contents d' target = Some payload" "\<not> blocked d' target"
    "(if np_encrypt policy then encrypt_bytes cd nonce data else Inr data) = Inr payload"
proof -
  from assms(1,3) obtain target d1 x payload where
    target: "fs_resolve m ns rel d = Inr target"
    and mk: "os_makedirs drv (butlast target) d = (Inr x, d1)"
    and pay: "(if np_encrypt policy then encrypt_bytes cd (dk_calls d1) data else Inr data) = Inr payload"
    and wr: "write_payload drv target payload policy d1 = (Inr (), d')"
    by (cases rule: fs_target_cases [of m ns rel d])
      (auto simp: fs_write_bytes_def ensure_parent_def lift_sum_def bindP_def seqP_def
        split: prod.splits sum.splits if_splits)
  note same1 = makedirs_Inr [OF mk]
  have res: "resolved (links_of d) target" using fs_resolve_Inr target assms(2) by blast
  then have res1: "resolved (links_of d1) target" using same1 by (simp add: links_of_def)
  have same2: "dk_links d' = dk_links d1 \<and> dk_cwd d' = dk_cwd d1 \<and> contents d' target = Some payload \<and>
      (\<forall>p. length p < length target \<longrightarrow> node_at d' p = node_at d1 p)"
    using wr assms(4) atomic_Inr [OF _ res1] inplace_Inr [OF _ res1]
    by (auto simp: write_payload_def split: write_mode.splits)
  have all: "dk_links d' = dk_links d" "dk_cwd d' = dk_cwd d" using same1 same2 by simp_all
  have "\<not> is_file d' q" if "q \<in> set (parents target)" for q
  proof -
    from that obtain i where i: "Suc 0 \<le> i" "i < length target" "q = take i target" by (auto simp: parents_def)
    have "q \<in> set (parents (butlast target) @ [butlast target])"
    proof (cases "i = length target - 1")
      case True
      with i show ?thesis by (simp add: butlast_conv_take)
    next
      case False
      then have "i \<in> set [1..<length (butlast target)]" "q = take i (butlast target)"
        using i by (auto simp: butlast_conv_take)
      then show ?thesis unfolding parents_def by auto
    qed
    moreover have "length q < length target" using i by simp
    ultimately show ?thesis using same1 same2 by (auto simp: is_file_def)
  qed
  then have "\<not> blocked d' target" by (auto simp: blocked_def list_ex_iff)
  moreover have "fs_resolve m ns rel d' = Inr target"
    using target assms(3) by (simp add: fs_resolve_def Let_def realpath_cong [OF all] split: sum.splits if_splits)
  moreover have "well_linked d'" using assms(2) well_linked_cong [OF all] by simp
  ultimately show thesis using that pay same2 by blast
qed

text \<open>
  The contract of a store of texts: once writes have settled, a text that was written is what
  is read. What holds of the texts holds of the JSON values in them.
\<close>

locale text_files =
  fixes write_text :: "string \<Rightarrow> string \<Rightarrow> string \<Rightarrow> ('s, string) prog"
    and read_text :: "string \<Rightarrow> string \<Rightarrow> ('s, string) prog"
    and replaces :: "string \<Rightarrow> bool"
    and good :: "'s \<Rightarrow> bool" and settled :: "'s \<Rightarrow> bool"
  assumes read_written: "\<lbrakk>replaces ns; good s; write_text ns rel t s = (Inr r, s'); settled s'\<rbrakk> \<Longrightarrow>
      fst (read_text ns rel s') = Inr t"
begin

lemma json_written:
  assumes "replaces ns" and "good s" and "write_text ns rel (cd_dumps cd v) s = (Inr r, s')" and "settled s'"
    and "cd_loads cd (cd_dumps cd v) = Some v"
  shows "fst (load_json cd dflt (read_text ns rel) s') = Inr v"
proof -
  obtain t where "read_text ns rel s' = (Inr (cd_dumps cd v), t)"
    using read_written [OF assms(1-4)] by (metis prod.collapse)
  then show ?thesis using assms(5) by (simp add: load_json_def try_except_def bindP_def)
qed

end

definition codec_ok :: "codec \<Rightarrow> bool" where
  "codec_ok cd \<longleftrightarrow> (\<forall>t. cd_decode cd (cd_encode cd t) = Some t) \<and>
     (\<forall>n t. cd_decrypt cd (cd_encrypt cd n t) = Some t \<and> list_all (\<lambda>c. code c < 128) (cd_encrypt cd n t))"

text \<open>Before a write the links are resolved; after it no call fails.\<close>

definition disk_good :: "codec \<Rightarrow> disk \<Rightarrow> bool" where
  "disk_good cd d \<longleftrightarrow> codec_ok cd \<and> well_linked d"

definition disk_settled :: "os_driver \<Rightarrow> disk \<Rightarrow> bool" where
  "disk_settled drv d \<longleftrightarrow> (\<forall>n \<ge> dk_calls d. drv n = None)"

definition replaced_on_write :: "fs_manager \<Rightarrow> string \<Rightarrow> bool" where
  "replaced_on_write m ns \<longleftrightarrow> (case fs_policy m ns of Inl _ \<Rightarrow> False | Inr policy \<Rightarrow> np_write_mode policy \<noteq> APPEND)"

lemma read_settled:
  assumes "fs_resolve m ns rel d = Inr target" and "fs_policy m ns = Inr policy" and "well_linked d"
    and "contents d target = Some payload" and "\<not> blocked d target" and "disk_settled drv d"
  shows "fst (fs_read_bytes cd drv m ns rel d) =
    (if np_encrypt policy then decrypt_bytes cd payload else Inr payload)"
proof -
  have "follow d target = target" using fs_resolve_Inr [OF assms(1,3)] by (simp add: follow_resolved)
  moreover obtain mode where "node_at d target = Some (File payload mode)"
    using assms(4) by (auto simp: contents_def split: option.splits node.splits)
  moreover have "drv (dk_calls d) = None" using assms(6) by (simp add: disk_settled_def)
  ultimately show ?thesis
    using assms(1,2,5)
    by (simp add: fs_read_bytes_def fs_target_def os_read_def os_call_def lift_sum_def bindP_def seqP_def split: sum.split)
qed

interpretation disk_files: text_files
  "fs_write_text cd drv m" "fs_read_text cd drv m" "replaced_on_write m" "disk_good cd" "disk_settled drv"
  for cd drv m
proof unfold_locales
  fix ns rel t s r s'
  assume "replaced_on_write m ns" and good: "disk_good cd s"
    and run: "fs_write_text cd drv m ns rel t s = (Inr r, s')" and settled: "disk_settled drv s'"
  then obtain policy where policy: "fs_policy m ns = Inr policy" "np_write_mode policy \<noteq> APPEND"
    by (auto simp: replaced_on_write_def split: sum.splits)
  from good have cod: "codec_ok cd" and linked: "well_linked s" by (simp_all add: disk_good_def)
  obtain target nonce payload where w: "fs_resolve m ns rel s' = Inr target" "well_linked s'"
    "contents s' target = Some payload" "\<not> blocked s' target"
    and pay: "(if np_encrypt policy then encrypt_bytes cd nonce (cd_encode cd t) else Inr (cd_encode cd t)) = Inr payload"
    by (rule write_Inr [OF run [unfolded fs_write_text_def] linked policy])
  have "fst (fs_read_bytes cd drv m ns rel s') = Inr (cd_encode cd t)"
    using read_settled [OF w(1) policy(1) w(2,3,4) settled, of cd] pay cod
    by (auto simp: codec_ok_def encrypt_bytes_def decrypt_bytes_def decode_bytes_def split: if_splits)
  then show "fst (fs_read_text cd drv m ns rel s') = Inr t"
    using cod by (auto simp: fs_read_text_def then_decode_def bindP_def decode_bytes_def lift_sum_def codec_ok_def
        split: prod.split sum.split)
qed

interpretation memory_files: text_files
  "mem_write_text cd" "mem_read_text cd" "\<lambda>_. True" "\<lambda>_. codec_ok cd" "\<lambda>_. True"
  for cd
proof unfold_locales
  fix ns rel t s r s'
  assume cod: "codec_ok cd" and run: "mem_write_text cd ns rel t s = (Inr r, s')"
  from run have s': "s' = store_put (ns, normalised rel) (cd_encode cd t) s"
    and ok: "mem_key ns rel s = (Inr (ns, normalised rel), s)"
    by (auto simp: mem_write_text_def mem_write_bytes_def mem_key_def mem_check_def lift_sum_def seqP_def bindP_def
        split: sum.splits)
  then have "mem_key ns rel s' = (Inr (ns, normalised rel), s')"
    by (auto simp: mem_key_def mem_check_def mem_policy_def store_put_def lift_sum_def seqP_def bindP_def
        split: sum.splits)
  with s' cod show "fst (mem_read_text cd ns rel s') = Inr t"
    by (simp add: mem_read_text_def then_decode_def mem_read_bytes_def bindP_def store_get_def store_put_def
        update_conv' decode_bytes_def lift_sum_def codec_ok_def)
qed

section \<open>Writes succeed when nothing fails\<close>

lemma os_call_ok: "\<forall>n. drv n = None \<Longrightarrow> os_call drv d = (Inr (), d\<lparr>dk_calls := Suc (dk_calls d)\<rparr>)"
  by (simp add: os_call_def Let_def)

lemma change_ok: "\<forall>n. drv n = None \<Longrightarrow> \<exists>d'. os_change drv p f g d = (Inr (), d')"
  by (simp add: os_change_def seqP_def bindP_def os_call_ok)

lemma atomic_ok:
  assumes "\<forall>n. drv n = None" and "resolved (links_of d) target" and "node_at d target \<noteq> Some Dir"
  shows "\<exists>d'. write_atomic drv target payload policy d = (Inr (), d')"
proof -
  let ?d = "d\<lparr>dk_calls := Suc (dk_calls d)\<rparr>" let ?temp = "temp_path ?d target"
  let ?t = "put_node ?temp (File [] 384) ?d"
  have temp: "resolved (links_of ?t) ?temp"
    using temp_resolved [of ?d target] assms(2) by (simp add: links_of_def)
  obtain d1 where w: "os_change drv ?temp (\<lambda>_. payload) (\<lambda>mode. mode) ?t = (Inr (), d1)"
    using change_ok [OF assms(1)] by blast
  have made: "node_at ?t ?temp = Some (File [] 384)" using temp_props(3) [of ?d target] by simp
  note c = change_Inr [OF w follow_resolved [OF temp]]
  have "node_at d1 ?temp = Some (File payload 384)" using c made by simp
  moreover have "node_at d1 target \<noteq> Some Dir" using c assms(3) temp_props(1) [of ?d target] by auto
  moreover have temp1: "resolved (links_of d1) ?temp" and tgt1: "resolved (links_of d1) target"
    using temp assms(2) c by (simp_all add: links_of_def)
  ultimately obtain d2 where "seqP (os_fsync drv) (os_replace drv ?temp target) d1 = (Inr (), d2)"
    using temp1 tgt1 temp_props(3) [of ?d target] link_at_resolved
    by (cases "target = []")
      (auto simp: os_fsync_def os_replace_def seqP_def bindP_def os_call_ok [OF assms(1)])
  moreover obtain d3 where "os_chmod drv target (np_file_mode policy) d2 = (Inr (), d3)"
    using change_ok [OF assms(1)] unfolding os_chmod_def by blast
  ultimately have "write_atomic drv target payload policy d = (Inr (), d3)"
    using w by (simp add: write_atomic_def os_mkstemp_def os_write_def seqP_def bindP_def try_except_def os_call_ok [OF assms(1)])
  then show ?thesis by blast
qed

lemma write_ok:
  assumes "\<forall>n. drv n = None" and "well_linked d" and "fs_policy m ns = Inr policy"
    and "np_write_mode policy = ATOMIC_REPLACE" and "\<not> np_encrypt policy"
    and "fs_resolve m ns rel d = Inr target" and "node_at d target \<noteq> Some Dir"
    and "list_all (\<lambda>q. \<not> is_file d q) (parents (butlast target) @ [butlast target])"
    and "target \<notin> set (parents (butlast target) @ [butlast target])"
  shows "\<exists>d'. fs_write_bytes cd drv m ns rel data d = (Inr rel, d')"
proof -
  let ?qs = "parents (butlast target) @ [butlast target]"
  let ?d = "foldl (\<lambda>d q. make_dir q d) (d\<lparr>dk_calls := Suc (dk_calls d)\<rparr>) ?qs"
  have mk: "os_makedirs drv (butlast target) d = (Inr (), ?d)"
    using assms(8) unfolding os_makedirs_def seqP_def bindP_def os_call_ok [OF assms(1)]
    by (simp add: list_ex_iff list_all_iff del: foldl_append)
  have "resolved (links_of ?d) target"
    using fs_resolve_Inr [OF assms(6,2)] by (simp only: links_of_def make_dirs_sel) (simp add: links_of_def)
  moreover have "node_at ?d target \<noteq> Some Dir" using assms(7,9) unfolding make_dirs_nodes by simp
  ultimately obtain d' where "write_atomic drv target data policy ?d = (Inr (), d')"
    using atomic_ok [OF assms(1)] by blast
  with mk assms(3-6) show ?thesis
    by (simp add: fs_write_bytes_def fs_target_def ensure_parent_def write_payload_def lift_sum_def seqP_def bindP_def)
qed

section \<open>A concrete codec and disk\<close>

instance json :: countable
  by countable_datatype

text \<open>
  A text is marked with one byte, a value is its number in unary: a codec that meets the laws.
\<close>

definition json_codec_ok :: "codec \<Rightarrow> bool" where
  "json_codec_ok cd \<longleftrightarrow> codec_ok cd \<and> (\<forall>v. cd_loads cd (cd_dumps cd v) = Some v)"

definition demo_codec :: codec where
  "demo_codec =
     \<lparr>cd_encode = (\<lambda>t. CHR ''u'' # t),
      cd_decode = (\<lambda>s. case s of c # cs \<Rightarrow> if c = CHR ''u'' then Some cs else None | [] \<Rightarrow> None),
      cd_dumps = (\<lambda>v. replicate (to_nat v) (CHR ''x'')),
      cd_loads = (\<lambda>s. if set s \<subseteq> {CHR ''x''} then Some (from_nat (length s)) else None),
      cd_encrypt = (\<lambda>_ t. replicate (to_nat t) (CHR ''x'')),
      cd_decrypt = (\<lambda>s. Some (from_nat (length s)))\<rparr>"

lemma demo_codec_ok: "json_codec_ok demo_codec"
  by (auto simp: json_codec_ok_def codec_ok_def demo_codec_def list_all_iff code_def)

definition demo_manager :: fs_manager where
  "demo_manager = \<lparr>fm_namespaces = build_default_namespaces None, fm_var_root = [''var''],
     fm_uploads_root = [''uploads''], fm_roots = []\<rparr>"

definition empty_disk :: disk where
  "empty_disk = \<lparr>dk_nodes = [], dk_links = [], dk_cwd = [], dk_calls = 0\<rparr>"

text \<open>The shop's directory has a link to a directory outside.\<close>

definition linked_disk :: disk where
  "linked_disk = empty_disk\<lparr>dk_links := [([''var'', ''shop'', ''out''], [''etc''])],
     dk_nodes := [([''etc''], Dir), ([''etc'', ''passwd''], File ''root'' 420)]\<rparr>"

lemma linked_facts: "namespace_dir demo_manager ''shop'' linked_disk = [''var'', ''shop'']"
  "no_odd_links [''var'', ''shop''] linked_disk"
  by code_simp+

lemma linked_disk_ok: "well_linked linked_disk" "contents linked_disk [''etc'', ''passwd''] = Some ''root''"
  by (simp_all add: well_linked_def linked_disk_def empty_disk_def links_of_def resolved_def plain_name_def
      contents_def node_at_def)


lemma empty_facts: "well_linked empty_disk" "no_odd_links root empty_disk"
  "resolved (links_of empty_disk) (fm_var_root demo_manager @ [''shop''])"
  "resolved (links_of empty_disk) (fm_var_root demo_manager @ [''blog''])"
  "fs_for_plugin demo_manager ''shop'' = Inr ''shop''" "fs_for_plugin demo_manager ''blog'' = Inr ''blog''"
  "fs_policy demo_manager ''core'' = Inr (var_policy ATOMIC_REPLACE)"
  "fs_resolve demo_manager ''core'' ''a.json'' empty_disk = Inr [''var'', ''core'', ''a.json'']"
  by (simp_all add: well_linked_def empty_disk_def links_of_def resolved_def plain_name_def no_odd_links_def
      demo_manager_def) code_simp+


text \<open>The call that writes the temporary file fails.\<close>

theorem replacing_write_never_torn_witness:
  "contents (snd (fs_write_bytes demo_codec (\<lambda>n. if n = 2 then Some (OtherError ''ENOSPC'') else None)
     demo_manager ''core'' ''a.json'' ''data'' empty_disk)) [''var'', ''core'', ''a.json''] \<in> {None, Some ''data''}"
  using replacing_write_never_torn [OF empty_facts(1,7) _ _ empty_facts(8), of demo_codec _ "''data''"]
  by (simp add: var_policy_def contents_def node_at_def empty_disk_def)

end
