(* ===== verification/Settings.thy ===== *)
theory Settings
  imports FileFlow
begin

text \<open>
  The stores of settings on top of the managed files: the core settings
  (\<open>vbwd/services/core_settings_store.py\<close>) with their admin routes
  (\<open>routes/admin/settings.py\<close>), and the rate limits of the authentication routes
  (\<open>services/core_rate_limits_store.py\<close>). The manager of the process is a parameter, and so is
  the provider of the currency catalog.
\<close>

section \<open>The schema\<close>

definition prices_display_modes :: "json list" where
  "prices_display_modes = [JStr ''brutto'', JStr ''netto'']"

definition prices_db_modes :: "json list" where
  "prices_db_modes = [JStr ''NETTO'', JStr ''BRUTTO'']"

definition cross_rate_bases :: "json list" where
  "cross_rate_bases = [JStr ''default'', JStr ''usd'']"

definition default_core_settings :: json_dict where
  "default_core_settings =
     [(''provider_name'', JStr []), (''site_name'', JStr []), (''contact_email'', JStr []),
      (''website_url'', JStr []), (''other_links'', JStr []), (''address_street'', JStr []),
      (''address_city'', JStr []), (''address_postal_code'', JStr []), (''address_country'', JStr []),
      (''bank_name'', JStr []), (''bank_iban'', JStr []), (''bank_bic'', JStr []),
      (''prices_display_mode'', JStr ''brutto''), (''prices_mode_in_db'', JStr ''NETTO''),
      (''default_currency'', JStr ''EUR''), (''active_currencies'', JList [JStr ''EUR'']),
      (''cross_rate_base'', JStr ''default'')]"

section \<open>Validators\<close>

text \<open>The text of a tuple.\<close>

definition tuple_repr :: "json list \<Rightarrow> string" where
  "tuple_repr vs = ''('' @ comma_sep (map jrepr vs) @ '')''"

definition validate_member :: "string \<Rightarrow> json list \<Rightarrow> json \<Rightarrow> exn + unit" where
  "validate_member key members v =
     (if v \<in> set members then Inr ()
      else Inl (ValueError (key @ '' must be one of '' @ tuple_repr members @ '', got '' @ jrepr v)))"

definition validate_prices_display_mode :: "json \<Rightarrow> exn + unit" where
  "validate_prices_display_mode = validate_member ''prices_display_mode'' prices_display_modes"

definition validate_prices_mode_in_db :: "json \<Rightarrow> exn + unit" where
  "validate_prices_mode_in_db = validate_member ''prices_mode_in_db'' prices_db_modes"

definition validate_cross_rate_base :: "json \<Rightarrow> exn + unit" where
  "validate_cross_rate_base = validate_member ''cross_rate_base'' cross_rate_bases"

text \<open>
  A letter that is its own upper case: besides A to Z, the accented capitals and the two
  ordinal signs of Latin-1.
\<close>

definition is_capital :: "char \<Rightarrow> bool" where
  "is_capital c \<longleftrightarrow> is_upper_char c \<or> code c = 170 \<or> code c = 186 \<or>
     (192 \<le> code c \<and> code c \<le> 222 \<and> code c \<noteq> 215)"

definition is_iso_code :: "json \<Rightarrow> bool" where
  "is_iso_code v = (case v of JStr s \<Rightarrow> length s = 3 \<and> list_all is_capital s | _ \<Rightarrow> False)"

definition validate_default_currency :: "string list option \<Rightarrow> json \<Rightarrow> exn + unit" where
  "validate_default_currency catalog v =
     (if \<not> is_iso_code v
      then Inl (ValueError (''default_currency must be an uppercase ISO-3 code, got '' @ jrepr v))
      else case catalog of
          None \<Rightarrow> Inr ()
        | Some codes \<Rightarrow>
            if jstr v \<notin> set codes
            then Inl (ValueError (''default_currency '' @ jrepr v @ '' is not in the currency catalog''))
            else Inr ())"

definition validate_active_currencies :: "string list option \<Rightarrow> json \<Rightarrow> exn + unit" where
  "validate_active_currencies catalog v =
     (let bad = Inl (ValueError (''active_currencies must be a list of uppercase ISO-3 codes, got '' @ jrepr v)) in
      case v of
        JList items \<Rightarrow>
          if \<not> list_all is_iso_code items then bad
          else (case catalog of
              None \<Rightarrow> Inr ()
            | Some codes \<Rightarrow>
                (let unknown = filter (\<lambda>i. jstr i \<notin> set codes) items in
                 if unknown \<noteq> []
                 then Inl (ValueError (''active_currencies contains codes not in the catalog: '' @ jrepr (JList unknown)))
                 else Inr ()))
      | _ \<Rightarrow> bad)"

definition key_validator :: "string list option \<Rightarrow> string \<Rightarrow> json \<Rightarrow> exn + unit" where
  "key_validator catalog key v =
     (if key = ''prices_display_mode'' then validate_prices_display_mode v
      else if key = ''prices_mode_in_db'' then validate_prices_mode_in_db v
      else if key = ''cross_rate_base'' then validate_cross_rate_base v
      else if key = ''default_currency'' then validate_default_currency catalog v
      else if key = ''active_currencies'' then validate_active_currencies catalog v
      else Inr ())"

text \<open>\<open>v in w\<close> for values: a list, a string, or the keys of a dict.\<close>

definition json_in :: "json \<Rightarrow> json \<Rightarrow> exn + bool" where
  "json_in v w =
     (case w of
        JList vs \<Rightarrow> Inr (v \<in> set vs)
      | JStr s \<Rightarrow> (case v of JStr p \<Rightarrow> Inr (contains p s) | _ \<Rightarrow> Inl (TypeError ''requires string as left operand''))
      | JObj d \<Rightarrow> (case v of JStr k \<Rightarrow> Inr (has_key k d) | _ \<Rightarrow> Inr False)
      | _ \<Rightarrow> Inl (TypeError ''argument is not iterable''))"

definition validate_default_is_active :: "json_dict \<Rightarrow> exn + unit" where
  "validate_default_is_active merged =
     (let default_code = jget merged ''default_currency''; active = jget_or merged ''active_currencies'' (JList []) in
      case json_in default_code active of
        Inl e \<Rightarrow> Inl e
      | Inr True \<Rightarrow> Inr ()
      | Inr False \<Rightarrow> Inl (ValueError (''default_currency '' @ jrepr default_code @
          '' must be a member of active_currencies '' @ jrepr active)))"

section \<open>The store\<close>

definition merge_settings :: "json \<Rightarrow> json_dict" where
  "merge_settings loaded =
     dict_update default_core_settings (case loaded of JObj d \<Rightarrow> d | _ \<Rightarrow> [])"

definition get_core_settings :: "codec \<Rightarrow> os_driver \<Rightarrow> fs_manager \<Rightarrow> (disk, json_dict) prog" where
  "get_core_settings cd drv m =
     bindP (fs_read_json cd drv m ''core'' ''vbwd_settings.json'' JNull) (\<lambda>loaded. ret (merge_settings loaded))"

definition get_default_currency :: "codec \<Rightarrow> os_driver \<Rightarrow> fs_manager \<Rightarrow> (disk, json) prog" where
  "get_default_currency cd drv m =
     bindP (get_core_settings cd drv m) (\<lambda>settings. ret (jget settings ''default_currency''))"

fun validate_known :: "string list option \<Rightarrow> json_dict \<Rightarrow> exn + unit" where
  "validate_known catalog [] = Inr ()"
| "validate_known catalog ((k, v) # kvs) =
     (case key_validator catalog k v of Inl e \<Rightarrow> Inl e | Inr _ \<Rightarrow> validate_known catalog kvs)"

definition known_settings :: "json_dict \<Rightarrow> json_dict" where
  "known_settings data = filter (\<lambda>(k, _). has_key k default_core_settings) data"

definition update_core_settings ::
  "codec \<Rightarrow> os_driver \<Rightarrow> fs_manager \<Rightarrow> string list option \<Rightarrow> json_dict \<Rightarrow> (disk, json_dict) prog" where
  "update_core_settings cd drv m catalog data =
     (let known = known_settings data in
      bindP (lift_sum (validate_known catalog known)) (\<lambda>_.
      bindP (get_core_settings cd drv m) (\<lambda>stored.
      let current = dict_update stored known in
      bindP (lift_sum (validate_default_is_active current)) (\<lambda>_.
      seqP (fs_write_json cd drv m ''core'' ''vbwd_settings.json'' (JObj current)) (ret current)))))"

section \<open>The routes\<close>

definition get_settings_route :: "codec \<Rightarrow> os_driver \<Rightarrow> fs_manager \<Rightarrow> (disk, nat \<times> json_dict) prog" where
  "get_settings_route cd drv m =
     bindP (get_core_settings cd drv m) (\<lambda>settings. ret (200, [(''settings'', JObj settings)]))"

definition is_value_error :: "exn \<Rightarrow> bool" where
  "is_value_error e = (case e of ValueError _ \<Rightarrow> True | _ \<Rightarrow> False)"

definition update_settings_route :: "('w, json_dict) prog \<Rightarrow> ('w, nat \<times> json_dict) prog" where
  "update_settings_route updating =
     try_except
       (bindP updating (\<lambda>updated.
          ret (200, [(''settings'', JObj updated), (''message'', JStr ''Settings updated successfully'')])))
       (\<lambda>e. if is_value_error e then ret (400, [(''error'', JStr (exn_str e))]) else raise e)"

section \<open>Rate limits\<close>

definition default_auth_rate_limits :: json_dict where
  "default_auth_rate_limits =
     [(''register'', JStr ''15 per minute''), (''login'', JStr ''30 per minute''),
      (''check_email'', JStr ''60 per minute''), (''forgot_password'', JStr ''10 per minute''),
      (''reset_password'', JStr ''10 per minute'')]"

definition merge_rate_limits :: "json \<Rightarrow> json_dict" where
  "merge_rate_limits loaded =
     (case loaded of
        JObj d \<Rightarrow> map (\<lambda>(k, v). (k, jget_or d k v)) default_auth_rate_limits
      | _ \<Rightarrow> default_auth_rate_limits)"

definition get_auth_rate_limits :: "codec \<Rightarrow> os_driver \<Rightarrow> fs_manager \<Rightarrow> (disk, json_dict) prog" where
  "get_auth_rate_limits cd drv m =
     bindP (fs_read_json cd drv m ''core'' ''rate_limits.json'' JNull) (\<lambda>loaded. ret (merge_rate_limits loaded))"

text \<open>The default is looked up before the file's value, so an unknown name is always an error.\<close>

definition get_auth_rate_limit :: "codec \<Rightarrow> os_driver \<Rightarrow> fs_manager \<Rightarrow> string \<Rightarrow> (disk, json) prog" where
  "get_auth_rate_limit cd drv m name =
     bindP (get_auth_rate_limits cd drv m) (\<lambda>limits.
       case map_of default_auth_rate_limits name of
         None \<Rightarrow> raise (KeyError name)
       | Some v \<Rightarrow> ret (jget_or limits name v))"

end
