(* ===== verification/SettingsFlow.thy ===== *)
theory SettingsFlow
  imports Settings
begin

text \<open>
  Properties of the settings stores: what is saved is read back, and whatever updates are
  made, with whatever faults, the settings that are read are valid.
\<close>

section \<open>Reading\<close>

text \<open>A read changes the counter of system calls only.\<close>

definition only_calls :: "disk \<Rightarrow> disk \<Rightarrow> bool" where
  "only_calls d e \<longleftrightarrow> dk_nodes e = dk_nodes d \<and> dk_links e = dk_links d \<and> dk_cwd e = dk_cwd d"

lemma only_calls_refl: "only_calls d d"
  by (simp add: only_calls_def)

lemmas only_call = keeps_os_call [of "only_calls d" for d]

lemma keeps_only_target: "keeps (only_calls d) (fs_target m ns rel)"
proof (rule keepsI)
  fix e assume "only_calls d e"
  then show "only_calls d (snd (fs_target m ns rel e))" by (cases rule: fs_target_cases [of m ns rel e]) simp_all
qed

lemma keeps_only_read: "keeps (only_calls d) (os_read drv p)"
  unfolding os_read_def
  by (rule only_call) (auto simp: only_calls_def intro!: keeps_bindP keeps_gets split: option.split node.split)

lemma keeps_read_bytes: "keeps (only_calls d) (fs_read_bytes cd drv m ns rel)"
  unfolding fs_read_bytes_def
  by (rule keeps_bindP [OF keeps_only_target]) (auto intro!: keeps_bindP keeps_only_read keeps_lift_sum)

lemma keeps_read_json: "keeps (only_calls d) (fs_read_json cd drv m ns rel dflt)"
  unfolding fs_read_json_def load_json_def fs_read_text_def then_decode_def
  by (intro keeps_try keeps_bindP keeps_read_bytes keeps_lift_sum keeps_ret) (auto split: exn.split)

lemma read_only:
  "fs_read_json cd drv m ns rel dflt d = (r, d') \<Longrightarrow> only_calls d d'"
  using keepsD [OF keeps_read_json only_calls_refl] .

text \<open>A read that returns has read the file, or found none.\<close>

lemma read_json_Inr:
  assumes "fs_read_json cd drv m ns rel dflt d = (Inr v, d')" and "well_linked d"
    and "fs_policy m ns = Inr policy" and "\<not> np_encrypt policy"
  obtains (none) "v = dflt"
  | (some) target bytes t where "fs_resolve m ns rel d = Inr target" "contents d target = Some bytes"
      "cd_decode cd bytes = Some t" "cd_loads cd t = Some v"
proof -
  from assms(1) consider "v = dflt" | t d1 where "fs_read_text cd drv m ns rel d = (Inr t, d1)" "cd_loads cd t = Some v"
    by (auto simp: fs_read_json_def load_json_def try_except_def bindP_def split: prod.splits sum.splits exn.splits option.splits)
  then show thesis
  proof cases
    case (2 t d1)
    from 2(1) obtain bytes d2 where bytes: "fs_read_bytes cd drv m ns rel d = (Inr bytes, d2)" "cd_decode cd bytes = Some t"
      by (auto simp: fs_read_text_def then_decode_def decode_bytes_def lift_sum_def elim!: bindP_InrE split: sum.splits option.splits)
    from bytes(1) obtain target where target: "fs_resolve m ns rel d = Inr target"
      and rd: "os_read drv target d = (Inr bytes, d2)"
      using assms(3,4)
      by (cases rule: fs_target_cases [of m ns rel d])
        (auto simp: fs_read_bytes_def bindP_def split: prod.splits sum.splits if_splits)
    have "follow d target = target" using fs_resolve_Inr [OF target assms(2)] by (simp add: follow_resolved)
    with rd have "contents d target = Some bytes"
      by (auto simp: os_read_def os_call_Inr bindP_def contents_def elim!: seqP_InrE split: option.splits node.splits if_splits)
    then show thesis using some target bytes(2) 2(2) by blast
  qed (rule none)
qed

section \<open>Saved settings are read back\<close>

lemma map_of_rev_distinct:
  assumes "distinct (map fst d)"
  shows "map_of (rev d) = map_of d"
proof
  fix k
  have "distinct (map fst (rev d))" using assms by (simp add: rev_map [symmetric])
  then have "map_of (rev d) k = Some v \<longleftrightarrow> map_of d k = Some v" for v
    using assms by (simp add: map_of_eq_Some_iff)
  then show "map_of (rev d) k = map_of d k" by (metis not_None_eq)
qed

lemma default_distinct: "distinct (map fst default_core_settings)"
  by (simp add: default_core_settings_def)

lemma merge_distinct: "distinct (map fst (merge_settings v))"
  by (simp add: merge_settings_def distinct_dict_update default_distinct)

lemma map_of_merge:
  "distinct (map fst c) \<Longrightarrow> map_of (merge_settings (JObj c)) k =
     (case map_of c k of None \<Rightarrow> map_of default_core_settings k | Some v \<Rightarrow> Some v)"
  by (simp add: merge_settings_def map_of_dict_update map_of_rev_distinct)

lemma has_default: "map_of default_core_settings k \<noteq> None \<Longrightarrow> map_of (merge_settings v) k \<noteq> None"
  by (auto simp: merge_settings_def map_of_dict_update split: option.split)

lemma update_Inr:
  assumes "update_core_settings cd drv m catalog data d = (Inr current, d')"
  obtains loaded d1 where "validate_known catalog (known_settings data) = Inr ()"
    "fs_read_json cd drv m ''core'' ''vbwd_settings.json'' JNull d = (Inr loaded, d1)"
    "current = dict_update (merge_settings loaded) (known_settings data)"
    "validate_default_is_active current = Inr ()"
    "fst (fs_write_json cd drv m ''core'' ''vbwd_settings.json'' (JObj current) d1) \<in> range Inr"
    "snd (fs_write_json cd drv m ''core'' ''vbwd_settings.json'' (JObj current) d1) = d'"
  using assms
  by (auto simp: update_core_settings_def get_core_settings_def Let_def lift_sum_def
      elim!: bindP_InrE seqP_InrE split: sum.splits)

lemma current_distinct: "distinct (map fst (dict_update (merge_settings loaded) kvs))"
  by (intro distinct_dict_update merge_distinct)

lemma good_after_read:
  assumes "only_calls d d1" and "codec_ok cd" and "well_linked d"
  shows "disk_good cd d1"
  using assms by (simp add: disk_good_def well_linked_def links_of_def only_calls_def)

lemma get_after_read:
  assumes "fst (fs_read_json cd drv m ''core'' ''vbwd_settings.json'' JNull d) = Inr v"
  shows "fst (get_core_settings cd drv m d) = Inr (merge_settings v)"
  using assms by (cases "fs_read_json cd drv m ''core'' ''vbwd_settings.json'' JNull d")
    (simp add: get_core_settings_def bindP_def)

lemma merge_saved:
  "map_of (merge_settings (JObj (dict_update (merge_settings loaded) kvs))) = map_of (dict_update (merge_settings loaded) kvs)"
proof
  fix k
  show "map_of (merge_settings (JObj (dict_update (merge_settings loaded) kvs))) k =
      map_of (dict_update (merge_settings loaded) kvs) k"
    unfolding map_of_merge [OF current_distinct] unfolding map_of_dict_update
    using has_default [of k loaded] by (cases "map_of default_core_settings k") (auto split: option.split)
qed

text \<open>
  C22. Settings that are saved are read back. After an update that returned, whatever was stored
  before, and when no system call fails any more, reading the settings gives for every key
  exactly the value the update answered with.
\<close>

theorem settings_read_back:
  assumes "update_core_settings cd drv m catalog data d = (Inr current, d')"
    and "codec_ok cd" and "well_linked d" and "replaced_on_write m ''core''"
    and "\<And>v. cd_loads cd (cd_dumps cd v) = Some v" and "disk_settled drv d'"
  shows "\<exists>settings. fst (get_core_settings cd drv m d') = Inr settings \<and> map_of settings = map_of current"
  using assms(1)
proof (rule update_Inr)
  fix loaded d1
  let ?ns = "''core''" and ?rel = "''vbwd_settings.json''"
  assume rd: "fs_read_json cd drv m ?ns ?rel JNull d = (Inr loaded, d1)"
    and current: "current = dict_update (merge_settings loaded) (known_settings data)"
    and wr: "fst (fs_write_json cd drv m ?ns ?rel (JObj current) d1) \<in> range Inr"
      "snd (fs_write_json cd drv m ?ns ?rel (JObj current) d1) = d'"
  from wr obtain r where "fs_write_json cd drv m ?ns ?rel (JObj current) d1 = (Inr r, d')"
    by (cases "fs_write_json cd drv m ?ns ?rel (JObj current) d1") auto
  then have w: "fs_write_text cd drv m ?ns ?rel (cd_dumps cd (JObj current)) d1 = (Inr r, d')"
    by (simp only: fs_write_json_def)
  have good: "disk_good cd d1" by (rule good_after_read [OF read_only [OF rd] assms(2,3)])
  have "fst (fs_read_json cd drv m ?ns ?rel JNull d') = Inr (JObj current)"
    unfolding fs_read_json_def
    by (rule disk_files.json_written [OF assms(4) good w assms(6) assms(5)])
  then have "fst (get_core_settings cd drv m d') = Inr (merge_settings (JObj current))"
    by (rule get_after_read)
  moreover have "map_of (merge_settings (JObj current)) = map_of current" unfolding current by (rule merge_saved)
  ultimately show ?thesis by blast
qed

section \<open>Settings are always valid\<close>

text \<open>
  What the rest of the program relies on: a default currency that is active, active currencies
  that are codes, and modes out of their enumerations.
\<close>

definition mode_ok :: "(string \<Rightarrow> json option) \<Rightarrow> string \<Rightarrow> json list \<Rightarrow> bool" where
  "mode_ok f key members \<longleftrightarrow> (case f key of None \<Rightarrow> False | Some v \<Rightarrow> v \<in> set members)"

definition currencies_ok :: "(string \<Rightarrow> json option) \<Rightarrow> bool" where
  "currencies_ok f \<longleftrightarrow>
     (case (f ''active_currencies'', f ''default_currency'') of
        (Some (JList active), Some cur) \<Rightarrow> list_all is_iso_code active \<and> cur \<in> set active
      | _ \<Rightarrow> False)"

definition valid_lookup :: "(string \<Rightarrow> json option) \<Rightarrow> bool" where
  "valid_lookup f \<longleftrightarrow> mode_ok f ''prices_display_mode'' prices_display_modes \<and>
     mode_ok f ''prices_mode_in_db'' prices_db_modes \<and> mode_ok f ''cross_rate_base'' cross_rate_bases \<and>
     currencies_ok f"

definition valid_settings :: "json_dict \<Rightarrow> bool" where
  "valid_settings c \<longleftrightarrow> distinct (map fst c) \<and> valid_lookup (map_of c)"

lemma default_valid: "valid_settings (merge_settings JNull)"
  by code_simp

lemma valid_extends:
  assumes "valid_lookup f" and "\<And>k. f k \<noteq> None \<Longrightarrow> g k = f k"
  shows "valid_lookup g"
proof -
  have "g k = f k" if "f k \<noteq> None" for k using assms(2) that .
  moreover have "f ''prices_display_mode'' \<noteq> None" "f ''prices_mode_in_db'' \<noteq> None"
    "f ''cross_rate_base'' \<noteq> None" "f ''active_currencies'' \<noteq> None" "f ''default_currency'' \<noteq> None"
    using assms(1) by (auto simp: valid_lookup_def mode_ok_def currencies_ok_def split: option.splits json.splits)
  ultimately show ?thesis using assms(1) by (simp add: valid_lookup_def mode_ok_def currencies_ok_def)
qed

lemma validate_known_Inr:
  "validate_known catalog kvs = Inr () \<Longrightarrow> (k, v) \<in> set kvs \<Longrightarrow> key_validator catalog k v = Inr ()"
  by (induction catalog kvs rule: validate_known.induct) (auto split: sum.splits)

lemma validated:
  assumes "validate_known catalog kvs = Inr ()" and "map_of (rev kvs) k = Some v"
  shows "key_validator catalog k v = Inr ()"
  using validate_known_Inr [OF assms(1)] map_of_SomeD [OF assms(2)] by simp

lemma mode_updated:
  assumes "mode_ok (map_of c) key members" and "validate_known catalog kvs = Inr ()"
    and "\<And>v. key_validator catalog key v = Inr () \<Longrightarrow> v \<in> set members"
  shows "mode_ok (map_of (dict_update c kvs)) key members"
  using assms(1,3) validated [OF assms(2), of key]
  by (cases "map_of (rev kvs) key") (auto simp: mode_ok_def map_of_dict_update)

lemma member_Inr: "validate_member key members v = Inr () \<Longrightarrow> v \<in> set members"
  by (simp add: validate_member_def split: if_splits)

lemma active_Inr:
  "validate_active_currencies catalog v = Inr () \<Longrightarrow> \<exists>items. v = JList items \<and> list_all is_iso_code items"
  by (cases v) (auto simp: validate_active_currencies_def Let_def split: if_splits)

lemma currencies_updated:
  assumes "currencies_ok (map_of c)" and "validate_known catalog kvs = Inr ()"
    and "validate_default_is_active (dict_update c kvs) = Inr ()"
  shows "currencies_ok (map_of (dict_update c kvs))"
proof -
  let ?f = "map_of (dict_update c kvs)"
  from assms(1) obtain active0 code0 where old: "map_of c ''active_currencies'' = Some (JList active0)"
    "map_of c ''default_currency'' = Some code0" "list_all is_iso_code active0"
    unfolding currencies_ok_def by (auto split: option.splits json.splits)
  obtain active where active: "?f ''active_currencies'' = Some (JList active)" "list_all is_iso_code active"
  proof (cases "map_of (rev kvs) ''active_currencies''")
    case None
    with old that show ?thesis by (simp add: map_of_dict_update)
  next
    case (Some v)
    with validated [OF assms(2) this] active_Inr [of catalog v] that show ?thesis
      by (auto simp: key_validator_def map_of_dict_update)
  qed
  obtain code where code: "?f ''default_currency'' = Some code"
    using old by (cases "map_of (rev kvs) ''default_currency''") (simp_all add: map_of_dict_update)
  have "code \<in> set active"
    using assms(3) active code
    by (simp add: validate_default_is_active_def jget_def jget_or_def json_in_def split: if_splits bool.splits)
  with active code show ?thesis by (simp add: currencies_ok_def)
qed

lemma update_valid:
  assumes "valid_settings c" and "validate_known catalog kvs = Inr ()"
    and "validate_default_is_active (dict_update c kvs) = Inr ()"
  shows "valid_settings (dict_update c kvs)"
  using assms(1) currencies_updated [OF _ assms(2,3)] unfolding valid_settings_def valid_lookup_def
  by (auto intro!: mode_updated [OF _ assms(2)] member_Inr distinct_dict_update simp: key_validator_def
      validate_prices_display_mode_def validate_prices_mode_in_db_def validate_cross_rate_base_def)

lemma merge_valid:
  assumes "valid_settings c"
  shows "valid_settings (merge_settings (JObj c))"
proof -
  have d: "distinct (map fst c)" using assms by (simp add: valid_settings_def)
  have "map_of c k \<noteq> None \<Longrightarrow> map_of (merge_settings (JObj c)) k = map_of c k" for k
    unfolding map_of_merge [OF d] by (auto split: option.split)
  moreover have "valid_lookup (map_of c)" using assms by (simp add: valid_settings_def)
  ultimately have "valid_lookup (map_of (merge_settings (JObj c)))" by (rule valid_extends [rotated])
  then show ?thesis by (simp add: valid_settings_def merge_distinct)
qed

text \<open>The file, when there is one, holds valid settings.\<close>

definition file_valid :: "codec \<Rightarrow> fs_manager \<Rightarrow> disk \<Rightarrow> bool" where
  "file_valid cd m d \<longleftrightarrow> well_linked d \<and>
     (\<forall>target. fs_resolve m ''core'' ''vbwd_settings.json'' d = Inr target \<longrightarrow>
        contents d target = None \<or>
        (\<exists>c. valid_settings c \<and> contents d target = Some (cd_encode cd (cd_dumps cd (JObj c)))))"

lemma resolve_cong:
  assumes "dk_links d' = dk_links d" and "dk_cwd d' = dk_cwd d"
  shows "fs_resolve m ns rel d' = fs_resolve m ns rel d"
  unfolding fs_resolve_def Let_def realpath_cong [OF assms] ..

lemma file_valid_calls: "only_calls d e \<Longrightarrow> file_valid cd m d \<Longrightarrow> file_valid cd m e"
proof -
  assume o: "only_calls d e" and v: "file_valid cd m d"
  from o have same: "dk_links e = dk_links d" "dk_cwd e = dk_cwd d" by (simp_all add: only_calls_def)
  moreover have "contents e p = contents d p" for p using o by (simp add: only_calls_def contents_def node_at_def)
  ultimately show ?thesis
    using v by (simp add: file_valid_def resolve_cong [OF same] well_linked_cong [OF same])
qed

lemma valid_read:
  assumes "fs_read_json cd drv m ''core'' ''vbwd_settings.json'' JNull d = (Inr loaded, d')"
    and "file_valid cd m d" and "json_codec_ok cd"
    and "fs_policy m ''core'' = Inr policy" and "\<not> np_encrypt policy"
  shows "valid_settings (merge_settings loaded)"
proof -
  have "well_linked d" using assms(2) by (simp add: file_valid_def)
  from assms(1) this assms(4,5) show ?thesis
  proof (cases rule: read_json_Inr)
    case none
    then show ?thesis using default_valid by simp
  next
    case (some target bytes t)
    with assms(2) obtain c where c: "valid_settings c" "bytes = cd_encode cd (cd_dumps cd (JObj c))"
      unfolding file_valid_def by fastforce
    from assms(3) have "cd_decode cd bytes = Some (cd_dumps cd (JObj c))"
      "cd_loads cd (cd_dumps cd (JObj c)) = Some (JObj c)"
      unfolding c json_codec_ok_def codec_ok_def by blast+
    with some have "loaded = JObj c" by simp
    with c show ?thesis by (simp add: merge_valid)
  qed
qed

text \<open>A write of valid settings, whatever fails in it.\<close>

lemma valid_write:
  assumes "file_valid cd m d" and "valid_settings c"
    and "fs_policy m ''core'' = Inr policy" and "np_write_mode policy = ATOMIC_REPLACE" and "\<not> np_encrypt policy"
  shows "file_valid cd m (snd (fs_write_json cd drv m ''core'' ''vbwd_settings.json'' (JObj c) d))"
proof -
  let ?data = "cd_encode cd (cd_dumps cd (JObj c))"
  let ?d = "snd (fs_write_bytes cd drv m ''core'' ''vbwd_settings.json'' ?data d)"
  have linked: "well_linked d" using assms(1) by (simp add: file_valid_def)
  have "within d (namespace_dir m ''core'' d) ?d"
    using keeps_write_bytes [OF linked] within_refl by (simp add: keeps_def)
  then have same: "dk_links ?d = dk_links d" "dk_cwd ?d = dk_cwd d" by (simp_all add: within_def)
  have "contents ?d target = None \<or> (\<exists>c. valid_settings c \<and> contents ?d target = Some (cd_encode cd (cd_dumps cd (JObj c))))"
    if "fs_resolve m ''core'' ''vbwd_settings.json'' d = Inr target" for target
  proof -
    have "contents ?d target \<in> {contents d target, Some ?data}" by (rule never_torn [OF linked assms(3,4,5) that])
    moreover have "contents d target = None \<or> (\<exists>c. valid_settings c \<and> contents d target = Some (cd_encode cd (cd_dumps cd (JObj c))))"
      using assms(1) that by (simp add: file_valid_def)
    ultimately show ?thesis using assms(2) by auto
  qed
  then show ?thesis
    using linked by (simp add: file_valid_def resolve_cong [OF same] well_linked_cong [OF same] fs_write_json_def fs_write_text_def)
qed

lemma valid_update:
  assumes "file_valid cd m d" and "json_codec_ok cd"
    and "fs_policy m ''core'' = Inr policy" and "np_write_mode policy = ATOMIC_REPLACE" and "\<not> np_encrypt policy"
  shows "file_valid cd m (snd (update_core_settings cd drv m catalog data d))"
proof (cases "validate_known catalog (known_settings data)")
  case (Inl e)
  with assms(1) show ?thesis by (simp add: update_core_settings_def lift_sum_def Let_def)
next
  case (Inr u)
  obtain r d1 where rd: "fs_read_json cd drv m ''core'' ''vbwd_settings.json'' JNull d = (r, d1)" by fastforce
  have d1: "file_valid cd m d1" by (rule file_valid_calls [OF read_only [OF rd] assms(1)])
  show ?thesis
  proof (cases r)
    case (Inl e)
    with Inr rd d1 show ?thesis
      by (simp add: update_core_settings_def get_core_settings_def lift_sum_def Let_def bindP_def)
  next
    case (Inr loaded)
    let ?c = "dict_update (merge_settings loaded) (known_settings data)"
    have known: "validate_known catalog (known_settings data) = Inr ()" using \<open>_ = Inr u\<close> by simp
    have old: "valid_settings (merge_settings loaded)"
      by (rule valid_read [OF rd [unfolded Inr] assms(1,2,3,5)])
    show ?thesis
    proof (cases "validate_default_is_active ?c")
      case (Inl e)
      with \<open>r = Inr loaded\<close> known rd d1 show ?thesis
        by (simp add: update_core_settings_def get_core_settings_def lift_sum_def Let_def bindP_def)
    next
      case (Inr x)
      then have "valid_settings ?c" using update_valid [OF old known] by simp
      then have "file_valid cd m (snd (fs_write_json cd drv m ''core'' ''vbwd_settings.json'' (JObj ?c) d1))"
        by (rule valid_write [OF d1 _ assms(3,4,5)])
      with Inr \<open>r = Inr loaded\<close> known rd show ?thesis
        by (auto simp: update_core_settings_def get_core_settings_def lift_sum_def Let_def bindP_def seqP_def
            split: prod.split sum.split)
    qed
  qed
qed

text \<open>A history of updates, each with its own faults and currency catalog.\<close>

fun run_updates ::
  "codec \<Rightarrow> (nat \<Rightarrow> os_driver) \<Rightarrow> fs_manager \<Rightarrow> (nat \<Rightarrow> string list option) \<Rightarrow> json_dict list \<Rightarrow> disk \<Rightarrow> disk" where
  "run_updates cd drv m catalog [] d = d"
| "run_updates cd drv m catalog (data # rest) d =
     run_updates cd drv m catalog rest
       (snd (update_core_settings cd (drv (length rest)) m (catalog (length rest)) data d))"

text \<open>
  C21. The core settings are always valid. From a disk without a settings file, after any
  history of updates, each with any body, any catalog and any failing system calls, settings
  that are read have a default currency among the active ones, active currencies that are
  codes, and display, storage and cross-rate modes out of their enumerations.
\<close>

theorem settings_always_valid:
  assumes "well_linked d" and "json_codec_ok cd"
    and "fs_policy m ''core'' = Inr policy" and "np_write_mode policy = ATOMIC_REPLACE" and "\<not> np_encrypt policy"
    and "fs_resolve m ''core'' ''vbwd_settings.json'' d = Inr target" and "contents d target = None"
    and "get_core_settings cd drv' m (run_updates cd drv m catalog bodies d) = (Inr settings, d')"
  shows "valid_settings settings"
proof -
  have "file_valid cd m (run_updates cd drv m catalog bodies d)" if "file_valid cd m d" for d
    using that by (induction bodies arbitrary: d) (simp_all add: valid_update [OF _ assms(2-5)])
  moreover have "file_valid cd m d" using assms(1,6,7) by (simp add: file_valid_def)
  ultimately have v: "file_valid cd m (run_updates cd drv m catalog bodies d)" by blast
  from assms(8) obtain loaded d1 where
    "fs_read_json cd drv' m ''core'' ''vbwd_settings.json'' JNull (run_updates cd drv m catalog bodies d) = (Inr loaded, d1)"
    and "settings = merge_settings loaded"
    by (auto simp: get_core_settings_def elim!: bindP_InrE)
  with valid_read [OF _ v assms(2,3,5)] show ?thesis by blast
qed

lemma settings_read_run:
  assumes "well_linked d" and "drv (dk_calls d) = None" and "fs_policy m ''core'' = Inr policy" and "\<not> np_encrypt policy"
    and "fs_resolve m ''core'' ''vbwd_settings.json'' d = Inr target" and "\<not> blocked d target"
  shows "get_core_settings cd drv m d =
    ((case node_at d target of
       None \<Rightarrow> Inr default_core_settings
     | Some Dir \<Rightarrow> Inl (OtherError ''IsADirectoryError'')
     | Some (File bytes _) \<Rightarrow>
         (case cd_decode cd bytes of
            None \<Rightarrow> Inl (ValueError ''UnicodeDecodeError'')
          | Some t \<Rightarrow> Inr (merge_settings (case cd_loads cd t of None \<Rightarrow> JNull | Some v \<Rightarrow> v)))),
     d\<lparr>dk_calls := Suc (dk_calls d)\<rparr>)"
proof -
  let ?d = "d\<lparr>dk_calls := Suc (dk_calls d)\<rparr>"
  have f: "follow d target = target" using fs_resolve_Inr [OF assms(5,1)] by (simp add: follow_resolved)
  have run: "fs_read_bytes cd drv m ''core'' ''vbwd_settings.json'' d =
      (case node_at d target of
         None \<Rightarrow> (Inl (FileNotFoundError (path_str target)), ?d)
       | Some Dir \<Rightarrow> (Inl (OtherError ''IsADirectoryError''), ?d)
       | Some (File bytes _) \<Rightarrow> (Inr bytes, ?d))"
    using assms(2-6) f
    by (simp add: fs_read_bytes_def fs_target_def os_read_def os_call_def lift_sum_def bindP_def seqP_def
        split: option.split node.split)
  have none: "merge_settings JNull = default_core_settings" by (simp add: merge_settings_def)
  show ?thesis
    unfolding get_core_settings_def fs_read_json_def load_json_def fs_read_text_def then_decode_def decode_bytes_def
      try_except_def bindP_def lift_sum_def run
    by (simp add: none split: option.split node.split)
qed

text \<open>
  When reading the settings raises. When no system call fails and nothing on the way is a
  file, a missing file reads as the defaults, a file that is no JSON object too, and one that
  is an object overrides them; a directory in its place is an error, and so are bytes that are
  not UTF-8, which the JSON reader does not catch although reads are meant never to raise.
\<close>

theorem settings_read_outcome:
  assumes "well_linked d" and "disk_settled drv d" and "fs_policy m ''core'' = Inr policy" and "\<not> np_encrypt policy"
    and "fs_resolve m ''core'' ''vbwd_settings.json'' d = Inr target" and "\<not> blocked d target"
  shows "fst (get_core_settings cd drv m d) =
    (case node_at d target of
       None \<Rightarrow> Inr default_core_settings
     | Some Dir \<Rightarrow> Inl (OtherError ''IsADirectoryError'')
     | Some (File bytes _) \<Rightarrow>
         (case cd_decode cd bytes of
            None \<Rightarrow> Inl (ValueError ''UnicodeDecodeError'')
          | Some t \<Rightarrow> Inr (merge_settings (case cd_loads cd t of None \<Rightarrow> JNull | Some v \<Rightarrow> v))))"
proof -
  have "drv (dk_calls d) = None" using assms(2) by (simp add: disk_settled_def)
  from settings_read_run [where drv = drv, OF assms(1) this assms(3-6)] show ?thesis by simp
qed

section \<open>Witnesses\<close>

lemma core_facts:
  "fs_policy demo_manager ''core'' = Inr (var_policy ATOMIC_REPLACE)"
  "np_write_mode (var_policy ATOMIC_REPLACE) = ATOMIC_REPLACE" "\<not> np_encrypt (var_policy ATOMIC_REPLACE)"
  "fs_resolve demo_manager ''core'' ''vbwd_settings.json'' empty_disk = Inr [''var'', ''core'', ''vbwd_settings.json'']"
  "node_at empty_disk [''var'', ''core'', ''vbwd_settings.json''] = None"
  "\<not> blocked empty_disk [''var'', ''core'', ''vbwd_settings.json'']"
  "well_linked empty_disk" "disk_settled (\<lambda>_. None) empty_disk"
  by (simp_all add: well_linked_def empty_disk_def disk_settled_def) code_simp+

text \<open>Nothing is stored: the read gives the defaults, and so does the read inside an update.\<close>

lemma read_missing:
  "fs_read_json cd (\<lambda>_. None) demo_manager ''core'' ''vbwd_settings.json'' v empty_disk =
     (Inr v, empty_disk\<lparr>dk_calls := 1\<rparr>)"
proof -
  have "follow empty_disk [''var'', ''core'', ''vbwd_settings.json''] = [''var'', ''core'', ''vbwd_settings.json'']"
    by code_simp
  moreover have "dk_calls empty_disk = 0" by (simp add: empty_disk_def)
  ultimately show ?thesis
    using core_facts(1,3,4,5,6)
    by (simp add: fs_read_json_def load_json_def try_except_def fs_read_text_def then_decode_def fs_read_bytes_def
        fs_target_def lift_sum_def os_read_def os_call_def Let_def seqP_def bindP_def)
qed

lemma get_missing:
  "get_core_settings cd (\<lambda>_. None) demo_manager empty_disk =
     (Inr default_core_settings, empty_disk\<lparr>dk_calls := 1\<rparr>)"
  by (simp add: get_core_settings_def bindP_def read_missing merge_settings_def)

theorem settings_read_outcome_witness:
  "fst (get_core_settings demo_codec (\<lambda>_. None) demo_manager empty_disk) = Inr default_core_settings"
  using settings_read_outcome [OF core_facts(7,8,1,3,4,6)] core_facts(5) by simp

theorem settings_always_valid_witness:
  "valid_settings default_core_settings"
proof -
  have "run_updates demo_codec (\<lambda>_ _. None) demo_manager (\<lambda>_. None) [] empty_disk = empty_disk" by simp
  with get_missing have "get_core_settings demo_codec (\<lambda>_. None) demo_manager
      (run_updates demo_codec (\<lambda>_ _. None) demo_manager (\<lambda>_. None) [] empty_disk) =
      (Inr default_core_settings, empty_disk\<lparr>dk_calls := 1\<rparr>)" by simp
  moreover have "contents empty_disk [''var'', ''core'', ''vbwd_settings.json''] = None"
    using core_facts(5) by (simp add: contents_def)
  ultimately show ?thesis
    using settings_always_valid [OF core_facts(7) demo_codec_ok core_facts(1-4)] by blast
qed

text \<open>Two currencies are activated at once, with one of them the default.\<close>

definition usd_body :: json_dict where
  "usd_body = [(''default_currency'', JStr ''USD''), (''active_currencies'', JList [JStr ''USD'', JStr ''EUR''])]"

lemma usd_saved:
  "\<exists>d. update_core_settings demo_codec (\<lambda>_. None) demo_manager None usd_body empty_disk =
     (Inr (dict_update default_core_settings usd_body), d)"
proof -
  let ?c = "dict_update default_core_settings usd_body" let ?d = "empty_disk\<lparr>dk_calls := 1\<rparr>"
  have v: "validate_known None (known_settings usd_body) = Inr ()" "known_settings usd_body = usd_body"
    "validate_default_is_active ?c = Inr ()"
    by code_simp+
  have same: "dk_links ?d = dk_links empty_disk" "dk_cwd ?d = dk_cwd empty_disk" by simp_all
  have "\<exists>d. fs_write_bytes demo_codec (\<lambda>_. None) demo_manager ''core'' ''vbwd_settings.json''
      (cd_encode demo_codec (cd_dumps demo_codec (JObj ?c))) ?d = (Inr ''vbwd_settings.json'', d)"
  proof (rule write_ok [OF _ _ core_facts(1-3)])
    show "fs_resolve demo_manager ''core'' ''vbwd_settings.json'' ?d = Inr [''var'', ''core'', ''vbwd_settings.json'']"
      using core_facts(4) resolve_cong [OF same] by simp
    show "well_linked ?d" using core_facts(7) well_linked_cong [OF same] by simp
  qed (simp_all add: node_at_def empty_disk_def is_file_def parents_def)
  then obtain d where "fs_write_json demo_codec (\<lambda>_. None) demo_manager ''core'' ''vbwd_settings.json'' (JObj ?c) ?d =
      (Inr ''vbwd_settings.json'', d)"
    unfolding fs_write_json_def fs_write_text_def by blast
  with v show ?thesis by (simp add: update_core_settings_def lift_sum_def bindP_def seqP_def get_missing Let_def)
qed

theorem settings_read_back_witness:
  "\<exists>d settings. fst (get_core_settings demo_codec (\<lambda>_. None) demo_manager d) = Inr settings \<and>
     map_of settings ''default_currency'' = Some (JStr ''USD'')"
proof -
  obtain d where run: "update_core_settings demo_codec (\<lambda>_. None) demo_manager None usd_body empty_disk =
      (Inr (dict_update default_core_settings usd_body), d)" using usd_saved by blast
  have cod: "codec_ok demo_codec" and inv: "cd_loads demo_codec (cd_dumps demo_codec v) = Some v" for v
    using demo_codec_ok by (simp_all add: json_codec_ok_def)
  have rep: "replaced_on_write demo_manager ''core''"
    using core_facts(1,2) by (simp add: replaced_on_write_def)
  have "\<exists>settings. fst (get_core_settings demo_codec (\<lambda>_. None) demo_manager d) = Inr settings \<and>
      map_of settings = map_of (dict_update default_core_settings usd_body)"
    by (rule settings_read_back [OF run cod core_facts(7) rep inv]) (simp add: disk_settled_def)
  moreover have "map_of (dict_update default_core_settings usd_body) ''default_currency'' = Some (JStr ''USD'')"
    by code_simp
  ultimately show ?thesis by metis
qed

end
