(* ===== verification/Pages.thy ===== *)
theory Pages
  imports Json
begin

text \<open>
  Paging of the list routes (\<open>vbwd/utils/pagination.py\<close>): the limit and the offset of a request,
  and the envelope of a catalogue page. The query takes the slice with \<open>OFFSET\<close> and \<open>LIMIT\<close>.
\<close>

definition clamp_limit :: "int \<Rightarrow> int \<Rightarrow> int" where
  "clamp_limit max_limit raw = min (max raw 1) max_limit"

text \<open>An absent parameter is its default; one that is not an integer is answered with 400.\<close>

definition parse_pagination_params ::
  "int \<Rightarrow> int \<Rightarrow> string option \<Rightarrow> string option \<Rightarrow> (int \<times> int) option" where
  "parse_pagination_params default_limit max_limit limit offset =
     (case (case limit of None \<Rightarrow> Some default_limit | Some s \<Rightarrow> int_of_str s) of
        None \<Rightarrow> None
      | Some l \<Rightarrow>
          (case (case offset of None \<Rightarrow> Some 0 | Some s \<Rightarrow> int_of_str s) of
             None \<Rightarrow> None
           | Some k \<Rightarrow> Some (clamp_limit max_limit l, max k 0)))"

definition slice :: "int \<Rightarrow> int \<Rightarrow> 'a list \<Rightarrow> 'a list" where
  "slice limit offset rows = take (nat limit) (drop (nat offset) rows)"

definition page_count :: "int \<Rightarrow> int \<Rightarrow> int" where
  "page_count count per_page = max 1 ((count + per_page - 1) div per_page)"

definition paginate :: "json list \<Rightarrow> int \<Rightarrow> int \<Rightarrow> int \<Rightarrow> json_dict" where
  "paginate rows count page per_page =
     [(''items'', JList rows), (''total'', JInt count), (''page'', JInt page),
      (''per_page'', JInt per_page), (''pages'', JInt (page_count count per_page))]"

end
