(* ===== verification/InvoiceRender.thy ===== *)
theory InvoiceRender
  imports Payments ApiKeys
begin

text \<open>
  How an invoice is shown: \<open>to_dict\<close> of \<open>UserInvoice\<close> and \<open>InvoiceLineItem\<close>
  (\<open>vbwd/models/invoice.py\<close>, \<open>invoice_line_item.py\<close>) and the context of the PDF template
  (\<open>vbwd/routes/invoices.py\<close>). The catalogue identifier of a line comes from the registered
  line item handlers; \<open>frozen\<close> is the port that holds the tags and the custom fields of a line,
  absent when the entity type is not registered.
\<close>

section \<open>Dicts of the models\<close>

definition time_json :: "time option \<Rightarrow> json" where
  "time_json t = (case t of None \<Rightarrow> JNull | Some x \<Rightarrow> JStr (iso_datetime x))"

text \<open>\<open>a if a is not None else b\<close> and \<open>a if a else b\<close> on a \<open>Decimal\<close>, which is false at zero.\<close>

definition money_given :: "int option \<Rightarrow> string \<Rightarrow> string" where
  "money_given a b = (case a of None \<Rightarrow> b | Some x \<Rightarrow> money_str x)"

definition money_or :: "int option \<Rightarrow> string \<Rightarrow> string" where
  "money_or a b = (case a of None \<Rightarrow> b | Some x \<Rightarrow> if x = 0 then b else money_str x)"

text \<open>A custom line shows the name of the plugin it belongs to.\<close>

definition display_type :: "line_item \<Rightarrow> json" where
  "display_type item =
     (if li_item_type item = CUSTOM \<and> li_extra_data item \<noteq> [] \<and> jtrue (jget (li_extra_data item) ''plugin'')
      then jget (li_extra_data item) ''plugin''
      else JStr (line_item_type_value (li_item_type item)))"

text \<open>\<open>_resolve_catalog_item_id\<close>: whatever a handler raises, there is no identifier.\<close>

definition item_catalog_id :: "'p line_handler list \<Rightarrow> line_item \<Rightarrow> ('p db_scheme session, string option) prog" where
  "item_catalog_id lhs item = try_except (registry_catalog_item_id lhs item) (\<lambda>e. ret None)"

definition line_item_json :: "uuid \<Rightarrow> string option \<Rightarrow> line_item \<Rightarrow> json_dict" where
  "line_item_json invoice_id catalog item =
     [(''id'', JStr (li_id item)), (''invoice_id'', JStr invoice_id), (''type'', display_type item),
      (''item_id'', JStr (li_item_id item)), (''description'', JStr (li_description item)),
      (''quantity'', JInt (li_quantity item)), (''unit_price'', JStr (money_str (li_unit_price item))),
      (''amount'', JStr (money_str (li_total_price item))),
      (''net_amount'', JStr (money_given (li_net_amount item) (money_str (li_total_price item)))),
      (''tax_amount'', JStr (money_given (li_tax_amount item) ''0.00'')),
      (''tax_breakdown'', JList (li_tax_breakdown item))]
     @ (if truthy catalog then [(''catalog_item_id'', opt_json catalog)] else [])
     @ (if li_extra_data item \<noteq> [] then [(''metadata'', JObj (li_extra_data item))] else [])"

definition line_item_dict ::
  "'p line_handler list \<Rightarrow> uuid \<Rightarrow> line_item \<Rightarrow> ('p db_scheme session, json_dict) prog" where
  "line_item_dict lhs invoice_id item =
     bindP (item_catalog_id lhs item) (\<lambda>catalog. ret (line_item_json invoice_id catalog item))"

type_synonym frozen_port = "((uuid \<rightharpoonup> json list) \<times> (uuid \<rightharpoonup> json_dict)) option"

definition with_frozen :: "frozen_port \<Rightarrow> uuid \<Rightarrow> json_dict \<Rightarrow> json_dict" where
  "with_frozen frozen i line =
     (case frozen of
        None \<Rightarrow> dict_set ''custom_fields'' (JObj []) (dict_set ''tags'' (JList []) line)
      | Some (tags, cf) \<Rightarrow>
          dict_set ''custom_fields'' (JObj (case cf i of Some d \<Rightarrow> d | None \<Rightarrow> []))
            (dict_set ''tags'' (JList (case tags i of Some ts \<Rightarrow> ts | None \<Rightarrow> [])) line))"

definition serialized_line_items ::
  "'p line_handler list \<Rightarrow> frozen_port \<Rightarrow> invoice \<Rightarrow> ('p db_scheme session, json list) prog" where
  "serialized_line_items lhs frozen v =
     mapP (\<lambda>item. bindP (line_item_dict lhs (inv_id v) item) (\<lambda>line.
       ret (JObj (with_frozen frozen (li_id item) line)))) (inv_line_items v)"

definition invoice_json :: "time \<Rightarrow> json list \<Rightarrow> invoice \<Rightarrow> json_dict" where
  "invoice_json now lines v =
     [(''id'', JStr (inv_id v)), (''user_id'', JStr (inv_user_id v)),
      (''invoice_number'', JStr (inv_number v)), (''amount'', JStr (money_str (inv_amount v))),
      (''subtotal'', JStr (money_or (inv_subtotal v) (money_str (inv_amount v)))),
      (''tax_amount'', JStr (money_or (inv_tax_amount v) ''0.00'')),
      (''total_amount'', JStr (money_or (inv_total_amount v) (money_str (inv_amount v)))),
      (''currency'', JStr (inv_currency v)),
      (''status'', JStr (invoice_status_value (inv_status v))),
      (''payment_method'', opt_json (inv_payment_method v)),
      (''payment_ref'', opt_json (inv_payment_ref v)),
      (''is_payable'', JBool (is_payable now v)), (''is_capturable'', JBool (is_capturable v)),
      (''payment_intent_id'', opt_json (inv_payment_intent_id v)),
      (''line_items'', JList lines), (''invoiced_at'', JStr (iso_datetime (inv_invoiced_at v))),
      (''paid_at'', time_json (inv_paid_at v)), (''expires_at'', time_json (inv_expires_at v)),
      (''metadata'', JObj (inv_metadata v))]"

definition invoice_dict ::
  "'p line_handler list \<Rightarrow> frozen_port \<Rightarrow> time \<Rightarrow> invoice \<Rightarrow> ('p db_scheme session, json_dict) prog" where
  "invoice_dict lhs frozen now v =
     bindP (serialized_line_items lhs frozen v) (\<lambda>lines. ret (invoice_json now lines v))"

section \<open>The PDF context\<close>

definition detail_text :: "user_details \<Rightarrow> string \<Rightarrow> string" where
  "detail_text ud k = str_or (ud_fields ud k) []"

text \<open>An f-string shows a missing column as \<open>None\<close>.\<close>

definition shown_field :: "user_details \<Rightarrow> string \<Rightarrow> string" where
  "shown_field ud k = (case ud_fields ud k of None \<Rightarrow> ''None'' | Some s \<Rightarrow> s)"

definition full_address :: "user_details \<Rightarrow> string" where
  "full_address ud =
     join_with [CHR 0x0A] (filter (\<lambda>l. l \<noteq> [])
       [detail_text ud ''address_line_1'', detail_text ud ''address_line_2'',
        str_strip (shown_field ud ''postal_code'' @ '' '' @ shown_field ud ''city''),
        detail_text ud ''state'', detail_text ud ''country''])"

definition build_customer_party :: "string \<Rightarrow> user_details option \<Rightarrow> json_dict" where
  "build_customer_party email details =
     (case details of
        None \<Rightarrow> [(''name'', JStr []), (''email'', JStr email), (''company'', JStr []),
          (''tax_number'', JStr []), (''phone'', JStr []), (''address'', JStr [])]
      | Some ud \<Rightarrow>
          (let person = str_strip (detail_text ud ''first_name'' @ '' '' @ detail_text ud ''last_name'');
               company = detail_text ud ''company'';
               is_business = (str_or (ud_fields ud ''account_type'') ''private'' = ''business'')
           in [(''name'', JStr (if is_business then company else person)), (''email'', JStr email),
               (''company'', JStr company),
               (''tax_number'', JStr (if is_business then detail_text ud ''tax_number'' else [])),
               (''phone'', JStr (detail_text ud ''phone'')), (''address'', JStr (full_address ud))]))"

definition company_context :: "(string \<rightharpoonup> string) \<Rightarrow> json_dict" where
  "company_context config =
     (let get = (\<lambda>k d. JStr (case config k of None \<Rightarrow> d | Some x \<Rightarrow> x)) in
      [(''name'', get ''COMPANY_NAME'' ''VBWD''), (''tagline'', get ''COMPANY_TAGLINE'' []),
       (''address'', get ''COMPANY_ADDRESS'' []), (''email'', get ''COMPANY_EMAIL'' []),
       (''website'', get ''COMPANY_WEBSITE'' []), (''tax_id'', get ''COMPANY_TAX_ID'' [])])"

definition format_money :: "int option \<Rightarrow> string \<Rightarrow> string" where
  "format_money amount currency =
     (case amount of None \<Rightarrow> [] | Some x \<Rightarrow> money_str x @ '' '' @ currency)"

definition format_date :: "time option \<Rightarrow> string" where
  "format_date t = (case t of None \<Rightarrow> [] | Some x \<Rightarrow> iso_date x)"

text \<open>\<open>getattr(row, name, None) or ...\<close> on a money column: zero is passed over.\<close>

definition nonzero :: "int option \<Rightarrow> int option" where
  "nonzero a = (case a of None \<Rightarrow> None | Some x \<Rightarrow> if x = 0 then None else Some x)"

text \<open>
  A line item has no attribute \<open>total\<close> and no attribute \<open>amount\<close>, which is what the code reads
  for the total of a line: \<open>line_attr\<close> gives the columns of the model.
\<close>

definition line_attr :: "line_item \<Rightarrow> string \<Rightarrow> int option" where
  "line_attr item name =
     (if name = ''unit_price'' then Some (li_unit_price item)
      else if name = ''total_price'' then Some (li_total_price item)
      else if name = ''net_amount'' then li_net_amount item
      else if name = ''tax_amount'' then li_tax_amount item
      else None)"

definition attr_or :: "line_item \<Rightarrow> string \<Rightarrow> string \<Rightarrow> int option" where
  "attr_or item a b = (case nonzero (line_attr item a) of Some x \<Rightarrow> Some x | None \<Rightarrow> line_attr item b)"

definition pdf_line :: "string \<Rightarrow> line_item \<Rightarrow> json" where
  "pdf_line currency item =
     JObj [(''description'', JStr (li_description item)),
       (''quantity'', JInt (if li_quantity item = 0 then 1 else li_quantity item)),
       (''unit_price_display'', JStr (format_money (attr_or item ''unit_price'' ''amount'') currency)),
       (''total_display'', JStr (format_money (attr_or item ''total'' ''amount'') currency))]"

definition build_invoice_pdf_context ::
  "(string \<rightharpoonup> string) \<Rightarrow> string \<Rightarrow> invoice \<Rightarrow> json_dict \<Rightarrow> json_dict" where
  "build_invoice_pdf_context config default_currency v customer =
     (let currency = (if inv_currency v = [] then default_currency else inv_currency v);
          total = (case nonzero (inv_total_amount v) of Some x \<Rightarrow> x | None \<Rightarrow> inv_amount v)
      in [(''company'', JObj (company_context config)), (''customer'', JObj customer),
          (''invoice'', JObj
            [(''id'', JStr (inv_id v)), (''invoice_number'', JStr (inv_number v)),
             (''status'', JStr (invoice_status_value (inv_status v))),
             (''issued_at_display'', JStr (format_date (Some (inv_invoiced_at v)))),
             (''due_date_display'', JStr (format_date (inv_expires_at v))),
             (''subtotal_display'', JStr (format_money (nonzero (inv_subtotal v)) currency)),
             (''tax_display'', JStr (case inv_tax_amount v of
                Some x \<Rightarrow> if 0 < x then format_money (Some x) currency else [] | None \<Rightarrow> [])),
             (''discount_display'', JStr []), (''total_display'', JStr (format_money (Some total) currency)),
             (''notes'', JStr [])]),
          (''line_items'', JList (map (pdf_line currency) (inv_line_items v)))])"

text \<open>The name offered for the download.\<close>

definition pdf_filename :: "invoice \<Rightarrow> string" where
  "pdf_filename v = ''invoice-'' @ str_or (Some (inv_number v)) (inv_id v) @ ''.pdf''"

section \<open>What is shown\<close>

text \<open>No line of a PDF has a total, whatever its price.\<close>

lemma pdf_line_total_empty:
  "\<exists>d. pdf_line currency item = JObj d \<and> jget d ''total_display'' = JStr []"
  by (simp add: pdf_line_def attr_or_def line_attr_def nonzero_def format_money_def jget_def)

lemma line_item_json_type:
  "li_item_type item \<noteq> CUSTOM \<Longrightarrow>
   jget (line_item_json i c item) ''type'' = JStr (line_item_type_value (li_item_type item))"
  by (simp add: line_item_json_def display_type_def jget_def)

end
