(* ===== verification/InvoiceRoutes.thy ===== *)
theory InvoiceRoutes
  imports InvoiceRender Pages "HOL-Library.Sublist"
begin

text \<open>
  The invoice routes: the admin's (\<open>vbwd/routes/admin/invoices.py\<close>), the owner's
  (\<open>vbwd/routes/invoices.py\<close>) and \<open>pay_invoice\<close> of \<open>vbwd/routes/user.py\<close>, with the listing of
  \<open>InvoiceRepository\<close> and the registry of extra fields
  (\<open>services/invoice_extra_fields_registry.py\<close>). Identifiers in paths are canonical UUIDs where
  the route hands them to the query as they are; where it calls \<open>UUID()\<close>, they are parsed.

  Parameters: \<open>scan\<close> lists the rows of the invoice table in the order in which the query of the request
  meets them: it is an argument of each request, since rows made at the same time come in no fixed
  order and two pages need not agree on it; a body's key is an option, \<open>None\<close> when absent; \<open>fresh\<close>, \<open>line_ids\<close>
  and \<open>number\<close> are the identifiers drawn for new rows.
\<close>

record 'p invoice_env =
  ie_drv :: driver
  ie_handlers :: "'p account_db_ext line_handler list"
  ie_frozen :: frozen_port
  ie_now :: time

definition user_email_of :: "'p account_db_scheme \<Rightarrow> uuid \<Rightarrow> string option" where
  "user_email_of d u = map_option us_email (user_by_id d u)"

text \<open>The body of an invoice in an answer.\<close>

definition show_invoice :: "'p invoice_env \<Rightarrow> invoice \<Rightarrow> ('p account_db_scheme session, json_dict) prog" where
  "show_invoice env v = invoice_dict (ie_handlers env) (ie_frozen env) (ie_now env) v"

definition captured ::
  "'p invoice_env \<Rightarrow> uuid \<Rightarrow> string \<Rightarrow> ('p account_db_scheme session, bresult) prog" where
  "captured env i ref =
     emit_payment_captured (ie_drv env) (ie_handlers env) user_email_of (ie_now env) i (Some ref) None []"

section \<open>Extra fields\<close>

type_synonym 'p extra_provider = "invoice \<Rightarrow> ('p account_db_scheme session, json_dict) prog"

definition register_extra_fields ::
  "string \<Rightarrow> 'p extra_provider \<Rightarrow> (string \<times> 'p extra_provider) list \<Rightarrow> (string \<times> 'p extra_provider) list" where
  "register_extra_fields key provider reg = dict_set key provider reg"

definition unregister_extra_fields ::
  "string \<Rightarrow> (string \<times> 'p extra_provider) list \<Rightarrow> (string \<times> 'p extra_provider) list" where
  "unregister_extra_fields key reg = dict_del key reg"

definition aggregate_extra_fields ::
  "(string \<times> 'p extra_provider) list \<Rightarrow> invoice \<Rightarrow> ('p account_db_scheme session, json_dict) prog" where
  "aggregate_extra_fields reg v =
     foldP (\<lambda>acc provider. bindP (provider v) (\<lambda>kvs. ret (dict_update acc kvs))) [] (map snd reg)"

section \<open>Listing\<close>

text \<open>\<open>order_by(created_at.desc())\<close>.\<close>

definition newest_first :: "invoice list \<Rightarrow> invoice list" where
  "newest_first vs = sort_key (\<lambda>v. - inv_created_at v) vs"

definition find_by_user ::
  "('p account_db_scheme \<Rightarrow> invoice list) \<Rightarrow> uuid \<Rightarrow> ('p account_db_scheme session, invoice list) prog" where
  "find_by_user scan user = query (\<lambda>d. newest_first (filter (\<lambda>v. inv_user_id v = user) (scan d)))"

text \<open>A status that is not one of the enum does not filter.\<close>

definition invoice_filter :: "string option \<Rightarrow> uuid option \<Rightarrow> invoice \<Rightarrow> bool" where
  "invoice_filter st user v \<longleftrightarrow>
     (if truthy st
      then (case parse_invoice_status (opt_str st) of Inl e \<Rightarrow> True | Inr x \<Rightarrow> inv_status v = x) else True) \<and>
     (if truthy user then inv_user_id v = opt_str user else True)"

definition find_all_paginated ::
  "('p account_db_scheme \<Rightarrow> invoice list) \<Rightarrow> int \<Rightarrow> int \<Rightarrow> string option \<Rightarrow> uuid option
     \<Rightarrow> ('p account_db_scheme session, invoice list \<times> int) prog" where
  "find_all_paginated scan limit offset st user =
     query (\<lambda>d. let rows = filter (invoice_filter st user) (scan d)
                in (slice limit offset (newest_first rows), int (length rows)))"

definition list_row :: "'p invoice_env \<Rightarrow> (uuid \<Rightarrow> user option) \<Rightarrow> invoice \<Rightarrow> ('p account_db_scheme session, json) prog" where
  "list_row env users v =
     bindP (show_invoice env v) (\<lambda>d. ret (JObj
       (dict_set ''created_at'' (JStr (iso_datetime (inv_created_at v)))
         (dict_set ''user_email''
           (JStr (case users (inv_user_id v) of Some u \<Rightarrow> us_email u | None \<Rightarrow> [])) d))))"

definition list_invoices ::
  "'p invoice_env \<Rightarrow> ('p account_db_scheme \<Rightarrow> invoice list) \<Rightarrow> string option \<Rightarrow> string option
     \<Rightarrow> string option \<Rightarrow> uuid option \<Rightarrow> 'p view" where
  "list_invoices env scan limit_arg offset_arg st user g =
     (case parse_pagination_params 20 100 limit_arg offset_arg of
        None \<Rightarrow> ret (error_answer 400 ''limit and offset must be integers'')
      | Some (limit, offset) \<Rightarrow>
          bindP (find_all_paginated scan limit offset st user) (\<lambda>(vs, count).
          bindP (query user_by_id) (\<lambda>users.
          bindP (mapP (list_row env users) vs) (\<lambda>rows.
            ret (answer 200 [(''invoices'', JList rows), (''total'', JInt count),
              (''limit'', JInt limit), (''offset'', JInt offset)])))))"

section \<open>The owner's routes\<close>

definition get_invoices :: "'p invoice_env \<Rightarrow> ('p account_db_scheme \<Rightarrow> invoice list) \<Rightarrow> 'p view" where
  "get_invoices env scan g =
     bindP (find_by_user scan (opt_str (g_user_id g))) (\<lambda>vs.
     bindP (mapP (\<lambda>v. bindP (show_invoice env v) (\<lambda>d. ret (JObj d))) vs) (\<lambda>rows.
       ret (answer 200 [(''invoices'', JList rows)])))"

text \<open>What the two routes on one invoice share: 404, then 403, then the body.\<close>

definition owned_invoice :: "uuid \<Rightarrow> (invoice \<Rightarrow> 'p view) \<Rightarrow> 'p view" where
  "owned_invoice i body g =
     bindP (find_invoice i) (\<lambda>found.
       case found of
         None \<Rightarrow> ret (error_answer 404 ''Invoice not found'')
       | Some v \<Rightarrow>
           if inv_user_id v \<noteq> opt_str (g_user_id g) then ret (error_answer 403 ''Access denied'')
           else body v g)"

definition get_own_invoice :: "'p invoice_env \<Rightarrow> uuid \<Rightarrow> 'p view" where
  "get_own_invoice env i =
     owned_invoice i (\<lambda>v g. bindP (show_invoice env v) (\<lambda>d. ret (answer 200 [(''invoice'', JObj d)])))"

text \<open>The PDF is what \<open>render\<close> makes of the template's context; the answer keeps the context.\<close>

definition invoice_pdf ::
  "(string \<rightharpoonup> string) \<Rightarrow> string \<Rightarrow> invoice \<Rightarrow> uuid \<Rightarrow> ('p account_db_scheme session, response) prog" where
  "invoice_pdf config default_currency v user =
     bindP (query (\<lambda>d. (user_email_of d user, details_of d user))) (\<lambda>(email, details).
       ret (answer 200 [(''filename'', JStr (pdf_filename v)), (''context'', JObj
         (build_invoice_pdf_context config default_currency v
           (build_customer_party (str_or email []) (case email of None \<Rightarrow> None | Some _ \<Rightarrow> details))))]))"

definition download_invoice_pdf :: "(string \<rightharpoonup> string) \<Rightarrow> string \<Rightarrow> uuid \<Rightarrow> 'p view" where
  "download_invoice_pdf config default_currency i =
     owned_invoice i (\<lambda>v g. invoice_pdf config default_currency v (opt_str (g_user_id g)))"

text \<open>
  \<open>pay_invoice\<close> reads the invoice through \<open>invoice_service.get_by_id\<close>. \<open>service_get\<close> is that
  attribute: \<open>InvoiceService\<close> has none, and reading it raises.
\<close>

definition pay_invoice ::
  "'p invoice_env \<Rightarrow> (uuid \<Rightarrow> ('p account_db_scheme session, invoice option) prog) option \<Rightarrow> string \<Rightarrow> 'p view" where
  "pay_invoice env service_get raw g =
     (case service_get of
        None \<Rightarrow> raise (OtherError ''InvoiceService object has no attribute get_by_id'')
      | Some get_by_id \<Rightarrow>
          bindP (get_by_id raw) (\<lambda>found.
            case found of
              None \<Rightarrow> ret (error_answer 404 ''Invoice not found'')
            | Some v \<Rightarrow>
                if inv_user_id v \<noteq> opt_str (g_user_id g) then ret (error_answer 403 ''Access denied'')
                else if inv_status v = PAID then ret (error_answer 400 ''Invoice already paid'')
                else (case parse_uuid raw of
                  None \<Rightarrow> raise (ValueError ''badly formed hexadecimal UUID string'')
                | Some i \<Rightarrow>
                    bindP (captured env i (''user-payment-'' @ take 8 raw)) (\<lambda>r.
                      if \<not> er_success r
                      then ret (error_answer 400 (str_or (er_error r) ''Payment failed''))
                      else bindP (get_by_id raw) (\<lambda>updated.
                        bindP (case updated of None \<Rightarrow> ret [] | Some w \<Rightarrow> show_invoice env w) (\<lambda>d.
                          ret (answer 200 [(''invoice'', JObj d),
                            (''message'', JStr ''Payment successful'')])))))))"

text \<open>The methods of \<open>InvoiceService\<close>: \<open>get_by_id\<close> is not among them.\<close>

definition invoice_service_get_by_id ::
  "(uuid \<Rightarrow> ('p account_db_scheme session, invoice option) prog) option" where
  "invoice_service_get_by_id = None"

section \<open>The admin's routes\<close>

definition get_invoice_admin ::
  "'p invoice_env \<Rightarrow> (string \<times> 'p extra_provider) list \<Rightarrow> uuid \<Rightarrow> 'p view" where
  "get_invoice_admin env extras i g =
     bindP (find_invoice i) (\<lambda>found.
       case found of
         None \<Rightarrow> ret (error_answer 404 ''Invoice not found'')
       | Some v \<Rightarrow>
           bindP (show_invoice env v) (\<lambda>d0.
           bindP (query (\<lambda>d. (user_by_id d (inv_user_id v), details_of d (inv_user_id v)))) (\<lambda>(user, details).
           let d1 = (case user of
                 None \<Rightarrow> d0
               | Some u \<Rightarrow> dict_set ''user_name''
                   (JStr (case details of None \<Rightarrow> []
                     | Some ud \<Rightarrow> join_with '' '' (filter (\<lambda>x. x \<noteq> [])
                         [detail_text ud ''first_name'', detail_text ud ''last_name''])))
                   (dict_set ''user_email'' (JStr (us_email u)) d0))
           in bindP (aggregate_extra_fields extras v) (\<lambda>extra.
             ret (answer 200 [(''invoice'', JObj
               (dict_set ''created_at'' (JStr (iso_datetime (inv_created_at v)))
                 (dict_set ''due_date''
                   (JStr (iso_datetime (case inv_expires_at v of Some e \<Rightarrow> e | None \<Rightarrow> inv_invoiced_at v)))
                   (dict_update d1 extra))))])))))"

text \<open>The copy of a line keeps what the constructor is given; its tax columns have their defaults.\<close>

definition copied_line :: "uuid \<Rightarrow> line_item \<Rightarrow> line_item" where
  "copied_line fresh item =
     \<lparr>li_id = fresh, li_item_type = li_item_type item, li_item_id = li_item_id item,
      li_description = li_description item, li_quantity = li_quantity item,
      li_unit_price = li_unit_price item, li_total_price = li_total_price item,
      li_net_amount = None, li_tax_amount = Some 0, li_tax_breakdown = [],
      li_extra_data = li_extra_data item\<rparr>"

definition duplicated :: "uuid \<Rightarrow> (nat \<Rightarrow> uuid) \<Rightarrow> string \<Rightarrow> time \<Rightarrow> invoice \<Rightarrow> invoice" where
  "duplicated fresh line_ids number now v =
     \<lparr>inv_id = fresh, inv_user_id = inv_user_id v, inv_number = number, inv_amount = inv_amount v,
      inv_currency = inv_currency v, inv_status = PENDING, inv_payment_method = None,
      inv_payment_ref = None, inv_invoiced_at = now, inv_paid_at = None,
      inv_expires_at = Some (now + 86400 * 30), inv_payment_intent_id = None, inv_subtotal = None,
      inv_tax_amount = Some 0, inv_total_amount = None, inv_provider_session_id = None,
      inv_created_at = now, inv_metadata = [],
      inv_line_items = map (\<lambda>(k, item). copied_line (line_ids k) item) (enumerate 0 (inv_line_items v))\<rparr>"

definition duplicate_invoice ::
  "'p invoice_env \<Rightarrow> uuid \<Rightarrow> (nat \<Rightarrow> uuid) \<Rightarrow> string \<Rightarrow> uuid \<Rightarrow> 'p view" where
  "duplicate_invoice env fresh line_ids number i g =
     bindP (find_invoice i) (\<lambda>found.
       case found of
         None \<Rightarrow> ret (error_answer 404 ''Invoice not found'')
       | Some v \<Rightarrow>
           (let w = duplicated fresh line_ids number (ie_now env) v in
            seqP (on_db (put_invoice w))
            (seqP (commit (ie_drv env))
            (bindP (refreshed (inv_id w)) (\<lambda>x.
             bindP (show_invoice env x) (\<lambda>d.
               ret (answer 201 [(''invoice'', JObj d),
                 (''message'', JStr ''Invoice duplicated successfully'')])))))))"

text \<open>The status of an error of the invoice service.\<close>

definition service_refusal :: "string \<Rightarrow> response" where
  "service_refusal e = error_answer (if sublist ''not found'' (str_lower e) then 404 else 400) e"

definition mark_paid_route :: "'p invoice_env \<Rightarrow> uuid \<Rightarrow> string option \<Rightarrow> string option \<Rightarrow> 'p view" where
  "mark_paid_route env i payment_reference payment_method g =
     (let ref = (case payment_reference of None \<Rightarrow> ''MANUAL'' | Some r \<Rightarrow> r);
          meth = (case payment_method of None \<Rightarrow> ''manual'' | Some m \<Rightarrow> m)
      in bindP (svc_mark_paid (ie_drv env) (ie_now env) i ref meth) (\<lambda>r.
        case ires_invoice r of
          None \<Rightarrow> ret (service_refusal (str_or (ires_error r) []))
        | Some v \<Rightarrow>
            bindP (captured env (inv_id v) ref) (\<lambda>_.
            seqP (commit (ie_drv env))
            (bindP (refreshed (inv_id v)) (\<lambda>w.
             bindP (show_invoice env w) (\<lambda>d.
               ret (answer 200 [(''invoice'', JObj d),
                 (''message'', JStr ''Invoice marked as paid'')])))))))"

definition void_invoice :: "'p invoice_env \<Rightarrow> uuid \<Rightarrow> 'p view" where
  "void_invoice env i g =
     bindP (svc_mark_cancelled (ie_drv env) i) (\<lambda>r.
       case ires_invoice r of
         None \<Rightarrow> ret (service_refusal (str_or (ires_error r) []))
       | Some v \<Rightarrow>
           bindP (show_invoice env v) (\<lambda>d.
             ret (answer 200 [(''invoice'', JObj d), (''message'', JStr ''Invoice voided'')])))"

section \<open>Refunds through the provider\<close>

text \<open>
  The plugin manager as the route uses it: \<open>get_plugin\<close>, giving a plugin's \<open>refund_payment\<close>, and
  the attribute \<open>is_enabled\<close>, which \<open>PluginManager\<close> (\<open>vbwd/plugins/manager.py\<close>) does not have. The
  call on it stands before the \<open>try\<close>.
\<close>

type_synonym 'p refund_call = "string \<Rightarrow> ('p account_db_scheme session, bool \<times> string option) prog"

record 'p route_plugins =
  rp_get_plugin :: "string \<Rightarrow> 'p refund_call option"
  rp_is_enabled :: "(string \<Rightarrow> bool) option"

definition core_plugin_manager :: "(string \<Rightarrow> 'p refund_call option) \<Rightarrow> 'p route_plugins" where
  "core_plugin_manager plugins = \<lparr>rp_get_plugin = plugins, rp_is_enabled = None\<rparr>"

definition shown_error :: "string option \<Rightarrow> string" where
  "shown_error e = (case e of None \<Rightarrow> ''None'' | Some m \<Rightarrow> m)"

definition refund_via_provider ::
  "'p route_plugins option \<Rightarrow> invoice \<Rightarrow> ('p account_db_scheme session, string option) prog" where
  "refund_via_provider manager v =
     (if \<not> truthy (inv_payment_method v) \<or> inv_payment_method v = Some ''basic'' then ret None
      else case manager of
        None \<Rightarrow> ret None
      | Some pm \<Rightarrow>
          (case rp_get_plugin pm (opt_str (inv_payment_method v)) of
             None \<Rightarrow> ret None
           | Some refund_payment \<Rightarrow>
               (case rp_is_enabled pm of
                  None \<Rightarrow> raise (OtherError ''PluginManager object has no attribute is_enabled'')
                | Some is_enabled \<Rightarrow>
                    if \<not> is_enabled (opt_str (inv_payment_method v)) then ret None
                    else
                      (let transaction_ref = str_or (inv_provider_session_id v) (opt_str (inv_payment_ref v)) in
                       if transaction_ref = [] then ret None
                       else try_except
                         (bindP (refund_payment transaction_ref) (\<lambda>(ok, e).
                            ret (if ok then None else Some (''Provider refund failed: '' @ shown_error e))))
                         (\<lambda>e. ret (Some (''Provider refund error: '' @ exn_str e)))))))"

definition insufficient_tokens :: "int \<Rightarrow> int \<Rightarrow> string" where
  "insufficient_tokens current needed =
     ''Insufficient token balance for refund. User has '' @ str_int current @ '' tokens but '' @
     str_int needed @ '' need to be deducted. User must purchase more tokens first.''"

text \<open>The handlers' data has no key \<open>invoice\<close>, so the answer's is empty.\<close>

definition refund_invoice ::
  "'p invoice_env \<Rightarrow> 'p route_plugins option \<Rightarrow> string \<Rightarrow> string option \<Rightarrow> 'p view" where
  "refund_invoice env manager raw refund_reference g =
     (case parse_uuid raw of
        None \<Rightarrow> raise (ValueError ''badly formed hexadecimal UUID string'')
      | Some i \<Rightarrow>
          bindP (find_invoice i) (\<lambda>found.
            case found of
              None \<Rightarrow> ret (error_answer 404 ''Invoice not found'')
            | Some v \<Rightarrow>
                bindP (query (calculate_tokens_to_debit v)) (\<lambda>needed.
                bindP (get_balance (inv_user_id v)) (\<lambda>current.
                if 0 < needed \<and> current < needed
                then ret (error_answer 400 (insufficient_tokens current needed))
                else bindP (refund_via_provider manager v) (\<lambda>provider_error.
                  if truthy provider_error then ret (error_answer 400 (opt_str provider_error))
                  else bindP (emit_payment (ie_drv env) (ie_handlers env) user_email_of (ie_now env)
                         (PaymentRefundedEvent \<lparr>rf_invoice_id = i,
                            rf_reference = Some (case refund_reference of None \<Rightarrow> ''ADMIN_REFUND'' | Some r \<Rightarrow> r)\<rparr>)) (\<lambda>r.
                    ret (if er_success r
                      then answer 200 [(''invoice'', JObj []), (''message'', JStr ''Invoice refunded'')]
                      else (if truthy (er_error r) \<and> sublist ''not found'' (str_lower (opt_str (er_error r)))
                            then error_answer 404 (opt_str (er_error r))
                            else answer 400 [(''error'', opt_json (er_error r))]))))))))"

section \<open>Deleting, capturing and releasing\<close>

text \<open>A purchase that names the invoice blocks its deletion: the foreign key has no delete rule.\<close>

definition drop_invoice :: "uuid \<Rightarrow> 'p account_db_scheme \<Rightarrow> 'p account_db_scheme" where
  "drop_invoice i d = d\<lparr>tbl_invoice := (tbl_invoice d)(i := None)\<rparr>"

definition purchases_linked :: "('p account_db_scheme \<Rightarrow> purchase list) \<Rightarrow> 'p account_db_scheme \<Rightarrow> bool" where
  "purchases_linked purchases d \<longleftrightarrow>
     list_all (\<lambda>p. case p_invoice p of None \<Rightarrow> True | Some i \<Rightarrow> tbl_invoice d i \<noteq> None) (purchases d)"

definition delete_invoice ::
  "driver \<Rightarrow> ('p account_db_scheme \<Rightarrow> purchase list) \<Rightarrow> uuid \<Rightarrow> 'p view" where
  "delete_invoice drv purchases i g =
     bindP (find_invoice i) (\<lambda>found.
       case found of
         None \<Rightarrow> ret (error_answer 404 ''Invoice not found'')
       | Some v \<Rightarrow>
           seqP (on_db (drop_invoice i))
           (seqP (commit_checked drv (purchases_linked purchases))
           (ret (answer 200 [(''message'', JStr ''Invoice deleted successfully'')]))))"

definition download_pdf_admin :: "(string \<rightharpoonup> string) \<Rightarrow> string \<Rightarrow> uuid \<Rightarrow> 'p view" where
  "download_pdf_admin config default_currency i g =
     bindP (find_invoice i) (\<lambda>found.
       case found of
         None \<Rightarrow> ret (error_answer 404 ''Invoice not found'')
       | Some v \<Rightarrow> invoice_pdf config default_currency v (inv_user_id v))"

text \<open>
  The registry is the attribute \<open>sdk_registry\<close> of the application, which core never sets; without
  it the routes use an empty one.
\<close>

definition capture_answer ::
  "driver \<Rightarrow> capture_result \<Rightarrow> ('p account_db_scheme session, response) prog" where
  "capture_answer drv r =
     (if \<not> cr_success r then ret (answer 400 [(''error'', opt_json (cr_error r))])
      else seqP (commit drv) (ret (answer 200
        (case cr_data r of None \<Rightarrow> [] | Some (i, st) \<Rightarrow> [(''invoice_id'', JStr i), (''status'', JStr st)]))))"

definition app_registry :: "'a sdk_registry option \<Rightarrow> 'a sdk_registry" where
  "app_registry reg = (case reg of None \<Rightarrow> [] | Some r \<Rightarrow> r)"

definition capture_authorized_payment ::
  "'p invoice_env \<Rightarrow> ('p account_db_scheme session) sdk_adapter sdk_registry option \<Rightarrow> uuid \<Rightarrow> 'p view" where
  "capture_authorized_payment env reg i g =
     bindP (capture_payment (ie_drv env) (ie_handlers env) user_email_of (ie_now env) (app_registry reg) i)
       (capture_answer (ie_drv env))"

definition release_authorized_payment ::
  "'p invoice_env \<Rightarrow> ('p account_db_scheme session) sdk_adapter sdk_registry option \<Rightarrow> uuid \<Rightarrow> 'p view" where
  "release_authorized_payment env reg i g =
     bindP (release_payment (ie_drv env) (app_registry reg) i) (capture_answer (ie_drv env))"

end
