(* ===== verification/InvoiceFlow.thy ===== *)
theory InvoiceFlow
  imports InvoiceRoutes RefundFlow AuthFlow
begin

text \<open>
  What the invoice routes guarantee: who reads an invoice, what a duplicate
  shares with its source, which invoices can be marked paid, voided, refunded and captured.
\<close>

section \<open>Reading\<close>

lemma owned_invoice_run:
  "owned_invoice i body g s =
     (case tbl_invoice (pending s) i of
        None \<Rightarrow> (Inr (error_answer 404 ''Invoice not found''), s)
      | Some v \<Rightarrow>
          if inv_user_id v \<noteq> opt_str (g_user_id g) then (Inr (error_answer 403 ''Access denied''), s)
          else body v g s)"
  by (simp add: owned_invoice_def find_invoice_def split: option.splits)

lemma show_invoice_body:
  "show_invoice env v s = (Inr d, s') \<Longrightarrow>
   \<exists>lines. d = invoice_json (ie_now env) lines v"
  by (auto simp: show_invoice_def invoice_dict_def elim!: bindP_InrE)

lemma invoice_json_get [simp]:
  "jget (invoice_json now lines v) ''id'' = JStr (inv_id v)"
  "jget (invoice_json now lines v) ''user_id'' = JStr (inv_user_id v)"
  "jget (invoice_json now lines v) ''status'' = JStr (invoice_status_value (inv_status v))"
  by (simp_all add: invoice_json_def jget_def)

lemma mapP_all:
  assumes "\<And>x s y s'. x \<in> set xs \<Longrightarrow> f x s = (Inr y, s') \<Longrightarrow> P x y"
    and "mapP f xs s = (Inr ys, s')"
  shows "list_all2 P xs ys"
  using assms by (induction xs arbitrary: s ys s') (fastforce elim!: bindP_InrE)+

definition body_field :: "string \<Rightarrow> response \<Rightarrow> json" where
  "body_field k r = (case rs_body r of JObj d \<Rightarrow> jget d k | _ \<Rightarrow> JNull)"

definition row_field :: "string \<Rightarrow> json \<Rightarrow> json" where
  "row_field k j = (case j of JObj d \<Rightarrow> jget d k | _ \<Rightarrow> JNull)"

lemma answer_sel [simp]:
  "rs_status (answer st kvs) = st" "body_field k (answer st kvs) = jget kvs k"
  "rs_status (error_answer st e) = st"
  by (simp_all add: answer_def body_field_def error_answer_def)

lemma shown_list:
  assumes "mapP (\<lambda>v. bindP (show_invoice env v) (\<lambda>d. ret (JObj d))) vs s = (Inr rows, s')"
  shows "map (row_field ''id'') rows = map (\<lambda>v. JStr (inv_id v)) vs"
proof -
  have "list_all2 (\<lambda>v j. row_field ''id'' j = JStr (inv_id v)) vs rows"
    by (rule mapP_all [OF _ assms])
      (auto simp: row_field_def elim!: bindP_InrE dest!: show_invoice_body)
  then show ?thesis by (induction rule: list_all2_induct) auto
qed

section \<open>Refunds, captures and duplicates\<close>

lemma sum_debit_copied:
  "item_debit d (copied_line j item) = item_debit d item"
  by (simp add: item_debit_def copied_line_def)

lemma fold_debit_copied:
  "fold (\<lambda>item n. n + item_debit d item) (map (\<lambda>(k, item). copied_line (f k) item) (enumerate m items)) a
   = fold (\<lambda>item n. n + item_debit d item) items a"
  by (induction items arbitrary: m a) (auto simp: sum_debit_copied)

lemma duplicated_debit:
  "calculate_tokens_to_debit (duplicated fresh ids number now v) d = calculate_tokens_to_debit v d"
  by (simp add: calculate_tokens_to_debit_def duplicated_def fold_debit_copied)

lemma show_invoice_returns: "returns (show_invoice env v)"
  unfolding show_invoice_def invoice_dict_def serialized_line_items_def line_item_dict_def item_catalog_id_def
  by (intro returns_bindP returns_mapP returns_try returns_ret)

lemma shown_body:
  obtains lines s' where "show_invoice env v s = (Inr (invoice_json (ie_now env) lines v), s')"
  using returnsD [OF show_invoice_returns] show_invoice_body by blast

lemma get_invoices_ids:
  "\<exists>rows s'. get_invoices env scan g s = (Inr (answer 200 [(''invoices'', JList rows)]), s') \<and>
     map (row_field ''id'') rows = map (\<lambda>v. JStr (inv_id v))
       (newest_first (filter (\<lambda>v. inv_user_id v = opt_str (g_user_id g)) (scan (pending s))))"
proof -
  let ?vs = "newest_first (filter (\<lambda>v. inv_user_id v = opt_str (g_user_id g)) (scan (pending s)))"
  let ?f = "\<lambda>v. bindP (show_invoice env v) (\<lambda>d. ret (JObj d))"
  have "returns (mapP ?f ?vs)" by (intro returns_mapP returns_bindP show_invoice_returns returns_ret)
  then obtain rows s' where run: "mapP ?f ?vs s = (Inr rows, s')" by (blast dest: returnsD)
  have "get_invoices env scan g s = (Inr (answer 200 [(''invoices'', JList rows)]), s')"
    by (simp add: get_invoices_def find_by_user_def bindP_Inr [where m = "mapP ?f ?vs", OF run])
  with shown_list [OF run] show ?thesis by blast
qed

section \<open>Properties\<close>

text \<open>
  C17. A user reads only their own invoices: the route on one invoice answers 404 when there is
  none, 403 and nothing of the invoice when it is another user's, and the invoice otherwise,
  whatever the line item handlers do; and the list holds the identifiers of exactly the
  user's invoices, the newest first.
\<close>

theorem owner_reads_own_invoices:
  "(case tbl_invoice (pending s) i of
      None \<Rightarrow> get_own_invoice env i g s = (Inr (error_answer 404 ''Invoice not found''), s)
    | Some v \<Rightarrow>
        if inv_user_id v \<noteq> opt_str (g_user_id g)
        then get_own_invoice env i g s = (Inr (error_answer 403 ''Access denied''), s)
        else (\<exists>lines s'. get_own_invoice env i g s =
          (Inr (answer 200 [(''invoice'', JObj (invoice_json (ie_now env) lines v))]), s')))
   \<and> (\<exists>rows s'. get_invoices env scan g s = (Inr (answer 200 [(''invoices'', JList rows)]), s') \<and>
     map (row_field ''id'') rows = map (\<lambda>v. JStr (inv_id v))
       (newest_first (filter (\<lambda>v. inv_user_id v = opt_str (g_user_id g)) (scan (pending s)))))"
proof -
  have "\<exists>lines s'. bindP (show_invoice env v) (\<lambda>d. ret (answer 200 [(''invoice'', JObj d)])) s =
      (Inr (answer 200 [(''invoice'', JObj (invoice_json (ie_now env) lines v))]), s')" for v
    by (rule shown_body [of env v s]) (auto simp: bindP_def)
  then show ?thesis
    using get_invoices_ids by (auto simp: get_own_invoice_def owned_invoice_run split: option.splits)
qed

text \<open>
  A refund through an installed payment plugin never happens: for an invoice paid with
  a method whose plugin is installed, once the token check has passed, the route raises on the
  missing attribute of the plugin manager, before the plugin or the refund event is reached,
  and leaves the session as it was.
\<close>

theorem plugin_refund_raises:
  assumes "parse_uuid raw = Some i" and "tbl_invoice (pending s) i = Some v"
    and "inv_payment_method v = Some m" and "m \<noteq> []" and "m \<noteq> ''basic''" and "plugins m \<noteq> None"
    and "calculate_tokens_to_debit v (pending s) \<le> balance_of (pending s) (inv_user_id v)"
  shows "refund_invoice env (Some (core_plugin_manager plugins)) raw ref g s =
    (Inl (OtherError ''PluginManager object has no attribute is_enabled''), s)"
  using assms
  by (auto simp: refund_invoice_def find_invoice_def get_balance_def refund_via_provider_def
      core_plugin_manager_def opt_str_def)

definition paid_by_plugin :: invoice where
  "paid_by_plugin = sample_invoice\<lparr>inv_id := demo_id, inv_status := PAID, inv_payment_method := Some ''stripe''\<rparr>"

definition shop_env :: "unit invoice_env" where
  "shop_env = \<lparr>ie_drv = no_faults, ie_handlers = [], ie_frozen = None, ie_now = 5\<rparr>"

definition demo_plugins :: "string \<Rightarrow> unit refund_call option" where
  "demo_plugins name = (if name = ''stripe'' then Some (\<lambda>ref. ret (True, None)) else None)"

theorem plugin_refund_raises_witness:
  "refund_invoice shop_env (Some (core_plugin_manager demo_plugins)) demo_id None empty_g
     (open_session (put_invoice paid_by_plugin empty_accounts)) =
   (Inl (OtherError ''PluginManager object has no attribute is_enabled''),
    open_session (put_invoice paid_by_plugin empty_accounts))"
  by (rule plugin_refund_raises [where i = demo_id and v = paid_by_plugin and m = "''stripe''"])
    (simp_all add: paid_by_plugin_def demo_plugins_def calculate_tokens_to_debit_def item_debit_def
      sample_invoice_def sample_item_def balance_of_def empty_accounts_def put_invoice_def)

lemma refusal_missing: "rs_status (service_refusal ''Invoice not found'') = 404"
  by code_simp

lemma refusal_paid: "rs_status (service_refusal ''Invoice already paid'') = 400"
  by code_simp

lemma refusal_status:
  "rs_status (service_refusal (''Cannot mark as paid: invoice status is '' @ invoice_status_value st)) = 400"
  by (cases st; hypsubst; code_simp)

lemma svc_mark_paid_Inr:
  assumes "svc_mark_paid drv now i ref meth s = (Inr r, s')"
  shows "(\<exists>v. tbl_invoice (pending s) i = Some v \<and> inv_status v = PENDING \<and>
      ires_invoice r = Some (inv_mark_paid now (Some ref) (Some meth) v)) \<or>
    s' = s \<and> ires_invoice r = None \<and>
      (case tbl_invoice (pending s) i of None \<Rightarrow> rs_status (service_refusal (str_or (ires_error r) [])) = 404
       | Some v \<Rightarrow> inv_status v \<noteq> PENDING \<and> rs_status (service_refusal (str_or (ires_error r) [])) = 400)"
  using transition_Inr [OF assms [unfolded svc_mark_paid_def]]
  by (auto simp: invoice_err_def invoice_ok_def refusal_missing refusal_paid refusal_status [simplified] split: option.splits if_splits)

text \<open>
  Marking an invoice paid by hand works on pending invoices only: an answer of 200 means
  the invoice was pending; any other answer means it was missing, or in another status, an
  authorized one included, and leaves the session as it was.
\<close>

theorem mark_paid_route_pending_only:
  assumes "mark_paid_route env i ref meth g s = (Inr r, s')"
  shows "(rs_status r = 200 \<and> (\<exists>v. tbl_invoice (pending s) i = Some v \<and> inv_status v = PENDING)) \<or>
    (rs_status r \<noteq> 200 \<and> s' = s \<and>
      (case tbl_invoice (pending s) i of None \<Rightarrow> rs_status r = 404
       | Some v \<Rightarrow> inv_status v \<noteq> PENDING \<and> rs_status r = 400))"
  using assms
  by (auto simp: mark_paid_route_def Let_def elim!: bindP_InrE seqP_InrE dest!: svc_mark_paid_Inr
      split: option.splits)

text \<open>The catalogue lookup of a line item handler reads; it is called while an invoice is shown.\<close>

definition lookups_read :: "'p line_handler list \<Rightarrow> bool" where
  "lookups_read hs \<longleftrightarrow> (\<forall>h\<in>set hs. \<forall>item s. snd (resolve_catalog_item_id h item s) = s)"

lemma catalog_reads: "lookups_read hs \<Longrightarrow> snd (registry_catalog_item_id hs item s) = s"
  unfolding registry_catalog_item_id_def
proof (induction hs)
  case (Cons h hs)
  then have "snd (resolve_catalog_item_id h item s) = s"
    and ih: "snd (poll_handlers (\<lambda>h. resolve_catalog_item_id h item) hs s) = s"
    by (auto simp: lookups_read_def)
  then show ?case
    by (cases "resolve_catalog_item_id h item s")
      (auto simp: bindP_def try_except_def split: sum.splits option.splits)
qed simp

lemma catalog_id_reads: "lookups_read hs \<Longrightarrow> snd (item_catalog_id hs item s) = s"
  using catalog_reads [of hs item s]
  by (cases "registry_catalog_item_id hs item s") (auto simp: item_catalog_id_def try_except_def split: sum.splits)

lemma mapP_reads: "(\<And>x. snd (f x s) = s) \<Longrightarrow> snd (mapP f xs s) = s"
proof (induction xs)
  case (Cons x xs)
  from Cons.prems [of x] Cons.IH [OF Cons.prems] show ?case
    by (cases "f x s"; cases "mapP f xs s") (auto simp: bindP_def split: sum.splits)
qed simp

lemma show_invoice_reads:
  assumes "lookups_read (ie_handlers env)"
  obtains lines where "show_invoice env v s = (Inr (invoice_json (ie_now env) lines v), s)"
proof -
  let ?f = "\<lambda>item. bindP (line_item_dict (ie_handlers env) (inv_id v) item) (\<lambda>line.
      ret (JObj (with_frozen (ie_frozen env) (li_id item) line)))"
  have "snd (?f item s) = s" for item
    using catalog_id_reads [OF assms, of item s]
    by (cases "item_catalog_id (ie_handlers env) item s") (auto simp: line_item_dict_def bindP_def split: sum.splits)
  then have reads: "snd (mapP ?f (inv_line_items v) s) = s" by (rule mapP_reads)
  have "returns (mapP ?f (inv_line_items v))"
    unfolding line_item_dict_def item_catalog_id_def
    by (intro returns_bindP returns_mapP returns_try returns_ret)
  then obtain lines t where run: "mapP ?f (inv_line_items v) s = (Inr lines, t)" by (blast dest: returnsD)
  with reads have "t = s" by simp
  with run have "show_invoice env v s = (Inr (invoice_json (ie_now env) lines v), s)"
    unfolding show_invoice_def invoice_dict_def serialized_line_items_def
    by (simp add: bindP_Inr [where m = "mapP ?f (inv_line_items v)"])
  then show thesis by (rule that)
qed

lemma refreshed_run: "tbl_invoice (pending s) i = Some v \<Longrightarrow> refreshed i s = (Inr v, s)"
  by (simp add: refreshed_def find_invoice_def)

lemma process_refund_refuses:
  "tbl_invoice (pending s) i = Some v \<Longrightarrow> inv_status v = CANCELLED \<Longrightarrow>
   process_refund drv lhs i s = (Inr (service_err ''Cannot refund: invoice status is CANCELLED''), s)"
  by (simp add: process_refund_def find_invoice_def)

text \<open>
  Voiding has no guard: whatever the status of the invoice, an answer of 200 leaves it
  cancelled in the committed tables with every balance and purchase as it was; a paid invoice
  keeps its tokens, and the refund that would take them back is refused from then on.
\<close>

theorem void_blocks_refund:
  assumes "keyed (pending s)" and "lookups_read (ie_handlers env)"
    and "tbl_invoice (pending s) i = Some v" and "ie_drv env (calls s) = None"
  shows "\<exists>r s'. void_invoice env i g s = (Inr r, s') \<and> rs_status r = 200 \<and>
     durable s' = put_invoice (v\<lparr>inv_status := CANCELLED\<rparr>) (pending s) \<and>
     process_refund drv lhs i s' = (Inr (service_err ''Cannot refund: invoice status is CANCELLED''), s')"
proof -
  let ?w = "v\<lparr>inv_status := CANCELLED\<rparr>"
  let ?t = "s\<lparr>calls := Suc (calls s), pending := put_invoice ?w (pending s),
     durable := put_invoice ?w (pending s)\<rparr>"
  have id: "inv_id v = i" using assms(1,3) by (simp add: keyed_def)
  have "svc_mark_cancelled (ie_drv env) i s = (Inr (invoice_ok ?w), ?t)"
    using assms(3,4) by (simp add: svc_mark_cancelled_def transition_def find_invoice_def seqP_def
        bindP_def save_invoice_ok inv_mark_cancelled_def)
  moreover obtain lines where "show_invoice env ?w ?t = (Inr (invoice_json (ie_now env) lines ?w), ?t)"
    by (rule show_invoice_reads [OF assms(2)])
  ultimately have "void_invoice env i g s =
      (Inr (answer 200 [(''invoice'', JObj (invoice_json (ie_now env) lines ?w)),
        (''message'', JStr ''Invoice voided'')]), ?t)"
    by (simp add: void_invoice_def bindP_def invoice_ok_def)
  moreover have "process_refund drv lhs i ?t =
      (Inr (service_err ''Cannot refund: invoice status is CANCELLED''), ?t)"
    by (rule process_refund_refuses [of _ _ ?w]) (simp_all add: id)
  ultimately show ?thesis by simp
qed

text \<open>
  A duplicate is a pending copy for the same user over the same amount, and its lines
  name the very purchases of the source: refunding it would take back the tokens the source
  gave. The source and every other row stay as they were.
\<close>

theorem duplicate_shares_purchases:
  assumes "tbl_invoice (pending s) i = Some v" and "ie_drv env (calls s) = None"
    and "lookups_read (ie_handlers env)" and "fresh \<notin> dom (tbl_invoice (pending s))"
  shows "\<exists>w r s'. duplicate_invoice env fresh ids number i g s = (Inr r, s') \<and> rs_status r = 201 \<and>
     durable s' = put_invoice w (pending s) \<and> tbl_invoice (durable s') i = Some v \<and>
     inv_status w = PENDING \<and> inv_user_id w = inv_user_id v \<and> inv_amount w = inv_amount v \<and>
     calculate_tokens_to_debit w d = calculate_tokens_to_debit v d"
proof -
  let ?w = "duplicated fresh ids number (ie_now env) v"
  let ?t = "s\<lparr>pending := put_invoice ?w (pending s), calls := Suc (calls s),
     durable := put_invoice ?w (pending s)\<rparr>"
  have id: "inv_id ?w = fresh" by (simp add: duplicated_def)
  obtain lines where shown: "show_invoice env ?w ?t = (Inr (invoice_json (ie_now env) lines ?w), ?t)"
    by (rule show_invoice_reads [OF assms(3)])
  have "duplicate_invoice env fresh ids number i g s =
      (Inr (answer 201 [(''invoice'', JObj (invoice_json (ie_now env) lines ?w)),
        (''message'', JStr ''Invoice duplicated successfully'')]), ?t)"
    using assms(1,2) refreshed_run [of ?t fresh ?w] shown
    by (simp add: duplicate_invoice_def find_invoice_def Let_def seqP_def bindP_def id)
  moreover have "i \<noteq> fresh" using assms(1,4) by auto
  moreover have "inv_status ?w = PENDING" "inv_user_id ?w = inv_user_id v" "inv_amount ?w = inv_amount v"
    by (simp_all add: duplicated_def)
  ultimately show ?thesis using assms(1) duplicated_debit [of fresh ids number "ie_now env" v d]
    by (intro exI [of _ ?w]) (simp add: id)
qed

text \<open>
  Without a registry on the application no authorized payment is captured or released:
  both routes answer 400 or raise, and leave the session as it was.
\<close>

theorem capture_needs_registry:
  "(\<exists>r. capture_authorized_payment env None i g s = (r, s) \<and>
     (case r of Inl e \<Rightarrow> \<exists>m. e = ValueError m | Inr a \<Rightarrow> rs_status a = 400)) \<and>
   (\<exists>r. release_authorized_payment env None i g s = (r, s) \<and>
     (case r of Inl e \<Rightarrow> \<exists>m. e = ValueError m | Inr a \<Rightarrow> rs_status a = 400))"
  by (auto simp: capture_authorized_payment_def release_authorized_payment_def capture_payment_def
      release_payment_def provider_call_def app_registry_def find_invoice_def adapter_get_def
      capture_answer_def capture_err_def bindP_def split: option.splits)

end
