(* ===== verification/Shop.thy ===== *)
theory Shop
  imports ApiKeys Decimals
begin

text \<open>
  The tables of the catalogue: taxes (\<open>vbwd/models/tax.py\<close>), currencies (\<open>models/currency.py\<close>),
  countries (\<open>models/country.py\<close>) and token bundles with the taxes assigned to them
  (\<open>models/token_bundle.py\<close>). They extend the database of the accounts; a table is the list of its
  rows in the order the database returns them. Timestamps are left out.
\<close>

record tax =
  ta_id :: uuid
  ta_name :: string
  ta_code :: string
  ta_description :: "string option"
  ta_rate :: rat
  ta_country :: "string option"
  ta_region :: "string option"
  ta_class :: "string option"
  ta_active :: bool
  ta_inclusive :: bool

record currency =
  cy_code :: string
  cy_name :: string
  cy_symbol :: string
  cy_rate :: rat
  cy_places :: int

record country =
  co_id :: uuid
  co_code :: string
  co_name :: string
  co_enabled :: bool
  co_position :: int

record token_bundle =
  bu_id :: uuid
  bu_name :: string
  bu_description :: "string option"
  bu_tokens :: int
  bu_price :: rat
  bu_active :: bool
  bu_sort :: "int option"
  bu_taxes :: "uuid list"

record shop_db = account_db +
  sd_taxes :: "tax list"
  sd_currencies :: "currency list"
  sd_countries :: "country list"
  sd_bundles :: "token_bundle list"

type_synonym 'p shop_view = "gctx \<Rightarrow> ('p shop_db_scheme session, response) prog"

definition empty_shop :: shop_db where
  "empty_shop = account_db.extend empty_accounts
     \<lparr>sd_taxes = [], sd_currencies = [], sd_countries = [], sd_bundles = []\<rparr>"

text \<open>A list ordered by a string key, in the byte order of the database's C collation.\<close>

definition by_text :: "('r \<Rightarrow> string) \<Rightarrow> 'r list \<Rightarrow> 'r list" where
  "by_text key rows = sort_key key rows"

lemma by_text_set [simp]: "set (by_text key rows) = set rows"
  by (simp add: by_text_def)

lemma by_text_distinct [simp]: "distinct (map f (by_text key rows)) = distinct (map f rows)"
proof -
  have "mset (map f (by_text key rows)) = mset (map f rows)" by (simp add: by_text_def)
  then show ?thesis by (rule mset_eq_imp_distinct_iff)
qed

end
