(* ===== verification/Taxes.thy ===== *)
theory Taxes
  imports Shop
begin

text \<open>
  Taxes: the arithmetic of \<open>Tax\<close> (\<open>vbwd/models/tax.py\<close>), \<open>TaxRepository\<close>, \<open>TaxService\<close>
  (\<open>services/tax_service.py\<close>), the admin routes (\<open>routes/admin/tax.py\<close>), the seeder of the German
  rates (\<open>services/tax_seeder.py\<close>) and the linker of demo data (\<open>services/demo_tax_linker.py\<close>).
  Amounts are rationals; every operation on a \<open>Decimal\<close> rounds with \<open>dec\<close>.
\<close>

section \<open>Tax\<close>

definition tax_calculate :: "tax \<Rightarrow> rat \<Rightarrow> rat" where
  "tax_calculate t net_amount = quantize 2 (dec (dec (net_amount * ta_rate t) / 100))"

definition calculate_gross :: "tax \<Rightarrow> rat \<Rightarrow> rat" where
  "calculate_gross t net_amount = dec (net_amount + tax_calculate t net_amount)"

text \<open>A rate of minus one hundred divides by zero.\<close>

definition tax_divisor :: "tax \<Rightarrow> rat" where
  "tax_divisor t = dec (1 + dec (ta_rate t / 100))"

definition extract_net :: "tax \<Rightarrow> rat \<Rightarrow> exn + rat" where
  "extract_net t gross_amount =
     (if tax_divisor t = 0 then Inl (OtherError ''DivisionByZero'')
      else Inr (quantize 2 (dec (gross_amount / tax_divisor t))))"

definition extract_tax :: "tax \<Rightarrow> rat \<Rightarrow> exn + rat" where
  "extract_tax t gross_amount =
     (case extract_net t gross_amount of Inl e \<Rightarrow> Inl e | Inr net \<Rightarrow> Inr (dec (gross_amount - net)))"

definition is_applicable :: "tax \<Rightarrow> string \<Rightarrow> string option \<Rightarrow> bool" where
  "is_applicable t country_code region_code \<longleftrightarrow>
     \<not> (truthy (ta_country t) \<and> ta_country t \<noteq> Some country_code) \<and>
     \<not> (truthy (ta_region t) \<and> ta_region t \<noteq> region_code)"

definition tax_dict :: "tax \<Rightarrow> json_dict" where
  "tax_dict t =
     [(''id'', JStr (ta_id t)), (''name'', JStr (ta_name t)), (''code'', JStr (ta_code t)),
      (''description'', opt_json (ta_description t)), (''rate'', JStr (decimal_str 2 (ta_rate t))),
      (''country_code'', opt_json (ta_country t)), (''region_code'', opt_json (ta_region t)),
      (''tax_class'', opt_json (ta_class t)), (''is_active'', JBool (ta_active t)),
      (''is_inclusive'', JBool (ta_inclusive t))]"

text \<open>\<open>TaxRate.is_valid_on\<close>, dates as days.\<close>

record tax_rate =
  tr_tax :: uuid
  tr_rate :: rat
  tr_from :: int
  tr_to :: "int option"

definition is_valid_on :: "tax_rate \<Rightarrow> int \<Rightarrow> bool" where
  "is_valid_on r day \<longleftrightarrow> \<not> day < tr_from r \<and> (case tr_to r of None \<Rightarrow> True | Some until \<Rightarrow> \<not> until < day)"

section \<open>TaxRepository\<close>

definition tax_by_code :: "'p shop_db_scheme \<Rightarrow> string \<Rightarrow> tax option" where
  "tax_by_code d c = find_row ta_code (str_upper c) (sd_taxes d)"

definition taxes_by_country :: "'p shop_db_scheme \<Rightarrow> string \<Rightarrow> tax list" where
  "taxes_by_country d c = filter (\<lambda>t. ta_country t = Some (str_upper c) \<and> ta_active t) (sd_taxes d)"

definition find_active_taxes :: "'p shop_db_scheme \<Rightarrow> tax list" where
  "find_active_taxes d = filter ta_active (sd_taxes d)"

section \<open>TaxService\<close>

definition get_applicable_tax :: "'p shop_db_scheme \<Rightarrow> string \<Rightarrow> string option \<Rightarrow> tax option" where
  "get_applicable_tax d country_code region_code =
     (let taxes = taxes_by_country d country_code;
          regional = filter (\<lambda>t. ta_region t = region_code) taxes;
          country_taxes = filter (\<lambda>t. \<not> truthy (ta_region t)) taxes
      in if truthy region_code \<and> regional \<noteq> [] then Some (hd regional)
         else case country_taxes of [] \<Rightarrow> None | t # _ \<Rightarrow> Some t)"

definition svc_calculate_tax :: "'p shop_db_scheme \<Rightarrow> rat \<Rightarrow> string \<Rightarrow> rat" where
  "svc_calculate_tax d net_amount tax_code =
     (case tax_by_code d tax_code of None \<Rightarrow> 0 | Some t \<Rightarrow> tax_calculate t net_amount)"

definition calculate_total_with_tax :: "'p shop_db_scheme \<Rightarrow> rat \<Rightarrow> string \<Rightarrow> rat" where
  "calculate_total_with_tax d net_amount tax_code =
     (case tax_by_code d tax_code of None \<Rightarrow> net_amount | Some t \<Rightarrow> calculate_gross t net_amount)"

record tax_breakdown =
  tb_net :: rat
  tb_tax :: rat
  tb_gross :: rat
  tb_code :: "string option"
  tb_rate :: rat
  tb_name :: "string option"

definition get_tax_breakdown :: "'p shop_db_scheme \<Rightarrow> rat \<Rightarrow> string \<Rightarrow> string option \<Rightarrow> tax_breakdown" where
  "get_tax_breakdown d net_amount country_code region_code =
     (case get_applicable_tax d country_code region_code of
        None \<Rightarrow> \<lparr>tb_net = net_amount, tb_tax = 0, tb_gross = net_amount, tb_code = None, tb_rate = 0,
          tb_name = None\<rparr>
      | Some t \<Rightarrow> \<lparr>tb_net = net_amount, tb_tax = tax_calculate t net_amount,
          tb_gross = dec (net_amount + tax_calculate t net_amount), tb_code = Some (ta_code t),
          tb_rate = ta_rate t, tb_name = Some (ta_name t)\<rparr>)"

section \<open>The admin routes\<close>

definition put_tax :: "tax \<Rightarrow> 'p shop_db_scheme \<Rightarrow> 'p shop_db_scheme" where
  "put_tax t d = d\<lparr>sd_taxes := upsert ta_id t (sd_taxes d)\<rparr>"

definition tax_by_id :: "'p shop_db_scheme \<Rightarrow> uuid \<Rightarrow> tax option" where
  "tax_by_id d i = find_row ta_id i (sd_taxes d)"

definition tax_codes_unique :: "'p shop_db_scheme \<Rightarrow> bool" where
  "tax_codes_unique d \<longleftrightarrow> distinct (map ta_code (sd_taxes d))"

text \<open>\<open>ORDER BY country_code, code\<close>: missing countries come last.\<close>

definition tax_order :: "tax list \<Rightarrow> tax list" where
  "tax_order ts =
     by_text (\<lambda>t. opt_str (ta_country t)) (filter (\<lambda>t. ta_country t \<noteq> None) (by_text ta_code ts)) @
     filter (\<lambda>t. ta_country t = None) (by_text ta_code ts)"

definition list_rates :: "string option \<Rightarrow> string option \<Rightarrow> string option \<Rightarrow> 'p shop_view" where
  "list_rates country active_arg tax_class g =
     bindP (query (\<lambda>d. tax_order (filter (\<lambda>t.
         (truthy country \<longrightarrow> ta_country t = Some (str_upper (opt_str country))) \<and>
         (case active_arg of None \<Rightarrow> True | Some a \<Rightarrow> ta_active t = (str_lower a = ''true'')) \<and>
         (truthy tax_class \<longrightarrow> ta_class t = tax_class)) (sd_taxes d)))) (\<lambda>ts.
       ret (answer 200 [(''rates'', JList (map (\<lambda>t. JObj (tax_dict t)) ts))]))"

text \<open>\<open>data.get(key, "").strip()\<close>: a value that is not a string has no such method.\<close>

definition body_text :: "json_dict \<Rightarrow> string \<Rightarrow> ('s, string) prog" where
  "body_text data key =
     (case jget_or data key (JStr []) of
        JStr s \<Rightarrow> ret s
      | _ \<Rightarrow> raise (OtherError ''object has no attribute strip''))"

definition none_if_blank :: "string \<Rightarrow> string option" where
  "none_if_blank s = (if s = [] then None else Some s)"

definition truthy_text :: "json \<Rightarrow> string option" where
  "truthy_text v = (if jtrue v then json_text v else None)"

text \<open>A row with a value its column refuses fails at the flush.\<close>

definition rate_column :: "json \<Rightarrow> rat option" where
  "rate_column v = (case decimal_of_json v of None \<Rightarrow> None | Some x \<Rightarrow> numeric_column 5 2 x)"

definition tax_columns :: "rat option \<Rightarrow> bool option \<Rightarrow> bool option \<Rightarrow> tax \<Rightarrow> tax option" where
  "tax_columns rate active inclusive t =
     (case (rate, active, inclusive) of
        (Some r, Some a, Some b) \<Rightarrow> Some (t\<lparr>ta_rate := r, ta_active := a, ta_inclusive := b\<rparr>)
      | _ \<Rightarrow> None)"

definition save_tax :: "driver \<Rightarrow> tax option \<Rightarrow> ('p shop_db_scheme session, tax) prog" where
  "save_tax drv row =
     (case row of
        None \<Rightarrow> seqP (db_call drv) (raise (DatabaseError ''invalid column value''))
      | Some t \<Rightarrow> seqP (on_db (put_tax t)) (seqP (commit_checked drv tax_codes_unique) (ret t)))"

definition create_rate :: "driver \<Rightarrow> uuid \<Rightarrow> json_dict \<Rightarrow> 'p shop_view" where
  "create_rate drv fresh data g =
     bindP (body_text data ''name'') (\<lambda>raw_name.
     bindP (body_text data ''code'') (\<lambda>raw_code.
     let name = str_strip raw_name; cd = str_upper (str_strip raw_code) in
     if name = [] \<or> cd = [] then ret (error_answer 400 ''name and code are required'')
     else if jget data ''rate'' = JNull then ret (error_answer 400 ''rate is required'')
     else bindP (query (\<lambda>d. find_row ta_code cd (sd_taxes d))) (\<lambda>existing.
       if existing \<noteq> None
       then ret (error_answer 400 (''Tax code '' @ quoted cd @ '' already exists''))
       else
         bindP (body_text data ''country_code'') (\<lambda>country.
         bindP (body_text data ''region_code'') (\<lambda>region.
         bindP (save_tax drv (tax_columns (rate_column (jget data ''rate''))
             (bool_column (jget_or data ''is_active'' (JBool True)))
             (bool_column (jget_or data ''is_inclusive'' (JBool False)))
             \<lparr>ta_id = fresh, ta_name = name, ta_code = cd,
              ta_description = json_text (jget_or data ''description'' (JStr [])), ta_rate = 0,
              ta_country = none_if_blank (str_upper country),
              ta_region = none_if_blank (str_strip region), ta_class = truthy_text (jget data ''tax_class''),
              ta_active = True, ta_inclusive = False\<rparr>)) (\<lambda>t.
         ret (answer 201 [(''rate'', JObj (tax_dict t))])))))))"

definition get_rate :: "uuid \<Rightarrow> 'p shop_view" where
  "get_rate i g =
     bindP (query (\<lambda>d. tax_by_id d i)) (\<lambda>found.
       ret (case found of
          None \<Rightarrow> error_answer 404 ''Tax rate not found''
        | Some t \<Rightarrow> answer 200 [(''rate'', JObj (tax_dict t))]))"

definition given :: "json_dict \<Rightarrow> string \<Rightarrow> (json \<Rightarrow> 'r \<Rightarrow> 'r) \<Rightarrow> 'r \<Rightarrow> 'r" where
  "given data key set_to r = (if has_key key data then set_to (jget data key) r else r)"

text \<open>The fields after the code, in the order of the code.\<close>

definition change_tax :: "json_dict \<Rightarrow> tax \<Rightarrow> tax" where
  "change_tax data t =
     given data ''tax_class'' (\<lambda>v. ta_class_update (\<lambda>_. truthy_text v))
      (given data ''region_code'' (\<lambda>v. ta_region_update (\<lambda>_. truthy_text v))
        (given data ''country_code'' (\<lambda>v. ta_country_update (\<lambda>_. map_option str_upper (truthy_text v)))
          (given data ''description'' (\<lambda>v. ta_description_update (\<lambda>_. json_text v)) t)))"

definition update_rate :: "driver \<Rightarrow> uuid \<Rightarrow> json_dict \<Rightarrow> 'p shop_view" where
  "update_rate drv i data g =
     bindP (query (\<lambda>d. tax_by_id d i)) (\<lambda>found.
       case found of
         None \<Rightarrow> ret (error_answer 404 ''Tax rate not found'')
       | Some t0 \<Rightarrow>
           bindP (if has_key ''name'' data then bindP (body_text data ''name'') (\<lambda>s. ret (str_strip s))
                  else ret (ta_name t0)) (\<lambda>name.
           seqP (on_db (put_tax (t0\<lparr>ta_name := name\<rparr>)))
           (bindP (if has_key ''code'' data then bindP (body_text data ''code'') (\<lambda>s. ret (str_upper (str_strip s)))
                  else ret (ta_code t0)) (\<lambda>cd.
           bindP (query (\<lambda>d. find_row ta_code cd (sd_taxes d))) (\<lambda>existing.
           if has_key ''code'' data \<and> (case existing of Some e \<Rightarrow> ta_id e \<noteq> ta_id t0 | None \<Rightarrow> False)
           then ret (error_answer 400 (''Tax code '' @ quoted cd @ '' already exists''))
           else
             bindP (save_tax drv (tax_columns
                 (if has_key ''rate'' data then rate_column (jget data ''rate'') else Some (ta_rate t0))
                 (bool_column (jget_or data ''is_active'' (JBool (ta_active t0))))
                 (bool_column (jget_or data ''is_inclusive'' (JBool (ta_inclusive t0))))
                 (change_tax data (t0\<lparr>ta_name := name, ta_code := cd\<rparr>)))) (\<lambda>t.
             ret (answer 200 [(''rate'', JObj (tax_dict t))])))))))"

text \<open>
  A tax that a row of a join table names cannot be deleted: the bundles' is core's, \<open>others\<close> says
  whether those of the plugins are met.
\<close>

definition tax_links_ok :: "('p shop_db_scheme \<Rightarrow> bool) \<Rightarrow> 'p shop_db_scheme \<Rightarrow> bool" where
  "tax_links_ok others d \<longleftrightarrow>
     list_all (\<lambda>b. list_all (\<lambda>i. tax_by_id d i \<noteq> None) (bu_taxes b)) (sd_bundles d) \<and> others d"

definition delete_rate :: "driver \<Rightarrow> ('p shop_db_scheme \<Rightarrow> bool) \<Rightarrow> uuid \<Rightarrow> 'p shop_view" where
  "delete_rate drv others i g =
     bindP (query (\<lambda>d. tax_by_id d i)) (\<lambda>found.
       case found of
         None \<Rightarrow> ret (error_answer 404 ''Tax rate not found'')
       | Some t \<Rightarrow>
           seqP (on_db (\<lambda>d. d\<lparr>sd_taxes := remove_rows (\<lambda>x. ta_id x = i) (sd_taxes d)\<rparr>))
             (try_except
                (seqP (commit_checked drv (tax_links_ok others))
                  (ret (answer 200 [(''message'', JStr ''Tax rate deleted'')])))
                (\<lambda>e. if e = DatabaseError ''constraint violated''
                     then seqP rollback (ret (error_answer 409 ''Tax rate is in use and cannot be deleted''))
                     else raise e)))"

section \<open>Seeding\<close>

definition seed_catalog :: "(string \<times> string \<times> rat \<times> string) list" where
  "seed_catalog =
     [(''VAT_DE'', ''VAT Germany (19%)'', 19, ''standard''), (''VAT_DE_7'', ''VAT Germany (7%)'', 7, ''reduced'')]"

definition seeded_tax :: "uuid \<Rightarrow> string \<times> string \<times> rat \<times> string \<Rightarrow> tax" where
  "seeded_tax fresh entry =
     (case entry of (c, name, rate, cls) \<Rightarrow>
        \<lparr>ta_id = fresh, ta_name = name, ta_code = c, ta_description = None, ta_rate = rate,
         ta_country = Some ''DE'', ta_region = None, ta_class = Some cls, ta_active = True,
         ta_inclusive = False\<rparr>)"

fun seed_rows :: "(nat \<Rightarrow> uuid) \<Rightarrow> (string \<times> string \<times> rat \<times> string) list \<Rightarrow> tax list \<Rightarrow> tax list \<times> int" where
  "seed_rows mint [] rows = (rows, 0)"
| "seed_rows mint (entry # entries) rows =
     (if find_row ta_code (fst entry) rows \<noteq> None then seed_rows mint entries rows
      else case seed_rows mint entries (rows @ [seeded_tax (mint (length entries)) entry]) of
        (rows', n) \<Rightarrow> (rows', n + 1))"

definition seed_taxes :: "driver \<Rightarrow> (nat \<Rightarrow> uuid) \<Rightarrow> ('p shop_db_scheme session, int) prog" where
  "seed_taxes drv mint =
     bindP (query (\<lambda>d. seed_rows mint seed_catalog (sd_taxes d))) (\<lambda>(rows, n).
       seqP (on_db (\<lambda>d. d\<lparr>sd_taxes := rows\<rparr>)) (seqP (commit drv) (ret n)))"

definition demo_vat_code :: string where
  "demo_vat_code = ''VAT_DE''"

definition link_tax :: "uuid \<Rightarrow> token_bundle \<Rightarrow> token_bundle" where
  "link_tax i b = (if i \<in> set (bu_taxes b) then b else b\<lparr>bu_taxes := bu_taxes b @ [i]\<rparr>)"

definition link_demo_tax :: "string \<Rightarrow> uuid list \<Rightarrow> ('p shop_db_scheme session, int) prog" where
  "link_demo_tax c sellables =
     bindP (query (\<lambda>d. tax_by_code d c)) (\<lambda>found.
       case found of
         None \<Rightarrow> ret 0
       | Some t \<Rightarrow>
           bindP (query (\<lambda>d. int (length (filter (\<lambda>b. bu_id b \<in> set sellables \<and> ta_id t \<notin> set (bu_taxes b))
               (sd_bundles d))))) (\<lambda>n.
             seqP (on_db (\<lambda>d. d\<lparr>sd_bundles :=
                 map (\<lambda>b. if bu_id b \<in> set sellables then link_tax (ta_id t) b else b) (sd_bundles d)\<rparr>))
               (ret n)))"

end
