(* ===== verification/Pricing.thy ===== *)
theory Pricing
  imports Taxes
begin

text \<open>
  Prices: the value object \<open>Price\<close> and the factory that computes it from a stored price, the
  global storage mode and the assigned taxes (\<open>vbwd/pricing/\<close>), the tax fields recorded on an
  invoice line, the block of prices in answers, and the registry of checkout adjustments
  (\<open>services/checkout_price_adjustment_registry.py\<close>). The factory computes with \<open>Decimal\<close> and hands
  out floats: \<open>flt\<close> is the float nearest to a number, \<open>float_str\<close> the decimal \<open>str\<close> shows of it.
\<close>

record price_tax =
  pt_code :: string
  pt_name :: string
  pt_rate :: rat
  pt_amount :: rat

record price =
  pr_netto :: rat
  pr_taxes :: "price_tax list"
  pr_brutto :: rat
  pr_currency :: string

definition price_tax_dict :: "price_tax \<Rightarrow> json" where
  "price_tax_dict t = JObj [(''code'', JStr (pt_code t)), (''name'', JStr (pt_name t)),
     (''rate'', JNum (pt_rate t)), (''amount'', JNum (pt_amount t))]"

definition price_dict :: "price \<Rightarrow> json_dict" where
  "price_dict p = [(''netto'', JNum (pr_netto p)), (''taxes'', JList (map price_tax_dict (pr_taxes p))),
     (''brutto'', JNum (pr_brutto p)), (''currency'', JStr (pr_currency p))]"

section \<open>PriceFactory\<close>

definition brutto_from_netto :: "rat \<Rightarrow> rat list \<Rightarrow> rat" where
  "brutto_from_netto netto rates =
     dec (netto + foldl (\<lambda>s r. dec (s + dec (dec (netto * r) / 100))) 0 rates)"

definition combined_rate :: "rat list \<Rightarrow> rat" where
  "combined_rate rates = foldl (\<lambda>s r. dec (s + dec (r / 100))) 0 rates"

definition netto_from_brutto :: "rat \<Rightarrow> rat list \<Rightarrow> exn + rat" where
  "netto_from_brutto brutto rates =
     (let divisor = dec (1 + combined_rate rates)
      in if divisor = 0 then Inl (OtherError ''DivisionByZero'') else Inr (dec (brutto / divisor)))"

text \<open>
  A sellable is its raw price, a float, with the taxes assigned to it. The currency is the code
  of the default currency, resolved before.
\<close>

definition price_tax_of :: "rat \<Rightarrow> tax \<Rightarrow> price_tax" where
  "price_tax_of netto t =
     \<lparr>pt_code = ta_code t, pt_name = ta_name t, pt_rate = flt (ta_rate t),
      pt_amount = flt (dec (dec (netto * ta_rate t) / 100))\<rparr>"

definition price_of :: "json_dict \<Rightarrow> string \<Rightarrow> rat \<Rightarrow> tax list \<Rightarrow> exn + price" where
  "price_of settings currency_code raw_price taxes =
     (let raw = float_str raw_price; rates = map ta_rate taxes;
          both = (if jget_or settings ''prices_mode_in_db'' (JStr ''NETTO'') = JStr ''BRUTTO''
                  then (case netto_from_brutto raw rates of Inl e \<Rightarrow> Inl e | Inr n \<Rightarrow> Inr (n, raw))
                  else Inr (raw, brutto_from_netto raw rates))
      in case both of
           Inl e \<Rightarrow> Inl e
         | Inr (netto, brutto) \<Rightarrow>
             Inr \<lparr>pr_netto = flt netto, pr_taxes = map (price_tax_of netto) taxes, pr_brutto = flt brutto,
               pr_currency = currency_code\<rparr>)"

section \<open>Recorded and shown amounts\<close>

definition to_cents :: "rat \<Rightarrow> int \<Rightarrow> rat" where
  "to_cents amount quantity = quantize 2 (dec (float_str amount * of_int quantity))"

record line_tax =
  lt_net :: rat
  lt_tax :: rat
  lt_breakdown :: "(price_tax \<times> rat) list"

text \<open>A line of the breakdown is the tax with its amount in cents.\<close>

definition line_tax_fields :: "price \<Rightarrow> int \<Rightarrow> line_tax" where
  "line_tax_fields p quantity =
     (let amounts = map (\<lambda>t. to_cents (pt_amount t) quantity) (pr_taxes p)
      in \<lparr>lt_net = to_cents (pr_netto p) quantity, lt_tax = foldl (\<lambda>s a. dec (s + a)) 0 amounts,
          lt_breakdown = zip (pr_taxes p) amounts\<rparr>)"

definition breakdown_json :: "price_tax \<times> rat \<Rightarrow> json" where
  "breakdown_json line = (case line of (t, a) \<Rightarrow> JObj [(''code'', JStr (pt_code t)), (''name'', JStr (pt_name t)),
     (''rate'', JNum (pt_rate t)), (''amount'', JNum (flt a))])"

definition price_money :: "rat \<Rightarrow> string" where
  "price_money amount = decimal_str 2 (quantize 2 (float_str amount))"

definition build_pricing_block :: "price \<Rightarrow> json_dict" where
  "build_pricing_block p =
     (let total_tax = foldl (\<lambda>s t. flt (s + pt_amount t)) 0 (pr_taxes p);
          total_rate = foldl (\<lambda>s t. dec (s + float_str (pt_rate t))) 0 (pr_taxes p)
      in [(''net_amount'', JStr (price_money (pr_netto p))), (''tax_amount'', JStr (price_money total_tax)),
          (''gross_amount'', JStr (price_money (pr_brutto p))),
          (''tax_rate'', JStr (decimal_str 2 (quantize 2 total_rate))),
          (''taxes'', JList (map (\<lambda>t. JObj [(''code'', JStr (pt_code t)),
             (''rate'', JStr (float_repr (pt_rate t))), (''amount'', JStr (price_money (pt_amount t)))]) (pr_taxes p))),
          (''price'', JObj (price_dict p))])"

definition display_mode_fields :: "json_dict \<Rightarrow> string option \<Rightarrow> json_dict" where
  "display_mode_fields settings override =
     [(''prices_display_mode'', jget settings ''prices_display_mode''),
      (''effective_display_mode'',
        if truthy override then opt_json override else jget settings ''prices_display_mode'')]"

section \<open>Checkout adjustments\<close>

record adjustment_result =
  aj_valid :: bool
  aj_discount :: rat
  aj_label :: "string option"
  aj_error :: "string option"

definition no_adjustment :: adjustment_result where
  "no_adjustment = \<lparr>aj_valid = True, aj_discount = 0, aj_label = None, aj_error = None\<rparr>"

record adjustment_request =
  aq_code :: string
  aq_subtotal :: rat
  aq_user :: "string option"
  aq_scope :: string
  aq_currency :: string

type_synonym 's adjustment = "adjustment_request \<Rightarrow> ('s, adjustment_result) prog"

definition register_price_adjustment ::
  "string \<Rightarrow> 's adjustment \<Rightarrow> (string \<times> 's adjustment) list \<Rightarrow> (string \<times> 's adjustment) list" where
  "register_price_adjustment key adjustment reg = dict_set key adjustment reg"

definition unregister_price_adjustment ::
  "string \<Rightarrow> (string \<times> 's adjustment) list \<Rightarrow> (string \<times> 's adjustment) list" where
  "unregister_price_adjustment key reg = dict_del key reg"

text \<open>Only the adjustment registered first is asked.\<close>

definition resolve_price_adjustment ::
  "(string \<times> 's adjustment) list \<Rightarrow> string option \<Rightarrow> rat \<Rightarrow> string option \<Rightarrow> string \<Rightarrow> string
     \<Rightarrow> ('s, adjustment_result) prog" where
  "resolve_price_adjustment reg coupon subtotal user scope currency =
     (if \<not> truthy coupon then ret no_adjustment
      else case reg of
        [] \<Rightarrow> ret no_adjustment
      | (_, adjustment) # _ \<Rightarrow> adjustment \<lparr>aq_code = opt_str coupon, aq_subtotal = subtotal,
          aq_user = user, aq_scope = scope, aq_currency = currency\<rparr>)"

end
