(* ===== verification/PriceFlow.thy ===== *)
theory PriceFlow
  imports Pricing
begin

text \<open>
  What the money arithmetic guarantees: a tax added is the tax taken out again, the parts of a
  price add up to its brutto within the precision of a float, and the recorded tax of a line is
  the sum of its breakdown.
\<close>

section \<open>Exact decimals\<close>

lemma dec_exact: "\<bar>m\<bar> < 10 ^ 28 \<Longrightarrow> dec (of_int m / 10 ^ j) = of_int m / 10 ^ j"
  unfolding dec_def
  by (rule round_sig_exact [where m = m and k = "- int j"])
    (simp_all add: power_int_minus divide_inverse)

lemma dec_cents: "\<bar>m\<bar> < 10 ^ 28 \<Longrightarrow> dec (of_int m / 100) = of_int m / 100"
  using dec_exact [of m 2] by simp

lemma quantize_cents: "quantize 2 (x / 100) = of_int (round_half_up x) / 100"
  by (simp add: quantize_def)

text \<open>An amount in cents and a rate in hundredths, within their columns.\<close>

definition cents_amount :: "int \<Rightarrow> rat" where
  "cents_amount c = of_int c / 100"

lemma product_bound:
  fixes c k :: int
  assumes "0 \<le> c" "c < 10 ^ 10" "0 \<le> k" "k < 10 ^ 5" shows "0 \<le> c * k" and "c * k \<le> 10 ^ 15"
  using assms mult_mono [of c "10 ^ 10" k "10 ^ 5"] by simp_all

lemma tax_in_cents:
  assumes "0 \<le> c" "c < 10 ^ 10" "0 \<le> k" "k < 10 ^ 5" "ta_rate t = of_int k / 100"
  shows "tax_calculate t (cents_amount c) = of_int (round_half_up (of_int (c * k) / 10 ^ 4)) / 100"
proof -
  let ?X = "of_int (c * k) / 10 ^ 4 :: rat"
  have small: "\<bar>c * k\<bar> < 10 ^ 28" using product_bound [OF assms(1-4)] by simp
  have eq: "cents_amount c * ta_rate t = ?X" by (simp add: cents_amount_def assms(5))
  have "dec ?X = ?X" by (rule dec_exact [OF small])
  moreover have "dec (?X / 100) = ?X / 100" using dec_exact [OF small, of 6] by simp
  ultimately show ?thesis unfolding tax_calculate_def eq by (simp only: quantize_cents)
qed

lemma gross_in_cents:
  assumes "0 \<le> c" "c < 10 ^ 10" "0 \<le> k" "k < 10 ^ 5" "ta_rate t = of_int k / 100"
  shows "\<exists>T. tax_calculate t (cents_amount c) = cents_amount T
    \<and> calculate_gross t (cents_amount c) = cents_amount (c + T)
    \<and> \<bar>of_int T - of_int (c * k) / 10 ^ 4\<bar> \<le> (1 / 2 :: rat) \<and> 0 \<le> T \<and> T < 10 ^ 12
    \<and> (k = 0 \<longrightarrow> T = 0)"
proof -
  let ?T = "round_half_up (of_int (c * k) / 10 ^ 4)"
  have err: "\<bar>of_int ?T - of_int (c * k) / 10 ^ 4\<bar> \<le> (1 / 2 :: rat)" by (rule round_half_up_error)
  have ck: "0 \<le> c * k" "c * k \<le> 10 ^ 15" by (rule product_bound [OF assms(1-4)])+
  have ck0: "0 \<le> (of_int (c * k) :: rat)" using ck(1) by (simp only: of_int_0_le_iff)
  then have "(of_int (- 1) :: rat) < of_int ?T" using err unfolding abs_le_iff by simp
  then have T: "0 \<le> ?T" by (simp only: of_int_less_iff)
  have "(of_int (c * k) :: rat) \<le> of_int (10 ^ 15)" using ck(2) by (simp only: of_int_le_iff)
  then have "(of_int ?T :: rat) < of_int (10 ^ 12)" using err unfolding abs_le_iff by simp
  then have T2: "?T < 10 ^ 12" by (simp only: of_int_less_iff)
  have tax: "tax_calculate t (cents_amount c) = cents_amount ?T"
    using tax_in_cents [OF assms] by (simp only: cents_amount_def)
  have "cents_amount c + cents_amount ?T = of_int (c + ?T) / 100"
    by (simp only: cents_amount_def of_int_add add_divide_distrib)
  moreover have "dec (of_int (c + ?T) / 100) = of_int (c + ?T) / 100"
    using assms(1,2) T T2 by (intro dec_cents) simp
  ultimately have sum: "dec (cents_amount c + cents_amount ?T) = cents_amount (c + ?T)"
    by (simp only: cents_amount_def)
  have "calculate_gross t (cents_amount c) = cents_amount (c + ?T)"
    unfolding calculate_gross_def tax by (rule sum)
  moreover have "k = 0 \<longrightarrow> ?T = 0" using round_half_up_int [of 0] by simp
  ultimately show ?thesis using tax err T T2 by blast
qed

lemma divide_le_self: "0 \<le> x \<Longrightarrow> 1 \<le> d \<Longrightarrow> \<bar>x / d\<bar> \<le> x" for x d :: rat
  by (simp add: divide_le_eq mult_le_cancel_left1)

text \<open>
  C29. What a tax adds to a net amount is taken out again exactly: for every amount and every rate
  of the columns' range that are not negative, extracting the net amount from the gross one gives the
  net amount, and extracting the tax gives the tax that was added, whatever the rounding to cents
  did. The routes accept negative rates too, and there it fails: at -50 per cent a net of 0.01 is
  grossed to 0.00 and comes back as 0.00, and at -100 per cent the extraction divides by zero.
\<close>

theorem tax_roundtrip:
  assumes "0 \<le> c" "c < 10 ^ 10" "0 \<le> k" "k < 10 ^ 5" "ta_rate t = of_int k / 100"
  shows "extract_net t (calculate_gross t (cents_amount c)) = Inr (cents_amount c) \<and>
    extract_tax t (calculate_gross t (cents_amount c)) = Inr (tax_calculate t (cents_amount c))"
proof -
  from gross_in_cents [OF assms] obtain T where tax: "tax_calculate t (cents_amount c) = cents_amount T"
    and gross: "calculate_gross t (cents_amount c) = cents_amount (c + T)"
    and err: "\<bar>of_int T - of_int (c * k) / 10 ^ 4\<bar> \<le> (1 / 2 :: rat)" and T: "0 \<le> T" "T < 10 ^ 12"
    and zero: "k = 0 \<longrightarrow> T = 0"
    by blast
  let ?D = "(10 ^ 4 + of_int k) / 10 ^ 4 :: rat"
  have rate: "ta_rate t / 100 = of_int k / 10 ^ 4" by (simp add: assms(5))
  have dec_rate: "dec (ta_rate t / 100) = of_int k / 10 ^ 4"
    unfolding rate using assms(3,4) by (intro dec_exact) simp
  have one: "1 + of_int k / 10 ^ 4 = (of_int (10 ^ 4 + k) / 10 ^ 4 :: rat)" by (simp add: add_divide_distrib)
  have "tax_divisor t = of_int (10 ^ 4 + k) / 10 ^ 4"
    unfolding tax_divisor_def dec_rate one using assms(3,4) by (intro dec_exact) simp
  then have D: "tax_divisor t = ?D" by simp
  have pos: "1 \<le> ?D" using assms(3) by simp
  have K: "round_half_up (dec (cents_amount (c + T) / ?D) * 100) = c"
  proof (cases "k = 0")
    case True
    then show ?thesis using zero dec_cents [of c] assms(1,2) by (simp add: cents_amount_def)
  next
    case False
    define y where "y = cents_amount (c + T) / ?D"
    have y: "y * 100 - of_int c = (of_int T - of_int (c * k) / 10 ^ 4) / ?D"
      using pos by (simp add: y_def cents_amount_def field_simps)
    have k1: "1 + 1 / 10 ^ 4 \<le> ?D" using False assms(3) by (simp add: field_simps)
    have "\<bar>y * 100 - of_int c\<bar> \<le> (1 / 2) / (1 + 1 / 10 ^ 4)"
      unfolding y abs_divide using err pos k1 by (intro frac_le) simp_all
    moreover have "\<bar>dec y - y\<bar> \<le> 10 ^ 12 / (2 * 10 ^ 27)"
    proof -
      have "\<bar>y\<bar> \<le> cents_amount (c + T)"
        unfolding y_def by (rule divide_le_self) (use pos assms(1) T(1) in \<open>simp_all add: cents_amount_def\<close>)
      also have "\<dots> \<le> 10 ^ 12" using assms(2) T(2) by (simp add: cents_amount_def)
      finally show ?thesis using dec_error [of y] by simp
    qed
    ultimately have "\<bar>y * 100 - of_int c\<bar> < 1 / 2 - 1 / 10 ^ 5" "\<bar>dec y - y\<bar> \<le> 1 / 10 ^ 10" by simp_all
    then have "- (1 / 2) < dec y * 100 - of_int c" "dec y * 100 - of_int c < 1 / 2"
      unfolding abs_less_iff abs_le_iff by simp_all
    then show ?thesis unfolding y_def by (rule round_half_up_near)
  qed
  have q: "quantize 2 x = of_int (round_half_up (x * 100)) / 100" for x by (simp add: quantize_def)
  have nz: "?D \<noteq> 0" using pos by linarith
  have net: "extract_net t (calculate_gross t (cents_amount c)) = Inr (cents_amount c)"
    unfolding extract_net_def D gross q K if_not_P [OF nz] by (simp only: cents_amount_def)
  have diff: "cents_amount (c + T) - cents_amount c = of_int T / 100"
    by (simp add: cents_amount_def diff_divide_distrib [symmetric])
  have "dec (cents_amount (c + T) - cents_amount c) = cents_amount T"
    unfolding diff using T by (subst dec_cents) (simp_all add: cents_amount_def)
  then show ?thesis using net unfolding extract_tax_def gross tax by simp
qed

section \<open>A price adds up\<close>

definition ulp :: rat where
  "ulp = 1 / (2 * 10 ^ 27)"

lemma dec_near: "\<bar>dec x - x\<bar> \<le> ulp * \<bar>x\<bar>"
  using dec_error [of x] by (simp add: ulp_def)

lemma flt_near: "\<bar>flt x - x\<bar> \<le> \<bar>x\<bar> / 2 ^ 53"
  using round_sig_error [of 2 53 x] by (simp add: flt_def power_int_def field_simps)

lemma dec_between: "0 \<le> x \<Longrightarrow> (1 - ulp) * x \<le> dec x \<and> dec x \<le> (1 + ulp) * x"
  using dec_near [of x] by (simp add: abs_le_iff algebra_simps)

lemma dec_nonneg: "0 \<le> x \<Longrightarrow> 0 \<le> dec x"
  using dec_between [of x] mult_nonneg_nonneg [of "1 - ulp" x] by (simp add: ulp_def)

text \<open>A sum of non-negative numbers, rounded at each of its \<open>n\<close> steps.\<close>

lemma dec_sum_near:
  assumes "list_all (\<lambda>x. 0 \<le> x) xs" and "2 * of_nat (length xs) * ulp \<le> 1"
  shows "\<bar>foldl (\<lambda>s x. dec (s + x)) 0 xs - sum_list xs\<bar> \<le> 2 * of_nat (length xs) * ulp * sum_list xs"
  using assms
proof (induction xs rule: rev_induct)
  case (snoc x xs)
  let ?F = "foldl (\<lambda>s x. dec (s + x)) 0 xs" and ?S = "sum_list xs" and ?n = "of_nat (length xs) :: rat"
  have x: "0 \<le> x" and S: "0 \<le> ?S" using snoc.prems(1) by (auto simp: list_all_iff intro!: sum_list_nonneg)
  have u: "0 \<le> ulp" by (simp add: ulp_def)
  have n: "2 * ?n * ulp \<le> 1" using snoc.prems(2) u by (simp add: algebra_simps)
  with snoc have ih: "\<bar>?F - ?S\<bar> \<le> 2 * ?n * ulp * ?S" by simp
  also have "\<dots> \<le> 1 * ?S" using n S by (rule mult_right_mono)
  finally have F: "0 \<le> ?F" "?F \<le> 2 * ?S" by (auto simp: abs_le_iff)
  have "\<bar>dec (?F + x) - (?F + x)\<bar> \<le> ulp * (?F + x)" using dec_near [of "?F + x"] F x by simp
  also have "\<dots> \<le> ulp * (2 * (?S + x))" using F x u by (intro mult_left_mono) simp_all
  finally have "\<bar>dec (?F + x) - (?S + x)\<bar> \<le> 2 * ?n * ulp * ?S + ulp * (2 * (?S + x))"
    using ih by (simp add: abs_le_iff)
  also have "\<dots> \<le> 2 * (?n + 1) * ulp * (?S + x)"
    using x u mult_nonneg_nonneg [of "2 * ?n * ulp" x] by (simp add: algebra_simps)
  finally show ?case by (simp add: add.commute)
qed simp

lemma foldl_dec_map: "foldl (\<lambda>s r. dec (s + f r)) a rs = foldl (\<lambda>s x. dec (s + x)) a (map f rs)"
  by (induction rs arbitrary: a) simp_all

lemma sum_near:
  fixes f g :: "'a \<Rightarrow> rat"
  assumes "\<And>x. x \<in> set xs \<Longrightarrow> \<bar>f x - g x\<bar> \<le> c * g x"
  shows "\<bar>sum_list (map f xs) - sum_list (map g xs)\<bar> \<le> c * sum_list (map g xs)"
  using assms
proof (induction xs)
  case (Cons x xs)
  then have "\<bar>f x - g x\<bar> \<le> c * g x" "\<bar>sum_list (map f xs) - sum_list (map g xs)\<bar> \<le> c * sum_list (map g xs)"
    by simp_all
  then show ?case by (simp add: abs_le_iff distrib_left)
qed simp

text \<open>The tax a rate puts on a net amount, before it is made a float.\<close>

definition tax_amount :: "rat \<Rightarrow> rat \<Rightarrow> rat" where
  "tax_amount netto r = dec (dec (netto * r) / 100)"

lemma tax_amount_near:
  assumes "0 \<le> netto" and "0 \<le> r"
  shows "\<bar>tax_amount netto r - netto * r / 100\<bar> \<le> 3 * ulp * (netto * r / 100)" and "0 \<le> tax_amount netto r"
proof -
  let ?x = "netto * r"
  have x: "0 \<le> ?x" using assms by simp
  have d: "0 \<le> dec ?x" by (rule dec_nonneg [OF x])
  have "(1 - ulp) * (dec ?x / 100) \<le> tax_amount netto r \<and> tax_amount netto r \<le> (1 + ulp) * (dec ?x / 100)"
    unfolding tax_amount_def by (rule dec_between) (use d in simp)
  moreover have "(1 - ulp) * ((1 - ulp) * ?x / 100) \<le> (1 - ulp) * (dec ?x / 100)"
    and "(1 + ulp) * (dec ?x / 100) \<le> (1 + ulp) * ((1 + ulp) * ?x / 100)"
    using dec_between [OF x] by (auto intro!: mult_left_mono divide_right_mono simp: ulp_def)
  moreover have "(1 - ulp) * ((1 - ulp) * ?x / 100) = (1 - ulp) ^ 2 * (?x / 100)"
    and "(1 + ulp) * ((1 + ulp) * ?x / 100) = (1 + ulp) ^ 2 * (?x / 100)"
    by (simp_all add: power2_eq_square)
  moreover have "(1 - 3 * ulp) * (?x / 100) \<le> (1 - ulp) ^ 2 * (?x / 100)"
    and "(1 + ulp) ^ 2 * (?x / 100) \<le> (1 + 3 * ulp) * (?x / 100)"
    using x by (auto intro!: mult_right_mono simp: ulp_def power2_eq_square)
  ultimately show "\<bar>tax_amount netto r - ?x / 100\<bar> \<le> 3 * ulp * (?x / 100)"
    unfolding abs_le_iff left_diff_distrib distrib_right by linarith
  show "0 \<le> tax_amount netto r" unfolding tax_amount_def by (intro dec_nonneg divide_nonneg_nonneg d) simp
qed

definition slack :: rat where
  "slack = 1 / 10 ^ 23"

text \<open>Non-negative rates, at most a thousand of them.\<close>

definition sane_rates :: "rat list \<Rightarrow> bool" where
  "sane_rates rs \<longleftrightarrow> list_all (\<lambda>r. 0 \<le> r) rs \<and> length rs \<le> 1000"

lemma small_steps: "n \<le> 1000 \<Longrightarrow> 2 * of_nat n * ulp \<le> 1 / 10 ^ 24"
proof -
  assume "n \<le> 1000"
  then have "(of_nat n :: rat) \<le> of_nat 1000" by (simp only: of_nat_le_iff)
  then show ?thesis by (simp add: ulp_def)
qed

lemma dec_sum_small:
  assumes "list_all (\<lambda>x. 0 \<le> x) xs" and "length xs \<le> 1000"
  shows "\<bar>foldl (\<lambda>s x. dec (s + x)) 0 xs - sum_list xs\<bar> \<le> 1 / 10 ^ 24 * sum_list xs"
    and "0 \<le> sum_list xs"
proof -
  have k: "2 * of_nat (length xs) * ulp \<le> 1 / 10 ^ 24" by (rule small_steps [OF assms(2)])
  then have "2 * of_nat (length xs) * ulp \<le> 1" by simp
  note sum = dec_sum_near [OF assms(1) this]
  show nn: "0 \<le> sum_list xs" using assms(1) by (auto simp: list_all_iff intro!: sum_list_nonneg)
  show "\<bar>foldl (\<lambda>s x. dec (s + x)) 0 xs - sum_list xs\<bar> \<le> 1 / 10 ^ 24 * sum_list xs"
    using sum mult_right_mono [OF k nn] by linarith
qed

lemma taxes_near:
  assumes "0 \<le> netto" and "list_all (\<lambda>r. 0 \<le> r) rs"
  shows "\<bar>sum_list (map (tax_amount netto) rs) - netto * sum_list (map (\<lambda>r. r / 100) rs)\<bar>
      \<le> 3 * ulp * (netto * sum_list (map (\<lambda>r. r / 100) rs))"
    and "0 \<le> sum_list (map (tax_amount netto) rs)"
proof -
  have "\<bar>sum_list (map (tax_amount netto) rs) - sum_list (map (\<lambda>r. netto * r / 100) rs)\<bar>
      \<le> 3 * ulp * sum_list (map (\<lambda>r. netto * r / 100) rs)"
    using assms by (intro sum_near tax_amount_near(1)) (auto simp: list_all_iff)
  moreover have "sum_list (map (\<lambda>r. netto * r / 100) rs) = netto * sum_list (map (\<lambda>r. r / 100) rs)"
    by (simp add: sum_list_const_mult [symmetric])
  ultimately show "\<bar>sum_list (map (tax_amount netto) rs) - netto * sum_list (map (\<lambda>r. r / 100) rs)\<bar>
      \<le> 3 * ulp * (netto * sum_list (map (\<lambda>r. r / 100) rs))" by simp
  show "0 \<le> sum_list (map (tax_amount netto) rs)"
    using assms by (auto simp: list_all_iff intro!: sum_list_nonneg tax_amount_near(2))
qed

lemma brutto_near:
  assumes "0 \<le> netto" and "sane_rates rs"
  shows "\<bar>brutto_from_netto netto rs - (netto + sum_list (map (tax_amount netto) rs))\<bar>
    \<le> slack * (netto + sum_list (map (tax_amount netto) rs))"
proof -
  let ?A = "sum_list (map (tax_amount netto) rs)"
  let ?F = "foldl (\<lambda>s r. dec (s + dec (dec (netto * r) / 100))) 0 rs"
  have xs: "list_all (\<lambda>x. 0 \<le> x) (map (tax_amount netto) rs)" "length (map (tax_amount netto) rs) \<le> 1000"
    using assms tax_amount_near(2) by (auto simp: sane_rates_def list_all_iff)
  have F: "?F = foldl (\<lambda>s x. dec (s + x)) 0 (map (tax_amount netto) rs)"
    unfolding tax_amount_def by (rule foldl_dec_map)
  have near: "\<bar>?F - ?A\<bar> \<le> 1 / 10 ^ 24 * ?A" and A: "0 \<le> ?A"
    using dec_sum_small [OF xs] by (simp_all add: F)
  then have "0 \<le> netto + ?F" using assms(1) unfolding abs_le_iff by simp
  then have "\<bar>dec (netto + ?F) - (netto + ?F)\<bar> \<le> ulp * (netto + ?F)" using dec_near [of "netto + ?F"] by simp
  then show ?thesis using near A assms(1)
    unfolding brutto_from_netto_def slack_def ulp_def abs_le_iff by simp
qed

lemma divisor_near:
  assumes "sane_rates rs"
  shows "\<bar>dec (1 + combined_rate rs) - (1 + sum_list (map (\<lambda>r. r / 100) rs))\<bar>
      \<le> slack * (1 + sum_list (map (\<lambda>r. r / 100) rs))"
    and "0 \<le> sum_list (map (\<lambda>r. r / 100) rs)"
proof -
  let ?R = "sum_list (map (\<lambda>r. r / 100) rs)" and ?X = "sum_list (map (\<lambda>r. dec (r / 100)) rs)"
  have rs: "\<And>r. r \<in> set rs \<Longrightarrow> 0 \<le> r" using assms by (auto simp: sane_rates_def list_all_iff)
  show R: "0 \<le> ?R" using rs by (auto intro!: sum_list_nonneg)
  have X: "\<bar>?X - ?R\<bar> \<le> ulp * ?R" using rs dec_near by (intro sum_near) (metis abs_of_nonneg divide_nonneg_pos zero_less_numeral)
  have xs: "list_all (\<lambda>x. 0 \<le> x) (map (\<lambda>r. dec (r / 100)) rs)" "length (map (\<lambda>r. dec (r / 100)) rs) \<le> 1000"
    using assms rs by (auto simp: sane_rates_def list_all_iff intro!: dec_nonneg)
  have C: "combined_rate rs = foldl (\<lambda>s x. dec (s + x)) 0 (map (\<lambda>r. dec (r / 100)) rs)"
    unfolding combined_rate_def by (rule foldl_dec_map)
  have near: "\<bar>combined_rate rs - ?X\<bar> \<le> 1 / 10 ^ 24 * ?X" "0 \<le> ?X"
    using dec_sum_small [OF xs] by (simp_all add: C)
  then have "0 \<le> 1 + combined_rate rs" unfolding abs_le_iff by simp
  then have "\<bar>dec (1 + combined_rate rs) - (1 + combined_rate rs)\<bar> \<le> ulp * (1 + combined_rate rs)"
    using dec_near [of "1 + combined_rate rs"] by simp
  then show "\<bar>dec (1 + combined_rate rs) - (1 + ?R)\<bar> \<le> slack * (1 + ?R)"
    using near X R unfolding slack_def ulp_def abs_le_iff by simp
qed

text \<open>The parts of a price before they become floats.\<close>

lemma netto_near:
  assumes "0 \<le> brutto" and "sane_rates rs"
  shows "\<exists>netto. netto_from_brutto brutto rs = Inr netto \<and> 0 \<le> netto \<and>
    \<bar>netto + sum_list (map (tax_amount netto) rs) - brutto\<bar> \<le> 1 / 10 ^ 20 * brutto"
proof -
  let ?R = "sum_list (map (\<lambda>r. r / 100) rs)" and ?D = "dec (1 + combined_rate rs)"
  have near: "\<bar>?D - (1 + ?R)\<bar> \<le> slack * (1 + ?R)" and R: "0 \<le> ?R" by (rule divisor_near [OF assms(2)])+
  have D: "0 < ?D" using near R unfolding slack_def abs_le_iff by simp
  define netto where "netto = dec (brutto / ?D)"
  have run: "netto_from_brutto brutto rs = Inr netto"
    using D by (simp add: netto_from_brutto_def netto_def Let_def)
  have q: "0 \<le> brutto / ?D" using assms(1) D by simp
  have netto: "0 \<le> netto" unfolding netto_def by (rule dec_nonneg [OF q])
  have "\<bar>netto - brutto / ?D\<bar> \<le> ulp * (brutto / ?D)" 
    using dec_near [of "brutto / ?D"] abs_of_nonneg [OF q] by (simp only: netto_def)
  then have "\<bar>netto - brutto / ?D\<bar> * ?D \<le> ulp * (brutto / ?D) * ?D" using D by (intro mult_right_mono) simp_all
  then have P: "\<bar>netto * ?D - brutto\<bar> \<le> ulp * brutto" using scaled_diff [OF D, of netto brutto] D by simp
  have "netto * \<bar>?D - (1 + ?R)\<bar> \<le> netto * (slack * (1 + ?R))" by (rule mult_left_mono [OF near netto])
  moreover have "netto * \<bar>?D - (1 + ?R)\<bar> = \<bar>netto * ?D - (netto + netto * ?R)\<bar>"
    by (subst abs_of_nonneg [OF netto, symmetric], subst abs_mult [symmetric]) (simp add: algebra_simps)
  moreover have "netto * (slack * (1 + ?R)) = slack * (netto + netto * ?R)" by (simp add: algebra_simps)
  ultimately have Q: "\<bar>netto * ?D - (netto + netto * ?R)\<bar> \<le> slack * (netto + netto * ?R)" by simp
  have A: "\<bar>sum_list (map (tax_amount netto) rs) - netto * ?R\<bar> \<le> 3 * ulp * (netto * ?R)"
    using assms(2) by (intro taxes_near netto) (simp add: sane_rates_def)
  have "0 \<le> netto * ?R" using netto R by simp
  with P Q A netto assms(1) have "\<bar>netto + sum_list (map (tax_amount netto) rs) - brutto\<bar> \<le> 1 / 10 ^ 20 * brutto"
    unfolding slack_def ulp_def abs_le_iff by simp
  with run netto show ?thesis by blast
qed

definition price_sum :: "price \<Rightarrow> rat" where
  "price_sum p = pr_netto p + sum_list (map pt_amount (pr_taxes p))"

lemma floats_near:
  assumes "0 \<le> netto" and "0 \<le> brutto" and "list_all (\<lambda>t. 0 \<le> ta_rate t) taxes"
    and "\<bar>netto + sum_list (map (tax_amount netto) (map ta_rate taxes)) - brutto\<bar> \<le> 1 / 10 ^ 20 * brutto"
    and "p = \<lparr>pr_netto = flt netto, pr_taxes = map (price_tax_of netto) taxes, pr_brutto = flt brutto,
      pr_currency = c\<rparr>"
  shows "\<bar>price_sum p - pr_brutto p\<bar> \<le> pr_brutto p / 2 ^ 51"
proof -
  let ?a = "\<lambda>t. tax_amount netto (ta_rate t)"
  let ?A = "sum_list (map ?a taxes)"
  have nn: "0 \<le> ?a t" if "t \<in> set taxes" for t
    using that assms(1,3) by (intro tax_amount_near(2)) (auto simp: list_all_iff)
  have "\<bar>sum_list (map (\<lambda>t. flt (?a t)) taxes) - ?A\<bar> \<le> 1 / 2 ^ 53 * ?A"
    using nn flt_near by (intro sum_near) (metis abs_of_nonneg divide_inverse_commute inverse_eq_divide)
  moreover have "map pt_amount (pr_taxes p) = map (\<lambda>t. flt (?a t)) taxes"
    by (simp add: assms(5) price_tax_of_def tax_amount_def)
  ultimately have "\<bar>sum_list (map pt_amount (pr_taxes p)) - ?A\<bar> \<le> 1 / 2 ^ 53 * ?A" by simp
  moreover have "0 \<le> ?A" using nn by (auto intro!: sum_list_nonneg)
  moreover have "\<bar>flt netto - netto\<bar> \<le> netto / 2 ^ 53" "\<bar>flt brutto - brutto\<bar> \<le> brutto / 2 ^ 53"
    using flt_near [of netto] flt_near [of brutto] assms(1,2) by simp_all
  moreover have "\<bar>netto + ?A - brutto\<bar> \<le> 1 / 10 ^ 20 * brutto" using assms(4) by (simp add: comp_def)
  moreover have "pr_netto p = flt netto" "pr_brutto p = flt brutto" by (simp_all add: assms(5))
  ultimately show ?thesis using assms(1,2) unfolding price_sum_def abs_le_iff by simp
qed

text \<open>
  C28. The parts of a price add up: for a stored price that is not negative and at most a
  thousand taxes with rates that are not negative, the factory returns a price in either
  storage mode, with one amount for each tax, and its netto plus its taxes differ from its brutto by
  at most \<open>brutto / 2\<^sup>5\<^sup>1\<close>, which is between two and four spacings of the floats around the brutto.
  They need not be equal: 67.93 at 19 per cent is off by one spacing. Floats have no bounds on the
  exponent here, so this is about prices that are zero or neither overflow nor come near the
  smallest floats.
\<close>

theorem price_adds_up:
  assumes "0 \<le> float_str raw_price" and "list_all (\<lambda>t. 0 \<le> ta_rate t) taxes" and "length taxes \<le> 1000"
  shows "\<exists>p. price_of settings currency_code raw_price taxes = Inr p \<and>
    map pt_code (pr_taxes p) = map ta_code taxes \<and>
    \<bar>price_sum p - pr_brutto p\<bar> \<le> pr_brutto p / 2 ^ 51"
proof -
  let ?raw = "float_str raw_price" and ?rates = "map ta_rate taxes"
  have sane: "sane_rates ?rates" using assms(2,3) by (simp add: sane_rates_def list_all_iff)
  have codes: "map pt_code (map (price_tax_of n) taxes) = map ta_code taxes" for n
    by (simp add: price_tax_of_def)
  show ?thesis
  proof (cases "jget_or settings ''prices_mode_in_db'' (JStr ''NETTO'') = JStr ''BRUTTO''")
    case True
    obtain netto where run: "netto_from_brutto ?raw ?rates = Inr netto" and nn: "0 \<le> netto"
      and near: "\<bar>netto + sum_list (map (tax_amount netto) ?rates) - ?raw\<bar> \<le> 1 / 10 ^ 20 * ?raw"
      using netto_near [OF assms(1) sane] by blast
    show ?thesis
      using floats_near [OF nn assms(1,2) near refl, of currency_code] True run codes
      by (simp add: price_of_def Let_def)
  next
    case False
    let ?b = "brutto_from_netto ?raw ?rates" and ?A = "sum_list (map (tax_amount ?raw) ?rates)"
    have near: "\<bar>?b - (?raw + ?A)\<bar> \<le> slack * (?raw + ?A)" by (rule brutto_near [OF assms(1) sane])
    have A: "0 \<le> ?A" using assms by (intro taxes_near(2)) (simp_all add: list_all_iff)
    have "0 \<le> ?b" "\<bar>?raw + ?A - ?b\<bar> \<le> 1 / 10 ^ 20 * ?b" 
      using near A assms(1) unfolding slack_def abs_le_iff by simp_all
    then show ?thesis
      using floats_near [OF assms(1) _ assms(2) _ refl, of ?b currency_code] False codes
      by (simp add: price_of_def Let_def)
  qed
qed

section \<open>Recorded taxes\<close>

lemma to_cents_cents: "\<exists>k. to_cents a q = cents_amount k"
  by (auto simp: to_cents_def quantize_def cents_amount_def)

lemma dec_sum_exact:
  assumes "list_all (\<lambda>a. \<exists>k. a = cents_amount k) xs" and "a0 = cents_amount k0"
    and "\<bar>a0\<bar> + sum_list (map abs xs) < 10 ^ 26"
  shows "foldl (\<lambda>s a. dec (s + a)) a0 xs = a0 + sum_list xs"
  using assms
proof (induction xs arbitrary: a0 k0)
  case (Cons x xs)
  from Cons.prems(1) obtain k where x: "x = cents_amount k" by auto
  have sum: "a0 + x = cents_amount (k0 + k)" by (simp add: Cons.prems(2) x cents_amount_def add_divide_distrib)
  have rest: "0 \<le> sum_list (map abs xs)" by (auto intro!: sum_list_nonneg)
  then have small: "\<bar>a0 + x\<bar> < 10 ^ 26" using Cons.prems(3) abs_triangle_ineq [of a0 x] by simp
  then have "(\<bar>of_int (k0 + k)\<bar> :: rat) < of_int (10 ^ 28)" unfolding sum by (simp add: cents_amount_def)
  then have "\<bar>k0 + k\<bar> < 10 ^ 28" by (simp only: of_int_abs [symmetric] of_int_less_iff)
  then have dec: "dec (a0 + x) = cents_amount (k0 + k)" unfolding sum cents_amount_def by (rule dec_cents)
  have "\<bar>cents_amount (k0 + k)\<bar> + sum_list (map abs xs) < 10 ^ 26"
    using Cons.prems(3) abs_triangle_ineq [of a0 x] by (simp add: sum [symmetric])
  then show ?case
    using Cons.IH [of "cents_amount (k0 + k)" "k0 + k"] Cons.prems(1) by (simp add: dec sum [symmetric])
qed simp

text \<open>
  The tax recorded on a line is the sum of the amounts of its breakdown, each of which is a
  whole number of cents, one for every tax of the price and in its order.
\<close>

theorem line_tax_is_sum:
  assumes "sum_list (map (\<lambda>b. \<bar>snd b\<bar>) (lt_breakdown (line_tax_fields p q))) < 10 ^ 26"
  shows "lt_tax (line_tax_fields p q) = sum_list (map snd (lt_breakdown (line_tax_fields p q)))"
    and "map fst (lt_breakdown (line_tax_fields p q)) = pr_taxes p"
proof -
  let ?as = "map (\<lambda>t. to_cents (pt_amount t) q) (pr_taxes p)"
  have snd: "map snd (lt_breakdown (line_tax_fields p q)) = ?as" by (simp add: line_tax_fields_def Let_def)
  have "map abs ?as = map (\<lambda>b. \<bar>snd b\<bar>) (lt_breakdown (line_tax_fields p q))"
    unfolding snd [symmetric] by simp
  with assms have "\<bar>0\<bar> + sum_list (map abs ?as) < 10 ^ 26" by simp
  moreover have "list_all (\<lambda>a. \<exists>k. a = cents_amount k) ?as" by (simp add: list_all_iff to_cents_cents)
  moreover have "0 = cents_amount 0" by (simp add: cents_amount_def)
  ultimately have "foldl (\<lambda>s a. dec (s + a)) 0 ?as = 0 + sum_list ?as" using dec_sum_exact by blast
  then show "lt_tax (line_tax_fields p q) = sum_list (map snd (lt_breakdown (line_tax_fields p q)))"
    unfolding snd by (simp add: line_tax_fields_def Let_def)
  show "map fst (lt_breakdown (line_tax_fields p q)) = pr_taxes p" by (simp add: line_tax_fields_def Let_def)
qed

definition vat_seed :: "nat \<Rightarrow> tax" where
  "vat_seed n = seeded_tax ''t'' (seed_catalog ! n)"

lemma vat_rates: "ta_rate (vat_seed 0) = 19" "ta_rate (vat_seed (Suc 0)) = 7"
  by (simp_all add: vat_seed_def seed_catalog_def seeded_tax_def)

theorem price_adds_up_witness:
  "\<exists>p. price_of [] ''EUR'' 10 [vat_seed 0, vat_seed 1] = Inr p \<and>
     map pt_code (pr_taxes p) = map ta_code [vat_seed 0, vat_seed 1] \<and>
     \<bar>price_sum p - pr_brutto p\<bar> \<le> pr_brutto p / 2 ^ 51"
proof (rule price_adds_up)
  show "0 \<le> float_str 10" by code_simp
qed (simp_all add: vat_rates)

theorem tax_roundtrip_witness:
  "extract_net (vat_seed 0) (calculate_gross (vat_seed 0) (cents_amount 999)) = Inr (cents_amount 999) \<and>
   extract_tax (vat_seed 0) (calculate_gross (vat_seed 0) (cents_amount 999)) =
     Inr (tax_calculate (vat_seed 0) (cents_amount 999))"
  by (rule tax_roundtrip [of 999 1900]) (simp_all add: vat_rates)

text \<open>The documented invariant of \<open>Price\<close>, equality, does not hold for the floats of a price.\<close>

lemma price_parts_differ:
  "case price_of [(''prices_mode_in_db'', JStr ''NETTO'')] ''EUR'' (flt (1 / 10)) [vat_seed 1] of
     Inr p \<Rightarrow> price_sum p \<noteq> pr_brutto p | Inl e \<Rightarrow> False"
  by code_simp

end
