(* ===== verification/Currencies.thy ===== *)
theory Currencies
  imports Shop SettingsFlow
begin

text \<open>
  Currencies: the conversion arithmetic of \<open>Currency\<close> (\<open>vbwd/models/currency.py\<close>), the repository,
  \<open>CurrencyService\<close> (\<open>services/currency_service.py\<close>), the admin routes (\<open>routes/admin/currency.py\<close>)
  and the public configuration (\<open>routes/config.py\<close>). The catalogue of currencies with their rates is
  a table; the active set and the default currency are core settings, in a file. The state of the
  service is therefore a session and a disk, and its reader and writer of the settings are
  parameters, as they are injected in the code. Codes are ASCII.
\<close>

record 'db shop_world =
  sw_session :: "'db session"
  sw_disk :: disk

definition in_session :: "('db session, 'a) prog \<Rightarrow> ('db shop_world, 'a) prog" where
  "in_session m w = (case m (sw_session w) of (r, s) \<Rightarrow> (r, w\<lparr>sw_session := s\<rparr>))"

definition on_disk :: "(disk, 'a) prog \<Rightarrow> ('db shop_world, 'a) prog" where
  "on_disk m w = (case m (sw_disk w) of (r, d) \<Rightarrow> (r, w\<lparr>sw_disk := d\<rparr>))"

section \<open>Currency\<close>

definition convert_from_default :: "currency \<Rightarrow> rat \<Rightarrow> rat" where
  "convert_from_default c amount = dec (amount * cy_rate c)"

definition convert_to_default :: "currency \<Rightarrow> rat \<Rightarrow> exn + rat" where
  "convert_to_default c amount =
     (if cy_rate c = 0 then Inl (ValueError ''Exchange rate cannot be zero'')
      else Inr (dec (amount / cy_rate c)))"

definition convert_to :: "currency \<Rightarrow> rat \<Rightarrow> currency \<Rightarrow> exn + rat" where
  "convert_to c amount target =
     (case convert_to_default c amount of
        Inl e \<Rightarrow> Inl e
      | Inr x \<Rightarrow> Inr (quantize (nat (cy_places target)) (convert_from_default target x)))"

text \<open>The format specification \<open>.nf\<close> rounds ties to even.\<close>

definition format_amount :: "currency \<Rightarrow> rat \<Rightarrow> string" where
  "format_amount c amount =
     cy_symbol c @ decimal_str (nat (cy_places c))
       (of_int (round_half_even (amount * 10 ^ nat (cy_places c))) / 10 ^ nat (cy_places c))"

definition currency_dict :: "currency \<Rightarrow> json_dict" where
  "currency_dict c =
     [(''code'', JStr (cy_code c)), (''name'', JStr (cy_name c)), (''symbol'', JStr (cy_symbol c)),
      (''exchange_rate'', JStr (decimal_str 8 (cy_rate c))), (''decimal_places'', JInt (cy_places c))]"

section \<open>CurrencyRepository\<close>

definition currency_by_code :: "'p shop_db_scheme \<Rightarrow> string \<Rightarrow> currency option" where
  "currency_by_code d c = find_row cy_code (str_upper c) (sd_currencies d)"

definition list_all_currencies :: "'p shop_db_scheme \<Rightarrow> currency list" where
  "list_all_currencies d = by_text cy_code (sd_currencies d)"

definition put_currency :: "currency \<Rightarrow> 'p shop_db_scheme \<Rightarrow> 'p shop_db_scheme" where
  "put_currency c d = d\<lparr>sd_currencies := upsert cy_code c (sd_currencies d)\<rparr>"

definition drop_currency :: "string \<Rightarrow> 'p shop_db_scheme \<Rightarrow> 'p shop_db_scheme" where
  "drop_currency c d = d\<lparr>sd_currencies := remove_rows (\<lambda>x. cy_code x = c) (sd_currencies d)\<rparr>"

text \<open>
  The row as the \<open>Numeric(18, 8)\<close> column keeps it; the commit fails on a rate beyond it. A new row
  is committed by \<open>save\<close>, a changed one by \<open>update\<close>.
\<close>

definition store_currency ::
  "('p shop_db_scheme session, unit) prog \<Rightarrow> driver \<Rightarrow> currency \<Rightarrow> ('p shop_db_scheme session, currency) prog" where
  "store_currency committing drv c =
     (case numeric_column 18 8 (cy_rate c) of
        None \<Rightarrow> seqP (db_call drv) (raise (DatabaseError ''numeric field overflow''))
      | Some r \<Rightarrow> seqP (on_db (put_currency (c\<lparr>cy_rate := r\<rparr>))) (seqP committing (ret (c\<lparr>cy_rate := r\<rparr>))))"

definition delete_by_code :: "driver \<Rightarrow> string \<Rightarrow> ('p shop_db_scheme session, bool) prog" where
  "delete_by_code drv c =
     bindP (query (\<lambda>d. currency_by_code d c)) (\<lambda>found.
       case found of
         None \<Rightarrow> ret False
       | Some row \<Rightarrow> seqP (on_db (drop_currency (cy_code row))) (seqP (commit drv) (ret True)))"

section \<open>Views of the settings\<close>

type_synonym 'w settings_reader = "('w, json_dict) prog"
type_synonym 'w settings_writer = "json_dict \<Rightarrow> ('w, json_dict) prog"

definition active_codes :: "json_dict \<Rightarrow> string list" where
  "active_codes settings = json_names (jget settings ''active_currencies'')"

definition default_code :: "json_dict \<Rightarrow> string option" where
  "default_code settings = json_text (jget settings ''default_currency'')"

definition find_currency :: "string \<Rightarrow> ('p shop_db_scheme shop_world, currency option) prog" where
  "find_currency c = in_session (query (\<lambda>d. currency_by_code d c))"

section \<open>CurrencyService\<close>

definition svc_default_currency ::
  "'p shop_db_scheme shop_world settings_reader \<Rightarrow> ('p shop_db_scheme shop_world, currency) prog" where
  "svc_default_currency read =
     bindP read (\<lambda>settings.
     bindP (if truthy (default_code settings) then find_currency (opt_str (default_code settings)) else ret None) (\<lambda>found.
       case found of
         Some c \<Rightarrow> ret c
       | None \<Rightarrow> raise (ValueError (''Default currency not found in catalog: '' @
           jstr (jget settings ''default_currency'')))))"

definition get_active_currencies ::
  "'p shop_db_scheme shop_world settings_reader \<Rightarrow> ('p shop_db_scheme shop_world, currency list) prog" where
  "get_active_currencies read =
     bindP read (\<lambda>settings.
       in_session (query (\<lambda>d. List.map_filter (currency_by_code d) (active_codes settings))))"

text \<open>Active rows first, then by code: \<open>list_all\<close> is ordered by code, and the sort is stable.\<close>

definition catalog_row :: "json_dict \<Rightarrow> currency \<Rightarrow> json_dict" where
  "catalog_row settings c =
     currency_dict c @ [(''is_active'', JBool (cy_code c \<in> set (active_codes settings))),
       (''is_default'', JBool (default_code settings = Some (cy_code c)))]"

definition get_catalog_view ::
  "'p shop_db_scheme shop_world settings_reader \<Rightarrow> ('p shop_db_scheme shop_world, json list) prog" where
  "get_catalog_view read =
     bindP read (\<lambda>settings.
     bindP (in_session (query list_all_currencies)) (\<lambda>rows.
       let act = (\<lambda>c. cy_code c \<in> set (active_codes settings))
       in ret (map (\<lambda>c. JObj (catalog_row settings c)) (filter act rows @ filter (\<lambda>c. \<not> act c) rows))))"

definition is_code :: "string \<Rightarrow> bool" where
  "is_code c \<longleftrightarrow> length c = 3 \<and> list_all is_alpha_char c"

definition create_currency ::
  "driver \<Rightarrow> string \<Rightarrow> string \<Rightarrow> string \<Rightarrow> int \<Rightarrow> rat \<Rightarrow> ('p shop_db_scheme shop_world, currency) prog" where
  "create_currency drv c name symbol places rate =
     (if \<not> is_code (str_upper c)
      then raise (ValueError (''Currency code must be a 3-letter ISO code: '' @ repr_str c))
      else bindP (find_currency (str_upper c)) (\<lambda>found.
        if found \<noteq> None then raise (ValueError (''Currency already exists: '' @ str_upper c))
        else if places < 0 then raise (ValueError ''decimal_places must be zero or greater'')
        else if rate \<le> 0 then raise (ValueError ''Exchange rate must be greater than zero'')
        else in_session (store_currency (save_commit drv) drv \<lparr>cy_code = str_upper c, cy_name = name, cy_symbol = symbol,
          cy_rate = rate, cy_places = places\<rparr>)))"

definition delete_currency ::
  "driver \<Rightarrow> 'p shop_db_scheme shop_world settings_reader \<Rightarrow> string \<Rightarrow> ('p shop_db_scheme shop_world, unit) prog" where
  "delete_currency drv read c =
     bindP (find_currency (str_upper c)) (\<lambda>found.
       if found = None then raise (LookupError (''Currency not found: '' @ str_upper c))
       else bindP read (\<lambda>settings.
         if default_code settings = Some (str_upper c) then raise (ValueError ''Cannot delete the default currency'')
         else if str_upper c \<in> set (active_codes settings) then raise (ValueError ''Cannot delete an active currency'')
         else seqP (in_session (delete_by_code drv (str_upper c))) (ret ())))"

definition set_active ::
  "'p shop_db_scheme shop_world settings_reader \<Rightarrow> 'p shop_db_scheme shop_world settings_writer \<Rightarrow> string \<Rightarrow> bool
     \<Rightarrow> ('p shop_db_scheme shop_world, string list) prog" where
  "set_active read save c active =
     bindP (find_currency (str_upper c)) (\<lambda>found.
       if found = None then raise (ValueError (''Currency not found: '' @ str_upper c))
       else bindP read (\<lambda>settings.
         let codes = active_codes settings; n = str_upper c in
         if \<not> active \<and> default_code settings = Some n
         then raise (ValueError ''Cannot deactivate the default currency'')
         else
           let codes' = (if active then (if n \<in> set codes then codes else codes @ [n])
                         else filter (\<lambda>x. x \<noteq> n) codes)
           in bindP (save [(''active_currencies'', JList (map JStr codes'))]) (\<lambda>merged.
                ret (active_codes merged))))"

text \<open>Every row is committed on its own, the settings are written last.\<close>

definition rebased :: "string \<Rightarrow> rat \<Rightarrow> currency \<Rightarrow> currency" where
  "rebased n old c = c\<lparr>cy_rate := (if cy_code c = n then 1 else dec (cy_rate c / old))\<rparr>"

definition rebase_row :: "driver \<Rightarrow> string \<Rightarrow> rat \<Rightarrow> currency \<Rightarrow> ('p shop_db_scheme session, unit) prog" where
  "rebase_row drv n old c = bindP (store_currency (commit drv) drv (rebased n old c)) (\<lambda>_. ret ())"

definition set_default ::
  "driver \<Rightarrow> 'p shop_db_scheme shop_world settings_reader \<Rightarrow> 'p shop_db_scheme shop_world settings_writer \<Rightarrow> string
     \<Rightarrow> ('p shop_db_scheme shop_world, currency option) prog" where
  "set_default drv read save c =
     bindP (find_currency (str_upper c)) (\<lambda>found.
       case found of
         None \<Rightarrow> raise (ValueError (''Currency not found: '' @ str_upper c))
       | Some row \<Rightarrow>
           bindP read (\<lambda>settings.
             if str_upper c \<notin> set (active_codes settings)
             then raise (ValueError (''Only an active currency can become default: '' @ str_upper c))
             else if cy_rate row = 0 then raise (ValueError ''New default currency has a zero exchange rate'')
             else
               bindP (in_session (query list_all_currencies)) (\<lambda>rows.
               seqP (in_session (for_each (rebase_row drv (str_upper c) (cy_rate row)) rows))
               (seqP (save [(''default_currency'', JStr (str_upper c))])
               (find_currency (str_upper c))))))"

definition update_exchange_rate ::
  "driver \<Rightarrow> 'p shop_db_scheme shop_world settings_reader \<Rightarrow> string \<Rightarrow> rat
     \<Rightarrow> ('p shop_db_scheme shop_world, currency) prog" where
  "update_exchange_rate drv read c rate =
     bindP (find_currency (str_upper c)) (\<lambda>found.
       case found of
         None \<Rightarrow> raise (ValueError (''Currency not found: '' @ str_upper c))
       | Some row \<Rightarrow>
           bindP read (\<lambda>settings.
             if default_code settings = Some (str_upper c)
             then raise (ValueError ''Cannot change exchange rate of default currency'')
             else if rate \<le> 0 then raise (ValueError ''Exchange rate must be greater than zero'')
             else in_session (store_currency (commit drv) drv (row\<lparr>cy_rate := rate\<rparr>))))"

definition convert_between :: "currency option \<Rightarrow> currency option \<Rightarrow> rat \<Rightarrow> exn + rat" where
  "convert_between source target amount =
     (case (source, target) of
        (Some s, Some t) \<Rightarrow>
          (case convert_to_default s amount of Inl e \<Rightarrow> Inl e | Inr x \<Rightarrow> Inr (convert_from_default t x))
      | _ \<Rightarrow> Inl (ValueError ''Unknown currency''))"

definition convert ::
  "rat \<Rightarrow> string \<Rightarrow> string \<Rightarrow> ('p shop_db_scheme shop_world, rat) prog" where
  "convert amount from_currency to_currency =
     (if from_currency = to_currency then ret amount
      else bindP (find_currency from_currency) (\<lambda>s. bindP (find_currency to_currency) (\<lambda>t.
        case convert_between s t amount of Inl e \<Rightarrow> raise e | Inr x \<Rightarrow> ret x)))"

section \<open>The routes\<close>

type_synonym 'p world_view = "gctx \<Rightarrow> ('p shop_db_scheme shop_world, response) prog"

definition commit_world :: "driver \<Rightarrow> ('db shop_world, unit) prog" where
  "commit_world drv = in_session (commit drv)"

definition catalog_answer ::
  "'p shop_db_scheme shop_world settings_reader \<Rightarrow> ('p shop_db_scheme shop_world, response) prog" where
  "catalog_answer read =
     bindP (get_catalog_view read) (\<lambda>rows. ret (answer 200 [(''currencies'', JList rows)]))"

definition list_currencies :: "'p shop_db_scheme shop_world settings_reader \<Rightarrow> 'p world_view" where
  "list_currencies read g = catalog_answer read"

text \<open>
  The service's call is guarded, the commit and the answer that follow are not. The statuses are
  those of the exceptions that are caught.
\<close>

type_synonym statuses = "exn \<Rightarrow> nat option"

definition value_errors :: "nat \<Rightarrow> statuses" where
  "value_errors status e = (case e of ValueError _ \<Rightarrow> Some status | _ \<Rightarrow> None)"

definition delete_errors :: statuses where
  "delete_errors e = (case e of LookupError _ \<Rightarrow> Some 404 | ValueError _ \<Rightarrow> Some 400 | _ \<Rightarrow> None)"

definition guarded ::
  "statuses \<Rightarrow> ('w, 'a) prog \<Rightarrow> ('a \<Rightarrow> ('w, response) prog) \<Rightarrow> ('w, response) prog" where
  "guarded status m k =
     bindP (try_except (bindP m (\<lambda>x. ret (Inr x)))
              (\<lambda>e. case status e of
                 Some n \<Rightarrow> ret (Inl (error_answer n (exn_str e)))
               | None \<Rightarrow> raise e))
       (\<lambda>r. case r of Inl a \<Rightarrow> ret a | Inr x \<Rightarrow> k x)"

definition create_currency_route :: "driver \<Rightarrow> json_dict \<Rightarrow> 'p world_view" where
  "create_currency_route drv data g =
     (if \<not> jtrue (jget data ''code'') \<or> \<not> jtrue (jget data ''name'') \<or> \<not> jtrue (jget data ''symbol'')
      then ret (error_answer 400 ''code, name and symbol are required'')
      else case decimal_of_json (jget_or data ''exchange_rate'' (JStr ''1.0'')) of
        None \<Rightarrow> ret (error_answer 400 ''exchange_rate must be a number'')
      | Some rate \<Rightarrow>
          (case jget_or data ''decimal_places'' (JInt 2) of
             JInt places \<Rightarrow>
               guarded (value_errors 400)
                 (case jget data ''code'' of
                    JStr c \<Rightarrow> create_currency drv c (jstr (jget data ''name''))
                      (jstr (jget data ''symbol'')) places rate
                  | _ \<Rightarrow> raise (OtherError ''AttributeError''))
                 (\<lambda>c. seqP (commit_world drv) (ret (answer 201 [(''currency'', JObj (currency_dict c))])))
           | _ \<Rightarrow> ret (error_answer 400 ''decimal_places must be an integer'')))"

definition delete_currency_route ::
  "driver \<Rightarrow> 'p shop_db_scheme shop_world settings_reader \<Rightarrow> string \<Rightarrow> 'p world_view" where
  "delete_currency_route drv read c g =
     guarded delete_errors (delete_currency drv read c) (\<lambda>_. seqP (commit_world drv) (catalog_answer read))"

definition activate_currency ::
  "driver \<Rightarrow> 'p shop_db_scheme shop_world settings_reader \<Rightarrow> 'p shop_db_scheme shop_world settings_writer
     \<Rightarrow> string \<Rightarrow> 'p world_view" where
  "activate_currency drv read save c g =
     guarded (value_errors 404) (set_active read save c True) (\<lambda>_. seqP (commit_world drv) (catalog_answer read))"

text \<open>The routes that look the currency up first.\<close>

definition known_currency :: "string \<Rightarrow> ('p shop_db_scheme shop_world, response) prog
    \<Rightarrow> ('p shop_db_scheme shop_world, response) prog" where
  "known_currency c m =
     bindP (find_currency (str_upper c)) (\<lambda>found.
       if found = None then ret (error_answer 404 (''Currency not found: '' @ c)) else m)"

definition deactivate_currency ::
  "driver \<Rightarrow> 'p shop_db_scheme shop_world settings_reader \<Rightarrow> 'p shop_db_scheme shop_world settings_writer
     \<Rightarrow> string \<Rightarrow> 'p world_view" where
  "deactivate_currency drv read save c g = known_currency c
     (guarded (value_errors 400) (set_active read save c False) (\<lambda>_. seqP (commit_world drv) (catalog_answer read)))"

definition set_default_currency ::
  "driver \<Rightarrow> 'p shop_db_scheme shop_world settings_reader \<Rightarrow> 'p shop_db_scheme shop_world settings_writer
     \<Rightarrow> string \<Rightarrow> 'p world_view" where
  "set_default_currency drv read save c g = known_currency c
     (guarded (value_errors 400) (set_default drv read save c) (\<lambda>_. seqP (commit_world drv) (catalog_answer read)))"

definition update_currency_rate ::
  "driver \<Rightarrow> 'p shop_db_scheme shop_world settings_reader \<Rightarrow> string \<Rightarrow> json_dict \<Rightarrow> 'p world_view" where
  "update_currency_rate drv read c data g = known_currency c
     (if jget data ''exchange_rate'' = JNull then ret (error_answer 400 ''exchange_rate is required'')
      else case decimal_of_json (jget data ''exchange_rate'') of
        None \<Rightarrow> ret (error_answer 400 ''exchange_rate must be a number'')
      | Some rate \<Rightarrow>
          guarded (value_errors 400) (update_exchange_rate drv read c rate)
            (\<lambda>x. seqP (commit_world drv) (ret (answer 200 [(''currency'', JObj (currency_dict x))]))))"

definition get_public_config :: "'p shop_db_scheme shop_world settings_reader \<Rightarrow> 'p world_view" where
  "get_public_config read g =
     bindP read (\<lambda>settings.
     bindP (get_active_currencies read) (\<lambda>active.
       ret (answer 200
         [(''default_currency'', jget settings ''default_currency''),
          (''site_name'', if jtrue (jget settings ''site_name'') then jget settings ''site_name'' else JStr []),
          (''prices_display_mode'', jget settings ''prices_display_mode''),
          (''prices_mode_in_db'', jget settings ''prices_mode_in_db''),
          (''base_currency'', jget settings ''default_currency''),
          (''active_currencies'', JList (map (\<lambda>c. JStr (cy_code c)) active)),
          (''currency_rates'', JObj (dict_update []
            (map (\<lambda>c. (cy_code c, JStr (decimal_str 8 (cy_rate c)))) active)))])))"

section \<open>The settings of the process\<close>

text \<open>
  The reader and the writer that the routes inject: the stores of \<open>Settings\<close>, with the provider
  of the currency catalogue that \<open>app.py\<close> registers.
\<close>

definition settings_reader :: "codec \<Rightarrow> os_driver \<Rightarrow> fs_manager \<Rightarrow> 'p shop_db_scheme shop_world settings_reader" where
  "settings_reader cd od m = on_disk (get_core_settings cd od m)"

definition currency_catalog_codes :: "'p shop_db_scheme \<Rightarrow> string list" where
  "currency_catalog_codes d = map cy_code (list_all_currencies d)"

definition settings_writer :: "codec \<Rightarrow> os_driver \<Rightarrow> fs_manager \<Rightarrow> 'p shop_db_scheme shop_world settings_writer" where
  "settings_writer cd od m data =
     bindP (in_session (query currency_catalog_codes)) (\<lambda>codes.
       on_disk (update_core_settings cd od m (Some codes) data))"

definition update_settings_world :: "('w, json_dict) prog \<Rightarrow> ('w, response) prog" where
  "update_settings_world saving =
     bindP (update_settings_route saving) (\<lambda>(status, body). ret (answer status body))"

text \<open>The requests that change currencies, or the settings they depend on.\<close>

datatype currency_request =
    CreateCurrency json_dict
  | DeleteCurrency string
  | ActivateCurrency string
  | DeactivateCurrency string
  | SetDefaultCurrency string
  | UpdateCurrencyRate string json_dict
  | UpdateSettings json_dict

fun serve_currency ::
  "driver \<Rightarrow> 'p shop_db_scheme shop_world settings_reader \<Rightarrow> 'p shop_db_scheme shop_world settings_writer
     \<Rightarrow> currency_request \<Rightarrow> 'p world_view" where
  "serve_currency drv read save (CreateCurrency data) g = create_currency_route drv data g"
| "serve_currency drv read save (DeleteCurrency c) g = delete_currency_route drv read c g"
| "serve_currency drv read save (ActivateCurrency c) g = activate_currency drv read save c g"
| "serve_currency drv read save (DeactivateCurrency c) g = deactivate_currency drv read save c g"
| "serve_currency drv read save (SetDefaultCurrency c) g = set_default_currency drv read save c g"
| "serve_currency drv read save (UpdateCurrencyRate c data) g = update_currency_rate drv read c data g"
| "serve_currency drv read save (UpdateSettings data) g = update_settings_world (save data)"

text \<open>
  A history of requests: every one has a session and a database driver of its own, what it
  leaves uncommitted is gone with its session.
\<close>

definition serve :: "('db shop_world, response) prog \<Rightarrow> 'db \<times> disk \<Rightarrow> 'db \<times> disk" where
  "serve m s = (case m \<lparr>sw_session = open_session (fst s), sw_disk = snd s\<rparr> of
     (_, w) \<Rightarrow> (durable (sw_session w), sw_disk w))"

fun serve_all ::
  "(nat \<Rightarrow> driver) \<Rightarrow> 'p shop_db_scheme shop_world settings_reader \<Rightarrow> 'p shop_db_scheme shop_world settings_writer
     \<Rightarrow> gctx \<Rightarrow> currency_request list \<Rightarrow> 'p shop_db_scheme \<times> disk \<Rightarrow> 'p shop_db_scheme \<times> disk" where
  "serve_all drvs read save g [] s = s"
| "serve_all drvs read save g (r # rs) s =
     serve_all drvs read save g rs (serve (serve_currency (drvs (length rs)) read save r g) s)"

end
