(* ===== verification/CurrencyFlow.thy ===== *)
theory CurrencyFlow
  imports Currencies
begin

text \<open>
  Properties of the currencies: the active currencies of the settings file are always in the
  catalogue, whatever fails; making a currency the default re-bases every rate; a conversion
  forth and back gives the amount again, up to its 26th digit.
\<close>

section \<open>The settings as the service sees them\<close>

text \<open>
  The settings source of the service: a read gives what is stored, a write stores the merged
  settings or leaves them, and stores only active currencies of the catalogue; neither touches
  the session.
\<close>

definition applied :: "json_dict \<Rightarrow> (string \<Rightarrow> json option) \<Rightarrow> string \<Rightarrow> json option" where
  "applied data f k = (case map_of (rev (known_settings data)) k of None \<Rightarrow> f k | Some v \<Rightarrow> Some v)"

definition active_names :: "(string \<Rightarrow> json option) \<Rightarrow> string set" where
  "active_names f = set (json_names (case f ''active_currencies'' of None \<Rightarrow> JNull | Some v \<Rightarrow> v))"

lemma active_codes_names: "set (active_codes s) = active_names (map_of s)"
  by (simp add: active_codes_def active_names_def jget_def)

definition catalog_codes :: "'p shop_db_scheme \<Rightarrow> string set" where
  "catalog_codes d = cy_code ` set (sd_currencies d)"

text \<open>The catalogue has one row for a code, and a row for every active code.\<close>

definition backed :: "(string \<Rightarrow> json option) \<Rightarrow> 'p shop_db_scheme \<Rightarrow> bool" where
  "backed f d \<longleftrightarrow> distinct (map cy_code (sd_currencies d)) \<and> active_names f \<subseteq> catalog_codes d"

lemma in_session_for_each: "in_session (for_each f xs) = for_each (\<lambda>x. in_session (f x)) xs"
proof (induction xs)
  case Nil
  show ?case by (rule ext) (simp add: in_session_def)
next
  case (Cons x xs)
  have "in_session (seqP (f x) (for_each f xs)) w = seqP (in_session (f x)) (in_session (for_each f xs)) w" for w
    by (auto simp: in_session_def seqP_def bindP_def split: prod.split sum.split)
  with Cons show ?case by (auto intro!: ext)
qed

lemma str_upper_twice [simp]: "str_upper (str_upper s) = str_upper s"
proof -
  have "upper_char (upper_char c) = upper_char c" for c
    by (auto simp: upper_char_def)
  then show ?thesis by (simp add: str_upper_def)
qed

lemma codes_put: "catalog_codes (put_currency c d) = insert (cy_code c) (catalog_codes d)"
proof -
  have "set (map cy_code (upsert cy_code c (sd_currencies d))) = insert (cy_code c) (set (map cy_code (sd_currencies d)))"
    by (auto simp: keys_upsert)
  then show ?thesis by (simp add: catalog_codes_def put_currency_def)
qed

lemma backed_put: "backed f d \<Longrightarrow> backed f (put_currency c d)"
  by (auto simp: backed_def codes_put) (simp add: put_currency_def)

lemma backed_drop: "backed f d \<Longrightarrow> c \<notin> active_names f \<Longrightarrow> backed f (drop_currency c d)"
  by (auto simp: backed_def drop_currency_def catalog_codes_def remove_rows_def distinct_map_filter)

locale settings_source =
  fixes read :: "'p shop_db_scheme shop_world settings_reader"
    and save :: "'p shop_db_scheme shop_world settings_writer"
    and lookup :: "disk \<Rightarrow> string \<Rightarrow> json option"
    and good :: "disk \<Rightarrow> bool"
  assumes read_stored: "\<lbrakk>good (sw_disk w); read w = (r, w')\<rbrakk> \<Longrightarrow>
      sw_session w' = sw_session w \<and> good (sw_disk w') \<and> lookup (sw_disk w') = lookup (sw_disk w) \<and>
      (case r of Inl e \<Rightarrow> True | Inr s \<Rightarrow> map_of s = lookup (sw_disk w))"
    and save_stores: "\<lbrakk>good (sw_disk w); save data w = (r, w')\<rbrakk> \<Longrightarrow>
      sw_session w' = sw_session w \<and> good (sw_disk w') \<and>
      (lookup (sw_disk w') = lookup (sw_disk w) \<or>
       (lookup (sw_disk w') = applied data (lookup (sw_disk w)) \<and>
        (map_of (rev (known_settings data)) ''active_currencies'' = None \<or>
         active_names (lookup (sw_disk w')) \<subseteq> catalog_codes (pending (sw_session w)))))"
begin

text \<open>
  A program is safe when from a clean world (a session without changes) it leaves committed
  tables that back the stored settings, and a clean world when it returns.
\<close>

definition clean :: "'p shop_db_scheme shop_world \<Rightarrow> bool" where
  "clean w \<longleftrightarrow> good (sw_disk w) \<and> backed (lookup (sw_disk w)) (durable (sw_session w)) \<and>
     pending (sw_session w) = durable (sw_session w)"

definition left :: "'p shop_db_scheme shop_world \<Rightarrow> bool" where
  "left w \<longleftrightarrow> good (sw_disk w) \<and> backed (lookup (sw_disk w)) (durable (sw_session w))"

definition safe_at :: "('p shop_db_scheme shop_world, 'a) prog \<Rightarrow> 'p shop_db_scheme shop_world \<Rightarrow> bool" where
  "safe_at m w \<longleftrightarrow> (case m w of (Inl e, w') \<Rightarrow> left w' | (Inr x, w') \<Rightarrow> clean w')"

lemma clean_left: "clean w \<Longrightarrow> left w"
  by (simp add: clean_def left_def)

lemma safe_ret: "clean w \<Longrightarrow> safe_at (ret x) w"
  by (simp add: safe_at_def)

lemma safe_raise: "clean w \<Longrightarrow> safe_at (raise e) w"
  by (simp add: safe_at_def clean_left)

lemma safe_bind:
  assumes "safe_at m w" and "\<And>x w'. m w = (Inr x, w') \<Longrightarrow> clean w' \<Longrightarrow> safe_at (f x) w'"
  shows "safe_at (bindP m f) w"
proof -
  obtain r w' where m: "m w = (r, w')" by fastforce
  show ?thesis
  proof (cases r)
    case (Inl e)
    with m assms(1) show ?thesis by (simp add: safe_at_def bindP_def)
  next
    case (Inr x)
    with m assms(1) have "safe_at (f x) w'" by (intro assms(2)) (simp_all add: safe_at_def)
    with m Inr show ?thesis by (simp add: safe_at_def bindP_def)
  qed
qed

lemma safe_seq: "safe_at m w \<Longrightarrow> (\<And>w'. clean w' \<Longrightarrow> safe_at n w') \<Longrightarrow> safe_at (seqP m n) w"
  unfolding seqP_def by (rule safe_bind) auto

lemma safe_for_each: "(\<And>x w. x \<in> set xs \<Longrightarrow> clean w \<Longrightarrow> safe_at (f x) w) \<Longrightarrow> clean w \<Longrightarrow> safe_at (for_each f xs) w"
  by (induction xs arbitrary: w) (auto intro!: safe_ret safe_seq)

lemma query_clean: "in_session (query g) w = (Inr x, w') \<Longrightarrow> w' = w \<and> x = g (pending (sw_session w))"
  by (auto simp: in_session_def)

lemma safe_query: "clean w \<Longrightarrow> safe_at (in_session (query g)) w"
  by (simp add: in_session_def safe_at_def)

lemma safe_find: "clean w \<Longrightarrow> safe_at (find_currency c) w"
  unfolding find_currency_def by (rule safe_query)

lemma safe_read: "clean w \<Longrightarrow> safe_at read w"
  using read_stored [of w] by (cases "read w") (auto simp: safe_at_def clean_def left_def split: sum.splits)

lemma read_lookup: "read w = (Inr s, w') \<Longrightarrow> clean w \<Longrightarrow> map_of s = lookup (sw_disk w') \<and> sw_session w' = sw_session w"
  using read_stored [of w "Inr s" w'] by (simp add: clean_def)

lemma safe_read_bind:
  assumes "clean w" and "\<And>s w'. clean w' \<Longrightarrow> map_of s = lookup (sw_disk w') \<Longrightarrow> safe_at (f s) w'"
  shows "safe_at (bindP read f) w"
  using assms by (intro safe_bind safe_read) (auto dest: read_lookup)

text \<open>A change of the catalogue that is committed, or fails to be.\<close>

lemma safe_write:
  assumes "clean w" and "backed (lookup (sw_disk w)) (g (durable (sw_session w)))"
    and "committing = commit drv \<or> committing = save_commit drv"
  shows "safe_at (in_session (seqP (on_db g) (seqP committing (ret x)))) w"
proof -
  let ?s = "(sw_session w)\<lparr>pending := g (pending (sw_session w))\<rparr>"
  have "committing ?s = (Inr (), ?s\<lparr>calls := Suc (calls ?s), durable := pending ?s\<rparr>) \<or>
      (\<exists>e t. committing ?s = (Inl e, t) \<and> durable t = durable ?s)"
    using assms(3) save_commit_fault [of drv ?s] by (cases "drv (calls ?s)") auto
  then show ?thesis
    using assms(1,2) by (auto simp: in_session_def safe_at_def clean_def left_def seqP_def bindP_def ret_def)
qed

lemma safe_store:
  assumes "clean w" and "committing = commit drv \<or> committing = save_commit drv"
  shows "safe_at (in_session (store_currency committing drv c)) w"
proof (cases "numeric_column 18 8 (cy_rate c)")
  case None
  with assms(1) show ?thesis
    by (cases "drv (calls (sw_session w))")
      (auto simp: store_currency_def in_session_def safe_at_def clean_def left_def seqP_def bindP_def db_call_def Let_def)
next
  case (Some r)
  have "backed (lookup (sw_disk w)) (put_currency (c\<lparr>cy_rate := r\<rparr>) (durable (sw_session w)))"
    using assms(1) by (simp add: clean_def backed_put)
  with Some show ?thesis using assms by (simp add: store_currency_def safe_write)
qed

lemma safe_commit: "clean w \<Longrightarrow> safe_at (commit_world drv) w"
  by (cases "drv (calls (sw_session w))") (auto simp: commit_world_def in_session_def safe_at_def clean_def left_def)

text \<open>A write of settings: the active codes it stores are looked up in the catalogue.\<close>

lemma safe_save: "clean w \<Longrightarrow> safe_at (save data) w"
proof -
  assume w: "clean w"
  obtain r w' where run: "save data w = (r, w')" by fastforce
  have law: "sw_session w' = sw_session w" "good (sw_disk w')"
    "lookup (sw_disk w') = lookup (sw_disk w) \<or>
     (lookup (sw_disk w') = applied data (lookup (sw_disk w)) \<and>
      (map_of (rev (known_settings data)) ''active_currencies'' = None \<or>
       active_names (lookup (sw_disk w')) \<subseteq> catalog_codes (pending (sw_session w))))"
    using save_stores [OF _ run] w by (simp_all add: clean_def)
  have "backed (lookup (sw_disk w')) (durable (sw_session w))"
    using law(3) w by (auto simp: clean_def backed_def active_names_def applied_def)
  with law run w show "safe_at (save data) w" by (auto simp: safe_at_def clean_def left_def split: sum.split)
qed

section \<open>The operations of the service\<close>

lemmas safe_rules = safe_bind safe_seq safe_ret safe_raise safe_find safe_query safe_read safe_save safe_commit

lemma safe_create: "clean w \<Longrightarrow> safe_at (create_currency drv c name symbol places rate) w"
  unfolding create_currency_def by (auto intro!: safe_rules safe_store)

lemma safe_delete: "clean w \<Longrightarrow> safe_at (delete_currency drv read c) w"
proof -
  have del: "safe_at (in_session (delete_by_code drv (str_upper c))) w"
    if "clean w" "str_upper c \<notin> active_names (lookup (sw_disk w))" for w
  proof (cases "currency_by_code (pending (sw_session w)) (str_upper c)")
    case None
    with that(1) show ?thesis
      by (simp add: delete_by_code_def in_session_def safe_at_def)
  next
    case (Some row)
    then have "cy_code row = str_upper (str_upper c)"
      by (auto simp: currency_by_code_def dest: find_row_Some)
    then have "backed (lookup (sw_disk w)) (drop_currency (cy_code row) (durable (sw_session w)))"
      using that by (auto simp: clean_def str_upper_twice intro!: backed_drop)
    with that(1) have
      "safe_at (in_session (seqP (on_db (drop_currency (cy_code row))) (seqP (commit drv) (ret True)))) w"
      by (intro safe_write) auto
    then show ?thesis using Some by (simp add: delete_by_code_def in_session_def safe_at_def)
  qed
  assume "clean w"
  then show ?thesis
    unfolding delete_currency_def
    by (rule safe_bind [OF safe_find])
      (auto intro!: safe_raise safe_read_bind safe_seq safe_ret del simp: active_codes_names)
qed

lemma safe_set_active: "clean w \<Longrightarrow> safe_at (set_active read save c active) w"
  unfolding set_active_def Let_def by (auto intro!: safe_rules)

lemma safe_rebase: "clean w \<Longrightarrow> safe_at (in_session (rebase_row drv n old c)) w"
  using safe_store [of w "commit drv" drv "rebased n old c"]
  by (auto simp: rebase_row_def in_session_def safe_at_def bindP_def split: prod.splits sum.splits)

lemma safe_rebase_all:
  assumes "clean w" shows "safe_at (in_session (for_each (rebase_row drv n old) rows)) w"
  unfolding in_session_for_each by (intro safe_for_each safe_rebase assms)

lemma safe_set_default: "clean w \<Longrightarrow> safe_at (set_default drv read save c) w"
  unfolding set_default_def
  by (auto intro!: safe_rules safe_rebase_all split: option.split)

lemma safe_update_rate: "clean w \<Longrightarrow> safe_at (update_exchange_rate drv read c rate) w"
  unfolding update_exchange_rate_def by (auto intro!: safe_rules safe_store split: option.split)

section \<open>The requests\<close>

text \<open>What a request may leave when it answers after an exception of the service.\<close>

definition leaves :: "('p shop_db_scheme shop_world, 'a) prog \<Rightarrow> 'p shop_db_scheme shop_world \<Rightarrow> bool" where
  "leaves m w \<longleftrightarrow> left (snd (m w))"

lemma leaves_safe: "safe_at m w \<Longrightarrow> leaves m w"
  by (auto simp: safe_at_def leaves_def clean_left split: prod.splits sum.splits)

lemma leaves_bind:
  assumes "safe_at m w" and "\<And>x w'. m w = (Inr x, w') \<Longrightarrow> clean w' \<Longrightarrow> leaves (f x) w'"
  shows "leaves (bindP m f) w"
  using assms by (cases "m w"; cases "fst (m w)") (auto simp: safe_at_def leaves_def bindP_def)

lemma leaves_guarded:
  assumes "safe_at m w" and "\<And>x w'. clean w' \<Longrightarrow> leaves (k x) w'"
  shows "leaves (guarded status m k) w"
proof -
  obtain r w' where "m w = (r, w')" by fastforce
  with assms show ?thesis
    by (cases r) (auto simp: safe_at_def leaves_def guarded_def bindP_def try_except_def ret_def raise_def split: option.split)
qed

lemma safe_catalog: "clean w \<Longrightarrow> safe_at (catalog_answer read) w"
  unfolding catalog_answer_def get_catalog_view_def Let_def by (intro safe_rules)

lemma safe_done: "clean w \<Longrightarrow> safe_at (seqP (commit_world drv) (catalog_answer read)) w"
  by (intro safe_rules safe_catalog)

lemmas leaves_ret = leaves_safe [OF safe_ret]

lemma leaves_answer: "clean w \<Longrightarrow> leaves (seqP (commit_world drv) (ret x)) w"
  by (intro leaves_safe safe_rules)

lemma leaves_known: "clean w \<Longrightarrow> (\<And>w'. clean w' \<Longrightarrow> leaves m w') \<Longrightarrow> leaves (known_currency c m) w"
  unfolding known_currency_def by (auto intro!: leaves_bind safe_find leaves_safe [OF safe_ret])

lemma request_leaves: "clean w \<Longrightarrow> leaves (serve_currency drv read save r g) w"
proof (cases r)
  case (CreateCurrency data)
  assume "clean w"
  then show ?thesis
    unfolding CreateCurrency serve_currency.simps create_currency_route_def
    by (auto intro!: leaves_guarded leaves_ret leaves_answer safe_raise safe_create split: option.split json.split)
next
  case (DeleteCurrency c)
  assume "clean w"
  then show ?thesis
    unfolding DeleteCurrency serve_currency.simps delete_currency_route_def
    by (intro leaves_guarded leaves_safe safe_done safe_delete)
next
  case (ActivateCurrency c)
  assume "clean w"
  then show ?thesis
    unfolding ActivateCurrency serve_currency.simps activate_currency_def
    by (intro leaves_guarded leaves_safe safe_done safe_set_active)
next
  case (DeactivateCurrency c)
  assume "clean w"
  then show ?thesis
    unfolding DeactivateCurrency serve_currency.simps deactivate_currency_def
    by (intro leaves_known leaves_guarded leaves_safe safe_done safe_set_active)
next
  case (SetDefaultCurrency c)
  assume "clean w"
  then show ?thesis
    unfolding SetDefaultCurrency serve_currency.simps set_default_currency_def
    by (intro leaves_known leaves_guarded leaves_safe safe_done safe_set_default)
next
  case (UpdateCurrencyRate c data)
  assume "clean w"
  then show ?thesis
    unfolding UpdateCurrencyRate serve_currency.simps update_currency_rate_def
    by (auto intro!: leaves_known leaves_guarded leaves_ret leaves_answer safe_update_rate split: option.split)
next
  case (UpdateSettings data)
  assume "clean w"
  then have "safe_at (save data) w" by (rule safe_save)
  then show ?thesis
    unfolding UpdateSettings serve_currency.simps update_settings_world_def update_settings_route_def
    by (cases "save data w"; cases "fst (save data w)")
      (auto simp: leaves_def safe_at_def clean_left bindP_def try_except_def ret_def raise_def)
qed

lemma serve_backed:
  assumes "good (snd s)" and "backed (lookup (snd s)) (fst s)"
  shows "good (snd (serve_all drvs read save g rs s)) \<and>
    backed (lookup (snd (serve_all drvs read save g rs s))) (fst (serve_all drvs read save g rs s))"
  using assms
proof (induction rs arbitrary: s)
  case (Cons r rs)
  let ?w = "\<lparr>sw_session = open_session (fst s), sw_disk = snd s\<rparr>"
  have "clean ?w" using Cons.prems by (simp add: clean_def)
  then have "leaves (serve_currency (drvs (length rs)) read save r g) ?w" by (rule request_leaves)
  then have "left (snd (serve_currency (drvs (length rs)) read save r g ?w))" by (simp only: leaves_def)
  then show ?case by (auto simp: serve_def left_def split: prod.split intro!: Cons.IH)
qed simp

end

section \<open>The settings file is such a source\<close>

definition stored_settings :: "codec \<Rightarrow> fs_manager \<Rightarrow> disk \<Rightarrow> json_dict" where
  "stored_settings cd m d = merge_settings
     (case fs_resolve m ''core'' ''vbwd_settings.json'' d of
        Inl _ \<Rightarrow> JNull
      | Inr target \<Rightarrow>
          (case contents d target of
             None \<Rightarrow> JNull
           | Some bytes \<Rightarrow>
               (case cd_decode cd bytes of
                  None \<Rightarrow> JNull
                | Some t \<Rightarrow> (case cd_loads cd t of None \<Rightarrow> JNull | Some v \<Rightarrow> v))))"

text \<open>
  What is asked of the parameters: the codec and JSON are inverse, the files of the core are plain
  and replaced atomically, and a failing system call does not pretend that a file is missing.
\<close>

definition store_sound :: "codec \<Rightarrow> os_driver \<Rightarrow> fs_manager \<Rightarrow> bool" where
  "store_sound cd od m \<longleftrightarrow> json_codec_ok cd \<and>
     (\<exists>policy. fs_policy m ''core'' = Inr policy \<and> np_write_mode policy = ATOMIC_REPLACE \<and> \<not> np_encrypt policy) \<and>
     (\<forall>n e. od n \<noteq> Some (FileNotFoundError e))"

lemma stored_calls: "only_calls d e \<Longrightarrow> stored_settings cd m e = stored_settings cd m d \<and> well_linked e = well_linked d"
proof -
  assume o: "only_calls d e"
  then have same: "dk_links e = dk_links d" "dk_cwd e = dk_cwd d" by (simp_all add: only_calls_def)
  moreover have "contents e p = contents d p" for p using o by (simp add: only_calls_def contents_def node_at_def)
  ultimately show ?thesis
    by (simp add: stored_settings_def resolve_cong [OF same] well_linked_cong [OF same] split: sum.split)
qed

lemma text_contents:
  assumes "fs_read_text cd od m ns rel d = (Inr t, d')" and "well_linked d"
    and "fs_policy m ns = Inr policy" and "\<not> np_encrypt policy" and "fs_resolve m ns rel d = Inr target"
  shows "\<exists>bytes. cd_decode cd bytes = Some t \<and> contents d target = Some bytes"
proof -
  have f: "follow d target = target" using fs_resolve_Inr [OF assms(5,2)] by (simp add: follow_resolved)
  have tg: "fs_target m ns rel d = (Inr (policy, target), d)"
    using assms(3,5) by (simp add: fs_target_def lift_sum_def bindP_def)
  from assms(1) obtain bytes d2 where bytes: "fs_read_bytes cd od m ns rel d = (Inr bytes, d2)" "cd_decode cd bytes = Some t"
    by (auto simp: fs_read_text_def then_decode_def decode_bytes_def lift_sum_def elim!: bindP_InrE split: sum.splits option.splits)
  with tg assms(4) have "os_read od target d = (Inr bytes, d2)"
    by (auto simp: fs_read_bytes_def elim!: bindP_InrE)
  with f bytes(2) show ?thesis
    by (auto simp: os_read_def os_call_Inr bindP_def contents_def elim!: seqP_InrE split: option.splits node.splits if_splits)
qed

lemma read_missing_file:
  assumes "fs_read_text cd od m ns rel d = (Inl (FileNotFoundError e), d')" and "well_linked d"
    and "\<And>n e. od n \<noteq> Some (FileNotFoundError e)" and "fs_policy m ns = Inr policy" and "\<not> np_encrypt policy"
    and "fs_resolve m ns rel d = Inr target"
  shows "contents d target = None"
proof -
  have f: "follow d target = target" using fs_resolve_Inr [OF assms(6,2)] by (simp add: follow_resolved)
  have t: "fs_target m ns rel d = (Inr (policy, target), d)"
    using assms(4,6) by (simp add: fs_target_def lift_sum_def bindP_def)
  have "fs_read_bytes cd od m ns rel d = (Inl (FileNotFoundError e), d')"
    using assms(1) by (auto simp: fs_read_text_def then_decode_def decode_bytes_def lift_sum_def elim!: bindP_InlE split: option.splits)
  with t assms(5) have "os_read od target d = (Inl (FileNotFoundError e), d')"
    by (auto simp: fs_read_bytes_def elim!: bindP_InlE)
  with assms(3) f show ?thesis
    by (auto simp: os_read_def os_call_def bindP_def seqP_def Let_def contents_def split: option.splits node.splits if_splits)
qed

lemma settings_path_valid: "validate_relative_path ''core'' ''vbwd_settings.json'' = Inr ''vbwd_settings.json''"
  by code_simp

lemma stored_read:
  assumes "get_core_settings cd od m d = (Inr s, d')" and "well_linked d" and "store_sound cd od m"
  shows "s = stored_settings cd m d"
proof -
  from assms(3) obtain policy where pol: "fs_policy m ''core'' = Inr policy" "\<not> np_encrypt policy"
    and honest: "\<And>n e. od n \<noteq> Some (FileNotFoundError e)" by (auto simp: store_sound_def)
  from assms(1) obtain v where v: "s = merge_settings v"
    and rd: "fs_read_json cd od m ''core'' ''vbwd_settings.json'' JNull d = (Inr v, d')"
    by (auto simp: get_core_settings_def elim!: bindP_InrE)
  have "\<exists>target. fs_resolve m ''core'' ''vbwd_settings.json'' d = Inr target"
    using rd pol by (cases rule: fs_target_cases [of m "''core''" "''vbwd_settings.json''" d])
      (auto simp: fs_read_json_def load_json_def fs_read_text_def then_decode_def fs_read_bytes_def try_except_def bindP_def
        fs_target_def fs_resolve_def lift_sum_def Let_def settings_path_valid split: exn.splits sum.splits if_splits)
  then obtain target where target: "fs_resolve m ''core'' ''vbwd_settings.json'' d = Inr target" ..
  consider (there) t d1 where "fs_read_text cd od m ''core'' ''vbwd_settings.json'' d = (Inr t, d1)"
      "v = (case cd_loads cd t of None \<Rightarrow> JNull | Some v \<Rightarrow> v)"
    | (missing) e d1 where "fs_read_text cd od m ''core'' ''vbwd_settings.json'' d = (Inl (FileNotFoundError e), d1)" "v = JNull"
    using rd by (auto simp: fs_read_json_def load_json_def try_except_def bindP_def split: prod.splits sum.splits exn.splits option.splits)
  then show ?thesis
  proof cases
    case (there t d1)
    then obtain bytes where "cd_decode cd bytes = Some t" "contents d target = Some bytes"
      using text_contents [OF there(1) assms(2) pol target] by blast
    with v there target show ?thesis by (simp add: stored_settings_def)
  next
    case (missing e d1)
    from read_missing_file [OF missing(1) assms(2) honest pol target] v missing(2) target
    show ?thesis by (simp add: stored_settings_def)
  qed
qed

lemma dict_update_applied: "map_of (dict_update c (known_settings data)) = applied data (map_of c)"
  by (rule ext) (simp add: applied_def map_of_dict_update)

lemma stored_write:
  assumes "well_linked d" and "store_sound cd od m"
    and "d' = snd (fs_write_json cd od m ''core'' ''vbwd_settings.json'' (JObj c) d)"
  shows "well_linked d' \<and> stored_settings cd m d' \<in> {stored_settings cd m d, merge_settings (JObj c)}"
proof -
  let ?data = "cd_encode cd (cd_dumps cd (JObj c))"
  have d': "d' = snd (fs_write_bytes cd od m ''core'' ''vbwd_settings.json'' ?data d)"
    using assms(3) by (simp add: fs_write_json_def fs_write_text_def)
  from assms(2) obtain policy where pol: "fs_policy m ''core'' = Inr policy" "np_write_mode policy = ATOMIC_REPLACE"
    "\<not> np_encrypt policy" and cod: "json_codec_ok cd" by (auto simp: store_sound_def)
  have "within d (namespace_dir m ''core'' d) d'"
    using keeps_write_bytes [OF assms(1)] within_refl by (simp add: keeps_def d')
  then have same: "dk_links d' = dk_links d" "dk_cwd d' = dk_cwd d" by (simp_all add: within_def)
  have torn: "contents d' target \<in> {contents d target, Some ?data}"
    if "fs_resolve m ''core'' ''vbwd_settings.json'' d = Inr target" for target
    unfolding d' by (rule never_torn [OF assms(1) pol that])
  have "cd_decode cd ?data = Some (cd_dumps cd (JObj c))" "cd_loads cd (cd_dumps cd (JObj c)) = Some (JObj c)"
    using cod by (simp_all add: json_codec_ok_def codec_ok_def)
  with torn assms(1) show ?thesis
    by (cases "fs_resolve m ''core'' ''vbwd_settings.json'' d")
      (auto simp: stored_settings_def resolve_cong [OF same] well_linked_cong [OF same])
qed

lemma update_stored:
  assumes "well_linked d" and "store_sound cd od m" and "update_core_settings cd od m (Some codes) data d = (r, d')"
  shows "well_linked d' \<and>
    (stored_settings cd m d' = stored_settings cd m d \<or>
     (map_of (stored_settings cd m d') = applied data (map_of (stored_settings cd m d)) \<and>
      validate_known (Some codes) (known_settings data) = Inr ()))"
proof (cases "validate_known (Some codes) (known_settings data)")
  case (Inl e)
  with assms(1,3) show ?thesis by (auto simp: update_core_settings_def lift_sum_def Let_def)
next
  case (Inr u)
  obtain r1 d1 where get: "get_core_settings cd od m d = (r1, d1)" by fastforce
  then obtain r2 where "fs_read_json cd od m ''core'' ''vbwd_settings.json'' JNull d = (r2, d1)"
    by (auto simp: get_core_settings_def bindP_def split: prod.splits sum.splits)
  from stored_calls [OF read_only [OF this], of cd m] assms(1)
  have d1: "stored_settings cd m d1 = stored_settings cd m d" "well_linked d1" by simp_all
  show ?thesis
  proof (cases r1)
    case (Inl e)
    with assms(3) get Inr d1 show ?thesis
      by (auto simp: update_core_settings_def lift_sum_def Let_def bindP_def)
  next
    case (Inr s)
    have s: "s = stored_settings cd m d" by (rule stored_read [OF get [unfolded Inr] assms(1,2)])
    let ?c = "dict_update s (known_settings data)"
    show ?thesis
    proof (cases "validate_default_is_active ?c")
      case (Inl e)
      with assms(3) get Inr \<open>r1 = Inr s\<close> \<open>validate_known _ _ = Inr u\<close> d1 show ?thesis
        by (auto simp: update_core_settings_def lift_sum_def Let_def bindP_def)
    next
      case (Inr x)
      with assms(3) get \<open>r1 = Inr s\<close> \<open>validate_known _ _ = Inr u\<close>
      have "d' = snd (fs_write_json cd od m ''core'' ''vbwd_settings.json'' (JObj ?c) d1)"
        by (auto simp: update_core_settings_def lift_sum_def Let_def bindP_def seqP_def split: prod.splits sum.splits)
      from stored_write [OF d1(2) assms(2) this]
      have "well_linked d'" "stored_settings cd m d' \<in> {stored_settings cd m d, merge_settings (JObj ?c)}"
        by (simp_all add: d1(1))
      moreover have "map_of (merge_settings (JObj ?c)) = map_of ?c"
        unfolding s stored_settings_def by (rule merge_saved)
      ultimately show ?thesis
        using \<open>validate_known _ _ = Inr u\<close> by (auto simp: dict_update_applied s)
    qed
  qed
qed

text \<open>A validated write makes only currencies of the catalogue active.\<close>

lemma validated_active:
  assumes "validate_known (Some codes) (known_settings data) = Inr ()"
    and "map_of (rev (known_settings data)) ''active_currencies'' \<noteq> None"
  shows "active_names (applied data f) \<subseteq> set codes"
proof -
  from assms(2) obtain v where v: "map_of (rev (known_settings data)) ''active_currencies'' = Some v" by blast
  have "validate_active_currencies (Some codes) v = Inr ()"
    using validated [OF assms(1) v] by (simp add: key_validator_def)
  then obtain items where "v = JList items" "\<forall>i \<in> set items. jstr i \<in> set codes"
    by (cases v) (auto simp: validate_active_currencies_def Let_def filter_empty_conv split: if_splits)
  then show ?thesis using v by (auto simp: active_names_def applied_def json_names_def)
qed

definition settings_good :: "codec \<Rightarrow> os_driver \<Rightarrow> fs_manager \<Rightarrow> disk \<Rightarrow> bool" where
  "settings_good cd od m d \<longleftrightarrow> well_linked d \<and> store_sound cd od m"

lemma reader_law:
  assumes good: "settings_good cd od m (sw_disk w)" and run: "settings_reader cd od m w = (r, w')"
  shows "sw_session w' = sw_session w \<and> settings_good cd od m (sw_disk w') \<and>
      map_of (stored_settings cd m (sw_disk w')) = map_of (stored_settings cd m (sw_disk w)) \<and>
      (case r of Inl e \<Rightarrow> True | Inr s \<Rightarrow> map_of s = map_of (stored_settings cd m (sw_disk w)))"
proof -
  obtain r1 d' where get: "get_core_settings cd od m (sw_disk w) = (r1, d')" by fastforce
  then obtain r2 where "fs_read_json cd od m ''core'' ''vbwd_settings.json'' JNull (sw_disk w) = (r2, d')"
    by (auto simp: get_core_settings_def bindP_def split: prod.splits sum.splits)
  from stored_calls [OF read_only [OF this], of cd m] good
  have same: "stored_settings cd m d' = stored_settings cd m (sw_disk w)" "settings_good cd od m d'"
    by (simp_all add: settings_good_def)
  have "s = stored_settings cd m (sw_disk w)" if "r1 = Inr s" for s
    using stored_read [of cd od m "sw_disk w" s d'] get good that by (simp add: settings_good_def)
  moreover have "r = r1" "w' = w\<lparr>sw_disk := d'\<rparr>"
    using run get by (simp_all add: settings_reader_def on_disk_def)
  ultimately show ?thesis using same by (cases r1) simp_all
qed

lemma writer_law:
  assumes good: "settings_good cd od m (sw_disk w)" and run: "settings_writer cd od m data w = (r, w')"
  shows "sw_session w' = sw_session w \<and> settings_good cd od m (sw_disk w') \<and>
      (map_of (stored_settings cd m (sw_disk w')) = map_of (stored_settings cd m (sw_disk w)) \<or>
       (map_of (stored_settings cd m (sw_disk w')) = applied data (map_of (stored_settings cd m (sw_disk w))) \<and>
        (map_of (rev (known_settings data)) ''active_currencies'' = None \<or>
         active_names (map_of (stored_settings cd m (sw_disk w'))) \<subseteq> catalog_codes (pending (sw_session w)))))"
proof -
  let ?codes = "currency_catalog_codes (pending (sw_session w))"
  obtain r1 d' where upd: "update_core_settings cd od m (Some ?codes) data (sw_disk w) = (r1, d')" by fastforce
  with run have w': "w' = w\<lparr>sw_disk := d'\<rparr>"
    by (simp add: settings_writer_def in_session_def bindP_def on_disk_def)
  have codes: "set ?codes = catalog_codes (pending (sw_session w))"
    by (simp add: currency_catalog_codes_def list_all_currencies_def catalog_codes_def)
  have cd: "well_linked (sw_disk w)" "store_sound cd od m" using good by (simp_all add: settings_good_def)
  from update_stored [OF cd upd] have linked: "well_linked d'" by blast
  have "map_of (rev (known_settings data)) ''active_currencies'' = None \<or> active_names (applied data f) \<subseteq> catalog_codes (pending (sw_session w))"
    if "validate_known (Some ?codes) (known_settings data) = Inr ()" for f
    using validated_active [OF that] unfolding codes by blast
  with update_stored [OF cd upd] have "map_of (stored_settings cd m d') = map_of (stored_settings cd m (sw_disk w)) \<or>
       (map_of (stored_settings cd m d') = applied data (map_of (stored_settings cd m (sw_disk w))) \<and>
        (map_of (rev (known_settings data)) ''active_currencies'' = None \<or>
         active_names (map_of (stored_settings cd m d')) \<subseteq> catalog_codes (pending (sw_session w))))"
    by metis
  then show ?thesis using linked cd(2) by (simp add: w' settings_good_def)
qed

interpretation settings_file: settings_source "settings_reader cd od m" "settings_writer cd od m"
    "\<lambda>d. map_of (stored_settings cd m d)" "settings_good cd od m" for cd od m
proof unfold_locales
  show "settings_good cd od m (sw_disk w) \<Longrightarrow> settings_reader cd od m w = (r, w') \<Longrightarrow>
      sw_session w' = sw_session w \<and> settings_good cd od m (sw_disk w') \<and>
      map_of (stored_settings cd m (sw_disk w')) = map_of (stored_settings cd m (sw_disk w)) \<and>
      (case r of Inl e \<Rightarrow> True | Inr s \<Rightarrow> map_of s = map_of (stored_settings cd m (sw_disk w)))"
    for w :: "'p shop_db_scheme shop_world" and r w' by (rule reader_law)
qed (rule writer_law)

text \<open>The codes the settings name as active are in the catalogue, which has no code twice.\<close>

definition settings_backed :: "codec \<Rightarrow> fs_manager \<Rightarrow> 'p shop_db_scheme \<times> disk \<Rightarrow> bool" where
  "settings_backed cd m s \<longleftrightarrow> distinct (map cy_code (sd_currencies (fst s))) \<and>
     set (active_codes (stored_settings cd m (snd s))) \<subseteq> set (map cy_code (sd_currencies (fst s)))"

lemma settings_backed_iff: "settings_backed cd m s \<longleftrightarrow> backed (map_of (stored_settings cd m (snd s))) (fst s)"
  by (simp add: settings_backed_def backed_def active_codes_names catalog_codes_def)

text \<open>
  C23. Active currencies are in the catalogue. The active set lives in a file and the catalogue in
  the database, and no transaction spans the two; still, from a state in which every active code
  has its row, any history of requests that create, delete, activate, deactivate or re-rate
  currencies, change the default or save the settings, with whatever database and system calls
  failing in it, ends in such a state, and no code has two rows.
\<close>

theorem active_currencies_in_catalog:
  assumes "well_linked (snd s)" and "store_sound cd od m" and "settings_backed cd m s"
  shows "settings_backed cd m
    (serve_all drvs (settings_reader cd od m) (settings_writer cd od m) g requests s)"
  using settings_file.serve_backed [of cd od m s drvs g requests] assms
  by (simp add: settings_backed_iff settings_good_def)

text \<open>
  The catalogue of the witness, the settings as they come (euro active and default), and two
  requests: the dollar is activated and made the default.
\<close>

definition demo_currencies :: "currency list" where
  "demo_currencies =
     [\<lparr>cy_code = ''USD'', cy_name = ''US Dollar'', cy_symbol = ''$'', cy_rate = 5 / 4, cy_places = 2\<rparr>,
      \<lparr>cy_code = ''EUR'', cy_name = ''Euro'', cy_symbol = ''E'', cy_rate = 1, cy_places = 2\<rparr>]"

definition demo_shop :: shop_db where
  "demo_shop = empty_shop\<lparr>sd_currencies := demo_currencies\<rparr>"

lemma demo_sound: "store_sound demo_codec (\<lambda>_. None) demo_manager"
  using core_facts(1-3) demo_codec_ok by (auto simp: store_sound_def)

lemma empty_stored: "stored_settings demo_codec demo_manager empty_disk = default_core_settings"
  using core_facts(4,5) by (simp add: stored_settings_def contents_def merge_settings_def)

lemma default_active: "active_codes default_core_settings = [''EUR'']"
  by code_simp

theorem active_currencies_in_catalog_witness:
  "settings_backed demo_codec demo_manager
    (serve_all (\<lambda>_ _. None) (settings_reader demo_codec (\<lambda>_. None) demo_manager)
      (settings_writer demo_codec (\<lambda>_. None) demo_manager) empty_g
      [ActivateCurrency ''usd'', SetDefaultCurrency ''USD'', DeleteCurrency ''EUR''] (demo_shop, empty_disk))"
proof (rule active_currencies_in_catalog)
  show "well_linked (snd (demo_shop, empty_disk))" using core_facts(7) by simp
  show "settings_backed demo_codec demo_manager (demo_shop, empty_disk)"
    by (simp add: settings_backed_def empty_stored default_active demo_shop_def demo_currencies_def)
qed (rule demo_sound)

section \<open>The default currency\<close>

text \<open>The row of a re-based currency as it is stored.\<close>

definition rebased_row :: "string \<Rightarrow> rat \<Rightarrow> currency \<Rightarrow> currency" where
  "rebased_row n old c = c\<lparr>cy_rate := the (numeric_column 18 8 (cy_rate (rebased n old c)))\<rparr>"

lemma code_rebased [simp]: "cy_code (rebased_row n old c) = cy_code c"
  by (simp add: rebased_row_def)

lemma rebase_row_ok:
  assumes "\<And>n. drv n = None" and "numeric_column 18 8 (cy_rate (rebased n old c)) \<noteq> None"
  shows "rebase_row drv n old c s = (Inr (), s\<lparr>pending := put_currency (rebased_row n old c) (pending s),
    calls := Suc (calls s), durable := put_currency (rebased_row n old c) (pending s)\<rparr>)"
proof -
  from assms(2) obtain r where r: "numeric_column 18 8 (cy_rate (rebased n old c)) = Some r" by blast
  have "(rebased n old c)\<lparr>cy_rate := r\<rparr> = rebased_row n old c"
    using r by (simp add: rebased_def rebased_row_def)
  with r assms(1) show ?thesis
    by (simp add: rebase_row_def store_currency_def bindP_def seqP_def)
qed

lemma rebase_rows_ok:
  assumes "\<And>n. drv n = None" and "\<forall>c \<in> set rows. numeric_column 18 8 (cy_rate (rebased n old c)) \<noteq> None"
    and "pending s = durable s"
  shows "\<exists>t. for_each (rebase_row drv n old) rows s = (Inr (), t) \<and> pending t = durable t \<and>
    durable t = foldl (\<lambda>d c. put_currency (rebased_row n old c) d) (durable s) rows"
  using assms(2,3)
proof (induction rows arbitrary: s)
  case (Cons c rows)
  let ?t = "s\<lparr>pending := put_currency (rebased_row n old c) (pending s),
    calls := Suc (calls s), durable := put_currency (rebased_row n old c) (pending s)\<rparr>"
  have "rebase_row drv n old c s = (Inr (), ?t)"
    using Cons.prems(1) by (intro rebase_row_ok assms(1)) simp
  moreover have "\<exists>u. for_each (rebase_row drv n old) rows ?t = (Inr (), u) \<and> pending u = durable u \<and>
      durable u = foldl (\<lambda>d c. put_currency (rebased_row n old c) d) (durable ?t) rows"
    using Cons.prems(1) by (intro Cons.IH) simp_all
  ultimately show ?case using Cons.prems(2) by (simp add: seqP_Inr)
qed simp

lemma put_rows:
  assumes "distinct (map cy_code rows)" and "cy_code ` set rows \<subseteq> cy_code ` set (sd_currencies d)"
  shows "sd_currencies (foldl (\<lambda>d c. put_currency (rebased_row n old c) d) d rows) =
    map (\<lambda>x. case find_row cy_code (cy_code x) rows of None \<Rightarrow> x | Some c \<Rightarrow> rebased_row n old c) (sd_currencies d)"
  using assms
proof (induction rows arbitrary: d)
  case (Cons c rows)
  let ?d = "put_currency (rebased_row n old c) d"
  have table: "sd_currencies ?d = map (\<lambda>x. if cy_code x = cy_code c then rebased_row n old c else x) (sd_currencies d)"
    using Cons.prems(2) by (auto simp: put_currency_def upsert_def)
  then have "cy_code ` set (sd_currencies ?d) = cy_code ` set (sd_currencies d)"
    using codes_put [of "rebased_row n old c" d] Cons.prems(2) by (auto simp: catalog_codes_def)
  with Cons.prems Cons.IH [of ?d] have "sd_currencies (foldl (\<lambda>d c. put_currency (rebased_row n old c) d) ?d rows) =
      map (\<lambda>x. case find_row cy_code (cy_code x) rows of None \<Rightarrow> x | Some c \<Rightarrow> rebased_row n old c) (sd_currencies ?d)"
    by simp
  moreover have "find_row cy_code (cy_code c) rows = None" using Cons.prems(1) by (simp add: find_row_None)
  ultimately show ?case by (auto simp: table find_row_def split: option.split)
qed (simp add: find_row_def)

lemma rebased_table:
  assumes "distinct (map cy_code (sd_currencies d))"
  shows "sd_currencies (foldl (\<lambda>d c. put_currency (rebased_row n old c) d) d (list_all_currencies d)) =
    map (rebased_row n old) (sd_currencies d)"
proof -
  have rows: "distinct (map cy_code (list_all_currencies d))" "set (list_all_currencies d) = set (sd_currencies d)"
    using assms by (simp_all add: list_all_currencies_def)
  have "find_row cy_code (cy_code x) (list_all_currencies d) = Some x" if "x \<in> set (sd_currencies d)" for x
    using find_row_mem [OF rows(1), of x] rows(2) that by simp
  moreover have "cy_code ` set (list_all_currencies d) \<subseteq> cy_code ` set (sd_currencies d)" by (simp add: rows(2))
  ultimately show ?thesis by (simp add: put_rows [OF rows(1)])
qed

lemma settings_reader_session: "settings_reader cd od m w = (r, w') \<Longrightarrow> sw_session w' = sw_session w"
  by (auto simp: settings_reader_def on_disk_def split: prod.splits)

lemma settings_writer_session: "sw_session (snd (settings_writer cd od m data w)) = sw_session w"
  by (simp add: settings_writer_def in_session_def bindP_def on_disk_def split: prod.split)

lemma find_currency_run: "find_currency c w = (Inr (currency_by_code (pending (sw_session w)) c), w)"
  by (simp add: find_currency_def in_session_def)

lemma after_save:
  "sw_session (snd (seqP (settings_writer cd od m data) (find_currency c) w)) = sw_session w"
proof -
  obtain r w' where run: "settings_writer cd od m data w = (r, w')" by fastforce
  then have "sw_session w' = sw_session w" using settings_writer_session [of cd od m data w] by simp
  with run show ?thesis by (cases r) (simp_all add: seqP_def bindP_def find_currency_run)
qed

text \<open>
  C24. What making a currency the default does to the rates. When it is found, active and has a
  rate, and the database works, every row ends with its rate divided by the new default's, to 28
  digits and then to the eight decimals of the column, and the new default with rate 1. That is so
  whatever comes of the settings: they are written last, and when that fails the rates have been
  committed for a default that has not changed, as in the witness.
\<close>

theorem set_default_rebases:
  assumes "\<And>n. drv n = None" and "pending (sw_session w) = durable (sw_session w)"
    and "distinct (map cy_code (sd_currencies (durable (sw_session w))))"
    and "settings_reader cd od m w = (Inr settings, wr)" and "str_upper c \<in> set (active_codes settings)"
    and "currency_by_code (durable (sw_session w)) c = Some row" and "cy_rate row \<noteq> 0"
    and "\<And>x. x \<in> set (sd_currencies (durable (sw_session w))) \<Longrightarrow>
      numeric_column 18 8 (cy_rate (rebased (str_upper c) (cy_rate row) x)) \<noteq> None"
    and "w' = snd (set_default drv (settings_reader cd od m) (settings_writer cd od m) c w)"
  shows "sd_currencies (durable (sw_session w')) =
      map (\<lambda>x. if cy_code x = str_upper c then x\<lparr>cy_rate := 1\<rparr>
        else x\<lparr>cy_rate := the (numeric_column 18 8 (dec (cy_rate x / cy_rate row)))\<rparr>)
      (sd_currencies (durable (sw_session w)))"
proof -
  let ?n = "str_upper c" let ?d = "durable (sw_session w)"
  let ?loop = "for_each (rebase_row drv ?n (cy_rate row)) (list_all_currencies ?d)"
  let ?rest = "seqP (settings_writer cd od m [(''default_currency'', JStr ?n)]) (find_currency ?n)"
  have wr: "sw_session wr = sw_session w" using assms(4) by (rule settings_reader_session)
  have "\<exists>t. ?loop (sw_session wr) = (Inr (), t) \<and> pending t = durable t \<and>
      durable t = foldl (\<lambda>d x. put_currency (rebased_row ?n (cy_rate row) x) d) (durable (sw_session wr)) (list_all_currencies ?d)"
    by (rule rebase_rows_ok) (use assms(1,2,8) in \<open>auto simp: wr list_all_currencies_def\<close>)
  then obtain t where t: "?loop (sw_session wr) = (Inr (), t)"
    and "durable t = foldl (\<lambda>d x. put_currency (rebased_row ?n (cy_rate row) x) d) ?d (list_all_currencies ?d)"
    by (auto simp: wr)
  then have rows: "sd_currencies (durable t) = map (rebased_row ?n (cy_rate row)) (sd_currencies ?d)"
    using rebased_table [OF assms(3)] by simp
  have found: "currency_by_code ?d ?n = Some row" using assms(6) by (simp add: currency_by_code_def)
  have "set_default drv (settings_reader cd od m) (settings_writer cd od m) c w = ?rest (wr\<lparr>sw_session := t\<rparr>)"
    using found assms(2,4,5,7) t wr
    by (simp add: set_default_def bindP_def find_currency_run seqP_def in_session_def)
  then have "sw_session w' = t" using after_save [of cd od m _ ?n "wr\<lparr>sw_session := t\<rparr>"] assms(9) by simp
  moreover have "numeric_column 18 8 1 = Some 1" by code_simp
  ultimately show ?thesis using rows by (simp add: rebased_row_def rebased_def)
qed

text \<open>
  Two active currencies in the file; from the second system call on the process has no file
  descriptors left.
\<close>

definition two_active :: json_dict where
  "two_active = dict_update default_core_settings [(''active_currencies'', JList [JStr ''EUR'', JStr ''USD''])]"

definition two_active_disk :: disk where
  "two_active_disk = put_node [''var'', ''core'', ''vbwd_settings.json'']
     (File (cd_encode demo_codec (cd_dumps demo_codec (JObj two_active))) 420) empty_disk"

definition no_descriptors :: os_driver where
  "no_descriptors n = (if n = 0 then None else Some (OtherError ''EMFILE''))"

lemma empty_nodes: "node_at empty_disk p = (if p = [] then Some Dir else None)"
  by (simp add: node_at_def empty_disk_def)

lemma two_active_facts:
  "well_linked two_active_disk" "dk_calls two_active_disk = 0"
  "fs_resolve demo_manager ''core'' ''vbwd_settings.json'' two_active_disk = Inr [''var'', ''core'', ''vbwd_settings.json'']"
  "\<not> blocked two_active_disk [''var'', ''core'', ''vbwd_settings.json'']"
proof -
  have same: "dk_links two_active_disk = dk_links empty_disk" "dk_cwd two_active_disk = dk_cwd empty_disk"
    by (simp_all add: two_active_disk_def)
  show "well_linked two_active_disk" "dk_calls two_active_disk = 0"
    "fs_resolve demo_manager ''core'' ''vbwd_settings.json'' two_active_disk = Inr [''var'', ''core'', ''vbwd_settings.json'']"
    using core_facts(4,7) by (simp_all add: resolve_cong [OF same] well_linked_cong [OF same])
      (simp add: two_active_disk_def empty_disk_def)
  show "\<not> blocked two_active_disk [''var'', ''core'', ''vbwd_settings.json'']"
    by (auto simp: blocked_def list_ex_iff is_file_def two_active_disk_def parents_def empty_nodes split: if_splits)
qed

lemma read_two_active:
  "get_core_settings demo_codec no_descriptors demo_manager two_active_disk =
     (Inr (merge_settings (JObj two_active)), two_active_disk\<lparr>dk_calls := 1\<rparr>)"
proof -
  have "node_at two_active_disk [''var'', ''core'', ''vbwd_settings.json''] =
      Some (File (cd_encode demo_codec (cd_dumps demo_codec (JObj two_active))) 420)"
    by (simp add: two_active_disk_def)
  moreover have "cd_decode demo_codec (cd_encode demo_codec t) = Some t" "cd_loads demo_codec (cd_dumps demo_codec v) = Some v" for t v
    using demo_codec_ok by (simp_all add: json_codec_ok_def codec_ok_def)
  moreover have "no_descriptors (dk_calls two_active_disk) = None" by (simp add: two_active_facts no_descriptors_def)
  ultimately show ?thesis
    using settings_read_run [where drv = no_descriptors and cd = demo_codec,
        OF two_active_facts(1) _ core_facts(1,3) two_active_facts(3,4)]
    by (simp add: two_active_facts)
qed

lemma read_refused:
  assumes "drv (dk_calls d) = Some (OtherError e)" and "fs_policy m ''core'' = Inr policy"
    and "fs_resolve m ''core'' ''vbwd_settings.json'' d = Inr target"
  shows "get_core_settings cd drv m d = (Inl (OtherError e), d\<lparr>dk_calls := Suc (dk_calls d)\<rparr>)"
proof -
  have "fs_target m ''core'' ''vbwd_settings.json'' d = (Inr (policy, target), d)"
    using assms(2,3) by (simp add: fs_target_def lift_sum_def bindP_def)
  with assms(1) show ?thesis
    by (simp add: get_core_settings_def fs_read_json_def load_json_def fs_read_text_def then_decode_def
        fs_read_bytes_def os_read_def os_call_def try_except_def bindP_def seqP_def)
qed

lemma two_active_codes:
  "active_codes (merge_settings (JObj two_active)) = [''EUR'', ''USD'']"
  "default_code (merge_settings (JObj two_active)) = Some ''EUR''"
  by code_simp+

lemma two_active_stored: "stored_settings demo_codec demo_manager two_active_disk = merge_settings (JObj two_active)"
proof -
  have "store_sound demo_codec no_descriptors demo_manager"
    using demo_sound by (auto simp: store_sound_def no_descriptors_def)
  from stored_read [OF read_two_active two_active_facts(1) this] show ?thesis by simp
qed

text \<open>What is left of the disk once calls are refused.\<close>

definition refusing :: "'db shop_world \<Rightarrow> bool" where
  "refusing w \<longleftrightarrow> only_calls two_active_disk (sw_disk w) \<and> 1 \<le> dk_calls (sw_disk w)"

lemma keeps_in_session: "keeps refusing (in_session m)"
  by (auto simp: keeps_def refusing_def in_session_def split: prod.split)

lemma keeps_refused_save: "keeps refusing (settings_writer demo_codec no_descriptors demo_manager data)"
proof (rule keepsI)
  fix w :: "'a shop_db_scheme shop_world" assume w: "refusing w"
  let ?codes = "currency_catalog_codes (pending (sw_session w))" and ?d = "sw_disk w"
  from w have same: "dk_links ?d = dk_links two_active_disk" "dk_cwd ?d = dk_cwd two_active_disk"
    by (simp_all add: refusing_def only_calls_def)
  have "get_core_settings demo_codec no_descriptors demo_manager ?d = (Inl (OtherError ''EMFILE''), ?d\<lparr>dk_calls := Suc (dk_calls ?d)\<rparr>)"
    using w two_active_facts(3)
    by (intro read_refused [OF _ core_facts(1)]) (simp_all add: refusing_def no_descriptors_def resolve_cong [OF same])
  then show "refusing (snd (settings_writer demo_codec no_descriptors demo_manager data w))"
    using w by (auto simp: settings_writer_def in_session_def bindP_def on_disk_def update_core_settings_def
        Let_def lift_sum_def refusing_def only_calls_def split: sum.split)
qed

lemma refused_default:
  assumes "refusing (wr :: 'p shop_db_scheme shop_world)" and "settings_reader demo_codec no_descriptors demo_manager w = (Inr s, wr)" and "refusing w \<or> sw_disk w = two_active_disk"
  shows "only_calls two_active_disk (sw_disk (snd (set_default drv (settings_reader demo_codec no_descriptors demo_manager)
    (settings_writer demo_codec no_descriptors demo_manager) c w)))"
proof -
  let ?rest = "\<lambda>row. bindP (in_session (query list_all_currencies)) (\<lambda>rows.
    seqP (in_session (for_each (rebase_row drv (str_upper c) (cy_rate row)) rows))
      (seqP (settings_writer demo_codec no_descriptors demo_manager [(''default_currency'', JStr (str_upper c))])
        (find_currency (str_upper c))))"
  have "keeps refusing (?rest row :: ('p shop_db_scheme shop_world, currency option) prog)" for row
    unfolding find_currency_def by (intro keeps_bindP keeps_seqP keeps_in_session keeps_refused_save)
  then have "refusing (snd (?rest row wr))" for row using assms(1) unfolding keeps_def by blast
  then show ?thesis
    using assms by (auto simp: set_default_def bindP_def find_currency_run refusing_def only_calls_refl split: option.split)
qed

theorem set_default_rebases_witness:
  "let w = \<lparr>sw_session = open_session demo_shop, sw_disk = two_active_disk\<rparr>;
       w' = snd (set_default (\<lambda>_. None) (settings_reader demo_codec no_descriptors demo_manager)
         (settings_writer demo_codec no_descriptors demo_manager) ''USD'' w)
   in map (\<lambda>x. (cy_code x, cy_rate x)) (sd_currencies (durable (sw_session w'))) = [(''USD'', 1), (''EUR'', 4 / 5)] \<and>
      default_code (stored_settings demo_codec demo_manager (sw_disk w')) = Some ''EUR''"
proof -
  let ?read = "settings_reader demo_codec no_descriptors demo_manager"
  let ?save = "settings_writer demo_codec no_descriptors demo_manager"
  let ?w = "\<lparr>sw_session = open_session demo_shop, sw_disk = two_active_disk\<rparr>"
  let ?w1 = "\<lparr>sw_session = open_session demo_shop, sw_disk = two_active_disk\<lparr>dk_calls := 1\<rparr>\<rparr>"
  let ?w' = "snd (set_default (\<lambda>_. None) ?read ?save ''USD'' ?w)"
  let ?row = "\<lparr>cy_code = ''USD'', cy_name = ''US Dollar'', cy_symbol = ''$'', cy_rate = 5 / 4, cy_places = 2\<rparr>"
  have read: "?read ?w = (Inr (merge_settings (JObj two_active)), ?w1)"
    by (simp add: settings_reader_def on_disk_def read_two_active)
  have up: "str_upper ''USD'' = ''USD''" by code_simp
  have num: "numeric_column 18 8 1 = Some 1" "numeric_column 18 8 (dec (4 / 5)) = Some (4 / 5)" by code_simp+
  have fit: "numeric_column 18 8 (dec (4 / 5)) \<noteq> None" by code_simp
  have row: "currency_by_code demo_shop ''USD'' = Some ?row"
    by (simp add: currency_by_code_def up demo_shop_def demo_currencies_def find_row_def)
  have "sd_currencies (durable (sw_session ?w')) =
      map (\<lambda>x. if cy_code x = str_upper ''USD'' then x\<lparr>cy_rate := 1\<rparr>
        else x\<lparr>cy_rate := the (numeric_column 18 8 (dec (cy_rate x / cy_rate ?row)))\<rparr>)
      (sd_currencies (durable (sw_session ?w)))"
    by (rule set_default_rebases [where w = ?w and wr = ?w1 and settings = "merge_settings (JObj two_active)"])
      (use read row up num(1) fit two_active_codes in \<open>auto simp: demo_shop_def demo_currencies_def rebased_def\<close>)
  then have "map (\<lambda>x. (cy_code x, cy_rate x)) (sd_currencies (durable (sw_session ?w'))) = [(''USD'', 1), (''EUR'', 4 / 5)]"
    using num by (simp add: up demo_shop_def demo_currencies_def)
  moreover have "stored_settings demo_codec demo_manager (sw_disk ?w') = merge_settings (JObj two_active)"
  proof -
    have "only_calls two_active_disk (sw_disk ?w')"
      by (rule refused_default [OF _ read]) (simp_all add: refusing_def only_calls_def)
    from stored_calls [OF this] show ?thesis by (simp add: two_active_stored)
  qed
  ultimately show ?thesis by (simp add: two_active_codes)
qed

section \<open>Conversion\<close>

lemma dec_factor: obtains e where "\<bar>e\<bar> \<le> 1 / (2 * 10 ^ 27)" and "dec x = x * (1 + e)"
proof (cases "x = 0")
  case True
  then have "dec x = x * (1 + 0)" using dec_error [of x] by simp
  then show thesis using that [of 0] by simp
next
  case False
  have "dec x = x * (1 + (dec x - x) / x)" using False by (simp add: field_simps)
  moreover have "\<bar>(dec x - x) / x\<bar> \<le> 1 / (2 * 10 ^ 27)"
  proof -
    have "\<bar>(dec x - x) / x\<bar> = \<bar>dec x - x\<bar> / \<bar>x\<bar>" by (simp add: abs_divide)
    also have "\<dots> \<le> (\<bar>x\<bar> / (2 * 10 ^ 27)) / \<bar>x\<bar>" by (intro divide_right_mono dec_error) simp
    also have "\<dots> = 1 / (2 * 10 ^ 27)" using False by simp
    finally show ?thesis .
  qed
  ultimately show thesis using that by blast
qed

lemma near_one:
  fixes u v p q :: rat
  assumes "\<bar>u\<bar> \<le> p" and "\<bar>v\<bar> \<le> q" and "p \<le> 1"
  shows "\<bar>(1 + u) * (1 + v) - 1\<bar> \<le> p + 2 * q"
proof -
  have "(1 + u) * (1 + v) - 1 = u + v + u * v" by (simp add: algebra_simps)
  then have "\<bar>(1 + u) * (1 + v) - 1\<bar> \<le> \<bar>u\<bar> + \<bar>v\<bar> + \<bar>u * v\<bar>"
    by (metis abs_triangle_ineq add.commute add_left_mono order_trans)
  moreover have "\<bar>u * v\<bar> \<le> 1 * q"
    unfolding abs_mult using assms by (intro mult_mono) auto
  ultimately show ?thesis using assms(1,2) by linarith
qed

text \<open>
  C25. A conversion can be undone. When both currencies are in the catalogue with rates that are
  not zero, converting an amount and converting the result back returns, and gives the amount
  again up to its 26th significant digit, whatever the rates.
\<close>

theorem convert_roundtrip:
  assumes "currency_by_code (pending (sw_session w)) x = Some source" and "cy_rate source \<noteq> 0"
    and "currency_by_code (pending (sw_session w)) y = Some target" and "cy_rate target \<noteq> 0"
  shows "\<exists>there back. convert amount x y w = (Inr there, w) \<and> convert there y x w = (Inr back, w) \<and>
    \<bar>back - amount\<bar> \<le> \<bar>amount\<bar> / 10 ^ 26"
proof (cases "x = y")
  case True
  then show ?thesis by (simp add: convert_def)
next
  case False
  let ?s = "cy_rate source" and ?t = "cy_rate target" let ?eps = "1 / (2 * 10 ^ 27) :: rat"
  define a1 where "a1 = dec (amount / ?s)"
  define a2 where "a2 = dec (a1 * ?t)"
  define a3 where "a3 = dec (a2 / ?t)"
  define a4 where "a4 = dec (a3 * ?s)"
  obtain e1 where e1: "\<bar>e1\<bar> \<le> ?eps" "a1 = amount / ?s * (1 + e1)" unfolding a1_def by (rule dec_factor)
  obtain e2 where e2: "\<bar>e2\<bar> \<le> ?eps" "a2 = a1 * ?t * (1 + e2)" unfolding a2_def by (rule dec_factor)
  obtain e3 where e3: "\<bar>e3\<bar> \<le> ?eps" "a3 = a2 / ?t * (1 + e3)" unfolding a3_def by (rule dec_factor)
  obtain e4 where e4: "\<bar>e4\<bar> \<le> ?eps" "a4 = a3 * ?s * (1 + e4)" unfolding a4_def by (rule dec_factor)
  define u where "u = (1 + e1) * (1 + e2) - 1"
  define v where "v = (1 + u) * (1 + e3) - 1"
  have "\<bar>u\<bar> \<le> ?eps + 2 * ?eps" unfolding u_def by (rule near_one [OF e1(1) e2(1)]) simp
  then have "\<bar>v\<bar> \<le> (?eps + 2 * ?eps) + 2 * ?eps" unfolding v_def by (rule near_one [OF _ e3(1)]) simp
  then have w: "\<bar>(1 + v) * (1 + e4) - 1\<bar> \<le> ((?eps + 2 * ?eps) + 2 * ?eps) + 2 * ?eps" by (rule near_one [OF _ e4(1)]) simp
  have "a4 = amount * ((1 + v) * (1 + e4))"
    unfolding e4(2) e3(2) e2(2) e1(2) v_def u_def using assms(2,4) by (simp add: field_simps)
  then have "a4 - amount = amount * ((1 + v) * (1 + e4) - 1)" by (simp only: right_diff_distrib mult_1_right)
  then have "\<bar>a4 - amount\<bar> \<le> \<bar>amount\<bar> * (((?eps + 2 * ?eps) + 2 * ?eps) + 2 * ?eps)"
    unfolding abs_mult using w by (metis abs_mult mult_left_mono abs_ge_zero)
  also have "\<dots> \<le> \<bar>amount\<bar> * (1 / 10 ^ 26)" by (rule mult_left_mono) simp_all
  finally have "\<bar>a4 - amount\<bar> \<le> \<bar>amount\<bar> / 10 ^ 26" by simp
  moreover have "convert amount x y w = (Inr a2, w)" "convert a2 y x w = (Inr a4, w)"
    using assms False by (simp_all add: a1_def a2_def a3_def a4_def convert_def bindP_def find_currency_run convert_between_def convert_to_default_def
        convert_from_default_def)
  ultimately show ?thesis by blast
qed

theorem convert_roundtrip_witness:
  "let w = \<lparr>sw_session = open_session demo_shop, sw_disk = empty_disk\<rparr> in
   \<exists>there back. convert 10 ''EUR'' ''USD'' w = (Inr there, w) \<and> convert there ''USD'' ''EUR'' w = (Inr back, w) \<and>
     \<bar>back - 10\<bar> \<le> \<bar>10\<bar> / 10 ^ 26"
proof -
  have "str_upper ''USD'' = ''USD''" "str_upper ''EUR'' = ''EUR''" by code_simp+
  then show ?thesis
    unfolding Let_def
    by (intro convert_roundtrip [where source = "demo_currencies ! 1" and target = "demo_currencies ! 0"])
      (simp_all add: currency_by_code_def find_row_def demo_shop_def demo_currencies_def)
qed

end
