(* ===== verification/Countries.thy ===== *)
theory Countries
  imports Taxes
begin

text \<open>
  Countries: \<open>Country\<close> and its repository (\<open>vbwd/models/country.py\<close>,
  \<open>repositories/country_repository.py\<close>), the admin routes (\<open>routes/admin/countries.py\<close>), the
  public list (\<open>routes/settings.py\<close>), export and import (\<open>services/country_io.py\<close>) and the seeder
  (\<open>services/country_seeder.py\<close>). Timestamps are left out.
\<close>

definition country_dict :: "country \<Rightarrow> json_dict" where
  "country_dict c =
     [(''id'', JStr (co_id c)), (''code'', JStr (co_code c)), (''name'', JStr (co_name c)),
      (''is_enabled'', JBool (co_enabled c)), (''position'', JInt (co_position c))]"

definition public_country :: "country \<Rightarrow> json_dict" where
  "public_country c = [(''code'', JStr (co_code c)), (''name'', JStr (co_name c))]"

section \<open>CountryRepository\<close>

definition country_by_code :: "'p shop_db_scheme \<Rightarrow> string \<Rightarrow> country option" where
  "country_by_code d c = find_row co_code (str_upper c) (sd_countries d)"

text \<open>\<open>ORDER BY position, name\<close>.\<close>

definition by_position :: "country list \<Rightarrow> country list" where
  "by_position rows = sort_key co_position (by_text co_name rows)"

definition find_enabled :: "'p shop_db_scheme \<Rightarrow> country list" where
  "find_enabled d = by_position (filter co_enabled (sd_countries d))"

definition find_disabled :: "'p shop_db_scheme \<Rightarrow> country list" where
  "find_disabled d = by_text co_name (filter (\<lambda>c. \<not> co_enabled c) (sd_countries d))"

definition find_all_ordered :: "'p shop_db_scheme \<Rightarrow> country list" where
  "find_all_ordered d = find_enabled d @ by_position (filter (\<lambda>c. \<not> co_enabled c) (sd_countries d))"

definition code_exists :: "'p shop_db_scheme \<Rightarrow> string \<Rightarrow> bool" where
  "code_exists d c \<longleftrightarrow> country_by_code d c \<noteq> None"

definition max_position :: "country list \<Rightarrow> int option" where
  "max_position rows = (case rows of [] \<Rightarrow> None | c # cs \<Rightarrow> Some (foldl (\<lambda>m x. max m (co_position x)) (co_position c) cs))"

text \<open>The first query asks for a single value of all positions, which raises for two rows.\<close>

definition get_max_enabled_position :: "'p shop_db_scheme \<Rightarrow> exn + int" where
  "get_max_enabled_position d =
     (case filter co_enabled (sd_countries d) of
        [] \<Rightarrow> Inr (- 1)
      | [c] \<Rightarrow> Inr (co_position c)
      | _ \<Rightarrow> Inl (OtherError ''MultipleResultsFound''))"

definition put_country :: "country \<Rightarrow> 'p shop_db_scheme \<Rightarrow> 'p shop_db_scheme" where
  "put_country c d = d\<lparr>sd_countries := upsert co_code c (sd_countries d)\<rparr>"

definition place_country :: "string \<times> int \<Rightarrow> ('p shop_db_scheme session, country option) prog" where
  "place_country entry =
     bindP (query (\<lambda>d. country_by_code d (fst entry))) (\<lambda>found.
       case found of
         Some c \<Rightarrow> if co_enabled c
             then seqP (on_db (put_country (c\<lparr>co_position := snd entry\<rparr>))) (ret (Some (c\<lparr>co_position := snd entry\<rparr>)))
             else ret None
       | None \<Rightarrow> ret None)"

definition numbered :: "'a list \<Rightarrow> ('a \<times> int) list" where
  "numbered xs = zip xs (map int [0..<length xs])"

definition update_positions :: "driver \<Rightarrow> string list \<Rightarrow> ('p shop_db_scheme session, country list) prog" where
  "update_positions drv code_order =
     bindP (mapP place_country (numbered code_order)) (\<lambda>placed.
       seqP (commit drv) (ret (List.map_filter (\<lambda>c. c) placed)))"

section \<open>The routes\<close>

definition countries_answer :: "('p shop_db_scheme \<Rightarrow> country list) \<Rightarrow> 'p shop_view" where
  "countries_answer rows g =
     bindP (query rows) (\<lambda>cs. ret (answer 200 [(''countries'', JList (map (\<lambda>c. JObj (country_dict c)) cs))]))"

definition list_countries :: "'p shop_view" where
  "list_countries = countries_answer find_all_ordered"

definition list_enabled_countries :: "'p shop_view" where
  "list_enabled_countries = countries_answer find_enabled"

definition list_disabled_countries :: "'p shop_view" where
  "list_disabled_countries = countries_answer find_disabled"

definition get_countries :: "'p shop_view" where
  "get_countries g =
     bindP (query find_enabled) (\<lambda>cs. ret (answer 200 [(''countries'', JList (map (\<lambda>c. JObj (public_country c)) cs))]))"

definition country_not_found :: "string \<Rightarrow> response" where
  "country_not_found c = error_answer 404 (''Country '' @ quoted c @ '' not found'')"

text \<open>\<open>(max_pos or -1) + 1\<close>: a greatest position of 0 counts as none.\<close>

definition next_position :: "'p shop_db_scheme \<Rightarrow> int" where
  "next_position d =
     (case max_position (filter co_enabled (sd_countries d)) of
        None \<Rightarrow> 0 | Some p \<Rightarrow> (if p = 0 then - 1 else p) + 1)"

definition enable_country :: "driver \<Rightarrow> string \<Rightarrow> 'p shop_view" where
  "enable_country drv c g =
     bindP (query (\<lambda>d. country_by_code d c)) (\<lambda>found.
       case found of
         None \<Rightarrow> ret (country_not_found c)
       | Some row \<Rightarrow>
           if co_enabled row then ret (answer 200 (country_dict row))
           else
             bindP (query next_position) (\<lambda>p.
             let row' = row\<lparr>co_enabled := True, co_position := p\<rparr> in
             seqP (on_db (put_country row')) (seqP (commit drv) (ret (answer 200 (country_dict row'))))))"

definition disable_country :: "driver \<Rightarrow> string \<Rightarrow> 'p shop_view" where
  "disable_country drv c g =
     bindP (query (\<lambda>d. country_by_code d c)) (\<lambda>found.
       case found of
         None \<Rightarrow> ret (country_not_found c)
       | Some row \<Rightarrow>
           let row' = row\<lparr>co_enabled := False, co_position := 999\<rparr> in
           seqP (on_db (put_country row')) (seqP (commit drv) (ret (answer 200 (country_dict row')))))"

text \<open>A code that is not a string has no \<open>upper\<close>.\<close>

definition place_json :: "json \<times> int \<Rightarrow> ('p shop_db_scheme session, unit) prog" where
  "place_json entry =
     (case fst entry of
        JStr c \<Rightarrow> bindP (place_country (c, snd entry)) (\<lambda>_. ret ())
      | _ \<Rightarrow> raise (OtherError ''object has no attribute upper''))"

definition reorder_countries :: "driver \<Rightarrow> json_dict \<Rightarrow> 'p shop_view" where
  "reorder_countries drv data g =
     (let codes = jget_or data ''codes'' (JList []) in
      if \<not> jtrue codes then ret (error_answer 400 ''codes list required'')
      else case codes of
          JList cs \<Rightarrow> seqP (for_each place_json (numbered cs)) (seqP (commit drv) (list_enabled_countries g))
        | _ \<Rightarrow> ret (error_answer 400 ''codes must be a list''))"

section \<open>Export and import\<close>

definition country_row :: "country \<Rightarrow> json" where
  "country_row c = JObj [(''code'', JStr (co_code c)), (''name'', JStr (co_name c)),
     (''is_enabled'', JBool (co_enabled c)), (''position'', JInt (co_position c))]"

definition export_countries :: "'p shop_db_scheme \<Rightarrow> json_dict" where
  "export_countries d =
     [(''vbwd_export'', JStr ''countries''), (''version'', JInt 1),
      (''countries'', JList (map country_row (find_all_ordered d)))]"

text \<open>The checks of one row; a position that is not an integer is replaced.\<close>

record country_values =
  cv_code :: string
  cv_name :: string
  cv_enabled :: bool
  cv_position :: json

definition position_value :: "bool \<Rightarrow> json \<Rightarrow> json" where
  "position_value enabled v =
     (case v of JInt i \<Rightarrow> v | JBool b \<Rightarrow> v | _ \<Rightarrow> JInt (if enabled then 0 else 999))"

definition parse_country :: "nat \<Rightarrow> json \<Rightarrow> exn + country_values" where
  "parse_country index row =
     (let at = ''countries['' @ str_nat index @ '']'' in
      case row of
        JObj r \<Rightarrow>
          (case json_text (jget r ''code'') of
             None \<Rightarrow> Inl (ValueError (at @ '' missing '' @ quoted ''code''))
           | Some c \<Rightarrow>
               if str_strip c = [] then Inl (ValueError (at @ '' missing '' @ quoted ''code''))
               else (case json_text (jget r ''name'') of
                   None \<Rightarrow> Inl (ValueError (at @ '' missing '' @ quoted ''name''))
                 | Some n \<Rightarrow>
                     if str_strip n = [] then Inl (ValueError (at @ '' missing '' @ quoted ''name''))
                     else let enabled = jtrue (jget_or r ''is_enabled'' (JBool False)) in
                       Inr \<lparr>cv_code = c, cv_name = n, cv_enabled = enabled,
                         cv_position = position_value enabled (jget r ''position'')\<rparr>))
      | _ \<Rightarrow> Inl (ValueError (at @ '' must be an object'')))"

text \<open>
  The update is keyed by the code as given, the lookup before it by its upper case. A position
  that is a boolean is refused by the database.
\<close>

definition write_country :: "country_values \<Rightarrow> int \<Rightarrow> country \<Rightarrow> country" where
  "write_country v p c = c\<lparr>co_name := cv_name v, co_enabled := cv_enabled v, co_position := p\<rparr>"

definition import_country ::
  "driver \<Rightarrow> (nat \<Rightarrow> uuid) \<Rightarrow> nat \<times> nat \<Rightarrow> nat \<times> json \<Rightarrow> ('p shop_db_scheme session, nat \<times> nat) prog" where
  "import_country drv mint counts entry =
     (case parse_country (fst entry) (snd entry) of
        Inl e \<Rightarrow> raise e
      | Inr v \<Rightarrow>
          (case cv_position v of
             JInt p \<Rightarrow>
               bindP (query (\<lambda>d. country_by_code d (cv_code v))) (\<lambda>existing.
                 if existing \<noteq> None
                 then seqP (on_db (\<lambda>d. d\<lparr>sd_countries :=
                     map (\<lambda>c. if co_code c = cv_code v then write_country v p c else c) (sd_countries d)\<rparr>))
                   (ret (fst counts, Suc (snd counts)))
                 else seqP (on_db (\<lambda>d. d\<lparr>sd_countries := sd_countries d @
                     [\<lparr>co_id = mint (fst entry), co_code = cv_code v, co_name = cv_name v,
                       co_enabled = cv_enabled v, co_position = p\<rparr>]\<rparr>))
                   (ret (Suc (fst counts), snd counts)))
           | _ \<Rightarrow> seqP (db_call drv) (raise (DatabaseError ''position is of type integer''))))"

text \<open>Codes are unique and of at most two characters, names of at most a hundred, positions of four bytes.\<close>

definition countries_ok :: "'p shop_db_scheme \<Rightarrow> bool" where
  "countries_ok d \<longleftrightarrow> distinct (map co_code (sd_countries d)) \<and>
     list_all (\<lambda>c. length (co_code c) \<le> 2 \<and> length (co_name c) \<le> 100 \<and>
       - (2 ^ 31) \<le> co_position c \<and> co_position c < 2 ^ 31) (sd_countries d)"

definition indexed :: "'a list \<Rightarrow> (nat \<times> 'a) list" where
  "indexed xs = zip [0..<length xs] xs"

definition import_countries ::
  "driver \<Rightarrow> (nat \<Rightarrow> uuid) \<Rightarrow> json \<Rightarrow> ('p shop_db_scheme session, nat \<times> nat) prog" where
  "import_countries drv mint payload =
     (case payload of
        JObj data \<Rightarrow>
          if jget data ''vbwd_export'' \<noteq> JNull \<and> jget data ''vbwd_export'' \<noteq> JStr ''countries''
          then raise (ValueError (''unexpected export kind '' @ quoted (jstr (jget data ''vbwd_export'')) @
            '', expected '' @ quoted ''countries''))
          else (case jget data ''countries'' of
              JList rows \<Rightarrow>
                bindP (foldP (import_country drv mint) (0, 0) (indexed rows)) (\<lambda>counts.
                  seqP (commit_or_rollback drv countries_ok) (ret counts))
            | _ \<Rightarrow> raise (ValueError (quoted ''countries'' @ '' must be a list'')))
      | _ \<Rightarrow> raise (ValueError ''payload must be a JSON object''))"

section \<open>The seeder\<close>

definition enabled_codes :: "string list" where
  "enabled_codes = [''DE'', ''AT'', ''CH'', ''FR'', ''IT'', ''PL'', ''ES'', ''TH'']"

definition country_catalog :: "(string \<times> string) list" where
  "country_catalog =
     [(''AT'', ''Austria''), (''BE'', ''Belgium''), (''BG'', ''Bulgaria''), (''HR'', ''Croatia''),
      (''CY'', ''Cyprus''), (''CZ'', ''Czechia''), (''DK'', ''Denmark''), (''EE'', ''Estonia''),
      (''FI'', ''Finland''), (''FR'', ''France''), (''DE'', ''Germany''), (''GR'', ''Greece''),
      (''HU'', ''Hungary''), (''IE'', ''Ireland''), (''IT'', ''Italy''), (''LV'', ''Latvia''),
      (''LT'', ''Lithuania''), (''LU'', ''Luxembourg''), (''MT'', ''Malta''), (''NL'', ''Netherlands''),
      (''PL'', ''Poland''), (''PT'', ''Portugal''), (''RO'', ''Romania''), (''SK'', ''Slovakia''),
      (''SI'', ''Slovenia''), (''ES'', ''Spain''), (''SE'', ''Sweden''), (''CH'', ''Switzerland''),
      (''GB'', ''United Kingdom''), (''NO'', ''Norway''), (''IS'', ''Iceland''), (''LI'', ''Liechtenstein''),
      (''US'', ''United States''), (''CA'', ''Canada''), (''MX'', ''Mexico''), (''BR'', ''Brazil''),
      (''AR'', ''Argentina''), (''CL'', ''Chile''), (''CO'', ''Colombia''), (''AU'', ''Australia''),
      (''NZ'', ''New Zealand''), (''JP'', ''Japan''), (''KR'', ''South Korea''), (''CN'', ''China''),
      (''TW'', ''Taiwan''), (''SG'', ''Singapore''), (''TH'', ''Thailand''), (''IN'', ''India''),
      (''ID'', ''Indonesia''), (''MY'', ''Malaysia''), (''PH'', ''Philippines''), (''VN'', ''Vietnam''),
      (''IL'', ''Israel''), (''AE'', ''United Arab Emirates''), (''SA'', ''Saudi Arabia''), (''TR'', ''Turkey''),
      (''ZA'', ''South Africa''), (''NG'', ''Nigeria''), (''KE'', ''Kenya''), (''EG'', ''Egypt''),
      (''MA'', ''Morocco''), (''UA'', ''Ukraine''), (''RS'', ''Serbia''), (''BA'', ''Bosnia''),
      (''ME'', ''Montenegro''), (''MK'', ''North Macedonia''), (''AL'', ''Albania''), (''RU'', ''Russia''),
      (''BY'', ''Belarus''), (''MD'', ''Moldova''), (''GE'', ''Georgia'')]"

record country_seed =
  cs_created :: nat
  cs_enabled :: nat

definition seed_country ::
  "(nat \<Rightarrow> uuid) \<Rightarrow> country list \<times> country_seed \<Rightarrow> string \<times> string \<Rightarrow> country list \<times> country_seed" where
  "seed_country mint acc entry =
     (case acc of (rows, r) \<Rightarrow>
        if fst entry \<in> co_code ` set rows then acc
        else let enabled = fst entry \<in> set enabled_codes in
          (rows @ [\<lparr>co_id = mint (cs_created r), co_code = fst entry, co_name = snd entry, co_enabled = enabled,
             co_position = (if enabled then int (cs_enabled r) else 999)\<rparr>],
           \<lparr>cs_created = Suc (cs_created r), cs_enabled = (if enabled then Suc (cs_enabled r) else cs_enabled r)\<rparr>))"

definition seed_countries :: "driver \<Rightarrow> (nat \<Rightarrow> uuid) \<Rightarrow> ('p shop_db_scheme session, country_seed) prog" where
  "seed_countries drv mint =
     bindP (query (\<lambda>d. foldl (seed_country mint) (sd_countries d, \<lparr>cs_created = 0, cs_enabled = 0\<rparr>) country_catalog))
       (\<lambda>(rows, r). seqP (on_db (\<lambda>d. d\<lparr>sd_countries := rows\<rparr>)) (seqP (commit drv) (ret r)))"

end
