(* ===== verification/CountryFlow.thy ===== *)
theory CountryFlow
  imports Countries
begin

text \<open>
  Properties of the countries: a catalogue that is exported and imported elsewhere is the same
  catalogue, importing it again changes nothing, seeding only adds, and reordering gives the
  order that was asked for.
\<close>

section \<open>The order of a listing\<close>

definition place :: "country \<Rightarrow> int \<times> string" where
  "place c = (co_position c, co_name c)"

definition ordered :: "(int \<times> string) list \<Rightarrow> bool" where
  "ordered ps \<longleftrightarrow> sorted (map fst ps) \<and> (\<forall>k. sorted (map snd (filter (\<lambda>p. fst p = k) ps)))"

lemma ordered_rows:
  "ordered (map place rows) \<longleftrightarrow> sorted (map co_position rows) \<and>
     (\<forall>k. sorted (map co_name (filter (\<lambda>c. co_position c = k) rows)))"
  by (simp add: ordered_def place_def filter_map o_def)

lemma by_position_ordered: "ordered (map place (by_position rows))"
proof -
  have "filter (\<lambda>c. co_position c = k) (by_position rows) = sort_key co_name (filter (\<lambda>c. co_position c = k) rows)" for k
  proof -
    have "filter (\<lambda>c. co_position c = k) (by_position rows) = filter (\<lambda>c. co_position c = k) (sort_key co_name rows)"
      unfolding by_position_def by_text_def by (rule sort_key_stable)
    then show ?thesis by (simp only: filter_sort)
  qed
  then show ?thesis by (simp add: ordered_rows by_position_def)
qed

lemma by_position_id:
  assumes "ordered (map place rows)" shows "by_position rows = rows"
  unfolding by_position_def by_text_def
proof (rule properties_for_sort_key)
  fix c assume "c \<in> set rows"
  have "sorted (map co_name (filter (\<lambda>x. co_position c = co_position x) rows))"
    using assms unfolding ordered_rows by (simp add: eq_commute [of "co_position c"])
  then show "filter (\<lambda>x. co_position c = co_position x) rows = filter (\<lambda>x. co_position c = co_position x) (sort_key co_name rows)"
    by (simp add: filter_sort sort_key_id_if_sorted)
qed (use assms in \<open>simp_all add: ordered_rows\<close>)

lemma by_position_set [simp]: "set (by_position rows) = set rows"
  by (simp add: by_position_def)

lemma by_position_distinct [simp]: "distinct (map f (by_position rows)) = distinct (map f rows)"
proof -
  have "mset (map f (by_position rows)) = mset (map f rows)" by (simp add: by_position_def by_text_def)
  then show ?thesis by (rule mset_eq_imp_distinct_iff)
qed

lemma all_ordered_set [simp]: "set (find_all_ordered d) = set (sd_countries d)"
  by (auto simp: find_all_ordered_def find_enabled_def)

lemma all_ordered_distinct:
  assumes "distinct (map co_code (sd_countries d))" shows "distinct (map co_code (find_all_ordered d))"
proof -
  have "inj_on co_code (set (sd_countries d))" using assms by (simp add: distinct_map)
  then have "co_code ` set (filter co_enabled (sd_countries d)) \<inter> co_code ` set (filter (\<lambda>c. \<not> co_enabled c) (sd_countries d)) = {}"
    by (auto simp: inj_on_def)
  then show ?thesis using assms by (simp add: find_all_ordered_def find_enabled_def distinct_map_filter)
qed

section \<open>Importing what was exported\<close>

text \<open>A country that an export can carry: its code is in capitals, code and name are not blank.\<close>

definition portable :: "country \<Rightarrow> bool" where
  "portable c \<longleftrightarrow> str_upper (co_code c) = co_code c \<and> str_strip (co_code c) \<noteq> [] \<and> str_strip (co_name c) \<noteq> []"

lemma parse_exported:
  assumes "portable c"
  shows "parse_country i (country_row c) = Inr \<lparr>cv_code = co_code c, cv_name = co_name c,
    cv_enabled = co_enabled c, cv_position = JInt (co_position c)\<rparr>"
  using assms by (simp add: parse_country_def country_row_def portable_def jget_def jget_or_def json_text_def position_value_def)

definition imported :: "(nat \<Rightarrow> uuid) \<Rightarrow> nat \<times> country \<Rightarrow> country" where
  "imported mint ic = (snd ic)\<lparr>co_id := mint (fst ic)\<rparr>"

text \<open>Rows with codes that are new are appended.\<close>

lemma import_new:
  assumes "\<forall>ic \<in> set ics. portable (snd ic)" and "distinct (map (co_code \<circ> snd) ics)"
    and "co_code ` set (sd_countries (pending s)) \<inter> (co_code \<circ> snd) ` set ics = {}"
  shows "foldP (import_country drv mint) (n, m) (map (\<lambda>ic. (fst ic, country_row (snd ic))) ics) s =
    (Inr (n + length ics, m), s\<lparr>pending := (pending s)\<lparr>sd_countries := sd_countries (pending s) @ map (imported mint) ics\<rparr>\<rparr>)"
  using assms
proof (induction ics arbitrary: s n)
  case (Cons ic ics)
  let ?d = "pending s" and ?c = "snd ic"
  let ?s = "s\<lparr>pending := ?d\<lparr>sd_countries := sd_countries ?d @ [imported mint ic]\<rparr>\<rparr>"
  from Cons.prems(1) have p: "portable ?c" by simp
  then have "country_by_code ?d (co_code ?c) = None"
    using Cons.prems(3) by (auto simp: country_by_code_def portable_def find_row_None)
  moreover have "imported mint ic = \<lparr>co_id = mint (fst ic), co_code = co_code ?c, co_name = co_name ?c,
      co_enabled = co_enabled ?c, co_position = co_position ?c\<rparr>"
    by (simp add: imported_def)
  ultimately have "import_country drv mint (n, m) (fst ic, country_row ?c) s = (Inr (Suc n, m), ?s)"
    by (simp add: import_country_def parse_exported [OF p])
  moreover have "foldP (import_country drv mint) (Suc n, m) (map (\<lambda>ic. (fst ic, country_row (snd ic))) ics) ?s =
      (Inr (Suc n + length ics, m), ?s\<lparr>pending := (pending ?s)\<lparr>sd_countries := sd_countries (pending ?s) @ map (imported mint) ics\<rparr>\<rparr>)"
    by (rule Cons.IH) (use Cons.prems in \<open>auto simp: imported_def\<close>)
  ultimately show ?case by (simp add: bindP_def)
qed simp

text \<open>Rows that are there as they are exported stay as they are.\<close>

lemma import_same:
  assumes "\<forall>ic \<in> set ics. portable (snd ic) \<and> snd ic \<in> set (sd_countries (pending s))"
    and "distinct (map co_code (sd_countries (pending s)))"
  shows "foldP (import_country drv mint) (n, m) (map (\<lambda>ic. (fst ic, country_row (snd ic))) ics) s = (Inr (n, m + length ics), s)"
  using assms
proof (induction ics arbitrary: n m)
  case (Cons ic ics)
  let ?d = "pending s" and ?c = "snd ic"
  from Cons.prems(1) have p: "portable ?c" and c: "?c \<in> set (sd_countries ?d)" by simp_all
  have "country_by_code ?d (co_code ?c) = Some ?c"
    using find_row_mem [OF Cons.prems(2) c] p by (simp add: country_by_code_def portable_def)
  moreover have "map (\<lambda>x. if co_code x = co_code ?c then write_country \<lparr>cv_code = co_code ?c, cv_name = co_name ?c,
      cv_enabled = co_enabled ?c, cv_position = JInt (co_position ?c)\<rparr> (co_position ?c) x else x) (sd_countries ?d) = sd_countries ?d"
  proof (rule map_idI)
    fix x assume x: "x \<in> set (sd_countries ?d)"
    have "x = ?c" if "co_code x = co_code ?c"
      using Cons.prems(2) x c that by (auto simp: distinct_map inj_on_def)
    then show "(if co_code x = co_code ?c then write_country \<lparr>cv_code = co_code ?c, cv_name = co_name ?c,
      cv_enabled = co_enabled ?c, cv_position = JInt (co_position ?c)\<rparr> (co_position ?c) x else x) = x"
      by (auto simp: write_country_def)
  qed
  ultimately have "import_country drv mint (n, m) (fst ic, country_row ?c) s = (Inr (n, Suc m), s)"
    by (simp add: import_country_def parse_exported [OF p])
  with Cons show ?case by (simp add: bindP_def)
qed simp

lemma indexed_map: "indexed (map f xs) = map (\<lambda>ix. (fst ix, f (snd ix))) (indexed xs)"
  by (simp add: indexed_def zip_map2 case_prod_beta)

lemma import_export:
  "import_countries drv mint (JObj (export_countries d)) =
     bindP (foldP (import_country drv mint) (0, 0) (map (\<lambda>ic. (fst ic, country_row (snd ic))) (indexed (find_all_ordered d))))
       (\<lambda>counts. seqP (commit_or_rollback drv countries_ok) (ret counts))"
  by (simp add: import_countries_def export_countries_def jget_def indexed_map split: json.split)

lemma snd_indexed: "map snd (indexed xs) = xs" "length (indexed xs) = length xs"
  by (simp_all add: indexed_def)

lemma indexed_facts:
  "set (map snd (indexed xs)) = set xs" "map (f \<circ> snd) (indexed xs) = map f xs"
  by (simp_all add: snd_indexed map_map [symmetric])

text \<open>The imported rows export as the rows they come from.\<close>

lemma imported_order:
  fixes d :: "'p shop_db_scheme" and d' :: "'q shop_db_scheme"
  assumes "sd_countries d' = map (imported mint) (indexed (find_all_ordered d))"
  shows "map country_row (find_all_ordered d') = map country_row (find_all_ordered d)"
proof -
  let ?E = "find_enabled d" and ?D = "by_position (filter (\<lambda>c. \<not> co_enabled c) (sd_countries d))"
  let ?same = "\<lambda>c. (co_code c, co_name c, co_enabled c, co_position c)"
  have rows: "map ?same (sd_countries d') = map ?same (?E @ ?D)"
  proof -
    have "map ?same (map (imported mint) (indexed xs)) = map ?same (map snd (indexed xs))" for xs
      by (simp add: imported_def)
    then show ?thesis unfolding assms find_all_ordered_def by (simp only: snd_indexed)
  qed
  have en: "map ?same (filter co_enabled (sd_countries d')) = map ?same ?E"
    and dis: "map ?same (filter (\<lambda>c. \<not> co_enabled c) (sd_countries d')) = map ?same ?D"
  proof -
    have E: "map ?same (filter co_enabled xs) = filter (\<lambda>(c, n, e, p). e) (map ?same xs)"
      and D: "map ?same (filter (\<lambda>c. \<not> co_enabled c) xs) = filter (\<lambda>(c, n, e, p). \<not> e) (map ?same xs)" for xs
      by (simp_all add: filter_map o_def)
    have "filter co_enabled (?E @ ?D) = ?E" "filter (\<lambda>c. \<not> co_enabled c) (?E @ ?D) = ?D"
      by (simp_all add: find_enabled_def filter_id_conv filter_empty_conv)
    then show "map ?same (filter co_enabled (sd_countries d')) = map ?same ?E"
      "map ?same (filter (\<lambda>c. \<not> co_enabled c) (sd_countries d')) = map ?same ?D"
      using E [of "sd_countries d'"] E [of "?E @ ?D"] D [of "sd_countries d'"] D [of "?E @ ?D"]
      by (simp_all only: rows)
  qed
  have place: "map place xs = map (\<lambda>(c, n, e, p). (p, n)) (map ?same xs)" for xs by (simp add: place_def)
  have "by_position (filter co_enabled (sd_countries d')) = filter co_enabled (sd_countries d')"
    by (rule by_position_id) (simp only: place en, simp only: place [symmetric] find_enabled_def by_position_ordered)
  moreover have "by_position (filter (\<lambda>c. \<not> co_enabled c) (sd_countries d')) = filter (\<lambda>c. \<not> co_enabled c) (sd_countries d')"
    by (rule by_position_id) (simp only: place dis, simp only: place [symmetric] by_position_ordered)
  ultimately have "map ?same (find_all_ordered d') = map ?same (find_all_ordered d)"
    by (simp only: find_all_ordered_def map_append find_enabled_def [of d'] en dis)
  moreover have row: "map country_row xs = map (\<lambda>(c, n, e, p). country_row \<lparr>co_id = [], co_code = c, co_name = n,
      co_enabled = e, co_position = p\<rparr>) (map ?same xs)" for xs
    by (simp add: country_row_def)
  ultimately show ?thesis unfolding row [of "find_all_ordered d'"] row [of "find_all_ordered d"] by simp
qed

lemma countries_ok_imported:
  assumes "countries_ok d" and "sd_countries d' = map (imported mint) (indexed (find_all_ordered d))"
  shows "countries_ok d'"
proof -
  have codes: "map co_code (sd_countries d') = map co_code (find_all_ordered d)"
    using indexed_facts(2) [of co_code "find_all_ordered d"] unfolding assms(2) by (simp add: imported_def o_def)
  have "length (co_code c) \<le> 2 \<and> length (co_name c) \<le> 100 \<and> - (2 ^ 31) \<le> co_position c \<and> co_position c < 2 ^ 31"
    if "c \<in> set (sd_countries d')" for c
  proof -
    from that obtain ic where "ic \<in> set (indexed (find_all_ordered d))" "c = imported mint ic"
      unfolding assms(2) by auto
    moreover from this have "snd ic \<in> set (sd_countries d)"
      using indexed_facts(1) [of "find_all_ordered d"] by force
    ultimately show ?thesis using assms(1) by (simp add: countries_ok_def list_all_iff imported_def)
  qed
  moreover have "distinct (map co_code (sd_countries d'))"
    unfolding codes using assms(1) by (intro all_ordered_distinct) (simp add: countries_ok_def)
  ultimately show ?thesis by (simp add: countries_ok_def list_all_iff)
qed

text \<open>
  C27. An exported catalogue of countries can be imported. When the codes are in capitals and no
  code or name is blank, importing the export of one instance into another without countries,
  with a database that works, creates every country, and the other instance then exports
  exactly the same envelope; importing it once more updates every country and changes nothing.
\<close>

theorem countries_roundtrip:
  assumes "countries_ok d" and "\<And>c. c \<in> set (sd_countries d) \<Longrightarrow> portable c"
    and "sd_countries (pending s) = []" and "drv (calls s) = None" and "drv (Suc (calls s)) = None"
  shows "\<exists>s' s''. import_countries drv mint (JObj (export_countries d)) s = (Inr (length (sd_countries d), 0), s') \<and>
    export_countries (durable s') = export_countries d \<and>
    import_countries drv mint (JObj (export_countries d)) s' = (Inr (0, length (sd_countries d)), s'') \<and>
    durable s'' = durable s'"
proof -
  let ?rows = "find_all_ordered d"
  let ?ics = "indexed ?rows"
  let ?d = "(pending s)\<lparr>sd_countries := map (imported mint) ?ics\<rparr>"
  let ?s = "s\<lparr>pending := ?d, calls := Suc (calls s), durable := ?d\<rparr>"
  have len: "length ?ics = length (sd_countries d)"
    using arg_cong [where f = length, OF filter_append [of co_enabled]] 
    by (simp add: indexed_def find_all_ordered_def find_enabled_def by_position_def by_text_def sum_length_filter_compl)
  have port: "\<forall>ic \<in> set ?ics. portable (snd ic)"
    using assms(2) indexed_facts(1) [of ?rows] by force
  have dist: "distinct (map co_code ?rows)"
    using assms(1) by (intro all_ordered_distinct) (simp add: countries_ok_def)
  have ok: "countries_ok ?d" by (rule countries_ok_imported [where mint = mint, OF assms(1)]) simp
  have run: "foldP (import_country drv mint) (0, 0) (map (\<lambda>ic. (fst ic, country_row (snd ic))) ?ics) s =
      (Inr (0 + length ?ics, 0), s\<lparr>pending := (pending s)\<lparr>sd_countries := sd_countries (pending s) @ map (imported mint) ?ics\<rparr>\<rparr>)"
    by (rule import_new) (use port dist assms(3) in \<open>simp_all add: indexed_facts\<close>)
  have first: "import_countries drv mint (JObj (export_countries d)) s = (Inr (length (sd_countries d), 0), ?s)"
    using run assms(3,4) ok by (simp add: import_export bindP_def seqP_def commit_or_rollback_run len)
  have rows': "map country_row (find_all_ordered ?d) = map country_row ?rows"
    by (rule imported_order [where mint = mint]) simp
  then have exp: "export_countries (durable ?s) = export_countries d" by (simp add: export_countries_def)
  have port': "\<forall>ic \<in> set (indexed (find_all_ordered ?d)). portable (snd ic) \<and> snd ic \<in> set (sd_countries (pending ?s))"
  proof
    fix ic assume "ic \<in> set (indexed (find_all_ordered ?d))"
    then have mem: "snd ic \<in> set (sd_countries ?d)" using indexed_facts(1) [of "find_all_ordered ?d"] by force
    then obtain jc where "jc \<in> set ?ics" "snd ic = imported mint jc" by auto
    with port have "portable (snd ic)" by (simp add: portable_def imported_def)
    with mem show "portable (snd ic) \<and> snd ic \<in> set (sd_countries (pending ?s))" by simp
  qed
  have "foldP (import_country drv mint) (0, 0) (map (\<lambda>ic. (fst ic, country_row (snd ic))) (indexed (find_all_ordered ?d))) ?s =
      (Inr (0, 0 + length (indexed (find_all_ordered ?d))), ?s)"
    by (rule import_same [OF port']) (use ok in \<open>simp add: countries_ok_def\<close>)
  moreover have "length (indexed (find_all_ordered ?d)) = length (sd_countries d)"
    using arg_cong [where f = length, OF rows'] len by (simp add: snd_indexed)
  moreover have "drv (calls ?s) = None" using assms(5) by simp
  ultimately have "import_countries drv mint (JObj (export_countries ?d)) ?s =
      (Inr (0, length (sd_countries d)), ?s\<lparr>calls := Suc (calls ?s), durable := pending ?s\<rparr>)"
    using ok by (simp add: import_export bindP_def seqP_def commit_or_rollback_run)
  with first exp show ?thesis by auto
qed

definition demo_countries :: shop_db where
  "demo_countries = empty_shop\<lparr>sd_countries :=
     [\<lparr>co_id = ''1'', co_code = ''US'', co_name = ''United States'', co_enabled = False, co_position = 999\<rparr>,
      \<lparr>co_id = ''2'', co_code = ''DE'', co_name = ''Germany'', co_enabled = True, co_position = 1\<rparr>,
      \<lparr>co_id = ''3'', co_code = ''AT'', co_name = ''Austria'', co_enabled = True, co_position = 0\<rparr>]\<rparr>"

theorem countries_roundtrip_witness:
  "let s = open_session empty_shop; payload = JObj (export_countries demo_countries) in
   \<exists>s' s''. import_countries (\<lambda>_. None) str_nat payload s = (Inr (3, 0), s') \<and>
     export_countries (durable s') = export_countries demo_countries \<and>
     import_countries (\<lambda>_. None) str_nat payload s' = (Inr (0, 3), s'') \<and> durable s'' = durable s'"
proof -
  have "countries_ok demo_countries" "\<forall>c \<in> set (sd_countries demo_countries). portable c"
    "length (sd_countries demo_countries) = 3" "sd_countries empty_shop = []"
    by code_simp+
  with countries_roundtrip [of demo_countries "open_session empty_shop" "\<lambda>_. None" str_nat] show ?thesis
    by (simp add: Let_def)
qed

text \<open>
  A code in small letters is not found again under its capitals: the second import of the same
  envelope creates it once more, and the database refuses the duplicate.
\<close>

lemma lower_case_import_twice:
  "let payload = JObj [(''countries'', JList [JObj [(''code'', JStr ''de''), (''name'', JStr ''Germany'')]])];
       (r1, s1) = import_countries (\<lambda>_. None) str_nat payload (open_session empty_shop);
       (r2, s2) = import_countries (\<lambda>_. None) str_nat payload s1
   in r1 = Inr (1, 0) \<and> r2 = Inl (DatabaseError ''constraint violated'')"
  by code_simp

text \<open>The second country that is enabled shares the position of the first.\<close>

lemma enabled_share_position:
  "let d = empty_shop\<lparr>sd_countries := map (\<lambda>(c, n). \<lparr>co_id = c, co_code = c, co_name = n, co_enabled = False,
         co_position = 999\<rparr>) [(''DE'', ''Germany''), (''AT'', ''Austria'')]\<rparr>;
       s1 = snd (enable_country (\<lambda>_. None) ''DE'' empty_g (open_session d));
       s2 = snd (enable_country (\<lambda>_. None) ''AT'' empty_g s1)
   in map (\<lambda>c. (co_code c, co_position c)) (sd_countries (durable s2)) = [(''DE'', 0), (''AT'', 0)]"
  by code_simp

section \<open>Seeding\<close>

lemma seed_keeps:
  "foldl (seed_country mint) (rows, r) entries = (rows', r') \<Longrightarrow>
     (\<exists>new. rows' = rows @ new) \<and> fst ` set entries \<subseteq> co_code ` set rows'"
proof (induction entries arbitrary: rows r)
  case (Cons e es)
  obtain rows1 r1 where step: "seed_country mint (rows, r) e = (rows1, r1)" by fastforce
  then have "(\<exists>new. rows1 = rows @ new) \<and> fst e \<in> co_code ` set rows1"
    by (auto simp: seed_country_def Let_def split: if_splits)
  moreover have "foldl (seed_country mint) (rows1, r1) es = (rows', r')" using Cons.prems step by simp
  from Cons.IH [OF this] have "(\<exists>new. rows' = rows1 @ new) \<and> fst ` set es \<subseteq> co_code ` set rows'" .
  ultimately show ?case by auto
qed simp

lemma seed_none:
  "fst ` set entries \<subseteq> co_code ` set rows \<Longrightarrow> foldl (seed_country mint) (rows, r) entries = (rows, r)"
  by (induction entries) (auto simp: seed_country_def)

text \<open>
  Seeding the countries only adds, and once. Whatever countries there are, when the database
  works the seeder keeps every row as it is, in its place, adds what its catalogue has more, and
  a second run creates nothing and leaves the table as it is.
\<close>

theorem country_seeding_once:
  assumes "seed_countries drv mint s = (Inr r, s')" and "seed_countries drv' mint' s' = (Inr r', s'')"
  shows "(\<exists>new. sd_countries (durable s') = sd_countries (pending s) @ new) \<and>
    fst ` set country_catalog \<subseteq> co_code ` set (sd_countries (durable s')) \<and>
    cs_created r' = 0 \<and> sd_countries (durable s'') = sd_countries (durable s')"
proof -
  let ?zero = "\<lparr>cs_created = 0, cs_enabled = 0\<rparr>"
  have run: "\<exists>rows. foldl (seed_country m) (sd_countries (pending t), ?zero) country_catalog = (rows, r) \<and>
      sd_countries (durable t') = rows \<and> pending t' = durable t'"
    if "seed_countries w m t = (Inr r, t')" for w m t r and t' :: "'a shop_db_scheme session"
    using that by (cases "w (calls t)") (auto simp: seed_countries_def bindP_def seqP_def split: prod.splits)
  from run [OF assms(1)] obtain rows where 1: "foldl (seed_country mint) (sd_countries (pending s), ?zero) country_catalog = (rows, r)"
    "sd_countries (durable s') = rows" "pending s' = durable s'" by blast
  from seed_keeps [OF 1(1)] have k: "(\<exists>new. rows = sd_countries (pending s) @ new)" "fst ` set country_catalog \<subseteq> co_code ` set rows"
    by blast+
  from run [OF assms(2)] seed_none [OF k(2), of mint' ?zero] 1(2,3)
  have "sd_countries (durable s'') = rows" "r' = ?zero" by auto
  with k 1(2) show ?thesis by simp
qed

end
