(* ===== verification/Cache.thy ===== *)
theory Cache
  imports Files
begin

text \<open>
  The read-through cache (\<open>vbwd/services/cache/\<close>): its two stores as instances of one contract,
  and \<open>cached_response\<close>. A store maps keys to texts with a time of expiry. The Redis server can
  fail at any call, which the store answers with a miss.
\<close>

section \<open>InMemoryCacheStore\<close>

type_synonym cache_entries = "(string \<times> string \<times> int) list"

record memory_cache =
  mc_enabled :: bool
  mc_entries :: cache_entries

definition new_memory_cache :: "bool \<Rightarrow> memory_cache" where
  "new_memory_cache enabled = \<lparr>mc_enabled = enabled, mc_entries = []\<rparr>"

definition live :: "int \<Rightarrow> string \<Rightarrow> cache_entries \<Rightarrow> string option" where
  "live now key entries =
     (case map_of entries key of
        None \<Rightarrow> None
      | Some (v, expires_at) \<Rightarrow> if expires_at \<le> now then None else Some v)"

definition mem_cache_get :: "int \<Rightarrow> string \<Rightarrow> memory_cache \<Rightarrow> string option \<times> memory_cache" where
  "mem_cache_get now key c =
     (if \<not> mc_enabled c then (None, c)
      else case live now key (mc_entries c) of
          Some v \<Rightarrow> (Some v, c)
        | None \<Rightarrow> (None, c\<lparr>mc_entries := dict_del key (mc_entries c)\<rparr>))"

definition mem_cache_set :: "int \<Rightarrow> string \<Rightarrow> string \<Rightarrow> int \<Rightarrow> memory_cache \<Rightarrow> memory_cache" where
  "mem_cache_set now key v ttl c =
     (if \<not> mc_enabled c then c else c\<lparr>mc_entries := dict_set key (v, now + ttl) (mc_entries c)\<rparr>)"

definition drop_keys :: "(string \<Rightarrow> bool) \<Rightarrow> cache_entries \<Rightarrow> cache_entries" where
  "drop_keys gone entries = filter (\<lambda>e. \<not> gone (fst e)) entries"

definition mem_cache_delete_prefix :: "string \<Rightarrow> memory_cache \<Rightarrow> memory_cache" where
  "mem_cache_delete_prefix p c = c\<lparr>mc_entries := drop_keys (starts_with p) (mc_entries c)\<rparr>"

section \<open>RedisCacheStore\<close>

text \<open>
  The server: its entries, and which of the calls made to it fail. \<open>SET\<close> with an expiry that is
  not positive is an error.
\<close>

record redis_cache =
  rc_enabled :: bool
  rc_namespace :: string
  rc_up :: "nat \<Rightarrow> bool"
  rc_calls :: nat
  rc_entries :: cache_entries

definition rc_next :: "redis_cache \<Rightarrow> redis_cache" where
  "rc_next c = c\<lparr>rc_calls := Suc (rc_calls c)\<rparr>"

definition namespaced :: "redis_cache \<Rightarrow> string \<Rightarrow> string" where
  "namespaced c key = rc_namespace c @ '':'' @ key"

definition redis_get :: "int \<Rightarrow> string \<Rightarrow> redis_cache \<Rightarrow> string option \<times> redis_cache" where
  "redis_get now key c =
     (if \<not> rc_enabled c then (None, c)
      else if rc_up c (rc_calls c) then (live now (namespaced c key) (rc_entries c), rc_next c)
      else (None, rc_next c))"

definition redis_set :: "int \<Rightarrow> string \<Rightarrow> string \<Rightarrow> int \<Rightarrow> redis_cache \<Rightarrow> redis_cache" where
  "redis_set now key v ttl c =
     (if \<not> rc_enabled c then c
      else if rc_up c (rc_calls c) \<and> 0 < ttl
        then (rc_next c)\<lparr>rc_entries := dict_set (namespaced c key) (v, now + ttl) (rc_entries c)\<rparr>
      else rc_next c)"

text \<open>
  \<open>SCAN\<close> with a glob pattern: a star for any text, a question mark for a character. (Classes and
  escapes are left out, no prefix of the program has them.)
\<close>

fun glob_match :: "string \<Rightarrow> string \<Rightarrow> bool" where
  "glob_match [] s = (s = [])"
| "glob_match (p # ps) [] = (p = CHR ''*'' \<and> glob_match ps [])"
| "glob_match (p # ps) (c # cs) =
     (if p = CHR ''*'' then glob_match ps (c # cs) \<or> glob_match (p # ps) cs
      else (p = CHR ''?'' \<or> p = c) \<and> glob_match ps cs)"

text \<open>The keys are scanned, then deleted in a second call when there are any.\<close>

definition redis_delete_prefix :: "string \<Rightarrow> redis_cache \<Rightarrow> redis_cache" where
  "redis_delete_prefix p c =
     (if \<not> rc_enabled c then c
      else let gone = glob_match (namespaced c p @ ''*'') in
        if \<not> rc_up c (rc_calls c) then rc_next c
        else if list_ex (\<lambda>e. gone (fst e)) (rc_entries c) then
          (if rc_up c (Suc (rc_calls c))
           then (rc_next (rc_next c))\<lparr>rc_entries := drop_keys gone (rc_entries c)\<rparr>
           else rc_next (rc_next c))
        else rc_next c)"

section \<open>The process's store\<close>

datatype cache_store =
    Memory memory_cache
  | Redis redis_cache

definition cache_get :: "int \<Rightarrow> string \<Rightarrow> cache_store \<Rightarrow> string option \<times> cache_store" where
  "cache_get now key c =
     (case c of
        Memory m \<Rightarrow> (case mem_cache_get now key m of (v, m') \<Rightarrow> (v, Memory m'))
      | Redis r \<Rightarrow> (case redis_get now key r of (v, r') \<Rightarrow> (v, Redis r')))"

definition cache_set :: "int \<Rightarrow> string \<Rightarrow> string \<Rightarrow> int \<Rightarrow> cache_store \<Rightarrow> cache_store" where
  "cache_set now key v ttl c =
     (case c of Memory m \<Rightarrow> Memory (mem_cache_set now key v ttl m) | Redis r \<Rightarrow> Redis (redis_set now key v ttl r))"

definition cache_delete_prefix :: "string \<Rightarrow> cache_store \<Rightarrow> cache_store" where
  "cache_delete_prefix p c =
     (case c of Memory m \<Rightarrow> Memory (mem_cache_delete_prefix p m) | Redis r \<Rightarrow> Redis (redis_delete_prefix p r))"

text \<open>\<open>redis\<close> is the connection, \<open>None\<close> when it cannot be made.\<close>

definition build_default_store :: "bool \<Rightarrow> redis_cache option \<Rightarrow> cache_store" where
  "build_default_store enabled redis =
     (if \<not> enabled then Memory (new_memory_cache False)
      else case redis of Some r \<Rightarrow> Redis r | None \<Rightarrow> Memory (new_memory_cache True))"

definition resolve_cache_store :: "cache_store option \<Rightarrow> cache_store option \<Rightarrow> cache_store \<Rightarrow> cache_store" where
  "resolve_cache_store override default_store built =
     (case override of Some c \<Rightarrow> c | None \<Rightarrow> (case default_store of Some c \<Rightarrow> c | None \<Rightarrow> built))"

section \<open>The read-through\<close>

text \<open>
  The state of a caller is a world and its cache. A cached text that is not JSON would raise; a
  status that is not 2xx is not cached. Bodies are JSON values here, so that all serialise.
\<close>

record ('w, 'c) cached =
  ca_world :: 'w
  ca_cache :: 'c

definition in_world :: "('w, 'a) prog \<Rightarrow> (('w, 'c) cached, 'a) prog" where
  "in_world m s = (case m (ca_world s) of (r, w) \<Rightarrow> (r, s\<lparr>ca_world := w\<rparr>))"

definition from_cache :: "('c \<Rightarrow> 'a \<times> 'c) \<Rightarrow> (('w, 'c) cached, 'a) prog" where
  "from_cache f s = (case f (ca_cache s) of (v, c) \<Rightarrow> (Inr v, s\<lparr>ca_cache := c\<rparr>))"

definition to_cache :: "('c \<Rightarrow> 'c) \<Rightarrow> (('w, 'c) cached, unit) prog" where
  "to_cache f = modify (\<lambda>s. s\<lparr>ca_cache := f (ca_cache s)\<rparr>)"

definition cached_response ::
  "codec \<Rightarrow> (int \<Rightarrow> string \<Rightarrow> 'c \<Rightarrow> string option \<times> 'c) \<Rightarrow> (int \<Rightarrow> string \<Rightarrow> string \<Rightarrow> int \<Rightarrow> 'c \<Rightarrow> 'c)
     \<Rightarrow> int \<Rightarrow> string \<Rightarrow> int \<Rightarrow> ('w, json \<times> nat) prog \<Rightarrow> (('w, 'c) cached, json \<times> nat) prog" where
  "cached_response cd get put now key ttl producer =
     bindP (from_cache (get now key)) (\<lambda>cached.
       case cached of
         Some t \<Rightarrow> (case cd_loads cd t of
             Some body \<Rightarrow> ret (body, 200) | None \<Rightarrow> raise (ValueError ''JSONDecodeError''))
       | None \<Rightarrow>
           bindP (in_world producer) (\<lambda>(body, status).
             seqP (whenP (200 \<le> status \<and> status < 300) (to_cache (put now key (cd_dumps cd body) ttl)))
               (ret (body, status))))"

section \<open>The contract of a store\<close>

text \<open>
  \<open>held\<close> is what a store can still answer for a key; a store may forget at any time. \<open>works\<close> says
  that the next clearing is not lost.
\<close>

locale cache_contract =
  fixes get :: "int \<Rightarrow> string \<Rightarrow> 'c \<Rightarrow> string option \<times> 'c"
    and put :: "int \<Rightarrow> string \<Rightarrow> string \<Rightarrow> int \<Rightarrow> 'c \<Rightarrow> 'c"
    and clear :: "string \<Rightarrow> 'c \<Rightarrow> 'c"
    and held :: "'c \<Rightarrow> string \<Rightarrow> string option"
    and works :: "'c \<Rightarrow> bool"
  assumes get_held: "get now k c = (Some v, c') \<Longrightarrow> held c k = Some v"
    and get_forgets: "get now k c = (r, c') \<Longrightarrow> held c' k' = Some v \<Longrightarrow> held c k' = Some v"
    and put_adds: "held (put now k v ttl c) k' = Some u \<Longrightarrow> (k' = k \<and> u = v) \<or> held c k' = Some u"
    and clear_forgets: "held (clear p c) k = Some v \<Longrightarrow> held c k = Some v"
    and clear_prefix: "works c \<Longrightarrow> held (clear p c) (p @ k) = None"
begin

text \<open>The cache is fresh when it holds nothing but the given answer for a key.\<close>

definition fresh :: "string \<Rightarrow> string \<Rightarrow> 'c \<Rightarrow> bool" where
  "fresh key answer c \<longleftrightarrow> (\<forall>v. held c key = Some v \<longrightarrow> v = answer)"

lemma fresh_clear: "works c \<Longrightarrow> fresh (p @ k) answer (clear p c)"
  by (simp add: fresh_def clear_prefix)

lemma fresh_get: "fresh key answer c \<Longrightarrow> get now key c = (r, c') \<Longrightarrow> fresh key answer c' \<and> (r = None \<or> r = Some answer)"
  using get_held get_forgets unfolding fresh_def by (cases r) fastforce+

lemma fresh_put: "fresh key answer c \<Longrightarrow> fresh key answer (put now key answer ttl c)"
  unfolding fresh_def using put_adds by blast

text \<open>
  Reading through a fresh cache gives what the producer would give, when it is a success that
  is a function of the world it does not change, and leaves the cache fresh.
\<close>

lemma read_fresh:
  assumes "fresh key (cd_dumps cd body) (ca_cache s)" and "producer (ca_world s) = (Inr (body, 200), ca_world s)"
    and "cd_loads cd (cd_dumps cd body) = Some body"
  shows "\<exists>c. cached_response cd get put now key ttl producer s = (Inr (body, 200), s\<lparr>ca_cache := c\<rparr>) \<and>
    fresh key (cd_dumps cd body) c"
proof -
  obtain r c where g: "get now key (ca_cache s) = (r, c)" by fastforce
  from fresh_get [OF assms(1) g] have "fresh key (cd_dumps cd body) c" "r = None \<or> r = Some (cd_dumps cd body)"
    by simp_all
  then show ?thesis
    using g assms(2,3) fresh_put [of key "cd_dumps cd body" c now ttl]
    by (auto simp: cached_response_def from_cache_def to_cache_def in_world_def bindP_def seqP_def whenP_def)
qed

end

section \<open>Both stores meet it\<close>

lemma live_held: "live now k entries = Some v \<Longrightarrow> map_option fst (map_of entries k) = Some v"
  by (auto simp: live_def split: option.splits if_splits)

lemma map_of_drop [simp]: "map_of (drop_keys gone entries) k = (if gone k then None else map_of entries k)"
  by (induction entries) (auto simp: drop_keys_def)

lemma map_of_dict_del [simp]: "map_of (dict_del k d) k' = (if k' = k then None else map_of d k')"
  by (induction d) (auto simp: dict_del_def)

lemma glob_star: "glob_match ''*'' s"
  by (induction s) auto

lemma glob_skip: "glob_match ps s \<Longrightarrow> glob_match (CHR ''*'' # ps) s"
  by (cases s) auto

lemma glob_prefix: "glob_match (p @ ''*'') (p @ s)"
  by (induction p) (auto simp: glob_star glob_skip)

definition cache_held :: "cache_store \<Rightarrow> string \<Rightarrow> string option" where
  "cache_held c k =
     (case c of
        Memory m \<Rightarrow> if mc_enabled m then map_option fst (map_of (mc_entries m) k) else None
      | Redis r \<Rightarrow> if rc_enabled r then map_option fst (map_of (rc_entries r) (namespaced r k)) else None)"

definition cache_works :: "cache_store \<Rightarrow> bool" where
  "cache_works c = (case c of Memory m \<Rightarrow> True | Redis r \<Rightarrow> rc_up r (rc_calls r) \<and> rc_up r (Suc (rc_calls r)))"

lemmas cache_defs = cache_get_def cache_set_def cache_delete_prefix_def cache_held_def mem_cache_get_def mem_cache_set_def
  mem_cache_delete_prefix_def redis_get_def redis_set_def redis_delete_prefix_def rc_next_def namespaced_def Let_def

interpretation process_cache: cache_contract cache_get cache_set cache_delete_prefix cache_held cache_works
proof unfold_locales
  show "cache_get now k c = (Some v, c') \<Longrightarrow> cache_held c k = Some v" for now k c v c'
    by (auto simp: cache_defs dest: live_held split: cache_store.splits option.splits if_splits)
  show "cache_get now k c = (r, c') \<Longrightarrow> cache_held c' k' = Some v \<Longrightarrow> cache_held c k' = Some v" for now k c r c' k' v
    by (auto simp: cache_defs split: cache_store.splits option.splits if_splits)
  show "cache_held (cache_set now k v ttl c) k' = Some u \<Longrightarrow> (k' = k \<and> u = v) \<or> cache_held c k' = Some u" for now k v ttl c k' u
    by (auto simp: cache_defs split: cache_store.splits option.splits if_splits)
  show "cache_held (cache_delete_prefix p c) k = Some v \<Longrightarrow> cache_held c k = Some v" for p c k v
    by (auto simp: cache_defs split: cache_store.splits option.splits if_splits)
  show "cache_works c \<Longrightarrow> cache_held (cache_delete_prefix p c) (p @ k) = None" for c p k
  proof (cases c)
    case (Memory m)
    then show ?thesis by (auto simp: cache_defs starts_with_iff)
  next
    case (Redis r)
    have gone: "glob_match (namespaced r p @ ''*'') (namespaced r (p @ k))"
      using glob_prefix [of "namespaced r p" k] by (simp add: namespaced_def)
    assume "cache_works c"
    then show ?thesis using Redis gone
    proof (cases "list_ex (\<lambda>e. glob_match (namespaced r p @ ''*'') (fst e)) (rc_entries r)")
      case True
      then show ?thesis using Redis gone \<open>cache_works c\<close> by (simp add: cache_defs cache_works_def)
    next
      case False
      then have "map_of (rc_entries r) (namespaced r (p @ k)) = None"
        using gone by (auto simp: list_ex_iff map_of_eq_None_iff)
      then show ?thesis using Redis False \<open>cache_works c\<close> by (simp add: cache_defs cache_works_def)
    qed
  qed
qed

end
