(* ===== verification/Bundles.thy ===== *)
theory Bundles
  imports Pricing Cache Pages
begin

text \<open>
  Token bundles (\<open>vbwd/models/token_bundle.py\<close>, \<open>repositories/token_bundle_repository.py\<close>): the
  public catalogue, which is read through the cache (\<open>routes/token_bundles.py\<close>), and the admin
  routes, which clear it (\<open>routes/admin/token_bundles.py\<close>). Timestamps are left out.
\<close>

section \<open>TokenBundle and its repository\<close>

definition int_json :: "int option \<Rightarrow> json" where
  "int_json v = (case v of None \<Rightarrow> JNull | Some i \<Rightarrow> JInt i)"

definition bundle_dict :: "token_bundle \<Rightarrow> json_dict" where
  "bundle_dict b =
     [(''id'', JStr (bu_id b)), (''name'', JStr (bu_name b)), (''description'', opt_json (bu_description b)),
      (''token_amount'', JInt (bu_tokens b)), (''price'', JNum (bu_price b)), (''is_active'', JBool (bu_active b)),
      (''sort_order'', int_json (bu_sort b))]"

definition bundle_by_id :: "'p shop_db_scheme \<Rightarrow> uuid \<Rightarrow> token_bundle option" where
  "bundle_by_id d i = find_row bu_id i (sd_bundles d)"

text \<open>\<open>ORDER BY sort_order, name\<close>: a missing order comes last.\<close>

definition by_sort_order :: "token_bundle list \<Rightarrow> token_bundle list" where
  "by_sort_order rows =
     sort_key (\<lambda>b. the (bu_sort b)) (filter (\<lambda>b. bu_sort b \<noteq> None) (by_text bu_name rows)) @
     filter (\<lambda>b. bu_sort b = None) (by_text bu_name rows)"

definition find_active_bundles :: "'p shop_db_scheme \<Rightarrow> token_bundle list" where
  "find_active_bundles d = by_sort_order (filter bu_active (sd_bundles d))"

definition count_active :: "'p shop_db_scheme \<Rightarrow> nat" where
  "count_active d = length (filter bu_active (sd_bundles d))"

text \<open>The database refuses a negative offset.\<close>

definition find_all_paginated ::
  "int \<Rightarrow> int \<Rightarrow> bool \<Rightarrow> 'p shop_db_scheme \<Rightarrow> exn + token_bundle list \<times> int" where
  "find_all_paginated page per_page include_inactive d =
     (let rows = filter (\<lambda>b. include_inactive \<or> bu_active b) (sd_bundles d) in
      if (page - 1) * per_page < 0 then Inl (DatabaseError ''OFFSET must not be negative'')
      else Inr (slice per_page ((page - 1) * per_page) (by_sort_order rows), int (length rows)))"

definition put_bundle :: "token_bundle \<Rightarrow> 'p shop_db_scheme \<Rightarrow> 'p shop_db_scheme" where
  "put_bundle b d = d\<lparr>sd_bundles := upsert bu_id b (sd_bundles d)\<rparr>"

section \<open>The public routes\<close>

text \<open>
  What the price of a bundle depends on besides its row: the stored settings and the code of the
  default currency. A bundle has no display mode of its own.
\<close>

record price_env =
  pe_settings :: json_dict
  pe_currency :: string

definition bundle_taxes :: "'p shop_db_scheme \<Rightarrow> token_bundle \<Rightarrow> tax list" where
  "bundle_taxes d b = List.map_filter (tax_by_id d) (bu_taxes b)"

definition bundle_dict_with_price :: "price_env \<Rightarrow> 'p shop_db_scheme \<Rightarrow> token_bundle \<Rightarrow> exn + json_dict" where
  "bundle_dict_with_price env d b =
     (case price_of (pe_settings env) (pe_currency env) (bu_price b) (bundle_taxes d b) of
        Inl e \<Rightarrow> Inl e
      | Inr p \<Rightarrow> Inr (bundle_dict b @ [(''price_info'', JObj (build_pricing_block p))] @
          display_mode_fields (pe_settings env) None))"

fun sum_list_or :: "(exn + 'a) list \<Rightarrow> exn + 'a list" where
  "sum_list_or [] = Inr []"
| "sum_list_or (Inl e # xs) = Inl e"
| "sum_list_or (Inr x # xs) = (case sum_list_or xs of Inl e \<Rightarrow> Inl e | Inr ys \<Rightarrow> Inr (x # ys))"

definition bundle_list :: "price_env \<Rightarrow> 'p shop_db_scheme \<Rightarrow> exn + json" where
  "bundle_list env d =
     (case sum_list_or (map (bundle_dict_with_price env d) (find_active_bundles d)) of
        Inl e \<Rightarrow> Inl e
      | Inr rows \<Rightarrow> Inr (JObj [(''bundles'', JList (map JObj rows))]))"

definition produce_bundle_list :: "price_env \<Rightarrow> ('p shop_db_scheme session, json \<times> nat) prog" where
  "produce_bundle_list env =
     bindP (query (bundle_list env)) (\<lambda>r. bindP (of_sum r) (\<lambda>body. ret (body, 200)))"

definition token_bundles_prefix :: string where
  "token_bundles_prefix = ''token-bundles:''"

definition token_bundles_list_key :: string where
  "token_bundles_list_key = token_bundles_prefix @ ''list''"

type_synonym 'p cached_db = "('p shop_db_scheme session, cache_store) cached"
type_synonym 'p cached_view = "gctx \<Rightarrow> ('p cached_db, response) prog"

definition invalidate_token_bundle_cache :: "('p cached_db, unit) prog" where
  "invalidate_token_bundle_cache = to_cache (cache_delete_prefix token_bundles_prefix)"

definition list_active_bundles :: "codec \<Rightarrow> price_env \<Rightarrow> int \<Rightarrow> int \<Rightarrow> ('p cached_db, json \<times> nat) prog" where
  "list_active_bundles cd env now ttl =
     cached_response cd cache_get cache_set now token_bundles_list_key ttl (produce_bundle_list env)"

definition bundle_not_found :: response where
  "bundle_not_found = error_answer 404 ''Token bundle not found''"

text \<open>An identifier that is no UUID makes the lookup fail, which the public route answers like a miss.\<close>

definition public_bundle :: "driver \<Rightarrow> price_env \<Rightarrow> uuid \<Rightarrow> 'p shop_view" where
  "public_bundle drv env i g =
     bindP (try_except (seqP (db_call drv) (query (\<lambda>d. bundle_by_id d i))) (\<lambda>e. ret None)) (\<lambda>found.
       case found of
         None \<Rightarrow> ret bundle_not_found
       | Some b \<Rightarrow> bindP (query (\<lambda>d. bundle_dict_with_price env d b)) (\<lambda>r.
           bindP (of_sum r) (\<lambda>row. ret (answer 200 [(''bundle'', JObj row)]))))"

section \<open>Columns\<close>

text \<open>
  What the columns make of a value of the body: a text column takes numbers and booleans as text,
  an integer column rounds numbers and reads texts; \<open>None\<close> is refused. (A list, which the driver
  passes as an array, is refused here.)
\<close>

definition text_column :: "nat option \<Rightarrow> json \<Rightarrow> string option option" where
  "text_column bound v =
     (let fits = (\<lambda>s. case bound of None \<Rightarrow> True | Some n \<Rightarrow> length s \<le> n) in
      case v of
        JNull \<Rightarrow> Some None
      | JStr s \<Rightarrow> if fits s then Some (Some s) else None
      | JInt i \<Rightarrow> if fits (str_int i) then Some (Some (str_int i)) else None
      | JBool b \<Rightarrow> Some (Some (if b then ''true'' else ''false''))
      | JNum x \<Rightarrow> if fits (float_repr x) then Some (Some (float_repr x)) else None
      | _ \<Rightarrow> None)"

definition int4 :: "int \<Rightarrow> int option" where
  "int4 i = (if - (2 ^ 31) \<le> i \<and> i < 2 ^ 31 then Some i else None)"

fun int_column :: "json \<Rightarrow> int option option" where
  "int_column JNull = Some None"
| "int_column (JInt i) = map_option Some (int4 i)"
| "int_column (JNum x) = map_option Some (int4 (round_half_up x))"
| "int_column (JStr s) = (case int_of_str s of None \<Rightarrow> None | Some i \<Rightarrow> map_option Some (int4 i))"
| "int_column v = None"

text \<open>The row of a bundle with the values of its columns, when each is taken.\<close>

definition bundle_columns ::
  "json \<Rightarrow> json \<Rightarrow> int \<Rightarrow> json \<Rightarrow> json \<Rightarrow> token_bundle \<Rightarrow> token_bundle option" where
  "bundle_columns name description tokens active order b =
     (case (text_column (Some 255) name, text_column None description, int4 tokens, bool_column active, int_column order) of
        (Some (Some n), Some t, Some k, Some a, Some p) \<Rightarrow>
          Some (b\<lparr>bu_name := n, bu_description := t, bu_tokens := k, bu_active := a, bu_sort := p\<rparr>)
      | _ \<Rightarrow> None)"

text \<open>\<open>BaseRepository.save\<close>: the row is written and committed, and then read back.\<close>

definition save_bundle :: "driver \<Rightarrow> token_bundle option \<Rightarrow> ('p shop_db_scheme session, token_bundle) prog" where
  "save_bundle drv row =
     (case row of
        None \<Rightarrow> seqP (db_call drv) (raise (DatabaseError ''invalid column value''))
      | Some b \<Rightarrow> seqP (on_db (put_bundle b)) (seqP (save_commit drv) (seqP (db_call drv) (ret b))))"

section \<open>The admin routes\<close>

definition admin_list_bundles :: "int \<Rightarrow> int \<Rightarrow> string \<Rightarrow> 'p shop_view" where
  "admin_list_bundles page per_page include_inactive g =
     (let per_page = min (max per_page 1) 100 in
      bindP (query (find_all_paginated page per_page (str_lower include_inactive = ''true''))) (\<lambda>r.
      bindP (of_sum r) (\<lambda>(rows, count).
        ret (answer 200 [(''items'', JList (map (\<lambda>b. JObj (bundle_dict b)) rows)), (''total'', JInt count),
          (''page'', JInt page), (''per_page'', JInt per_page), (''pages'', JInt ((count + per_page - 1) div per_page))]))))"

definition bundle_answer :: "nat \<Rightarrow> token_bundle \<Rightarrow> string option \<Rightarrow> response" where
  "bundle_answer status b message =
     answer status ((''bundle'', JObj (bundle_dict b)) #
       (case message of None \<Rightarrow> [] | Some m \<Rightarrow> [(''message'', JStr m)]))"

text \<open>
  The amount and the price of a body. \<open>Inl\<close> is the answer 400; a price that is no decimal raises
  \<open>InvalidOperation\<close>, which neither branch catches.
\<close>

definition body_tokens :: "json \<Rightarrow> response + int" where
  "body_tokens v =
     (case int_of_json v of
        None \<Rightarrow> Inl (error_answer 400 ''Invalid token amount'')
      | Some k \<Rightarrow> if k \<le> 0 then Inl (error_answer 400 ''Token amount must be positive'') else Inr k)"

definition body_price :: "json \<Rightarrow> ('s, response + rat) prog" where
  "body_price v =
     (case decimal_of_json v of
        None \<Rightarrow> raise (OtherError ''InvalidOperation'')
      | Some x \<Rightarrow> ret (if x < 0 then Inl (error_answer 400 ''Price cannot be negative'') else Inr x))"

definition create_token_bundle :: "driver \<Rightarrow> uuid \<Rightarrow> json_dict \<Rightarrow> 'p cached_view" where
  "create_token_bundle drv fresh data g =
     (if \<not> jtrue (jget data ''name'') then ret (error_answer 400 ''Name is required'')
      else if \<not> has_key ''token_amount'' data then ret (error_answer 400 ''Token amount is required'')
      else if \<not> has_key ''price'' data then ret (error_answer 400 ''Price is required'')
      else case body_tokens (jget data ''token_amount'') of
          Inl a \<Rightarrow> ret a
        | Inr tokens \<Rightarrow> bindP (body_price (jget data ''price'')) (\<lambda>p.
            case p of
              Inl a \<Rightarrow> ret a
            | Inr price \<Rightarrow>
                try_except
                  (bindP (in_world (save_bundle drv (bundle_columns (jget data ''name'') (jget data ''description'')
                      tokens (jget_or data ''is_active'' (JBool True)) (jget_or data ''sort_order'' (JInt 0))
                      \<lparr>bu_id = fresh, bu_name = [], bu_description = None, bu_tokens = 0, bu_price = flt price,
                       bu_active = True, bu_sort = None, bu_taxes = []\<rparr>))) (\<lambda>b.
                   seqP invalidate_token_bundle_cache
                     (ret (bundle_answer 201 b (Some ''Token bundle created successfully'')))))
                  (\<lambda>e. ret (error_answer 400 (exn_str e)))))"

definition get_token_bundle :: "uuid \<Rightarrow> 'p shop_view" where
  "get_token_bundle i g =
     bindP (query (\<lambda>d. bundle_by_id d i)) (\<lambda>found.
       ret (case found of None \<Rightarrow> bundle_not_found | Some b \<Rightarrow> bundle_answer 200 b None))"

text \<open>
  The update writes each field on the row as it checks the next; what an early answer leaves on
  the session is gone with the request, so it is not written here.
\<close>

definition update_token_bundle :: "driver \<Rightarrow> uuid \<Rightarrow> json_dict \<Rightarrow> 'p cached_view" where
  "update_token_bundle drv i data g =
     bindP (in_world (query (\<lambda>d. bundle_by_id d i))) (\<lambda>found.
       case found of
         None \<Rightarrow> ret bundle_not_found
       | Some b0 \<Rightarrow>
           if has_key ''name'' data \<and> \<not> jtrue (jget data ''name'')
           then ret (error_answer 400 ''Name cannot be empty'')
           else case (if has_key ''token_amount'' data then body_tokens (jget data ''token_amount'') else Inr (bu_tokens b0)) of
               Inl a \<Rightarrow> ret a
             | Inr tokens \<Rightarrow>
                 bindP (if has_key ''price'' data then body_price (jget data ''price'') else ret (Inr (bu_price b0))) (\<lambda>p.
                 case p of
                   Inl a \<Rightarrow> ret a
                 | Inr price \<Rightarrow>
                     bindP (if \<not> has_key ''sort_order'' data then ret (int_json (bu_sort b0))
                            else case int_of_json (jget data ''sort_order'') of
                                None \<Rightarrow> raise (ValueError ''invalid literal for int()'')
                              | Some k \<Rightarrow> ret (JInt k)) (\<lambda>order.
                     bindP (in_world (save_bundle drv (bundle_columns (jget_or data ''name'' (JStr (bu_name b0)))
                         (jget_or data ''description'' (opt_json (bu_description b0))) tokens
                         (JBool (if has_key ''is_active'' data then jtrue (jget data ''is_active'') else bu_active b0)) order
                         (b0\<lparr>bu_price := (if has_key ''price'' data then flt price else price)\<rparr>)))) (\<lambda>b.
                     seqP invalidate_token_bundle_cache (ret (bundle_answer 200 b None))))))"

text \<open>\<open>purchases\<close> lists the rows of the purchase table.\<close>

type_synonym 'p purchase_rows = "'p shop_db_scheme \<Rightarrow> purchase list"

definition count_by_bundle :: "'p purchase_rows \<Rightarrow> 'p shop_db_scheme \<Rightarrow> uuid \<Rightarrow> nat" where
  "count_by_bundle purchases d i = length (filter (\<lambda>p. p_bundle p = i) (purchases d))"

definition drop_bundle :: "uuid \<Rightarrow> 'p shop_db_scheme \<Rightarrow> 'p shop_db_scheme" where
  "drop_bundle i d = d\<lparr>sd_bundles := remove_rows (\<lambda>b. bu_id b = i) (sd_bundles d)\<rparr>"

definition delete_token_bundle :: "driver \<Rightarrow> 'p purchase_rows \<Rightarrow> uuid \<Rightarrow> 'p cached_view" where
  "delete_token_bundle drv purchases i g =
     bindP (in_world (query (\<lambda>d. bundle_by_id d i))) (\<lambda>found.
       case found of
         None \<Rightarrow> ret bundle_not_found
       | Some b \<Rightarrow>
           bindP (in_world (query (\<lambda>d. count_by_bundle purchases d i))) (\<lambda>n.
           if 0 < n
           then ret (error_answer 400 ''Cannot delete a token bundle that has purchases. Deactivate it instead.'')
           else
             bindP (in_world (repo_delete drv (\<lambda>d i. bundle_by_id d i \<noteq> None) drop_bundle i)) (\<lambda>_.
             seqP invalidate_token_bundle_cache
               (ret (answer 200 [(''message'', JStr ''Token bundle deleted successfully'')])))))"

definition set_bundle_active :: "bool \<Rightarrow> string \<Rightarrow> driver \<Rightarrow> uuid \<Rightarrow> 'p cached_view" where
  "set_bundle_active active message drv i g =
     bindP (in_world (query (\<lambda>d. bundle_by_id d i))) (\<lambda>found.
       case found of
         None \<Rightarrow> ret bundle_not_found
       | Some b0 \<Rightarrow>
           bindP (in_world (save_bundle drv (Some (b0\<lparr>bu_active := active\<rparr>)))) (\<lambda>b.
           seqP invalidate_token_bundle_cache (ret (bundle_answer 200 b (Some message)))))"

definition activate_token_bundle_route :: "driver \<Rightarrow> uuid \<Rightarrow> 'p cached_view" where
  "activate_token_bundle_route = set_bundle_active True ''Token bundle activated''"

definition deactivate_token_bundle_route :: "driver \<Rightarrow> uuid \<Rightarrow> 'p cached_view" where
  "deactivate_token_bundle_route = set_bundle_active False ''Token bundle deactivated''"

section \<open>Histories of requests\<close>

text \<open>
  The requests on bundles, each with a session and a driver of its own; the cache stays with the
  process.
\<close>

datatype bundle_request =
    CreateBundle uuid json_dict
  | UpdateBundle uuid json_dict
  | DeleteBundle uuid
  | ActivateBundle uuid
  | DeactivateBundle uuid
  | ListBundles int int

fun serve_bundles ::
  "codec \<Rightarrow> price_env \<Rightarrow> 'p purchase_rows \<Rightarrow> driver \<Rightarrow> bundle_request \<Rightarrow> 'p cached_view" where
  "serve_bundles cd env purchases drv (CreateBundle fresh data) g = create_token_bundle drv fresh data g"
| "serve_bundles cd env purchases drv (UpdateBundle i data) g = update_token_bundle drv i data g"
| "serve_bundles cd env purchases drv (DeleteBundle i) g = delete_token_bundle drv purchases i g"
| "serve_bundles cd env purchases drv (ActivateBundle i) g = activate_token_bundle_route drv i g"
| "serve_bundles cd env purchases drv (DeactivateBundle i) g = deactivate_token_bundle_route drv i g"
| "serve_bundles cd env purchases drv (ListBundles now ttl) g =
     bindP (list_active_bundles cd env now ttl) (\<lambda>(body, status). ret (answer status [(''body'', body)]))"

definition serve_cached ::
  "('p cached_db, response) prog \<Rightarrow> 'p shop_db_scheme \<times> cache_store \<Rightarrow> 'p shop_db_scheme \<times> cache_store" where
  "serve_cached m s =
     (case m \<lparr>ca_world = open_session (fst s), ca_cache = snd s\<rparr> of
        (_, w) \<Rightarrow> (durable (ca_world w), ca_cache w))"

fun serve_history ::
  "codec \<Rightarrow> price_env \<Rightarrow> 'p purchase_rows \<Rightarrow> gctx \<Rightarrow> (driver \<times> bundle_request) list
     \<Rightarrow> 'p shop_db_scheme \<times> cache_store \<Rightarrow> 'p shop_db_scheme \<times> cache_store" where
  "serve_history cd env purchases g [] s = s"
| "serve_history cd env purchases g ((drv, r) # rs) s =
     serve_history cd env purchases g rs (serve_cached (serve_bundles cd env purchases drv r g) s)"

end
