(* ===== verification/BundleFlow.thy ===== *)
theory BundleFlow
  imports Bundles FileFlow
begin

text \<open>
  Properties of the token bundles: whatever administrators do and whatever fails, the public list
  read through the cache is the list the database holds, and a bundle that was sold stays.
\<close>

section \<open>The cache holds nothing but the current list\<close>

text \<open>A store whose calls succeed.\<close>

definition store_up :: "cache_store \<Rightarrow> bool" where
  "store_up c = (case c of Memory m \<Rightarrow> True | Redis r \<Rightarrow> (\<forall>n. rc_up r n))"

lemma store_up_works: "store_up c \<Longrightarrow> cache_works c"
  by (simp add: store_up_def cache_works_def split: cache_store.splits)

lemma store_up_ops:
  "store_up (cache_set now k v ttl c) = store_up c"
  "store_up (cache_delete_prefix p c) = store_up c"
  "cache_get now k c = (r, c') \<Longrightarrow> store_up c' = store_up c"
  by (auto simp: store_up_def cache_defs split: cache_store.splits option.splits if_splits)

definition list_current :: "codec \<Rightarrow> price_env \<Rightarrow> 'p shop_db_scheme \<Rightarrow> cache_store \<Rightarrow> bool" where
  "list_current cd env d c \<longleftrightarrow> store_up c \<and>
     (\<forall>v. cache_held c token_bundles_list_key = Some v \<longrightarrow>
       (\<exists>body. bundle_list env d = Inr body \<and> v = cd_dumps cd body))"

lemma list_current_fresh:
  "bundle_list env d = Inr body \<Longrightarrow>
   list_current cd env d c \<longleftrightarrow> store_up c \<and> process_cache.fresh token_bundles_list_key (cd_dumps cd body) c"
  by (auto simp: list_current_def process_cache.fresh_def)

lemma list_current_cleared: "store_up c \<Longrightarrow> list_current cd env d (cache_delete_prefix token_bundles_prefix c)"
  using process_cache.clear_prefix [OF store_up_works, of c token_bundles_prefix "''list''"]
  by (simp add: list_current_def store_up_ops token_bundles_list_key_def)

definition current_in :: "codec \<Rightarrow> price_env \<Rightarrow> 'p cached_db \<Rightarrow> bool" where
  "current_in cd env w \<longleftrightarrow> list_current cd env (durable (ca_world w)) (ca_cache w)"

lemma keeps_in_query [intro]: "keeps (current_in cd env) (in_world (query f))"
  by (auto simp: keeps_def current_in_def in_world_def)

lemma keeps_of_price [intro]: "keeps (current_in cd env) (body_price v)"
  by (auto simp: body_price_def split: option.split)

text \<open>
  A request begins with a session that has made no call. When it writes it ends with the
  clearing, unless the row was committed and could not be read back: the second call.
\<close>

definition reads_back :: "driver \<Rightarrow> bool" where
  "reads_back drv \<longleftrightarrow> drv 1 = None"

definition starts_in :: "codec \<Rightarrow> price_env \<Rightarrow> 'p cached_db \<Rightarrow> bool" where
  "starts_in cd env w \<longleftrightarrow> current_in cd env w \<and> calls (ca_world w) = 0"

definition ends_current :: "codec \<Rightarrow> price_env \<Rightarrow> ('p cached_db, 'a) prog \<Rightarrow> bool" where
  "ends_current cd env m \<longleftrightarrow> (\<forall>w. starts_in cd env w \<longrightarrow> current_in cd env (snd (m w)))"

lemma ends_ret: "ends_current cd env (ret x)"
  by (simp add: ends_current_def starts_in_def)

lemma ends_raise: "ends_current cd env (raise e)"
  by (simp add: ends_current_def starts_in_def)

lemma ends_bindP:
  fixes m :: "('p cached_db, 'a) prog"
  assumes "keeps (starts_in cd env) m" and "\<And>x. ends_current cd env (f x)"
  shows "ends_current cd env (bindP m f)"
  unfolding ends_current_def
proof (intro allI impI)
  fix w :: "'p cached_db" assume "starts_in cd env w"
  then have "starts_in cd env (snd (m w))" using assms(1) by (simp add: keeps_def)
  with assms(2) show "current_in cd env (snd (bindP m f w))"
    by (auto simp: ends_current_def starts_in_def bindP_def split: prod.split sum.split)
qed

lemma ends_try: "ends_current cd env m \<Longrightarrow> ends_current cd env (try_except m (\<lambda>e. ret (h e)))"
  by (auto simp: ends_current_def try_except_def split: prod.split sum.split)

lemma ends_if: "(c \<Longrightarrow> ends_current cd env m) \<Longrightarrow> (\<not> c \<Longrightarrow> ends_current cd env n) \<Longrightarrow> ends_current cd env (if c then m else n)"
  by simp

lemma ends_case_option:
  "(x = None \<Longrightarrow> ends_current cd env m) \<Longrightarrow> (\<And>y. x = Some y \<Longrightarrow> ends_current cd env (f y)) \<Longrightarrow>
   ends_current cd env (case x of None \<Rightarrow> m | Some y \<Rightarrow> f y)"
  by (simp split: option.split)

lemma ends_case_sum:
  "(\<And>a. x = Inl a \<Longrightarrow> ends_current cd env (f a)) \<Longrightarrow> (\<And>b. x = Inr b \<Longrightarrow> ends_current cd env (g b)) \<Longrightarrow>
   ends_current cd env (case x of Inl a \<Rightarrow> f a | Inr b \<Rightarrow> g b)"
  by (simp split: sum.split)

lemma starts_in_query: "keeps (starts_in cd env) (in_world (query f))"
  by (auto simp: keeps_def starts_in_def current_in_def in_world_def)

lemma starts_of_price: "keeps (starts_in cd env) (body_price v)"
  by (auto simp: body_price_def split: option.split)

lemma ends_bundle_write:
  fixes m :: "('p shop_db_scheme session, 'a) prog"
  assumes "\<And>s e s'. m s = (Inl e, s') \<Longrightarrow> calls s = 0 \<Longrightarrow> durable s' = durable s"
  shows "ends_current cd env (bindP (in_world m) (\<lambda>x. seqP invalidate_token_bundle_cache (ret (f x))))"
  unfolding ends_current_def
proof (intro allI impI)
  fix w :: "'p cached_db" assume "starts_in cd env w"
  then have w: "current_in cd env w" and zero: "calls (ca_world w) = 0" by (simp_all add: starts_in_def)
  obtain r s' where m: "m (ca_world w) = (r, s')" by fastforce
  show "current_in cd env (snd (bindP (in_world m) (\<lambda>x. seqP invalidate_token_bundle_cache (ret (f x))) w))"
  proof (cases r)
    case (Inl e)
    then have "durable s' = durable (ca_world w)" using assms m zero by simp
    with Inl m w show ?thesis by (simp add: in_world_def bindP_def current_in_def)
  next
    case (Inr x)
    with m w show ?thesis
      by (simp add: in_world_def bindP_def seqP_def invalidate_token_bundle_cache_def to_cache_def current_in_def
          list_current_cleared list_current_def [of cd env "durable (ca_world w)"])
  qed
qed

lemma save_bundle_fault:
  assumes "reads_back drv" and "save_bundle drv row s = (Inl e, s')" and "calls s = 0"
  shows "durable s' = durable s"
proof (cases row)
  case None
  with assms(2) show ?thesis
    by (auto simp: save_bundle_def seqP_def bindP_def db_call_def Let_def split: option.splits)
next
  case (Some b)
  show ?thesis
  proof (cases "drv 0")
    case None
    with Some assms show ?thesis
      by (simp add: save_bundle_def seqP_def bindP_def db_call_def reads_back_def)
  next
    case fault: (Some x)
    show ?thesis
    proof (cases "save_commit drv (s\<lparr>pending := put_bundle b (pending s)\<rparr>)")
      case (Pair r t)
      with Some assms(2,3) fault show ?thesis
        by (cases r) (auto simp: save_bundle_def seqP_def bindP_def save_commit_def try_except_def
            dest: save_commit_Inl_durable split: exn.splits)
    qed
  qed
qed

lemma repo_delete_fault: "repo_delete drv present remove i s = (Inl e, s') \<Longrightarrow> durable s' = durable s"
  by (cases "drv (calls s)") (auto simp: repo_delete_def seqP_def bindP_def split: if_splits)

lemma ends_save:
  "reads_back drv \<Longrightarrow>
   ends_current cd env (bindP (in_world (save_bundle drv row)) (\<lambda>x. seqP invalidate_token_bundle_cache (ret (f x))))"
  by (rule ends_bundle_write) (rule save_bundle_fault)

lemma ends_drop:
  "ends_current cd env (bindP (in_world (repo_delete drv present remove i)) (\<lambda>x. seqP invalidate_token_bundle_cache (ret (f x))))"
  by (rule ends_bundle_write) (rule repo_delete_fault)

lemmas ends_rules = ends_drop ends_if ends_case_option ends_case_sum ends_try ends_bindP ends_ret ends_raise
  starts_in_query starts_of_price

lemma ends_create: "reads_back drv \<Longrightarrow> ends_current cd env (create_token_bundle drv fresh data g)"
  unfolding create_token_bundle_def by (assumption | rule ends_save ends_rules)+

lemma ends_update: "reads_back drv \<Longrightarrow> ends_current cd env (update_token_bundle drv i data g)"
  unfolding update_token_bundle_def
  by (assumption | rule ends_save ends_rules keeps_if keeps_case_option keeps_ret keeps_raise)+

lemma ends_delete: "ends_current cd env (delete_token_bundle drv purchases i g)"
  unfolding delete_token_bundle_def by (rule ends_rules)+

lemma ends_active: "reads_back drv \<Longrightarrow> ends_current cd env (set_bundle_active active message drv i g)"
  unfolding set_bundle_active_def by (assumption | rule ends_save ends_rules)+

text \<open>Reading the list of an unchanged session.\<close>

lemma list_reads:
  assumes "list_current cd env d c"
  shows "\<exists>r w. list_active_bundles cd env now ttl \<lparr>ca_world = open_session d, ca_cache = c\<rparr> = (r, w) \<and>
    ca_world w = open_session d \<and> list_current cd env d (ca_cache w) \<and>
    (\<forall>body. bundle_list env d = Inr body \<longrightarrow> cd_loads cd (cd_dumps cd body) = Some body \<longrightarrow> r = Inr (body, 200))"
proof -
  obtain r c' where g: "cache_get now token_bundles_list_key c = (r, c')" by fastforce
  have c': "list_current cd env d c'"
    using assms process_cache.get_forgets [OF g] store_up_ops(3) [OF g] by (auto simp: list_current_def)
  show ?thesis
  proof (cases r)
    case (Some t)
    then obtain body where "bundle_list env d = Inr body" "t = cd_dumps cd body"
      using process_cache.get_held [of now token_bundles_list_key c t c'] g assms by (auto simp: list_current_def)
    with Some g c' show ?thesis
      by (cases "cd_loads cd t") (auto simp: list_active_bundles_def cached_response_def from_cache_def bindP_def)
  next
    case None
    show ?thesis
    proof (cases "bundle_list env d")
      case (Inl e)
      with None g c' show ?thesis
        by (auto simp: list_active_bundles_def cached_response_def from_cache_def bindP_def in_world_def
            produce_bundle_list_def open_session_def of_sum_def)
    next
      case (Inr body)
      have "list_current cd env d (cache_set now token_bundles_list_key (cd_dumps cd body) ttl c')"
        using c' by (simp add: list_current_fresh [OF Inr] store_up_ops process_cache.fresh_put)
      with Inr None g c' show ?thesis
        by (auto simp: list_active_bundles_def cached_response_def from_cache_def to_cache_def bindP_def seqP_def whenP_def
            in_world_def produce_bundle_list_def open_session_def of_sum_def)
    qed
  qed
qed

lemma ends_served:
  assumes "ends_current cd env m" and "list_current cd env (fst s) (snd s)"
  shows "list_current cd env (fst (serve_cached m s)) (snd (serve_cached m s))"
proof -
  let ?w = "\<lparr>ca_world = open_session (fst s), ca_cache = snd s\<rparr>"
  have "starts_in cd env ?w" using assms(2) by (simp add: starts_in_def current_in_def open_session_def)
  then have "current_in cd env (snd (m ?w))" using assms(1) by (simp add: ends_current_def)
  then show ?thesis by (cases "m ?w") (simp add: serve_cached_def current_in_def)
qed

lemma served_current:
  assumes "list_current cd env (fst s) (snd s)" and "reads_back drv"
  shows "list_current cd env (fst (serve_cached (serve_bundles cd env purchases drv r g) s))
    (snd (serve_cached (serve_bundles cd env purchases drv r g) s))"
proof (cases r)
  case (ListBundles now ttl)
  with list_reads [OF assms(1), of now ttl] show ?thesis
    by (auto simp: serve_cached_def bindP_def open_session_def split: sum.splits prod.splits)
qed (simp_all add: ends_served assms ends_create ends_update ends_delete ends_active
  activate_token_bundle_route_def deactivate_token_bundle_route_def)

lemma history_current:
  assumes "list_current cd env (fst s) (snd s)" and "list_all (\<lambda>(drv, _). reads_back drv) rs"
  shows "list_current cd env (fst (serve_history cd env purchases g rs s)) (snd (serve_history cd env purchases g rs s))"
  using assms
proof (induction rs arbitrary: s)
  case (Cons r rs)
  then show ?case by (cases r) (auto simp: served_current)
qed simp

text \<open>
  C26. The cached list of token bundles is current under the bundle routes. Starting with a
  cache that does not hold the list, after any history of the requests on bundles, public reads
  and admin creations, updates, deletions and switches, each with its own database faults, a public
  read answers exactly the active bundles that the database now holds, with their prices, whether it
  is answered from the cache or not. This needs: the calls of the cache succeed; no request fails
  when it reads back the row it has committed, for then the cache is not cleared; and nothing
  else has changed the bundles, or the settings and taxes that their prices depend on (the import of
  the data exchange writes bundles and does not clear the cache, nor do the routes on taxes).
\<close>

theorem public_bundles_current:
  assumes "store_up c" and "cache_held c token_bundles_list_key = None"
    and "list_all (\<lambda>(drv, _). drv 1 = None) requests"
    and "serve_history cd env purchases g requests (d, c) = (d', c')"
    and "bundle_list env d' = Inr body" and "cd_loads cd (cd_dumps cd body) = Some body"
  shows "fst (list_active_bundles cd env now ttl \<lparr>ca_world = open_session d', ca_cache = c'\<rparr>) = Inr (body, 200)"
proof -
  have "list_current cd env d' c'"
    using history_current [of cd env "(d, c)" requests purchases g] assms(1-4)
    by (simp add: list_current_def reads_back_def)
  from list_reads [OF this, of now ttl] show ?thesis using assms(5,6) by auto
qed

text \<open>One bundle on sale; its list is read, it is taken off sale, and the list is empty.\<close>

definition one_bundle :: shop_db where
  "one_bundle = empty_shop\<lparr>sd_bundles := [\<lparr>bu_id = ''b'', bu_name = ''Small'', bu_description = None,
     bu_tokens = 100, bu_price = 5, bu_active = True, bu_sort = None, bu_taxes = []\<rparr>]\<rparr>"

definition sale_ends :: "(driver \<times> bundle_request) list" where
  "sale_ends = [((\<lambda>_. None), ListBundles 0 60), ((\<lambda>_. None), DeactivateBundle ''b''), ((\<lambda>_. None), ListBundles 1 60)]"

lemma produce_reads: "snd (produce_bundle_list env s) = s"
  by (simp add: produce_bundle_list_def of_sum_def split: sum.split)

lemma keeps_from_cache: "keeps (\<lambda>w. P (ca_world w)) (from_cache f)"
  by (auto simp: keeps_def from_cache_def split: prod.split)

lemma keeps_to_cache: "keeps (\<lambda>w. P (ca_world w)) (to_cache f)"
  by (simp add: keeps_def to_cache_def)

lemma keeps_producing: "keeps (\<lambda>w. ca_world w = s) (in_world (produce_bundle_list env))"
  using produce_reads [of env s] by (auto simp: keeps_def in_world_def split: prod.split)

lemma list_keeps_world: "keeps (\<lambda>w. ca_world w = s) (list_active_bundles cd env now ttl)"
  unfolding list_active_bundles_def cached_response_def
  by (rule keeps_bindP keeps_case_option keeps_case_prod keeps_seqP keeps_when keeps_ret keeps_raise keeps_producing
      keeps_from_cache keeps_to_cache)+

lemma list_leaves_tables:
  "fst (serve_cached (serve_bundles cd env purchases drv (ListBundles now ttl) g) s) = fst s"
proof -
  let ?w = "\<lparr>ca_world = open_session (fst s), ca_cache = snd s\<rparr>"
  have "keeps (\<lambda>w. ca_world w = open_session (fst s)) (serve_bundles cd env purchases drv (ListBundles now ttl) g)"
    by (auto intro!: keeps_bindP list_keeps_world split: prod.split)
  then have "ca_world (snd (serve_bundles cd env purchases drv (ListBundles now ttl) g ?w)) = open_session (fst s)"
    by (simp add: keeps_def del: serve_bundles.simps)
  then show ?thesis
    by (cases "serve_bundles cd env purchases drv (ListBundles now ttl) g ?w")
      (simp add: serve_cached_def open_session_def del: serve_bundles.simps)
qed

lemma off_sale:
  assumes "bundle_by_id (fst s) i = Some b"
  shows "sd_bundles (fst (serve_cached (serve_bundles cd env purchases (\<lambda>_. None) (DeactivateBundle i) g) s)) =
    upsert bu_id (b\<lparr>bu_active := False\<rparr>) (sd_bundles (fst s))"
  using assms by (simp add: serve_cached_def deactivate_token_bundle_route_def set_bundle_active_def in_world_def bindP_def
      seqP_def open_session_def save_bundle_def db_call_def put_bundle_def invalidate_token_bundle_cache_def to_cache_def)

theorem public_bundles_current_witness:
  "fst (list_active_bundles demo_codec \<lparr>pe_settings = [], pe_currency = ''EUR''\<rparr> 2 60
      \<lparr>ca_world = open_session (fst (serve_history demo_codec \<lparr>pe_settings = [], pe_currency = ''EUR''\<rparr> (\<lambda>_. []) empty_g sale_ends
         (one_bundle, Memory (new_memory_cache True)))),
       ca_cache = snd (serve_history demo_codec \<lparr>pe_settings = [], pe_currency = ''EUR''\<rparr> (\<lambda>_. []) empty_g sale_ends
         (one_bundle, Memory (new_memory_cache True)))\<rparr>) = Inr (JObj [(''bundles'', JList [])], 200)"
proof (rule public_bundles_current [where c = "Memory (new_memory_cache True)" and d = one_bundle and purchases = "\<lambda>_. []"
      and g = empty_g and requests = sale_ends])
  let ?env = "\<lparr>pe_settings = [], pe_currency = ''EUR''\<rparr>"
  have "bundle_by_id one_bundle ''b'' = Some (sd_bundles one_bundle ! 0)"
    by (simp add: one_bundle_def bundle_by_id_def find_row_def)
  then have "sd_bundles (fst (serve_history demo_codec ?env (\<lambda>_. []) empty_g sale_ends (one_bundle, Memory (new_memory_cache True)))) =
      upsert bu_id ((sd_bundles one_bundle ! 0)\<lparr>bu_active := False\<rparr>) (sd_bundles one_bundle)"
    by (simp add: sale_ends_def list_leaves_tables off_sale del: serve_bundles.simps)
  then have "filter bu_active (sd_bundles (fst (serve_history demo_codec ?env (\<lambda>_. []) empty_g sale_ends
      (one_bundle, Memory (new_memory_cache True))))) = []"
    by (simp add: one_bundle_def upsert_def)
  then show "bundle_list ?env (fst (serve_history demo_codec ?env (\<lambda>_. []) empty_g sale_ends (one_bundle, Memory (new_memory_cache True)))) =
      Inr (JObj [(''bundles'', JList [])])"
    by (simp add: bundle_list_def find_active_bundles_def by_sort_order_def by_text_def)
qed (use demo_codec_ok in \<open>simp_all add: sale_ends_def store_up_def cache_held_def new_memory_cache_def json_codec_ok_def\<close>)

text \<open>
  A purchase keeps its bundle: when the rows of the purchase table are those \<open>purchases\<close> lists,
  no history of requests leaves a purchase without its bundle.
\<close>

definition bundles_backed :: "'p shop_db_scheme \<Rightarrow> bool" where
  "bundles_backed d \<longleftrightarrow> p_bundle ` ran (tbl_purchase d) \<subseteq> bu_id ` set (sd_bundles d)"

definition lists_purchases :: "'p purchase_rows \<Rightarrow> bool" where
  "lists_purchases purchases \<longleftrightarrow> (\<forall>d. set (purchases d) = ran (tbl_purchase d))"

abbreviation backed_in :: "'p cached_db \<Rightarrow> bool" where
  "backed_in w \<equiv> both bundles_backed (ca_world w)"

lemma keeps_world: "keeps P m \<Longrightarrow> keeps (\<lambda>w. P (ca_world w)) (in_world m)"
  by (auto simp: keeps_def in_world_def split: prod.split)

lemma bundles_backed_put: "bundles_backed d \<Longrightarrow> bundles_backed (put_bundle b d)"
proof -
  have "bu_id ` set (sd_bundles d) \<subseteq> set (map bu_id (upsert bu_id b (sd_bundles d)))" unfolding keys_upsert by auto
  then show "bundles_backed d \<Longrightarrow> bundles_backed (put_bundle b d)"
    unfolding bundles_backed_def put_bundle_def by simp
qed

lemma backed_save: "keeps backed_in (in_world (save_bundle drv row))"
proof (rule keeps_world)
  have "keeps (both bundles_backed) (db_call drv)"
    by (auto simp: keeps_def both_def db_call_def Let_def split: option.split)
  then show "keeps (both bundles_backed) (save_bundle drv row)"
    unfolding save_bundle_def
    by (cases row) (auto intro!: keeps_seqP both_on_db bundles_backed_put both_save_commit)
qed

lemma backed_query: "keeps backed_in (in_world (query f))"
  by (intro keeps_world both_query)

lemma backed_clear: "keeps backed_in invalidate_token_bundle_cache"
  unfolding invalidate_token_bundle_cache_def by (rule keeps_to_cache)

lemma backed_price: "keeps P (body_price v)"
  by (auto simp: body_price_def split: option.split)

lemmas keeps_backed = keeps_if keeps_case_option keeps_case_sum keeps_try keeps_bindP keeps_seqP keeps_ret keeps_raise
  backed_price backed_save backed_query backed_clear

lemma backed_clear_ret: "keeps backed_in (seqP invalidate_token_bundle_cache (ret a))"
  by (rule keeps_backed)+

lemma backed_create: "keeps backed_in (create_token_bundle drv fresh data g)"
  unfolding create_token_bundle_def by (rule keeps_backed)+

lemma backed_update: "keeps backed_in (update_token_bundle drv i data g)"
  unfolding update_token_bundle_def by (rule keeps_backed)+

lemma backed_active: "keeps backed_in (set_bundle_active active message drv i g)"
  unfolding set_bundle_active_def by (rule keeps_backed)+

lemma bundles_backed_drop:
  assumes "lists_purchases purchases" and "count_by_bundle purchases d i = 0" and "bundles_backed d"
  shows "bundles_backed (drop_bundle i d)"
proof -
  have "i \<notin> p_bundle ` ran (tbl_purchase d)"
    using assms(1,2) by (auto simp: lists_purchases_def count_by_bundle_def filter_empty_conv)
  moreover have "bu_id ` set (sd_bundles (drop_bundle i d)) = bu_id ` set (sd_bundles d) - {i}"
    by (auto simp: drop_bundle_def remove_rows_def)
  ultimately show ?thesis using assms(3) by (auto simp: bundles_backed_def drop_bundle_def)
qed

lemma backed_delete:
  assumes lists: "lists_purchases purchases"
  shows "keeps backed_in (delete_token_bundle drv purchases i g)"
proof (rule keepsI)
  fix w :: "'a cached_db"
  assume w: "backed_in w"
  let ?s = "ca_world w"
  let ?drop = "repo_delete drv (\<lambda>d i. bundle_by_id d i \<noteq> None) drop_bundle i"
  have rest: "backed_in (snd (bindP (in_world ?drop) (\<lambda>_. seqP invalidate_token_bundle_cache (ret a)) w))"
    if none: "count_by_bundle purchases (pending ?s) i = 0" for a :: response
  proof -
    obtain r s' where run: "?drop ?s = (r, s')" by fastforce
    have s': "both bundles_backed s'"
      using w bundles_backed_drop [OF lists none] run
      by (cases "drv (calls ?s)") (auto simp: repo_delete_def both_def seqP_def bindP_def split: if_splits)
    have "backed_in (snd (seqP invalidate_token_bundle_cache (ret a) (w\<lparr>ca_world := s'\<rparr>)))"
      using s' by (intro backed_clear_ret [unfolded keeps_def, rule_format]) simp
    with run s' show ?thesis by (cases r) (simp_all add: in_world_def bindP_def)
  qed
  show "backed_in (snd (delete_token_bundle drv purchases i g w))"
    using w rest by (simp add: delete_token_bundle_def bindP_def [of "in_world (query f)" for f] in_world_def [of "query f" for f]
        split: option.split)
qed

lemma purchases_keep_bundles:
  fixes s :: "'p shop_db_scheme \<times> cache_store"
  assumes "lists_purchases purchases" and "bundles_backed (fst s)"
  shows "bundles_backed (fst (serve_history cd env purchases g requests s))"
  using assms(2)
proof (induction requests arbitrary: s)
  case (Cons r rs)
  obtain drv q where r: "r = (drv, q)" by fastforce
  have served: "bundles_backed (fst (serve_cached m s))" if "keeps backed_in m" for m
    using keepsD [OF that, of "\<lparr>ca_world = open_session (fst s), ca_cache = snd s\<rparr>"] Cons.prems
    by (simp add: serve_cached_def both_def open_session_def split: prod.split)
  have "bundles_backed (fst (serve_cached (serve_bundles cd env purchases drv q g) s))"
  proof (cases q)
    case (ListBundles now ttl)
    with Cons.prems show ?thesis by (simp only: list_leaves_tables)
  qed (simp_all add: served backed_create backed_update backed_active backed_delete assms(1)
      activate_token_bundle_route_def deactivate_token_bundle_route_def)
  with Cons.IH show ?case by (simp add: r)
qed simp

end
