(* ===== verification/Spec2Isabelle.thy ===== *)
theory Spec2Isabelle
  imports Prelude Session Rows Rendering Enums Tables Tokens Events LineItems Sdk Invoices Payments
    PaymentFlow RefundFlow Webhooks WebhookFlow PluginStore Plugins PluginFlow
    Strings Patterns Json IpNet Accounts AccessControl AccessFlow Auth AuthFlow PasswordReset ResetFlow
    ApiKeys ApiKeyFlow UserGroups UserAdmin UserAdminFlow AccountFlow
    Rbac RbacFlow AccessRoutes AccessRouteFlow AccountOps
    Disk PathFlow Files FileFlow Settings SettingsFlow
    Decimals Pages InvoiceRender InvoiceRoutes InvoiceFlow
    Shop Taxes Pricing PriceFlow Currencies CurrencyFlow
    Countries CountryFlow Cache Bundles BundleFlow
begin

text \<open>
  A model of the core of the vbwd backend: the token economy, payments and refunds, events,
  webhooks, the plugin system, and the accounts (access control, authentication, password
  reset, API keys, user administration), with the properties that make them correct. File names
  below are relative to \<open>src/vbwd/\<close>.

  How the program is put together. A route asks a service; a service reads and writes rows
  through repositories on one SQLAlchemy session; what happened is announced on the event
  dispatcher and forwarded to the event bus, on which the outbound webhooks and the plugins
  listen. A payment provider (a plugin) raises a payment event; the handler of the event
  settles the invoice and hands each line item to the first registered line item handler
  that claims it; core's own handler credits, reverses and restores token bundles through
  the token service. The plugin manager decides which plugins are active at all.

  The effects. Every operation is a function from a state to an outcome (an exception or a
  value) and a state (\<open>Prelude\<close>): an exception leaves what was done before it. The database
  (\<open>Session\<close>) is a session with committed tables, pending tables, the events published and
  a counter of the calls made; a driver, a parameter of every operation, says which of the
  flushes and commits fail. A theorem about all drivers is therefore about every way the
  database can fail. Rows that are enumerated are lists (\<open>Rows\<close>), rows that are looked up
  are maps (\<open>Tables\<close>).

  The theories:
    \<^item> \<open>Prelude\<close>: exceptions, the monad, state predicates kept by programs, and the contract
      \<open>once_only\<close> of operations that take effect once.
    \<^item> \<open>Session\<close>: \<open>utils/transaction.py\<close>, \<open>repositories/base.py\<close>; soundness (what is pending
      and what is committed both satisfy a predicate), the contract \<open>atomic_scope\<close> and its
      instance, the \<open>transactional\<close> decorator.
    \<^item> \<open>Enums\<close>, \<open>Tables\<close>, \<open>Rendering\<close>: \<open>models/enums.py\<close> with the case-insensitive lookup,
      the billing tables, and the rendering of money, dates and JSON strings.
    \<^item> \<open>Tokens\<close>: \<open>services/token_service.py\<close>. The ledger invariant, exact effects of each
      operation, exactly-once completion, the clamped refund.
    \<^item> \<open>Events\<close>: the four dispatchers under \<open>events/\<close>. Isolation of failing handlers, the
      order of delivery.
    \<^item> \<open>LineItems\<close>: \<open>events/line_item_registry.py\<close> and \<open>handlers/core_line_item_handler.py\<close>.
      Each bundle operation is an instance of \<open>once_only\<close>.
    \<^item> \<open>Sdk\<close>: \<open>sdk/\<close>. Retries with back-off, idempotent replay, the mock adapter.
    \<^item> \<open>Invoices\<close>: \<open>models/invoice.py\<close>, \<open>services/invoice_service.py\<close>; the status machine.
    \<^item> \<open>Payments\<close> (definitions), \<open>PaymentFlow\<close>, \<open>RefundFlow\<close> (properties): the handlers of the
      payment events and the refund, restore and capture services.
    \<^item> \<open>Pages\<close>, \<open>InvoiceRender\<close>, \<open>InvoiceRoutes\<close> (definitions), \<open>InvoiceFlow\<close> (properties):
      \<open>utils/pagination.py\<close>, the dicts and the PDF context of an invoice, \<open>routes/invoices.py\<close>,
      \<open>routes/admin/invoices.py\<close> and \<open>pay_invoice\<close>. Who reads an invoice, what a duplicate shares with its source, what voiding and refunding reach.
    \<^item> \<open>Webhooks\<close> (definitions), \<open>WebhookFlow\<close> (properties): \<open>webhooks/\<close>.
    \<^item> \<open>PluginStore\<close>: the persisted manifest, as the instance of the contract
      \<open>plugin_config_store\<close> that the manager relies on.
    \<^item> \<open>Plugins\<close> (definitions), \<open>PluginFlow\<close> (properties): \<open>plugins/manager.py\<close>,
      \<open>plugins/dependency_resolver.py\<close> and what they use. The order of enabling is
      topological; every reachable table of plugins is closed under dependencies.

    \<^item> \<open>Strings\<close>, \<open>Patterns\<close>, \<open>Json\<close>, \<open>IpNet\<close>: what the accounts code uses of Python: string
      methods, the regular expressions of the code, JSON values, and \<open>ipaddress\<close>.
    \<^item> \<open>Accounts\<close>, \<open>AccessControl\<close> (definitions), \<open>AccessFlow\<close> (properties): \<open>models/user.py\<close>,
      \<open>models/role.py\<close>, \<open>services/rbac_service.py\<close>, \<open>services/user_access_level_service.py\<close>,
      \<open>services/user_permission_grant.py\<close>. The account tables extend the billing tables. The two
      permission tracks are instances of the contract \<open>permission_track\<close>.
    \<^item> \<open>Auth\<close>, \<open>AuthFlow\<close>: \<open>services/auth_service.py\<close>, \<open>middleware/auth.py\<close>; the guards of the
      routes against a reference, and what a login opens.
    \<^item> \<open>PasswordReset\<close>, \<open>ResetFlow\<close>: the reset tokens, from the route to the tables.
    \<^item> \<open>ApiKeys\<close>, \<open>ApiKeyFlow\<close>: \<open>services/api_key_service.py\<close> and its guard and routes.
    \<^item> \<open>UserGroups\<close>: \<open>services/user_group_service.py\<close>, \<open>services/user_group_membership.py\<close>.
    \<^item> \<open>UserAdmin\<close>, \<open>UserAdminFlow\<close>: \<open>services/user_service.py\<close>, \<open>routes/admin/users.py\<close>.
    \<^item> \<open>Rbac\<close>, \<open>RbacFlow\<close>: \<open>services/permission_catalog.py\<close>, \<open>services/rbac_seeder.py\<close>; the
      seeder only adds, and a second run changes nothing. Each table it writes is ordered by a
      relation of growth, an instance of the contract \<open>table_order\<close>.
    \<^item> \<open>AccessRoutes\<close>, \<open>AccessRouteFlow\<close>: \<open>routes/admin/access.py\<close>, written once over the
      contract \<open>row_store\<close> that the two tables meet.
    \<^item> \<open>AccountFlow\<close>, \<open>AccountOps\<close>: the account tables over any history of these services.

    \<^item> \<open>Disk\<close>, \<open>PathFlow\<close>: files, directories and symbolic links as the system calls of the
      file services see them; the walk along a path resolves its links.
    \<^item> \<open>Files\<close>, \<open>FileFlow\<close>: \<open>services/filesystem/\<close>, \<open>interfaces/file_storage.py\<close>; confinement,
      isolation of plugins, writes that are never torn. Both managers are instances of the
      contract \<open>text_files\<close>.
    \<^item> \<open>Settings\<close>, \<open>SettingsFlow\<close>: \<open>services/core_settings_store.py\<close>,
      \<open>services/core_rate_limits_store.py\<close>; what is saved is read back and always valid.

    \<^item> \<open>Decimals\<close>: the arithmetic of \<open>decimal.Decimal\<close> (28 digits), of binary floats (53 bits) and
      of \<open>Numeric\<close> columns, as rounding of rationals, with bounds of the errors.
    \<^item> \<open>Shop\<close>: the tables of taxes, currencies, countries and token bundles.
    \<^item> \<open>Taxes\<close>, \<open>Pricing\<close> (definitions), \<open>PriceFlow\<close> (properties): \<open>models/tax.py\<close>,
      \<open>services/tax_service.py\<close>, \<open>routes/admin/tax.py\<close>, \<open>pricing/\<close>; how far the parts of a price are
      from the price, and a net amount extracted from the gross one it gave.
    \<^item> \<open>Currencies\<close>, \<open>CurrencyFlow\<close>: \<open>models/currency.py\<close>, \<open>services/currency_service.py\<close> and their
      routes. The active set is in the settings file and the catalogue in the database; the file is
      an instance of the contract \<open>settings_source\<close>, over which the two are shown to agree.
    \<^item> \<open>Countries\<close>, \<open>CountryFlow\<close>: \<open>models/country.py\<close>, its repository and routes,
      \<open>services/country_io.py\<close>, \<open>services/country_seeder.py\<close>; export and import are inverse.
    \<^item> \<open>Cache\<close>: \<open>services/cache/\<close>. The stores are an instance of the contract \<open>cache_contract\<close>.
    \<^item> \<open>Bundles\<close>, \<open>BundleFlow\<close>: \<open>models/token_bundle.py\<close>, \<open>routes/token_bundles.py\<close>,
      \<open>routes/admin/token_bundles.py\<close>; the public list read through the cache is never out of date.

  Bounds. The only recursion that is not structural is the passes of the dependency
  resolver, whose termination is proved (each pass that continues takes a plugin). The retry
  loop of the SDK recurses on the number of retries left, the read of a manifest on the five
  attempts of the code; no fuel is used anywhere.

  Parameters. Code outside the repository and code of plugins is an argument: line item
  handlers, event handlers, hooks, the HMAC, the HTTP transport, the \<open>packaging\<close> library,
  the clock and the identifiers drawn for new rows.

  Where the code gives less than its comments say, a theorem states what it does: a lost
  token activation (\<open>LineItems\<close>), a late authorization and a capture reported as paid
  (\<open>RefundFlow\<close>), a drain that raises (\<open>WebhookFlow\<close>), a disable that misses dependents and a
  boot that stops at a malformed dependency (\<open>PluginFlow\<close>), a permission that amounts to all and
  a creation refused half-way (\<open>UserAdminFlow\<close>), a revocation that widens (\<open>AccessFlow\<close>), a reset
  token left open (\<open>ResetFlow\<close>).

  Not modelled: the HTTP routes and schemas but those of the accounts, invoices and catalogue, data exchange, licence keys, logging, e-mail, PDF and push
  services, the command line and the migrations. Log lines are left out everywhere. Queries
  do not fail in the model, only flushes and commits do; concurrent sessions are not
  modelled, except as deliveries in sessions of their own, one after the other.
\<close>

end
